(* ===== verification/Prelude.thy ===== *)
theory Prelude
  imports Complex_Main "HOL-Library.AList" "HOL-Library.Sublist"
begin

text \<open>
  The prelude of the development: what the web client's code uses of the JavaScript language
  and its standard library, and the generic lemmas the component theories share.

  \<^item> Strings are lists of \<^typ>\<open>char\<close>, one per UTF-16 code unit below 256 (Latin-1). On that
    range \<open>trim\<close>, \<open>toLowerCase\<close> and the regular-expression classes are written out exactly; the
    toast store, whose code names code units above that range, uses \<open>16 word\<close> lists instead.
  \<^item> A \<open>Set\<close> is the list of its elements in insertion order, a \<open>Map\<close> an association list in
    insertion order (\<open>AList.update\<close> is \<open>Map.prototype.set\<close>, \<open>map_of\<close> is \<open>get\<close>).
  \<^item> \<open>Array.prototype.sort\<close> is a stable sort for every consistent comparator, which fixes its
    result; the locale \<open>js_comparator\<close> states the contract a comparator has to meet and derives
    what a caller may rely on.
\<close>

named_theorems str_simps \<open>facts about the string operations\<close>
named_theorems store_simps \<open>what a read of the local storage returns after a write\<close>
named_theorems page_defs \<open>the handlers of a page, unfolded\<close>

section \<open>Options, \<open>??\<close> and \<open>||\<close>\<close>

text \<open>The operator \<open>a ?? b\<close>: \<^const>\<open>None\<close> stands for both \<open>undefined\<close> and \<open>null\<close>.\<close>

definition nullish :: "'a option \<Rightarrow> 'a \<Rightarrow> 'a" where
  "nullish a b = (case a of None \<Rightarrow> b | Some x \<Rightarrow> x)"

lemma nullish_simps [simp]: "nullish None b = b" "nullish (Some a) b = a"
  by (simp_all add: nullish_def)

text \<open>The operator \<open>a || b\<close> on strings: the empty string is falsy.\<close>

definition or_str :: "string \<Rightarrow> string \<Rightarrow> string" where
  "or_str a b = (if a = [] then b else a)"

lemma or_str_simps [simp]: "or_str [] b = b" "or_str (c # cs) b = c # cs"
  by (simp_all add: or_str_def)

section \<open>Strings\<close>

definition is_space :: "char \<Rightarrow> bool" where
  "is_space c \<longleftrightarrow> (of_char c :: nat) \<in> {9, 10, 11, 12, 13, 32, 160}"

definition is_digit :: "char \<Rightarrow> bool" where
  "is_digit c \<longleftrightarrow> 48 \<le> (of_char c :: nat) \<and> (of_char c :: nat) \<le> 57"

definition is_upper :: "char \<Rightarrow> bool" where
  "is_upper c \<longleftrightarrow> 65 \<le> (of_char c :: nat) \<and> (of_char c :: nat) \<le> 90"

definition is_lower :: "char \<Rightarrow> bool" where
  "is_lower c \<longleftrightarrow> 97 \<le> (of_char c :: nat) \<and> (of_char c :: nat) \<le> 122"

definition is_alpha :: "char \<Rightarrow> bool" where
  "is_alpha c \<longleftrightarrow> is_upper c \<or> is_lower c"

text \<open>\<open>toLowerCase\<close> on one Latin-1 code unit: \<open>A-Z\<close>, and \<open>C0-DE\<close> but the multiplication sign.\<close>

definition lower_char :: "char \<Rightarrow> char" where
  "lower_char c =
     (let n = (of_char c :: nat) in
      if 65 \<le> n \<and> n \<le> 90 \<or> 192 \<le> n \<and> n \<le> 222 \<and> n \<noteq> 215 then char_of (n + 32) else c)"

definition to_lower :: "string \<Rightarrow> string" where
  "to_lower s = map lower_char s"

definition trim_start :: "string \<Rightarrow> string" where
  "trim_start s = dropWhile is_space s"

definition trim :: "string \<Rightarrow> string" where
  "trim s = rev (dropWhile is_space (rev (dropWhile is_space s)))"

fun str_includes :: "string \<Rightarrow> string \<Rightarrow> bool" where
  "str_includes [] q \<longleftrightarrow> q = []"
| "str_includes (c # cs) q \<longleftrightarrow> prefix q (c # cs) \<or> str_includes cs q"

fun split_on :: "char \<Rightarrow> string \<Rightarrow> string list" where
  "split_on d [] = [[]]"
| "split_on d (c # cs) =
     (if c = d then [] # split_on d cs
      else case split_on d cs of [] \<Rightarrow> [[c]] | w # ws \<Rightarrow> (c # w) # ws)"

fun join :: "string \<Rightarrow> string list \<Rightarrow> string" where
  "join sep [] = []"
| "join sep [s] = s"
| "join sep (s # t # ss) = s @ sep @ join sep (t # ss)"

text \<open>\<open>s.replace(/\\s+/g, r)\<close>: every maximal run of white space becomes \<open>r\<close>.\<close>

fun squash_spaces :: "string \<Rightarrow> string \<Rightarrow> string" where
  "squash_spaces r [] = []"
| "squash_spaces r [c] = (if is_space c then r else [c])"
| "squash_spaces r (c # d # ds) =
     (if \<not> is_space c then c # squash_spaces r (d # ds)
      else if is_space d then squash_spaces r (d # ds)
      else r @ squash_spaces r (d # ds))"

text \<open>\<open>s.slice(-n)\<close> for a positive \<open>n\<close>.\<close>

definition slice_last :: "nat \<Rightarrow> 'a list \<Rightarrow> 'a list" where
  "slice_last n s = drop (length s - n) s"

lemma of_char_lower_char:
  "(of_char (lower_char c) :: nat) =
     (let n = of_char c in
      if 65 \<le> n \<and> n \<le> 90 \<or> 192 \<le> n \<and> n \<le> 222 \<and> n \<noteq> 215 then n + 32 else n)"
  by (auto simp: lower_char_def Let_def)

lemma lower_char_idem [simp]: "lower_char (lower_char c) = lower_char c"
proof -
  have "(of_char (lower_char (lower_char c)) :: nat) = of_char (lower_char c)"
    by (auto simp: of_char_lower_char Let_def)
  then show ?thesis by simp
qed

lemma is_space_lower_char [simp]: "is_space (lower_char c) = is_space c"
  by (auto simp: is_space_def of_char_lower_char Let_def)

lemma to_lower_idem [simp]: "to_lower (to_lower s) = to_lower s"
  by (simp add: to_lower_def)

lemma to_lower_Nil_iff [simp]: "to_lower s = [] \<longleftrightarrow> s = []"
  by (simp add: to_lower_def)

lemma length_to_lower [simp]: "length (to_lower s) = length s"
  by (simp add: to_lower_def)

lemma dropWhile_to_lower: "dropWhile is_space (map lower_char s) = map lower_char (dropWhile is_space s)"
  by (induction s) auto

lemma trim_to_lower [str_simps]: "trim (to_lower s) = to_lower (trim s)"
  by (simp add: trim_def to_lower_def dropWhile_to_lower rev_map)

lemma dropWhile_idem_hd: "s \<noteq> [] \<Longrightarrow> \<not> p (hd s) \<Longrightarrow> dropWhile p s = s"
  by (cases s) auto

lemma dropWhile_rev_dropWhile:
  "dropWhile p (rev (dropWhile p (rev (dropWhile p s)))) = rev (dropWhile p (rev (dropWhile p s)))"
proof (cases "rev (dropWhile p (rev (dropWhile p s))) = []")
  case True
  show ?thesis unfolding True by simp
next
  case False
  let ?t = "dropWhile p s"
  have ne: "?t \<noteq> []" using False by (metis dropWhile.simps(1) rev.simps(1))
  have "\<not> p (hd ?t)" using ne by (rule hd_dropWhile)
  obtain ys where ys: "rev ?t = ys @ dropWhile p (rev ?t)"
    using takeWhile_dropWhile_id [of p "rev ?t"] by metis
  then have "?t = rev (dropWhile p (rev ?t)) @ rev ys"
    by (metis rev_append rev_rev_ident)
  then have "hd (rev (dropWhile p (rev ?t))) = hd ?t"
    using False by (metis hd_append2)
  then show ?thesis using False \<open>\<not> p (hd ?t)\<close> by (simp add: dropWhile_idem_hd)
qed

lemma trim_idem [simp]: "trim (trim s) = trim s"
  unfolding trim_def by (simp add: dropWhile_rev_dropWhile)

lemma set_trim: "set (trim s) \<subseteq> set s"
  by (auto simp: trim_def dest!: set_dropWhileD)

lemma length_trim: "length (trim s) \<le> length s"
  by (metis trim_def length_dropWhile_le length_rev order_trans)

lemma split_on_nonempty [simp]: "split_on d s \<noteq> []"
  by (cases s) (auto split: list.splits)

lemma join_split_on: "join [d] (split_on d s) = s"
proof (induction s)
  case Nil
  then show ?case by simp
next
  case (Cons c cs)
  then show ?case
    by (cases "split_on d cs"; cases "tl (split_on d cs)") auto
qed

lemma split_on_fields: "w \<in> set (split_on d s) \<Longrightarrow> d \<notin> set w"
  by (induction s arbitrary: w) (auto split: if_splits list.splits)

section \<open>Sets and maps in insertion order\<close>

definition jset_add :: "'a \<Rightarrow> 'a list \<Rightarrow> 'a list" where
  "jset_add x s = (if x \<in> set s then s else s @ [x])"

definition jset_delete :: "'a \<Rightarrow> 'a list \<Rightarrow> 'a list" where
  "jset_delete x s = filter (\<lambda>y. y \<noteq> x) s"

text \<open>\<open>new Set(xs)\<close>, and \<open>for (const x of xs) s.add(x)\<close> from a set that is already there.\<close>

definition jset_add_all :: "'a list \<Rightarrow> 'a list \<Rightarrow> 'a list" where
  "jset_add_all xs s = fold jset_add xs s"

definition jset_of :: "'a list \<Rightarrow> 'a list" where
  "jset_of xs = jset_add_all xs []"

definition jset_delete_all :: "'a list \<Rightarrow> 'a list \<Rightarrow> 'a list" where
  "jset_delete_all xs s = fold jset_delete xs s"

lemma set_jset_add [simp]: "set (jset_add x s) = insert x (set s)"
  by (auto simp: jset_add_def)

lemma distinct_jset_add [simp]: "distinct (jset_add x s) = distinct s"
  by (auto simp: jset_add_def)

lemma set_jset_delete [simp]: "set (jset_delete x s) = set s - {x}"
  by (auto simp: jset_delete_def)

lemma distinct_jset_delete: "distinct s \<Longrightarrow> distinct (jset_delete x s)"
  by (simp add: jset_delete_def)

lemma jset_delete_absent [simp]: "x \<notin> set s \<Longrightarrow> jset_delete x s = s"
  by (auto simp: jset_delete_def filter_id_conv)

lemma jset_add_all_simps [simp]:
  "jset_add_all [] s = s" "jset_add_all (x # xs) s = jset_add_all xs (jset_add x s)"
  by (simp_all add: jset_add_all_def)

lemma set_jset_add_all [simp]: "set (jset_add_all xs s) = set xs \<union> set s"
  by (induction xs arbitrary: s) auto

lemma distinct_jset_add_all [simp]: "distinct (jset_add_all xs s) = distinct s"
  by (induction xs arbitrary: s) auto

lemma set_jset_of [simp]: "set (jset_of xs) = set xs"
  by (simp add: jset_of_def)

lemma distinct_jset_of [simp]: "distinct (jset_of xs)"
  by (simp add: jset_of_def)

lemma jset_delete_all_simps [simp]:
  "jset_delete_all [] s = s" "jset_delete_all (x # xs) s = jset_delete_all xs (jset_delete x s)"
  by (simp_all add: jset_delete_all_def)

lemma set_jset_delete_all [simp]: "set (jset_delete_all xs s) = set s - set xs"
  by (induction xs arbitrary: s) auto

lemma distinct_jset_delete_all: "distinct s \<Longrightarrow> distinct (jset_delete_all xs s)"
  by (induction xs arbitrary: s) (auto simp: distinct_jset_delete)

lemma jset_delete_all_filter: "jset_delete_all xs s = filter (\<lambda>y. y \<notin> set xs) s"
  by (induction xs arbitrary: s) (auto simp: jset_delete_def intro!: filter_cong)

lemma jset_add_all_absorb: "set xs \<subseteq> set s \<Longrightarrow> jset_add_all xs s = s"
  by (induction xs arbitrary: s) (auto simp: jset_add_def)

lemma jset_add_all_fresh: "distinct xs \<Longrightarrow> set xs \<inter> set s = {} \<Longrightarrow> jset_add_all xs s = s @ xs"
  by (induction xs arbitrary: s) (auto simp: jset_add_def)

lemma jset_of_distinct: "distinct xs \<Longrightarrow> jset_of xs = xs"
  by (simp add: jset_of_def jset_add_all_fresh)

lemma length_filter_less_iff: "length (filter p xs) < length xs \<longleftrightarrow> (\<exists>x\<in>set xs. \<not> p x)"
  by (metis filter_id_conv le_neq_implies_less length_filter_le length_filter_less less_irrefl)

lemma length_filter_eq_iff: "length (filter p xs) = length xs \<longleftrightarrow> (\<forall>x\<in>set xs. p x)"
  using length_filter_less_iff [of p xs] length_filter_le [of p xs] by auto

lemma length_filter_mono: "(\<And>x. P x \<Longrightarrow> Q x) \<Longrightarrow> length (filter P xs) \<le> length (filter Q xs)"
  by (induction xs) auto

lemma length_filter_disjoint:
  "(\<And>x. P x \<Longrightarrow> \<not> Q x) \<Longrightarrow> length (filter P xs) + length (filter Q xs) \<le> length xs"
  by (induction xs) auto

end
