(* ===== verification/Numbers.thy ===== *)
theory Numbers
  imports Prelude
begin

text \<open>
  JavaScript numbers. A \<open>jsnum\<close> is a NaN, an infinity or a finite value, kept as the exact rational
  it denotes; \<open>dbl\<close> rounds an exact result to the nearest double (ties to even, overflow to
  infinity) and \<open>flt32\<close> to the nearest single, as \<open>Float32Array\<close> does on a store. The sign of zero
  is not kept: no code modelled here observes it. The conversions are those the language fixes:
  \<open>Number(s)\<close>, \<open>parseInt(s, 10)\<close>, \<open>String(n)\<close>, \<open>toFixed\<close>, \<open>Math.floor\<close> and \<open>Math.round\<close>.
\<close>

datatype jsnum = NaN | PInf | NInf | Fin rat

definition is_finite :: "jsnum \<Rightarrow> bool" where
  "is_finite v \<longleftrightarrow> (case v of Fin _ \<Rightarrow> True | _ \<Rightarrow> False)"

lemma is_finite_simps [simp]:
  "is_finite NaN = False" "is_finite PInf = False" "is_finite NInf = False" "is_finite (Fin x) = True"
  by (simp_all add: is_finite_def)

text \<open>\<open>a < b\<close> and \<open>a > b\<close>: false as soon as one side is NaN.\<close>

fun num_less :: "jsnum \<Rightarrow> jsnum \<Rightarrow> bool" where
  "num_less NaN _ = False"
| "num_less _ NaN = False"
| "num_less (Fin x) (Fin y) = (x < y)"
| "num_less NInf b = (b \<noteq> NInf)"
| "num_less a PInf = (a \<noteq> PInf)"
| "num_less _ _ = False"

definition num_truthy :: "jsnum \<Rightarrow> bool" where
  "num_truthy v \<longleftrightarrow> v \<noteq> NaN \<and> v \<noteq> Fin 0"

section \<open>Rounding to a binary floating-point format\<close>

fun bitlen :: "nat \<Rightarrow> nat" where
  "bitlen n = (if n = 0 then 0 else Suc (bitlen (n div 2)))"

declare bitlen.simps [simp del]

definition pow2 :: "int \<Rightarrow> rat" where
  "pow2 k = (if 0 \<le> k then 2 ^ nat k else 1 / 2 ^ nat (- k))"

definition ilog2 :: "rat \<Rightarrow> int" where
  "ilog2 x =
     (let (p, q) = quotient_of x; e = int (bitlen (nat p)) - int (bitlen (nat q))
      in if pow2 e \<le> x then e else e - 1)"

definition half_even :: "rat \<Rightarrow> int" where
  "half_even x =
     (let f = floor x; d = x - of_int f
      in if d < 1 / 2 then f else if 1 / 2 < d then f + 1 else if even f then f else f + 1)"

definition round_float :: "int \<Rightarrow> int \<Rightarrow> int \<Rightarrow> rat \<Rightarrow> jsnum" where
  "round_float prec emin emax x =
     (if x = 0 then Fin 0
      else let a = \<bar>x\<bar>; k = max (ilog2 a) emin - (prec - 1);
               r = of_int (half_even (a / pow2 k)) * pow2 k
           in if pow2 (emax + 1) \<le> r then (if 0 < x then PInf else NInf) else Fin (sgn x * r))"

definition dbl :: "rat \<Rightarrow> jsnum" where
  "dbl x = round_float 53 (-1022) 1023 x"

definition flt32 :: "rat \<Rightarrow> jsnum" where
  "flt32 x = round_float 24 (-126) 127 x"

lemma bitlen_bounds: "0 < n \<Longrightarrow> 2 ^ (bitlen n - 1) \<le> n \<and> n < 2 ^ bitlen n"
proof (induction n rule: bitlen.induct)
  case (1 n)
  have step: "bitlen n = Suc (bitlen (n div 2))" using 1 by (subst bitlen.simps) simp
  show ?case
  proof (cases "n div 2 = 0")
    case True
    then have "n = 1" using 1 by auto
    then show ?thesis by (simp add: bitlen.simps)
  next
    case False
    then have IH: "2 ^ (bitlen (n div 2) - 1) \<le> n div 2 \<and> n div 2 < 2 ^ bitlen (n div 2)"
      using 1 by simp
    have pos: "0 < bitlen (n div 2)" using False by (subst bitlen.simps) simp
    have "(2::nat) ^ bitlen (n div 2) = 2 * 2 ^ (bitlen (n div 2) - 1)"
      using pos by (cases "bitlen (n div 2)") simp_all
    then have "2 ^ bitlen (n div 2) \<le> n \<and> n < 2 * 2 ^ bitlen (n div 2)"
      using IH by arith
    then show ?thesis unfolding step by simp
  qed
qed

lemma bitlen_le: "0 < n \<Longrightarrow> n < 2 ^ k \<Longrightarrow> bitlen n \<le> k"
proof (rule ccontr)
  assume n: "0 < n" "n < 2 ^ k" and "\<not> bitlen n \<le> k"
  then have "k \<le> bitlen n - 1" by simp
  then have "(2::nat) ^ k \<le> 2 ^ (bitlen n - 1)" by (simp add: power_increasing)
  then show False using bitlen_bounds [OF n(1)] n(2) by linarith
qed

lemma half_even_int [simp]: "half_even (of_int n) = n"
  by (simp add: half_even_def)

lemma pow2_pos [simp]: "0 < pow2 k"
  by (simp add: pow2_def)

lemma pow2_neg: "0 \<le> k \<Longrightarrow> pow2 (- k) = 1 / 2 ^ nat k"
  by (auto simp: pow2_def)

lemma ilog2_int:
  assumes "0 < n"
  shows "ilog2 (of_int n) = int (bitlen (nat n)) - 1"
proof -
  let ?b = "bitlen (nat n)"
  have b: "2 ^ (?b - 1) \<le> nat n" "nat n < 2 ^ ?b"
    using bitlen_bounds [of "nat n"] assms by auto
  then have b0: "0 < ?b" using assms by (cases ?b) auto
  have one: "bitlen (Suc 0) = 1" by (simp add: bitlen.simps)
  have "(2::int) ^ (?b - 1) \<le> n"
    using b(1) assms by (metis int_nat_eq less_imp_le of_nat_le_iff of_nat_numeral of_nat_power)
  then have "pow2 (int ?b - 1) \<le> of_int n"
    using b0 by (simp add: pow2_def nat_diff_distrib')
  then show ?thesis by (simp add: ilog2_def one Let_def)
qed

text \<open>Every integer up to \<open>2 ^ 53\<close> in size is a double.\<close>

lemma dbl_pos_int:
  assumes "0 < n" and "n < 2 ^ 53"
  shows "dbl (of_int n) = Fin (of_int n)"
proof -
  let ?b = "bitlen (nat n)"
  have b: "?b \<le> 53" using assms by (intro bitlen_le) (auto simp: nat_less_iff)
  have b0: "0 < ?b" using assms by (subst bitlen.simps) simp
  let ?m = "nat (53 - int ?b)"
  have k: "max (ilog2 (of_int n)) (-1022) - (53 - 1) = - (53 - int ?b)"
    using b0 assms by (simp add: ilog2_int)
  have scale: "pow2 (- (53 - int ?b)) = 1 / 2 ^ ?m"
    using b by (intro pow2_neg) simp
  have "of_int n / (1 / 2 ^ ?m) = (of_int (n * 2 ^ ?m) :: rat)" by simp
  then have he: "half_even (of_int n / pow2 (- (53 - int ?b))) = n * 2 ^ ?m"
    unfolding scale by (metis half_even_int)
  have "(2::int) ^ 53 \<le> 2 ^ 1024" by (rule power_increasing) auto
  then have "n < 2 ^ 1024" using assms(2) by linarith
  then have "of_int n < (2::rat) ^ 1024"
    by (metis of_int_less_iff of_int_numeral of_int_power)
  then have big: "\<not> pow2 1024 \<le> of_int n" by (simp add: pow2_def not_le)
  have abs: "\<bar>of_int n\<bar> = (of_int n :: rat)" using assms by simp
  have r: "of_int (n * 2 ^ ?m) * pow2 (- (53 - int ?b)) = (of_int n :: rat)"
    unfolding scale by simp
  have emax: "(1023::int) + 1 = 1024" by simp
  show ?thesis
    unfolding dbl_def round_float_def Let_def abs k he r emax using assms(1) big by simp
qed

lemma dbl_minus: "dbl (- x) = (case dbl x of PInf \<Rightarrow> NInf | NInf \<Rightarrow> PInf | Fin y \<Rightarrow> Fin (- y) | NaN \<Rightarrow> NaN)"
  by (simp add: dbl_def round_float_def Let_def)

lemma dbl_int: "\<bar>n\<bar> < 2 ^ 53 \<Longrightarrow> dbl (of_int n) = Fin (of_int n)"
proof -
  assume a: "\<bar>n\<bar> < 2 ^ 53"
  consider "n = 0" | "0 < n" | "n < 0" by linarith
  then show ?thesis
  proof cases
    case 1
    then show ?thesis by (simp add: dbl_def round_float_def)
  next
    case 2
    then show ?thesis using a by (simp add: dbl_pos_int)
  next
    case 3
    then have "dbl (of_int (- n)) = Fin (of_int (- n))" using a by (intro dbl_pos_int) auto
    then show ?thesis using dbl_minus [of "of_int (- n)"] by simp
  qed
qed

lemma dbl_not_NaN [simp]: "dbl x \<noteq> NaN"
  by (simp add: dbl_def round_float_def Let_def)


section \<open>From strings to numbers\<close>

definition digit_val :: "char \<Rightarrow> nat" where
  "digit_val c = of_char c - 48"

definition dec_nat :: "string \<Rightarrow> nat" where
  "dec_nat ds = foldl (\<lambda>n c. 10 * n + digit_val c) 0 ds"

definition sign_of :: "string \<Rightarrow> rat \<times> string" where
  "sign_of s =
     (case s of [] \<Rightarrow> (1, [])
      | c # cs \<Rightarrow> if c = CHR ''-'' then (-1, cs) else if c = CHR ''+'' then (1, cs) else (1, s))"

definition pow10 :: "int \<Rightarrow> rat" where
  "pow10 k = (if 0 \<le> k then 10 ^ nat k else 1 / 10 ^ nat (- k))"

text \<open>\<open>StrUnsignedDecimalLiteral\<close> without \<open>Infinity\<close>: digits, an optional fraction, an optional exponent.\<close>

definition unsigned_decimal :: "string \<Rightarrow> rat option" where
  "unsigned_decimal s =
     (let ip = takeWhile is_digit s; r1 = dropWhile is_digit s;
          dot = (case r1 of c # cs \<Rightarrow> c = CHR ''.'' | [] \<Rightarrow> False);
          fp = (if dot then takeWhile is_digit (tl r1) else []);
          r2 = (if dot then dropWhile is_digit (tl r1) else r1);
          m = of_nat (dec_nat (ip @ fp)) * pow10 (- int (length fp))
      in if ip @ fp = [] then None
         else case r2 of [] \<Rightarrow> Some m
              | c # r3 \<Rightarrow>
                  if c = CHR ''e'' \<or> c = CHR ''E'' then
                    (let (sg, ds) = sign_of r3
                     in if ds = [] \<or> \<not> list_all is_digit ds then None
                        else Some (m * pow10 (floor sg * int (dec_nat ds))))
                  else None)"

definition radix_digit :: "nat \<Rightarrow> char \<Rightarrow> nat option" where
  "radix_digit b c =
     (let v = (if is_digit c then digit_val c
               else if is_lower c then of_char c - 87
               else if is_upper c then of_char c - 55 else 36)
      in if v < b then Some v else None)"

fun radix_nat :: "nat \<Rightarrow> nat \<Rightarrow> string \<Rightarrow> nat option" where
  "radix_nat b acc [] = Some acc"
| "radix_nat b acc (c # cs) =
     (case radix_digit b c of None \<Rightarrow> None | Some v \<Rightarrow> radix_nat b (b * acc + v) cs)"

definition radix_prefix :: "string \<Rightarrow> (nat \<times> string) option" where
  "radix_prefix s =
     (case s of c # d # ds \<Rightarrow>
        (if c = CHR ''0'' then
           (if lower_char d = CHR ''x'' then Some (16, ds)
            else if lower_char d = CHR ''o'' then Some (8, ds)
            else if lower_char d = CHR ''b'' then Some (2, ds) else None)
         else None)
      | _ \<Rightarrow> None)"

text \<open>\<open>Number(s)\<close>: the whole trimmed string has to be a literal; the empty string is 0.\<close>

definition string_to_number :: "string \<Rightarrow> jsnum" where
  "string_to_number raw =
     (let s = trim raw in
      if s = [] then Fin 0
      else case radix_prefix s of
        Some (b, ds) \<Rightarrow>
          (if ds = [] then NaN
           else case radix_nat b 0 ds of None \<Rightarrow> NaN | Some n \<Rightarrow> dbl (of_nat n))
      | None \<Rightarrow>
          (let (sg, r) = sign_of s in
           if r = ''Infinity'' then (if sg < 0 then NInf else PInf)
           else case unsigned_decimal r of None \<Rightarrow> NaN | Some v \<Rightarrow> dbl (sg * v)))"

text \<open>\<open>parseInt(s, 10)\<close>: the longest run of digits after the sign; what follows is ignored.\<close>

definition parse_int :: "string \<Rightarrow> jsnum" where
  "parse_int raw =
     (let (sg, r) = sign_of (trim_start raw); ds = takeWhile is_digit r
      in if ds = [] then NaN else dbl (sg * of_nat (dec_nat ds)))"

section \<open>From numbers to strings\<close>

definition digit_char :: "nat \<Rightarrow> char" where
  "digit_char d = char_of (48 + d)"

fun nat_digits :: "nat \<Rightarrow> string" where
  "nat_digits n = (if n < 10 then [digit_char n] else nat_digits (n div 10) @ [digit_char (n mod 10)])"

declare nat_digits.simps [simp del]

definition int_to_string :: "int \<Rightarrow> string" where
  "int_to_string i = (if i < 0 then CHR ''-'' # nat_digits (nat (- i)) else nat_digits (nat i))"

lemma of_char_digit_char: "d < 10 \<Longrightarrow> (of_char (digit_char d) :: nat) = 48 + d"
  by (simp add: digit_char_def)

lemma is_digit_digit_char [simp]: "d < 10 \<Longrightarrow> is_digit (digit_char d)"
  by (simp add: is_digit_def of_char_digit_char)

lemma digit_val_digit_char [simp]: "d < 10 \<Longrightarrow> digit_val (digit_char d) = d"
  by (simp add: digit_val_def of_char_digit_char)

lemma nat_digits_are_digits: "c \<in> set (nat_digits n) \<Longrightarrow> is_digit c"
proof (induction n rule: nat_digits.induct)
  case (1 n)
  then show ?case
    by (cases "n < 10") (auto simp: nat_digits.simps [of n])
qed

lemma nat_digits_nonempty [simp]: "nat_digits n \<noteq> []"
  by (subst nat_digits.simps) simp

lemma dec_nat_snoc: "dec_nat (ds @ [c]) = 10 * dec_nat ds + digit_val c"
  by (simp add: dec_nat_def)

lemma dec_nat_digits [simp]: "dec_nat (nat_digits n) = n"
proof (induction n rule: nat_digits.induct)
  case (1 n)
  then show ?case
    by (cases "n < 10") (auto simp: nat_digits.simps [of n] dec_nat_snoc, simp add: dec_nat_def)
qed

lemma digit_not_space: "is_digit c \<Longrightarrow> \<not> is_space c"
  by (auto simp: is_digit_def is_space_def)

lemma digit_not_sign: "is_digit c \<Longrightarrow> c \<noteq> CHR ''-'' \<and> c \<noteq> CHR ''+''"
  by (auto simp: is_digit_def)

text \<open>A printed number reads back: \<open>parseInt(String(n), 10) === n\<close>.\<close>

lemma parse_int_nat_digits: "n < 2 ^ 53 \<Longrightarrow> parse_int (nat_digits n) = Fin (of_nat n)"
proof -
  assume n: "n < 2 ^ 53"
  obtain c cs where s: "nat_digits n = c # cs" by (cases "nat_digits n") auto
  have dig: "\<forall>d\<in>set (c # cs). is_digit d" using nat_digits_are_digits [of _ n] by (simp add: s)
  have t: "trim_start (c # cs) = c # cs" using dig digit_not_space by (simp add: trim_start_def)
  have g: "sign_of (c # cs) = (1, c # cs)" using dig digit_not_sign by (auto simp: sign_of_def)
  have w: "takeWhile is_digit (c # cs) = c # cs" using dig by (simp add: takeWhile_eq_all_conv)
  have v: "dec_nat (c # cs) = n" using dec_nat_digits [of n] by (simp add: s)
  have "dbl (of_int (int n)) = Fin (of_int (int n))" using n by (intro dbl_int) simp
  then show ?thesis unfolding parse_int_def s t g Let_def prod.case w v by simp
qed

section \<open>Rounding to integers and fixed digits\<close>

definition math_floor :: "rat \<Rightarrow> int" where
  "math_floor x = floor x"

definition math_round :: "rat \<Rightarrow> int" where
  "math_round x = floor (x + 1 / 2)"

text \<open>\<open>x.toFixed(d)\<close> for \<open>|x| < 10 ^ 21\<close>: the nearest multiple, the larger of two in size.\<close>

definition to_fixed :: "rat \<Rightarrow> nat \<Rightarrow> string" where
  "to_fixed x d =
     (let n = nat (floor (\<bar>x\<bar> * 10 ^ d + 1 / 2)); ip = nat_digits (n div 10 ^ d);
          fp = nat_digits (n mod 10 ^ d);
          body = (if d = 0 then ip else ip @ ''.'' @ replicate (d - length fp) (CHR ''0'') @ fp)
      in if x < 0 then CHR ''-'' # body else body)"

end
