(* ===== verification/Browser.thy ===== *)
theory Browser
  imports Numbers
begin

text \<open>
  What the client's code sees of its host: JSON values, the \<open>localStorage\<close>, the events it
  dispatches on \<open>window\<close>, and the outcome of a \<open>fetch\<close>.

  A stored text is kept as what the reading code makes of it. The keys that are read as plain text
  (the API key, the two cursors) live in \<open>texts\<close>; the keys that are only ever read through
  \<open>JSON.parse\<close> live in \<open>docs\<close>, as \<open>Unparsable\<close> when \<open>JSON.parse\<close> throws on the text (the empty text
  included) and as \<open>Doc v\<close> when it gives \<open>v\<close>. The type of a document is a parameter: most modules
  keep \<^emph>\<open>json\<close> values, the match history keeps its typed records. Writing \<open>JSON.stringify(v)\<close> and
  reading it back gives \<open>json_norm v\<close>: JSON has no NaN and no infinity, they are written as \<open>null\<close>.
\<close>

section \<open>JSON values\<close>

datatype json =
    JNull
  | JBool bool
  | JNum jsnum
  | JStr string
  | JArr "json list"
  | JObj "(string \<times> json) list"

text \<open>\<open>Boolean(v)\<close>; \<^const>\<open>None\<close> is \<open>undefined\<close>.\<close>

fun truthy :: "json option \<Rightarrow> bool" where
  "truthy None = False"
| "truthy (Some JNull) = False"
| "truthy (Some (JBool b)) = b"
| "truthy (Some (JNum n)) = num_truthy n"
| "truthy (Some (JStr s)) = (s \<noteq> [])"
| "truthy (Some (JArr _)) = True"
| "truthy (Some (JObj _)) = True"

text \<open>\<open>v.k\<close> for a value that is not \<open>null\<close>: only objects carry the names the code reads.\<close>

fun field :: "json \<Rightarrow> string \<Rightarrow> json option" where
  "field (JObj fs) k = map_of fs k"
| "field _ k = None"

text \<open>\<open>v && typeof v === "object"\<close>.\<close>

fun is_object :: "json option \<Rightarrow> bool" where
  "is_object (Some (JArr _)) = True"
| "is_object (Some (JObj _)) = True"
| "is_object _ = False"

fun json_norm :: "json \<Rightarrow> json" where
  "json_norm (JNum n) = (if is_finite n then JNum n else JNull)"
| "json_norm (JArr vs) = JArr (map json_norm vs)"
| "json_norm (JObj fs) = JObj (map (\<lambda>(k, v). (k, json_norm v)) fs)"
| "json_norm v = v"

lemma json_norm_idem [simp]: "json_norm (json_norm v) = json_norm v"
  by (induction v rule: json_norm.induct) auto

section \<open>The browser\<close>

datatype 'v doc = Unparsable | Doc 'v

datatype storage_error = SecurityError | QuotaExceeded

record 'v browser =
  ssr :: bool                               \<comment> \<open>\<open>typeof window === "undefined"\<close>\<close>
  enabled :: bool                           \<comment> \<open>\<open>localStorage\<close> may be touched\<close>
  fits :: "string \<Rightarrow> 'v \<Rightarrow> bool"            \<comment> \<open>the quota admits this value under this key\<close>
  text_fits :: "string \<Rightarrow> string \<Rightarrow> bool"   \<comment> \<open>the same for a plain text\<close>
  texts :: "string \<Rightarrow> string option"
  docs :: "string \<Rightarrow> 'v doc option"
  events :: "string list"                   \<comment> \<open>events dispatched on \<open>window\<close>, latest last\<close>

definition get_doc :: "string \<Rightarrow> 'v browser \<Rightarrow> storage_error + 'v doc option" where
  "get_doc k b = (if enabled b then Inr (docs b k) else Inl SecurityError)"

definition set_doc :: "string \<Rightarrow> 'v \<Rightarrow> 'v browser \<Rightarrow> storage_error + 'v browser" where
  "set_doc k v b =
     (if \<not> enabled b then Inl SecurityError
      else if \<not> fits b k v then Inl QuotaExceeded
      else Inr (b\<lparr>docs := (docs b)(k \<mapsto> Doc v)\<rparr>))"

text \<open>\<open>localStorage.setItem(k, JSON.stringify(v))\<close> for a JSON value.\<close>

definition put_json :: "string \<Rightarrow> json \<Rightarrow> json browser \<Rightarrow> storage_error + json browser" where
  "put_json k v b = set_doc k (json_norm v) b"

definition remove_doc :: "string \<Rightarrow> 'v browser \<Rightarrow> storage_error + 'v browser" where
  "remove_doc k b =
     (if enabled b then Inr (b\<lparr>docs := (docs b)(k := None)\<rparr>) else Inl SecurityError)"

definition get_text :: "string \<Rightarrow> 'v browser \<Rightarrow> storage_error + string option" where
  "get_text k b = (if enabled b then Inr (texts b k) else Inl SecurityError)"

definition set_text :: "string \<Rightarrow> string \<Rightarrow> 'v browser \<Rightarrow> storage_error + 'v browser" where
  "set_text k s b =
     (if \<not> enabled b then Inl SecurityError
      else if \<not> text_fits b k s then Inl QuotaExceeded
      else Inr (b\<lparr>texts := (texts b)(k \<mapsto> s)\<rparr>))"

definition remove_text :: "string \<Rightarrow> 'v browser \<Rightarrow> storage_error + 'v browser" where
  "remove_text k b =
     (if enabled b then Inr (b\<lparr>texts := (texts b)(k := None)\<rparr>) else Inl SecurityError)"

definition dispatch :: "string \<Rightarrow> 'v browser \<Rightarrow> 'v browser" where
  "dispatch e b = b\<lparr>events := events b @ [e]\<rparr>"

text \<open>\<open>try { op } catch {}\<close>: on an exception the state is the one before the call.\<close>

definition try_or :: "'v browser \<Rightarrow> storage_error + 'v browser \<Rightarrow> 'v browser" where
  "try_or b r = (case r of Inl _ \<Rightarrow> b | Inr b' \<Rightarrow> b')"

lemma try_or_simps [simp]: "try_or b (Inl e) = b" "try_or b (Inr b') = b'"
  by (simp_all add: try_or_def)

text \<open>A browser window with everything enabled, for closed examples.\<close>

definition open_browser :: "(string \<Rightarrow> string option) \<Rightarrow> (string \<Rightarrow> 'v doc option) \<Rightarrow> 'v browser" where
  "open_browser ts ds =
     \<lparr>ssr = False, enabled = True, fits = (\<lambda>_ _. True), text_fits = (\<lambda>_ _. True),
      texts = ts, docs = ds, events = []\<rparr>"

definition writable :: "string \<Rightarrow> 'v \<Rightarrow> 'v browser \<Rightarrow> bool" where
  "writable k v b \<longleftrightarrow> enabled b \<and> fits b k v"

lemma set_doc_writable [store_simps]:
  "writable k v b \<Longrightarrow> set_doc k v b = Inr (b\<lparr>docs := (docs b)(k \<mapsto> Doc v)\<rparr>)"
  by (simp add: set_doc_def writable_def)

lemma set_doc_not_writable [store_simps]: "\<not> writable k v b \<Longrightarrow> \<exists>e. set_doc k v b = Inl e"
  by (auto simp: set_doc_def writable_def)

lemma get_set_doc [store_simps]:
  "set_doc k v b = Inr b' \<Longrightarrow>
   get_doc j b' = (if j = k then Inr (Some (Doc v)) else get_doc j b)"
  by (auto simp: set_doc_def get_doc_def split: if_splits)

lemma get_doc_dispatch [simp]: "get_doc k (dispatch e b) = get_doc k b"
  by (simp add: get_doc_def dispatch_def)

lemma dispatch_simps [simp]:
  "ssr (dispatch e b) = ssr b" "enabled (dispatch e b) = enabled b" "fits (dispatch e b) = fits b"
  "text_fits (dispatch e b) = text_fits b"
  "texts (dispatch e b) = texts b" "docs (dispatch e b) = docs b"
  "events (dispatch e b) = events b @ [e]"
  by (simp_all add: dispatch_def)

lemma set_doc_frame:
  "set_doc k v b = Inr b' \<Longrightarrow>
   ssr b' = ssr b \<and> enabled b' = enabled b \<and> fits b' = fits b \<and> text_fits b' = text_fits b \<and> texts b' = texts b \<and> events b' = events b"
  by (auto simp: set_doc_def split: if_splits)

section \<open>The contract of a persisted value\<close>

text \<open>
  Several modules keep one value under one key: they read it back at every operation and write the
  changed value. The contract: a write that the browser admits is what the next read returns, and a
  write that is not admitted changes nothing a read sees.
\<close>

locale persisted =
  fixes load :: "'v browser \<Rightarrow> 'a"
    and save :: "'a \<Rightarrow> 'v browser \<Rightarrow> 'v browser"
    and admits :: "'a \<Rightarrow> 'v browser \<Rightarrow> bool"
    and valid :: "'a \<Rightarrow> bool"
  assumes load_valid: "valid (load b)"
    and load_save: "valid v \<Longrightarrow> admits v b \<Longrightarrow> load (save v b) = v"
    and save_refused: "\<not> admits v b \<Longrightarrow> load (save v b) = load b"
    and admits_save: "admits w (save v b) = admits w b"
begin

lemma last_save_wins: "valid v \<Longrightarrow> admits v b \<Longrightarrow> load (save v (save w b)) = v"
  by (simp add: load_save admits_save)

lemma modify:
  "(\<And>v. valid v \<Longrightarrow> valid (f v)) \<Longrightarrow> load (save (f (load b)) b) =
     (if admits (f (load b)) b then f (load b) else load b)"
  by (simp add: load_save load_valid save_refused)

lemma modify_keeps:
  assumes "\<And>v. valid v \<Longrightarrow> valid (f v)" and "\<And>v. P v \<Longrightarrow> P (f v)" and "P (load b)"
  shows "P (load (save (f (load b)) b))"
  using assms by (simp add: modify)

lemma modify_twice:
  assumes f: "\<And>v. valid v \<Longrightarrow> valid (f v)" and idem: "\<And>v. f (f v) = f v"
  shows "load (save (f (load (save (f (load b)) b))) (save (f (load b)) b)) = load (save (f (load b)) b)"
  by (cases "admits (f (load b)) b") (simp_all add: f idem load_save load_valid save_refused admits_save)

end

section \<open>The network\<close>

text \<open>
  \<open>fetch\<close> rejects with an error whose message is given, or resolves to a response; the body is what
  the handler reads from it. A body that \<open>r.json()\<close> cannot read is \<^const>\<open>None\<close>.
\<close>

record response =
  status :: nat
  status_text :: string
  body_text :: string
  body_json :: "json option"

datatype outcome = Rejected string | Resolved response

definition resp_ok :: "response \<Rightarrow> bool" where
  "resp_ok r \<longleftrightarrow> 200 \<le> status r \<and> status r \<le> 299"

record request =
  req_method :: string
  req_path :: string
  req_headers :: "(string \<times> string) list"
  req_payload :: "json option"

text \<open>
  What a \<open>Headers\<close> object makes of a value: white space of HTTP at both ends goes, and a value with a
  NUL, a carriage return or a line feed inside makes \<open>set\<close> throw.
\<close>

definition http_space :: "char \<Rightarrow> bool" where
  "http_space c \<longleftrightarrow> (of_char c :: nat) \<in> {9, 10, 13, 32}"

definition header_value :: "string \<Rightarrow> string" where
  "header_value v = rev (dropWhile http_space (rev (dropWhile http_space v)))"

definition header_value_ok :: "string \<Rightarrow> bool" where
  "header_value_ok v \<longleftrightarrow> list_all (\<lambda>c. (of_char c :: nat) \<notin> {0, 10, 13}) (header_value v)"

end
