(* ===== verification/ApiKey.thy ===== *)
theory ApiKey
  imports Browser
begin

text \<open>
  \<open>web/lib/apiKey.ts\<close>, \<open>web/lib/activity.ts\<close> and \<open>web/lib/api.ts\<close>: the API key kept in the browser,
  the patch of \<open>fetch\<close> that attaches it, the mask shown in its place, the activity cursor, and the
  two ways the client reads a response. Where a request goes is read off its address by a definition of
  its own, after the URL Standard.
\<close>

section \<open>The stored key\<close>

definition STORAGE_KEY :: string where "STORAGE_KEY = ''clawhum.apiKey.v1''"
definition API_KEY_EVENT :: string where "API_KEY_EVENT = ''clawhum:apiKey''"

definition getApiKey :: "'v browser \<Rightarrow> string" where
  "getApiKey b =
     (if ssr b then []
      else case get_text STORAGE_KEY b of Inl _ \<Rightarrow> [] | Inr v \<Rightarrow> or_str (nullish v []) [])"

definition setApiKey :: "string \<Rightarrow> 'v browser \<Rightarrow> 'v browser" where
  "setApiKey k b =
     (if ssr b then b
      else case (if k \<noteq> [] then set_text STORAGE_KEY k b else remove_text STORAGE_KEY b) of
             Inl _ \<Rightarrow> b
           | Inr b' \<Rightarrow> dispatch API_KEY_EVENT b')"

text \<open>The hook \<open>useApiKey\<close>: it reads the key when it is mounted and at every event it listens to.\<close>

record key_hook =
  hook_key :: string
  listening :: bool

definition useApiKey_init :: key_hook where
  "useApiKey_init = \<lparr>hook_key = [], listening = False\<rparr>"

definition useApiKey_mount :: "'v browser \<Rightarrow> key_hook \<Rightarrow> key_hook" where
  "useApiKey_mount b h = h\<lparr>hook_key := getApiKey b, listening := True\<rparr>"

definition useApiKey_onChange :: "'v browser \<Rightarrow> key_hook \<Rightarrow> key_hook" where
  "useApiKey_onChange b h = (if listening h then h\<lparr>hook_key := getApiKey b\<rparr> else h)"

definition useApiKey_unmount :: "key_hook \<Rightarrow> key_hook" where
  "useApiKey_unmount h = h\<lparr>listening := False\<rparr>"

section \<open>The patch of \<open>fetch\<close>\<close>

text \<open>Header names compare without case; \<open>headers_set\<close> replaces a header of the same name.\<close>

type_synonym headers = "(string \<times> string) list"

definition headers_has :: "string \<Rightarrow> headers \<Rightarrow> bool" where
  "headers_has n hs \<longleftrightarrow> to_lower n \<in> set (map (to_lower \<circ> fst) hs)"

definition headers_get :: "string \<Rightarrow> headers \<Rightarrow> string option" where
  "headers_get n hs = map_of (map (\<lambda>(k, v). (to_lower k, v)) hs) (to_lower n)"

definition headers_set :: "string \<Rightarrow> string \<Rightarrow> headers \<Rightarrow> headers" where
  "headers_set n v hs = filter (\<lambda>(k, _). to_lower k \<noteq> to_lower n) hs @ [(n, v)]"

datatype fetch_input = StrInput string | UrlInput string | ReqInput string headers

fun input_url :: "fetch_input \<Rightarrow> string" where
  "input_url (StrInput u) = u"
| "input_url (UrlInput u) = u"
| "input_url (ReqInput u _) = u"

fun input_headers :: "fetch_input \<Rightarrow> headers option" where
  "input_headers (ReqInput _ hs) = Some hs"
| "input_headers _ = None"

definition isLocal :: "string \<Rightarrow> string \<Rightarrow> bool" where
  "isLocal origin url \<longleftrightarrow> prefix ''/api/'' url \<or> prefix (origin @ ''/api/'') url"

text \<open>
  The headers the patched \<open>fetch\<close> hands to the original one. \<^const>\<open>None\<close> for \<open>init\<close> is an \<open>init\<close>
  that is missing or carries no headers; then the request keeps its own. The headers of the caller are
  those of a \<open>Headers\<close> object (with others the original \<open>fetch\<close> itself refuses the call); when \<open>set\<close>
  throws on the key, the \<open>catch\<close> falls through to the call as it was.
\<close>

definition fetch_headers :: "string \<Rightarrow> 'v browser \<Rightarrow> fetch_input \<Rightarrow> headers option \<Rightarrow> headers option" where
  "fetch_headers origin b input init =
     (if isLocal origin (input_url input) then
        (let key = getApiKey b in
         if key \<noteq> [] then
           (let hs = (case init of Some hs \<Rightarrow> hs | None \<Rightarrow> nullish (input_headers input) [])
            in if headers_has ''X-API-Key'' hs then Some hs
               else if header_value_ok key then Some (headers_set ''X-API-Key'' (header_value key) hs)
               else init)
         else init)
      else init)"

text \<open>The module keeps a flag, so a second call of \<open>installApiKeyFetch\<close> wraps nothing.\<close>

record fetch_patch =
  installed :: bool
  wrappers :: nat

definition installApiKeyFetch :: "'v browser \<Rightarrow> fetch_patch \<Rightarrow> fetch_patch" where
  "installApiKeyFetch b p =
     (if installed p \<or> ssr b then p else p\<lparr>installed := True, wrappers := Suc (wrappers p)\<rparr>)"

definition maskKey :: "string \<Rightarrow> string" where
  "maskKey key =
     (if key = [] then []
      else if length key \<le> 4 then replicate (length key) (CHR ''*'')
      else replicate (max 4 (length key - 4)) (CHR ''*'') @ slice_last 4 key)"

section \<open>The activity cursor\<close>

definition ACTIVITY_LAST_SEEN_KEY :: string where
  "ACTIVITY_LAST_SEEN_KEY = ''clawhum.activity.lastSeen.v1''"

definition getLastSeen :: "'v browser \<Rightarrow> jsnum" where
  "getLastSeen b =
     (if ssr b then Fin 0
      else case get_text ACTIVITY_LAST_SEEN_KEY b of
             Inl _ \<Rightarrow> Fin 0
           | Inr v \<Rightarrow> string_to_number (or_str (nullish v []) ''0''))"

section \<open>Reading a response\<close>

text \<open>\<open>jsonFetch\<close> throws on a status out of the 2xx range, and when the body is no JSON.\<close>

definition http_error :: "response \<Rightarrow> string" where
  "http_error r = nat_digits (status r) @ '' '' @ status_text r"

definition jsonFetch :: "outcome \<Rightarrow> string + json" where
  "jsonFetch res =
     (case res of
        Rejected e \<Rightarrow> Inl e
      | Resolved r \<Rightarrow>
          if \<not> resp_ok r then Inl (http_error r)
          else case body_json r of None \<Rightarrow> Inl ''invalid json'' | Some v \<Rightarrow> Inr v)"

definition textFetch :: "outcome \<Rightarrow> string + string" where
  "textFetch res =
     (case res of
        Rejected e \<Rightarrow> Inl e
      | Resolved r \<Rightarrow> if \<not> resp_ok r then Inl (http_error r) else Inr (body_text r))"

definition extractQueryPitch :: "outcome \<Rightarrow> json option" where
  "extractQueryPitch res =
     (case res of Rejected _ \<Rightarrow> None | Resolved r \<Rightarrow> if \<not> resp_ok r then None else body_json r)"

section \<open>Lemmas\<close>

lemma or_str_Nil [simp]: "or_str s [] = s"
  by (simp add: or_str_def)

text \<open>The key satisfies the contract of a persisted value.\<close>

definition key_admits :: "string \<Rightarrow> 'v browser \<Rightarrow> bool" where
  "key_admits k b \<longleftrightarrow> \<not> ssr b \<and> enabled b \<and> (k = [] \<or> text_fits b STORAGE_KEY k)"

interpretation api_key: persisted getApiKey setApiKey key_admits "\<lambda>_. True"
  by unfold_locales
    (auto simp: getApiKey_def setApiKey_def key_admits_def get_text_def set_text_def remove_text_def
       split: sum.splits)

lemma headers_get_set: "headers_get n (headers_set n v hs) = Some v"
proof -
  have "map_of (map (\<lambda>(k, v). (to_lower k, v)) (filter (\<lambda>(k, _). to_lower k \<noteq> to_lower n) hs)) (to_lower n) = None"
    by (induction hs) auto
  then show ?thesis by (simp add: headers_get_def headers_set_def map_add_def)
qed

lemma headers_has_get: "headers_has n hs \<longleftrightarrow> headers_get n hs \<noteq> None"
  by (force simp: headers_has_def headers_get_def map_of_eq_None_iff image_iff)

lemma maskKey_short: "length key \<le> 4 \<Longrightarrow> maskKey key = replicate (length key) (CHR ''*'')"
  by (simp add: maskKey_def)

lemma install_once: "installed p = (wrappers p = 1) \<Longrightarrow> wrappers p \<le> 1 \<Longrightarrow>
   installed (installApiKeyFetch b p) = (wrappers (installApiKeyFetch b p) = 1) \<and>
   wrappers (installApiKeyFetch b p) \<le> 1"
  by (auto simp: installApiKeyFetch_def)

section \<open>Where a request goes\<close>

text \<open>
  The scheme and the host of the address a browser opens for a text, after the URL Standard and for a
  page of the web (http or https): blanks and controls at the ends and tabs and line ends anywhere go;
  a text without a scheme, or with the scheme of the page, is relative to the page unless it begins with
  two slashes or backslashes; the host ends at a slash, a backslash, a question mark or a hash, what
  stands before an at sign is a user, and the host is in lower case. \<^const>\<open>None\<close> is an address
  that is none of http or https.
\<close>

record site =
  site_scheme :: string
  site_host :: string

definition origin_text :: "site \<Rightarrow> string" where
  "origin_text p = site_scheme p @ ''://'' @ site_host p"

definition slash :: "char \<Rightarrow> bool" where
  "slash c \<longleftrightarrow> c = CHR ''/'' \<or> c = CHR 0x5C"

definition control :: "char \<Rightarrow> bool" where
  "control c \<longleftrightarrow> (of_char c :: nat) \<le> 32"

definition host_end :: "char \<Rightarrow> bool" where
  "host_end c \<longleftrightarrow> slash c \<or> c = CHR ''?'' \<or> c = CHR ''#''"

definition clean_url :: "string \<Rightarrow> string" where
  "clean_url u =
     filter (\<lambda>c. (of_char c :: nat) \<notin> {9, 10, 13}) (rev (dropWhile control (rev (dropWhile control u))))"

definition scheme_char :: "char \<Rightarrow> bool" where
  "scheme_char c \<longleftrightarrow> is_alpha c \<or> is_digit c \<or> c \<in> set ''+-.''"

definition url_scheme :: "string \<Rightarrow> string option" where
  "url_scheme u =
     (let s = takeWhile scheme_char u in
      if s \<noteq> [] \<and> is_alpha (hd s) \<and> prefix (s @ '':'') u then Some (to_lower s) else None)"

definition host_of :: "string \<Rightarrow> string" where
  "host_of u =
     (let a = takeWhile (\<lambda>c. \<not> host_end c) (dropWhile slash u)
      in to_lower (rev (takeWhile (\<lambda>c. c \<noteq> CHR ''@'') (rev a))))"

definition relative_site :: "site \<Rightarrow> string \<Rightarrow> site" where
  "relative_site p u =
     (if 2 \<le> length (takeWhile slash u) then p\<lparr>site_host := host_of u\<rparr> else p)"

definition target_site :: "site \<Rightarrow> string \<Rightarrow> site option" where
  "target_site p url =
     (let u = clean_url url in
      case url_scheme u of
        None \<Rightarrow> Some (relative_site p u)
      | Some s \<Rightarrow>
          (let r = drop (Suc (length s)) u in
           if s = site_scheme p then Some (relative_site p r)
           else if s \<in> {''http'', ''https''} then Some \<lparr>site_scheme = s, site_host = host_of r\<rparr>
           else None))"

text \<open>A site a page can be on: its origin is what \<open>window.location.origin\<close> says.\<close>

definition web_site :: "site \<Rightarrow> bool" where
  "web_site p \<longleftrightarrow> site_scheme p \<in> {''http'', ''https''} \<and> site_host p \<noteq> [] \<and>
     list_all (\<lambda>c. \<not> control c \<and> \<not> host_end c \<and> c \<noteq> CHR ''@'' \<and> lower_char c = c) (site_host p)"

text \<open>The reader finds the foreign host in the addresses that only look local.\<close>

lemma foreign_sites:
  "target_site \<lparr>site_scheme = ''https'', site_host = ''x''\<rparr> ''//evil/api/'' = Some \<lparr>site_scheme = ''https'', site_host = ''evil''\<rparr>"
  "target_site \<lparr>site_scheme = ''https'', site_host = ''x''\<rparr> ''https://x.evil/api/'' = Some \<lparr>site_scheme = ''https'', site_host = ''x.evil''\<rparr>"
  "target_site \<lparr>site_scheme = ''https'', site_host = ''x''\<rparr> ''https://x@evil/api/'' = Some \<lparr>site_scheme = ''https'', site_host = ''evil''\<rparr>"
  "target_site \<lparr>site_scheme = ''https'', site_host = ''x''\<rparr> ''http://x/api/'' = Some \<lparr>site_scheme = ''http'', site_host = ''x''\<rparr>"
  by code_simp+

lemma clean_url_append:
  assumes "a \<noteq> []" "list_all (\<lambda>c. \<not> control c) a"
  shows "\<exists>r. clean_url (a @ b) = a @ r"
proof -
  have keep: "filter (\<lambda>c. (of_char c :: nat) \<notin> {9, 10, 13}) a = a"
    using assms(2) by (auto simp: list_all_iff control_def filter_id_conv)
  have hd: "\<not> control (hd a)" "\<not> control (hd (rev a))"
    using assms by (auto simp: list_all_iff hd_rev)
  have "dropWhile control (a @ b) = a @ b"
    using hd(1) assms(1) by (intro dropWhile_idem_hd) auto
  moreover have "\<exists>b'. dropWhile control (rev b @ rev a) = b' @ rev a"
  proof (cases "\<forall>c\<in>set (rev b). control c")
    case True
    then have "dropWhile control (rev b @ rev a) = dropWhile control (rev a)"
      by (intro dropWhile_append2) simp
    also have "\<dots> = [] @ rev a" using hd(2) assms(1) by (simp add: dropWhile_idem_hd)
    finally show ?thesis by blast
  next
    case False
    then show ?thesis by (auto simp: dropWhile_append1)
  qed
  ultimately obtain b' where "rev (dropWhile control (rev (dropWhile control (a @ b)))) = a @ rev b'" by force
  then show ?thesis unfolding clean_url_def using keep by simp
qed

lemma api_path_local: "target_site p (''/api/'' @ r) = Some p"
proof -
  obtain q where "clean_url (''/api/'' @ r) = ''/api/'' @ q"
    using clean_url_append [of "''/api/''" r] by (auto simp: control_def)
  then show ?thesis
    by (simp add: target_site_def url_scheme_def scheme_char_def is_alpha_def is_upper_def is_lower_def
        is_digit_def relative_site_def slash_def)
qed

lemma host_of_site:
  assumes "web_site p"
  shows "host_of (''//'' @ site_host p @ ''/'' @ q) = site_host p"
proof -
  have h: "c \<in> set (site_host p) \<Longrightarrow> \<not> slash c \<and> \<not> host_end c \<and> c \<noteq> CHR ''@'' \<and> lower_char c = c" for c
    using assms by (auto simp: web_site_def list_all_iff host_end_def)
  have d: "dropWhile slash (''//'' @ site_host p @ ''/'' @ q) = site_host p @ ''/'' @ q"
    using assms h [of "hd (site_host p)"] by (cases "site_host p") (auto simp: web_site_def slash_def)
  have t: "takeWhile (\<lambda>c. \<not> host_end c) (site_host p @ ''/'' @ q) = site_host p"
    using h by (simp add: takeWhile_append2 host_end_def slash_def)
  have a: "takeWhile (\<lambda>c. c \<noteq> CHR ''@'') (rev (site_host p)) = rev (site_host p)"
    using h by (auto simp: takeWhile_eq_all_conv)
  have l: "to_lower (site_host p) = site_host p"
    using h by (auto simp: to_lower_def intro: map_idI)
  show ?thesis unfolding host_of_def d Let_def t a rev_rev_ident by (rule l)
qed

lemma origin_path_local:
  assumes "web_site p"
  shows "target_site p (origin_text p @ ''/api/'' @ r) = Some p"
proof -
  let ?a = "origin_text p @ ''/api/''"
  have "list_all (\<lambda>c. \<not> control c) (site_scheme p)"
    using assms unfolding web_site_def by (elim conjE insertE) (simp_all add: control_def)
  moreover have "list_all (\<lambda>c. \<not> control c) (site_host p)"
    using assms unfolding web_site_def list_all_iff by blast
  moreover have "list_all (\<lambda>c. \<not> control c) ''://''" "list_all (\<lambda>c. \<not> control c) ''/api/''"
    by (simp_all add: control_def)
  ultimately have "list_all (\<lambda>c. \<not> control c) ?a" by (simp only: origin_text_def list_all_append)
  then obtain q where "clean_url (?a @ r) = ?a @ q"
    using clean_url_append [of ?a r] by (auto simp: origin_text_def)
  then have u: "clean_url (origin_text p @ ''/api/'' @ r) = site_scheme p @ '':'' @ ''//'' @ site_host p @ ''/'' @ ''api/'' @ q"
    by (simp add: origin_text_def)
  have rel: "relative_site p (''//'' @ site_host p @ ''/'' @ ''api/'' @ q) = p"
    by (simp only: relative_site_def host_of_site [OF assms]) (simp add: slash_def)
  have "site_scheme p = ''http'' \<or> site_scheme p = ''https''" using assms by (auto simp: web_site_def)
  then have "url_scheme (site_scheme p @ '':'' @ rest) = Some (site_scheme p)" for rest
    by (elim disjE) (simp_all add: url_scheme_def scheme_char_def is_alpha_def is_upper_def is_lower_def
        is_digit_def to_lower_def lower_char_def Let_def)
  then have scheme: "url_scheme (clean_url (origin_text p @ ''/api/'' @ r)) = Some (site_scheme p)"
    unfolding u by blast
  have rest: "drop (Suc (length (site_scheme p))) (clean_url (origin_text p @ ''/api/'' @ r)) =
      ''//'' @ site_host p @ ''/'' @ ''api/'' @ q" unfolding u by simp
  show ?thesis unfolding target_site_def Let_def scheme option.case rest rel by simp
qed

lemma local_url: "isLocal origin url \<longleftrightarrow> (\<exists>r. url = ''/api/'' @ r \<or> url = origin @ ''/api/'' @ r)"
  by (auto simp: isLocal_def prefix_def)

section \<open>Properties\<close>

text \<open>
  C4. The API key never leaves the site of the page. On a page of \<open>http\<close> or \<open>https\<close>, whatever text a
  call names as its address: when the patched \<open>fetch\<close> changes the headers of the call, the address, read
  as a browser reads it, is on the scheme and the host of the page, a key is stored, and the
  \<open>X-API-Key\<close> header is the caller's own where it gave one and the stored key otherwise. And it
  works: a call of a path under \<open>/api/\<close>, or of the page's origin followed by such a path, carries an
  \<open>X-API-Key\<close> header whenever a key is stored that can stand in a header.
\<close>

theorem fetch_headers_safe:
  assumes "web_site p" "sent = fetch_headers (origin_text p) b input init"
  shows "(sent \<noteq> init \<longrightarrow> target_site p (input_url input) = Some p \<and> getApiKey b \<noteq> [] \<and>
      (let given = (case init of Some g \<Rightarrow> g | None \<Rightarrow> nullish (input_headers input) [])
       in \<exists>hs. sent = Some hs \<and> headers_get ''X-API-Key'' hs =
            (if headers_has ''X-API-Key'' given then headers_get ''X-API-Key'' given
             else Some (header_value (getApiKey b))))) \<and>
    (getApiKey b \<noteq> [] \<and> header_value_ok (getApiKey b) \<and>
     (input_url input = ''/api/'' @ path \<or> input_url input = origin_text p @ ''/api/'' @ path) \<longrightarrow>
       (\<exists>hs. sent = Some hs \<and> headers_has ''X-API-Key'' hs))"
proof
  show "sent \<noteq> init \<longrightarrow> target_site p (input_url input) = Some p \<and> getApiKey b \<noteq> [] \<and>
      (let given = (case init of Some g \<Rightarrow> g | None \<Rightarrow> nullish (input_headers input) [])
       in \<exists>hs. sent = Some hs \<and> headers_get ''X-API-Key'' hs =
            (if headers_has ''X-API-Key'' given then headers_get ''X-API-Key'' given
             else Some (header_value (getApiKey b))))"
  proof
    assume "sent \<noteq> init"
    then have "isLocal (origin_text p) (input_url input)" "getApiKey b \<noteq> []"
      using assms(2) by (auto simp: fetch_headers_def Let_def split: if_splits)
    moreover from this(1) have "target_site p (input_url input) = Some p"
      using api_path_local origin_path_local [OF assms(1)] by (auto simp: local_url)
    ultimately show "target_site p (input_url input) = Some p \<and> getApiKey b \<noteq> [] \<and>
      (let given = (case init of Some g \<Rightarrow> g | None \<Rightarrow> nullish (input_headers input) [])
       in \<exists>hs. sent = Some hs \<and> headers_get ''X-API-Key'' hs =
            (if headers_has ''X-API-Key'' given then headers_get ''X-API-Key'' given
             else Some (header_value (getApiKey b))))"
      using \<open>sent \<noteq> init\<close> assms(2) by (auto simp: fetch_headers_def Let_def headers_get_set split: if_splits)
  qed
  show "getApiKey b \<noteq> [] \<and> header_value_ok (getApiKey b) \<and>
     (input_url input = ''/api/'' @ path \<or> input_url input = origin_text p @ ''/api/'' @ path) \<longrightarrow>
       (\<exists>hs. sent = Some hs \<and> headers_has ''X-API-Key'' hs)"
    using assms(2) by (auto simp: fetch_headers_def local_url Let_def headers_has_get headers_get_set)
qed

theorem fetch_headers_safe_witness:
  "target_site \<lparr>site_scheme = ''https'', site_host = ''x.org''\<rparr> ''https://x.org/api/match'' =
      Some \<lparr>site_scheme = ''https'', site_host = ''x.org''\<rparr> \<and>
    (\<exists>hs. fetch_headers ''https://x.org'' (open_browser [STORAGE_KEY \<mapsto> ''secret''] Map.empty :: json browser)
         (StrInput ''https://x.org/api/match'') None = Some hs \<and>
       headers_get ''X-API-Key'' hs = Some ''secret'')"
proof -
  let ?b = "open_browser [STORAGE_KEY \<mapsto> ''secret''] Map.empty :: json browser"
  let ?p = "\<lparr>site_scheme = ''https'', site_host = ''x.org''\<rparr>"
  have key: "getApiKey ?b = ''secret''" by (simp add: open_browser_def getApiKey_def get_text_def)
  have none: "\<not> headers_has ''X-API-Key'' []" by (simp add: headers_has_def)
  have ok: "header_value_ok ''secret''" "header_value ''secret'' = ''secret''" "web_site ?p" by code_simp+
  have origin: "origin_text ?p = ''https://x.org''" by (simp add: origin_text_def)
  show ?thesis
    using fetch_headers_safe [OF ok(3) refl, of ?b "StrInput ''https://x.org/api/match''" None "''match''"]
    by (auto simp: none key ok origin)
qed

text \<open>
  The mask shows at most the last four code units of a key: two keys of the same length whose
  last four code units agree have the same mask, and of a key of at most four nothing but its
  length is shown.
\<close>

theorem maskKey_hides:
  assumes "length k1 = length k2" and "length k1 \<le> 4 \<or> slice_last 4 k1 = slice_last 4 k2"
  shows "maskKey k1 = maskKey k2"
  using assms by (auto simp: maskKey_def)

theorem maskKey_hides_witness:
  "maskKey ''sk_live_aaaa1234'' = maskKey ''sk_live_bbbb1234''"
  by (rule maskKey_hides) (simp_all add: slice_last_def)

end
