(* ===== verification/Arrays.thy ===== *)
theory Arrays
  imports Prelude "HOL-Library.Multiset"
begin

text \<open>
  \<open>Array.prototype.sort\<close>. The language asks of an implementation that the result is a permutation,
  ordered by the comparator, and stable; for a consistent comparator these three determine the
  result (\<open>js_sort_unique\<close> below), so a stable insertion sort is the model of every engine.
  The locale \<open>js_comparator\<close> is the interface between the sort and its callers: the caller provides
  a consistent comparator, and gets order, permutation and stability.
\<close>

section \<open>The sort\<close>

fun insert_cmp :: "('a \<Rightarrow> 'a \<Rightarrow> rat) \<Rightarrow> 'a \<Rightarrow> 'a list \<Rightarrow> 'a list" where
  "insert_cmp cmp x [] = [x]"
| "insert_cmp cmp x (y # ys) = (if cmp x y \<le> 0 then x # y # ys else y # insert_cmp cmp x ys)"

fun js_sort :: "('a \<Rightarrow> 'a \<Rightarrow> rat) \<Rightarrow> 'a list \<Rightarrow> 'a list" where
  "js_sort cmp [] = []"
| "js_sort cmp (x # xs) = insert_cmp cmp x (js_sort cmp xs)"

lemma mset_insert_cmp [simp]: "mset (insert_cmp cmp x xs) = add_mset x (mset xs)"
  by (induction xs) auto

lemma mset_js_sort [simp]: "mset (js_sort cmp xs) = mset xs"
  by (induction xs) auto

lemma set_js_sort [simp]: "set (js_sort cmp xs) = set xs"
  by (metis mset_js_sort set_mset_mset)

lemma length_js_sort [simp]: "length (js_sort cmp xs) = length xs"
  by (metis mset_js_sort size_mset)

lemma distinct_js_sort [simp]: "distinct (js_sort cmp xs) = distinct xs"
  by (metis mset_js_sort mset_eq_imp_distinct_iff)

lemma js_sort_Nil_iff [simp]: "js_sort cmp xs = [] \<longleftrightarrow> xs = []"
  by (metis length_0_conv length_js_sort)

section \<open>The contract of a comparator\<close>

locale js_comparator =
  fixes cmp :: "'a \<Rightarrow> 'a \<Rightarrow> rat"
  assumes flip: "cmp y x \<le> 0 \<longleftrightarrow> 0 \<le> cmp x y"
    and chain: "cmp x y \<le> 0 \<Longrightarrow> cmp y z \<le> 0 \<Longrightarrow> cmp x z \<le> 0"
begin

lemma refl: "cmp x x = 0"
proof -
  have "cmp x x \<le> 0 \<or> 0 \<le> cmp x x" by linarith
  then show ?thesis using flip [of x x] by linarith
qed

lemma total: "cmp x y \<le> 0 \<or> cmp y x \<le> 0"
  using flip by (metis linear)

lemma eq_sym: "cmp x y = 0 \<longleftrightarrow> cmp y x = 0"
  by (metis flip order_antisym order_refl)

lemma eq_trans: "cmp x y = 0 \<Longrightarrow> cmp y z = 0 \<Longrightarrow> cmp x z = 0"
  by (metis chain eq_sym flip order_antisym order_refl)

lemma insert_sorted:
  "sorted_wrt (\<lambda>a b. cmp a b \<le> 0) xs \<Longrightarrow> sorted_wrt (\<lambda>a b. cmp a b \<le> 0) (insert_cmp cmp x xs)"
proof (induction xs)
  case Nil
  then show ?case by simp
next
  case (Cons y ys)
  have set: "set (insert_cmp cmp x ys) = insert x (set ys)"
    by (metis mset_insert_cmp set_mset_add_mset_insert set_mset_mset)
  show ?case
  proof (cases "cmp x y \<le> 0")
    case True
    then show ?thesis using Cons.prems by (auto intro: chain)
  next
    case False
    then have "cmp y x \<le> 0" using total by blast
    then show ?thesis using False Cons by (auto simp: set)
  qed
qed

lemma sort_sorted: "sorted_wrt (\<lambda>a b. cmp a b \<le> 0) (js_sort cmp xs)"
  by (induction xs) (auto intro: insert_sorted)

lemma insert_stable:
  "filter (\<lambda>y. cmp z y = 0) (insert_cmp cmp x xs) = filter (\<lambda>y. cmp z y = 0) (x # xs)"
proof (induction xs)
  case Nil
  then show ?case by simp
next
  case (Cons y ys)
  have "\<not> (cmp z x = 0 \<and> cmp z y = 0)" if "\<not> cmp x y \<le> 0"
    using that eq_sym [of z x] eq_trans [of x z y] by auto
  then show ?case using Cons by auto
qed

lemma sort_stable: "filter (\<lambda>y. cmp z y = 0) (js_sort cmp xs) = filter (\<lambda>y. cmp z y = 0) xs"
  by (induction xs) (auto simp: insert_stable)

text \<open>The three conditions of the language determine the result.\<close>

lemma sorted_stable_unique:
  assumes "sorted_wrt (\<lambda>a b. cmp a b \<le> 0) xs" and "sorted_wrt (\<lambda>a b. cmp a b \<le> 0) ys"
    and "\<And>z. filter (\<lambda>y. cmp z y = 0) xs = filter (\<lambda>y. cmp z y = 0) ys"
  shows "xs = ys"
  using assms
proof (induction xs arbitrary: ys)
  case Nil
  have "ys = []"
  proof (rule ccontr)
    assume "ys \<noteq> []"
    then obtain y where "y \<in> set ys" by fastforce
    then have "y \<in> set (filter (\<lambda>v. cmp y v = 0) ys)" by (simp add: refl)
    then show False using Nil.prems(3) [of y] by (metis empty_iff filter.simps(1) list.set(1))
  qed
  then show ?case by simp
next
  case (Cons x xs)
  have in_eq: "v \<in> set l \<longleftrightarrow> v \<in> set (filter (\<lambda>y. cmp v y = 0) l)" for v l
    by (simp add: refl)
  have mem: "v \<in> set (x # xs) \<longleftrightarrow> v \<in> set ys" for v
    by (metis in_eq Cons.prems(3))
  obtain y ys' where ys: "ys = y # ys'" using mem [of x] by (cases ys) auto
  have "cmp x y \<le> 0" using Cons.prems(1) mem [of y] by (auto simp: ys refl)
  moreover have "cmp y x \<le> 0" using Cons.prems(2) mem [of x] by (auto simp: ys refl)
  ultimately have eq: "cmp x y = 0" using flip [of y x] by linarith
  have "x # filter (\<lambda>v. cmp x v = 0) xs = y # filter (\<lambda>v. cmp x v = 0) ys'"
    using Cons.prems(3) [of x] eq by (auto simp: ys refl)
  then have xy: "x = y" by simp
  have "filter (\<lambda>v. cmp z v = 0) xs = filter (\<lambda>v. cmp z v = 0) ys'" for z
    using Cons.prems(3) [of z] by (auto simp: ys xy split: if_splits)
  then have "xs = ys'" using Cons.IH [of ys'] Cons.prems(1,2) by (simp add: ys)
  then show ?case by (simp add: ys xy)
qed

lemma js_sort_unique:
  assumes "sorted_wrt (\<lambda>a b. cmp a b \<le> 0) ys"
    and "\<And>z. filter (\<lambda>y. cmp z y = 0) ys = filter (\<lambda>y. cmp z y = 0) xs"
  shows "js_sort cmp xs = ys"
  by (rule sorted_stable_unique [OF sort_sorted assms(1)]) (simp add: sort_stable assms(2))

lemma sort_fixed: "sorted_wrt (\<lambda>a b. cmp a b \<le> 0) xs \<Longrightarrow> js_sort cmp xs = xs"
  by (rule js_sort_unique) auto

lemma filter_sort: "filter P (js_sort cmp xs) = js_sort cmp (filter P xs)"
proof (rule js_sort_unique [symmetric])
  show "sorted_wrt (\<lambda>a b. cmp a b \<le> 0) (filter P (js_sort cmp xs))"
    by (rule sorted_wrt_filter) (rule sort_sorted)
  fix z
  have "filter (\<lambda>y. cmp z y = 0) (filter P l) = filter P (filter (\<lambda>y. cmp z y = 0) l)" for l
    by (simp add: conj_commute)
  then show "filter (\<lambda>y. cmp z y = 0) (filter P (js_sort cmp xs)) = filter (\<lambda>y. cmp z y = 0) (filter P xs)"
    by (simp only: sort_stable)
qed

lemma sort_idem: "js_sort cmp (js_sort cmp xs) = js_sort cmp xs"
  by (rule sort_fixed) (rule sort_sorted)

end

section \<open>Comparators by a key\<close>

text \<open>\<open>(x, y) => f(x) - f(y)\<close> and its reverse.\<close>

definition by_key :: "('a \<Rightarrow> rat) \<Rightarrow> 'a \<Rightarrow> 'a \<Rightarrow> rat" where
  "by_key f x y = f x - f y"

definition by_key_desc :: "('a \<Rightarrow> rat) \<Rightarrow> 'a \<Rightarrow> 'a \<Rightarrow> rat" where
  "by_key_desc f x y = f y - f x"

interpretation by_key: js_comparator "by_key f" for f :: "'a \<Rightarrow> rat"
  by unfold_locales (auto simp: by_key_def)

interpretation by_key_desc: js_comparator "by_key_desc f" for f :: "'a \<Rightarrow> rat"
  by unfold_locales (auto simp: by_key_desc_def)

text \<open>\<open>c1(x, y) || c2(x, y)\<close>: the second comparator breaks the ties of the first.\<close>

definition cmp_or :: "('a \<Rightarrow> 'a \<Rightarrow> rat) \<Rightarrow> ('a \<Rightarrow> 'a \<Rightarrow> rat) \<Rightarrow> 'a \<Rightarrow> 'a \<Rightarrow> rat" where
  "cmp_or c1 c2 x y = (if c1 x y = 0 then c2 x y else c1 x y)"

text \<open>A comparator of strings seen through a projection, as in \<open>a.tag.localeCompare(b.tag)\<close>.\<close>

definition cmp_via :: "('b \<Rightarrow> 'b \<Rightarrow> rat) \<Rightarrow> ('a \<Rightarrow> 'b) \<Rightarrow> 'a \<Rightarrow> 'a \<Rightarrow> rat" where
  "cmp_via c f x y = c (f x) (f y)"

context js_comparator
begin

lemma via: "js_comparator (cmp_via cmp f)"
proof unfold_locales
  fix x y z
  show "cmp_via cmp f y x \<le> 0 \<longleftrightarrow> 0 \<le> cmp_via cmp f x y"
    unfolding cmp_via_def by (rule flip)
  assume "cmp_via cmp f x y \<le> 0" and "cmp_via cmp f y z \<le> 0"
  then show "cmp_via cmp f x z \<le> 0" unfolding cmp_via_def by (rule chain)
qed

lemma tie_break: "js_comparator (cmp_or (by_key_desc f) (cmp_via cmp g))"
proof unfold_locales
  fix x y z
  show "cmp_or (by_key_desc f) (cmp_via cmp g) y x \<le> 0 \<longleftrightarrow> 0 \<le> cmp_or (by_key_desc f) (cmp_via cmp g) x y"
    using flip by (auto simp: cmp_or_def by_key_desc_def cmp_via_def)
  assume "cmp_or (by_key_desc f) (cmp_via cmp g) x y \<le> 0"
    and "cmp_or (by_key_desc f) (cmp_via cmp g) y z \<le> 0"
  then show "cmp_or (by_key_desc f) (cmp_via cmp g) x z \<le> 0"
    using chain by (auto simp: cmp_or_def by_key_desc_def cmp_via_def split: if_splits)
qed

end

section \<open>The order of strings by code unit\<close>

text \<open>\<open>xs.sort()\<close> without a comparator orders strings by their code units.\<close>

fun str_cmp :: "string \<Rightarrow> string \<Rightarrow> rat" where
  "str_cmp [] [] = 0"
| "str_cmp [] (d # ds) = -1"
| "str_cmp (c # cs) [] = 1"
| "str_cmp (c # cs) (d # ds) =
     (if (of_char c :: nat) < of_char d then -1
      else if (of_char d :: nat) < of_char c then 1 else str_cmp cs ds)"

lemma str_cmp_flip: "str_cmp y x = - str_cmp x y"
  by (induction x y rule: str_cmp.induct) auto

lemma str_cmp_eq_0 [simp]: "str_cmp x y = 0 \<longleftrightarrow> x = y"
  by (induction x y rule: str_cmp.induct) (auto simp: not_less dest: order_antisym)

lemma str_cmp_Nil [simp]: "str_cmp [] s \<le> 0" "str_cmp (c # cs) [] \<le> 0 \<longleftrightarrow> False"
  by (cases s) auto

lemma str_cmp_trans: "str_cmp x y \<le> 0 \<Longrightarrow> str_cmp y z \<le> 0 \<Longrightarrow> str_cmp x z \<le> 0"
proof (induction x arbitrary: y z)
  case Nil
  show ?case by simp
next
  case (Cons c cs)
  obtain d ds where y: "y = d # ds" using Cons.prems(1) by (cases y) simp_all
  obtain e es where z: "z = e # es" using Cons.prems(2) by (cases z) (simp_all add: y)
  show ?case using Cons.prems Cons.IH [of ds es] by (auto simp: y z split: if_splits)
qed

interpretation str_cmp: js_comparator str_cmp
proof unfold_locales
  fix x y z
  show "str_cmp y x \<le> 0 \<longleftrightarrow> 0 \<le> str_cmp x y" by (subst str_cmp_flip) simp
  assume "str_cmp x y \<le> 0" and "str_cmp y z \<le> 0"
  then show "str_cmp x z \<le> 0" by (rule str_cmp_trans)
qed

end
