(* ===== verification/History.thy ===== *)
theory History
  imports ApiKey Arrays
begin

text \<open>
  \<open>web/lib/history.ts\<close> with the result type of \<open>web/lib/api.ts\<close>: the match history the client keeps
  in \<open>localStorage\<close>, its edits (save, delete, rename, tag), the views computed from it (filter, sort,
  tag counts, catalog) and the sample reduction of the stored waveform. Scores, times and durations
  come out of JSON, so they are finite; they are kept as rationals, which the comparators only compare.
\<close>

section \<open>Records\<close>

record MatchResult =
  r_track_id :: string
  r_title :: string
  r_artist :: string
  r_album :: "string option"
  r_score :: rat
  r_segment_index :: int
  r_preview_url :: "string option"
  r_artwork_url :: "string option"
  r_source :: string
  r_tempo_bpm :: "rat option"

record PitchContour =
  p_sr :: rat
  p_duration_sec :: rat
  p_hop_sec :: rat
  p_times :: "rat list"
  p_hz :: "rat option list"
  p_midi :: "rat option list"
  p_voiced_ratio :: rat
  p_median_hz :: rat

record StoredMatch =
  m_query_id :: string
  m_ts :: rat
  m_elapsed_ms :: rat
  m_count :: int
  m_filename :: "string option"
  m_duration_sec :: "rat option"
  m_name :: "string option"
  m_tags :: "string list option"
  m_query_waveform :: "rat list option"
  m_query_pitch :: "PitchContour option"
  m_results :: "MatchResult list"

text \<open>What the key holds: a JSON array of records, or some other JSON value.\<close>

datatype hist_doc = NotArray | Arr "StoredMatch list"

type_synonym hbrowser = "hist_doc browser"

section \<open>Load and save\<close>

definition HIST_KEY :: string where "HIST_KEY = ''clawhum.matches.v1''"
definition HIST_MAX :: nat where "HIST_MAX = 200"

definition loadMatches :: "hbrowser \<Rightarrow> StoredMatch list" where
  "loadMatches b =
     (if ssr b then []
      else case get_doc HIST_KEY b of
             Inl _ \<Rightarrow> []
           | Inr None \<Rightarrow> []
           | Inr (Some Unparsable) \<Rightarrow> []
           | Inr (Some (Doc NotArray)) \<Rightarrow> []
           | Inr (Some (Doc (Arr ms))) \<Rightarrow> ms)"

text \<open>\<open>while (all.length > MAX) all.pop()\<close>\<close>

function pop_to :: "nat \<Rightarrow> 'a list \<Rightarrow> 'a list" where
  "pop_to n xs = (if length xs > n then pop_to n (butlast xs) else xs)"
  by pat_completeness auto
termination
  by (relation "measure (\<lambda>(n, xs). length xs)") auto

declare pop_to.simps [simp del]

definition drop_waveform :: "StoredMatch \<Rightarrow> StoredMatch" where
  "drop_waveform m = m\<lparr>m_query_waveform := None\<rparr>"

text \<open>The body of the \<open>POST /api/history\<close> that follows a save.\<close>

record HistorySync =
  s_query_id :: string
  s_elapsed_ms :: rat
  s_count :: int
  s_results :: "MatchResult list"
  s_filename :: "string option"
  s_duration_sec :: "rat option"
  s_name :: "string option"
  s_tags :: "string list"

definition sync_body :: "StoredMatch \<Rightarrow> HistorySync" where
  "sync_body m =
     \<lparr>s_query_id = m_query_id m, s_elapsed_ms = m_elapsed_ms m, s_count = m_count m,
      s_results = m_results m, s_filename = m_filename m, s_duration_sec = m_duration_sec m,
      s_name = m_name m, s_tags = nullish (m_tags m) []\<rparr>"

text \<open>The array \<open>saveMatch\<close> writes, the write with its retry, and the request it fires off.\<close>

definition pushed :: "StoredMatch \<Rightarrow> StoredMatch list \<Rightarrow> StoredMatch list" where
  "pushed m all = pop_to HIST_MAX (m # all)"

definition saveMatch :: "StoredMatch \<Rightarrow> hbrowser \<Rightarrow> hbrowser \<times> HistorySync option" where
  "saveMatch m b =
     (if ssr b then (b, None)
      else let all = pushed m (loadMatches b);
               b1 = (case set_doc HIST_KEY (Arr all) b of
                       Inr b' \<Rightarrow> b'
                     | Inl _ \<Rightarrow> try_or b (set_doc HIST_KEY (Arr (map drop_waveform all)) b))
           in (b1, Some (sync_body m)))"

definition getMatch :: "string \<Rightarrow> hbrowser \<Rightarrow> StoredMatch option" where
  "getMatch i b = List.find (\<lambda>m. m_query_id m = i) (loadMatches b)"

definition clearMatches :: "hbrowser \<Rightarrow> storage_error + hbrowser" where
  "clearMatches b = (if \<not> ssr b then remove_doc HIST_KEY b else Inr b)"

section \<open>Edits\<close>

definition writeMatches :: "StoredMatch list \<Rightarrow> hbrowser \<Rightarrow> hbrowser" where
  "writeMatches ms b = try_or b (set_doc HIST_KEY (Arr ms) b)"

definition deleteMatch :: "string \<Rightarrow> hbrowser \<Rightarrow> hbrowser \<times> bool" where
  "deleteMatch i b =
     (if ssr b then (b, False)
      else let all = loadMatches b; next = filter (\<lambda>m. m_query_id m \<noteq> i) all
           in if length next = length all then (b, False) else (writeMatches next b, True))"

text \<open>
  One tag: trimmed, lowercased, runs of white space replaced by a dash, cut to 32 code units; empty
  tags and repetitions are left out.
\<close>

definition tag_norm :: "string \<Rightarrow> string" where
  "tag_norm raw = take 32 (squash_spaces ''-'' (to_lower (trim raw)))"

definition tag_step :: "string option \<Rightarrow> string list \<Rightarrow> string list" where
  "tag_step raw out =
     (case raw of
        None \<Rightarrow> out
      | Some s \<Rightarrow>
          if s = [] then out
          else let v = tag_norm s in if v = [] \<or> v \<in> set out then out else out @ [v])"

definition normaliseTags :: "string option list \<Rightarrow> string list" where
  "normaliseTags ts = fold tag_step ts []"

text \<open>
  A patch names the fields it changes: \<^const>\<open>None\<close> is a key that is not in the patch,
  \<open>Some None\<close> a key that is there with the value \<open>undefined\<close>.
\<close>

record MatchPatch =
  pt_name :: "string option option"
  pt_tags :: "string option list option option"

definition patch_name :: "string option option \<Rightarrow> StoredMatch \<Rightarrow> StoredMatch" where
  "patch_name p m =
     (case p of
        None \<Rightarrow> m
      | Some v \<Rightarrow>
          (case map_option trim v of
             None \<Rightarrow> m\<lparr>m_name := None\<rparr>
           | Some s \<Rightarrow> if s = [] then m\<lparr>m_name := None\<rparr> else m\<lparr>m_name := Some s\<rparr>))"

definition patch_tags :: "string option list option option \<Rightarrow> StoredMatch \<Rightarrow> StoredMatch" where
  "patch_tags p m =
     (case p of None \<Rightarrow> m | Some v \<Rightarrow> m\<lparr>m_tags := Some (normaliseTags (nullish v []))\<rparr>)"

fun findIndex :: "('a \<Rightarrow> bool) \<Rightarrow> 'a list \<Rightarrow> nat option" where
  "findIndex p [] = None"
| "findIndex p (x # xs) = (if p x then Some 0 else map_option Suc (findIndex p xs))"

definition updateMatch :: "string \<Rightarrow> MatchPatch \<Rightarrow> hbrowser \<Rightarrow> hbrowser \<times> StoredMatch option" where
  "updateMatch i p b =
     (if ssr b then (b, None)
      else let all = loadMatches b in
           case findIndex (\<lambda>m. m_query_id m = i) all of
             None \<Rightarrow> (b, None)
           | Some k \<Rightarrow>
               (let nxt = patch_tags (pt_tags p) (patch_name (pt_name p) (all ! k))
                in (writeMatches (all[k := nxt]) b, Some nxt)))"

section \<open>Views\<close>

definition count_tag :: "string \<Rightarrow> (string \<times> nat) list \<Rightarrow> (string \<times> nat) list" where
  "count_tag t counts = AList.update t (nullish (map_of counts t) 0 + 1) counts"

text \<open>\<open>localeCompare\<close> is the host's collation, an argument of the model.\<close>

definition allTags :: "(string \<Rightarrow> string \<Rightarrow> rat) \<Rightarrow> StoredMatch list \<Rightarrow> (string \<times> nat) list" where
  "allTags localeCompare ms =
     js_sort (cmp_or (by_key_desc (\<lambda>(_, n). of_nat n)) (cmp_via localeCompare fst))
       (fold (\<lambda>m. fold count_tag (nullish (m_tags m) [])) ms [])"

record MatchFilter =
  f_q :: "string option"
  f_tags :: "string list option"
  f_minScore :: "rat option"
  f_since :: "rat option"
  f_until :: "rat option"

definition best_score :: "StoredMatch \<Rightarrow> rat" where
  "best_score m = (case m_results m of [] \<Rightarrow> 0 | r # _ \<Rightarrow> r_score r)"

definition has_text :: "string \<Rightarrow> StoredMatch \<Rightarrow> bool" where
  "has_text q m \<longleftrightarrow>
     str_includes (to_lower (m_query_id m)) q \<or>
     (case m_name m of None \<Rightarrow> False | Some s \<Rightarrow> str_includes (to_lower s) q) \<or>
     (case m_filename m of None \<Rightarrow> False | Some s \<Rightarrow> str_includes (to_lower s) q) \<or>
     list_ex (\<lambda>t. str_includes t q) (nullish (m_tags m) []) \<or>
     list_ex (\<lambda>r. str_includes (to_lower (r_title r)) q \<or> str_includes (to_lower (r_artist r)) q)
       (m_results m)"

definition match_passes :: "MatchFilter \<Rightarrow> StoredMatch \<Rightarrow> bool" where
  "match_passes f m \<longleftrightarrow>
     (let q = nullish (map_option (to_lower \<circ> trim) (f_q f)) [];
          tags = (case f_tags f of None \<Rightarrow> None | Some [] \<Rightarrow> None | Some ts \<Rightarrow> Some ts)
      in if m_ts m < nullish (f_since f) 0 \<or> (case f_until f of None \<Rightarrow> False | Some u \<Rightarrow> u \<le> m_ts m)
         then False
         else if best_score m < nullish (f_minScore f) 0 then False
         else if (case tags of None \<Rightarrow> False
                  | Some ts \<Rightarrow> \<not> list_ex (\<lambda>t. t \<in> set ts) (nullish (m_tags m) [])) then False
         else if q = [] then True
         else has_text q m)"

definition filterMatches :: "StoredMatch list \<Rightarrow> MatchFilter \<Rightarrow> StoredMatch list" where
  "filterMatches ms f = filter (match_passes f) ms"

datatype MatchSort = ts_desc | ts_asc | score_desc | score_asc | latency_asc | latency_desc

fun match_cmp :: "MatchSort \<Rightarrow> StoredMatch \<Rightarrow> StoredMatch \<Rightarrow> rat" where
  "match_cmp ts_desc = by_key_desc m_ts"
| "match_cmp ts_asc = by_key m_ts"
| "match_cmp score_desc = by_key_desc best_score"
| "match_cmp score_asc = by_key best_score"
| "match_cmp latency_asc = by_key m_elapsed_ms"
| "match_cmp latency_desc = by_key_desc m_elapsed_ms"

definition sortMatches :: "StoredMatch list \<Rightarrow> MatchSort \<Rightarrow> StoredMatch list" where
  "sortMatches ms how = js_sort (match_cmp how) ms"

record CatalogTrack =
  c_track_id :: string
  c_title :: string
  c_artist :: string
  c_album :: "string option"
  c_source :: string
  c_artwork_url :: "string option"
  c_preview_url :: "string option"
  c_tempo_bpm :: "rat option"
  c_seen :: nat
  c_best_score :: rat

definition new_track :: "MatchResult \<Rightarrow> CatalogTrack" where
  "new_track r =
     \<lparr>c_track_id = r_track_id r, c_title = r_title r, c_artist = r_artist r, c_album = r_album r,
      c_source = r_source r, c_artwork_url = r_artwork_url r, c_preview_url = r_preview_url r,
      c_tempo_bpm = r_tempo_bpm r, c_seen = 1, c_best_score = r_score r\<rparr>"

definition see_again :: "MatchResult \<Rightarrow> CatalogTrack \<Rightarrow> CatalogTrack" where
  "see_again r prev =
     (let p = prev\<lparr>c_seen := c_seen prev + 1\<rparr>
      in if r_score r > c_best_score p then p\<lparr>c_best_score := r_score r\<rparr> else p)"

definition catalog_step :: "MatchResult \<Rightarrow> (string \<times> CatalogTrack) list \<Rightarrow> (string \<times> CatalogTrack) list" where
  "catalog_step r m =
     (case map_of m (r_track_id r) of
        None \<Rightarrow> AList.update (r_track_id r) (new_track r) m
      | Some prev \<Rightarrow> AList.update (r_track_id r) (see_again r prev) m)"

definition catalog_map :: "StoredMatch list \<Rightarrow> (string \<times> CatalogTrack) list" where
  "catalog_map ms = fold (\<lambda>m. fold catalog_step (m_results m)) ms []"

definition deriveCatalog :: "hbrowser \<Rightarrow> CatalogTrack list" where
  "deriveCatalog b = js_sort (by_key_desc (\<lambda>t. of_nat (c_seen t))) (map snd (catalog_map (loadMatches b)))"

section \<open>Sample reduction\<close>

text \<open>
  \<open>downsampleFloat\<close>: the samples go through a \<open>Float32Array\<close>, the stride is the double nearest to
  \<open>length / target\<close>, and the index is the floor of a double product. An index past the end reads
  \<open>undefined\<close>, which is \<^const>\<open>None\<close> here.
\<close>

definition to_f32 :: "jsnum \<Rightarrow> jsnum" where
  "to_f32 v = (case v of Fin x \<Rightarrow> flt32 x | _ \<Rightarrow> v)"

definition sample_index :: "nat \<Rightarrow> nat \<Rightarrow> nat \<Rightarrow> nat option" where
  "sample_index len target i =
     (case dbl (of_nat len / of_nat target) of
        Fin stride \<Rightarrow> (case dbl (of_nat i * stride) of Fin x \<Rightarrow> Some (nat (math_floor x)) | _ \<Rightarrow> None)
      | _ \<Rightarrow> None)"

definition downsampleFloat :: "jsnum list \<Rightarrow> nat \<Rightarrow> jsnum option list" where
  "downsampleFloat arr target =
     (let a = map to_f32 arr in
      if length a \<le> target then map Some a
      else map (\<lambda>i. case sample_index (length a) target i of
                       None \<Rightarrow> None
                     | Some k \<Rightarrow> if k < length a then Some (a ! k) else None)
             [0..<target])"

end
