(* ===== verification/HistoryLaws.thy ===== *)
theory HistoryLaws
  imports History
begin

text \<open>
  What the history module promises: the stored list satisfies the contract of a persisted value,
  never holds more than \<open>MAX\<close> records, edits touch one record only, tags are kept in a normal form,
  and the computed views (filter, sort, tag counts, catalog) say what their names promise.
\<close>

section \<open>Load and save\<close>

lemma pop_to_take: "pop_to n xs = take n xs"
proof (induction n xs rule: pop_to.induct)
  case (1 n xs)
  show ?case
  proof (cases "length xs > n")
    case True
    have "pop_to n xs = pop_to n (butlast xs)" using True by (subst pop_to.simps) simp
    also have "\<dots> = take n (butlast xs)" using 1 True by simp
    also have "\<dots> = take n xs" using True by (simp add: take_butlast)
    finally show ?thesis .
  next
    case False
    then show ?thesis by (subst pop_to.simps) simp
  qed
qed

lemma pushed_take: "pushed m all = take HIST_MAX (m # all)"
  by (simp add: pushed_def pop_to_take)

lemma length_pushed: "length (pushed m all) \<le> HIST_MAX"
  by (simp add: pushed_take)

definition hist_admits :: "StoredMatch list \<Rightarrow> hbrowser \<Rightarrow> bool" where
  "hist_admits ms b \<longleftrightarrow> \<not> ssr b \<and> writable HIST_KEY (Arr ms) b"

lemma loadMatches_set_doc [store_simps]:
  "\<not> ssr b \<Longrightarrow> set_doc HIST_KEY (Arr ms) b = Inr b' \<Longrightarrow> loadMatches b' = ms"
  by (auto simp: loadMatches_def set_doc_def get_doc_def split: if_splits)

interpretation history: persisted loadMatches writeMatches hist_admits "\<lambda>_. True"
  by unfold_locales
    (auto simp: loadMatches_def writeMatches_def hist_admits_def writable_def set_doc_def get_doc_def)

section \<open>The invariant of the stored list\<close>

text \<open>
  The operations a page performs, in any order; between them the host may change its mind about
  what it admits (\<open>hist_env\<close>): the quota fills up, storage is switched off and on.
\<close>

inductive hist_step :: "hbrowser \<Rightarrow> hbrowser \<Rightarrow> bool" where
  hist_save: "hist_step b (fst (saveMatch m b))"
| hist_delete: "hist_step b (fst (deleteMatch i b))"
| hist_update: "hist_step b (fst (updateMatch i p b))"
| hist_clear: "clearMatches b = Inr b' \<Longrightarrow> hist_step b b'"
| hist_env: "hist_step b (b\<lparr>enabled := e, fits := f\<rparr>)"

inductive hist_reach :: "hbrowser \<Rightarrow> bool" where
  hist_start: "docs b HIST_KEY = None \<Longrightarrow> hist_reach b"
| hist_next: "hist_reach b \<Longrightarrow> hist_step b b' \<Longrightarrow> hist_reach b'"

definition stored_size :: "hbrowser \<Rightarrow> nat" where
  "stored_size b = (case docs b HIST_KEY of Some (Doc (Arr ms)) \<Rightarrow> length ms | _ \<Rightarrow> 0)"

lemma stored_size_set_doc:
  "set_doc HIST_KEY (Arr ms) b = Inr b' \<Longrightarrow> stored_size b' = length ms"
  by (auto simp: stored_size_def set_doc_def split: if_splits)

lemma stored_size_write: "length ms \<le> n \<Longrightarrow> stored_size b \<le> n \<Longrightarrow> stored_size (writeMatches ms b) \<le> n"
  by (auto simp: writeMatches_def try_or_def stored_size_set_doc split: sum.splits)

lemma length_loadMatches: "length (loadMatches b) \<le> stored_size b"
  by (auto simp: loadMatches_def stored_size_def get_doc_def split: sum.splits option.splits doc.splits hist_doc.splits)

lemma stored_size_save: "stored_size b \<le> HIST_MAX \<Longrightarrow> stored_size (fst (saveMatch m b)) \<le> HIST_MAX"
  using length_pushed [of m "loadMatches b"]
  by (auto simp: saveMatch_def Let_def try_or_def stored_size_set_doc split: sum.splits)

lemma hist_step_size: "hist_step b b' \<Longrightarrow> stored_size b \<le> HIST_MAX \<Longrightarrow> stored_size b' \<le> HIST_MAX"
proof (induction rule: hist_step.induct)
  case (hist_save b m)
  then show ?case by (rule stored_size_save)
next
  case (hist_delete b i)
  have "length (filter (\<lambda>m. m_query_id m \<noteq> i) (loadMatches b)) \<le> HIST_MAX"
    using hist_delete length_loadMatches [of b] by (meson length_filter_le order_trans)
  then show ?case using hist_delete by (auto simp: deleteMatch_def Let_def stored_size_write)
next
  case (hist_update b i p)
  then show ?case using length_loadMatches [of b]
    by (auto simp: updateMatch_def Let_def split: option.splits intro!: stored_size_write)
next
  case (hist_clear b b')
  then show ?case by (auto simp: clearMatches_def remove_doc_def stored_size_def split: if_splits)
next
  case (hist_env b e f)
  then show ?case by (simp add: stored_size_def)
qed

lemma hist_reach_size: "hist_reach b \<Longrightarrow> stored_size b \<le> HIST_MAX"
  by (induction rule: hist_reach.induct) (simp add: stored_size_def, rule hist_step_size)

section \<open>One record\<close>

lemma findIndex_None: "findIndex p xs = None \<longleftrightarrow> (\<forall>x\<in>set xs. \<not> p x)"
  by (induction xs) auto

lemma findIndex_Some:
  "findIndex p xs = Some k \<Longrightarrow> k < length xs \<and> p (xs ! k) \<and> (\<forall>j<k. \<not> p (xs ! j))"
proof (induction xs arbitrary: k)
  case Nil
  then show ?case by simp
next
  case (Cons x xs)
  show ?case
  proof (cases "p x")
    case True
    then show ?thesis using Cons.prems by simp
  next
    case False
    then obtain k' where "findIndex p xs = Some k'" "k = Suc k'" using Cons.prems by auto
    then show ?thesis using Cons.IH [of k'] False by (auto simp: nth_Cons split: nat.splits)
  qed
qed

lemma patch_frame:
  "m_query_id (patch_tags t (patch_name n m)) = m_query_id m"
  "m_results (patch_tags t (patch_name n m)) = m_results m"
  "m_ts (patch_tags t (patch_name n m)) = m_ts m"
  by (auto simp: patch_tags_def patch_name_def split: option.splits)

section \<open>Tags\<close>

lemma squash_no_space: "\<forall>c\<in>set r. \<not> is_space c \<Longrightarrow> c \<in> set (squash_spaces r s) \<Longrightarrow> \<not> is_space c"
  by (induction r s rule: squash_spaces.induct) (auto split: if_splits)

lemma set_squash: "set (squash_spaces r s) \<subseteq> set r \<union> set s"
  by (induction r s rule: squash_spaces.induct) (auto split: if_splits)

lemma squash_id: "\<forall>c\<in>set s. \<not> is_space c \<Longrightarrow> squash_spaces r s = s"
  by (induction r s rule: squash_spaces.induct) auto

lemma dropWhile_none: "\<forall>c\<in>set s. \<not> p c \<Longrightarrow> dropWhile p s = s"
  by (cases s) auto

lemma trim_id: "\<forall>c\<in>set s. \<not> is_space c \<Longrightarrow> trim s = s"
  by (simp add: trim_def dropWhile_none)

lemma dash_plain [simp]: "\<not> is_space (CHR ''-'')" "lower_char (CHR ''-'') = CHR ''-''"
  by (simp_all add: is_space_def lower_char_def)

lemma tag_norm_chars: "c \<in> set (tag_norm s) \<Longrightarrow> \<not> is_space c \<and> lower_char c = c"
proof -
  assume c: "c \<in> set (tag_norm s)"
  then have c': "c \<in> set (squash_spaces ''-'' (to_lower (trim s)))"
    by (auto simp: tag_norm_def dest: in_set_takeD)
  then have "\<not> is_space c" by (rule squash_no_space [rotated]) simp
  moreover have "c = CHR ''-'' \<or> c \<in> set (to_lower (trim s))" using c' set_squash by fastforce
  ultimately show ?thesis by (auto simp: to_lower_def)
qed

lemma length_tag_norm: "length (tag_norm s) \<le> 32"
  by (simp add: tag_norm_def)

lemma tag_norm_idem: "tag_norm (tag_norm s) = tag_norm s"
proof -
  have sp: "\<forall>c\<in>set (tag_norm s). \<not> is_space c" using tag_norm_chars by blast
  have "to_lower (tag_norm s) = tag_norm s"
    unfolding to_lower_def using tag_norm_chars by (intro map_idI) blast
  then show ?thesis
    unfolding tag_norm_def [of "tag_norm s"] using sp length_tag_norm
    by (simp add: trim_id squash_id)
qed

definition tag_ok :: "string \<Rightarrow> bool" where
  "tag_ok t \<longleftrightarrow> t \<noteq> [] \<and> length t \<le> 32 \<and> list_all (\<lambda>c. \<not> is_space c \<and> lower_char c = c) t \<and> tag_norm t = t"

lemma tag_step_ok:
  "list_all tag_ok out \<Longrightarrow> distinct out \<Longrightarrow> list_all tag_ok (tag_step raw out) \<and> distinct (tag_step raw out)"
  using length_tag_norm tag_norm_chars tag_norm_idem
  by (auto simp: tag_step_def Let_def tag_ok_def list_all_iff split: option.splits)

lemma fold_tag_step_ok:
  "list_all tag_ok out \<Longrightarrow> distinct out \<Longrightarrow>
   list_all tag_ok (fold tag_step ts out) \<and> distinct (fold tag_step ts out)"
  by (induction ts arbitrary: out) (use tag_step_ok in \<open>auto\<close>)

lemma normaliseTags_ok: "list_all tag_ok (normaliseTags ts)" "distinct (normaliseTags ts)"
  using fold_tag_step_ok [of "[]" ts] by (simp_all add: normaliseTags_def)

lemma fold_tag_step_id:
  "list_all tag_ok (out @ ts) \<Longrightarrow> distinct (out @ ts) \<Longrightarrow> fold tag_step (map Some ts) out = out @ ts"
proof (induction ts arbitrary: out)
  case Nil
  then show ?case by simp
next
  case (Cons t ts)
  then have "tag_step (Some t) out = out @ [t]"
    by (auto simp: tag_step_def Let_def tag_ok_def)
  then show ?case using Cons.IH [of "out @ [t]"] Cons.prems by simp
qed

lemma set_fold_tag_step:
  "set (fold tag_step ts out) = set out \<union> {v. \<exists>s. Some s \<in> set ts \<and> s \<noteq> [] \<and> v = tag_norm s \<and> v \<noteq> []}"
proof (induction ts arbitrary: out)
  case Nil
  then show ?case by simp
next
  case (Cons t ts)
  have "set (tag_step t out) = set out \<union> {v. \<exists>s. t = Some s \<and> s \<noteq> [] \<and> v = tag_norm s \<and> v \<noteq> []}"
    by (auto simp: tag_step_def Let_def split: option.splits)
  then show ?case by (auto simp: Cons.IH)
qed

section \<open>Tag counts\<close>

lemma map_of_count_tag:
  "map_of (count_tag t counts) u =
     (if u = t then Some (nullish (map_of counts t) 0 + 1) else map_of counts u)"
  by (simp add: count_tag_def update_conv)

lemma fold_count_tag:
  "map_of (fold count_tag ts counts) t =
     (if t \<in> set ts then Some (nullish (map_of counts t) 0 + count_list ts t) else map_of counts t)"
  by (induction ts arbitrary: counts) (auto simp: map_of_count_tag)

lemma distinct_fold_count_tag:
  "distinct (map fst counts) \<Longrightarrow> distinct (map fst (fold count_tag ts counts))"
  by (induction ts arbitrary: counts) (auto simp: count_tag_def distinct_update)

definition all_tags :: "StoredMatch list \<Rightarrow> string list" where
  "all_tags ms = concat (map (\<lambda>m. nullish (m_tags m) []) ms)"

lemma fold_fold_concat: "fold (\<lambda>x. fold f (g x)) xs acc = fold f (concat (map g xs)) acc"
  by (induction xs arbitrary: acc) auto

lemma tag_counts:
  "map_of (fold (\<lambda>m. fold count_tag (nullish (m_tags m) [])) ms []) t =
     (if t \<in> set (all_tags ms) then Some (count_list (all_tags ms) t) else None)"
  by (simp add: fold_fold_concat fold_count_tag all_tags_def)

section \<open>The catalog\<close>

text \<open>The entry of one track: what the loop does to it, track by track.\<close>

definition track_step :: "string \<Rightarrow> MatchResult \<Rightarrow> CatalogTrack option \<Rightarrow> CatalogTrack option" where
  "track_step k r acc =
     (if r_track_id r = k then Some (case acc of None \<Rightarrow> new_track r | Some t \<Rightarrow> see_again r t) else acc)"

lemma map_of_catalog_step: "map_of (catalog_step r m) k = track_step k r (map_of m k)"
  by (auto simp: catalog_step_def track_step_def update_conv split: option.splits)

lemma map_of_fold_catalog: "map_of (fold catalog_step rs m) k = fold (track_step k) rs (map_of m k)"
  by (induction rs arbitrary: m) (auto simp: map_of_catalog_step)

lemma distinct_fold_catalog: "distinct (map fst m) \<Longrightarrow> distinct (map fst (fold catalog_step rs m))"
  by (induction rs arbitrary: m) (auto simp: catalog_step_def distinct_update split: option.splits)

lemma Max_insert_max: "finite S \<Longrightarrow> Max (insert (max a b) S) = Max (insert a (insert b S))"
  for a b :: "'a::linorder"
  by (cases "S = {}") (simp_all add: max.assoc)

lemma fold_track_Some:
  assumes "c_track_id t = k" "0 < c_seen t"
  shows "\<exists>u. fold (track_step k) rs (Some t) = Some u \<and> c_track_id u = k \<and> c_title u = c_title t \<and>
    c_seen u = c_seen t + length (filter (\<lambda>r. r_track_id r = k) rs) \<and>
    c_best_score u = Max (insert (c_best_score t) (r_score ` {r \<in> set rs. r_track_id r = k}))"
  using assms
proof (induction rs arbitrary: t)
  case Nil
  then show ?case by simp
next
  case (Cons r rs)
  show ?case
  proof (cases "r_track_id r = k")
    case False
    then have "{x \<in> set (r # rs). r_track_id x = k} = {x \<in> set rs. r_track_id x = k}" by auto
    then show ?thesis using Cons False by (simp add: track_step_def)
  next
    case True
    let ?t = "see_again r t"
    let ?S = "r_score ` {x \<in> set rs. r_track_id x = k}"
    have t: "c_track_id ?t = k" "0 < c_seen ?t" "c_seen ?t = c_seen t + 1" "c_title ?t = c_title t"
      and best: "c_best_score ?t = max (c_best_score t) (r_score r)"
      using Cons.prems by (auto simp: see_again_def Let_def)
    have S: "r_score ` {x \<in> set (r # rs). r_track_id x = k} = insert (r_score r) ?S"
      using True by auto
    have fin: "finite ?S" by simp
    have max: "Max (insert (c_best_score ?t) ?S) = Max (insert (c_best_score t) (insert (r_score r) ?S))"
      unfolding best using fin by (rule Max_insert_max)
    have step: "fold (track_step k) (r # rs) (Some t) = fold (track_step k) rs (Some ?t)"
      using True by (simp add: track_step_def [of k r])
    obtain u where u: "fold (track_step k) rs (Some ?t) = Some u" "c_track_id u = k"
      "c_title u = c_title ?t" "c_seen u = c_seen ?t + length (filter (\<lambda>r. r_track_id r = k) rs)"
      "c_best_score u = Max (insert (c_best_score ?t) ?S)"
      using Cons.IH [OF t(1,2)] by blast
    show ?thesis
      unfolding step S using u t(3,4) max True by (intro exI [of _ u]) simp
  qed
qed

lemma fold_track_None:
  "fold (track_step k) rs None =
     (case dropWhile (\<lambda>r. r_track_id r \<noteq> k) rs of [] \<Rightarrow> None | r # rest \<Rightarrow> fold (track_step k) rest (Some (new_track r)))"
  by (induction rs) (simp_all add: track_step_def [of k _ None])

section \<open>Properties\<close>

definition sample_match :: "string \<Rightarrow> StoredMatch" where
  "sample_match i =
     \<lparr>m_query_id = i, m_ts = 5, m_elapsed_ms = 12, m_count = 0, m_filename = None,
      m_duration_sec = None, m_name = None, m_tags = None, m_query_waveform = Some [1 / 2],
      m_query_pitch = None, m_results = []\<rparr>"

definition empty_browser :: hbrowser where
  "empty_browser = open_browser Map.empty Map.empty"

lemma load_empty [simp]: "loadMatches empty_browser = []"
  by (simp add: empty_browser_def open_browser_def loadMatches_def get_doc_def)

text \<open>
  C1. However the pages save, delete, rename, tag and clear, and whatever the host admits in between,
  the history never loads more than \<open>MAX\<close> records.
\<close>

theorem history_bounded: "hist_reach b \<Longrightarrow> length (loadMatches b) \<le> HIST_MAX"
  using hist_reach_size length_loadMatches order_trans by blast

theorem history_bounded_witness:
  "length (loadMatches (fst (saveMatch (sample_match ''q1'') empty_browser))) \<le> HIST_MAX"
proof (rule history_bounded)
  have "hist_reach empty_browser"
    by (rule hist_start) (simp add: empty_browser_def open_browser_def)
  then show "hist_reach (fst (saveMatch (sample_match ''q1'') empty_browser))"
    by (rule hist_next) (rule hist_save)
qed

text \<open>
  C36. Saving puts the new record first and keeps the newest \<open>MAX\<close>; when the quota refuses the list it
  is stored once more without the waveforms, every other field intact; when that is refused too the
  old list stays. The cloud copy is sent in every case and carries the record's own fields.
\<close>

theorem saveMatch_stores:
  assumes "\<not> ssr b"
  shows "loadMatches (fst (saveMatch m b)) =
      (let all = take HIST_MAX (m # loadMatches b); slim = map drop_waveform all
       in if hist_admits all b then all else if hist_admits slim b then slim else loadMatches b) \<and>
    snd (saveMatch m b) = Some (sync_body m)"
  using assms unfolding saveMatch_def pushed_take Let_def hist_admits_def
  by (auto simp: writable_def loadMatches_def set_doc_def get_doc_def)

theorem saveMatch_stores_witness:
  "loadMatches (fst (saveMatch (sample_match ''q1'') empty_browser)) = [sample_match ''q1'']"
proof -
  have w: "\<not> ssr empty_browser" by (simp add: empty_browser_def open_browser_def)
  have adm: "hist_admits ms empty_browser" for ms
    by (simp add: hist_admits_def writable_def empty_browser_def open_browser_def)
  show ?thesis using saveMatch_stores [OF w, of "sample_match ''q1''"]
    by (simp add: adm HIST_MAX_def)
qed

text \<open>
  Deleting answers whether the id was there, and leaves exactly the records of other ids, in
  their order; when the host refuses the write the list stays, though the answer is still yes.
\<close>

theorem deleteMatch_spec:
  "snd (deleteMatch i b) = (\<exists>m\<in>set (loadMatches b). m_query_id m = i) \<and>
   loadMatches (fst (deleteMatch i b)) =
     (let rest = filter (\<lambda>m. m_query_id m \<noteq> i) (loadMatches b)
      in if hist_admits rest b then rest else loadMatches b)"
proof (cases "ssr b")
  case True
  then have "loadMatches b = []" by (simp add: loadMatches_def)
  then show ?thesis using True by (simp add: deleteMatch_def Let_def)
next
  case False
  let ?rest = "filter (\<lambda>m. m_query_id m \<noteq> i) (loadMatches b)"
  have same: "?rest = loadMatches b" if "length ?rest = length (loadMatches b)"
    using that unfolding length_filter_eq_iff by (simp add: filter_id_conv)
  have ans: "(length ?rest \<noteq> length (loadMatches b)) = (\<exists>m\<in>set (loadMatches b). m_query_id m = i)"
    unfolding length_filter_eq_iff by blast
  have eq: "deleteMatch i b = (if length ?rest = length (loadMatches b) then (b, False) else (writeMatches ?rest b, True))"
    using False by (simp add: deleteMatch_def Let_def)
  have wr: "loadMatches (writeMatches ?rest b) = (if hist_admits ?rest b then ?rest else loadMatches b)"
    using history.modify [of "\<lambda>_. ?rest" b] by simp
  show ?thesis
    by (cases "length ?rest = length (loadMatches b)")
      (simp_all only: eq wr same ans [symmetric] if_True if_False fst_conv snd_conv Let_def if_cancel simp_thms)
qed

text \<open>What an edit may do to a record.\<close>

definition edited :: "MatchPatch \<Rightarrow> StoredMatch \<Rightarrow> StoredMatch \<Rightarrow> bool" where
  "edited p m nxt \<longleftrightarrow>
     nxt\<lparr>m_name := None, m_tags := None\<rparr> = m\<lparr>m_name := None, m_tags := None\<rparr> \<and>
     (case pt_tags p of None \<Rightarrow> m_tags nxt = m_tags m
      | Some _ \<Rightarrow> \<exists>ts. m_tags nxt = Some ts \<and> list_all tag_ok ts \<and> distinct ts) \<and>
     (case pt_name p of None \<Rightarrow> m_name nxt = m_name m
      | Some v \<Rightarrow> m_name nxt = (case v of None \<Rightarrow> None | Some s \<Rightarrow> if trim s = [] then None else Some (trim s)))"

lemma edited_patch: "edited p m (patch_tags (pt_tags p) (patch_name (pt_name p) m))"
  using normaliseTags_ok
  by (auto simp: edited_def patch_tags_def patch_name_def split: option.splits)

text \<open>
  An edit changes the first record with that id and no other, and of that record only the name
  and the tags: a blank name removes it, tags end up in normal form; an id that is not stored changes
  nothing and gives nothing back.
\<close>

theorem updateMatch_spec:
  assumes "\<not> ssr b"
  shows "case findIndex (\<lambda>m. m_query_id m = i) (loadMatches b) of
      None \<Rightarrow> updateMatch i p b = (b, None) \<and> (\<forall>m\<in>set (loadMatches b). m_query_id m \<noteq> i)
    | Some k \<Rightarrow>
        (\<exists>nxt. snd (updateMatch i p b) = Some nxt \<and> m_query_id nxt = i \<and> edited p (loadMatches b ! k) nxt \<and>
           (let all = (loadMatches b)[k := nxt]
            in loadMatches (fst (updateMatch i p b)) = (if hist_admits all b then all else loadMatches b)))"
proof (cases "findIndex (\<lambda>m. m_query_id m = i) (loadMatches b)")
  case None
  then have "updateMatch i p b = (b, None)" using assms by (simp add: updateMatch_def Let_def)
  moreover have "\<forall>m\<in>set (loadMatches b). m_query_id m \<noteq> i" using None by (simp add: findIndex_None)
  ultimately show ?thesis by (simp add: None)
next
  case (Some k)
  let ?nxt = "patch_tags (pt_tags p) (patch_name (pt_name p) (loadMatches b ! k))"
  have res: "updateMatch i p b = (writeMatches ((loadMatches b)[k := ?nxt]) b, Some ?nxt)"
    using assms Some by (simp add: updateMatch_def Let_def)
  have "m_query_id ?nxt = i" using findIndex_Some [OF Some] by (simp add: patch_frame)
  moreover have "loadMatches (writeMatches ((loadMatches b)[k := ?nxt]) b) =
      (if hist_admits ((loadMatches b)[k := ?nxt]) b then (loadMatches b)[k := ?nxt] else loadMatches b)"
    using history.modify [of "\<lambda>_. (loadMatches b)[k := ?nxt]" b] by simp
  ultimately show ?thesis
    unfolding Some res Let_def option.case by (intro exI [of _ ?nxt]) (simp add: edited_patch)
qed

theorem updateMatch_spec_witness:
  "case findIndex (\<lambda>m. m_query_id m = ''q'') (loadMatches empty_browser) of
     None \<Rightarrow> updateMatch ''q'' \<lparr>pt_name = None, pt_tags = None\<rparr> empty_browser = (empty_browser, None)
   | Some _ \<Rightarrow> False"
  using updateMatch_spec [of empty_browser "''q''" "\<lparr>pt_name = None, pt_tags = None\<rparr>"]
  by (simp add: empty_browser_def open_browser_def loadMatches_def get_doc_def)

text \<open>
  Normal form of tags: the result holds each normalised non-empty input tag once, every tag is at
  most 32 code units, lower case and free of white space, and normalising again changes nothing.
\<close>

theorem normaliseTags_normal_form:
  "set (normaliseTags ts) = {v. \<exists>s. Some s \<in> set ts \<and> v = tag_norm s \<and> v \<noteq> []} \<and>
   distinct (normaliseTags ts) \<and>
   list_all (\<lambda>t. length t \<le> 32 \<and> list_all (\<lambda>c. \<not> is_space c \<and> lower_char c = c) t) (normaliseTags ts) \<and>
   normaliseTags (map Some (normaliseTags ts)) = normaliseTags ts"
proof -
  have nil: "tag_norm [] = []" by (simp add: tag_norm_def to_lower_def trim_def)
  then have "set (normaliseTags ts) = {v. \<exists>s. Some s \<in> set ts \<and> v = tag_norm s \<and> v \<noteq> []}"
    unfolding normaliseTags_def set_fold_tag_step by auto
  moreover have "normaliseTags (map Some (normaliseTags ts)) = normaliseTags ts"
    using fold_tag_step_id [of "[]" "normaliseTags ts"] normaliseTags_ok
    by (simp add: normaliseTags_def [of "map Some _"])
  ultimately show ?thesis
    using normaliseTags_ok [of ts] by (auto simp: list_all_iff tag_ok_def)
qed

text \<open>What the fields of a filter ask of a match, and the text a search looks at.\<close>

definition first_score :: "StoredMatch \<Rightarrow> rat" where
  "first_score m = (if m_results m = [] then 0 else r_score (hd (m_results m)))"

definition tags_of :: "StoredMatch \<Rightarrow> string set" where
  "tags_of m = (case m_tags m of None \<Rightarrow> {} | Some ts \<Rightarrow> set ts)"

definition searched :: "StoredMatch \<Rightarrow> string set" where
  "searched m =
     {to_lower (m_query_id m)} \<union> to_lower ` (set_option (m_name m) \<union> set_option (m_filename m)) \<union> tags_of m \<union>
     (\<Union>r\<in>set (m_results m). {to_lower (r_title r), to_lower (r_artist r)})"

definition wanted :: "MatchFilter \<Rightarrow> StoredMatch \<Rightarrow> bool" where
  "wanted f m \<longleftrightarrow>
     (case f_since f of None \<Rightarrow> 0 | Some s \<Rightarrow> s) \<le> m_ts m \<and>
     (\<forall>u. f_until f = Some u \<longrightarrow> m_ts m < u) \<and>
     (case f_minScore f of None \<Rightarrow> 0 | Some s \<Rightarrow> s) \<le> first_score m \<and>
     (\<forall>ts. f_tags f = Some ts \<and> ts \<noteq> [] \<longrightarrow> set ts \<inter> tags_of m \<noteq> {}) \<and>
     (\<forall>t. f_q f = Some t \<and> trim t \<noteq> [] \<longrightarrow> (\<exists>s\<in>searched m. sublist (to_lower (trim t)) s))"

text \<open>The six orders: what is compared, and which of two matches may stand before the other.\<close>

fun rank :: "MatchSort \<Rightarrow> StoredMatch \<Rightarrow> rat" where
  "rank ts_desc m = m_ts m"
| "rank ts_asc m = m_ts m"
| "rank score_desc m = first_score m"
| "rank score_asc m = first_score m"
| "rank latency_asc m = m_elapsed_ms m"
| "rank latency_desc m = m_elapsed_ms m"

definition in_order :: "MatchSort \<Rightarrow> StoredMatch \<Rightarrow> StoredMatch \<Rightarrow> bool" where
  "in_order how x y \<longleftrightarrow>
     (if how \<in> {ts_desc, score_desc, latency_desc} then rank how y \<le> rank how x else rank how x \<le> rank how y)"

lemma str_includes_sublist: "str_includes s q \<longleftrightarrow> sublist q s"
  by (induction s) (auto simp: sublist_Cons_right)

lemma best_top: "best_score m = first_score m"
  by (simp add: best_score_def first_score_def split: list.split)

lemma has_text_searched: "has_text q m \<longleftrightarrow> (\<exists>s\<in>searched m. sublist q s)"
  by (auto simp: has_text_def searched_def tags_of_def str_includes_sublist list_ex_iff nullish_def split: option.splits)

lemma match_passes_wanted: "match_passes f m \<longleftrightarrow> wanted f m"
proof -
  let ?q = "nullish (map_option (to_lower \<circ> trim) (f_q f)) []"
  have q: "(\<forall>t. f_q f = Some t \<and> trim t \<noteq> [] \<longrightarrow> (\<exists>s\<in>searched m. sublist (to_lower (trim t)) s)) \<longleftrightarrow>
      ?q = [] \<or> has_text ?q m"
    by (cases "f_q f") (auto simp: has_text_searched)
  have tags: "(\<forall>ts. f_tags f = Some ts \<and> ts \<noteq> [] \<longrightarrow> set ts \<inter> tags_of m \<noteq> {}) \<longleftrightarrow>
      \<not> (case (case f_tags f of None \<Rightarrow> None | Some [] \<Rightarrow> None | Some ts \<Rightarrow> Some ts) of None \<Rightarrow> False
         | Some ts \<Rightarrow> \<not> list_ex (\<lambda>t. t \<in> set ts) (nullish (m_tags m) []))"
    by (cases "f_tags f"; cases "m_tags m") (auto simp: tags_of_def list_ex_iff split: list.splits)
  show ?thesis
    unfolding wanted_def q tags match_passes_def Let_def best_top
    by (auto simp: nullish_def not_less not_le split: option.splits)
qed

interpretation match_cmp: js_comparator "match_cmp how" for how
  by (cases how) (simp_all add: by_key.js_comparator_axioms by_key_desc.js_comparator_axioms)

lemma match_cmp_order: "match_cmp how x y \<le> 0 \<longleftrightarrow> in_order how x y"
  by (cases how) (simp_all add: by_key_def by_key_desc_def in_order_def best_top)

lemma match_cmp_rank: "match_cmp how x y = 0 \<longleftrightarrow> rank how x = rank how y"
  by (cases how) (auto simp: by_key_def by_key_desc_def best_top)

lemma sort_ranks: "filter (\<lambda>m. rank how m = x) (sortMatches ms how) = filter (\<lambda>m. rank how m = x) ms"
proof (cases "\<exists>z\<in>set ms. rank how z = x")
  case True
  then obtain z where "rank how z = x" by blast
  then show ?thesis
    using match_cmp.sort_stable [of how z ms] by (simp add: sortMatches_def match_cmp_rank eq_commute [of _ "rank how _"])
next
  case False
  then show ?thesis by (simp add: sortMatches_def filter_empty_conv)
qed

text \<open>
  C35. What a filter and an order make of the history is exactly what their fields say. The matches kept
  are those that are not before the start and before the end of the time window, whose best score
  (that of the first result, or none) reaches the minimum, that share a tag with the filter when it
  names tags, and that contain the trimmed text in any case in their id, name, file name, tags, titles or
  artists. They stand newest or oldest first, by falling or rising best score, or by rising or falling latency,
  and those that agree in it keep the order in which they were stored, none lost or repeated; sorting
  before filtering gives the same list.
\<close>

theorem history_view_spec:
  "sorted_wrt (in_order how) (sortMatches (filterMatches ms f) how) \<and>
   mset (sortMatches (filterMatches ms f) how) = mset (filter (wanted f) ms) \<and>
   (\<forall>x. filter (\<lambda>m. rank how m = x) (sortMatches (filterMatches ms f) how) =
        filter (\<lambda>m. wanted f m \<and> rank how m = x) ms) \<and>
   filterMatches (sortMatches ms how) f = sortMatches (filterMatches ms f) how"
proof (intro conjI allI)
  show "sorted_wrt (in_order how) (sortMatches (filterMatches ms f) how)"
    using match_cmp.sort_sorted [of how] by (simp add: sortMatches_def match_cmp_order)
  show "mset (sortMatches (filterMatches ms f) how) = mset (filter (wanted f) ms)"
    by (simp add: sortMatches_def filterMatches_def match_passes_wanted)
  show "filter (\<lambda>m. rank how m = x) (sortMatches (filterMatches ms f) how) =
      filter (\<lambda>m. wanted f m \<and> rank how m = x) ms" for x
    by (simp add: sort_ranks) (simp add: filterMatches_def match_passes_wanted conj_commute)
  show "filterMatches (sortMatches ms how) f = sortMatches (filterMatches ms f) how"
    by (simp add: filterMatches_def sortMatches_def match_cmp.filter_sort)
qed

text \<open>
  The tag list of the history: every tag in use appears once with the number of its uses, the
  most used first and equal counts in the collation's order, for any consistent collation.
\<close>

theorem allTags_counts:
  assumes "js_comparator localeCompare"
  shows "distinct (map fst (allTags localeCompare ms)) \<and>
    set (allTags localeCompare ms) = (\<lambda>t. (t, count_list (all_tags ms) t)) ` set (all_tags ms) \<and>
    sorted_wrt (\<lambda>x y. snd y < snd x \<or> snd x = snd y \<and> localeCompare (fst x) (fst y) \<le> 0)
      (allTags localeCompare ms)"
proof -
  let ?counts = "fold (\<lambda>m. fold count_tag (nullish (m_tags m) [])) ms []"
  let ?cmp = "cmp_or (by_key_desc (\<lambda>(_, n). of_nat n)) (cmp_via localeCompare fst) :: string \<times> nat \<Rightarrow> _"
  have all: "allTags localeCompare ms = js_sort ?cmp ?counts" by (simp add: allTags_def)
  have dist: "distinct (map fst ?counts)" by (simp add: fold_fold_concat distinct_fold_count_tag)
  have "mset (map fst (js_sort ?cmp ?counts)) = mset (map fst ?counts)" by simp
  then have 1: "distinct (map fst (allTags localeCompare ms))"
    using dist unfolding all by (metis mset_eq_imp_distinct_iff)
  have "(t, n) \<in> set ?counts \<longleftrightarrow> t \<in> set (all_tags ms) \<and> n = count_list (all_tags ms) t" for t n
    using map_of_eq_Some_iff [OF dist, of t n] by (auto simp: tag_counts split: if_splits)
  then have 2: "set (allTags localeCompare ms) = (\<lambda>t. (t, count_list (all_tags ms) t)) ` set (all_tags ms)"
    unfolding all set_js_sort by auto
  have cmp: "js_comparator ?cmp" using assms by (rule js_comparator.tie_break)
  have le: "snd y < snd x \<or> snd x = snd y \<and> localeCompare (fst x) (fst y) \<le> 0" if "?cmp x y \<le> 0" for x y
    using that by (cases x; cases y) (auto simp: cmp_or_def by_key_desc_def cmp_via_def split: if_splits)
  have "sorted_wrt (\<lambda>x y. snd y < snd x \<or> snd x = snd y \<and> localeCompare (fst x) (fst y) \<le> 0)
      (allTags localeCompare ms)"
    unfolding all by (rule sorted_wrt_mono_rel [OF _ js_comparator.sort_sorted [OF cmp]]) (rule le)
  then show ?thesis using 1 2 by blast
qed

theorem allTags_counts_witness:
  "distinct (map fst (allTags str_cmp [(sample_match ''q'')\<lparr>m_tags := Some [''a'', ''b'', ''b'']\<rparr>])) \<and>
   allTags str_cmp [(sample_match ''q'')\<lparr>m_tags := Some [''a'', ''b'', ''b'']\<rparr>] = [(''b'', 2), (''a'', 1)]"
  using allTags_counts [OF str_cmp.js_comparator_axioms, of "[(sample_match ''q'')\<lparr>m_tags := Some [''a'', ''b'', ''b'']\<rparr>]"]
  by (simp add: allTags_def count_tag_def cmp_or_def by_key_desc_def cmp_via_def)

text \<open>The results of the stored history, and those that name a track.\<close>

definition all_results :: "hbrowser \<Rightarrow> MatchResult list" where
  "all_results b = concat (map m_results (loadMatches b))"

definition results_of :: "string \<Rightarrow> hbrowser \<Rightarrow> MatchResult list" where
  "results_of k b = filter (\<lambda>r. r_track_id r = k) (all_results b)"

lemma catalog_entry:
  "map_of (catalog_map (loadMatches b)) k = Some t \<Longrightarrow>
     results_of k b \<noteq> [] \<and> c_track_id t = k \<and> c_seen t = length (results_of k b) \<and>
     c_best_score t = Max (r_score ` set (results_of k b)) \<and> c_title t = r_title (hd (results_of k b))"
proof -
  assume e: "map_of (catalog_map (loadMatches b)) k = Some t"
  let ?p = "\<lambda>r. r_track_id r = k"
  have "fold (track_step k) (all_results b) None = Some t"
    using e by (simp add: catalog_map_def all_results_def fold_fold_concat map_of_fold_catalog)
  then obtain r rest where d: "dropWhile (\<lambda>r. \<not> ?p r) (all_results b) = r # rest"
    and f: "fold (track_step k) rest (Some (new_track r)) = Some t"
    by (auto simp: fold_track_None split: list.splits)
  have r: "?p r" using hd_dropWhile [of "\<lambda>r. \<not> ?p r" "all_results b"] by (simp add: d)
  have split: "all_results b = takeWhile (\<lambda>r. \<not> ?p r) (all_results b) @ r # rest"
    using takeWhile_dropWhile_id [of "\<lambda>r. \<not> ?p r" "all_results b"] by (simp add: d)
  have "filter ?p (takeWhile (\<lambda>r. \<not> ?p r) (all_results b)) = []"
    by (auto simp: filter_empty_conv dest: set_takeWhileD)
  then have res: "results_of k b = r # filter ?p rest"
    unfolding results_of_def by (subst split) (simp add: r)
  have "r_score ` {x \<in> set rest. ?p x} = r_score ` set (filter ?p rest)" by simp
  then show ?thesis
    using fold_track_Some [of "new_track r" k rest] f r by (simp add: new_track_def res)
qed

lemma catalog_keys: "k \<in> fst ` set (catalog_map (loadMatches b)) \<longleftrightarrow> k \<in> r_track_id ` set (all_results b)"
proof -
  have "map_of (catalog_map (loadMatches b)) k = None \<longleftrightarrow> (\<forall>r\<in>set (all_results b). r_track_id r \<noteq> k)"
  proof
    assume "map_of (catalog_map (loadMatches b)) k = None"
    then have "fold (track_step k) (all_results b) None = None"
      by (simp add: catalog_map_def all_results_def fold_fold_concat map_of_fold_catalog)
    moreover have "fold (track_step k) rest (Some (new_track r)) \<noteq> None"
      if d: "dropWhile (\<lambda>r. r_track_id r \<noteq> k) (all_results b) = r # rest" for r rest
      using fold_track_Some [of "new_track r" k rest] hd_dropWhile [of "\<lambda>r. r_track_id r \<noteq> k" "all_results b"]
      by (auto simp: d new_track_def)
    ultimately have "dropWhile (\<lambda>r. r_track_id r \<noteq> k) (all_results b) = []"
      by (simp add: fold_track_None split: list.splits)
    then show "\<forall>r\<in>set (all_results b). r_track_id r \<noteq> k" by (simp add: dropWhile_eq_Nil_conv)
  next
    assume "\<forall>r\<in>set (all_results b). r_track_id r \<noteq> k"
    then have "results_of k b = []" by (simp add: results_of_def filter_empty_conv)
    then show "map_of (catalog_map (loadMatches b)) k = None"
      using catalog_entry [of b k] by (cases "map_of (catalog_map (loadMatches b)) k") auto
  qed
  then show ?thesis by (auto simp: map_of_eq_None_iff)
qed

lemma distinct_catalog: "distinct (map fst (catalog_map ms))"
  by (simp add: catalog_map_def fold_fold_concat distinct_fold_catalog)

lemma catalog_ids: "map (c_track_id \<circ> snd) (catalog_map (loadMatches b)) = map fst (catalog_map (loadMatches b))"
  using catalog_entry distinct_catalog by (auto dest: map_of_is_SomeI)

text \<open>
  C37. The catalog lists every track of the stored history exactly once, most seen first; a track's
  count is the number of results that name it, its score the best of them, and its title that of the
  newest record.
\<close>

theorem deriveCatalog_spec:
  "distinct (map c_track_id (deriveCatalog b)) \<and>
   c_track_id ` set (deriveCatalog b) = r_track_id ` set (all_results b) \<and>
   list_all (\<lambda>t. let rs = results_of (c_track_id t) b
      in c_seen t = length rs \<and> c_best_score t = Max (r_score ` set rs) \<and> c_title t = r_title (hd rs))
     (deriveCatalog b) \<and>
   sorted_wrt (\<lambda>t u. c_seen u \<le> c_seen t) (deriveCatalog b)"
proof -
  let ?ts = "map snd (catalog_map (loadMatches b))"
  have "mset (map c_track_id (deriveCatalog b)) = mset (map c_track_id ?ts)"
    by (simp add: deriveCatalog_def multiset.map_comp)
  also have "map c_track_id ?ts = map (c_track_id \<circ> snd) (catalog_map (loadMatches b))" by simp
  finally have ids: "mset (map c_track_id (deriveCatalog b)) = mset (map fst (catalog_map (loadMatches b)))"
    unfolding catalog_ids .
  have 1: "distinct (map c_track_id (deriveCatalog b))"
    using mset_eq_imp_distinct_iff [OF ids] distinct_catalog by blast
  have 2: "c_track_id ` set (deriveCatalog b) = r_track_id ` set (all_results b)"
  proof -
    have "c_track_id ` set (deriveCatalog b) = fst ` set (catalog_map (loadMatches b))"
      using arg_cong [OF ids, of set_mset] by simp
    also have "\<dots> = r_track_id ` set (all_results b)" by (rule set_eqI) (rule catalog_keys)
    finally show ?thesis .
  qed
  have 3: "list_all (\<lambda>t. let rs = results_of (c_track_id t) b
      in c_seen t = length rs \<and> c_best_score t = Max (r_score ` set rs) \<and> c_title t = r_title (hd rs))
     (deriveCatalog b)"
    using catalog_entry map_of_is_SomeI [OF distinct_catalog]
    by (fastforce simp: list_all_iff deriveCatalog_def Let_def)
  have "sorted_wrt (\<lambda>t u. c_seen u \<le> c_seen t) (deriveCatalog b)"
    unfolding deriveCatalog_def
    by (rule sorted_wrt_mono_rel [OF _ by_key_desc.sort_sorted]) (simp add: by_key_desc_def)
  then show ?thesis using 1 2 3 by blast
qed

end
