(* ===== verification/Share.thy ===== *)
theory Share
  imports History
begin

text \<open>
  \<open>web/lib/share.ts\<close>: the payload of \<open>POST /api/share\<close>, built from a stored match or from a row of
  the cloud history. The optional fields of the TypeScript types are options; \<open>null\<close> and \<open>undefined\<close>
  are both \<^const>\<open>None\<close>, as the code's \<open>??\<close> treats them.
\<close>

section \<open>The wire format\<close>

record ShareResult =
  sr_track_id :: string
  sr_title :: string
  sr_artist :: "string option"
  sr_album :: "string option"
  sr_score :: rat
  sr_segment_index :: "int option"
  sr_preview_url :: "string option"
  sr_artwork_url :: "string option"
  sr_source :: "string option"
  sr_tempo_bpm :: "rat option"

record ShareInput =
  si_query_id :: string
  si_elapsed_ms :: rat
  si_count :: int
  si_results :: "ShareResult list"
  si_filename :: "string option"
  si_duration_sec :: "rat option"
  si_note :: "string option"

text \<open>A result row with any field missing, as \<open>normaliseResult\<close> takes it.\<close>

record PartialResult =
  pr_track_id :: "string option"
  pr_title :: "string option"
  pr_artist :: "string option"
  pr_album :: "string option"
  pr_score :: "rat option"
  pr_segment_index :: "int option"
  pr_preview_url :: "string option"
  pr_artwork_url :: "string option"
  pr_source :: "string option"
  pr_tempo_bpm :: "rat option"

record HistoryLike =
  hl_query_id :: string
  hl_elapsed_ms :: rat
  hl_count :: int
  hl_results :: "PartialResult list option"
  hl_filename :: "string option"
  hl_duration_sec :: "rat option"

definition normaliseResult :: "PartialResult \<Rightarrow> ShareResult" where
  "normaliseResult r =
     \<lparr>sr_track_id = nullish (pr_track_id r) [], sr_title = nullish (pr_title r) [],
      sr_artist = pr_artist r, sr_album = pr_album r, sr_score = nullish (pr_score r) 0,
      sr_segment_index = pr_segment_index r, sr_preview_url = pr_preview_url r,
      sr_artwork_url = pr_artwork_url r, sr_source = pr_source r, sr_tempo_bpm = pr_tempo_bpm r\<rparr>"

text \<open>A full result, and a wire result, read as a partial one.\<close>

definition partial_of :: "MatchResult \<Rightarrow> PartialResult" where
  "partial_of r =
     \<lparr>pr_track_id = Some (r_track_id r), pr_title = Some (r_title r), pr_artist = Some (r_artist r),
      pr_album = r_album r, pr_score = Some (r_score r), pr_segment_index = Some (r_segment_index r),
      pr_preview_url = r_preview_url r, pr_artwork_url = r_artwork_url r,
      pr_source = Some (r_source r), pr_tempo_bpm = r_tempo_bpm r\<rparr>"

definition partial_of_share :: "ShareResult \<Rightarrow> PartialResult" where
  "partial_of_share r =
     \<lparr>pr_track_id = Some (sr_track_id r), pr_title = Some (sr_title r), pr_artist = sr_artist r,
      pr_album = sr_album r, pr_score = Some (sr_score r), pr_segment_index = sr_segment_index r,
      pr_preview_url = sr_preview_url r, pr_artwork_url = sr_artwork_url r,
      pr_source = sr_source r, pr_tempo_bpm = sr_tempo_bpm r\<rparr>"

definition toShareInput :: "StoredMatch \<Rightarrow> ShareInput" where
  "toShareInput m =
     \<lparr>si_query_id = m_query_id m, si_elapsed_ms = m_elapsed_ms m, si_count = m_count m,
      si_results = map (normaliseResult \<circ> partial_of) (m_results m),
      si_filename = m_filename m, si_duration_sec = m_duration_sec m, si_note = None\<rparr>"

definition historyToShareInput :: "HistoryLike \<Rightarrow> string option \<Rightarrow> ShareInput" where
  "historyToShareInput it note =
     \<lparr>si_query_id = hl_query_id it, si_elapsed_ms = hl_elapsed_ms it, si_count = hl_count it,
      si_results = map normaliseResult (nullish (hl_results it) []),
      si_filename = hl_filename it, si_duration_sec = hl_duration_sec it, si_note = note\<rparr>"

definition isShareable :: "ShareInput option \<Rightarrow> bool" where
  "isShareable input =
     (case input of
        None \<Rightarrow> False
      | Some i \<Rightarrow>
          if si_query_id i = [] then False
          else if length (si_results i) = 0 then False
          else if length (si_results i) > 50 then False
          else True)"

section \<open>Properties\<close>

text \<open>The row the server keeps of a stored match: the fields its schema has.\<close>

definition history_row :: "StoredMatch \<Rightarrow> HistoryLike" where
  "history_row m =
     \<lparr>hl_query_id = m_query_id m, hl_elapsed_ms = m_elapsed_ms m, hl_count = m_count m,
      hl_results = Some (map (partial_of_share \<circ> normaliseResult \<circ> partial_of) (m_results m)),
      hl_filename = m_filename m, hl_duration_sec = m_duration_sec m\<rparr>"

lemma normaliseResult_stable [simp]: "normaliseResult (partial_of_share r) = r"
  by (simp add: normaliseResult_def partial_of_share_def)

text \<open>
  The two call sites stay in lockstep: sharing a fresh capture and sharing the row the server
  keeps of it send the same payload, and normalising what was normalised changes nothing.
\<close>

theorem share_lockstep:
  "historyToShareInput (history_row m) None = toShareInput m \<and>
   normaliseResult (partial_of_share (normaliseResult r)) = normaliseResult r"
  by (simp add: historyToShareInput_def history_row_def toShareInput_def)

text \<open>
  A stored match can be shared exactly when it has an id and between 1 and 50 results, and the
  payload then carries every result, in order, with its id, title and score.
\<close>

theorem toShareInput_shareable:
  "isShareable (Some (toShareInput m)) =
     (m_query_id m \<noteq> [] \<and> 1 \<le> length (m_results m) \<and> length (m_results m) \<le> 50) \<and>
   map (\<lambda>r. (sr_track_id r, sr_title r, sr_score r)) (si_results (toShareInput m)) =
     map (\<lambda>r. (r_track_id r, r_title r, r_score r)) (m_results m)"
  by (auto simp: isShareable_def toShareInput_def normaliseResult_def partial_of_def Suc_le_eq)

end
