(* ===== verification/BulkSelect.thy ===== *)
theory BulkSelect
  imports Arrays
begin

text \<open>
  \<open>web/lib/bulkSelect.ts\<close>: the helpers behind bulk selection on the history page. A selection is a
  \<open>Set\<close> of ids, kept in insertion order; every operation builds a new set and leaves the old one
  alone.
\<close>

section \<open>The operations\<close>

definition toggleId :: "string list \<Rightarrow> string \<Rightarrow> string list" where
  "toggleId prev i = (if i \<in> set prev then jset_delete i prev else jset_add i prev)"

definition allOn :: "string list \<Rightarrow> string list \<Rightarrow> bool" where
  "allOn prev visible \<longleftrightarrow> length visible > 0 \<and> list_all (\<lambda>i. i \<in> set prev) visible"

definition toggleAll :: "string list \<Rightarrow> string list \<Rightarrow> string list" where
  "toggleAll prev visible =
     (if allOn prev visible then jset_delete_all visible prev else jset_add_all visible prev)"

definition pruneStale :: "string list \<Rightarrow> string list \<Rightarrow> string list" where
  "pruneStale prev visible =
     (let vis = jset_of visible
      in fold (\<lambda>i next. if i \<in> set vis then jset_add i next else next) prev [])"

record SelectionSummary =
  count :: nat
  allSelected :: bool
  someSelected :: bool

definition summarize :: "string list \<Rightarrow> string list \<Rightarrow> SelectionSummary" where
  "summarize prev visible =
     (let all = allOn prev visible; n = length prev
      in \<lparr>count = n, allSelected = all, someSelected = n > 0 \<and> \<not> all\<rparr>)"

definition norm_tag :: "string \<Rightarrow> string" where
  "norm_tag s = to_lower (trim s)"

definition add_tag :: "string \<Rightarrow> string list \<Rightarrow> string list" where
  "add_tag t out = (let v = norm_tag t in if v \<noteq> [] then jset_add v out else out)"

definition mergeTags :: "string list \<Rightarrow> string list \<Rightarrow> string list" where
  "mergeTags existing incoming = js_sort str_cmp (fold add_tag incoming (fold add_tag existing []))"

section \<open>Selections stay sets\<close>

lemma distinct_toggleId: "distinct prev \<Longrightarrow> distinct (toggleId prev i)"
  by (simp add: toggleId_def distinct_jset_delete)

lemma set_toggleId: "set (toggleId prev i) = (if i \<in> set prev then set prev - {i} else insert i (set prev))"
  by (simp add: toggleId_def)

lemma allOn_iff: "allOn prev visible \<longleftrightarrow> visible \<noteq> [] \<and> set visible \<subseteq> set prev"
  by (auto simp: allOn_def list_all_iff)

lemma distinct_toggleAll: "distinct prev \<Longrightarrow> distinct (toggleAll prev visible)"
  by (simp add: toggleAll_def distinct_jset_delete_all)

lemma set_toggleAll:
  "set (toggleAll prev visible) =
     (if set visible \<subseteq> set prev then set prev - set visible else set prev \<union> set visible)"
  by (auto simp: toggleAll_def allOn_iff)

lemma pruneStale_fold:
  "fold (\<lambda>i next. if i \<in> V then jset_add i next else next) prev acc =
     jset_add_all (filter (\<lambda>i. i \<in> V) prev) acc"
  by (induction prev arbitrary: acc) auto

lemma pruneStale_filter: "distinct prev \<Longrightarrow> pruneStale prev visible = filter (\<lambda>i. i \<in> set visible) prev"
  by (simp add: pruneStale_def Let_def pruneStale_fold flip: jset_of_def) (simp add: jset_of_distinct)

lemma set_fold_add_tag: "set (fold add_tag ts acc) = set acc \<union> {v \<in> norm_tag ` set ts. v \<noteq> []}"
  by (induction ts arbitrary: acc) (auto simp: add_tag_def Let_def)

lemma distinct_fold_add_tag: "distinct acc \<Longrightarrow> distinct (fold add_tag ts acc)"
  by (induction ts arbitrary: acc) (auto simp: add_tag_def Let_def)

lemma set_mergeTags: "set (mergeTags es is) = {v \<in> norm_tag ` (set es \<union> set is). v \<noteq> []}"
  by (auto simp: mergeTags_def set_fold_add_tag)

lemma distinct_mergeTags: "distinct (mergeTags es is)"
  by (simp add: mergeTags_def distinct_fold_add_tag)

lemma norm_tag_idem [simp]: "norm_tag (norm_tag t) = norm_tag t"
  by (simp add: norm_tag_def trim_to_lower)

lemma mergeTags_eq_iff:
  "set (mergeTags a b) = set (mergeTags c d) \<Longrightarrow> mergeTags a b = mergeTags c d"
proof -
  assume s: "set (mergeTags a b) = set (mergeTags c d)"
  have m: "mset (mergeTags a b) = mset (mergeTags c d)"
    using s by (simp add: set_eq_iff_mset_eq_distinct distinct_mergeTags)
  show ?thesis
  proof (rule str_cmp.sorted_stable_unique)
    show "sorted_wrt (\<lambda>x y. str_cmp x y \<le> 0) (mergeTags a b)"
      and "sorted_wrt (\<lambda>x y. str_cmp x y \<le> 0) (mergeTags c d)"
      unfolding mergeTags_def by (rule str_cmp.sort_sorted)+
    fix z
    have "filter (\<lambda>y. z = y) xs = (if z \<in> set xs then [z] else [])" if "distinct xs" for xs :: "string list"
      using that by (induction xs) auto
    then show "filter (\<lambda>y. str_cmp z y = 0) (mergeTags a b) = filter (\<lambda>y. str_cmp z y = 0) (mergeTags c d)"
      using s by (simp add: distinct_mergeTags)
  qed
qed

section \<open>Properties\<close>

text \<open>
  Toggling every visible row is, on sets of ids, the symmetric choice the checkbox stands for:
  when all visible rows are selected they are the ones removed, otherwise they are all added, and
  rows that are not visible keep their state; applied twice to a page that is not partly selected
  it gives back the same selection.
\<close>

theorem toggleAll_contract:
  "set (toggleAll prev visible) - set visible = set prev - set visible \<and>
   (set visible \<inter> set (toggleAll prev visible) = (if set visible \<subseteq> set prev then {} else set visible)) \<and>
   (set visible \<inter> set prev \<in> {{}, set visible} \<longrightarrow>
      set (toggleAll (toggleAll prev visible) visible) = set prev)"
  by (auto simp: set_toggleAll)

theorem toggleAll_contract_witness:
  "set (toggleAll (toggleAll [''a'', ''z''] [''a'']) [''a'']) = {''a'', ''z''} \<and>
   set (toggleAll [''a'', ''z''] [''a'']) - {''a''} = {''z''}"
  using toggleAll_contract [of "[''a'', ''z'']" "[''a'']"] by auto

end
