(* ===== verification/Dates.thy ===== *)
theory Dates
  imports Numbers
begin

text \<open>
  The part of \<open>Date\<close> the client uses: the UTC fields of a time value in milliseconds since 1970, as
  the language defines them (proleptic Gregorian calendar, no leap seconds), the ISO text, and the
  local fields as the UTC fields of the time shifted by the host's offset. A time value out of range
  (more than \<open>8.64e15\<close> from the epoch) is an invalid date, on which \<open>toISOString\<close> throws.
\<close>

section \<open>The calendar\<close>

definition MS_PER_DAY :: int where "MS_PER_DAY = 86400000"

definition day_from_year :: "int \<Rightarrow> int" where
  "day_from_year y = 365 * (y - 1970) + (y - 1969) div 4 - (y - 1901) div 100 + (y - 1601) div 400"

definition leap_year :: "int \<Rightarrow> bool" where
  "leap_year y \<longleftrightarrow> y mod 4 = 0 \<and> (y mod 100 \<noteq> 0 \<or> y mod 400 = 0)"

definition year_from_day :: "int \<Rightarrow> int" where
  "year_from_day d =
     (let y = 400 * d div 146097 + 1970
      in if day_from_year (y + 1) \<le> d then y + 1 else if day_from_year y \<le> d then y else y - 1)"

text \<open>The month of a day within the year, counted from 0, and the day of the month, from 1.\<close>

definition month_starts :: "bool \<Rightarrow> int list" where
  "month_starts leap =
     (if leap then [0, 31, 60, 91, 121, 152, 182, 213, 244, 274, 305, 335]
      else [0, 31, 59, 90, 120, 151, 181, 212, 243, 273, 304, 334])"

definition month_day :: "bool \<Rightarrow> int \<Rightarrow> int \<times> int" where
  "month_day leap n =
     (let before = takeWhile (\<lambda>s. s \<le> n) (month_starts leap)
      in (int (length before) - 1, n - last before + 1))"

record date_fields =
  d_year :: int
  d_month :: int
  d_day :: int
  d_hour :: int
  d_minute :: int
  d_second :: int
  d_milli :: int

definition utc_fields :: "int \<Rightarrow> date_fields" where
  "utc_fields t =
     (let d = t div MS_PER_DAY; r = t mod MS_PER_DAY; y = year_from_day d;
          (m, dd) = month_day (leap_year y) (d - day_from_year y)
      in \<lparr>d_year = y, d_month = m, d_day = dd, d_hour = r div 3600000,
          d_minute = r div 60000 mod 60, d_second = r div 1000 mod 60, d_milli = r mod 1000\<rparr>)"

text \<open>The time of a time value, and back: the reference the fields are checked against.\<close>

definition time_of_fields :: "date_fields \<Rightarrow> int" where
  "time_of_fields f =
     (day_from_year (d_year f) + month_starts (leap_year (d_year f)) ! nat (d_month f) + d_day f - 1) * MS_PER_DAY
     + d_hour f * 3600000 + d_minute f * 60000 + d_second f * 1000 + d_milli f"

section \<open>Text\<close>

definition pad_start :: "nat \<Rightarrow> char \<Rightarrow> string \<Rightarrow> string" where
  "pad_start n c s = replicate (n - length s) c @ s"

definition pad2 :: "int \<Rightarrow> string" where
  "pad2 n = pad_start 2 (CHR ''0'') (int_to_string n)"

definition iso_year :: "int \<Rightarrow> string" where
  "iso_year y =
     (if 0 \<le> y \<and> y \<le> 9999 then pad_start 4 (CHR ''0'') (int_to_string y)
      else (if y < 0 then ''-'' else ''+'') @ pad_start 6 (CHR ''0'') (int_to_string \<bar>y\<bar>))"

text \<open>\<open>new Date(ms).toISOString()\<close>; \<^const>\<open>None\<close> is the \<open>RangeError\<close> of an invalid date.\<close>

definition trunc :: "rat \<Rightarrow> int" where
  "trunc x = (if x < 0 then - floor (- x) else floor x)"

definition time_clip :: "rat \<Rightarrow> int option" where
  "time_clip ms = (if \<bar>ms\<bar> \<le> 8640000000000000 then Some (trunc ms) else None)"

definition toISOString :: "rat \<Rightarrow> string option" where
  "toISOString ms =
     (case time_clip ms of
        None \<Rightarrow> None
      | Some t \<Rightarrow>
          (let f = utc_fields t
           in Some (iso_year (d_year f) @ ''-'' @ pad2 (d_month f + 1) @ ''-'' @ pad2 (d_day f) @ ''T'' @
                pad2 (d_hour f) @ '':'' @ pad2 (d_minute f) @ '':'' @ pad2 (d_second f) @ ''.'' @
                pad_start 3 (CHR ''0'') (int_to_string (d_milli f)) @ ''Z'')))"

section \<open>The calendar is right\<close>

lemma div_bounds: "0 < k \<Longrightarrow> k * (x div k) \<le> x \<and> x < k * (x div k) + k" for x k :: int
  using mult_div_mod_eq [of k x] pos_mod_bound [of k x] pos_mod_sign [of k x] by linarith

lemma year_below: "146097 * q \<le> 400 * d \<Longrightarrow> 4 * a \<le> q + 1969 - 1969 \<Longrightarrow>
   q + 1969 - 1901 < 100 * b + 100 \<Longrightarrow> 400 * c \<le> q + 1969 - 1601 \<Longrightarrow>
   365 * (q + 1969 - 1970) + a - b + c \<le> d" for q a b c d :: int
  by (simp add: algebra_simps)

lemma year_above: "400 * d < 146097 * q + 146097 \<Longrightarrow> q + 1972 - 1969 < 4 * a + 4 \<Longrightarrow>
   100 * b \<le> q + 1972 - 1901 \<Longrightarrow> q + 1972 - 1601 < 400 * c + 400 \<Longrightarrow>
   d < 365 * (q + 1972 - 1970) + a - b + c" for q a b c d :: int
  by (simp add: algebra_simps)

lemma year_from_day_bounds:
  "day_from_year (year_from_day d) \<le> d \<and> d < day_from_year (year_from_day d + 1)"
proof -
  let ?q = "400 * d div 146097"
  note db = div_bounds [OF zero_less_numeral, THEN conjunct1] div_bounds [OF zero_less_numeral, THEN conjunct2]
  have 1: "day_from_year (?q + 1969) \<le> d"
    unfolding day_from_year_def by (rule year_below) (rule db)+
  have 2: "d < day_from_year (?q + 1972)"
    unfolding day_from_year_def by (rule year_above) (rule db)+
  have e: "?q + 1970 - 1 = ?q + 1969" "?q + 1969 + 1 = ?q + 1970" "?q + 1970 + 1 + 1 = ?q + 1972" by simp_all
  show ?thesis
    unfolding year_from_day_def Let_def
  proof (split if_split, intro conjI impI)
    assume n: "\<not> day_from_year (?q + 1970 + 1) \<le> d"
    show "day_from_year (if day_from_year (?q + 1970) \<le> d then ?q + 1970 else ?q + 1970 - 1) \<le> d"
      and "d < day_from_year ((if day_from_year (?q + 1970) \<le> d then ?q + 1970 else ?q + 1970 - 1) + 1)"
      using n 1 by (auto simp: e not_le)
  qed (use 2 in \<open>simp_all only: e\<close>)
qed

lemma next_residue: "0 \<le> m \<Longrightarrow> m < k \<Longrightarrow> m \<noteq> k - 1 \<Longrightarrow> 0 \<le> m + 1 \<and> m + 1 < k \<and> m + 1 \<noteq> 0"
  for m k :: int
  by auto

lemma div_step: "(x + 1) div k - x div k = (if (x + 1) mod k = 0 then 1 else 0)"
  if k: "1 < k" for x k :: int
proof (cases "x mod k = k - 1")
  case True
  have k0: "0 \<le> (0::int)" "0 < k" using k by simp_all
  have "x + 1 = k * (x div k) + (x mod k + 1)" by (simp only: add.assoc [symmetric] mult_div_mod_eq)
  also have "\<dots> = k * (x div k + 1) + 0" unfolding True by (simp add: distrib_left)
  finally have e: "x + 1 = k * (x div k + 1) + 0" .
  have "(x + 1) div k = x div k + 1" using e k0 by (rule int_div_pos_eq)
  moreover have "(x + 1) mod k = 0" using e k0 by (rule int_mod_pos_eq)
  ultimately show ?thesis by simp
next
  case False
  have e: "x + 1 = k * (x div k) + (x mod k + 1)" by (simp only: add.assoc [symmetric] mult_div_mod_eq)
  have k0: "0 < k" using k by simp
  note r = next_residue [OF pos_mod_sign [OF k0] pos_mod_bound [OF k0] False]
  have "(x + 1) div k = x div k" using e r by (intro int_div_pos_eq [of _ _ _ "x mod k + 1"]) blast+
  moreover have "(x + 1) mod k = x mod k + 1" using e r by (intro int_mod_pos_eq [of _ _ "x div k"]) blast+
  ultimately show ?thesis using r by simp
qed

lemma year_diff:
  assumes "a' - a = i" "b' - b = j" "c' - c = k"
  shows "365 * (y + 1 - 1970) + a' - b' + c' - (365 * (y - 1970) + a - b + c) = 365 + i - j + (k :: int)"
  unfolding assms [symmetric] by simp

lemma leap_sum: "(R \<Longrightarrow> Q) \<Longrightarrow> (Q \<Longrightarrow> P) \<Longrightarrow>
   365 + (if P then 1 else 0) - (if Q then 1 else 0) + (if R then 1 else 0) =
     (if P \<and> (\<not> Q \<or> R) then 366 else 365 :: int)"
  by (cases P; cases Q; cases R) simp_all

lemma year_length: "day_from_year (y + 1) - day_from_year y = (if leap_year y then 366 else 365)"
proof -
  have shift: "(y - c * k) mod k = y mod k" for c k :: int
    using mod_mult_self1 [of "y - c * k" c k] by (simp only: diff_add_cancel)
  have p: "492 * 4 = (1968 :: int)" "19 * 100 = (1900 :: int)" "4 * 400 = (1600 :: int)" by simp_all
  note m = shift [where c = 492 and k = 4, unfolded p] shift [where c = 19 and k = 100, unfolded p]
    shift [where c = 4 and k = 400, unfolded p]
  have i: "y mod 400 = 0 \<Longrightarrow> y mod 100 = 0" "y mod 100 = 0 \<Longrightarrow> y mod 4 = 0"
    using dvd_trans [of 100 400 y] dvd_trans [of 4 100 y] by (simp_all add: mod_eq_0_iff_dvd)
  have e: "y + 1 - 1969 = y - 1969 + 1" "y + 1 - 1901 = y - 1901 + 1" "y + 1 - 1601 = y - 1601 + 1"
    "y - 1969 + 1 = y - 1968" "y - 1901 + 1 = y - 1900" "y - 1601 + 1 = y - 1600"
    by simp_all
  have "(y + 1 - 1969) div 4 - (y - 1969) div 4 = (if y mod 4 = 0 then 1 else 0)"
    using div_step [of 4 "y - 1969"] unfolding e(1) e(4) m(1) by simp
  moreover have "(y + 1 - 1901) div 100 - (y - 1901) div 100 = (if y mod 100 = 0 then 1 else 0)"
    using div_step [of 100 "y - 1901"] unfolding e(2) e(5) m(2) by simp
  moreover have "(y + 1 - 1601) div 400 - (y - 1601) div 400 = (if y mod 400 = 0 then 1 else 0)"
    using div_step [of 400 "y - 1601"] unfolding e(3) e(6) m(3) by simp
  ultimately have "day_from_year (y + 1) - day_from_year y =
      365 + (if y mod 4 = 0 then 1 else 0) - (if y mod 100 = 0 then 1 else 0) + (if y mod 400 = 0 then 1 else 0)"
    unfolding day_from_year_def by (rule year_diff)
  also have "\<dots> = (if leap_year y then 366 else 365)" unfolding leap_year_def by (rule leap_sum) (fact i)+
  finally show ?thesis .
qed

lemma day_of_year:
  "0 \<le> d - day_from_year (year_from_day d) \<and>
   d - day_from_year (year_from_day d) < (if leap_year (year_from_day d) then 366 else 365)"
  using year_from_day_bounds [of d] year_length [of "year_from_day d"] by (auto split: if_splits)

lemma month_day_correct:
  assumes "0 \<le> n" and "n < (if leap then 366 else 365)"
  shows "(case month_day leap n of (m, dd) \<Rightarrow>
     0 \<le> m \<and> m \<le> 11 \<and> 1 \<le> dd \<and> dd \<le> 31 \<and> month_starts leap ! nat m + dd - 1 = n)"
  using assms by (cases leap) (auto simp: month_day_def month_starts_def Let_def split: if_splits)

lemma time_of_day:
  assumes "0 \<le> r" "r < MS_PER_DAY"
  shows "r div 3600000 * 3600000 + r div 60000 mod 60 * 60000 + r div 1000 mod 60 * 1000 + r mod 1000 = r"
    and "0 \<le> r div 3600000 \<and> r div 3600000 < 24"
proof -
  have 1: "r = 1000 * (r div 1000) + r mod 1000" by simp
  have 2: "r div 1000 = 60 * (r div 60000) + r div 1000 mod 60"
    using mult_div_mod_eq [of 60 "r div 1000"] div_mult2_eq' [of r 1000 60] by (simp add: zdiv_zmult2_eq [of 60 r 1000, simplified])
  have 3: "r div 60000 = 60 * (r div 3600000) + r div 60000 mod 60"
    using mult_div_mod_eq [of 60 "r div 60000"] by (simp add: zdiv_zmult2_eq [of 60 r 60000, simplified])
  show "r div 3600000 * 3600000 + r div 60000 mod 60 * 60000 + r div 1000 mod 60 * 1000 + r mod 1000 = r"
    using 1 2 3 by linarith
  show "0 \<le> r div 3600000 \<and> r div 3600000 < 24"
    using assms by (auto simp: MS_PER_DAY_def pos_imp_zdiv_nonneg_iff)
qed

text \<open>Every time value is the time of its UTC fields, and the fields are in range.\<close>

lemma utc_fields_correct:
  "time_of_fields (utc_fields t) = t \<and>
   0 \<le> d_month (utc_fields t) \<and> d_month (utc_fields t) \<le> 11 \<and>
   1 \<le> d_day (utc_fields t) \<and> d_day (utc_fields t) \<le> 31 \<and>
   0 \<le> d_hour (utc_fields t) \<and> d_hour (utc_fields t) < 24"
proof -
  let ?d = "t div MS_PER_DAY" and ?r = "t mod MS_PER_DAY"
  let ?y = "year_from_day ?d"
  obtain m dd where md: "month_day (leap_year ?y) (?d - day_from_year ?y) = (m, dd)" by force
  have r: "0 \<le> ?r" "?r < MS_PER_DAY" by (simp_all add: MS_PER_DAY_def)
  have n: "0 \<le> ?d - day_from_year ?y" "?d - day_from_year ?y < (if leap_year ?y then 366 else 365)"
    using day_of_year [of ?d] by blast+
  have c: "0 \<le> m" "m \<le> 11" "1 \<le> dd" "dd \<le> 31" "month_starts (leap_year ?y) ! nat m + dd - 1 = ?d - day_from_year ?y"
    using month_day_correct [OF n] by (simp_all add: md)
  have day: "day_from_year ?y + month_starts (leap_year ?y) ! nat m + dd - 1 = ?d" using c(5) by linarith
  have f: "utc_fields t = \<lparr>d_year = ?y, d_month = m, d_day = dd, d_hour = ?r div 3600000,
      d_minute = ?r div 60000 mod 60, d_second = ?r div 1000 mod 60, d_milli = ?r mod 1000\<rparr>"
    by (simp only: utc_fields_def Let_def md prod.case)
  have "time_of_fields (utc_fields t) = ?d * MS_PER_DAY + ?r div 3600000 * 3600000
      + ?r div 60000 mod 60 * 60000 + ?r div 1000 mod 60 * 1000 + ?r mod 1000"
    by (simp only: f time_of_fields_def date_fields.simps day)
  also have "\<dots> = ?d * MS_PER_DAY + ?r" using time_of_day(1) [OF r] by linarith
  also have "\<dots> = t" by (rule div_mult_mod_eq)
  finally show ?thesis using c(1-4) time_of_day(2) [OF r] by (simp only: f date_fields.simps simp_thms)
qed

end
