(* ===== verification/NumberText.thy ===== *)
theory NumberText
  imports Numbers
begin

text \<open>
  \<open>String(x)\<close> of a finite number: the shortest decimal that reads back as the same double, laid out
  as the language fixes it. For the natural numbers the code keeps as text (times, counters), the
  text is their digits and \<open>Number\<close> reads it back.
\<close>

section \<open>\<open>String(x)\<close> of a number\<close>

text \<open>
  \<open>decimal_form x k\<close> is the closest decimal with \<open>k\<close> significant digits, as the digits and the
  position \<open>n\<close> of the point; the text uses the least \<open>k\<close> that reads back as the same double.
\<close>

fun exp10_above :: "nat \<Rightarrow> rat \<Rightarrow> int \<Rightarrow> int" where
  "exp10_above 0 x n = n"
| "exp10_above (Suc fuel) x n =
     (if x < pow10 (n - 1) then exp10_above fuel x (n - 1)
      else if pow10 n \<le> x then exp10_above fuel x (n + 1) else n)"

definition decimal_form :: "rat \<Rightarrow> nat \<Rightarrow> nat \<times> int" where
  "decimal_form x k =
     (let n = exp10_above 400 x 1; s = nat (math_round (x / pow10 (n - int k)))
      in if s = 10 ^ k then (10 ^ (k - 1), n + 1) else (s, n))"

fun shortest_form :: "nat \<Rightarrow> rat \<Rightarrow> nat \<Rightarrow> nat \<times> int" where
  "shortest_form 0 x k = decimal_form x k"
| "shortest_form (Suc fuel) x k =
     (let (s, n) = decimal_form x k
      in if dbl (of_nat s * pow10 (n - int k)) = dbl x then (s, n) else shortest_form fuel x (Suc k))"

definition exponent_text :: "int \<Rightarrow> string" where
  "exponent_text e = (if e < 0 then ''e-'' else ''e+'') @ nat_digits (nat \<bar>e\<bar>)"

definition layout_number :: "string \<Rightarrow> int \<Rightarrow> string" where
  "layout_number ds n =
     (let k = int (length ds) in
      if k \<le> n \<and> n \<le> 21 then ds @ replicate (nat (n - k)) (CHR ''0'')
      else if 0 < n \<and> n \<le> 21 then take (nat n) ds @ ''.'' @ drop (nat n) ds
      else if - 6 < n \<and> n \<le> 0 then ''0.'' @ replicate (nat (- n)) (CHR ''0'') @ ds
      else if k = 1 then ds @ exponent_text (n - 1)
      else take 1 ds @ ''.'' @ drop 1 ds @ exponent_text (n - 1))"

definition num_to_string :: "rat \<Rightarrow> string" where
  "num_to_string x =
     (if x = 0 then ''0''
      else let (s, n) = shortest_form 16 \<bar>x\<bar> 1; body = layout_number (nat_digits s) n
           in if x < 0 then CHR ''-'' # body else body)"

section \<open>Natural numbers\<close>

lemma nat_digits_length: "10 \<le> n \<Longrightarrow> length (nat_digits n) = Suc (length (nat_digits (n div 10)))"
  by (simp add: nat_digits.simps [of n])

lemma nat_digits_length1: "n < 10 \<Longrightarrow> length (nat_digits n) = 1"
  by (simp add: nat_digits.simps [of n])

lemma nat_digits_inject [simp]: "nat_digits m = nat_digits n \<longleftrightarrow> m = n"
  by (metis dec_nat_digits)

lemma nat_digits_bounds:
  "0 < n \<Longrightarrow> 10 ^ (length (nat_digits n) - 1) \<le> n \<and> n < 10 ^ length (nat_digits n)"
proof (induction n rule: nat_digits.induct)
  case (1 n)
  show ?case
  proof (cases "n < 10")
    case False
    define l where "l = length (nat_digits (n div 10)) - 1"
    have l: "length (nat_digits (n div 10)) = Suc l" by (simp add: l_def)
    have "10 ^ l \<le> n div 10" "n div 10 < 10 ^ Suc l" using 1 False by (simp_all add: l)
    then have "10 * 10 ^ l \<le> n" "n < 10 * 10 ^ Suc l" by linarith+
    moreover have "length (nat_digits n) = Suc (Suc l)" using False by (simp add: nat_digits_length l)
    ultimately show ?thesis by simp
  qed (use 1 in \<open>simp add: nat_digits_length1\<close>)
qed

lemma nat_digits_shift: "0 < s \<Longrightarrow> nat_digits (s * 10 ^ k) = nat_digits s @ replicate k (CHR ''0'')"
proof (induction k)
  case (Suc k)
  have "nat_digits (10 * m) = nat_digits m @ [digit_char 0]" if "0 < m" for m
    using that by (subst nat_digits.simps) simp
  then have "nat_digits (s * 10 ^ Suc k) = nat_digits (s * 10 ^ k) @ [digit_char 0]"
    using Suc.prems by (metis mult.left_commute mult_pos_pos power_Suc zero_less_numeral zero_less_power)
  moreover have "digit_char 0 = CHR ''0''" by code_simp
  ultimately show ?case using Suc by (simp add: replicate_append_same)
qed simp

lemma pow10_nat [simp]: "pow10 (int k) = 10 ^ k"
  by (simp add: pow10_def)

lemma exp10_nat:
  assumes n: "10 ^ (l - 1) \<le> n" "n < 10 ^ l" and "1 \<le> m" "m \<le> l" "l - m < fuel"
  shows "exp10_above fuel (of_nat n) (int m) = int l"
  using assms(3-)
proof (induction fuel arbitrary: m)
  case (Suc fuel)
  have "(10 ^ (m - 1) :: nat) \<le> 10 ^ (l - 1)" using Suc.prems by (intro power_increasing) auto
  then have "10 ^ (m - 1) \<le> n" using n(1) by linarith
  then have low: "\<not> of_nat n < pow10 (int m - 1)"
    using Suc.prems pow10_nat [of "m - 1"] of_nat_le_iff [of "10 ^ (m - 1)" n, where ?'a = rat]
    by (simp add: of_nat_diff)
  have up: "pow10 (int m) \<le> of_nat n \<longleftrightarrow> 10 ^ m \<le> n"
    using of_nat_le_iff [of "10 ^ m" n, where ?'a = rat] by simp
  show ?case
  proof (cases "m = l")
    case True
    then show ?thesis using low up n by simp
  next
    case False
    have "(10 ^ m :: nat) \<le> 10 ^ (l - 1)" using False Suc.prems by (intro power_increasing) auto
    then have "10 ^ m \<le> n" using n(1) by linarith
    then show ?thesis using low up Suc.IH [of "Suc m"] Suc.prems False by (simp add: add.commute)
  qed
qed simp

lemma digits_unique:
  fixes s :: nat
  assumes "10 ^ (j - 1) \<le> s" "s < 10 ^ j" "1 \<le> j" "10 ^ (l - 1) \<le> s" "s < 10 ^ l" "1 \<le> l"
  shows "j = (l :: nat)"
proof -
  have "\<not> a < b" if "s < 10 ^ a" "10 ^ (b - 1) \<le> s" for a b
  proof
    assume "a < b"
    then have "(10 ^ a :: nat) \<le> 10 ^ (b - 1)" by (intro power_increasing) auto
    then show False using that by linarith
  qed
  then show ?thesis using assms by (meson linorder_neqE_nat)
qed

lemma length_digits: "10 ^ (j - 1) \<le> s \<Longrightarrow> s < 10 ^ j \<Longrightarrow> 1 \<le> j \<Longrightarrow> length (nat_digits s) = j"
proof -
  assume j: "10 ^ (j - 1) \<le> s" "s < 10 ^ j" "1 \<le> j"
  then have "0 < s" using zero_less_power [of "10::nat" "j - 1"] by linarith
  from nat_digits_bounds [OF this] show ?thesis
    using digits_unique [of _ s, OF _ _ _ j] by (metis One_nat_def Suc_leI length_greater_0_conv nat_digits_nonempty)
qed

lemma decimal_form_nat:
  assumes n: "10 ^ (l - 1) \<le> n" "n < 10 ^ l" and k: "1 \<le> k" "k \<le> l" and l: "l < 400"
  shows "\<exists>s N. decimal_form (of_nat n) k = (s, int N) \<and> 10 ^ (k - 1) \<le> s \<and> s < 10 ^ k \<and> k \<le> N \<and> N \<le> l + 1 \<and>
    s * 10 ^ (N - k) \<le> 10 ^ l \<and> (k = l \<longrightarrow> s = n \<and> N = l)"
proof -
  let ?d = "10 ^ (l - k) :: rat" and ?y = "of_nat n / 10 ^ (l - k) :: rat"
  define r where "r = math_round ?y"
  have e: "exp10_above 400 (of_nat n) 1 = int l" using exp10_nat [OF n, of 1 400] k l by simp
  have p: "pow10 (int l - int k) = ?d" using pow10_nat [of "l - k"] k by (simp add: of_nat_diff)
  have lo: "10 ^ (k - 1) * 10 ^ (l - k) \<le> n" and hi: "n < 10 ^ k * 10 ^ (l - k)"
    using n k by (simp_all add: power_add [symmetric])
  have "10 ^ (k - 1) * ?d \<le> of_nat n" "of_nat n < 10 ^ k * ?d"
    using of_nat_mono [OF lo, where ?'a = rat] hi [folded of_nat_less_iff [where ?'a = rat]] by simp_all
  then have y: "10 ^ (k - 1) \<le> ?y" "?y < 10 ^ k" by (simp_all add: field_simps)
  have lo': "10 ^ (k - 1) \<le> r"
    unfolding r_def math_round_def le_floor_iff using y(1) by simp
  have "r < 10 ^ k + 1"
    unfolding r_def math_round_def floor_less_iff using y(2) by simp
  then have hi': "r \<le> 10 ^ k" by simp
  have "0 \<le> r" using lo' zero_le_power [of "10::int" "k - 1"] by linarith
  then have nr: "10 ^ (k - 1) \<le> nat r" "nat r \<le> 10 ^ k"
    using lo' hi' by (simp_all add: nat_le_iff le_nat_iff)
  have df: "decimal_form (of_nat n) k = (if nat r = 10 ^ k then (10 ^ (k - 1), int l + 1) else (nat r, int l))"
    by (simp add: decimal_form_def Let_def e p r_def)
  have rn: "r = int n" if "k = l"
  proof -
    have "\<lfloor>1 / 2 :: rat\<rfloor> = 0" by (simp add: floor_eq_iff)
    then show ?thesis using that by (simp add: r_def math_round_def)
  qed
  show ?thesis
  proof (cases "nat r = 10 ^ k")
    case True
    have "k \<noteq> l"
    proof
      assume "k = l"
      then show False using True n rn by simp
    qed
    moreover have "10 ^ (k - 1) * 10 ^ (l + 1 - k) = (10 ^ l :: nat)"
      using k by (simp add: power_add [symmetric])
    ultimately show ?thesis using df True k
      by (intro exI [of _ "10 ^ (k - 1)"] exI [of _ "l + 1"]) (simp add: power_strict_increasing)
  next
    case False
    then have "nat r < 10 ^ k" using nr by linarith
    then have "nat r * 10 ^ (l - k) \<le> 10 ^ k * 10 ^ (l - k)" by (intro mult_right_mono) simp_all
    moreover have "(10 ^ k * 10 ^ (l - k) :: nat) = 10 ^ l" using k by (simp add: power_add [symmetric])
    moreover have "k = l \<Longrightarrow> nat r = n" using rn by simp
    ultimately show ?thesis using df False nr \<open>nat r < 10 ^ k\<close> k
      by (intro exI [of _ "nat r"] exI [of _ l]) auto
  qed
qed

lemma dbl_nat: "n \<le> 10 ^ 15 \<Longrightarrow> dbl (of_nat n) = Fin (of_nat n)"
  using dbl_int [of "int n"] by simp

lemma shortest_form_nat:
  assumes n: "10 ^ (l - 1) \<le> n" "n < 10 ^ l" and l: "l \<le> 15"
  shows "1 \<le> k \<Longrightarrow> k \<le> l \<Longrightarrow> l \<le> k + f \<Longrightarrow>
    \<exists>s N j. shortest_form f (of_nat n) k = (s, int N) \<and> 10 ^ (j - 1) \<le> s \<and> s < 10 ^ j \<and> 1 \<le> j \<and> j \<le> N \<and> N \<le> 16 \<and>
      s * 10 ^ (N - j) = n"
proof (induction f arbitrary: k)
  case 0
  then show ?case using decimal_form_nat [OF n, of k] l by auto
next
  case (Suc f)
  obtain s N where sN: "decimal_form (of_nat n) k = (s, int N)" "10 ^ (k - 1) \<le> s" "s < 10 ^ k" "k \<le> N"
    "N \<le> l + 1" "s * 10 ^ (N - k) \<le> 10 ^ l" "k = l \<longrightarrow> s = n \<and> N = l"
    using decimal_form_nat [OF n Suc.prems(1,2)] l by auto
  have v: "of_nat s * pow10 (int N - int k) = of_nat (s * 10 ^ (N - k))"
    using sN(4) pow10_nat [of "N - k"] by (simp add: of_nat_diff)
  have b: "(10 ^ l :: nat) \<le> 10 ^ 15" using l by (intro power_increasing) auto
  have "dbl (of_nat (s * 10 ^ (N - k))) = Fin (of_nat (s * 10 ^ (N - k)))" "dbl (of_nat n) = Fin (of_nat n)"
    using sN(6) b n by (simp_all only: dbl_nat order_trans less_imp_le)
      (use b n in linarith)?
  then have eq: "dbl (of_nat s * pow10 (int N - int k)) = dbl (of_nat n) \<longleftrightarrow> s * 10 ^ (N - k) = n"
    unfolding v by (simp only: jsnum.inject of_nat_eq_iff)
  show ?case
  proof (cases "s * 10 ^ (N - k) = n")
    case True
    then show ?thesis using eq sN Suc.prems l
      by (intro exI [of _ s] exI [of _ N] exI [of _ k]) auto
  next
    case False
    then have "k \<noteq> l" using sN(7) by auto
    then show ?thesis using Suc.IH [of "Suc k"] Suc.prems eq False sN(1) by simp
  qed
qed

text \<open>A natural number is printed as its digits.\<close>

lemma num_to_string_nat: "n < 10 ^ 15 \<Longrightarrow> num_to_string (of_nat n) = nat_digits n"
proof (cases "n = 0")
  case True
  have "nat_digits 0 = ''0''" by code_simp
  then show ?thesis using True by (simp add: num_to_string_def)
next
  case False
  assume lt: "n < 10 ^ 15"
  let ?l = "length (nat_digits n)"
  have n: "10 ^ (?l - 1) \<le> n" "n < 10 ^ ?l" using nat_digits_bounds False by simp_all
  have "1 \<le> ?l" by (simp add: Suc_le_eq)
  moreover have "?l \<le> 15"
  proof (rule ccontr)
    assume "\<not> ?l \<le> 15"
    then have "(10 ^ 15 :: nat) \<le> 10 ^ (?l - 1)" by (intro power_increasing) auto
    then show False using n(1) lt by linarith
  qed
  ultimately obtain s N j where s: "shortest_form 16 (of_nat n) 1 = (s, int N)" "10 ^ (j - 1) \<le> s" "s < 10 ^ j"
    "1 \<le> j" "j \<le> N" "N \<le> 16" "s * 10 ^ (N - j) = n"
    using shortest_form_nat [OF n, of 1 16] by auto
  have "0 < s" using s(2) zero_less_power [of "10::nat" "j - 1"] by linarith
  have "layout_number (nat_digits s) (int N) = nat_digits s @ replicate (N - j) (CHR ''0'')"
    using length_digits [OF s(2-4)] s(5,6) by (simp add: layout_number_def Let_def nat_diff_distrib)
  also have "\<dots> = nat_digits n" using nat_digits_shift [OF \<open>0 < s\<close>, of "N - j"] s(7) by simp
  finally show ?thesis using False s(1) by (simp add: num_to_string_def)
qed

lemma digit_lower: "is_digit c \<Longrightarrow> lower_char c = c \<and> c \<noteq> CHR ''x'' \<and> c \<noteq> CHR ''o'' \<and> c \<noteq> CHR ''b'' \<and> c \<noteq> CHR ''I''"
  by (auto simp: is_digit_def lower_char_def Let_def)

lemma trim_no_space: "list_all (\<lambda>c. \<not> is_space c) s \<Longrightarrow> trim s = s"
proof -
  assume s: "list_all (\<lambda>c. \<not> is_space c) s"
  have d: "dropWhile is_space t = t" if "list_all (\<lambda>c. \<not> is_space c) t" for t
    using that by (cases t) auto
  from d [of s] d [of "rev s"] s show ?thesis by (simp add: trim_def list_all_iff)
qed

text \<open>\<open>Number(String(n)) === n\<close>.\<close>

lemma string_to_number_nat: "n < 2 ^ 53 \<Longrightarrow> string_to_number (nat_digits n) = Fin (of_nat n)"
proof -
  assume n: "n < 2 ^ 53"
  obtain c cs where s: "nat_digits n = c # cs" by (cases "nat_digits n") auto
  have dig: "list_all is_digit (c # cs)" using nat_digits_are_digits [of _ n] by (simp add: s list_all_iff)
  then have t: "trim (c # cs) = c # cs"
    by (intro trim_no_space) (auto simp: list_all_iff digit_not_space)
  have r: "radix_prefix (c # cs) = None"
    using dig digit_lower by (force simp: radix_prefix_def split: list.split)
  have g: "sign_of (c # cs) = (1, c # cs)" using dig digit_not_sign by (auto simp: sign_of_def)
  have i: "c # cs \<noteq> ''Infinity''" using dig digit_lower [of c] by auto
  have w: "takeWhile is_digit (c # cs) = c # cs" "dropWhile is_digit (c # cs) = []"
    using dig by (simp_all add: takeWhile_eq_all_conv dropWhile_eq_Nil_conv list_all_iff)
  have "pow10 0 = 1" by (simp add: pow10_def)
  then have u: "unsigned_decimal (c # cs) = Some (of_nat n)"
    unfolding unsigned_decimal_def w Let_def using dec_nat_digits [of n] by (simp add: s)
  have "dbl (of_int (int n)) = Fin (of_int (int n))" using n by (intro dbl_int) simp
  then show ?thesis
    unfolding string_to_number_def s t Let_def r g using i u by simp
qed

lemma number_text_round_trip: "n < 10 ^ 15 \<Longrightarrow> string_to_number (num_to_string (of_nat n)) = Fin (of_nat n)"
  by (simp add: num_to_string_nat string_to_number_nat)

end
