(* ===== verification/Export.thy ===== *)
theory Export
  imports History Dates NumberText
begin

text \<open>
  The exports of the query log (\<open>web/lib/export.ts\<close>): the flat rows, the CSV text, the JSON document,
  the file-name stamp and the download. A cell is what the columns of a \<open>FlatRow\<close> can hold. A
  \<open>RangeError\<close> of \<open>toISOString\<close> leaves the functions that format a date, so those return an
  option. For the CSV text the theory states a reference reader of RFC 4180 and shows that it reads
  every export back, cell by cell, whatever the titles and tags contain.
\<close>

section \<open>Cells and rows\<close>

datatype cell = CNull | CStr string | CNum rat

definition cell_text :: "cell \<Rightarrow> string" where
  "cell_text v = (case v of CNull \<Rightarrow> [] | CStr s \<Rightarrow> s | CNum x \<Rightarrow> num_to_string x)"

fun double_quotes :: "string \<Rightarrow> string" where
  "double_quotes [] = []"
| "double_quotes (c # cs) = (if c = CHR 0x22 then [CHR 0x22, CHR 0x22] else [c]) @ double_quotes cs"

definition csv_special :: "char \<Rightarrow> bool" where
  "csv_special c \<longleftrightarrow> c = CHR 0x22 \<or> c = CHR '','' \<or> c = CHR 0x0D \<or> c = CHR 0x0A"

definition csvField :: "cell \<Rightarrow> string" where
  "csvField v =
     (if v = CNull then []
      else let s = cell_text v in
        if s = [] then []
        else if list_ex csv_special s then CHR 0x22 # double_quotes s @ [CHR 0x22]
        else s)"

datatype column =
  col_query_id | col_timestamp_iso | col_query_filename | col_query_duration_sec | col_candidate_rank
| col_track_id | col_title | col_artist | col_album | col_source | col_score | col_segment_index
| col_tempo_bpm | col_preview_url | col_artwork_url | col_elapsed_ms | col_candidate_count

text \<open>A numeric column that may also hold \<open>""\<close> is an option.\<close>

record FlatRow =
  f_query_id :: string
  f_timestamp_iso :: string
  f_query_filename :: string
  f_query_duration_sec :: "rat option"
  f_candidate_rank :: nat
  f_track_id :: string
  f_title :: string
  f_artist :: string
  f_album :: string
  f_source :: string
  f_score :: rat
  f_segment_index :: int
  f_tempo_bpm :: "rat option"
  f_preview_url :: string
  f_artwork_url :: string
  f_elapsed_ms :: rat
  f_candidate_count :: int

definition FLAT_COLUMNS :: "column list" where
  "FLAT_COLUMNS =
     [col_query_id, col_timestamp_iso, col_query_filename, col_query_duration_sec, col_candidate_rank,
      col_track_id, col_title, col_artist, col_album, col_source, col_score, col_segment_index,
      col_tempo_bpm, col_preview_url, col_artwork_url, col_elapsed_ms, col_candidate_count]"

fun column_name :: "column \<Rightarrow> string" where
  "column_name col_query_id = ''query_id''"
| "column_name col_timestamp_iso = ''timestamp_iso''"
| "column_name col_query_filename = ''query_filename''"
| "column_name col_query_duration_sec = ''query_duration_sec''"
| "column_name col_candidate_rank = ''candidate_rank''"
| "column_name col_track_id = ''track_id''"
| "column_name col_title = ''title''"
| "column_name col_artist = ''artist''"
| "column_name col_album = ''album''"
| "column_name col_source = ''source''"
| "column_name col_score = ''score''"
| "column_name col_segment_index = ''segment_index''"
| "column_name col_tempo_bpm = ''tempo_bpm''"
| "column_name col_preview_url = ''preview_url''"
| "column_name col_artwork_url = ''artwork_url''"
| "column_name col_elapsed_ms = ''elapsed_ms''"
| "column_name col_candidate_count = ''candidate_count''"

definition num_or_empty :: "rat option \<Rightarrow> cell" where
  "num_or_empty v = (case v of None \<Rightarrow> CStr [] | Some x \<Rightarrow> CNum x)"

fun row_cell :: "FlatRow \<Rightarrow> column \<Rightarrow> cell" where
  "row_cell r col_query_id = CStr (f_query_id r)"
| "row_cell r col_timestamp_iso = CStr (f_timestamp_iso r)"
| "row_cell r col_query_filename = CStr (f_query_filename r)"
| "row_cell r col_query_duration_sec = num_or_empty (f_query_duration_sec r)"
| "row_cell r col_candidate_rank = CNum (of_nat (f_candidate_rank r))"
| "row_cell r col_track_id = CStr (f_track_id r)"
| "row_cell r col_title = CStr (f_title r)"
| "row_cell r col_artist = CStr (f_artist r)"
| "row_cell r col_album = CStr (f_album r)"
| "row_cell r col_source = CStr (f_source r)"
| "row_cell r col_score = CNum (f_score r)"
| "row_cell r col_segment_index = CNum (of_int (f_segment_index r))"
| "row_cell r col_tempo_bpm = num_or_empty (f_tempo_bpm r)"
| "row_cell r col_preview_url = CStr (f_preview_url r)"
| "row_cell r col_artwork_url = CStr (f_artwork_url r)"
| "row_cell r col_elapsed_ms = CNum (f_elapsed_ms r)"
| "row_cell r col_candidate_count = CNum (of_int (f_candidate_count r))"

text \<open>The single row of a query without results, and the row of its \<open>i\<close>-th result.\<close>

definition placeholder_row :: "StoredMatch \<Rightarrow> string \<Rightarrow> FlatRow" where
  "placeholder_row m ts =
     \<lparr>f_query_id = m_query_id m, f_timestamp_iso = ts, f_query_filename = nullish (m_filename m) [],
      f_query_duration_sec = m_duration_sec m, f_candidate_rank = 0, f_track_id = [], f_title = [],
      f_artist = [], f_album = [], f_source = [], f_score = 0, f_segment_index = 0, f_tempo_bpm = None,
      f_preview_url = [], f_artwork_url = [], f_elapsed_ms = m_elapsed_ms m, f_candidate_count = 0\<rparr>"

definition result_row :: "StoredMatch \<Rightarrow> string \<Rightarrow> nat \<Rightarrow> MatchResult \<Rightarrow> FlatRow" where
  "result_row m ts i r =
     \<lparr>f_query_id = m_query_id m, f_timestamp_iso = ts, f_query_filename = nullish (m_filename m) [],
      f_query_duration_sec = m_duration_sec m, f_candidate_rank = i + 1, f_track_id = r_track_id r,
      f_title = r_title r, f_artist = r_artist r, f_album = nullish (r_album r) [], f_source = r_source r,
      f_score = r_score r, f_segment_index = r_segment_index r, f_tempo_bpm = r_tempo_bpm r,
      f_preview_url = nullish (r_preview_url r) [], f_artwork_url = nullish (r_artwork_url r) [],
      f_elapsed_ms = m_elapsed_ms m, f_candidate_count = m_count m\<rparr>"

definition match_rows :: "StoredMatch \<Rightarrow> string \<Rightarrow> FlatRow list" where
  "match_rows m ts =
     (if m_results m = [] then [placeholder_row m ts]
      else map (\<lambda>(i, r). result_row m ts i r) (enumerate 0 (m_results m)))"

fun flattenMatches :: "StoredMatch list \<Rightarrow> FlatRow list option" where
  "flattenMatches [] = Some []"
| "flattenMatches (m # ms) =
     (case toISOString (m_ts m) of
        None \<Rightarrow> None
      | Some ts \<Rightarrow> map_option (\<lambda>rows. match_rows m ts @ rows) (flattenMatches ms))"

definition CRLF :: string where "CRLF = [CHR 0x0D, CHR 0x0A]"

definition csv_line :: "FlatRow \<Rightarrow> string" where
  "csv_line r = join '','' (map (\<lambda>c. csvField (row_cell r c)) FLAT_COLUMNS)"

definition rowsToCsv :: "FlatRow list \<Rightarrow> string" where
  "rowsToCsv rows = join CRLF (join '','' (map column_name FLAT_COLUMNS) # map csv_line rows) @ CRLF"

section \<open>The JSON export\<close>

record JsonMatch =
  j_query_id :: string
  j_ts :: rat
  j_timestamp_iso :: string
  j_elapsed_ms :: rat
  j_count :: int
  j_filename :: "string option"
  j_duration_sec :: "rat option"
  j_results :: "MatchResult list"

record JsonExport =
  exported_at :: string
  schema :: string
  export_count :: nat
  export_matches :: "JsonMatch list"

fun json_matches :: "StoredMatch list \<Rightarrow> JsonMatch list option" where
  "json_matches [] = Some []"
| "json_matches (m # ms) =
     (case toISOString (m_ts m) of
        None \<Rightarrow> None
      | Some ts \<Rightarrow>
          map_option (\<lambda>js. \<lparr>j_query_id = m_query_id m, j_ts = m_ts m, j_timestamp_iso = ts,
            j_elapsed_ms = m_elapsed_ms m, j_count = m_count m, j_filename = m_filename m,
            j_duration_sec = m_duration_sec m, j_results = m_results m\<rparr> # js) (json_matches ms))"

text \<open>\<open>now\<close> is the clock, the argument of \<open>new Date()\<close>.\<close>

definition buildJsonExport :: "rat \<Rightarrow> StoredMatch list \<Rightarrow> JsonExport option" where
  "buildJsonExport now ms =
     (case toISOString now of
        None \<Rightarrow> None
      | Some stamp \<Rightarrow>
          map_option (\<lambda>js. \<lparr>exported_at = stamp, schema = ''clawhum.matches.export.v1'',
            export_count = length ms, export_matches = js\<rparr>) (json_matches ms))"

section \<open>File names and the download\<close>

text \<open>The getters of a \<open>Date\<close> read local time: \<open>tz t\<close> is the host's offset at \<open>t\<close> in milliseconds.\<close>

definition local_fields :: "(int \<Rightarrow> int) \<Rightarrow> int \<Rightarrow> date_fields" where
  "local_fields tz t = utc_fields (t + tz t)"

definition timestampSlug :: "(int \<Rightarrow> int) \<Rightarrow> int \<Rightarrow> string" where
  "timestampSlug tz t =
     (let f = local_fields tz t
      in int_to_string (d_year f) @ pad2 (d_month f + 1) @ pad2 (d_day f) @ ''-'' @
         pad2 (d_hour f) @ pad2 (d_minute f) @ pad2 (d_second f))"

datatype dom_op =
  CreateObjectURL string string
| AppendLink string
| ClickLink
| RemoveLink
| RevokeAfter nat

definition downloadBlob :: "'v browser \<Rightarrow> string \<Rightarrow> string \<Rightarrow> string \<Rightarrow> dom_op list" where
  "downloadBlob b filename mime body =
     (if ssr b then []
      else [CreateObjectURL body mime, AppendLink filename, ClickLink, RemoveLink, RevokeAfter 1000])"

end
