(* ===== verification/ExportLaws.thy ===== *)
theory ExportLaws
  imports Export
begin

text \<open>
  A reference reader of RFC 4180 text and the laws of the exports: the CSV text reads back, rows and
  results correspond one to one, an invalid date is the only way an export fails, and two exports
  in different seconds get different file names.
\<close>

section \<open>Reading CSV\<close>

datatype csv_mode = FieldStart | Bare | Quoted

text \<open>
  \<open>csv_run mode field row rows s\<close>: the field and the row under construction, the rows read so far
  and the rest of the text. A bare quote, a lone CR or LF outside quotes, or text that ends within a
  record is an error.
\<close>

fun csv_run :: "csv_mode \<Rightarrow> string \<Rightarrow> string list \<Rightarrow> string list list \<Rightarrow> string \<Rightarrow> string list list option" where
  "csv_run FieldStart f row rows [] = (if row = [] then Some rows else None)"
| "csv_run _ f row rows [] = None"
| "csv_run Quoted f row rows (c # cs) =
     (if c = CHR 0x22 then
        (case cs of
           [] \<Rightarrow> None
         | d # ds \<Rightarrow>
             if d = CHR 0x22 then csv_run Quoted (f @ [CHR 0x22]) row rows ds
             else if d = CHR '','' then csv_run FieldStart [] (row @ [f]) rows ds
             else if d = CHR 0x0D \<and> take 1 ds = [CHR 0x0A]
               then csv_run FieldStart [] [] (rows @ [row @ [f]]) (drop 1 ds)
             else None)
      else csv_run Quoted (f @ [c]) row rows cs)"
| "csv_run m f row rows (c # cs) =
     (if c = CHR '','' then csv_run FieldStart [] (row @ [f]) rows cs
      else if c = CHR 0x0D \<and> take 1 cs = [CHR 0x0A]
        then csv_run FieldStart [] [] (rows @ [row @ [f]]) (drop 1 cs)
      else if csv_special c then (if m = FieldStart \<and> c = CHR 0x22 then csv_run Quoted [] row rows cs else None)
      else csv_run Bare (f @ [c]) row rows cs)"

definition csv_read :: "string \<Rightarrow> string list list option" where
  "csv_read s = csv_run FieldStart [] [] [] s"

lemma csv_special_simps [simp]:
  "csv_special (CHR 0x22)" "csv_special (CHR '','')" "csv_special (CHR 0x0D)" "csv_special (CHR 0x0A)"
  by (simp_all add: csv_special_def)

lemma plain_char: "\<not> csv_special c \<Longrightarrow> c \<noteq> CHR 0x22 \<and> c \<noteq> CHR '','' \<and> c \<noteq> CHR 0x0D \<and> c \<noteq> CHR 0x0A"
  by (auto simp: csv_special_def)

lemma run_bare:
  "list_all (\<lambda>c. \<not> csv_special c) s \<Longrightarrow> csv_run Bare f row rows (s @ rest) = csv_run Bare (f @ s) row rows rest"
  by (induction s arbitrary: f) (auto dest: plain_char)

lemma run_quoted:
  "csv_run Quoted f row rows (double_quotes s @ rest) = csv_run Quoted (f @ s) row rows rest"
  by (induction s arbitrary: f) auto

text \<open>One written field is read, whichever of the two separators follows it.\<close>

lemma run_start_bare:
  "list_all (\<lambda>c. \<not> csv_special c) s \<Longrightarrow>
     csv_run FieldStart [] row rows (s @ CHR '','' # rest) = csv_run FieldStart [] (row @ [s]) rows rest \<and>
     csv_run FieldStart [] row rows (s @ CRLF @ rest) = csv_run FieldStart [] [] (rows @ [row @ [s]]) rest"
  by (cases s) (auto dest: plain_char simp: run_bare CRLF_def)

lemma run_field:
  "csv_run FieldStart [] row rows (csvField v @ CHR '','' # rest) =
     csv_run FieldStart [] (row @ [cell_text v]) rows rest \<and>
   csv_run FieldStart [] row rows (csvField v @ CRLF @ rest) =
     csv_run FieldStart [] [] (rows @ [row @ [cell_text v]]) rest"
proof (cases "list_ex csv_special (cell_text v)")
  case True
  then have "csvField v = CHR 0x22 # double_quotes (cell_text v) @ [CHR 0x22]"
    by (auto simp: csvField_def Let_def cell_text_def)
  then show ?thesis by (simp add: run_quoted CRLF_def)
next
  case False
  then have "csvField v = cell_text v"
    by (auto simp: csvField_def Let_def cell_text_def)
  moreover have "list_all (\<lambda>c. \<not> csv_special c) (cell_text v)"
    using False by (simp add: list_ex_iff list_all_iff)
  ultimately show ?thesis using run_start_bare by simp
qed

lemma run_line:
  "vs \<noteq> [] \<Longrightarrow>
     csv_run FieldStart [] row rows (join '','' (map csvField vs) @ CRLF @ rest) =
     csv_run FieldStart [] [] (rows @ [row @ map cell_text vs]) rest"
proof (induction vs arbitrary: row)
  case (Cons v vs)
  then show ?case
    by (cases vs) (use run_field [of row rows v] in auto)
qed simp

lemma join_CRLF: "join CRLF (l # ls) @ CRLF = concat (map (\<lambda>l. l @ CRLF) (l # ls))"
  by (induction ls arbitrary: l) auto

text \<open>The texts of one row, and the header as cells.\<close>

definition row_texts :: "FlatRow \<Rightarrow> string list" where
  "row_texts r = map (\<lambda>c. cell_text (row_cell r c)) FLAT_COLUMNS"

definition header_cells :: "cell list" where
  "header_cells = map (\<lambda>c. CStr (column_name c)) FLAT_COLUMNS"

lemma FLAT_COLUMNS_nonempty: "FLAT_COLUMNS \<noteq> []"
  by (simp add: FLAT_COLUMNS_def)

lemma header_plain: "map csvField header_cells = map column_name FLAT_COLUMNS"
  by (simp add: header_cells_def FLAT_COLUMNS_def csvField_def cell_text_def csv_special_def)

lemma run_rows:
  "csv_run FieldStart [] [] rows (concat (map (\<lambda>l. l @ CRLF) (map csv_line rs))) = Some (rows @ map row_texts rs)"
proof (induction rs arbitrary: rows)
  case (Cons r rs)
  have "csv_line r = join '','' (map csvField (map (row_cell r) FLAT_COLUMNS))"
    by (simp add: csv_line_def comp_def)
  then show ?case
    using Cons run_line [of "map (row_cell r) FLAT_COLUMNS" "[]" rows] FLAT_COLUMNS_nonempty
    by (simp add: row_texts_def comp_def)
qed simp

text \<open>
  C5. The CSV export is lossless text: a reader of RFC 4180 gets back the header and, for every row,
  the seventeen column texts exactly as they were, with commas, quotes and line breaks in the titles,
  artists and file names included.
\<close>

theorem csv_round_trip:
  "csv_read (rowsToCsv rows) = Some (map column_name FLAT_COLUMNS # map row_texts rows)"
proof -
  have h: "join '','' (map column_name FLAT_COLUMNS) = join '','' (map csvField header_cells)"
    by (simp add: header_plain)
  have t: "map cell_text header_cells = map column_name FLAT_COLUMNS"
    by (simp add: header_cells_def cell_text_def comp_def)
  have "header_cells \<noteq> []" by (simp add: header_cells_def FLAT_COLUMNS_nonempty)
  from run_line [OF this, of "[]" "[]"] show ?thesis
    by (simp add: csv_read_def rowsToCsv_def join_CRLF h t run_rows [unfolded map_map])
qed

section \<open>Rows and results\<close>

lemma match_rows_length: "length (match_rows m ts) = max 1 (length (m_results m))"
  by (cases "m_results m") (simp_all add: match_rows_def)

lemma match_rows_results:
  "map (\<lambda>r. (f_query_id r, f_track_id r, f_title r, f_score r)) (filter (\<lambda>r. 0 < f_candidate_rank r) (match_rows m ts)) =
   map (\<lambda>r. (m_query_id m, r_track_id r, r_title r, r_score r)) (m_results m)"
proof (cases "m_results m = []")
  case True
  then show ?thesis by (simp add: match_rows_def placeholder_row_def)
next
  case False
  have "map (\<lambda>r. (f_query_id r, f_track_id r, f_title r, f_score r))
          (filter (\<lambda>r. 0 < f_candidate_rank r) (map (\<lambda>(i, r). result_row m ts i r) (enumerate k rs))) =
        map (\<lambda>r. (m_query_id m, r_track_id r, r_title r, r_score r)) rs" for k rs
    by (induction rs arbitrary: k) (auto simp: result_row_def)
  then show ?thesis using False by (simp add: match_rows_def)
qed

definition valid_time :: "rat \<Rightarrow> bool" where
  "valid_time ms \<longleftrightarrow> \<bar>ms\<bar> \<le> 8640000000000000"

lemma toISOString_None: "toISOString ms = None \<longleftrightarrow> \<not> valid_time ms"
  by (simp add: toISOString_def time_clip_def valid_time_def Let_def)

text \<open>
  Flattening loses no result and adds none: it fails exactly when some record has a time no
  date can hold; otherwise a query takes as many rows as it has results (one row when it has none),
  and the rows with a rank are, in order, the results of the queries.
\<close>

theorem flatten_lossless:
  "case flattenMatches ms of
     None \<Rightarrow> \<not> list_all (\<lambda>m. valid_time (m_ts m)) ms
   | Some rows \<Rightarrow>
       list_all (\<lambda>m. valid_time (m_ts m)) ms \<and>
       length rows = sum_list (map (\<lambda>m. max 1 (length (m_results m))) ms) \<and>
       map (\<lambda>r. (f_query_id r, f_track_id r, f_title r, f_score r)) (filter (\<lambda>r. 0 < f_candidate_rank r) rows) =
       concat (map (\<lambda>m. map (\<lambda>r. (m_query_id m, r_track_id r, r_title r, r_score r)) (m_results m)) ms)"
proof (induction ms)
  case (Cons m ms)
  then show ?case
    using toISOString_None [of "m_ts m"] match_rows_length [of m] match_rows_results [of m]
    by (cases "toISOString (m_ts m)"; cases "flattenMatches ms") auto
qed simp

lemma json_matches_fields:
  "json_matches ms = (if list_all (\<lambda>m. valid_time (m_ts m)) ms
     then Some (map (\<lambda>m. \<lparr>j_query_id = m_query_id m, j_ts = m_ts m,
       j_timestamp_iso = the (toISOString (m_ts m)), j_elapsed_ms = m_elapsed_ms m, j_count = m_count m,
       j_filename = m_filename m, j_duration_sec = m_duration_sec m, j_results = m_results m\<rparr>) ms)
     else None)"
  by (induction ms) (auto simp: toISOString_None [symmetric] split: option.splits)

text \<open>
  The JSON export carries no recording: it is the same whatever the waveforms, the pitch
  contours, the names and the tags of the records are, so none of them can reach the file.
\<close>

theorem json_export_strips:
  "buildJsonExport now (map (\<lambda>m. m\<lparr>m_query_waveform := w m, m_query_pitch := p m, m_name := nm m, m_tags := tg m\<rparr>) ms) =
   buildJsonExport now ms"
proof -
  have "json_matches (map (\<lambda>m. m\<lparr>m_query_waveform := w m, m_query_pitch := p m, m_name := nm m, m_tags := tg m\<rparr>) ms) =
        json_matches ms"
    by (simp add: json_matches_fields comp_def list_all_iff)
  then show ?thesis unfolding buildJsonExport_def by (simp split: option.split)
qed

section \<open>File names\<close>

lemma nat_digits_length4: "1000 \<le> n \<Longrightarrow> n < 10000 \<Longrightarrow> length (nat_digits n) = 4"
  by (simp add: nat_digits_length nat_digits_length1 div_le_mono [of 1000 n 10, simplified]
      div_mult2_eq [symmetric] less_mult_imp_div_less)

lemma length_pad2 [simp]: "0 \<le> n \<Longrightarrow> n < 100 \<Longrightarrow> length (pad2 n) = 2"
  by (auto simp: pad2_def pad_start_def int_to_string_def nat_digits.simps [of "nat n"]
      nat_digits.simps [of "nat n div 10"])

lemma dec_nat_zeros: "dec_nat (replicate k (CHR ''0'') @ s) = dec_nat s"
  by (induction k) (simp_all add: dec_nat_def digit_val_def)

lemma pad2_inject: "0 \<le> m \<Longrightarrow> 0 \<le> n \<Longrightarrow> pad2 m = pad2 n \<longleftrightarrow> m = n"
proof
  assume "0 \<le> m" "0 \<le> n" "pad2 m = pad2 n"
  then have "dec_nat (pad2 m) = dec_nat (pad2 n)" by simp
  then show "m = n" using \<open>0 \<le> m\<close> \<open>0 \<le> n\<close>
    by (simp add: pad2_def pad_start_def int_to_string_def dec_nat_zeros)
qed simp

lemma utc_time_fields:
  "0 \<le> d_minute (utc_fields t) \<and> d_minute (utc_fields t) < 60 \<and>
   0 \<le> d_second (utc_fields t) \<and> d_second (utc_fields t) < 60 \<and>
   0 \<le> d_milli (utc_fields t) \<and> d_milli (utc_fields t) < 1000"
  by (simp add: utc_fields_def Let_def split: prod.split)

text \<open>The second a time falls in, from its fields.\<close>

definition second_of_fields :: "date_fields \<Rightarrow> int" where
  "second_of_fields f =
     (day_from_year (d_year f) + month_starts (leap_year (d_year f)) ! nat (d_month f) + d_day f - 1) * 86400
     + d_hour f * 3600 + d_minute f * 60 + d_second f"

lemma second_of_utc_fields: "second_of_fields (utc_fields t) = t div 1000"
proof -
  have "time_of_fields (utc_fields t) = 1000 * second_of_fields (utc_fields t) + d_milli (utc_fields t)"
    by (simp add: time_of_fields_def second_of_fields_def MS_PER_DAY_def)
  then have t: "t = 1000 * second_of_fields (utc_fields t) + d_milli (utc_fields t)"
    using utc_fields_correct [of t] by simp
  have "0 \<le> d_milli (utc_fields t)" "d_milli (utc_fields t) < 1000"
    using utc_time_fields [of t] by simp_all
  from int_div_pos_eq [OF t this] show ?thesis by simp
qed

text \<open>
  Two downloads of the query log in different local seconds get different names: within the years
  1000 to 9999 the stamp of the file name determines the second of the local time, whatever the time
  zone is.
\<close>

theorem timestampSlug_unique:
  assumes "1000 \<le> d_year (local_fields tz s)" "d_year (local_fields tz s) \<le> 9999"
    and "1000 \<le> d_year (local_fields tz t)" "d_year (local_fields tz t) \<le> 9999"
    and "timestampSlug tz s = timestampSlug tz t"
  shows "(s + tz s) div 1000 = (t + tz t) div 1000"
proof -
  let ?f = "utc_fields (s + tz s)" and ?g = "utc_fields (t + tz t)"
  note range = utc_fields_correct utc_time_fields
  have y: "length (int_to_string (d_year ?f)) = length (int_to_string (d_year ?g))"
    using assms(1-4) by (simp add: int_to_string_def local_fields_def nat_digits_length4)
  have "int_to_string (d_year ?f) = int_to_string (d_year ?g)"
    "pad2 (d_month ?f + 1) = pad2 (d_month ?g + 1)" "pad2 (d_day ?f) = pad2 (d_day ?g)"
    "pad2 (d_hour ?f) = pad2 (d_hour ?g)" "pad2 (d_minute ?f) = pad2 (d_minute ?g)"
    "pad2 (d_second ?f) = pad2 (d_second ?g)"
    using assms(5) y range [of "s + tz s"] range [of "t + tz t"]
    by (simp_all add: timestampSlug_def local_fields_def Let_def)
  then have "d_year ?f = d_year ?g" "d_month ?f = d_month ?g" "d_day ?f = d_day ?g"
    "d_hour ?f = d_hour ?g" "d_minute ?f = d_minute ?g" "d_second ?f = d_second ?g"
    using assms(1-4) range [of "s + tz s"] range [of "t + tz t"]
    by (simp_all add: int_to_string_def local_fields_def pad2_inject)
  then have "second_of_fields ?f = second_of_fields ?g" by (simp add: second_of_fields_def)
  then show ?thesis by (simp add: second_of_utc_fields)
qed

theorem timestampSlug_unique_witness:
  "timestampSlug (\<lambda>_. 3600000) 0 = ''19700101-010000'' \<and>
   (0 + 3600000 :: int) div 1000 = (999 + 3600000) div 1000"
proof
  show e: "timestampSlug (\<lambda>_. 3600000) 0 = ''19700101-010000''" by code_simp
  have "timestampSlug (\<lambda>_. 3600000) 999 = ''19700101-010000''" by code_simp
  moreover have "d_year (local_fields (\<lambda>_. 3600000) 0) = 1970" "d_year (local_fields (\<lambda>_. 3600000) 999) = 1970"
    by code_simp+
  ultimately show "(0 + 3600000 :: int) div 1000 = (999 + 3600000) div 1000"
    using timestampSlug_unique [of "\<lambda>_. 3600000" 0 999] e by simp
qed

end
