(* ===== verification/Notify.thy ===== *)
theory Notify
  imports Browser Arrays NumberText
begin

text \<open>
  Notification preferences, the log of fired notifications (\<open>web/lib/notifyPrefs.ts\<close>) and the engine
  that polls the activity feed (\<open>web/lib/notifyEngine.ts\<close>). The preferences and the log live in the
  local storage as JSON; the functions that touch the storage outside a \<open>try\<close> return the exception
  as a value. The engine's state is explicit, and its \<open>tick\<close> is split where the code awaits the
  response, so that its callers (the interval, the two listeners) interleave with the answer.
\<close>

section \<open>Preferences\<close>

definition NOTIFY_PREFS_KEY :: string where "NOTIFY_PREFS_KEY = ''clawhum.notify.prefs.v1''"
definition NOTIFY_PREFS_EVENT :: string where "NOTIFY_PREFS_EVENT = ''clawhum:notify:prefs''"
definition NOTIFY_FIRED_KEY :: string where "NOTIFY_FIRED_KEY = ''clawhum.notify.fired.v1''"
definition NOTIFY_FIRED_EVENT :: string where "NOTIFY_FIRED_EVENT = ''clawhum:notify:fired''"

datatype NotifyKind = match_kind | delivery_kind

record NotifyPrefs =
  np_enabled :: bool
  np_match :: bool
  np_delivery :: bool
  np_sound :: bool
  np_onlyWhenHidden :: bool

definition DEFAULT_PREFS :: NotifyPrefs where
  "DEFAULT_PREFS =
     \<lparr>np_enabled = False, np_match = True, np_delivery = True, np_sound = False, np_onlyWhenHidden = True\<rparr>"

definition safeParse :: "json doc option \<Rightarrow> json \<Rightarrow> json" where
  "safeParse raw fallback =
     (case raw of
        Some (Doc v) \<Rightarrow> if is_object (Some v) then v else fallback
      | _ \<Rightarrow> fallback)"

text \<open>\<open>typeof p.k === "boolean" ? p.k : d\<close>\<close>

definition bool_field :: "json option \<Rightarrow> string \<Rightarrow> bool \<Rightarrow> bool" where
  "bool_field p k d =
     (case p of None \<Rightarrow> d
      | Some v \<Rightarrow> (case field v k of Some (JBool x) \<Rightarrow> x | _ \<Rightarrow> d))"

definition mergePrefs :: "json option \<Rightarrow> NotifyPrefs" where
  "mergePrefs partial =
     (let p = (case partial of None \<Rightarrow> JObj [] | Some JNull \<Rightarrow> JObj [] | Some v \<Rightarrow> v);
          kinds = (if truthy (field p ''kinds'') then field p ''kinds'' else None)
      in \<lparr>np_enabled = bool_field (Some p) ''enabled'' (np_enabled DEFAULT_PREFS),
          np_match = bool_field kinds ''match'' (np_match DEFAULT_PREFS),
          np_delivery = bool_field kinds ''delivery'' (np_delivery DEFAULT_PREFS),
          np_sound = bool_field (Some p) ''sound'' (np_sound DEFAULT_PREFS),
          np_onlyWhenHidden = bool_field (Some p) ''onlyWhenHidden'' (np_onlyWhenHidden DEFAULT_PREFS)\<rparr>)"

definition loadPrefs :: "json browser \<Rightarrow> storage_error + NotifyPrefs" where
  "loadPrefs b =
     (if ssr b then Inr DEFAULT_PREFS
      else case get_doc NOTIFY_PREFS_KEY b of
             Inl e \<Rightarrow> Inl e
           | Inr raw \<Rightarrow> Inr (mergePrefs (Some (safeParse raw (JObj [])))))"

definition prefs_json :: "NotifyPrefs \<Rightarrow> json" where
  "prefs_json p =
     JObj [(''enabled'', JBool (np_enabled p)),
           (''kinds'', JObj [(''match'', JBool (np_match p)), (''delivery'', JBool (np_delivery p))]),
           (''sound'', JBool (np_sound p)), (''onlyWhenHidden'', JBool (np_onlyWhenHidden p))]"

definition savePrefs :: "NotifyPrefs \<Rightarrow> json browser \<Rightarrow> storage_error + json browser" where
  "savePrefs p b =
     (if ssr b then Inr b
      else case put_json NOTIFY_PREFS_KEY (prefs_json p) b of
             Inl e \<Rightarrow> Inl e
           | Inr b' \<Rightarrow> Inr (dispatch NOTIFY_PREFS_EVENT b'))"

section \<open>The log of fired notifications\<close>

record FiredEntry =
  fe_id :: string
  fe_kind :: NotifyKind
  fe_title :: string
  fe_body :: string
  fe_at :: rat
  fe_href :: string

definition FIRED_MAX :: nat where "FIRED_MAX = 50"

definition kind_text :: "NotifyKind \<Rightarrow> string" where
  "kind_text k = (case k of match_kind \<Rightarrow> ''match'' | delivery_kind \<Rightarrow> ''delivery'')"

definition fired_json :: "FiredEntry \<Rightarrow> json" where
  "fired_json e =
     JObj [(''id'', JStr (fe_id e)), (''kind'', JStr (kind_text (fe_kind e))), (''title'', JStr (fe_title e)),
           (''body'', JStr (fe_body e)), (''at'', JNum (Fin (fe_at e))), (''href'', JStr (fe_href e))]"

definition is_string :: "json option \<Rightarrow> bool" where
  "is_string v \<longleftrightarrow> (case v of Some (JStr _) \<Rightarrow> True | _ \<Rightarrow> False)"

definition is_fired :: "json \<Rightarrow> bool" where
  "is_fired e \<longleftrightarrow> is_object (Some e) \<and> is_string (field e ''id'') \<and> is_string (field e ''title'')"

text \<open>A log entry that is not a \<open>FiredEntry\<close> in every field is kept as the JSON value it is.\<close>

definition loadFired :: "json browser \<Rightarrow> storage_error + json list" where
  "loadFired b =
     (if ssr b then Inr []
      else case get_doc NOTIFY_FIRED_KEY b of
             Inl e \<Rightarrow> Inl e
           | Inr raw \<Rightarrow>
               (case safeParse raw (JArr []) of
                  JArr arr \<Rightarrow> Inr (take FIRED_MAX (filter is_fired arr))
                | _ \<Rightarrow> Inr []))"

definition appendFired :: "FiredEntry \<Rightarrow> json browser \<Rightarrow> storage_error + json browser" where
  "appendFired entry b =
     (if ssr b then Inr b
      else case loadFired b of
             Inl e \<Rightarrow> Inl e
           | Inr existing \<Rightarrow>
               if list_ex (\<lambda>e. field e ''id'' = Some (JStr (fe_id entry))) existing then Inr b
               else case put_json NOTIFY_FIRED_KEY (JArr (take FIRED_MAX (fired_json entry # existing))) b of
                      Inl e \<Rightarrow> Inl e
                    | Inr b' \<Rightarrow> Inr (dispatch NOTIFY_FIRED_EVENT b'))"

definition clearFired :: "json browser \<Rightarrow> storage_error + json browser" where
  "clearFired b =
     (if ssr b then Inr b
      else case remove_doc NOTIFY_FIRED_KEY b of
             Inl e \<Rightarrow> Inl e
           | Inr b' \<Rightarrow> Inr (dispatch NOTIFY_FIRED_EVENT b'))"

section \<open>The hooks\<close>

text \<open>
  The two hooks re-read the storage when they are mounted and at every event they listen to. An
  exception of the read leaves the effect, with the hook as it was.
\<close>

record 'a live_hook =
  hook_value :: 'a
  hook_on :: bool

definition read_into :: "storage_error + 'a \<Rightarrow> 'a live_hook \<Rightarrow> storage_error + 'a live_hook" where
  "read_into r h = (case r of Inl e \<Rightarrow> Inl e | Inr v \<Rightarrow> Inr (h\<lparr>hook_value := v\<rparr>))"

definition usePrefs_init :: "NotifyPrefs live_hook" where
  "usePrefs_init = \<lparr>hook_value = DEFAULT_PREFS, hook_on = False\<rparr>"

definition usePrefs_mount :: "json browser \<Rightarrow> NotifyPrefs live_hook \<Rightarrow> storage_error + NotifyPrefs live_hook" where
  "usePrefs_mount b h = map_sum id (\<lambda>g. g\<lparr>hook_on := True\<rparr>) (read_into (loadPrefs b) h)"

definition usePrefs_onChange :: "json browser \<Rightarrow> NotifyPrefs live_hook \<Rightarrow> storage_error + NotifyPrefs live_hook" where
  "usePrefs_onChange b h = (if hook_on h then read_into (loadPrefs b) h else Inr h)"

definition usePrefs_unmount :: "NotifyPrefs live_hook \<Rightarrow> NotifyPrefs live_hook" where
  "usePrefs_unmount h = h\<lparr>hook_on := False\<rparr>"

definition usePrefs_update ::
  "NotifyPrefs \<Rightarrow> json browser \<Rightarrow> NotifyPrefs live_hook \<Rightarrow> storage_error + (json browser \<times> NotifyPrefs live_hook)" where
  "usePrefs_update next b h =
     (case savePrefs next b of Inl e \<Rightarrow> Inl e | Inr b' \<Rightarrow> Inr (b', h\<lparr>hook_value := next\<rparr>))"

definition useFired_init :: "json list live_hook" where
  "useFired_init = \<lparr>hook_value = [], hook_on = False\<rparr>"

definition useFired_mount :: "json browser \<Rightarrow> json list live_hook \<Rightarrow> storage_error + json list live_hook" where
  "useFired_mount b h = map_sum id (\<lambda>g. g\<lparr>hook_on := True\<rparr>) (read_into (loadFired b) h)"

definition useFired_onChange :: "json browser \<Rightarrow> json list live_hook \<Rightarrow> storage_error + json list live_hook" where
  "useFired_onChange b h = (if hook_on h then read_into (loadFired b) h else Inr h)"

definition useFired_unmount :: "json list live_hook \<Rightarrow> json list live_hook" where
  "useFired_unmount h = h\<lparr>hook_on := False\<rparr>"

section \<open>The permission\<close>

datatype PermissionState = perm_default | perm_granted | perm_denied | perm_unsupported

text \<open>
  The host's \<open>Notification\<close>: \<^const>\<open>None\<close> when it is not defined, otherwise its \<open>permission\<close> property,
  which may be missing. The answer of \<open>Notification.requestPermission()\<close> is an argument; \<^const>\<open>None\<close>
  is a rejection.
\<close>

definition permissionState :: "bool \<Rightarrow> PermissionState option option \<Rightarrow> PermissionState" where
  "permissionState no_window api =
     (if no_window then perm_unsupported
      else case api of None \<Rightarrow> perm_unsupported | Some p \<Rightarrow> nullish p perm_default)"

definition requestPermission ::
  "bool \<Rightarrow> PermissionState option option \<Rightarrow> PermissionState option \<Rightarrow> PermissionState" where
  "requestPermission no_window api answer =
     (if no_window \<or> api = None then perm_unsupported
      else case answer of Some p \<Rightarrow> p | None \<Rightarrow> permissionState no_window api)"

section \<open>The engine\<close>

definition CURSOR_KEY :: string where "CURSOR_KEY = ''clawhum.notify.cursor.v1''"
definition POLL_MS :: nat where "POLL_MS = 30000"

record ActivityItem =
  it_id :: string
  it_kind :: NotifyKind
  it_title :: string
  it_subtitle :: string
  it_ok :: bool
  it_created_at :: rat
  it_href :: string

record ActivityResp =
  ar_items :: "ActivityItem list option"
  ar_latest_at :: "rat option"

definition getCursor :: "'v browser \<Rightarrow> jsnum" where
  "getCursor b =
     (case get_text CURSOR_KEY b of
        Inl _ \<Rightarrow> Fin 0
      | Inr v \<Rightarrow> string_to_number (or_str (nullish v []) ''0''))"

definition setCursor :: "rat \<Rightarrow> 'v browser \<Rightarrow> 'v browser" where
  "setCursor ts b = try_or b (set_text CURSOR_KEY (num_to_string ts) b)"

definition kind_on :: "NotifyPrefs \<Rightarrow> NotifyKind \<Rightarrow> bool" where
  "kind_on p k = (case k of match_kind \<Rightarrow> np_match p | delivery_kind \<Rightarrow> np_delivery p)"

definition shouldFire :: "NotifyPrefs \<Rightarrow> bool \<Rightarrow> ActivityItem \<Rightarrow> bool" where
  "shouldFire prefs visible item =
     (if \<not> np_enabled prefs then False
      else if \<not> kind_on prefs (it_kind item) then False
      else if np_onlyWhenHidden prefs \<and> visible then False
      else True)"

text \<open>What the host shows; the click handler follows \<open>href\<close> when there is one.\<close>

record shown_note =
  sn_title :: string
  sn_body :: string
  sn_tag :: string
  sn_href :: string

definition note_click :: "shown_note \<Rightarrow> string option" where
  "note_click n = (if sn_href n \<noteq> [] then Some (sn_href n) else None)"

text \<open>The host while a tick runs: the clock, the visibility, the API and whether its constructor throws.\<close>

record host =
  h_now :: rat
  h_visible :: bool
  h_api :: "PermissionState option option"
  h_ctor_ok :: bool

record engine =
  en_browser :: "json browser"
  en_started :: bool
  en_timer :: bool
  en_inflight :: bool
  en_pending :: "NotifyPrefs list"
  en_shown :: "shown_note list"
  en_pings :: nat

definition note_title :: "ActivityItem \<Rightarrow> string" where
  "note_title item =
     (if it_kind item = match_kind then ''clawhum: '' @ it_title item else ''webhook: '' @ it_title item)"

definition note_body :: "ActivityItem \<Rightarrow> string" where
  "note_body item = or_str (it_subtitle item) (if it_ok item then ''ok'' else ''failed'')"

definition fired_entry :: "host \<Rightarrow> ActivityItem \<Rightarrow> FiredEntry" where
  "fired_entry h item =
     \<lparr>fe_id = it_id item, fe_kind = it_kind item, fe_title = note_title item, fe_body = note_body item,
      fe_at = h_now h, fe_href = it_href item\<rparr>"

definition note_tag :: "string \<Rightarrow> string" where
  "note_tag i = ''clawhum-'' @ i"

definition note_of :: "ActivityItem \<Rightarrow> shown_note" where
  "note_of item =
     \<lparr>sn_title = note_title item, sn_body = note_body item, sn_tag = note_tag (it_id item),
      sn_href = it_href item\<rparr>"

definition playPing :: "engine \<Rightarrow> engine" where
  "playPing s = s\<lparr>en_pings := Suc (en_pings s)\<rparr>"

definition fireOne :: "host \<Rightarrow> NotifyPrefs \<Rightarrow> ActivityItem \<Rightarrow> engine \<Rightarrow> storage_error + engine" where
  "fireOne h prefs item s =
     (case appendFired (fired_entry h item) (en_browser s) of
        Inl e \<Rightarrow> Inl e
      | Inr b \<Rightarrow>
          (let s1 = s\<lparr>en_browser := b\<rparr>;
               s2 = (if h_api h = Some (Some perm_granted) \<and> h_ctor_ok h
                     then s1\<lparr>en_shown := en_shown s1 @ [note_of item]\<rparr> else s1)
           in Inr (if np_sound prefs then playPing s2 else s2)))"

text \<open>The loop over the fresh items; the flag says whether it ended without an exception.\<close>

fun fire_all :: "host \<Rightarrow> NotifyPrefs \<Rightarrow> ActivityItem list \<Rightarrow> engine \<Rightarrow> engine \<times> bool" where
  "fire_all h prefs [] s = (s, True)"
| "fire_all h prefs (item # items) s =
     (if shouldFire prefs (h_visible h) item then
        (case fireOne h prefs item s of
           Inl _ \<Rightarrow> (s, False)
         | Inr s' \<Rightarrow> fire_all h prefs items s')
      else fire_all h prefs items s)"

definition fresh_items :: "jsnum \<Rightarrow> ActivityResp \<Rightarrow> ActivityItem list" where
  "fresh_items cursor data =
     js_sort (by_key it_created_at)
       (filter (\<lambda>i. num_less cursor (Fin (it_created_at i))) (nullish (ar_items data) []))"

definition cursor_after :: "ActivityResp \<Rightarrow> ActivityItem list \<Rightarrow> rat" where
  "cursor_after data fresh =
     (case ar_latest_at data of
        Some t \<Rightarrow> if t \<noteq> 0 then t else it_created_at (last fresh)
      | None \<Rightarrow> it_created_at (last fresh))"

definition set_cursor :: "rat \<Rightarrow> engine \<Rightarrow> engine" where
  "set_cursor t s = s\<lparr>en_browser := setCursor t (en_browser s)\<rparr>"

text \<open>What \<open>tick\<close> does with the body of a good response.\<close>

definition tick_body :: "host \<Rightarrow> NotifyPrefs \<Rightarrow> ActivityResp \<Rightarrow> engine \<Rightarrow> engine" where
  "tick_body h prefs data s =
     (let cursor = getCursor (en_browser s); fresh = fresh_items cursor data in
      if fresh = [] then
        (case ar_latest_at data of
           Some t \<Rightarrow> if cursor = Fin 0 \<and> t \<noteq> 0 then set_cursor t s else s
         | None \<Rightarrow> s)
      else if cursor = Fin 0 then set_cursor (cursor_after data fresh) s
      else
        (case fire_all h prefs fresh s of
           (s', True) \<Rightarrow> set_cursor (cursor_after data fresh) s'
         | (s', False) \<Rightarrow> s'))"

text \<open>\<open>tick\<close> up to the request, and from the answer on.\<close>

definition tick_start :: "engine \<Rightarrow> engine" where
  "tick_start s =
     (if en_inflight s then s
      else case loadPrefs (en_browser s) of
             Inl _ \<Rightarrow> s
           | Inr prefs \<Rightarrow>
               if \<not> np_enabled prefs then s
               else s\<lparr>en_inflight := True, en_pending := en_pending s @ [prefs]\<rparr>)"

datatype answer = NetworkError | NotOk | BadBody | Body ActivityResp

definition tick_resume :: "host \<Rightarrow> answer \<Rightarrow> engine \<Rightarrow> engine" where
  "tick_resume h a s =
     (case en_pending s of
        [] \<Rightarrow> s
      | prefs # rest \<Rightarrow>
          (let s' = (case a of Body data \<Rightarrow> tick_body h prefs data s | _ \<Rightarrow> s)
           in s'\<lparr>en_inflight := False, en_pending := rest\<rparr>))"

definition startNotifyEngine :: "engine \<Rightarrow> engine" where
  "startNotifyEngine s =
     (if ssr (en_browser s) then s
      else if en_started s then s
      else (tick_start (s\<lparr>en_started := True\<rparr>))\<lparr>en_timer := True\<rparr>)"

text \<open>The function the effective start returns.\<close>

definition stopNotifyEngine :: "engine \<Rightarrow> engine" where
  "stopNotifyEngine s = s\<lparr>en_started := False, en_timer := False\<rparr>"

definition onInterval :: "engine \<Rightarrow> engine" where
  "onInterval s = (if en_timer s then tick_start s else s)"

definition onPrefs :: "engine \<Rightarrow> engine" where
  "onPrefs s = (if en_started s then tick_start s else s)"

definition onVis :: "bool \<Rightarrow> engine \<Rightarrow> engine" where
  "onVis visible s = (if en_started s \<and> visible then tick_start s else s)"

end
