(* ===== verification/NotifyLaws.thy ===== *)
theory NotifyLaws
  imports Notify
begin

text \<open>
  The laws of the notification prefs, the fired log and the polling engine. The preferences satisfy
  the contract of a persisted value. The engine is a step relation whose steps are the calls of the
  module, the answers of the server and anything else the page does to the storage.
\<close>

section \<open>Preferences\<close>

text \<open>What the settings page reads: the defaults while the storage cannot be touched.\<close>

definition read_prefs :: "json browser \<Rightarrow> NotifyPrefs" where
  "read_prefs b = (case loadPrefs b of Inl _ \<Rightarrow> DEFAULT_PREFS | Inr p \<Rightarrow> p)"

definition write_prefs :: "NotifyPrefs \<Rightarrow> json browser \<Rightarrow> json browser" where
  "write_prefs p b = try_or b (savePrefs p b)"

definition prefs_admitted :: "NotifyPrefs \<Rightarrow> json browser \<Rightarrow> bool" where
  "prefs_admitted p b \<longleftrightarrow> \<not> ssr b \<and> writable NOTIFY_PREFS_KEY (prefs_json p) b"

lemma merge_prefs_json [simp]: "mergePrefs (Some (prefs_json p)) = p"
  by (simp add: mergePrefs_def prefs_json_def bool_field_def)

lemma json_norm_prefs [simp]: "json_norm (prefs_json p) = prefs_json p"
  by (simp add: prefs_json_def)

lemma safeParse_prefs [simp]: "safeParse (Some (Doc (prefs_json p))) f = prefs_json p"
  by (simp add: safeParse_def prefs_json_def)

interpretation prefs: persisted read_prefs write_prefs prefs_admitted "\<lambda>_. True"
proof
  fix p q :: NotifyPrefs and b :: "json browser"
  note defs = read_prefs_def write_prefs_def prefs_admitted_def loadPrefs_def savePrefs_def put_json_def
    set_doc_def get_doc_def writable_def
  show "prefs_admitted p b \<Longrightarrow> read_prefs (write_prefs p b) = p" by (auto simp: defs)
  show "\<not> prefs_admitted p b \<Longrightarrow> read_prefs (write_prefs p b) = read_prefs b" by (auto simp: defs)
  show "prefs_admitted q (write_prefs p b) = prefs_admitted q b" by (auto simp: defs)
qed simp

text \<open>
  Reading the preferences never fails on their content: whatever JSON, broken text or nothing is
  under the key, each flag is the stored boolean when there is one and its default otherwise, and
  what was saved last is what is read.
\<close>

theorem prefs_total:
  "(case loadPrefs b of
      Inl _ \<Rightarrow> \<not> enabled b \<and> \<not> ssr b
    | Inr p \<Rightarrow> np_enabled p = (if ssr b then False else
        bool_field (Some (safeParse (docs b NOTIFY_PREFS_KEY) (JObj []))) ''enabled'' False)) \<and>
   (case savePrefs p b of Inl _ \<Rightarrow> \<not> prefs_admitted p b \<and> \<not> ssr b
    | Inr b' \<Rightarrow> loadPrefs b' = Inr (if ssr b then DEFAULT_PREFS else p))"
proof
  have "safeParse raw (JObj []) \<noteq> JNull" for raw
    by (auto simp: safeParse_def split: option.split doc.split)
  then show "case loadPrefs b of
      Inl _ \<Rightarrow> \<not> enabled b \<and> \<not> ssr b
    | Inr p \<Rightarrow> np_enabled p = (if ssr b then False else
        bool_field (Some (safeParse (docs b NOTIFY_PREFS_KEY) (JObj []))) ''enabled'' False)"
    by (auto simp: loadPrefs_def get_doc_def mergePrefs_def DEFAULT_PREFS_def Let_def split: json.split)
  show "case savePrefs p b of Inl _ \<Rightarrow> \<not> prefs_admitted p b \<and> \<not> ssr b
    | Inr b' \<Rightarrow> loadPrefs b' = Inr (if ssr b then DEFAULT_PREFS else p)"
    by (auto simp: savePrefs_def loadPrefs_def put_json_def set_doc_def get_doc_def prefs_admitted_def
        writable_def)
qed

section \<open>The fired log\<close>

text \<open>The ids of a log, as the dedupe test compares them.\<close>

definition fired_id :: "json \<Rightarrow> json option" where
  "fired_id e = field e ''id''"

definition fired_log :: "json browser \<Rightarrow> json list" where
  "fired_log b = (case loadFired b of Inl _ \<Rightarrow> [] | Inr es \<Rightarrow> es)"

lemma is_fired_json [simp]: "is_fired (fired_json e)"
  by (simp add: is_fired_def fired_json_def is_string_def)

lemma fired_id_json [simp]: "fired_id (fired_json e) = Some (JStr (fe_id e))"
  by (simp add: fired_id_def fired_json_def)

lemma json_norm_fired [simp]: "json_norm (fired_json e) = fired_json e"
  by (simp add: fired_json_def)

lemma field_norm: "field (json_norm v) k = map_option json_norm (field v k)"
proof (cases v)
  case (JObj fs)
  then show ?thesis by (induction fs arbitrary: v) auto
qed auto

lemma is_string_norm [simp]: "is_string (map_option json_norm v) = is_string v"
proof (cases v)
  case (Some w)
  then show ?thesis by (cases w) (auto simp: is_string_def)
qed simp

lemma is_object_norm [simp]: "is_object (Some (json_norm v)) = is_object (Some v)"
  by (cases v) auto

lemma is_fired_norm [simp]: "is_fired (json_norm e) = is_fired e"
  by (simp add: is_fired_def field_norm)

lemma fired_id_norm: "is_fired e \<Longrightarrow> fired_id (json_norm e) = fired_id e"
  by (auto simp: is_fired_def is_string_def fired_id_def field_norm split: option.splits json.splits)

lemma loadFired_facts: "loadFired b = Inr es \<Longrightarrow> length es \<le> FIRED_MAX \<and> list_all is_fired es"
  by (auto simp: loadFired_def list_all_iff split: if_splits sum.splits json.splits dest: in_set_takeD)

lemma loadFired_written:
  assumes "put_json NOTIFY_FIRED_KEY (JArr es) b = Inr b'" "list_all is_fired es" "length es \<le> FIRED_MAX" "\<not> ssr b"
  shows "loadFired b' = Inr (map json_norm es)"
proof -
  have "filter is_fired (map json_norm es) = map json_norm es"
    using assms(2) by (simp add: filter_id_conv list_all_iff)
  then show ?thesis
    using assms by (auto simp: put_json_def set_doc_def loadFired_def get_doc_def safeParse_def split: if_splits)
qed

lemma loadFired_dispatch [simp]: "loadFired (dispatch e b) = loadFired b"
  by (simp add: loadFired_def)

text \<open>
  The log of fired notifications stays a log: at most 50 entries, and recording an entry with a
  new id puts it first and keeps the others, oldest dropped; an id that is there is not recorded
  again, so distinct ids stay distinct.
\<close>

theorem appendFired_spec:
  "case appendFired entry b of
     Inl _ \<Rightarrow> \<not> ssr b
   | Inr b' \<Rightarrow>
       length (fired_log b') \<le> 50 \<and>
       map fired_id (fired_log b') =
         (if ssr b \<or> Some (JStr (fe_id entry)) \<in> set (map fired_id (fired_log b)) then map fired_id (fired_log b)
          else take 50 (Some (JStr (fe_id entry)) # map fired_id (fired_log b))) \<and>
       (distinct (map fired_id (fired_log b)) \<longrightarrow> distinct (map fired_id (fired_log b')))"
proof (cases "appendFired entry b")
  case (Inl e)
  then show ?thesis by (auto simp: appendFired_def)
next
  case (Inr b')
  have len: "length (fired_log c) \<le> 50" for c
    using loadFired_facts [of c] by (auto simp: fired_log_def FIRED_MAX_def split: sum.split)
  have "map fired_id (fired_log b') =
         (if ssr b \<or> Some (JStr (fe_id entry)) \<in> set (map fired_id (fired_log b)) then map fired_id (fired_log b)
          else take 50 (Some (JStr (fe_id entry)) # map fired_id (fired_log b)))"
  proof (cases "ssr b \<or> Some (JStr (fe_id entry)) \<in> set (map fired_id (fired_log b))")
    case True
    then show ?thesis using Inr
      by (auto simp: appendFired_def fired_log_def fired_id_def list_ex_iff split: sum.splits if_splits)
  next
    case False
    obtain es where es: "loadFired b = Inr es" using Inr False by (auto simp: appendFired_def split: sum.splits)
    note facts = loadFired_facts [OF es]
    let ?new = "take FIRED_MAX (fired_json entry # es)"
    have new: "\<not> list_ex (\<lambda>e. field e ''id'' = Some (JStr (fe_id entry))) es"
      using False es by (force simp: fired_log_def fired_id_def list_ex_iff)
    obtain c where c: "put_json NOTIFY_FIRED_KEY (JArr ?new) b = Inr c" "b' = dispatch NOTIFY_FIRED_EVENT c"
      using Inr False es new by (auto simp: appendFired_def split: sum.splits)
    have ok: "list_all is_fired ?new" using facts by (auto simp: list_all_iff dest!: in_set_takeD)
    then have "loadFired b' = Inr (map json_norm ?new)"
      using loadFired_written [OF c(1) ok] False c(2) by simp
    moreover have "map fired_id (map json_norm ?new) = map fired_id ?new"
      using ok by (simp add: fired_id_norm list_all_iff)
    ultimately show ?thesis using es False by (simp add: fired_log_def take_map FIRED_MAX_def)
  qed
  moreover have "distinct ys \<Longrightarrow> distinct (take 50 (x # ys))" if "x \<notin> set ys" for x :: "json option" and ys
    using that by (auto intro!: distinct_take dest: in_set_takeD simp: take_Cons')
  ultimately show ?thesis using Inr len by (auto split: if_splits)
qed

definition sample_entry :: FiredEntry where
  "sample_entry = \<lparr>fe_id = ''m1'', fe_kind = match_kind, fe_title = ''t'', fe_body = ''ok'', fe_at = 1, fe_href = []\<rparr>"

theorem appendFired_spec_witness:
  "\<exists>b'. appendFired sample_entry (open_browser (\<lambda>_. None) (\<lambda>_. None)) = Inr b' \<and> distinct (map fired_id (fired_log b'))"
  using appendFired_spec [of "open_browser (\<lambda>_. None) (\<lambda>_. None)" sample_entry]
  by (simp add: appendFired_def loadFired_def get_doc_def open_browser_def safeParse_def put_json_def set_doc_def
      fired_log_def sample_entry_def)


section \<open>The engine\<close>

text \<open>
  The steps of the engine: the calls of the module, an answer of the server, and whatever else the
  page does with the storage in between. A server \<open>born\<close> gives every item its time.
\<close>

definition good_answer :: "(string \<Rightarrow> rat) \<Rightarrow> ActivityResp \<Rightarrow> bool" where
  "good_answer born data \<longleftrightarrow>
     distinct (map it_id (nullish (ar_items data) [])) \<and>
     list_all (\<lambda>i. it_created_at i = born (it_id i) \<and> it_created_at i \<le> nullish (ar_latest_at data) 0 \<and>
                   0 < it_created_at i) (nullish (ar_items data) []) \<and>
     0 \<le> nullish (ar_latest_at data) 0 \<and>
     string_to_number (num_to_string (nullish (ar_latest_at data) 0)) = Fin (nullish (ar_latest_at data) 0)"

fun good_body :: "(string \<Rightarrow> rat) \<Rightarrow> answer \<Rightarrow> bool" where
  "good_body born (Body data) = good_answer born data"
| "good_body born _ = True"

inductive engine_step :: "(engine \<Rightarrow> engine \<Rightarrow> bool) \<Rightarrow> (answer \<Rightarrow> bool) \<Rightarrow> engine \<Rightarrow> engine \<Rightarrow> bool"
  for page :: "engine \<Rightarrow> engine \<Rightarrow> bool" and served :: "answer \<Rightarrow> bool" where
  start: "engine_step page served s (startNotifyEngine s)"
| stop: "engine_step page served s (stopNotifyEngine s)"
| interval: "engine_step page served s (onInterval s)"
| prefs_event: "engine_step page served s (onPrefs s)"
| visibility: "engine_step page served s (onVis v s)"
| answered: "served a \<Longrightarrow> engine_step page served s (tick_resume h a s)"
| elsewhere: "page s t \<Longrightarrow> engine_step page served s t"

inductive engine_reach :: "(engine \<Rightarrow> engine \<Rightarrow> bool) \<Rightarrow> (answer \<Rightarrow> bool) \<Rightarrow> engine \<Rightarrow> engine \<Rightarrow> bool"
  for page :: "engine \<Rightarrow> engine \<Rightarrow> bool" and served :: "answer \<Rightarrow> bool" and s0 :: engine where
  initially: "engine_reach page served s0 s0"
| later: "engine_reach page served s0 s \<Longrightarrow> engine_step page served s t \<Longrightarrow> engine_reach page served s0 t"

inductive_cases engine_stepE: "engine_step page served s t"

text \<open>An invariant of every operation is an invariant of every run.\<close>

lemma engine_invariant:
  assumes reach: "engine_reach page served s0 s" and init: "I s0"
    and ops: "\<And>s. I s \<Longrightarrow> I (startNotifyEngine s) \<and> I (stopNotifyEngine s) \<and> I (onInterval s) \<and> I (onPrefs s)"
      "\<And>s v. I s \<Longrightarrow> I (onVis v s)" "\<And>s h a. I s \<Longrightarrow> served a \<Longrightarrow> I (tick_resume h a s)"
      "\<And>s t. I s \<Longrightarrow> page s t \<Longrightarrow> I t"
  shows "I s"
  using reach
proof induction
  case (later s t)
  from later.hyps(2) show ?case
    by (rule engine_stepE) (use later.IH ops in auto)
qed (rule init)

text \<open>The step touches only the browser, the notes and the pings while it fires.\<close>

definition same_control :: "engine \<Rightarrow> engine \<Rightarrow> bool" where
  "same_control s t \<longleftrightarrow> en_started t = en_started s \<and> en_timer t = en_timer s \<and>
     en_inflight t = en_inflight s \<and> en_pending t = en_pending s"

lemma fire_all_control: "same_control s (fst (fire_all h p items s))"
proof (induction items arbitrary: s)
  case (Cons i items)
  show ?case
  proof (cases "fireOne h p i s")
    case (Inl e)
    then show ?thesis using Cons by (simp add: same_control_def)
  next
    case (Inr s')
    then have "same_control s s'"
      by (auto simp: same_control_def fireOne_def playPing_def Let_def split: sum.splits if_splits)
    then show ?thesis using Inr Cons [of s'] Cons [of s] by (simp add: same_control_def)
  qed
qed (simp add: same_control_def)

lemma tick_body_control: "same_control s (tick_body h p data s)"
  using fire_all_control [of s h p "fresh_items (getCursor (en_browser s)) data"]
  by (auto simp: tick_body_def Let_def same_control_def set_cursor_def split: prod.splits option.splits bool.splits)

definition one_request :: "engine \<Rightarrow> bool" where
  "one_request s \<longleftrightarrow> length (en_pending s) = (if en_inflight s then 1 else 0)"

lemma one_request_start: "one_request s \<Longrightarrow> one_request (tick_start s)"
  by (auto simp: one_request_def tick_start_def split: sum.splits)

lemma one_request_resume: "one_request s \<Longrightarrow> one_request (tick_resume h a s)"
  by (cases "en_pending s") (auto simp: one_request_def tick_resume_def Let_def split: if_splits)

text \<open>
  C7. However the interval, the preference events, visibility changes, starts, stops and answers
  interleave, and whatever else the page does to the storage, there is never a second request of the
  engine under way, and the flag is set exactly while there is one.
\<close>

theorem single_request:
  assumes "engine_reach (\<lambda>s t. \<exists>b. t = s\<lparr>en_browser := b\<rparr>) (\<lambda>_. True) s0 s"
    and "en_pending s0 = []" "\<not> en_inflight s0"
  shows "length (en_pending s) = (if en_inflight s then 1 else 0)"
proof -
  have "one_request s"
  proof (rule engine_invariant [OF assms(1)])
    show "one_request s0" using assms by (simp add: one_request_def)
    fix s :: engine assume s: "one_request s"
    note t = one_request_start [OF s]
    have "one_request (s\<lparr>en_started := True\<rparr>)" using s by (simp add: one_request_def)
    from one_request_start [OF this] have "one_request (startNotifyEngine s)"
      using s by (auto simp: startNotifyEngine_def one_request_def split: if_splits)
    moreover have "one_request (stopNotifyEngine s)" using s by (simp add: stopNotifyEngine_def one_request_def)
    ultimately show "one_request (startNotifyEngine s) \<and> one_request (stopNotifyEngine s) \<and>
        one_request (onInterval s) \<and> one_request (onPrefs s)"
      using s t by (simp add: onInterval_def onPrefs_def)
    show "one_request (onVis v s)" for v using s t by (simp add: onVis_def)
    show "one_request t" if "\<exists>b. t = s\<lparr>en_browser := b\<rparr>" for t using that s by (auto simp: one_request_def)
    show "\<And>h a. one_request (tick_resume h a s)" by (rule one_request_resume [OF s])
  qed
  then show ?thesis by (simp add: one_request_def)
qed


text \<open>A storage that takes the two values the engine writes.\<close>

definition storage_ok :: "json browser \<Rightarrow> bool" where
  "storage_ok b \<longleftrightarrow> \<not> ssr b \<and> enabled b \<and> (\<forall>v. fits b NOTIFY_FIRED_KEY v) \<and> (\<forall>t. text_fits b CURSOR_KEY t)"

definition granted :: "host \<Rightarrow> bool" where
  "granted h \<longleftrightarrow> h_api h = Some (Some perm_granted) \<and> h_ctor_ok h"

lemma appendFired_ok:
  "storage_ok b \<Longrightarrow> \<exists>b'. appendFired e b = Inr b' \<and> storage_ok b' \<and> texts b' = texts b"
  by (auto simp: storage_ok_def appendFired_def loadFired_def get_doc_def put_json_def set_doc_def
      split: sum.splits json.splits)

lemma getCursor_cong: "storage_ok b \<Longrightarrow> storage_ok c \<Longrightarrow> texts c CURSOR_KEY = texts b CURSOR_KEY \<Longrightarrow> getCursor c = getCursor b"
  by (simp add: getCursor_def get_text_def storage_ok_def)

lemma fireOne_ok:
  assumes "storage_ok (en_browser s)"
  shows "\<exists>t. fireOne h p i s = Inr t \<and> storage_ok (en_browser t) \<and> texts (en_browser t) = texts (en_browser s) \<and>
    en_shown t = en_shown s @ (if granted h then [note_of i] else [])"
  using appendFired_ok [OF assms, of "fired_entry h i"]
  by (auto simp: fireOne_def granted_def playPing_def Let_def)

lemma fire_all_ok:
  "storage_ok (en_browser s) \<Longrightarrow>
     \<exists>t. fire_all h p items s = (t, True) \<and> storage_ok (en_browser t) \<and> texts (en_browser t) = texts (en_browser s) \<and>
       en_shown t = en_shown s @ (if granted h then map note_of (filter (shouldFire p (h_visible h)) items) else [])"
proof (induction items arbitrary: s)
  case (Cons i items)
  obtain t where t: "fireOne h p i s = Inr t" "storage_ok (en_browser t)"
    "texts (en_browser t) = texts (en_browser s)"
    "en_shown t = en_shown s @ (if granted h then [note_of i] else [])"
    using fireOne_ok [OF Cons.prems] by blast
  show ?case
    using Cons.IH [OF t(2)] Cons.IH [OF Cons.prems] t by (cases "shouldFire p (h_visible h) i") auto
qed simp

lemma setCursor_ok:
  assumes "storage_ok b" "string_to_number (num_to_string t) = Fin t"
  shows "storage_ok (setCursor t b) \<and> getCursor (setCursor t b) = Fin t"
proof -
  have "string_to_number (or_str (num_to_string t) ''0'') = Fin t"
  proof (cases "num_to_string t = []")
    case True
    have "string_to_number ''0'' = Fin 0" "string_to_number [] = Fin 0" by code_simp+
    with True assms(2) show ?thesis by (simp add: or_str_def)
  qed (simp add: or_str_def assms(2))
  then show ?thesis using assms(1)
    by (simp add: setCursor_def set_text_def storage_ok_def getCursor_def get_text_def)
qed

text \<open>A page with a cursor, a host that shows notes, and one delivery newer than the cursor.\<close>

definition sample_item :: ActivityItem where
  "sample_item = \<lparr>it_id = ''d1'', it_kind = delivery_kind, it_title = ''hook'', it_subtitle = [], it_ok = True,
     it_created_at = 9, it_href = []\<rparr>"

definition sample_feed :: ActivityResp where
  "sample_feed = \<lparr>ar_items = Some [sample_item], ar_latest_at = Some 9\<rparr>"

definition sample_host :: host where
  "sample_host = \<lparr>h_now = 0, h_visible = False, h_api = Some (Some perm_granted), h_ctor_ok = True\<rparr>"

definition sample_browser :: "(string \<Rightarrow> json \<Rightarrow> bool) \<Rightarrow> json browser" where
  "sample_browser room =
     (open_browser (\<lambda>k. if k = CURSOR_KEY then Some ''5'' else None)
       (\<lambda>k. if k = NOTIFY_PREFS_KEY then Some (Doc (prefs_json (DEFAULT_PREFS\<lparr>np_enabled := True\<rparr>))) else None))\<lparr>fits := room\<rparr>"

definition sample_engine :: "(string \<Rightarrow> json \<Rightarrow> bool) \<Rightarrow> engine" where
  "sample_engine room =
     \<lparr>en_browser = sample_browser room, en_started = False, en_timer = False, en_inflight = False,
      en_pending = [], en_shown = [], en_pings = 0\<rparr>"

definition all_on :: NotifyPrefs where
  "all_on = DEFAULT_PREFS\<lparr>np_enabled := True\<rparr>"

lemma sample_cursor: "getCursor (en_browser (sample_engine room)) = Fin 5"
proof -
  have "string_to_number ''5'' = Fin 5"
  proof -
    have "nat_digits 5 = ''5''" by code_simp
    then show ?thesis using string_to_number_nat [of 5] by simp
  qed
  then show ?thesis
    by (simp add: sample_engine_def sample_browser_def open_browser_def getCursor_def get_text_def)
qed

lemma sample_fresh: "fresh_items (Fin 5) sample_feed = [sample_item]"
  by code_simp

lemma sample_storage: "storage_ok (en_browser (sample_engine (\<lambda>_ _. True)))"
  by (simp add: storage_ok_def sample_engine_def sample_browser_def open_browser_def)

text \<open>
  What a tick shows: with a storage that works and a cursor that has been seeded, the notifications
  are exactly the items newer than the cursor whose kind is switched on, oldest first (none while the
  page is visible when the user asked for that, none without the permission), and on the first run,
  with no cursor yet, there is none.
\<close>

theorem tick_shows:
  assumes "storage_ok (en_browser s)"
  shows "en_shown (tick_body h p data s) =
    en_shown s @
      (if getCursor (en_browser s) = Fin 0 \<or> \<not> granted h then []
       else map note_of (filter (shouldFire p (h_visible h)) (fresh_items (getCursor (en_browser s)) data)))"
  using fire_all_ok [OF assms, of h p "fresh_items (getCursor (en_browser s)) data"]
  by (auto simp: tick_body_def Let_def set_cursor_def split: option.split)

theorem tick_shows_witness:
  "en_shown (tick_body sample_host all_on sample_feed (sample_engine (\<lambda>_ _. True))) = [note_of sample_item]"
proof -
  have "granted sample_host" "shouldFire all_on (h_visible sample_host) sample_item" by code_simp+
  then show ?thesis
    using tick_shows [OF sample_storage, of sample_host all_on sample_feed]
    by (simp add: sample_cursor sample_fresh, simp add: sample_engine_def)
qed

text \<open>
  When the browser refuses to store the log entry of the first item a tick wants to show, the
  exception ends the tick: nothing is shown, no sound is played and the cursor stays, so that every
  later tick stops at the same item.
\<close>

theorem full_log_blocks:
  assumes "getCursor (en_browser s) \<noteq> Fin 0" "fresh_items (getCursor (en_browser s)) data = i # items"
    and "shouldFire p (h_visible h) i" "appendFired (fired_entry h i) (en_browser s) = Inl e"
  shows "tick_body h p data s = s"
  using assms by (simp add: tick_body_def fireOne_def)

theorem full_log_blocks_witness:
  "tick_body sample_host all_on sample_feed (sample_engine (\<lambda>k _. k \<noteq> NOTIFY_FIRED_KEY)) =
     sample_engine (\<lambda>k _. k \<noteq> NOTIFY_FIRED_KEY)"
proof -
  let ?s = "sample_engine (\<lambda>k _. k \<noteq> NOTIFY_FIRED_KEY)"
  have "shouldFire all_on (h_visible sample_host) sample_item" by code_simp
  moreover have "appendFired (fired_entry sample_host sample_item) (en_browser ?s) = Inl QuotaExceeded"
    by (simp add: sample_engine_def sample_browser_def open_browser_def appendFired_def loadFired_def get_doc_def
        safeParse_def put_json_def set_doc_def NOTIFY_FIRED_KEY_def NOTIFY_PREFS_KEY_def)
  ultimately show ?thesis
    using full_log_blocks [of ?s sample_feed sample_item "[]"] by (simp add: sample_cursor sample_fresh)
qed

section \<open>At most one notification for an item\<close>

lemma note_tag_inject [simp]: "note_tag i = note_tag j \<longleftrightarrow> i = j"
  by (simp add: note_tag_def)

definition shown_once :: "(string \<Rightarrow> rat) \<Rightarrow> engine \<Rightarrow> bool" where
  "shown_once born s \<longleftrightarrow>
     storage_ok (en_browser s) \<and> distinct (map sn_tag (en_shown s)) \<and>
     (\<forall>tag\<in>set (map sn_tag (en_shown s)).
        \<exists>i c. tag = note_tag i \<and> getCursor (en_browser s) = Fin c \<and> born i \<le> c)"

lemma fresh_items_facts:
  assumes "good_answer born data"
  shows "distinct (map it_id (fresh_items c data))"
    and "i \<in> set (fresh_items c data) \<Longrightarrow>
      num_less c (Fin (born (it_id i))) \<and> born (it_id i) \<le> nullish (ar_latest_at data) 0 \<and> 0 < born (it_id i)"
proof -
  have "distinct (map it_id (filter q (nullish (ar_items data) [])))" for q
    using assms by (simp add: good_answer_def distinct_map_filter)
  moreover have "mset (map it_id (fresh_items c data)) =
      mset (map it_id (filter (\<lambda>i. num_less c (Fin (it_created_at i))) (nullish (ar_items data) [])))"
    by (simp add: fresh_items_def)
  ultimately show "distinct (map it_id (fresh_items c data))" by (metis mset_eq_imp_distinct_iff)
  show "i \<in> set (fresh_items c data) \<Longrightarrow>
      num_less c (Fin (born (it_id i))) \<and> born (it_id i) \<le> nullish (ar_latest_at data) 0 \<and> 0 < born (it_id i)"
    using assms by (auto simp: fresh_items_def good_answer_def list_all_iff)
qed

lemma cursor_after_latest:
  assumes "good_answer born data" "fresh_items c data \<noteq> []"
  shows "cursor_after data (fresh_items c data) = nullish (ar_latest_at data) 0"
proof -
  obtain i where "i \<in> set (fresh_items c data)" using assms(2) by (meson list.set_sel(1))
  with fresh_items_facts(2) [OF assms(1) this] have "0 < nullish (ar_latest_at data) 0" by linarith
  then show ?thesis by (auto simp: cursor_after_def split: option.splits)
qed


text \<open>A later cursor keeps the invariant, and the notes of fresh items can be added to it.\<close>

lemma shown_once_extend:
  assumes s: "shown_once born s" and t: "storage_ok (en_browser t)" "getCursor (en_browser t) = Fin l"
    and shown: "en_shown t = en_shown s @ map note_of items" and d: "distinct (map it_id items)"
    and fresh: "\<And>i. i \<in> set items \<Longrightarrow>
      num_less (getCursor (en_browser s)) (Fin (born (it_id i))) \<and> born (it_id i) \<le> l"
    and mono: "\<And>c. getCursor (en_browser s) = Fin c \<Longrightarrow> c \<le> l \<or> en_shown s = []"
  shows "shown_once born t"
proof -
  have old: "\<exists>i c. tag = note_tag i \<and> getCursor (en_browser s) = Fin c \<and> born i \<le> c \<and> c \<le> l"
    if tag: "tag \<in> set (map sn_tag (en_shown s))" for tag
  proof -
    obtain i c where "tag = note_tag i" "getCursor (en_browser s) = Fin c" "born i \<le> c"
      using s tag unfolding shown_once_def by blast
    moreover have "en_shown s \<noteq> []" using tag by auto
    ultimately show ?thesis using mono by blast
  qed
  have tags: "map sn_tag (map note_of items) = map (\<lambda>i. note_tag (it_id i)) items"
    by (simp add: note_of_def comp_def)
  have "distinct (map (\<lambda>i. note_tag (it_id i)) items)"
    using d by (simp add: distinct_map inj_on_def)
  moreover have "note_tag (it_id i) \<notin> set (map sn_tag (en_shown s))" if "i \<in> set items" for i
    using old [of "note_tag (it_id i)"] fresh [OF that] by auto
  then have "set (map sn_tag (en_shown s)) \<inter> set (map (\<lambda>i. note_tag (it_id i)) items) = {}"
    by (fastforce simp del: set_map simp: image_iff [where f = "\<lambda>i. note_tag (it_id i)"] set_map [of "\<lambda>i. note_tag (it_id i)"])
  moreover have "distinct (map sn_tag (en_shown s))" using s by (simp add: shown_once_def)
  ultimately have "distinct (map sn_tag (en_shown t))"
    unfolding shown map_append tags distinct_append by blast
  moreover have "\<exists>i c. tag = note_tag i \<and> getCursor (en_browser t) = Fin c \<and> born i \<le> c"
    if "tag \<in> set (map sn_tag (en_shown t))" for tag
    using that old fresh t(2) tags unfolding shown by (fastforce simp del: map_map)
  ultimately show ?thesis using t(1) by (simp add: shown_once_def)
qed

lemma shown_once_body:
  assumes s: "shown_once born s" and g: "good_answer born data"
  shows "shown_once born (tick_body h p data s)"
proof -
  let ?c = "getCursor (en_browser s)" and ?l = "nullish (ar_latest_at data) 0"
  let ?f = "fresh_items ?c data"
  have ok: "storage_ok (en_browser s)" using s by (simp add: shown_once_def)
  have l: "string_to_number (num_to_string ?l) = Fin ?l" "0 \<le> ?l" using g by (simp_all add: good_answer_def)
  have moved: "shown_once born (set_cursor ?l t)"
    if "storage_ok (en_browser t)" "en_shown t = en_shown s @ map note_of items"
      "distinct (map it_id items)" "set items \<subseteq> set ?f" "\<And>c. ?c = Fin c \<Longrightarrow> c \<le> ?l" for t items
    using setCursor_ok [OF that(1) l(1)] that fresh_items_facts(2) [OF g, of _ ?c]
    by (intro shown_once_extend [OF s, where l = ?l and items = items]) (auto simp: set_cursor_def)
  show ?thesis
  proof (cases "?f = []")
    case True
    then show ?thesis
      using moved [OF ok, of "[]"] s l(2) by (auto simp: tick_body_def Let_def split: option.split)
  next
    case False
    then obtain i where i: "i \<in> set ?f" by (meson list.set_sel(1))
    have le: "c \<le> ?l" if "?c = Fin c" for c
      using fresh_items_facts(2) [OF g i] that by auto
    note after = cursor_after_latest [OF g False]
    obtain t where t: "fire_all h p ?f s = (t, True)" "storage_ok (en_browser t)"
      "en_shown t = en_shown s @ map note_of (if granted h then filter (shouldFire p (h_visible h)) ?f else [])"
      using fire_all_ok [OF ok, of h p ?f] by auto
    have "distinct (map it_id (if granted h then filter (shouldFire p (h_visible h)) ?f else []))"
      using fresh_items_facts(1) [OF g, of ?c] by (simp add: distinct_map_filter)
    with moved [OF t(2,3)] le have "shown_once born (set_cursor ?l t)" by auto
    then show ?thesis
      using False after t(1) le moved [OF ok, of "[]"] by (auto simp: tick_body_def Let_def)
  qed
qed

lemma shown_once_start: "shown_once born s \<Longrightarrow> shown_once born (tick_start s)"
  by (auto simp: shown_once_def tick_start_def split: sum.split)

lemma shown_once_resume: "shown_once born s \<Longrightarrow> good_body born a \<Longrightarrow> shown_once born (tick_resume h a s)"
proof -
  assume s: "shown_once born s" and a: "good_body born a"
  have "shown_once born (t\<lparr>en_inflight := v, en_pending := q\<rparr>)" if "shown_once born t" for t v q
    using that by (simp add: shown_once_def)
  then show ?thesis
    using shown_once_body [OF s] a s by (cases "en_pending s"; cases a) (simp_all add: tick_resume_def Let_def)
qed

text \<open>What the rest of the page may do to the storage: anything that leaves the cursor's text alone.\<close>

definition page_leaves_cursor :: "engine \<Rightarrow> engine \<Rightarrow> bool" where
  "page_leaves_cursor s t \<longleftrightarrow>
     (\<exists>b. t = s\<lparr>en_browser := b\<rparr> \<and> storage_ok b \<and> texts b CURSOR_KEY = texts (en_browser s) CURSOR_KEY)"

text \<open>
  C3. No item is notified twice: over every run of the engine, with restarts, overlapping triggers,
  changed preferences and a cleared or edited log, the tags of the notifications shown are distinct,
  as long as the storage takes the writes and the server's feed gives an item one positive time, not
  later than the time it announces as the latest.
\<close>

theorem notified_once:
  assumes "engine_reach page_leaves_cursor (good_body born) s0 s"
    and "storage_ok (en_browser s0)" "en_shown s0 = []"
  shows "distinct (map sn_tag (en_shown s))"
proof -
  have "shown_once born s"
  proof (rule engine_invariant [OF assms(1)])
    show "shown_once born s0" using assms(2,3) by (simp add: shown_once_def)
    fix s :: engine assume s: "shown_once born s"
    note t = shown_once_start [OF s]
    have flags: "shown_once born (t\<lparr>en_started := v\<rparr>) \<and> shown_once born (t\<lparr>en_timer := v\<rparr>)"
      if "shown_once born t" for t v
      using that by (simp add: shown_once_def)
    have "shown_once born (startNotifyEngine s)"
      using s flags shown_once_start by (simp add: startNotifyEngine_def)
    moreover have "shown_once born (stopNotifyEngine s)"
      using s by (simp add: stopNotifyEngine_def shown_once_def)
    ultimately show "shown_once born (startNotifyEngine s) \<and> shown_once born (stopNotifyEngine s) \<and>
        shown_once born (onInterval s) \<and> shown_once born (onPrefs s)"
      using s t by (simp add: onInterval_def onPrefs_def)
    show "shown_once born (onVis v s)" for v using s t by (simp add: onVis_def)
    show "shown_once born (tick_resume h a s)" if "good_body born a" for h a
      by (rule shown_once_resume [OF s that])
    show "shown_once born t" if "page_leaves_cursor s t" for t
      using that s getCursor_cong [of "en_browser s" "en_browser t"]
      by (auto simp: page_leaves_cursor_def shown_once_def)
  qed
  then show ?thesis by (simp add: shown_once_def)
qed


theorem notified_once_witness:
  "distinct (map sn_tag (en_shown (tick_resume sample_host (Body sample_feed)
     (startNotifyEngine (sample_engine (\<lambda>_ _. True))))))"
proof -
  let ?s = "sample_engine (\<lambda>_ _. True)"
  have "string_to_number (num_to_string 9) = Fin 9" using number_text_round_trip [of 9] by simp
  then have good: "good_body (\<lambda>_. 9) (Body sample_feed)"
    by (simp add: good_answer_def sample_feed_def sample_item_def)
  have "engine_reach page_leaves_cursor (good_body (\<lambda>_. 9)) ?s (startNotifyEngine ?s)"
    by (rule later [OF initially start])
  then have "engine_reach page_leaves_cursor (good_body (\<lambda>_. 9)) ?s (tick_resume sample_host (Body sample_feed) (startNotifyEngine ?s))"
    by (rule later) (rule answered, rule good)
  from notified_once [OF this sample_storage] show ?thesis by (simp add: sample_engine_def)
qed

theorem single_request_witness:
  "length (en_pending (startNotifyEngine (sample_engine (\<lambda>_ _. True)))) =
     (if en_inflight (startNotifyEngine (sample_engine (\<lambda>_ _. True))) then 1 else 0)"
  by (rule single_request [OF later [OF initially start]]) (simp_all add: sample_engine_def)

end
