(* ===== verification/OEmbed.thy ===== *)
theory OEmbed
  imports Browser
begin

text \<open>
  The public embed surface: the helpers of \<open>web/lib/oembed.ts\<close>, the route handler
  \<open>web/app/api/oembed/route.ts\<close> and the middleware \<open>web/middleware.ts\<close>. The URL parser of the host
  (\<open>new URL\<close>) and the upstream share service are parameters: \<open>parse\<close> maps a text to the parts of
  its URL, \<open>api\<close> maps the address asked for to what the service answers.
\<close>

section \<open>Share addresses\<close>

record url =
  u_protocol :: string
  u_host :: string
  u_origin :: string
  u_pathname :: string

definition share_id_char :: "char \<Rightarrow> bool" where
  "share_id_char c \<longleftrightarrow> is_alpha c \<or> is_digit c \<or> c = CHR ''_'' \<or> c = CHR ''-''"

definition SHARE_ID_RE :: "string \<Rightarrow> bool" where
  "SHARE_ID_RE s \<longleftrightarrow> 4 \<le> length s \<and> length s \<le> 64 \<and> list_all share_id_char s"

record ParsedShareUrl =
  ps_id :: string
  ps_origin :: string

text \<open>\<open>s.replace(/\/+$/, "")\<close>\<close>

definition strip_slashes :: "string \<Rightarrow> string" where
  "strip_slashes s = rev (dropWhile (\<lambda>c. c = CHR ''/'') (rev s))"

definition path_parts :: "string \<Rightarrow> string list" where
  "path_parts p = filter (\<lambda>w. w \<noteq> []) (split_on (CHR ''/'') (strip_slashes p))"

definition parseShareUrl :: "(string \<Rightarrow> url option) \<Rightarrow> string \<Rightarrow> string option \<Rightarrow> ParsedShareUrl option" where
  "parseShareUrl parse raw expectedOrigin =
     (if length raw = 0 \<or> length raw > 2048 then None
      else case parse raw of
        None \<Rightarrow> None
      | Some u \<Rightarrow>
          if u_protocol u \<noteq> ''http:'' \<and> u_protocol u \<noteq> ''https:'' then None
          else if nullish expectedOrigin [] \<noteq> [] \<and> u_origin u \<noteq> nullish expectedOrigin [] then None
          else (case path_parts (u_pathname u) of
                  [r, i] \<Rightarrow>
                    if r \<noteq> ''r'' then None
                    else if \<not> SHARE_ID_RE i then None
                    else Some \<lparr>ps_id = i, ps_origin = u_origin u\<rparr>
                | _ \<Rightarrow> None))"

section \<open>The embed snippet\<close>

text \<open>
  \<open>encodeURIComponent\<close>: the unreserved marks stay, any other code unit becomes the escapes of its
  UTF-8 bytes (two from 128 on).
\<close>

definition uri_unreserved :: "char \<Rightarrow> bool" where
  "uri_unreserved c \<longleftrightarrow> is_alpha c \<or> is_digit c \<or> c \<in> set ''-_.!~*()'' \<or> c = CHR 0x27"

definition hex_digit :: "nat \<Rightarrow> char" where
  "hex_digit d = (if d < 10 then char_of (48 + d) else char_of (55 + d))"

definition percent :: "nat \<Rightarrow> string" where
  "percent n = [CHR 0x25, hex_digit (n div 16), hex_digit (n mod 16)]"

definition encode_char :: "char \<Rightarrow> string" where
  "encode_char c =
     (let n = of_char c in
      if uri_unreserved c then [c]
      else if n < 128 then percent n
      else percent (192 + n div 64) @ percent (128 + n mod 64))"

definition encodeURIComponent :: "string \<Rightarrow> string" where
  "encodeURIComponent s = concat (map encode_char s)"

definition quote :: string where "quote = [CHR 0x22]"

definition embed_src :: "string \<Rightarrow> string \<Rightarrow> string" where
  "embed_src origin i = origin @ ''/r/'' @ encodeURIComponent i @ ''/embed''"

definition buildEmbedHtml :: "string \<Rightarrow> string \<Rightarrow> int \<Rightarrow> int \<Rightarrow> string" where
  "buildEmbedHtml origin i width height =
     ''<iframe src='' @ quote @ embed_src origin i @ quote @
     '' width='' @ quote @ int_to_string width @ quote @
     '' height='' @ quote @ int_to_string height @ quote @ '' '' @
     ''frameborder='' @ quote @ ''0'' @ quote @ '' loading='' @ quote @ ''lazy'' @ quote @
     '' allow='' @ quote @ ''clipboard-write'' @ quote @ '' '' @
     ''referrerpolicy='' @ quote @ ''no-referrer-when-downgrade'' @ quote @ '' '' @
     ''title='' @ quote @ ''clawhum shared match '' @ i @ quote @ '' '' @
     ''style='' @ quote @ ''border:0;border-radius:2px;max-width:100%;'' @ quote @ ''></iframe>''"

section \<open>Sizes\<close>

record ClampSizeOptions =
  defaultWidth :: int
  defaultHeight :: int
  minWidth :: int
  maxWidth :: int
  minHeight :: int
  maxHeight :: int

definition DEFAULT_SIZE :: ClampSizeOptions where
  "DEFAULT_SIZE =
     \<lparr>defaultWidth = 480, defaultHeight = 360, minWidth = 240, maxWidth = 960,
      minHeight = 180, maxHeight = 720\<rparr>"

text \<open>\<open>string | number | null | undefined\<close>\<close>

datatype dim = NoDim | TextDim string | NumDim jsnum

definition dim_number :: "dim \<Rightarrow> jsnum" where
  "dim_number v = (case v of NumDim n \<Rightarrow> n | TextDim s \<Rightarrow> string_to_number s | NoDim \<Rightarrow> NaN)"

definition parseDim :: "dim \<Rightarrow> int \<Rightarrow> int" where
  "parseDim v fallback =
     (if v = NoDim \<or> v = TextDim [] then fallback
      else case dim_number v of
             Fin n \<Rightarrow> if n \<le> 0 then fallback else math_floor n
           | _ \<Rightarrow> fallback)"

definition clampSize :: "dim \<Rightarrow> dim \<Rightarrow> ClampSizeOptions \<Rightarrow> int \<times> int" where
  "clampSize maxwidth maxheight opts =
     (let w = parseDim maxwidth (defaultWidth opts); h = parseDim maxheight (defaultHeight opts)
      in (min (maxWidth opts) (max (minWidth opts) w), min (maxHeight opts) (max (minHeight opts) h)))"

section \<open>The route\<close>

record SharedResult =
  sr_title :: string
  sr_artist :: "string option"

record SharedPayload =
  sp_id :: string
  sp_results :: "SharedResult list option"
  sp_embed_allowed_origins :: "string list option"

datatype 'a service = Unreachable | ServiceNotOk | ServiceBadBody | ServiceData 'a

definition share_address :: "string \<Rightarrow> string \<Rightarrow> string" where
  "share_address base i = base @ ''/share/'' @ encodeURIComponent i"

definition fetchShare :: "string \<Rightarrow> (string \<Rightarrow> SharedPayload service) \<Rightarrow> string \<Rightarrow> SharedPayload option" where
  "fetchShare base api i = (case api (share_address base i) of ServiceData d \<Rightarrow> Some d | _ \<Rightarrow> None)"

record OEmbedRichResponse =
  oe_provider_url :: string
  oe_title :: string
  oe_author_name :: "string option"
  oe_html :: string
  oe_width :: int
  oe_height :: int
  oe_thumbnail_url :: string

datatype reply_body = ErrorBody string | EmbedBody OEmbedRichResponse

record reply =
  rp_status :: nat
  rp_headers :: "(string \<times> string) list"
  rp_body :: reply_body

definition jsonError :: "nat \<Rightarrow> string \<Rightarrow> reply" where
  "jsonError st message =
     \<lparr>rp_status = st,
      rp_headers = [(''Content-Type'', ''application/json; charset=utf-8''), (''Cache-Control'', ''no-store'')],
      rp_body = ErrorBody message\<rparr>"

definition originFromRequest :: "url \<Rightarrow> string" where
  "originFromRequest u = u_protocol u @ ''//'' @ u_host u"

text \<open>The value of the CORS header: an answer for the caller, or \<^const>\<open>None\<close> for the 403.\<close>

definition cors_origin :: "string list \<Rightarrow> string option \<Rightarrow> string option" where
  "cors_origin allowed callerOrigin =
     (if length allowed > 0 then
        (case callerOrigin of
           Some c \<Rightarrow> if c \<noteq> [] then (if c \<notin> set allowed then None else Some c) else Some (hd allowed)
         | None \<Rightarrow> Some (hd allowed))
      else Some ''*'')"

definition embed_title :: "SharedPayload \<Rightarrow> string" where
  "embed_title d =
     (case nullish (sp_results d) [] of
        first # _ \<Rightarrow> sr_title first @ (if nullish (sr_artist first) [] \<noteq> [] then '' by '' @ nullish (sr_artist first) [] else [])
                    @ '' on clawhum''
      | [] \<Rightarrow> ''clawhum shared match '' @ sp_id d)"

definition embed_author :: "SharedPayload \<Rightarrow> string option" where
  "embed_author d =
     (case nullish (sp_results d) [] of
        first # _ \<Rightarrow> (if nullish (sr_artist first) [] \<noteq> [] then sr_artist first else None)
      | [] \<Rightarrow> None)"

definition dim_param :: "string option \<Rightarrow> dim" where
  "dim_param v = (case v of None \<Rightarrow> NoDim | Some s \<Rightarrow> TextDim s)"

definition embed_response :: "string \<Rightarrow> string \<Rightarrow> SharedPayload \<Rightarrow> int \<Rightarrow> int \<Rightarrow> OEmbedRichResponse" where
  "embed_response origin i d width height =
     \<lparr>oe_provider_url = origin, oe_title = embed_title d, oe_author_name = embed_author d,
      oe_html = buildEmbedHtml origin i width height, oe_width = width, oe_height = height,
      oe_thumbnail_url = origin @ ''/r/'' @ encodeURIComponent i @ ''/opengraph-image''\<rparr>"

definition GET ::
  "(string \<Rightarrow> url option) \<Rightarrow> string \<Rightarrow> (string \<Rightarrow> SharedPayload service) \<Rightarrow> url \<Rightarrow>
   (string \<Rightarrow> string option) \<Rightarrow> string option \<Rightarrow> reply" where
  "GET parse base api req sp callerOrigin =
     (let format = to_lower (or_str (nullish (sp ''format'') []) ''json'') in
      if format \<noteq> ''json'' then jsonError 501 ''only format=json is supported''
      else let raw = nullish (sp ''url'') [] in
      if raw = [] then jsonError 400 ''missing url parameter''
      else let origin = originFromRequest req in
      case parseShareUrl parse raw (Some origin) of
        None \<Rightarrow> jsonError 404 ''url does not point to a clawhum share''
      | Some parsed \<Rightarrow>
          (case fetchShare base api (ps_id parsed) of
             None \<Rightarrow> jsonError 404 ''shared match not found''
           | Some d \<Rightarrow>
               (case cors_origin (nullish (sp_embed_allowed_origins d) []) callerOrigin of
                  None \<Rightarrow> jsonError 403 ''origin not permitted to embed this share''
                | Some cors \<Rightarrow>
                    (let (width, height) =
                       clampSize (dim_param (sp ''maxwidth'')) (dim_param (sp ''maxheight'')) DEFAULT_SIZE
                     in \<lparr>rp_status = 200,
                         rp_headers = [(''Content-Type'', ''application/json; charset=utf-8''),
                           (''Cache-Control'', ''public, max-age=300, s-maxage=3600''),
                           (''Access-Control-Allow-Origin'', cors), (''Vary'', ''Origin'')],
                         rp_body = EmbedBody (embed_response origin (ps_id parsed) d width height)\<rparr>))))"

section \<open>The middleware\<close>

definition embed_id :: "string \<Rightarrow> string option" where
  "embed_id p =
     (if take 3 p \<noteq> ''/r/'' then None
      else let i = takeWhile (\<lambda>c. c \<noteq> CHR ''/'') (drop 3 p); rest = dropWhile (\<lambda>c. c \<noteq> CHR ''/'') (drop 3 p)
           in if i \<noteq> [] \<and> (rest = ''/embed'' \<or> rest = ''/embed/'') then Some i else None)"

definition nonempty_string :: "json \<Rightarrow> string option" where
  "nonempty_string v = (case v of JStr s \<Rightarrow> if s \<noteq> [] then Some s else None | _ \<Rightarrow> None)"

definition allowed_origins :: "json \<Rightarrow> string list" where
  "allowed_origins d =
     (case field d ''embed_allowed_origins'' of
        Some (JArr vs) \<Rightarrow> List.map_filter nonempty_string vs
      | _ \<Rightarrow> [])"

definition nosniff :: "(string \<times> string) list" where
  "nosniff = [(''X-Content-Type-Options'', ''nosniff'')]"

text \<open>A \<open>set\<close> that throws lands in the \<open>catch\<close>: then nothing is set.\<close>

definition frame_policy :: "string list \<Rightarrow> string" where
  "frame_policy allowed =
     ''frame-ancestors '' @ join '' '' allowed @ ''; default-src '' @ [CHR 0x27] @ ''self'' @ [CHR 0x27] @ '' '' @
     [CHR 0x27] @ ''unsafe-inline'' @ [CHR 0x27] @ '' data:''"

definition frame_options :: "string list \<Rightarrow> string" where
  "frame_options allowed = (if length allowed = 1 then ''ALLOW-FROM '' @ hd allowed else ''SAMEORIGIN'')"

definition frame_headers :: "string list \<Rightarrow> (string \<times> string) list" where
  "frame_headers allowed =
     (if length allowed > 0 \<and> header_value_ok (frame_policy allowed) then
        (''Content-Security-Policy'', header_value (frame_policy allowed)) #
        (if header_value_ok (frame_options allowed)
         then [(''X-Frame-Options'', header_value (frame_options allowed))] else [])
      else [])"

definition middleware :: "string \<Rightarrow> (string \<Rightarrow> json service) \<Rightarrow> string \<Rightarrow> (string \<times> string) list" where
  "middleware base api pathname =
     (case embed_id pathname of
        None \<Rightarrow> nosniff
      | Some i \<Rightarrow>
          (case api (share_address base i) of
             ServiceData d \<Rightarrow> if d = JNull then nosniff else nosniff @ frame_headers (allowed_origins d)
           | _ \<Rightarrow> nosniff))"

section \<open>Laws\<close>

lemma share_id_unreserved: "share_id_char c \<Longrightarrow> uri_unreserved c"
  by (auto simp: share_id_char_def uri_unreserved_def)

lemma share_id_plain: "share_id_char c \<Longrightarrow> c \<noteq> CHR 0x22 \<and> c \<noteq> CHR ''<'' \<and> c \<noteq> CHR ''>'' \<and> c \<noteq> CHR ''&'' \<and> c \<noteq> CHR ''/''"
  by (auto simp: share_id_char_def is_alpha_def is_upper_def is_lower_def is_digit_def)

lemma encode_share_id: "list_all share_id_char s \<Longrightarrow> encodeURIComponent s = s"
proof -
  assume s: "list_all share_id_char s"
  have "concat (map encode_char s) = s"
    using s by (induction s) (auto simp: encode_char_def share_id_unreserved)
  then show ?thesis by (simp add: encodeURIComponent_def)
qed

lemma parseShareUrl_facts:
  "parseShareUrl parse raw (Some origin) = Some p \<Longrightarrow>
     SHARE_ID_RE (ps_id p) \<and> (origin \<noteq> [] \<longrightarrow> ps_origin p = origin) \<and>
     (\<exists>u. parse raw = Some u \<and> path_parts (u_pathname u) = [''r'', ps_id p] \<and> u_protocol u \<in> {''http:'', ''https:''})"
  unfolding parseShareUrl_def
  by (auto split: if_splits option.splits list.splits)

text \<open>
  Whatever the caller asks for (nothing, a number, NaN, an infinity, any text), the size of the
  embed lies within the limits, and a number within the limits is only rounded down.
\<close>

theorem clampSize_bounds:
  "(case clampSize mw mh DEFAULT_SIZE of (w, h) \<Rightarrow> 240 \<le> w \<and> w \<le> 960 \<and> 180 \<le> h \<and> h \<le> 720) \<and>
   (dim_number mw = Fin x \<and> 240 \<le> x \<and> x < 961 \<longrightarrow> fst (clampSize mw mh DEFAULT_SIZE) = floor x)"
proof
  show "case clampSize mw mh DEFAULT_SIZE of (w, h) \<Rightarrow> 240 \<le> w \<and> w \<le> 960 \<and> 180 \<le> h \<and> h \<le> 720"
    by (simp add: clampSize_def DEFAULT_SIZE_def Let_def)
  show "dim_number mw = Fin x \<and> 240 \<le> x \<and> x < 961 \<longrightarrow> fst (clampSize mw mh DEFAULT_SIZE) = floor x"
  proof
    assume x: "dim_number mw = Fin x \<and> 240 \<le> x \<and> x < 961"
    have "string_to_number [] = Fin 0" by (simp add: string_to_number_def trim_def)
    with x have "mw \<noteq> NoDim" "mw \<noteq> TextDim []" by (auto simp: dim_number_def)
    moreover have "240 \<le> floor x" "floor x \<le> 960" using x by (simp_all add: le_floor_iff floor_le_iff)
    ultimately show "fst (clampSize mw mh DEFAULT_SIZE) = floor x"
      using x by (simp add: clampSize_def DEFAULT_SIZE_def parseDim_def math_floor_def Let_def)
  qed
qed

theorem clampSize_bounds_witness:
  "fst (clampSize (NumDim (Fin (1001 / 2))) NoDim DEFAULT_SIZE) = floor (1001 / 2 :: rat)"
  using clampSize_bounds [of "NumDim (Fin (1001 / 2))" NoDim "1001 / 2"] by (simp add: dim_number_def)


definition header :: "string \<Rightarrow> (string \<times> string) list \<Rightarrow> string option" where
  "header n hs = map_of hs n"

text \<open>The request asks for JSON: it names no format, an empty one, or \<open>json\<close> in any case.\<close>

definition wants_json :: "(string \<Rightarrow> string option) \<Rightarrow> bool" where
  "wants_json sp \<longleftrightarrow> (case sp ''format'' of None \<Rightarrow> True | Some f \<Rightarrow> f = [] \<or> to_lower f = ''json'')"

text \<open>
  C8. The allowlist of a share is enforced: when the owner registered origins, a request for the share
  is answered with the embed only when it asks for JSON; the answer never carries the wildcard nor the
  origin of a caller that is not registered, its \<open>Access-Control-Allow-Origin\<close> is one of the registered
  ones (the caller's own when it sent one). A request for JSON that gets no embed gets status 403, and
  then the caller named an origin that is not registered; any other format gets status 501.
\<close>

theorem oembed_allowlist:
  assumes "fetchShare base api (ps_id p) = Some d" "nullish (sp_embed_allowed_origins d) [] = allowed" "allowed \<noteq> []"
    and "parseShareUrl parse (nullish (sp ''url'') []) (Some (originFromRequest req)) = Some p"
  shows "let r = GET parse base api req sp caller in
     (case rp_body r of
        EmbedBody _ \<Rightarrow> wants_json sp \<and>
          (\<exists>c. header ''Access-Control-Allow-Origin'' (rp_headers r) = Some c \<and> c \<in> set allowed \<and>
               (nullish caller [] \<noteq> [] \<longrightarrow> caller = Some c))
      | ErrorBody _ \<Rightarrow>
          (if wants_json sp then rp_status r = 403 \<and> nullish caller [] \<noteq> [] \<and> nullish caller [] \<notin> set allowed
           else rp_status r = 501))"
proof -
  have raw: "nullish (sp ''url'') [] \<noteq> []" using assms(4) by (auto simp: parseShareUrl_def)
  have json: "to_lower ''json'' = ''json''" by code_simp
  have format: "to_lower (or_str (nullish (sp ''format'') []) ''json'') = ''json'' \<longleftrightarrow> wants_json sp"
    by (auto simp: wants_json_def or_str_def json split: option.split)
  show ?thesis
    using assms(1-4) raw hd_in_set [OF assms(3)]
    by (auto simp: GET_def format cors_origin_def header_def jsonError_def Let_def
        split: option.splits prod.splits if_splits)
qed

definition sample_url :: url where
  "sample_url = \<lparr>u_protocol = ''https:'', u_host = ''h'', u_origin = ''https://h'', u_pathname = ''/r/ab_1''\<rparr>"

theorem oembed_allowlist_witness:
  "rp_status (GET (\<lambda>_. Some sample_url) [] (\<lambda>_. ServiceData \<lparr>sp_id = ''ab_1'', sp_results = None,
     sp_embed_allowed_origins = Some [''https://a'']\<rparr>) sample_url
     (\<lambda>k. if k = ''url'' then Some ''https://h/r/ab_1'' else if k = ''format'' then Some ''JSON'' else None)
     (Some ''https://evil'')) = 403"
proof -
  have "path_parts ''/r/ab_1'' = [''r'', ''ab_1'']" "SHARE_ID_RE ''ab_1''" by code_simp+
  then have "parseShareUrl (\<lambda>_. Some sample_url) ''https://h/r/ab_1'' (Some ''https://h'') =
      Some \<lparr>ps_id = ''ab_1'', ps_origin = ''https://h''\<rparr>"
    by (simp add: parseShareUrl_def sample_url_def)
  moreover have "to_lower ''JSON'' = ''json''" by code_simp
  ultimately show ?thesis
    using oembed_allowlist [where base = "[]" and parse = "\<lambda>_. Some sample_url" and req = sample_url
        and api = "\<lambda>_. ServiceData \<lparr>sp_id = ''ab_1'', sp_results = None, sp_embed_allowed_origins = Some [''https://a'']\<rparr>"
        and sp = "\<lambda>k. if k = ''url'' then Some ''https://h/r/ab_1'' else if k = ''format'' then Some ''JSON'' else None" and caller = "Some ''https://evil''"
        and p = "\<lparr>ps_id = ''ab_1'', ps_origin = ''https://h''\<rparr>" and allowed = "[''https://a'']"
        and d = "\<lparr>sp_id = ''ab_1'', sp_results = None, sp_embed_allowed_origins = Some [''https://a'']\<rparr>"]
    by (auto simp: fetchShare_def originFromRequest_def sample_url_def wants_json_def Let_def
        split: reply_body.splits)
qed

text \<open>
  A share address is only accepted when its id is 4 to 64 letters, digits, underscores or hyphens
  and its origin is the one of the request; whatever the caller sends, an address that is too long or
  that the URL parser refuses is rejected.
\<close>

theorem parseShareUrl_canonical:
  assumes "origin \<noteq> []"
  shows "case parseShareUrl parse raw (Some origin) of
     Some p \<Rightarrow> ps_origin p = origin \<and> 4 \<le> length (ps_id p) \<and> length (ps_id p) \<le> 64 \<and>
               list_all share_id_char (ps_id p) \<and> 0 < length raw \<and> length raw \<le> 2048 \<and>
               (\<exists>u. parse raw = Some u \<and> u_origin u = origin \<and> path_parts (u_pathname u) = [''r'', ps_id p])
   | None \<Rightarrow> length raw = 0 \<or> 2048 < length raw \<or>
       (case parse raw of None \<Rightarrow> True
        | Some u \<Rightarrow> u_protocol u \<notin> {''http:'', ''https:''} \<or> u_origin u \<noteq> origin \<or>
                   (\<nexists>i. path_parts (u_pathname u) = [''r'', i] \<and> SHARE_ID_RE i))"
  using assms
  by (auto simp: parseShareUrl_def SHARE_ID_RE_def split: option.splits list.splits if_splits)

theorem parseShareUrl_canonical_witness:
  "ps_id (the (parseShareUrl
     (\<lambda>_. Some \<lparr>u_protocol = ''https:'', u_host = ''h'', u_origin = ''https://h'', u_pathname = ''/r/ab_1/''\<rparr>)
     ''https://h/r/ab_1/'' (Some ''https://h''))) = ''ab_1''"
proof -
  let ?parse = "\<lambda>_. Some \<lparr>u_protocol = ''https:'', u_host = ''h'', u_origin = ''https://h'', u_pathname = ''/r/ab_1/''\<rparr>"
  have parts: "path_parts ''/r/ab_1/'' = [''r'', ''ab_1'']" "SHARE_ID_RE ''ab_1''" by code_simp+
  show ?thesis
    using parseShareUrl_canonical [where origin = "''https://h''" and parse = ?parse and raw = "''https://h/r/ab_1/''"] parts
    by (cases "parseShareUrl ?parse ''https://h/r/ab_1/'' (Some ''https://h'')") auto
qed

text \<open>The value of the \<open>src\<close> attribute, as a reader of HTML finds it: up to the next quote.\<close>

definition src_attribute :: "string \<Rightarrow> string" where
  "src_attribute html = takeWhile (\<lambda>c. c \<noteq> CHR 0x22) (drop (length ''<iframe src='' + 1) html)"

text \<open>
  The snippet that integrators paste carries no injected attribute: for a share id that the
  parser accepts, and an origin without a quote, the \<open>src\<close> attribute read back from the snippet is
  the address of the share's embed view.
\<close>

theorem embed_html_src:
  assumes "list_all share_id_char i" "list_all (\<lambda>c. c \<noteq> CHR 0x22) origin"
  shows "src_attribute (buildEmbedHtml origin i w h) = origin @ ''/r/'' @ i @ ''/embed''"
proof -
  have src: "embed_src origin i = origin @ ''/r/'' @ i @ ''/embed''"
    using assms(1) by (simp add: embed_src_def encode_share_id)
  have "list_all (\<lambda>c. c \<noteq> CHR 0x22) i"
    using assms(1) share_id_plain by (auto simp: list_all_iff)
  then have "\<forall>c\<in>set (embed_src origin i). c \<noteq> CHR 0x22"
    using assms(2) by (auto simp: src list_all_iff)
  then have "takeWhile (\<lambda>c. c \<noteq> CHR 0x22) (embed_src origin i @ CHR 0x22 # rest) = embed_src origin i" for rest
    by (simp add: takeWhile_append2)
  then show ?thesis by (simp add: src_attribute_def buildEmbedHtml_def quote_def src)
qed

theorem embed_html_src_witness:
  "src_attribute (buildEmbedHtml ''https://h'' ''ab_1'' 480 360) = ''https://h/r/ab_1/embed''"
proof -
  have "list_all share_id_char ''ab_1''" by code_simp
  then show ?thesis using embed_html_src [of "''ab_1''" "''https://h''" 480 360] by simp
qed

lemma split_on_append: "d \<notin> set w \<Longrightarrow> split_on d (w @ d # s) = w # split_on d s"
  by (induction w) auto

lemma split_on_plain: "d \<notin> set w \<Longrightarrow> split_on d w = [w]"
  by (induction w) auto

lemma split_on_join: "ws \<noteq> [] \<Longrightarrow> list_all (\<lambda>w. d \<notin> set w) ws \<Longrightarrow> split_on d (join [d] ws) = ws"
  by (induction "[d]" ws rule: join.induct) (auto simp: split_on_append split_on_plain)

text \<open>
  What a browser reads of a policy: the first of the policies a comma separates, its directives between
  semicolons, each a list of words; the sources are those of the directive named \<open>frame-ancestors\<close>,
  and a policy without one restricts no framing.
\<close>

definition policy_blank :: "char \<Rightarrow> bool" where
  "policy_blank c \<longleftrightarrow> (of_char c :: nat) \<in> {9, 10, 12, 13, 32}"

definition policy_words :: "string \<Rightarrow> string list" where
  "policy_words t =
     filter (\<lambda>w. w \<noteq> []) (split_on (CHR '' '') (map (\<lambda>c. if policy_blank c then CHR '' '' else c) t))"

definition directive :: "string \<Rightarrow> string \<Rightarrow> string list option" where
  "directive name policy =
     (case filter (\<lambda>ws. ws \<noteq> [] \<and> to_lower (hd ws) = name)
             (map policy_words (split_on (CHR '';'') (takeWhile (\<lambda>c. c \<noteq> CHR '','') policy))) of
        [] \<Rightarrow> None | ws # _ \<Rightarrow> Some (tl ws))"

definition frame_ancestors :: "string \<Rightarrow> string list option" where
  "frame_ancestors policy = directive ''frame-ancestors'' policy"

text \<open>The origins a share record registers: the non-empty strings of its list.\<close>

definition registered :: "json \<Rightarrow> string set" where
  "registered d = {s. s \<noteq> [] \<and> (\<exists>vs. field d ''embed_allowed_origins'' = Some (JArr vs) \<and> JStr s \<in> set vs)}"

text \<open>A text without blanks, controls, commas and semicolons, as every origin the server stores is.\<close>

definition source_text :: "string \<Rightarrow> bool" where
  "source_text w \<longleftrightarrow> list_all (\<lambda>c. 32 < (of_char c :: nat) \<and> c \<noteq> CHR '';'' \<and> c \<noteq> CHR '','') w"

lemma set_map_filter: "set (List.map_filter f xs) = {y. \<exists>x\<in>set xs. f x = Some y}"
  by (force simp: List.map_filter_def)

lemma nonempty_string_Some: "nonempty_string v = Some s \<longleftrightarrow> v = JStr s \<and> s \<noteq> []"
  by (auto simp: nonempty_string_def split: json.split)

lemma set_allowed_origins: "set (allowed_origins d) = registered d"
proof (cases "field d ''embed_allowed_origins''")
  case None
  then show ?thesis by (simp add: allowed_origins_def registered_def)
next
  case (Some v)
  then show ?thesis
    by (cases v) (auto simp: allowed_origins_def registered_def set_map_filter nonempty_string_Some)
qed

lemma source_char:
  assumes "source_text w" "c \<in> set w"
  shows "32 < (of_char c :: nat) \<and> c \<noteq> CHR '';'' \<and> c \<noteq> CHR '',''"
  using assms unfolding source_text_def list_all_iff by blast

lemma above_blank:
  "32 < (of_char c :: nat) \<Longrightarrow> \<not> policy_blank c \<and> (of_char c :: nat) \<notin> {0, 10, 13} \<and> c \<noteq> CHR '' ''"
  unfolding policy_blank_def by (intro conjI notI) auto

lemma join_plain: "list_all (list_all P) (sep # ws) \<Longrightarrow> list_all P (join sep ws)"
  by (induction sep ws rule: join.induct) auto

lemma policy_words_join:
  assumes "ws \<noteq> []" "list_all (\<lambda>w. w \<noteq> [] \<and> source_text w) ws"
  shows "policy_words (join '' '' ws) = ws"
proof -
  have "list_all (list_all (\<lambda>c. policy_blank c \<longrightarrow> c = CHR '' '')) ('' '' # ws)"
    using assms(2) source_char above_blank by (simp add: list_all_iff) blast
  then have "list_all (\<lambda>c. policy_blank c \<longrightarrow> c = CHR '' '') (join '' '' ws)" by (rule join_plain)
  then have "map (\<lambda>c. if policy_blank c then CHR '' '' else c) (join '' '' ws) = join '' '' ws"
    unfolding list_all_iff by (intro map_idI) auto
  moreover have "split_on (CHR '' '') (join '' '' ws) = ws"
    using assms source_char above_blank by (intro split_on_join) (simp_all add: list_all_iff, blast)
  ultimately show ?thesis
    using assms(2) by (simp add: policy_words_def list_all_iff filter_id_conv)
qed

lemma frame_ancestors_policy:
  assumes "ws \<noteq> []" "list_all (\<lambda>w. w \<noteq> [] \<and> source_text w) ws"
  shows "frame_ancestors (''frame-ancestors '' @ join '' '' ws @ CHR '';'' # rest) = Some ws"
proof -
  let ?t = "join '' '' (''frame-ancestors'' # ws)"
  have words: "''frame-ancestors '' @ join '' '' ws = ?t" using assms(1) by (cases ws) simp_all
  have src: "list_all (\<lambda>w. w \<noteq> [] \<and> source_text w) (''frame-ancestors'' # ws)"
    using assms(2) by (simp add: source_text_def)
  have plain: "list_all (\<lambda>c. c \<noteq> CHR '';'' \<and> c \<noteq> CHR '','') ?t"
  proof (rule join_plain)
    have "source_text w" if "w \<in> set (''frame-ancestors'' # ws)" for w
      using src that unfolding list_all_iff by blast
    then have "\<forall>w\<in>set (''frame-ancestors'' # ws). \<forall>c\<in>set w. c \<noteq> CHR '';'' \<and> c \<noteq> CHR '',''"
      using source_char by blast
    then show "list_all (list_all (\<lambda>c. c \<noteq> CHR '';'' \<and> c \<noteq> CHR '','')) ('' '' # ''frame-ancestors'' # ws)"
      by (simp add: list_all_iff)
  qed
  have first: "takeWhile (\<lambda>c. c \<noteq> CHR '','') (?t @ CHR '';'' # rest) =
      ?t @ CHR '';'' # takeWhile (\<lambda>c. c \<noteq> CHR '','') rest"
    using plain by (subst takeWhile_append2) (auto simp: list_all_iff)
  have "CHR '';'' \<notin> set ?t" using plain by (auto simp: list_all_iff)
  then have cut: "split_on (CHR '';'') (?t @ CHR '';'' # r) = ?t # split_on (CHR '';'') r" for r
    by (rule split_on_append)
  have "policy_words ?t = ''frame-ancestors'' # ws" by (rule policy_words_join [OF _ src]) simp
  then have "map policy_words (split_on (CHR '';'') (takeWhile (\<lambda>c. c \<noteq> CHR '','') (?t @ CHR '';'' # rest))) =
      (''frame-ancestors'' # ws) # map policy_words (split_on (CHR '';'') (takeWhile (\<lambda>c. c \<noteq> CHR '','') rest))"
    unfolding first cut list.map by (rule arg_cong)
  moreover have "to_lower ''frame-ancestors'' = ''frame-ancestors''" by code_simp
  ultimately show ?thesis
    unfolding frame_ancestors_def directive_def append_assoc [symmetric] words by simp
qed

lemma frame_headers_set:
  assumes "ws \<noteq> []" "list_all (\<lambda>w. w \<noteq> [] \<and> source_text w) ws"
  shows "header ''Content-Security-Policy'' (nosniff @ frame_headers ws) = Some (frame_policy ws)"
proof -
  have ends: "header_value (CHR ''f'' # x @ ''data:'') = CHR ''f'' # x @ ''data:''" for x
    by (simp add: header_value_def http_space_def)
  have val: "header_value (frame_policy ws) = frame_policy ws"
    using ends [of "''rame-ancestors '' @ join '' '' ws @ ''; default-src '' @ [CHR 0x27] @ ''self'' @ [CHR 0x27] @ '' '' @
      [CHR 0x27] @ ''unsafe-inline'' @ [CHR 0x27] @ '' ''"] by (simp add: frame_policy_def)
  have "list_all (\<lambda>c. (of_char c :: nat) \<notin> {0, 10, 13}) (join '' '' ws)"
  proof (rule join_plain)
    have "list_all (\<lambda>c. (of_char c :: nat) \<notin> {0, 10, 13}) w" if "source_text w" for w
      unfolding list_all_iff using source_char [OF that] above_blank by blast
    then show "list_all (list_all (\<lambda>c. (of_char c :: nat) \<notin> {0, 10, 13})) ('' '' # ws)"
      using assms(2) unfolding list.pred_inject by (auto simp: list_all_iff)
  qed
  then have "header_value_ok (frame_policy ws)" by (simp add: header_value_ok_def val) (simp add: frame_policy_def)
  then show ?thesis using assms(1) by (simp add: header_def nosniff_def frame_headers_def val)
qed

text \<open>
  C38. The embed view may only be framed by the registered origins. A policy is set only for the embed
  view of a share whose record the service delivered and which registers origins; read as a browser
  reads it, its \<open>frame-ancestors\<close> are exactly the registered ones. No policy means that the path is no
  embed view, that the service could not be reached, refused or sent no record (the middleware fails
  open), or that no origin is registered. The condition is that the registered origins contain no
  blank, control, comma or semicolon, which the server's normalisation of an origin ensures.
\<close>

theorem middleware_frames:
  assumes "\<forall>i d. api (share_address base i) = ServiceData d \<longrightarrow> (\<forall>s\<in>registered d. source_text s)"
  shows "case header ''Content-Security-Policy'' (middleware base api path) of
      Some policy \<Rightarrow> \<exists>i d. embed_id path = Some i \<and> api (share_address base i) = ServiceData d \<and>
        registered d \<noteq> {} \<and> map_option set (frame_ancestors policy) = Some (registered d)
    | None \<Rightarrow> \<forall>i d. embed_id path = Some i \<and> api (share_address base i) = ServiceData d \<longrightarrow> registered d = {}"
proof (cases "\<exists>i d. embed_id path = Some i \<and> api (share_address base i) = ServiceData d \<and> registered d \<noteq> {}")
  case False
  have null: "allowed_origins JNull = []" by (simp add: allowed_origins_def)
  have "header ''Content-Security-Policy'' (middleware base api path) = None"
    using False null set_allowed_origins [symmetric]
    by (auto simp: middleware_def header_def nosniff_def frame_headers_def split: option.split service.split)
  then show ?thesis using False by auto
next
  case True
  then obtain i d where i: "embed_id path = Some i" "api (share_address base i) = ServiceData d" "registered d \<noteq> {}"
    by blast
  have ws: "allowed_origins d \<noteq> []" "list_all (\<lambda>w. w \<noteq> [] \<and> source_text w) (allowed_origins d)"
    using i assms set_allowed_origins [of d] by (auto simp: list_all_iff registered_def)
  have "d \<noteq> JNull" using ws(1) by (auto simp: allowed_origins_def)
  then have "header ''Content-Security-Policy'' (middleware base api path) = Some (frame_policy (allowed_origins d))"
    using i frame_headers_set [OF ws] by (simp add: middleware_def)
  moreover have "frame_ancestors (frame_policy (allowed_origins d)) = Some (allowed_origins d)"
    using frame_ancestors_policy [OF ws] by (simp add: frame_policy_def)
  ultimately show ?thesis using i set_allowed_origins [of d] by simp
qed

theorem middleware_frames_witness:
  "\<exists>policy. header ''Content-Security-Policy'' (middleware []
      (\<lambda>_. ServiceData (JObj [(''embed_allowed_origins'', JArr [JStr ''https://a'', JNull])])) ''/r/x/embed'') = Some policy \<and>
    map_option set (frame_ancestors policy) = Some {''https://a''}"
proof -
  let ?d = "JObj [(''embed_allowed_origins'', JArr [JStr ''https://a'', JNull])]"
  have reg: "registered ?d = {''https://a''}" by (auto simp: registered_def)
  have "embed_id ''/r/x/embed'' = Some ''x''" "source_text ''https://a''" by code_simp+
  then show ?thesis using middleware_frames [of "\<lambda>_. ServiceData ?d" "[]" "''/r/x/embed''"]
    by (auto simp: reg split: option.splits)
qed

end
