(* ===== verification/Stores.thy ===== *)
theory Stores
  imports Prelude Numbers "HOL-Library.Word"
begin

text \<open>
  The two module-level stores the pages subscribe to: the toasts (\<open>web/lib/toast.ts\<close>) and the
  transport with its meters (\<open>web/lib/transport.ts\<close>). A listener is a number; what it was last called
  with is part of the state. The locale \<open>publisher\<close> is what a subscriber relies on: it always has
  the current value. Toast texts are lists of UTF-16 code units, since the code names two of them.
\<close>

section \<open>The contract of a published value\<close>

locale publisher =
  fixes cur :: "'s \<Rightarrow> 'v" and subs :: "'s \<Rightarrow> nat set" and seen :: "'s \<Rightarrow> nat \<Rightarrow> 'v option"
    and step :: "'op \<Rightarrow> 's \<Rightarrow> 's"
  assumes told: "cur (step op s) \<noteq> cur s \<Longrightarrow> l \<in> subs (step op s) \<Longrightarrow> seen (step op s) l = Some (cur (step op s))"
    and welcomed: "l \<in> subs (step op s) \<Longrightarrow> l \<notin> subs s \<Longrightarrow> seen (step op s) l = Some (cur (step op s))"
    and not_misled: "cur (step op s) = cur s \<Longrightarrow> l \<in> subs (step op s) \<Longrightarrow> l \<in> subs s \<Longrightarrow>
      seen (step op s) l = seen s l \<or> seen (step op s) l = Some (cur s)"
begin

definition informed :: "'s \<Rightarrow> bool" where
  "informed s \<longleftrightarrow> (\<forall>l\<in>subs s. seen s l = Some (cur s))"

lemma informed_step: "informed s \<Longrightarrow> informed (step op s)"
  unfolding informed_def by (metis told welcomed not_misled)

lemma informed_run: "informed s \<Longrightarrow> informed (fold step ops s)"
  by (induction ops arbitrary: s) (simp_all add: informed_step)

end

section \<open>Toasts\<close>

type_synonym ustring = "16 word list"

datatype ToastVariant = toast_info | toast_success | toast_warning | toast_error

record ToastAction =
  a_label :: ustring
  a_onClick :: nat

record Toast =
  t_id :: string
  t_variant :: ToastVariant
  t_title :: ustring
  t_description :: "ustring option"
  t_durationMs :: rat
  t_createdAt :: nat
  t_action :: "ToastAction option"

record ToastInput =
  ti_variant :: "ToastVariant option"
  ti_title :: ustring
  ti_description :: "ustring option"
  ti_durationMs :: "rat option"
  ti_action :: "ToastAction option"

fun default_duration :: "ToastVariant \<Rightarrow> rat" where
  "default_duration toast_info = 4000"
| "default_duration toast_success = 3500"
| "default_duration toast_warning = 6000"
| "default_duration toast_error = 8000"

definition MAX_TOASTS :: nat where "MAX_TOASTS = 5"

record toast_store =
  ts_counter :: nat
  ts_toasts :: "Toast list"
  ts_listeners :: "nat list"
  ts_heard :: "nat \<Rightarrow> Toast list option"

text \<open>\<open>n.toString(36)\<close>\<close>

definition digit36 :: "nat \<Rightarrow> char" where
  "digit36 d = (if d < 10 then char_of (48 + d) else char_of (87 + d))"

fun to_base36 :: "nat \<Rightarrow> string" where
  "to_base36 n = (if n < 36 then [digit36 n] else to_base36 (n div 36) @ [digit36 (n mod 36)])"

declare to_base36.simps [simp del]

text \<open>\<open>s.replace(/\u2014/g, ", ").replace(/\u2013/g, "-")\<close>\<close>

definition em_dash :: "16 word" where "em_dash = 0x2014"
definition en_dash :: "16 word" where "en_dash = 0x2013"

definition strip_unit :: "16 word \<Rightarrow> ustring" where
  "strip_unit c = (if c = em_dash then [0x2C, 0x20] else if c = en_dash then [0x2D] else [c])"

definition stripEmDash :: "ustring \<Rightarrow> ustring" where
  "stripEmDash s =
     concat (map (\<lambda>c. if c = en_dash then [0x2D] else [c])
       (concat (map (\<lambda>c. if c = em_dash then [0x2C, 0x20] else [c]) s)))"

definition toast_emit :: "toast_store \<Rightarrow> toast_store" where
  "toast_emit s = s\<lparr>ts_heard := (\<lambda>l. if l \<in> set (ts_listeners s) then Some (ts_toasts s) else ts_heard s l)\<rparr>"

definition subscribe :: "nat \<Rightarrow> toast_store \<Rightarrow> toast_store" where
  "subscribe l s =
     s\<lparr>ts_listeners := jset_add l (ts_listeners s), ts_heard := (ts_heard s)(l := Some (ts_toasts s))\<rparr>"

definition unsubscribe :: "nat \<Rightarrow> toast_store \<Rightarrow> toast_store" where
  "unsubscribe l s = s\<lparr>ts_listeners := jset_delete l (ts_listeners s)\<rparr>"

definition getToasts :: "toast_store \<Rightarrow> Toast list" where
  "getToasts s = ts_toasts s"

definition toast_id :: "nat \<Rightarrow> nat \<Rightarrow> string" where
  "toast_id now n = ''t_'' @ to_base36 now @ ''_'' @ to_base36 n"

text \<open>\<open>now1\<close> and \<open>now2\<close> are the two readings of the clock.\<close>

definition make_toast :: "nat \<Rightarrow> nat \<Rightarrow> nat \<Rightarrow> ToastInput \<Rightarrow> Toast" where
  "make_toast now1 now2 n i =
     (let variant = nullish (ti_variant i) toast_info in
      \<lparr>t_id = toast_id now1 n, t_variant = variant, t_title = stripEmDash (ti_title i),
       t_description = (case ti_description i of
          Some d \<Rightarrow> if d \<noteq> [] then Some (stripEmDash d) else None | None \<Rightarrow> None),
       t_durationMs = nullish (ti_durationMs i) (default_duration variant),
       t_createdAt = now2, t_action = ti_action i\<rparr>)"

definition showToast :: "nat \<Rightarrow> nat \<Rightarrow> ToastInput \<Rightarrow> toast_store \<Rightarrow> toast_store \<times> Toast" where
  "showToast now1 now2 i s =
     (let t = make_toast now1 now2 (ts_counter s) i
      in (toast_emit (s\<lparr>ts_counter := Suc (ts_counter s), ts_toasts := take MAX_TOASTS (t # ts_toasts s)\<rparr>), t))"

definition dismissToast :: "string \<Rightarrow> toast_store \<Rightarrow> toast_store \<times> bool" where
  "dismissToast i s =
     (let next_ts = filter (\<lambda>t. t_id t \<noteq> i) (ts_toasts s)
      in if length next_ts = length (ts_toasts s) then (s, False)
         else (toast_emit (s\<lparr>ts_toasts := next_ts\<rparr>), True))"

definition clearToasts :: "toast_store \<Rightarrow> toast_store" where
  "clearToasts s = (if ts_toasts s = [] then s else toast_emit (s\<lparr>ts_toasts := []\<rparr>))"

text \<open>The shortcut of a variant.\<close>

definition toast_shortcut :: "ToastVariant \<Rightarrow> nat \<Rightarrow> nat \<Rightarrow> ToastInput \<Rightarrow> toast_store \<Rightarrow> toast_store \<times> Toast" where
  "toast_shortcut v now1 now2 i s = showToast now1 now2 (i\<lparr>ti_variant := Some v\<rparr>) s"

definition toast_reset :: "toast_store \<Rightarrow> toast_store" where
  "toast_reset s = s\<lparr>ts_toasts := [], ts_listeners := [], ts_counter := 0\<rparr>"

datatype toast_op = Show nat nat ToastInput | Dismiss string | Clear | Subscribe nat | Unsubscribe nat | Reset

fun toast_step :: "toast_op \<Rightarrow> toast_store \<Rightarrow> toast_store" where
  "toast_step (Show n1 n2 i) s = fst (showToast n1 n2 i s)"
| "toast_step (Dismiss i) s = fst (dismissToast i s)"
| "toast_step Clear s = clearToasts s"
| "toast_step (Subscribe l) s = subscribe l s"
| "toast_step (Unsubscribe l) s = unsubscribe l s"
| "toast_step Reset s = toast_reset s"

definition toast_start :: toast_store where
  "toast_start = \<lparr>ts_counter = 0, ts_toasts = [], ts_listeners = [], ts_heard = (\<lambda>_. None)\<rparr>"

section \<open>The transport\<close>

datatype TransportState = transport_stop | transport_play | transport_pause | transport_rec

record Meters =
  mt_peak :: jsnum
  mt_rms :: jsnum
  mt_lufs :: jsnum

record Store =
  st_state :: TransportState
  st_meters :: Meters

record transport =
  tr_store :: Store
  tr_listeners :: "nat list"
  tr_snap :: "nat \<Rightarrow> Store option"

definition transport_start :: transport where
  "transport_start =
     \<lparr>tr_store = \<lparr>st_state = transport_stop, st_meters = \<lparr>mt_peak = Fin 0, mt_rms = Fin 0, mt_lufs = NInf\<rparr>\<rparr>,
      tr_listeners = [], tr_snap = (\<lambda>_. None)\<rparr>"

definition transport_emit :: "transport \<Rightarrow> transport" where
  "transport_emit s = s\<lparr>tr_snap := (\<lambda>l. if l \<in> set (tr_listeners s) then Some (tr_store s) else tr_snap s l)\<rparr>"

definition setTransport :: "TransportState \<Rightarrow> transport \<Rightarrow> transport" where
  "setTransport v s = transport_emit (s\<lparr>tr_store := (tr_store s)\<lparr>st_state := v\<rparr>\<rparr>)"

definition setMeters :: "Meters \<Rightarrow> transport \<Rightarrow> transport" where
  "setMeters m s = transport_emit (s\<lparr>tr_store := (tr_store s)\<lparr>st_meters := m\<rparr>\<rparr>)"

text \<open>The hook: the first render takes a snapshot, the effect after it adds the setter.\<close>

definition useTransport_render :: "nat \<Rightarrow> transport \<Rightarrow> transport" where
  "useTransport_render l s = s\<lparr>tr_snap := (tr_snap s)(l := Some (tr_store s))\<rparr>"

definition useTransport_effect :: "nat \<Rightarrow> transport \<Rightarrow> transport" where
  "useTransport_effect l s = s\<lparr>tr_listeners := jset_add l (tr_listeners s)\<rparr>"

definition useTransport_cleanup :: "nat \<Rightarrow> transport \<Rightarrow> transport" where
  "useTransport_cleanup l s = s\<lparr>tr_listeners := jset_delete l (tr_listeners s)\<rparr>"

datatype transport_op = SetState TransportState | SetMeters Meters | Mount nat | Unmount nat

text \<open>Mounting with nothing in between the render and its effect.\<close>

fun transport_step :: "transport_op \<Rightarrow> transport \<Rightarrow> transport" where
  "transport_step (SetState v) s = setTransport v s"
| "transport_step (SetMeters m) s = setMeters m s"
| "transport_step (Mount l) s = useTransport_effect l (useTransport_render l s)"
| "transport_step (Unmount l) s = useTransport_cleanup l s"

section \<open>Both stores keep their subscribers informed\<close>

lemma toast_heard:
  "l \<in> set (ts_listeners (toast_step op s)) \<Longrightarrow>
     ts_heard (toast_step op s) l = Some (ts_toasts (toast_step op s)) \<or>
     ts_toasts (toast_step op s) = ts_toasts s \<and> l \<in> set (ts_listeners s) \<and> ts_heard (toast_step op s) l = ts_heard s l"
proof (cases op)
  case (Dismiss i)
  then show "l \<in> set (ts_listeners (toast_step op s)) \<Longrightarrow> ?thesis"
    by (cases "length (filter (\<lambda>t. t_id t \<noteq> i) (ts_toasts s)) = length (ts_toasts s)")
      (simp_all add: dismissToast_def toast_emit_def Let_def)
qed (auto simp: showToast_def clearToasts_def subscribe_def unsubscribe_def toast_reset_def
    toast_emit_def Let_def jset_delete_def split: if_splits)

interpretation toasts: publisher ts_toasts "\<lambda>s. set (ts_listeners s)" ts_heard toast_step
  by unfold_locales (use toast_heard in metis)+

lemma transport_heard:
  "l \<in> set (tr_listeners (transport_step op s)) \<Longrightarrow>
     tr_snap (transport_step op s) l = Some (tr_store (transport_step op s)) \<or>
     tr_store (transport_step op s) = tr_store s \<and> l \<in> set (tr_listeners s) \<and> tr_snap (transport_step op s) l = tr_snap s l"
  by (cases op) (auto simp: setTransport_def setMeters_def useTransport_effect_def useTransport_render_def
    useTransport_cleanup_def transport_emit_def jset_delete_def)

interpretation transport: publisher tr_store "\<lambda>s. set (tr_listeners s)" tr_snap transport_step
  by unfold_locales (use transport_heard in metis)+

section \<open>Ids and texts of toasts\<close>

lemma of_char_digit36: "d < 36 \<Longrightarrow> (of_char (digit36 d) :: nat) = (if d < 10 then 48 + d else 87 + d)"
  by (simp add: digit36_def)

lemma digit36_inject: "d < 36 \<Longrightarrow> e < 36 \<Longrightarrow> digit36 d = digit36 e \<Longrightarrow> d = e"
proof -
  assume de: "d < 36" "e < 36" and eq: "digit36 d = digit36 e"
  have "(if d < 10 then 48 + d else 87 + d) = (of_char (digit36 d) :: nat)" using of_char_digit36 [OF de(1)] by simp
  also have "\<dots> = (if e < 10 then 48 + e else 87 + e)" unfolding eq by (rule of_char_digit36 [OF de(2)])
  finally show "d = e" using de by (simp split: if_splits)
qed

lemma digit36_not_underscore: "d < 36 \<Longrightarrow> digit36 d \<noteq> CHR ''_''"
proof
  assume d: "d < 36" "digit36 d = CHR ''_''"
  then have "(of_char (digit36 d) :: nat) = 95" by simp
  with of_char_digit36 [OF d(1)] d(1) show False by (auto split: if_splits)
qed

lemma to_base36_no_underscore: "CHR ''_'' \<notin> set (to_base36 n)"
proof (induction n rule: to_base36.induct)
  case (1 n)
  then show ?case
    using digit36_not_underscore [of n] digit36_not_underscore [of "n mod 36"]
    by (simp add: to_base36.simps [of n]) metis
qed

lemma to_base36_nonempty [simp]: "to_base36 n \<noteq> []"
  by (subst to_base36.simps) simp

lemma to_base36_inject: "to_base36 m = to_base36 n \<Longrightarrow> m = n"
proof (induction m arbitrary: n rule: to_base36.induct)
  case (1 m)
  have single: "k < 36" if "to_base36 k = [c]" for k c
    using that by (subst (asm) to_base36.simps) (auto split: if_splits)
  show ?case
  proof (cases "m < 36")
    case True
    then have m: "to_base36 m = [digit36 m]" by (simp add: to_base36.simps [of m])
    then have n: "n < 36" using "1.prems" single [of n "digit36 m"] by simp
    then show ?thesis using "1.prems" m digit36_inject [OF True n] by (simp add: to_base36.simps [of n])
  next
    case False
    have "\<not> n < 36"
    proof
      assume "n < 36"
      then have "to_base36 m = [digit36 n]" using "1.prems" by (simp add: to_base36.simps [of n])
      then show False using single False by blast
    qed
    then have "to_base36 (m div 36) = to_base36 (n div 36)" "digit36 (m mod 36) = digit36 (n mod 36)"
      using "1.prems" False by (simp_all add: to_base36.simps [of m] to_base36.simps [of n])
    then have "m div 36 = n div 36" "m mod 36 = n mod 36"
      using "1.IH" [OF False] digit36_inject [of "m mod 36" "n mod 36"] by auto
    then show ?thesis by (metis div_mult_mod_eq)
  qed
qed

lemma split_at_first: "c \<notin> set xs \<Longrightarrow> c \<notin> set ys \<Longrightarrow> xs @ c # us = ys @ c # vs \<longleftrightarrow> xs = ys \<and> us = vs"
proof (induction xs arbitrary: ys)
  case Nil
  then show ?case by (cases ys) auto
next
  case (Cons x xs)
  then show ?case by (cases ys) auto
qed

lemma toast_id_inject: "toast_id a m = toast_id b n \<Longrightarrow> m = n"
proof -
  assume "toast_id a m = toast_id b n"
  then have "to_base36 a @ CHR ''_'' # to_base36 m = to_base36 b @ CHR ''_'' # to_base36 n"
    by (simp add: toast_id_def)
  then have "to_base36 m = to_base36 n"
    using to_base36_no_underscore [of a] to_base36_no_underscore [of b]
    by (simp add: split_at_first)
  then show "m = n" by (rule to_base36_inject)
qed

lemma stripEmDash_units: "stripEmDash s = concat (map strip_unit s)"
  by (induction s) (auto simp: stripEmDash_def strip_unit_def em_dash_def en_dash_def)

definition ids_below :: "toast_store \<Rightarrow> bool" where
  "ids_below s \<longleftrightarrow> (\<forall>t\<in>set (ts_toasts s). \<exists>a n. t_id t = toast_id a n \<and> n < ts_counter s)"

definition toast_ok :: "toast_store \<Rightarrow> bool" where
  "toast_ok s \<longleftrightarrow> ids_below s \<and> distinct (map t_id (ts_toasts s)) \<and> length (ts_toasts s) \<le> MAX_TOASTS \<and>
     (\<forall>t\<in>set (ts_toasts s). em_dash \<notin> set (t_title t) \<and> en_dash \<notin> set (t_title t))"

lemma strip_no_dash: "em_dash \<notin> set (stripEmDash s) \<and> en_dash \<notin> set (stripEmDash s)"
  unfolding stripEmDash_units
  by (induction s) (auto simp: strip_unit_def em_dash_def en_dash_def)

lemma toast_ok_cons:
  assumes "toast_ok s"
  shows "toast_ok (toast_emit (s\<lparr>ts_counter := Suc (ts_counter s),
    ts_toasts := take MAX_TOASTS (make_toast n1 n2 (ts_counter s) i # ts_toasts s)\<rparr>))"
proof -
  let ?t = "make_toast n1 n2 (ts_counter s) i"
  have i: "t_id ?t = toast_id n1 (ts_counter s)" "t_title ?t = stripEmDash (ti_title i)"
    by (simp_all add: make_toast_def Let_def)
  have "t_id ?t \<notin> set (map t_id (ts_toasts s))"
    using assms toast_id_inject unfolding i by (force simp: toast_ok_def ids_below_def)
  then have "distinct (map t_id (take MAX_TOASTS (?t # ts_toasts s)))"
    using assms unfolding take_map [symmetric] by (intro distinct_take) (simp add: toast_ok_def)
  moreover have "\<forall>t\<in>set (take MAX_TOASTS (?t # ts_toasts s)). t = ?t \<or> t \<in> set (ts_toasts s)"
    by (auto dest: in_set_takeD)
  ultimately show ?thesis
    using assms strip_no_dash [of "ti_title i"] i
    by (fastforce simp: toast_ok_def ids_below_def toast_emit_def intro: less_SucI)
qed

lemma toast_ok_step: "toast_ok s \<Longrightarrow> toast_ok (toast_step op s)"
proof (cases op)
  case (Show n1 n2 i)
  then show "toast_ok s \<Longrightarrow> toast_ok (toast_step op s)"
    using toast_ok_cons [of s n1 n2 i] by (simp add: showToast_def Let_def)
next
  case (Dismiss i)
  then show "toast_ok s \<Longrightarrow> toast_ok (toast_step op s)"
    using le_trans [OF length_filter_le, of "ts_toasts s" MAX_TOASTS "\<lambda>t. t_id t \<noteq> i"]
    by (auto simp: dismissToast_def Let_def toast_ok_def ids_below_def toast_emit_def distinct_map_filter)
qed (auto simp: toast_ok_def ids_below_def clearToasts_def toast_emit_def subscribe_def unsubscribe_def toast_reset_def)


lemma toast_ok_run: "toast_ok s \<Longrightarrow> toast_ok (fold toast_step ops s)"
  by (induction ops arbitrary: s) (simp_all add: toast_ok_step)

lemma toast_ok_start: "toast_ok toast_start"
  by (simp add: toast_ok_def ids_below_def toast_start_def)

section \<open>Properties\<close>

text \<open>
  Whatever is shown, dismissed, cleared or reset, and whatever the clock says, there are at most
  five toasts, no two have the same id (the id holds the counter in base 36), and no title contains
  an em or an en dash.
\<close>

theorem toasts_invariant:
  "let ts = ts_toasts (fold toast_step ops toast_start) in
     length ts \<le> 5 \<and> distinct (map t_id ts) \<and>
     list_all (\<lambda>t. em_dash \<notin> set (t_title t) \<and> en_dash \<notin> set (t_title t)) ts"
  using toast_ok_run [OF toast_ok_start, of ops] by (simp add: toast_ok_def MAX_TOASTS_def list_all_iff Let_def)

text \<open>
  Every subscriber has the current list: after any sequence of operations on the toast store,
  what each listener was last called with is the list as it is now.
\<close>

theorem toasts_informed:
  "let s = fold toast_step ops toast_start in list_all (\<lambda>l. ts_heard s l = Some (ts_toasts s)) (ts_listeners s)"
proof -
  have "toasts.informed toast_start" by (simp add: toasts.informed_def toast_start_def)
  from toasts.informed_run [OF this, of ops] show ?thesis
    by (simp add: toasts.informed_def list_all_iff Let_def)
qed

text \<open>
  A mounted \<open>useTransport\<close> shows the current transport, as long as nothing is published between
  its render and its effect; an update published in between is missed: the setter is added, but keeps
  the older snapshot.
\<close>

theorem transport_informed:
  "(let s = fold transport_step ops transport_start in
      list_all (\<lambda>l. tr_snap s l = Some (tr_store s)) (tr_listeners s)) \<and>
   (let s = useTransport_effect 0 (setTransport transport_rec (useTransport_render 0 transport_start)) in
      0 \<in> set (tr_listeners s) \<and> map_option st_state (tr_snap s 0) = Some transport_stop \<and>
      st_state (tr_store s) = transport_rec)"
proof
  have "transport.informed transport_start" by (simp add: transport.informed_def transport_start_def)
  from transport.informed_run [OF this, of ops]
  show "let s = fold transport_step ops transport_start in
      list_all (\<lambda>l. tr_snap s l = Some (tr_store s)) (tr_listeners s)"
    by (simp add: transport.informed_def list_all_iff Let_def)
qed (simp add: useTransport_effect_def setTransport_def useTransport_render_def transport_start_def
    transport_emit_def jset_add_def Let_def)

end
