(* ===== verification/Onboarding.thy ===== *)
theory Onboarding
  imports Browser
begin

text \<open>
  First-run onboarding (\<open>web/lib/onboarding.ts\<close>): the persisted state, its pure updates, the functions
  that read and write it, and the hook. Reading coerces whatever JSON is stored to a state; the state
  meets the contract of a persisted value, from which the progress of the checklist follows.
\<close>

section \<open>The state\<close>

definition ONBOARDING_KEY :: string where "ONBOARDING_KEY = ''clawhum.onboarding.v1''"
definition ONBOARDING_EVENT :: string where "ONBOARDING_EVENT = ''clawhum:onboarding''"

datatype StepId = tried | viewed | saved

record OnboardingState =
  dismissed :: bool
  hidden :: bool
  steps :: "StepId \<Rightarrow> bool"

definition STEP_ORDER :: "StepId list" where "STEP_ORDER = [tried, viewed, saved]"

fun STEP_LABELS :: "StepId \<Rightarrow> string \<times> string" where
  "STEP_LABELS tried = (''run your first match'', ''drop a hum, hit record, or play a sample below'')"
| "STEP_LABELS viewed = (''open a candidate'', ''click any row in the results to see the pitch contour'')"
| "STEP_LABELS saved =
     (''save or share'', ''every match is auto-saved to history; copy a /r/<id> link to share'')"

fun step_name :: "StepId \<Rightarrow> string" where
  "step_name tried = ''tried''"
| "step_name viewed = ''viewed''"
| "step_name saved = ''saved''"

definition emptyState :: OnboardingState where
  "emptyState = \<lparr>dismissed = False, hidden = False, steps = (\<lambda>_. False)\<rparr>"

definition normalise :: "json option \<Rightarrow> OnboardingState" where
  "normalise input =
     (case input of
        None \<Rightarrow> emptyState
      | Some obj \<Rightarrow>
          if \<not> is_object (Some obj) then emptyState
          else let st = (if is_object (field obj ''steps'') then the (field obj ''steps'') else JObj [])
               in \<lparr>dismissed = truthy (field obj ''dismissed''), hidden = truthy (field obj ''hidden''),
                   steps = (\<lambda>k. truthy (field st (step_name k)))\<rparr>)"

definition isComplete :: "OnboardingState \<Rightarrow> bool" where
  "isComplete s \<longleftrightarrow> list_all (\<lambda>k. steps s k) STEP_ORDER"

definition completedCount :: "OnboardingState \<Rightarrow> nat" where
  "completedCount s = foldl (\<lambda>n k. n + (if steps s k then 1 else 0)) 0 STEP_ORDER"

definition withStep :: "OnboardingState \<Rightarrow> StepId \<Rightarrow> bool \<Rightarrow> OnboardingState" where
  "withStep s i v = (if steps s i = v then s else s\<lparr>steps := (steps s)(i := v)\<rparr>)"

definition withDismissed :: "OnboardingState \<Rightarrow> bool \<Rightarrow> OnboardingState" where
  "withDismissed s v = (if dismissed s = v then s else s\<lparr>dismissed := v\<rparr>)"

definition withHidden :: "OnboardingState \<Rightarrow> bool \<Rightarrow> OnboardingState" where
  "withHidden s v = (if hidden s = v then s else s\<lparr>hidden := v\<rparr>)"

section \<open>Storage\<close>

definition onboarding_json :: "OnboardingState \<Rightarrow> json" where
  "onboarding_json s =
     JObj [(''dismissed'', JBool (dismissed s)), (''hidden'', JBool (hidden s)),
           (''steps'', JObj (map (\<lambda>k. (step_name k, JBool (steps s k))) STEP_ORDER))]"

definition readRaw :: "json browser \<Rightarrow> OnboardingState option" where
  "readRaw b =
     (if ssr b then None
      else case get_doc ONBOARDING_KEY b of
             Inr (Some (Doc v)) \<Rightarrow> Some (normalise (Some v))
           | _ \<Rightarrow> None)"

definition writeRaw :: "OnboardingState \<Rightarrow> json browser \<Rightarrow> json browser" where
  "writeRaw s b =
     (if ssr b then b
      else try_or b (map_sum id (dispatch ONBOARDING_EVENT) (put_json ONBOARDING_KEY (onboarding_json s) b)))"

definition loadState :: "json browser \<Rightarrow> OnboardingState" where
  "loadState b = nullish (readRaw b) emptyState"

definition isFirstRun :: "json browser \<Rightarrow> bool" where
  "isFirstRun b \<longleftrightarrow> readRaw b = None"

definition markStep :: "StepId \<Rightarrow> json browser \<Rightarrow> json browser" where
  "markStep i b = writeRaw (withStep (loadState b) i True) b"

definition dismiss :: "json browser \<Rightarrow> json browser" where
  "dismiss b = writeRaw (withDismissed (loadState b) True) b"

definition hide :: "json browser \<Rightarrow> json browser" where
  "hide b = writeRaw (withHidden (loadState b) True) b"

definition reset :: "json browser \<Rightarrow> json browser" where
  "reset b = writeRaw emptyState b"

section \<open>The hook\<close>

record onboarding_hook =
  oh_state :: OnboardingState
  oh_firstRun :: bool
  oh_listening :: bool

definition useOnboarding_init :: onboarding_hook where
  "useOnboarding_init = \<lparr>oh_state = emptyState, oh_firstRun = False, oh_listening = False\<rparr>"

definition useOnboarding_mount :: "json browser \<Rightarrow> onboarding_hook \<Rightarrow> onboarding_hook" where
  "useOnboarding_mount b h =
     h\<lparr>oh_firstRun := isFirstRun b, oh_state := loadState b, oh_listening := True\<rparr>"

definition useOnboarding_onChange :: "json browser \<Rightarrow> onboarding_hook \<Rightarrow> onboarding_hook" where
  "useOnboarding_onChange b h = (if oh_listening h then h\<lparr>oh_state := loadState b\<rparr> else h)"

definition useOnboarding_unmount :: "onboarding_hook \<Rightarrow> onboarding_hook" where
  "useOnboarding_unmount h = h\<lparr>oh_listening := False\<rparr>"

section \<open>The contract\<close>

lemma json_norm_onboarding [simp]: "json_norm (onboarding_json s) = onboarding_json s"
  by (simp add: onboarding_json_def comp_def)

lemma normalise_onboarding [simp]: "normalise (Some (onboarding_json s)) = s"
proof -
  have "truthy (map_of (map (\<lambda>k. (step_name k, JBool (steps s k))) STEP_ORDER) (step_name k)) = steps s k" for k
    by (cases k) (simp_all add: STEP_ORDER_def)
  then show ?thesis by (simp add: normalise_def onboarding_json_def)
qed

definition onboarding_admits :: "OnboardingState \<Rightarrow> json browser \<Rightarrow> bool" where
  "onboarding_admits s b \<longleftrightarrow> \<not> ssr b \<and> writable ONBOARDING_KEY (onboarding_json s) b"

interpretation onboarding: persisted loadState writeRaw onboarding_admits "\<lambda>_. True"
proof
  fix s t :: OnboardingState and b :: "json browser"
  note defs = loadState_def readRaw_def writeRaw_def onboarding_admits_def put_json_def set_doc_def get_doc_def writable_def
  show "onboarding_admits s b \<Longrightarrow> loadState (writeRaw s b) = s" by (simp add: defs)
  show "\<not> onboarding_admits s b \<Longrightarrow> loadState (writeRaw s b) = loadState b" by (auto simp: defs)
  show "onboarding_admits t (writeRaw s b) = onboarding_admits t b" by (auto simp: defs)
qed simp

lemma completedCount_sum: "completedCount s = card {k. steps s k}"
proof -
  have "{k. steps s k} = set (filter (steps s) STEP_ORDER)"
    by (auto simp: STEP_ORDER_def) (metis StepId.exhaust)+
  moreover have "distinct (filter (steps s) STEP_ORDER)" by (simp add: STEP_ORDER_def)
  ultimately have "card {k. steps s k} = length (filter (steps s) STEP_ORDER)" by (metis distinct_card)
  then show ?thesis by (simp add: completedCount_def STEP_ORDER_def)
qed

lemma finite_steps: "finite {k. P (k :: StepId)}"
proof -
  have "UNIV = {tried, viewed, saved}" by (auto intro: StepId.exhaust)
  then have "finite (UNIV :: StepId set)" by (metis finite.emptyI finite.insertI)
  then show ?thesis by (rule finite_subset [OF subset_UNIV])
qed

text \<open>Everything the pages do to the checklist, but for \<open>reset\<close>.\<close>

datatype onboarding_op = Mark StepId | Close | Hide

fun onboarding_do :: "onboarding_op \<Rightarrow> json browser \<Rightarrow> json browser" where
  "onboarding_do (Mark i) b = markStep i b"
| "onboarding_do Close b = dismiss b"
| "onboarding_do Hide b = hide b"

lemma steps_kept:
  assumes "steps (loadState b) k"
  shows "steps (loadState (onboarding_do op b)) k"
proof (cases op)
  case (Mark i)
  then show ?thesis
    using onboarding.modify_keeps [where f = "\<lambda>s. withStep s i True" and P = "\<lambda>s. steps s k" and b = b] assms
    by (simp add: markStep_def withStep_def)
next
  case Close
  then show ?thesis
    using onboarding.modify_keeps [where f = "\<lambda>s. withDismissed s True" and P = "\<lambda>s. steps s k" and b = b] assms
    by (simp add: dismiss_def withDismissed_def)
next
  case Hide
  then show ?thesis
    using onboarding.modify_keeps [where f = "\<lambda>s. withHidden s True" and P = "\<lambda>s. steps s k" and b = b] assms
    by (simp add: hide_def withHidden_def)
qed

lemma steps_kept_run: "steps (loadState b) k \<Longrightarrow> steps (loadState (fold onboarding_do ops b)) k"
  by (induction ops arbitrary: b) (simp_all add: steps_kept)

lemma admits_do: "(\<forall>s. onboarding_admits s b) \<Longrightarrow> onboarding_admits s (onboarding_do op b)"
  by (cases op) (simp_all add: markStep_def dismiss_def hide_def onboarding.admits_save)

text \<open>
  The checklist only moves forward, whatever is stored and whether or not the browser lets the
  page write: marking steps, dismissing the modal and hiding the banner, in any order, never lose a
  completed step; and where the storage works, every marked step is complete afterwards.
\<close>

theorem onboarding_progress:
  "completedCount (loadState b) \<le> completedCount (loadState (fold onboarding_do ops b)) \<and>
   ((\<forall>s. onboarding_admits s b) \<and> set STEP_ORDER \<subseteq> {k. Mark k \<in> set ops} \<longrightarrow>
      isComplete (loadState (fold onboarding_do ops b)))"
proof
  have "{k. steps (loadState b) k} \<subseteq> {k. steps (loadState (fold onboarding_do ops b)) k}"
    using steps_kept_run by blast
  then show "completedCount (loadState b) \<le> completedCount (loadState (fold onboarding_do ops b))"
    unfolding completedCount_sum by (intro card_mono finite_steps)
  have mark: "steps (loadState (fold onboarding_do ops b)) k"
    if "Mark k \<in> set ops" "\<forall>s. onboarding_admits s b" for k
    using that
  proof (induction ops arbitrary: b)
    case (Cons op ops)
    show ?case
    proof (cases "op = Mark k")
      case True
      then have "steps (loadState (onboarding_do op b)) k"
        using Cons.prems(2) onboarding.load_save [of _ b] by (simp add: markStep_def withStep_def)
      then show ?thesis using steps_kept_run by simp
    next
      case False
      then show ?thesis using Cons admits_do by simp
    qed
  qed simp
  show "(\<forall>s. onboarding_admits s b) \<and> set STEP_ORDER \<subseteq> {k. Mark k \<in> set ops} \<longrightarrow>
      isComplete (loadState (fold onboarding_do ops b))"
    using mark by (auto simp: isComplete_def list_all_iff)
qed

theorem onboarding_progress_witness:
  "isComplete (loadState (fold onboarding_do [Mark viewed, Hide, Mark saved, Close, Mark tried]
     (open_browser (\<lambda>_. None) (\<lambda>_. Some Unparsable))))"
  using onboarding_progress [of "open_browser (\<lambda>_. None) (\<lambda>_. Some Unparsable)"
      "[Mark viewed, Hide, Mark saved, Close, Mark tried]"]
  by (simp add: STEP_ORDER_def onboarding_admits_def writable_def open_browser_def)

end
