(* ===== verification/Privacy.thy ===== *)
theory Privacy
  imports Browser Dates
begin

text \<open>
  The helpers of the data export and erase flow (\<open>web/lib/privacy.ts\<close>).
\<close>

record PrivacyExport =
  pe_actor :: string
  pe_api_key_name :: "string option"
  pe_tenant_id :: string
  pe_audit_event_count :: jsnum
  pe_audit_events :: "json list"
  pe_feedback_row_count :: jsnum
  pe_feedback_rows :: "json list"
  pe_notes :: "json option"

record EraseResult =
  er_actor :: string
  er_redacted_events :: jsnum
  er_redacted_feedback_rows :: jsnum
  er_ok :: bool

definition ERASE_CONFIRMATION :: string where "ERASE_CONFIRMATION = ''ERASE''"

definition isEraseConfirmed :: "string \<Rightarrow> bool" where
  "isEraseConfirmed input \<longleftrightarrow> trim input = ERASE_CONFIRMATION"

definition exportFilename :: "int \<Rightarrow> string" where
  "exportFilename now =
     (let f = utc_fields now
      in ''clawhum-export-'' @ int_to_string (d_year f) @ pad2 (d_month f + 1) @ pad2 (d_day f) @ ''-'' @
         pad2 (d_hour f) @ pad2 (d_minute f) @ pad2 (d_second f) @ ''.json'')"

record ExportSummary =
  es_audit :: jsnum
  es_feedback :: jsnum
  es_bytes :: nat
  es_actor :: string
  es_tenantId :: string

definition finite_or_zero :: "jsnum \<Rightarrow> jsnum" where
  "finite_or_zero n = (if is_finite n then n else Fin 0)"

definition summarise :: "PrivacyExport \<Rightarrow> string \<Rightarrow> ExportSummary" where
  "summarise p raw =
     \<lparr>es_audit = finite_or_zero (pe_audit_event_count p),
      es_feedback = finite_or_zero (pe_feedback_row_count p),
      es_bytes = length raw, es_actor = or_str (pe_actor p) ''anonymous'',
      es_tenantId = or_str (pe_tenant_id p) ''default''\<rparr>"

definition erase_num :: "json \<Rightarrow> string \<Rightarrow> jsnum" where
  "erase_num body k = (case field body k of Some (JNum v) \<Rightarrow> finite_or_zero v | _ \<Rightarrow> Fin 0)"

text \<open>\<open>a || b\<close> on numbers.\<close>

definition or_num :: "jsnum \<Rightarrow> jsnum \<Rightarrow> jsnum" where
  "or_num a b = (if num_truthy a then a else b)"

definition normaliseErase :: "json \<Rightarrow> EraseResult" where
  "normaliseErase body =
     \<lparr>er_actor = (case field body ''actor'' of Some (JStr s) \<Rightarrow> s | _ \<Rightarrow> ''anonymous''),
      er_redacted_events =
        or_num (or_num (erase_num body ''redacted_events'') (erase_num body ''redacted'')) (erase_num body ''count''),
      er_redacted_feedback_rows =
        or_num (erase_num body ''redacted_feedback_rows'') (erase_num body ''feedback_redacted''),
      er_ok = (field body ''ok'' \<noteq> Some (JBool False))\<rparr>"

lemma dropWhile_pad: "p c \<Longrightarrow> dropWhile p (replicate n c @ s) = dropWhile p s"
  by (induction n) simp_all

lemma erase_num_finite [simp]: "is_finite (erase_num body k)"
  by (auto simp: erase_num_def finite_or_zero_def split: option.split json.split)

text \<open>
  The outcome the page shows after an erase has finite counts and an actor whatever the service
  answered, and it reports a failure exactly when the service said \<open>ok: false\<close>; the destructive
  button is enabled by the word alone, spaces around it aside.
\<close>

theorem normaliseErase_total:
  "is_finite (er_redacted_events (normaliseErase body)) \<and>
   is_finite (er_redacted_feedback_rows (normaliseErase body)) \<and>
   er_ok (normaliseErase body) = (field body ''ok'' \<noteq> Some (JBool False)) \<and>
   is_finite (es_audit (summarise p raw)) \<and> es_actor (summarise p raw) \<noteq> [] \<and>
   isEraseConfirmed (replicate m (CHR '' '') @ ''ERASE'' @ replicate n (CHR '' ''))"
proof -
  have "\<not> is_space (CHR ''E'')" "is_space (CHR '' '')" by code_simp+
  then have "isEraseConfirmed (replicate m (CHR '' '') @ ''ERASE'' @ replicate n (CHR '' ''))"
    by (simp add: isEraseConfirmed_def ERASE_CONFIRMATION_def trim_def dropWhile_pad)
  then show ?thesis
    by (simp add: normaliseErase_def or_num_def summarise_def finite_or_zero_def or_str_def)
qed

end
