(* ===== verification/Prom.thy ===== *)
theory Prom
  imports NumberText Arrays
begin

text \<open>
  The parser of the Prometheus text format behind the metrics page (\<open>web/lib/prom.ts\<close>). Its regular
  expressions are deterministic on the inputs they accept, so each is a function that takes the
  longest run of its character class; where the expression would backtrack (the optional sign before
  a number) the alternatives are tried in its order. The order of names (\<open>localeCompare\<close>) is a
  parameter.
\<close>

section \<open>Data\<close>

record PromSample =
  pm_name :: string
  pm_labels :: "(string \<times> string) list"
  pm_value :: jsnum

record PromMetric =
  mm_name :: string
  mm_help :: "string option"
  mm_type :: "string option"
  mm_samples :: "PromSample list"

section \<open>Lexing\<close>

definition name_start :: "char \<Rightarrow> bool" where
  "name_start c \<longleftrightarrow> is_alpha c \<or> c = CHR ''_'' \<or> c = CHR '':''"

definition name_char :: "char \<Rightarrow> bool" where
  "name_char c \<longleftrightarrow> name_start c \<or> is_digit c"

definition label_start :: "char \<Rightarrow> bool" where
  "label_start c \<longleftrightarrow> is_alpha c \<or> c = CHR ''_''"

definition label_char :: "char \<Rightarrow> bool" where
  "label_char c \<longleftrightarrow> label_start c \<or> is_digit c"

definition num_char :: "char \<Rightarrow> bool" where
  "num_char c \<longleftrightarrow> is_digit c \<or> c = CHR ''.'' \<or> c = CHR ''e'' \<or> c = CHR ''E'' \<or> c = CHR ''+''"

definition newline :: "char \<Rightarrow> bool" where
  "newline c \<longleftrightarrow> c = CHR 0x0A \<or> c = CHR 0x0D"

text \<open>\<open>text.split(/\r?\n/)\<close>: a carriage return is dropped only right before the line feed.\<close>

definition drop_cr :: "string \<Rightarrow> string" where
  "drop_cr l = (if l \<noteq> [] \<and> last l = CHR 0x0D then butlast l else l)"

definition prom_lines :: "string \<Rightarrow> string list" where
  "prom_lines t =
     (let ls = split_on (CHR 0x0A) t in map drop_cr (butlast ls) @ [last ls])"

text \<open>The comment: \<open>/^#\s+(HELP|TYPE)\s+(\S+)\s+(.+)$/\<close>, as kind, name and rest.\<close>

definition comment_match :: "string \<Rightarrow> (string \<times> string \<times> string) option" where
  "comment_match line =
     (let r0 = tl line; r1 = trim_start r0; kind = take 4 r1; r2 = drop 4 r1; r3 = trim_start r2;
          name = takeWhile (\<lambda>c. \<not> is_space c) r3; r4 = dropWhile (\<lambda>c. \<not> is_space c) r3; rest = trim_start r4
      in if take 1 line = ''#'' \<and> r1 \<noteq> r0 \<and> (kind = ''HELP'' \<or> kind = ''TYPE'') \<and> r3 \<noteq> r2 \<and>
            name \<noteq> [] \<and> rest \<noteq> r4 \<and> rest \<noteq> [] \<and> \<not> list_ex newline rest
         then Some (kind, name, rest) else None)"

text \<open>
  The value: \<open>[-+]?[\d.eE+]+|NaN|\+?Inf|-Inf\<close>. A sign is taken when a number character follows; a plus
  sign is a number character itself.
\<close>

definition value_text :: "string \<Rightarrow> string option" where
  "value_text s =
     (let signed = (s \<noteq> [] \<and> (hd s = CHR ''-'' \<or> hd s = CHR ''+'') \<and> takeWhile num_char (tl s) \<noteq> [])
      in if signed then Some (hd s # takeWhile num_char (tl s))
         else if takeWhile num_char s \<noteq> [] then Some (takeWhile num_char s)
         else if take 3 s = ''NaN'' then Some ''NaN''
         else if take 4 s = ''+Inf'' then Some ''+Inf''
         else if take 3 s = ''Inf'' then Some ''Inf''
         else if take 4 s = ''-Inf'' then Some ''-Inf''
         else None)"

text \<open>The sample: name, optional braces up to the first closing one, and value.\<close>

definition sample_match :: "string \<Rightarrow> (string \<times> string option \<times> string) option" where
  "sample_match line =
     (let name = takeWhile name_char line; r1 = dropWhile name_char line;
          inner = takeWhile (\<lambda>c. c \<noteq> CHR ''}'') (tl r1); closed = dropWhile (\<lambda>c. c \<noteq> CHR ''}'') (tl r1);
          braces = (take 1 r1 = ''{'' \<and> closed \<noteq> []);
          r2 = (if braces then tl closed else r1); r3 = trim_start r2
      in if line \<noteq> [] \<and> name_start (hd line) \<and> r3 \<noteq> r2
         then map_option (\<lambda>v. (name, (if braces then Some inner else None), v)) (value_text r3)
         else None)"

text \<open>A quoted value: characters other than quote and backslash, or a backslash and any character.\<close>

fun quoted :: "string \<Rightarrow> (string \<times> string) option" where
  "quoted [] = None"
| "quoted (c # cs) =
     (if c = CHR 0x22 then Some ([], cs)
      else if c = CHR 0x5C then
        (case cs of
           [] \<Rightarrow> None
         | d # ds \<Rightarrow> if newline d then None else map_option (\<lambda>(v, r). (c # d # v, r)) (quoted ds))
      else map_option (\<lambda>(v, r). (c # v, r)) (quoted cs))"

definition label_match :: "string \<Rightarrow> (string \<times> string) option" where
  "label_match part =
     (let p = trim_start part; key = takeWhile label_char p; r1 = trim_start (dropWhile label_char p);
          r2 = trim_start (tl r1)
      in if p \<noteq> [] \<and> label_start (hd p) \<and> take 1 r1 = ''='' \<and> take 1 r2 = [CHR 0x22] then
           (case quoted (tl r2) of
              Some (v, r) \<Rightarrow> if trim_start r = [] then Some (key, v) else None
            | None \<Rightarrow> None)
         else None)"

text \<open>\<open>s.replace(/\\x/g, r)\<close> for the two characters backslash and \<open>x\<close>.\<close>

fun replace_escape :: "char \<Rightarrow> char \<Rightarrow> string \<Rightarrow> string" where
  "replace_escape x r [] = []"
| "replace_escape x r [c] = [c]"
| "replace_escape x r (c # d # ds) =
     (if c = CHR 0x5C \<and> d = x then r # replace_escape x r ds else c # replace_escape x r (d # ds))"

definition unescape :: "string \<Rightarrow> string" where
  "unescape v =
     replace_escape (CHR ''n'') (CHR 0x0A)
       (replace_escape (CHR 0x5C) (CHR 0x5C) (replace_escape (CHR 0x22) (CHR 0x22) v))"

definition label_step :: "string \<Rightarrow> (string \<times> string) list \<Rightarrow> (string \<times> string) list" where
  "label_step part labels =
     (case label_match part of Some (k, v) \<Rightarrow> AList.update k (unescape v) labels | None \<Rightarrow> labels)"

definition parse_labels :: "string option \<Rightarrow> (string \<times> string) list" where
  "parse_labels inner = (case inner of None \<Rightarrow> [] | Some s \<Rightarrow> fold label_step (split_on (CHR '','') s) [])"

definition prom_value :: "string \<Rightarrow> jsnum" where
  "prom_value v =
     (if v = ''NaN'' then NaN
      else if v = ''+Inf'' \<or> v = ''Inf'' then PInf
      else if v = ''-Inf'' then NInf
      else string_to_number v)"

section \<open>The parser\<close>

definition metric_entry :: "string \<Rightarrow> (string \<times> PromMetric) list \<Rightarrow> PromMetric" where
  "metric_entry name ms =
     nullish (map_of ms name) \<lparr>mm_name = name, mm_help = None, mm_type = None, mm_samples = []\<rparr>"

definition prom_line :: "string \<Rightarrow> (string \<times> PromMetric) list \<Rightarrow> (string \<times> PromMetric) list" where
  "prom_line raw ms =
     (let line = trim raw in
      if line = [] then ms
      else if take 1 line = ''#'' then
        (case comment_match line of
           None \<Rightarrow> ms
         | Some (kind, name, rest) \<Rightarrow>
             (let e = metric_entry name ms
              in AList.update name
                   (if kind = ''HELP'' then e\<lparr>mm_help := Some rest\<rparr> else e\<lparr>mm_type := Some (trim rest)\<rparr>) ms))
      else
        (case sample_match line of
           None \<Rightarrow> ms
         | Some (name, inner, v) \<Rightarrow>
             (let e = metric_entry name ms;
                  s = \<lparr>pm_name = name, pm_labels = parse_labels inner, pm_value = prom_value v\<rparr>
              in AList.update name (e\<lparr>mm_samples := mm_samples e @ [s]\<rparr>) ms)))"

definition parseProm :: "(string \<Rightarrow> string \<Rightarrow> rat) \<Rightarrow> string \<Rightarrow> PromMetric list" where
  "parseProm localeCompare t =
     js_sort (\<lambda>a b. localeCompare (mm_name a) (mm_name b)) (map snd (fold prom_line (prom_lines t) []))"


section \<open>Laws\<close>

lemma takeWhile_stop: "list_all p w \<Longrightarrow> \<not> p d \<Longrightarrow> takeWhile p (w @ d # s) = w \<and> dropWhile p (w @ d # s) = d # s"
  by (induction w) auto

lemma takeWhile_all: "list_all p w \<Longrightarrow> takeWhile p w = w \<and> dropWhile p w = []"
  by (induction w) auto

lemma trim_start_nonspace: "\<not> is_space c \<Longrightarrow> trim_start (c # s) = c # s"
  by (simp add: trim_start_def)

lemma trim_edges: "s \<noteq> [] \<Longrightarrow> \<not> is_space (hd s) \<Longrightarrow> \<not> is_space (last s) \<Longrightarrow> trim s = s"
proof -
  assume s: "s \<noteq> []" "\<not> is_space (hd s)" "\<not> is_space (last s)"
  have "dropWhile is_space s = s" using s by (cases s) auto
  moreover have "dropWhile is_space (rev s) = rev s" using s by (cases s rule: rev_cases) auto
  ultimately show ?thesis by (simp add: trim_def)
qed

lemma name_char_facts:
  "name_char c \<Longrightarrow> \<not> is_space c \<and> c \<noteq> CHR ''#'' \<and> c \<noteq> CHR ''{''"
  by (auto simp: name_char_def name_start_def is_alpha_def is_upper_def is_lower_def is_digit_def is_space_def)

lemma label_char_facts: "label_char c \<Longrightarrow> \<not> is_space c \<and> c \<noteq> CHR ''='' \<and> c \<noteq> CHR '','' \<and> c \<noteq> CHR ''}''"
  by (auto simp: label_char_def label_start_def is_alpha_def is_upper_def is_lower_def is_digit_def is_space_def)

lemma digit_num_char: "is_digit c \<Longrightarrow> num_char c \<and> c \<noteq> CHR ''-'' \<and> c \<noteq> CHR ''+'' \<and> \<not> is_space c"
  by (auto simp: num_char_def is_digit_def is_space_def)

lemma punctuation:
  "\<not> name_char (CHR ''{'')" "\<not> name_char (CHR '' '')" "\<not> label_char (CHR ''='')" "is_space (CHR '' '')"
  "\<not> is_space (CHR ''='')" "\<not> is_space (CHR 0x22)"
  by code_simp+

text \<open>Names and values that need no escape, and a sample as an exporter writes it.\<close>

definition metric_name :: "string \<Rightarrow> bool" where
  "metric_name n \<longleftrightarrow> n \<noteq> [] \<and> name_start (hd n) \<and> list_all name_char n"

definition label_name :: "string \<Rightarrow> bool" where
  "label_name k \<longleftrightarrow> k \<noteq> [] \<and> label_start (hd k) \<and> list_all label_char k"

definition plain_value :: "string \<Rightarrow> bool" where
  "plain_value v \<longleftrightarrow> list_all (\<lambda>c. c \<noteq> CHR 0x22 \<and> c \<noteq> CHR 0x5C \<and> c \<noteq> CHR '','' \<and> c \<noteq> CHR ''}'') v"

definition write_label :: "string \<times> string \<Rightarrow> string" where
  "write_label kv = fst kv @ ''='' @ [CHR 0x22] @ snd kv @ [CHR 0x22]"

definition write_labels :: "(string \<times> string) list \<Rightarrow> string" where
  "write_labels ls = (if ls = [] then [] else ''{'' @ join '','' (map write_label ls) @ ''}'')"

definition write_sample :: "string \<Rightarrow> (string \<times> string) list \<Rightarrow> nat \<Rightarrow> string" where
  "write_sample n ls v = n @ write_labels ls @ '' '' @ nat_digits v"

lemma quoted_plain: "plain_value v \<Longrightarrow> quoted (v @ CHR 0x22 # r) = Some (v, r)"
  by (induction v) (auto simp: plain_value_def)

lemma replace_escape_plain: "CHR 0x5C \<notin> set v \<Longrightarrow> replace_escape x r v = v"
  by (induction x r v rule: replace_escape.induct) auto

lemma unescape_plain: "plain_value v \<Longrightarrow> unescape v = v"
  by (subgoal_tac "CHR 0x5C \<notin> set v") (auto simp: unescape_def replace_escape_plain plain_value_def list_all_iff)

lemma label_match_write:
  assumes "label_name k" "plain_value v"
  shows "label_match (write_label (k, v)) = Some (k, v)"
proof -
  have k: "k \<noteq> []" "label_start (hd k)" "list_all label_char k" using assms(1) by (simp_all add: label_name_def)
  let ?w = "k @ CHR ''='' # CHR 0x22 # v @ [CHR 0x22]"
  have w: "write_label (k, v) = ?w" by (simp add: write_label_def)
  have p: "trim_start ?w = ?w"
    using k label_char_facts by (cases k) (auto simp: trim_start_nonspace)
  have t: "takeWhile label_char ?w = k" "dropWhile label_char ?w = CHR ''='' # CHR 0x22 # v @ [CHR 0x22]"
    using takeWhile_stop [OF k(3) punctuation(3)] by simp_all
  have "hd ?w = hd k" using k(1) by simp
  then show ?thesis
    using k quoted_plain [OF assms(2), of "[]"]
    unfolding label_match_def w p t Let_def
    by (simp add: trim_start_nonspace punctuation, simp add: trim_start_def)
qed

lemma split_labels:
  assumes "ls \<noteq> []" "list_all (\<lambda>(k, v). label_name k \<and> plain_value v) ls"
  shows "split_on (CHR '','') (join '','' (map write_label ls)) = map write_label ls"
proof -
  have no: "CHR '','' \<notin> set (write_label kv)" if "kv \<in> set ls" for kv
    using assms(2) that label_char_facts
    by (fastforce simp: list_all_iff write_label_def label_name_def plain_value_def)
  have app: "split_on d (w @ d # s) = w # split_on d s" if "d \<notin> set w" for d w s
    using that by (induction w) auto
  have one: "split_on d w = [w]" if "d \<notin> set w" for d w
    using that by (induction w) auto
  have "split_on (CHR '','') (join '','' ws) = ws" if "ws \<noteq> []" "\<forall>w\<in>set ws. CHR '','' \<notin> set w" for ws
    using that by (induction "'',''" ws rule: join.induct) (auto simp: app one)
  then show ?thesis using assms(1) no by simp
qed

lemma fold_label_step:
  "list_all (\<lambda>(k, v). label_name k \<and> plain_value v) ls \<Longrightarrow> distinct (map fst (acc @ ls)) \<Longrightarrow>
     fold label_step (map write_label ls) acc = acc @ ls"
proof (induction ls arbitrary: acc)
  case (Cons kv ls)
  obtain k v where kv: "kv = (k, v)" by force
  have "k \<notin> fst ` set acc" using Cons.prems(2) by (auto simp: kv)
  then have "AList.update k v acc = acc @ [(k, v)]" by (induction acc) auto
  then have "label_step (write_label kv) acc = acc @ [(k, v)]"
    using Cons.prems(1) by (simp add: kv label_step_def label_match_write unescape_plain)
  then show ?case using Cons by (simp add: kv)
qed simp

lemma parse_labels_write:
  "list_all (\<lambda>(k, v). label_name k \<and> plain_value v) ls \<Longrightarrow> distinct (map fst ls) \<Longrightarrow>
     parse_labels (if ls = [] then None else Some (join '','' (map write_label ls))) = ls"
  using split_labels [of ls] fold_label_step [of ls "[]"] by (simp add: parse_labels_def)

lemma labels_no_brace:
  "list_all (\<lambda>(k, v). label_name k \<and> plain_value v) ls \<Longrightarrow> list_all (\<lambda>c. c \<noteq> CHR ''}'') (join '','' (map write_label ls))"
proof (induction ls)
  case (Cons kv ls)
  have "list_all (\<lambda>c. c \<noteq> CHR ''}'') (write_label kv)"
    using Cons.prems label_char_facts
    by (fastforce simp: list_all_iff write_label_def label_name_def plain_value_def)
  then show ?case using Cons by (cases ls) auto
qed simp

lemma value_text_digits: "value_text (nat_digits v) = Some (nat_digits v)"
proof -
  obtain c cs where d: "nat_digits v = c # cs" by (cases "nat_digits v") auto
  have all: "list_all is_digit (c # cs)" using nat_digits_are_digits [of _ v] by (simp add: d list_all_iff)
  then have "takeWhile num_char (c # cs) = c # cs"
    using takeWhile_all [of num_char "c # cs"] digit_num_char by (simp add: list_all_iff)
  then show ?thesis using all digit_num_char [of c] unfolding d value_text_def Let_def by simp
qed

lemma sample_match_write:
  assumes n: "metric_name n" and ls: "list_all (\<lambda>(k, v). label_name k \<and> plain_value v) ls"
  shows "sample_match (write_sample n ls v) =
    Some (n, (if ls = [] then None else Some (join '','' (map write_label ls))), nat_digits v)"
proof -
  have nm: "n \<noteq> []" "name_start (hd n)" "list_all name_char n" using n by (simp_all add: metric_name_def)
  obtain c cs where d: "nat_digits v = c # cs" by (cases "nat_digits v") auto
  have "is_digit c" using nat_digits_are_digits [of c v] by (simp add: d)
  then have t: "trim_start (CHR '' '' # nat_digits v) = nat_digits v"
    using digit_num_char [of c] punctuation(4) by (simp add: d trim_start_def)
  have ne: "nat_digits v \<noteq> CHR '' '' # nat_digits v" by simp
  show ?thesis
  proof (cases "ls = []")
    case True
    have "takeWhile name_char (n @ CHR '' '' # nat_digits v) = n"
      "dropWhile name_char (n @ CHR '' '' # nat_digits v) = CHR '' '' # nat_digits v"
      using takeWhile_stop [OF nm(3) punctuation(2)] by simp_all
    then show ?thesis
      using True nm(1,2) t ne
      by (simp add: sample_match_def write_sample_def write_labels_def value_text_digits Let_def)
  next
    case False
    let ?in = "join '','' (map write_label ls)" and ?r = "CHR '' '' # nat_digits v"
    have w: "write_sample n ls v = n @ CHR ''{'' # ?in @ CHR ''}'' # ?r"
      using False by (simp add: write_sample_def write_labels_def)
    have t1: "takeWhile name_char (n @ CHR ''{'' # s) = n" "dropWhile name_char (n @ CHR ''{'' # s) = CHR ''{'' # s" for s
      using takeWhile_stop [OF nm(3) punctuation(1)] by simp_all
    have t2: "takeWhile (\<lambda>c. c \<noteq> CHR ''}'') (?in @ CHR ''}'' # s) = ?in"
      "dropWhile (\<lambda>c. c \<noteq> CHR ''}'') (?in @ CHR ''}'' # s) = CHR ''}'' # s" for s
      using takeWhile_stop [OF labels_no_brace [OF ls]] by simp_all
    show ?thesis
      using False nm(1,2) t ne unfolding sample_match_def w t1 Let_def list.sel t2
      by (simp add: value_text_digits)
  qed
qed

text \<open>
  A sample that an exporter writes with labels that need no escape and a counter value reads back
  exactly: the name, every label in order and the value, appended to the samples of its metric.
\<close>

theorem prom_sample_round_trip:
  assumes "metric_name n" "list_all (\<lambda>(k, v). label_name k \<and> plain_value v) ls" "distinct (map fst ls)" "v < 2 ^ 53"
  shows "prom_line (write_sample n ls v) ms =
    AList.update n ((metric_entry n ms)\<lparr>mm_samples := mm_samples (metric_entry n ms) @
      [\<lparr>pm_name = n, pm_labels = ls, pm_value = Fin (of_nat v)\<rparr>]\<rparr>) ms"
proof -
  let ?w = "write_sample n ls v"
  have nm: "n \<noteq> []" "list_all name_char n" using assms(1) by (simp_all add: metric_name_def)
  obtain c cs where n: "n = c # cs" using nm by (cases n) auto
  have c: "name_char c" using nm by (simp add: n)
  have "last ?w = last (nat_digits v)" by (simp add: write_sample_def)
  then have "\<not> is_space (last ?w)"
    using digit_num_char nat_digits_are_digits [of "last (nat_digits v)" v] by simp
  moreover have "hd ?w = c" "?w \<noteq> []" by (simp_all add: write_sample_def n)
  ultimately have t: "trim ?w = ?w" using name_char_facts [OF c] by (intro trim_edges) simp_all
  have "take 1 ?w \<noteq> ''#''" using name_char_facts [OF c] by (simp add: write_sample_def n)
  moreover have "prom_value (nat_digits v) = Fin (of_nat v)"
  proof -
    obtain e es where d: "nat_digits v = e # es" by (cases "nat_digits v") auto
    then have "is_digit e" using nat_digits_are_digits [of e v] by simp
    then have "e \<noteq> CHR ''N'' \<and> e \<noteq> CHR ''I'' \<and> e \<noteq> CHR ''+'' \<and> e \<noteq> CHR ''-''" by (auto simp: is_digit_def)
    then have "nat_digits v \<noteq> ''NaN''" "nat_digits v \<noteq> ''+Inf''" "nat_digits v \<noteq> ''Inf''" "nat_digits v \<noteq> ''-Inf''"
      by (simp_all add: d)
    then show ?thesis using string_to_number_nat [OF assms(4)] by (simp add: prom_value_def)
  qed
  ultimately show ?thesis
    using \<open>?w \<noteq> []\<close> sample_match_write [OF assms(1,2)] parse_labels_write [OF assms(2,3)] t
    by (simp add: prom_line_def Let_def)
qed

theorem prom_sample_round_trip_witness:
  "prom_line (write_sample ''up'' [(''job'', ''api'')] 7) [] =
     [(''up'', \<lparr>mm_name = ''up'', mm_help = None, mm_type = None,
        mm_samples = [\<lparr>pm_name = ''up'', pm_labels = [(''job'', ''api'')], pm_value = Fin 7\<rparr>]\<rparr>)]"
proof -
  have "metric_name ''up''" "label_name ''job''" "plain_value ''api''" by code_simp+
  then show ?thesis
    using prom_sample_round_trip [of "''up''" "[(''job'', ''api'')]" 7 "[]"] by (simp add: metric_entry_def)
qed

text \<open>
  Values and labels of the text format that the parser loses: a positive infinity written
  \<open>+Inf\<close> and a number with a negative exponent both become NaN (the number alternative of the
  expression takes the plus sign, and has no minus sign in its class), a label whose value holds a
  comma is dropped, and an escaped backslash followed by the letter n becomes a line break.
\<close>

theorem prom_gaps:
  "map_option (\<lambda>(n, l, v). v) (sample_match ''x +Inf'') = Some ''+'' \<and> prom_value ''+'' = NaN \<and>
   map_option (\<lambda>(n, l, v). v) (sample_match ''x 1e-05'') = Some ''1e'' \<and> prom_value ''1e'' = NaN \<and>
   parse_labels (Some (''a='' @ [CHR 0x22] @ ''1,2'' @ [CHR 0x22])) = [] \<and>
   unescape [CHR 0x5C, CHR 0x5C, CHR ''n''] = [CHR 0x0A]"
  by code_simp

end
