(* ===== verification/Pages.thy ===== *)
theory Pages
  imports Browser NumberText ApiKey
begin

text \<open>
  What the settings pages share. A policy page loads one document, keeps a draft of its fields, and
  saves the draft with a PUT that is followed by another load; every page of this kind is an instance
  of \<open>policy\<close>, the record of what differs between them. The handlers are asynchronous: a \<open>fetch\<close> under
  way is an entry of \<open>pg_tasks\<close>, and the entries may be answered in any order. The code after the
  \<open>await\<close> is the step that takes the answer.
\<close>

section \<open>Texts of JSON values\<close>

definition hex4 :: "nat \<Rightarrow> string" where
  "hex4 n = ''00'' @ map (\<lambda>d. if d < 10 then char_of (48 + d) else char_of (87 + d)) [n div 16, n mod 16]"

definition json_escape :: "char \<Rightarrow> string" where
  "json_escape c =
     (let n = (of_char c :: nat); esc = (\<lambda>d. [CHR 0x5C, d]) in
      if n = 34 then esc (CHR 0x22) else if n = 92 then esc (CHR 0x5C)
      else if n = 8 then esc (CHR ''b'') else if n = 9 then esc (CHR ''t'')
      else if n = 10 then esc (CHR ''n'') else if n = 12 then esc (CHR ''f'')
      else if n = 13 then esc (CHR ''r'')
      else if n < 32 then [CHR 0x5C, CHR ''u''] @ hex4 n else [c])"

definition json_string :: "string \<Rightarrow> string" where
  "json_string s = [CHR 0x22] @ concat (map json_escape s) @ [CHR 0x22]"

text \<open>\<open>JSON.stringify(v)\<close>\<close>

fun json_stringify :: "json \<Rightarrow> string" where
  "json_stringify JNull = ''null''"
| "json_stringify (JBool x) = (if x then ''true'' else ''false'')"
| "json_stringify (JNum n) = (case n of Fin x \<Rightarrow> num_to_string x | _ \<Rightarrow> ''null'')"
| "json_stringify (JStr s) = json_string s"
| "json_stringify (JArr vs) = ''['' @ join '','' (map json_stringify vs) @ '']''"
| "json_stringify (JObj fs) =
     ''{'' @ join '','' (map (\<lambda>(k, v). json_string k @ '':'' @ json_stringify v) fs) @ ''}''"

definition num_text :: "jsnum \<Rightarrow> string" where
  "num_text n = (case n of NaN \<Rightarrow> ''NaN'' | PInf \<Rightarrow> ''Infinity'' | NInf \<Rightarrow> ''-Infinity'' | Fin x \<Rightarrow> num_to_string x)"

text \<open>What a page shows of a value that its type says is a string.\<close>

definition shown_text :: "json \<Rightarrow> string" where
  "shown_text v = (case v of JStr s \<Rightarrow> s | JNum n \<Rightarrow> num_text n | _ \<Rightarrow> json_stringify v)"

section \<open>State and answers\<close>

datatype 'd page_state = Loading | Ready 'd | Failed nat string

text \<open>An entry of the requests under way: a load (with the flag that a save awaits it) or a save.\<close>

datatype task = Load bool | Save

text \<open>The answer to a load: the request or the reading of its body threw, a refusal, a document.\<close>

datatype 'd answer = Threw string | Refused nat string string | Fetched 'd

text \<open>The answer to a save: a refusal carries its body when it is JSON.\<close>

datatype put_answer = PutThrew string | PutRefused nat string "json option" | PutDone

record ('d, 'f) page =
  pg_state :: "'d page_state"
  pg_form :: 'f
  pg_saving :: bool
  pg_saveError :: "string option"
  pg_tasks :: "task list"
  pg_sent :: "json list"

datatype 'f verdict = Reject string | Send 'f json | Ignore

text \<open>
  What a page is made of: the address of its document, the form that a loaded document gives, what a button makes of the page, the
  message of a refused save (\<^const>\<open>None\<close> when the code throws while it makes it), what it does with an
  exception of the save, and which buttons are disabled.
\<close>

record ('d, 'f, 'b) policy =
  po_url :: string
  po_fill :: "'d \<Rightarrow> 'f \<Rightarrow> 'f"
  po_press :: "'b \<Rightarrow> ('d, 'f) page \<Rightarrow> 'f verdict"
  po_describe :: "nat \<Rightarrow> string \<Rightarrow> json option \<Rightarrow> string option"
  po_caught :: "string \<Rightarrow> string option"
  po_disabled :: "'b \<Rightarrow> ('d, 'f) page \<Rightarrow> bool"

definition authHeaders :: "'v browser \<Rightarrow> (string \<times> string) list" where
  "authHeaders b = (let k = getApiKey b in if k \<noteq> [] then [(''X-API-Key'', k)] else [])"

text \<open>The two requests of a page.\<close>

definition load_request :: "('d, 'f, 'b) policy \<Rightarrow> 'v browser \<Rightarrow> request" where
  "load_request p b =
     \<lparr>req_method = ''GET'', req_path = po_url p, req_headers = authHeaders b, req_payload = None\<rparr>"

definition save_request :: "('d, 'f, 'b) policy \<Rightarrow> 'v browser \<Rightarrow> json \<Rightarrow> request" where
  "save_request p b body =
     \<lparr>req_method = ''PUT'', req_path = po_url p,
      req_headers = (''Content-Type'', ''application/json'') # authHeaders b, req_payload = Some body\<rparr>"

definition formatTs :: "(rat \<Rightarrow> string) \<Rightarrow> rat \<Rightarrow> string" where
  "formatTs toLocaleString ts = (if ts = 0 then ''never'' else toLocaleString (ts * 1000))"

definition page_start :: "'f \<Rightarrow> ('d, 'f) page" where
  "page_start form =
     \<lparr>pg_state = Loading, pg_form = form, pg_saving = False, pg_saveError = None, pg_tasks = [], pg_sent = []\<rparr>"

section \<open>Handlers\<close>

text \<open>\<open>refresh\<close> up to its request.\<close>

definition load_begin :: "bool \<Rightarrow> ('d, 'f) page \<Rightarrow> ('d, 'f) page" where
  "load_begin awaited s = s\<lparr>pg_state := Loading, pg_tasks := pg_tasks s @ [Load awaited]\<rparr>"

text \<open>\<open>refresh\<close> from the answer on.\<close>

definition load_done :: "('d, 'f, 'b) policy \<Rightarrow> 'd answer \<Rightarrow> ('d, 'f) page \<Rightarrow> ('d, 'f) page" where
  "load_done p a s =
     (case a of
        Threw m \<Rightarrow> s\<lparr>pg_state := Failed 0 m\<rparr>
      | Refused st body statusText \<Rightarrow> s\<lparr>pg_state := Failed st (or_str body statusText)\<rparr>
      | Fetched d \<Rightarrow> s\<lparr>pg_state := Ready d, pg_form := po_fill p d (pg_form s)\<rparr>)"

text \<open>A button: nothing while it is disabled; otherwise its verdict, with the draft it leaves.\<close>

definition press :: "('d, 'f, 'b) policy \<Rightarrow> 'b \<Rightarrow> ('d, 'f) page \<Rightarrow> ('d, 'f) page" where
  "press p b s =
     (if po_disabled p b s then s
      else case po_press p b s of
             Ignore \<Rightarrow> s
           | Reject m \<Rightarrow> s\<lparr>pg_saveError := Some m\<rparr>
           | Send form body \<Rightarrow>
               s\<lparr>pg_form := form, pg_saving := True, pg_saveError := None,
                 pg_tasks := pg_tasks s @ [Save], pg_sent := pg_sent s @ [body]\<rparr>)"

text \<open>
  The save from the answer on. Every way out but success ends it (\<open>finally\<close>); success begins a load
  that it awaits.
\<close>

definition save_done :: "('d, 'f, 'b) policy \<Rightarrow> put_answer \<Rightarrow> ('d, 'f) page \<Rightarrow> ('d, 'f) page" where
  "save_done p a s =
     (case a of
        PutThrew m \<Rightarrow>
          (case po_caught p m of
             None \<Rightarrow> s\<lparr>pg_saving := False\<rparr>
           | Some e \<Rightarrow> s\<lparr>pg_saving := False, pg_saveError := Some e\<rparr>)
      | PutRefused st statusText body \<Rightarrow>
          (case po_describe p st statusText body of
             None \<Rightarrow> s\<lparr>pg_saving := False\<rparr>
           | Some e \<Rightarrow> s\<lparr>pg_saving := False, pg_saveError := Some e\<rparr>)
      | PutDone \<Rightarrow> load_begin True s)"

definition drop_nth :: "nat \<Rightarrow> 'a list \<Rightarrow> 'a list" where
  "drop_nth i xs = take i xs @ drop (Suc i) xs"

text \<open>Answering the request under way at place \<open>i\<close>, whichever of the two answers fits it.\<close>

definition answer_task :: "('d, 'f, 'b) policy \<Rightarrow> nat \<Rightarrow> 'd answer \<Rightarrow> put_answer \<Rightarrow> ('d, 'f) page \<Rightarrow> ('d, 'f) page" where
  "answer_task p i a pa s =
     (if i < length (pg_tasks s) then
        (let s' = s\<lparr>pg_tasks := drop_nth i (pg_tasks s)\<rparr> in
         case pg_tasks s ! i of
           Load awaited \<Rightarrow>
             (let t = load_done p a s' in if awaited then t\<lparr>pg_saving := False\<rparr> else t)
         | Save \<Rightarrow> save_done p pa s')
      else s)"

text \<open>
  The steps of a page: the effect that loads, the fields (rendered once a document is there), the
  buttons and the answers.
\<close>

datatype ('d, 'f, 'b) page_op = Effect | Edit 'f | Press 'b | Answer nat "'d answer" put_answer

fun page_step :: "('d, 'f, 'b) policy \<Rightarrow> ('d, 'f, 'b) page_op \<Rightarrow> ('d, 'f) page \<Rightarrow> ('d, 'f) page" where
  "page_step p Effect s = load_begin False s"
| "page_step p (Edit form) s = (case pg_state s of Ready d \<Rightarrow> s\<lparr>pg_form := form\<rparr> | _ \<Rightarrow> s)"
| "page_step p (Press b) s = press p b s"
| "page_step p (Answer i a pa) s = answer_task p i a pa s"

definition page_run :: "('d, 'f, 'b) policy \<Rightarrow> 'f \<Rightarrow> ('d, 'f, 'b) page_op list \<Rightarrow> ('d, 'f) page" where
  "page_run p form ops = fold (page_step p) (Effect # ops) (page_start form)"

section \<open>What is shown\<close>

datatype node =
  Skeleton nat
| Text string
| Hint string
| Dash
| Badge bool string
| Stat string string
| NumberField rat string
| TextField string string
| Button string bool
| Choice string bool

text \<open>\<open>{state.status ? `HTTP ${state.status} ` : ""}{state.message}\<close>\<close>

definition http_message :: "nat \<Rightarrow> string \<Rightarrow> string" where
  "http_message st m = (if st \<noteq> 0 then ''HTTP '' @ nat_digits st @ '' '' else []) @ m"

text \<open>\<open>{saveError && ...}\<close>: an empty message shows nothing.\<close>

definition error_nodes :: "string option \<Rightarrow> node list" where
  "error_nodes e = (case e of None \<Rightarrow> [] | Some m \<Rightarrow> if m \<noteq> [] then [Text m] else [])"

definition by_whom :: "string \<Rightarrow> string" where
  "by_whom who = (if who \<noteq> [] then '' by '' @ who else [])"

section \<open>The contract of a policy page\<close>

definition busy :: "task \<Rightarrow> bool" where
  "busy t \<longleftrightarrow> t = Save \<or> t = Load True"

definition is_load :: "task \<Rightarrow> bool" where
  "is_load t \<longleftrightarrow> t \<noteq> Save"

definition page_good :: "('d, 'f) page \<Rightarrow> bool" where
  "page_good s \<longleftrightarrow>
     length (filter busy (pg_tasks s)) = (if pg_saving s then 1 else 0) \<and>
     (pg_state s = Loading \<longrightarrow> list_ex is_load (pg_tasks s))"

text \<open>Requests still to come before the page is at rest, counting the load after a save.\<close>

definition outstanding :: "('d, 'f) page \<Rightarrow> nat" where
  "outstanding s = sum_list (map (\<lambda>t. if t = Save then 2 else 1) (pg_tasks s))"

lemma drop_nth_split: "i < length xs \<Longrightarrow> \<exists>ys zs. xs = ys @ xs ! i # zs \<and> drop_nth i xs = ys @ zs"
  by (intro exI [of _ "take i xs"] exI [of _ "drop (Suc i) xs"]) (simp add: drop_nth_def id_take_nth_drop)

lemma load_done_frame:
  "pg_tasks (load_done p a s) = pg_tasks s \<and> pg_saving (load_done p a s) = pg_saving s \<and>
   pg_state (load_done p a s) \<noteq> Loading \<and> pg_sent (load_done p a s) = pg_sent s"
  by (cases a) (simp_all add: load_done_def)

lemma save_done_frame:
  "pa \<noteq> PutDone \<Longrightarrow> pg_tasks (save_done p pa s) = pg_tasks s \<and> \<not> pg_saving (save_done p pa s) \<and>
     pg_state (save_done p pa s) = pg_state s"
  by (cases pa) (simp_all add: save_done_def split: option.split)

lemma answer_task_good:
  assumes g: "page_good s"
  shows "page_good (answer_task p i a pa s)"
proof (cases "i < length (pg_tasks s)")
  case True
  let ?t = "pg_tasks s ! i"
  obtain ys zs where t: "pg_tasks s = ys @ ?t # zs" and d: "drop_nth i (pg_tasks s) = ys @ zs"
    using drop_nth_split [OF True] by blast
  let ?s' = "s\<lparr>pg_tasks := drop_nth i (pg_tasks s)\<rparr>"
  have count: "length (filter busy ys) + length (filter busy zs) + (if busy ?t then 1 else 0) =
      (if pg_saving s then 1 else 0)"
  proof -
    have "length (filter busy (ys @ ?t # zs)) = (if pg_saving s then 1 else 0)"
      using g unfolding page_good_def by (subst t [symmetric]) simp
    then show ?thesis by (auto split: if_splits)
  qed
  show ?thesis
  proof (cases ?t)
    case (Load awaited)
    then show ?thesis
      using count load_done_frame [of p a ?s'] True
      by (cases awaited) (auto simp: answer_task_def page_good_def Let_def d busy_def split: if_splits)
  next
    case Save
    have "pg_state s = Loading \<longrightarrow> list_ex is_load (ys @ ?t # zs)"
      using g unfolding page_good_def by (subst t [symmetric]) simp
    then have load: "pg_state s = Loading \<longrightarrow> list_ex is_load (ys @ zs)" using Save by (simp add: is_load_def)
    show ?thesis
    proof (cases "pa = PutDone")
      case True
      then show ?thesis using Save count \<open>i < length (pg_tasks s)\<close>
        by (auto simp: answer_task_def page_good_def save_done_def load_begin_def Let_def d busy_def is_load_def split: if_splits)
    next
      case False
      then show ?thesis
        using Save count load save_done_frame [OF False, of p ?s'] \<open>i < length (pg_tasks s)\<close>
        by (auto simp: answer_task_def page_good_def Let_def d busy_def split: if_splits)
    qed
  qed
qed (simp add: answer_task_def g)

lemma answer_task_outstanding:
  assumes i: "i < length (pg_tasks s)"
  shows "outstanding (answer_task p i a pa s) < outstanding s"
proof -
  let ?t = "pg_tasks s ! i"
  obtain ys zs where t: "pg_tasks s = ys @ ?t # zs" and d: "drop_nth i (pg_tasks s) = ys @ zs"
    using drop_nth_split [OF i] by blast
  let ?w = "\<lambda>ts. sum_list (map (\<lambda>t. if t = Save then 2 else 1 :: nat) ts)"
  have o: "outstanding s = ?w ys + ?w zs + (if ?t = Save then 2 else 1)"
    unfolding outstanding_def by (subst t) simp
  show ?thesis
  proof (cases ?t)
    case (Load awaited)
    have "pg_tasks (answer_task p i a pa s) = ys @ zs"
      using i Load d load_done_frame [of p a "s\<lparr>pg_tasks := ys @ zs\<rparr>"] by (simp add: answer_task_def Let_def)
    then have "outstanding (answer_task p i a pa s) = ?w ys + ?w zs" by (simp add: outstanding_def)
    then show ?thesis using o Load by simp
  next
    case Save
    have "pg_tasks (answer_task p i a pa s) = ys @ zs @ (if pa = PutDone then [Load True] else [])"
      using i Save d save_done_frame [of pa p "s\<lparr>pg_tasks := ys @ zs\<rparr>"]
      by (cases "pa = PutDone") (simp_all add: answer_task_def Let_def, simp add: save_done_def load_begin_def)
    then have "outstanding (answer_task p i a pa s) \<le> ?w ys + ?w zs + 1" by (simp add: outstanding_def)
    then show ?thesis using o Save by simp
  qed
qed

text \<open>
  The contract between a page's view and its handlers: while a save is under way every button that
  could start another is disabled.
\<close>

locale policy_page =
  fixes p :: "('d, 'f, 'b) policy"
  assumes saving_disables: "pg_saving s \<Longrightarrow> po_disabled p b s"
begin

lemma press_good: "page_good s \<Longrightarrow> page_good (press p b s)"
  using saving_disables [of s b]
  by (auto simp: press_def page_good_def busy_def split: verdict.split)

lemma step_good: "page_good s \<Longrightarrow> page_good (page_step p op s)"
proof (cases op)
  case Effect
  then show "page_good s \<Longrightarrow> page_good (page_step p op s)"
    by (simp add: load_begin_def page_good_def busy_def is_load_def)
next
  case (Edit form)
  then show "page_good s \<Longrightarrow> page_good (page_step p op s)"
    by (cases "pg_state s") (simp_all add: page_good_def)
qed (simp_all add: press_good answer_task_good)

lemma run_good: "page_good (page_run p form ops)"
proof -
  have "page_good (load_begin False (page_start form))"
    by (simp add: load_begin_def page_start_def page_good_def busy_def is_load_def)
  moreover have "page_good s \<Longrightarrow> page_good (fold (page_step p) ops s)" for s
    by (induction ops arbitrary: s) (simp_all add: step_good)
  ultimately show ?thesis by (simp add: page_run_def)
qed

text \<open>At most one save is under way, exactly while the page says so.\<close>

lemma one_save:
  "length (filter busy (pg_tasks (page_run p form ops))) = (if pg_saving (page_run p form ops) then 1 else 0)"
  using run_good [of form ops] by (simp add: page_good_def)

text \<open>Once every request has its answer the page is at rest.\<close>

lemma settled: "pg_tasks (page_run p form ops) = [] \<Longrightarrow>
    \<not> pg_saving (page_run p form ops) \<and> pg_state (page_run p form ops) \<noteq> Loading"
  using run_good [of form ops] by (auto simp: page_good_def split: if_splits)

text \<open>Answering the oldest request over and over ends, whatever the answers are.\<close>

lemma settles:
  "page_good s \<Longrightarrow> outstanding s \<le> n \<Longrightarrow>
     let t = fold (\<lambda>(a, pa). answer_task p 0 a pa) (map f [0..<n]) s in
     pg_tasks t = [] \<and> \<not> pg_saving t \<and> pg_state t \<noteq> Loading"
proof (induction n arbitrary: s f)
  case 0
  then have "pg_tasks s = []" by (cases "pg_tasks s") (auto simp: outstanding_def split: if_splits)
  then show ?case using 0 by (auto simp: page_good_def split: if_splits)
next
  case (Suc n)
  obtain a pa where f: "f 0 = (a, pa)" by force
  let ?s = "answer_task p 0 a pa s"
  have "outstanding ?s \<le> n"
  proof (cases "pg_tasks s")
    case Nil
    then show ?thesis by (simp add: answer_task_def outstanding_def)
  next
    case (Cons x xs)
    then show ?thesis using answer_task_outstanding [of 0 s p a pa] Suc.prems(2) by simp
  qed
  moreover have "map f [0..<Suc n] = f 0 # map (\<lambda>i. f (Suc i)) [0..<n]"
    by (simp only: map_upt_Suc)
  ultimately show ?case
    using Suc.IH [OF answer_task_good [OF Suc.prems(1), of p 0 a pa], of "\<lambda>i. f (Suc i)"] f by simp
qed

end

end
