(* ===== verification/PolicyPages.thy ===== *)
theory PolicyPages
  imports Pages
begin

text \<open>
  Six settings pages of the same make, under \<open>web/app/settings\<close>: \<open>match-topk\<close>, \<open>match-duration\<close>,
  \<open>pat-concurrency\<close>, \<open>webhook-delivery-rate\<close>, \<open>webhook-destination-cap\<close> and \<open>pat-expiry-warning\<close>. For each:
  the document it loads, its form, its buttons, the message it makes of a refused save, when its
  buttons are disabled (a button that is not rendered counts as disabled), and what it renders. A view
  is the list of the texts, fields and buttons; the class names and the fixed explanations are left
  out.
\<close>

section \<open>Messages of a refused save\<close>

text \<open>
  \<open>body.detail\<close> of \<open>await r.json().catch(() => ({}))\<close>: \<^const>\<open>None\<close> when the body is \<open>null\<close> and the access
  throws.
\<close>

definition body_detail :: "json option \<Rightarrow> json option option" where
  "body_detail body =
     (case body of
        None \<Rightarrow> Some None
      | Some JNull \<Rightarrow> None
      | Some v \<Rightarrow> Some (field v ''detail''))"

definition request_failed :: "nat \<Rightarrow> string" where
  "request_failed st = ''Request failed ('' @ nat_digits st @ '')''"

text \<open>The message of the two match pages.\<close>

definition match_describe :: "nat \<Rightarrow> string \<Rightarrow> json option \<Rightarrow> string option" where
  "match_describe st statusText body =
     map_option
       (\<lambda>detail. case detail of
          Some (JStr s) \<Rightarrow> s
        | _ \<Rightarrow>
            if is_object detail then
              (let m = field (the detail) ''message''
               in if truthy m then shown_text (the m) else json_stringify (the detail))
            else request_failed st)
       (body_detail body)"

text \<open>\<open>JSON.stringify(body.detail || {})\<close>\<close>

definition stringify_detail :: "json option \<Rightarrow> string" where
  "stringify_detail detail = (if truthy detail then json_stringify (the detail) else json_stringify (JObj []))"

text \<open>The message of the token and destination caps.\<close>

definition cap_describe :: "nat \<Rightarrow> string \<Rightarrow> json option \<Rightarrow> string option" where
  "cap_describe st statusText body =
     map_option
       (\<lambda>detail. or_str (case detail of Some (JStr s) \<Rightarrow> s | _ \<Rightarrow> stringify_detail detail) (request_failed st))
       (body_detail body)"

definition rate_describe :: "nat \<Rightarrow> string \<Rightarrow> json option \<Rightarrow> string option" where
  "rate_describe st statusText body =
     map_option
       (\<lambda>detail. or_str
          (case detail of
             Some (JStr s) \<Rightarrow> s
           | Some v \<Rightarrow> (case field v ''message'' of Some (JStr m) \<Rightarrow> m | _ \<Rightarrow> stringify_detail detail)
           | None \<Rightarrow> stringify_detail detail)
          (request_failed st))
       (body_detail body)"

text \<open>The last page catches what it throws itself; the text of that exception is the engine's.\<close>

definition null_access :: string where
  "null_access = ''Cannot read properties of null (reading '' @ [CHR 0x27] @ ''detail'' @ [CHR 0x27] @ '')''"

definition expiry_describe :: "nat \<Rightarrow> string \<Rightarrow> json option \<Rightarrow> string option" where
  "expiry_describe st statusText body =
     (case body_detail body of
        None \<Rightarrow> Some null_access
      | Some detail \<Rightarrow>
          Some (case detail of
             Some (JStr s) \<Rightarrow> s
           | Some v \<Rightarrow> (if truthy (field v ''message'') then shown_text (the (field v ''message'')) else statusText)
           | None \<Rightarrow> statusText))"

text \<open>A draft that has to be a non-negative whole number, sent under a key.\<close>

definition send_number :: "string \<Rightarrow> string \<Rightarrow> string \<Rightarrow> string verdict" where
  "send_number complaint key draft =
     (case parse_int draft of
        Fin v \<Rightarrow> if v < 0 then Reject complaint else Send draft (JObj [(key, JNum (Fin v))])
      | _ \<Rightarrow> Reject complaint)"

definition error_view :: "string \<Rightarrow> nat \<Rightarrow> string \<Rightarrow> node list" where
  "error_view title st m = [Text title, Text (http_message st m)]"

datatype cap_button = SaveCap | ClearCap

section \<open>Match top k\<close>

record topk_resp =
  tk_max_top_k :: rat
  tk_ceiling :: rat
  tk_updated_at :: rat
  tk_updated_by :: string

definition formatTopK :: "rat \<Rightarrow> string" where
  "formatTopK k = (if k = 0 then ''off'' else num_to_string k)"

definition topk_fill :: "topk_resp \<Rightarrow> string \<Rightarrow> string" where
  "topk_fill d draft = num_to_string (tk_max_top_k d)"

fun topk_press :: "cap_button \<Rightarrow> (topk_resp, string) page \<Rightarrow> string verdict" where
  "topk_press SaveCap s = send_number ''max_top_k must be a non-negative integer'' ''max_top_k'' (pg_form s)"
| "topk_press ClearCap s = Send ''0'' (JObj [(''max_top_k'', JNum (Fin 0))])"

fun topk_disabled :: "cap_button \<Rightarrow> (topk_resp, string) page \<Rightarrow> bool" where
  "topk_disabled SaveCap s = (case pg_state s of Ready d \<Rightarrow> pg_saving s | _ \<Rightarrow> True)"
| "topk_disabled ClearCap s = (case pg_state s of Ready d \<Rightarrow> pg_saving s \<or> tk_max_top_k d = 0 | _ \<Rightarrow> True)"

definition topk_page :: "(topk_resp, string, cap_button) policy" where
  "topk_page =
     \<lparr>po_url = ''/api/match-topk'', po_fill = topk_fill, po_press = topk_press, po_describe = match_describe, po_caught = (\<lambda>_. None),
      po_disabled = topk_disabled\<rparr>"

definition topk_run :: "(topk_resp, string, cap_button) page_op list \<Rightarrow> (topk_resp, string) page" where
  "topk_run ops = page_run topk_page ''0'' ops"

definition topk_view :: "(rat \<Rightarrow> string) \<Rightarrow> (topk_resp, string) page \<Rightarrow> node list" where
  "topk_view loc s =
     (case pg_state s of
        Loading \<Rightarrow> [Skeleton 4]
      | Failed st m \<Rightarrow> error_view ''Could not load match top_k policy'' st m
      | Ready d \<Rightarrow>
          [Text ''Current policy'',
           Badge (tk_max_top_k d > 0) (if tk_max_top_k d > 0 then ''enforcing'' else ''no cap''),
           Stat ''cap'' (formatTopK (tk_max_top_k d)),
           Stat ''ceiling'' (num_to_string (tk_ceiling d)),
           NumberField (tk_ceiling d) (pg_form s),
           Text (''hard ceiling: '' @ num_to_string (tk_ceiling d)),
           Text (''last updated '' @ formatTs loc (tk_updated_at d) @ by_whom (tk_updated_by d)),
           Button ''clear cap'' (topk_disabled ClearCap s),
           Button (if pg_saving s then ''saving'' else ''save cap'') (topk_disabled SaveCap s)]
          @ error_nodes (pg_saveError s))"

section \<open>Match duration\<close>

record duration_resp =
  du_max_duration_sec :: rat
  du_ceiling :: rat
  du_updated_at :: rat
  du_updated_by :: string

text \<open>The remainder keeps the sign of a number of seconds, which is not negative here.\<close>

definition formatDuration :: "rat \<Rightarrow> string" where
  "formatDuration sec =
     (if sec = 0 then ''off''
      else if sec < 60 then num_to_string sec @ ''s''
      else let m = math_floor (sec / 60); s = sec - 60 * of_int m
           in if s \<noteq> 0 then int_to_string m @ ''m '' @ num_to_string s @ ''s'' else int_to_string m @ ''m'')"

definition duration_fill :: "duration_resp \<Rightarrow> string \<Rightarrow> string" where
  "duration_fill d draft = num_to_string (du_max_duration_sec d)"

fun duration_press :: "cap_button \<Rightarrow> (duration_resp, string) page \<Rightarrow> string verdict" where
  "duration_press SaveCap s =
     send_number ''max_duration_sec must be a non-negative integer'' ''max_duration_sec'' (pg_form s)"
| "duration_press ClearCap s = Send ''0'' (JObj [(''max_duration_sec'', JNum (Fin 0))])"

fun duration_disabled :: "cap_button \<Rightarrow> (duration_resp, string) page \<Rightarrow> bool" where
  "duration_disabled SaveCap s = (case pg_state s of Ready d \<Rightarrow> pg_saving s | _ \<Rightarrow> True)"
| "duration_disabled ClearCap s =
     (case pg_state s of Ready d \<Rightarrow> pg_saving s \<or> du_max_duration_sec d = 0 | _ \<Rightarrow> True)"

definition duration_page :: "(duration_resp, string, cap_button) policy" where
  "duration_page =
     \<lparr>po_url = ''/api/match-duration'', po_fill = duration_fill, po_press = duration_press, po_describe = match_describe, po_caught = (\<lambda>_. None),
      po_disabled = duration_disabled\<rparr>"

definition duration_run :: "(duration_resp, string, cap_button) page_op list \<Rightarrow> (duration_resp, string) page" where
  "duration_run ops = page_run duration_page ''0'' ops"

definition duration_view :: "(rat \<Rightarrow> string) \<Rightarrow> (duration_resp, string) page \<Rightarrow> node list" where
  "duration_view loc s =
     (case pg_state s of
        Loading \<Rightarrow> [Skeleton 4]
      | Failed st m \<Rightarrow> error_view ''Could not load match duration policy'' st m
      | Ready d \<Rightarrow>
          [Text ''Current policy'',
           Badge (du_max_duration_sec d > 0) (if du_max_duration_sec d > 0 then ''enforcing'' else ''no cap''),
           Stat ''cap'' (formatDuration (du_max_duration_sec d)),
           Stat ''ceiling'' (formatDuration (du_ceiling d)),
           NumberField (du_ceiling d) (pg_form s),
           Text (''hard ceiling: '' @ num_to_string (du_ceiling d) @ ''s ('' @ formatDuration (du_ceiling d) @ '')''),
           Text (''last updated '' @ formatTs loc (du_updated_at d) @ by_whom (du_updated_by d)),
           Button ''clear cap'' (duration_disabled ClearCap s),
           Button (if pg_saving s then ''saving'' else ''save cap'') (duration_disabled SaveCap s)]
          @ error_nodes (pg_saveError s))"

section \<open>Token concurrency\<close>

record concurrency_resp =
  co_enforcing :: bool
  co_max_active :: rat
  co_live :: rat
  co_remaining :: rat
  co_max_allowed :: rat
  co_updated_at :: rat
  co_updated_by :: string

definition concurrency_fill :: "concurrency_resp \<Rightarrow> string \<Rightarrow> string" where
  "concurrency_fill d draft = num_to_string (co_max_active d)"

fun concurrency_press :: "cap_button \<Rightarrow> (concurrency_resp, string) page \<Rightarrow> string verdict" where
  "concurrency_press SaveCap s = send_number ''max_active must be a non-negative integer'' ''max_active'' (pg_form s)"
| "concurrency_press ClearCap s = Send ''0'' (JObj [(''max_active'', JNum (Fin 0))])"

fun concurrency_disabled :: "cap_button \<Rightarrow> (concurrency_resp, string) page \<Rightarrow> bool" where
  "concurrency_disabled SaveCap s = (case pg_state s of Ready d \<Rightarrow> pg_saving s | _ \<Rightarrow> True)"
| "concurrency_disabled ClearCap s =
     (case pg_state s of Ready d \<Rightarrow> pg_saving s \<or> \<not> co_enforcing d | _ \<Rightarrow> True)"

definition concurrency_page :: "(concurrency_resp, string, cap_button) policy" where
  "concurrency_page =
     \<lparr>po_url = ''/api/pat-concurrency'', po_fill = concurrency_fill, po_press = concurrency_press, po_describe = cap_describe, po_caught = (\<lambda>_. None),
      po_disabled = concurrency_disabled\<rparr>"

definition concurrency_run :: "(concurrency_resp, string, cap_button) page_op list \<Rightarrow> (concurrency_resp, string) page" where
  "concurrency_run ops = page_run concurrency_page ''0'' ops"

definition concurrency_view :: "(rat \<Rightarrow> string) \<Rightarrow> (concurrency_resp, string) page \<Rightarrow> node list" where
  "concurrency_view loc s =
     (case pg_state s of
        Loading \<Rightarrow> [Skeleton 4]
      | Failed st m \<Rightarrow> error_view ''Could not load PAT concurrency policy'' st m
      | Ready d \<Rightarrow>
          [Text ''Live tokens'',
           Badge (co_enforcing d) (if co_enforcing d then ''enforcing'' else ''no cap''),
           Stat ''live'' (num_to_string (co_live d)),
           Stat ''cap'' (if co_max_active d = 0 then ''off'' else num_to_string (co_max_active d)),
           (if co_enforcing d then Stat ''remaining'' (num_to_string (co_remaining d)) else Dash),
           NumberField (co_max_allowed d) (pg_form s),
           Text (''hard ceiling: '' @ num_to_string (co_max_allowed d)),
           Text (''last updated '' @ formatTs loc (co_updated_at d) @ by_whom (co_updated_by d)),
           Button ''clear cap'' (concurrency_disabled ClearCap s),
           Button (if pg_saving s then ''saving'' else ''save cap'') (concurrency_disabled SaveCap s)]
          @ error_nodes (pg_saveError s))"

section \<open>Webhook delivery rate\<close>

record rate_resp =
  ra_max_per_minute :: rat
  ra_ceiling :: rat
  ra_active_hook_count :: rat
  ra_updated_at :: rat
  ra_updated_by :: string

datatype rate_button = SaveRate

definition rate_fill :: "rate_resp \<Rightarrow> string \<Rightarrow> string" where
  "rate_fill d draft = num_to_string (ra_max_per_minute d)"

fun rate_press :: "rate_button \<Rightarrow> (rate_resp, string) page \<Rightarrow> string verdict" where
  "rate_press SaveRate s =
     send_number ''Enter a whole number greater than or equal to 0.'' ''max_per_minute'' (pg_form s)"

fun rate_disabled :: "rate_button \<Rightarrow> (rate_resp, string) page \<Rightarrow> bool" where
  "rate_disabled SaveRate s =
     (case pg_state s of
        Ready d \<Rightarrow> pg_saving s \<or> num_to_string (ra_max_per_minute d) = trim (pg_form s)
      | _ \<Rightarrow> True)"

definition rate_page :: "(rate_resp, string, rate_button) policy" where
  "rate_page =
     \<lparr>po_url = ''/api/webhook-delivery-rate'', po_fill = rate_fill, po_press = rate_press, po_describe = rate_describe, po_caught = (\<lambda>_. None),
      po_disabled = rate_disabled\<rparr>"

definition rate_run :: "(rate_resp, string, rate_button) page_op list \<Rightarrow> (rate_resp, string) page" where
  "rate_run ops = page_run rate_page ''0'' ops"

definition rate_view :: "(rat \<Rightarrow> string) \<Rightarrow> (rate_resp, string) page \<Rightarrow> node list" where
  "rate_view loc s =
     (case pg_state s of
        Loading \<Rightarrow> [Skeleton 3]
      | Failed st m \<Rightarrow> error_view ''Could not load delivery rate policy'' st m
      | Ready d \<Rightarrow>
          [Text ''Per-hook cap'',
           Badge (ra_max_per_minute d > 0)
             (if ra_max_per_minute d > 0 then num_to_string (ra_max_per_minute d) @ ''/min'' else ''no cap''),
           Stat ''active hooks'' (num_to_string (ra_active_hook_count d)),
           Stat ''ceiling'' (num_to_string (ra_ceiling d) @ ''/min''),
           Stat ''last change'' (formatTs loc (ra_updated_at d))]
          @ (if ra_updated_by d \<noteq> [] then [Text (''by '' @ ra_updated_by d)] else []) @
          [NumberField (ra_ceiling d) (pg_form s),
           Button (if pg_saving s then ''saving'' else ''save'') (rate_disabled SaveRate s)]
          @ error_nodes (pg_saveError s)
          @ (if ra_active_hook_count d = 0 then [Text ''No active webhooks yet.''] else []))"

section \<open>Webhook destination cap\<close>

record dest_resp =
  de_enforcing :: bool
  de_explicit :: bool
  de_max_active :: rat
  de_effective_cap :: rat
  de_live :: rat
  de_remaining :: rat
  de_default_cap :: rat
  de_max_allowed :: rat
  de_updated_at :: rat
  de_updated_by :: string

datatype dest_button = SaveDest | ResetToDefault

definition dest_fill :: "dest_resp \<Rightarrow> string \<Rightarrow> string" where
  "dest_fill d draft = num_to_string (de_max_active d)"

fun dest_press :: "dest_button \<Rightarrow> (dest_resp, string) page \<Rightarrow> string verdict" where
  "dest_press SaveDest s = send_number ''max_active must be a non-negative integer'' ''max_active'' (pg_form s)"
| "dest_press ResetToDefault s =
     (case pg_state s of
        Ready d \<Rightarrow> Send (num_to_string (de_default_cap d)) (JObj [(''max_active'', JNum (Fin (de_default_cap d)))])
      | _ \<Rightarrow> Ignore)"

fun dest_disabled :: "dest_button \<Rightarrow> (dest_resp, string) page \<Rightarrow> bool" where
  "dest_disabled b s = (case pg_state s of Ready d \<Rightarrow> pg_saving s | _ \<Rightarrow> True)"

definition dest_page :: "(dest_resp, string, dest_button) policy" where
  "dest_page =
     \<lparr>po_url = ''/api/webhook-destination-cap'', po_fill = dest_fill, po_press = dest_press, po_describe = cap_describe, po_caught = (\<lambda>_. None),
      po_disabled = dest_disabled\<rparr>"

definition dest_run :: "(dest_resp, string, dest_button) page_op list \<Rightarrow> (dest_resp, string) page" where
  "dest_run ops = page_run dest_page ''0'' ops"

definition dest_view :: "(rat \<Rightarrow> string) \<Rightarrow> (dest_resp, string) page \<Rightarrow> node list" where
  "dest_view loc s =
     (case pg_state s of
        Loading \<Rightarrow> [Skeleton 4]
      | Failed st m \<Rightarrow> error_view ''Could not load webhook destination cap'' st m
      | Ready d \<Rightarrow>
          [Text ''Registered destinations'',
           Badge (de_enforcing d) (if de_enforcing d then ''enforcing'' else ''no cap''),
           Stat ''live'' (num_to_string (de_live d)),
           Stat ''effective cap'' (num_to_string (de_effective_cap d)),
           Text (if de_explicit d then ''explicit policy'' else ''default ('' @ num_to_string (de_default_cap d) @ '')''),
           (if de_enforcing d then Stat ''remaining'' (num_to_string (de_remaining d)) else Dash),
           NumberField (de_max_allowed d) (pg_form s),
           Text (''hard ceiling: '' @ num_to_string (de_max_allowed d)),
           Text (''last updated '' @ formatTs loc (de_updated_at d) @ by_whom (de_updated_by d)),
           Button ''reset to default'' (dest_disabled ResetToDefault s),
           Button (if pg_saving s then ''saving'' else ''save cap'') (dest_disabled SaveDest s)]
          @ error_nodes (pg_saveError s))"

section \<open>Token expiry warning\<close>

record expiry_resp =
  ex_enforcing :: bool
  ex_warn_within_days :: rat
  ex_docs_url :: string
  ex_updated_at :: rat
  ex_updated_by :: string
  ex_example_headers :: "(string \<times> string) list"

record expiry_form =
  ef_days :: rat
  ef_url :: string

datatype expiry_button = SaveExpiry

definition PRESETS :: "(string \<times> rat) list" where
  "PRESETS = [(''Off'', 0), (''7 days'', 7), (''14 days'', 14), (''30 days'', 30), (''60 days'', 60), (''90 days'', 90)]"

definition expiry_fill :: "expiry_resp \<Rightarrow> expiry_form \<Rightarrow> expiry_form" where
  "expiry_fill d f = \<lparr>ef_days = ex_warn_within_days d, ef_url = ex_docs_url d\<rparr>"

fun expiry_press :: "expiry_button \<Rightarrow> (expiry_resp, expiry_form) page \<Rightarrow> expiry_form verdict" where
  "expiry_press SaveExpiry s =
     Send (pg_form s)
       (JObj [(''warn_within_days'', JNum (Fin (ef_days (pg_form s)))), (''docs_url'', JStr (trim (ef_url (pg_form s))))])"

fun expiry_disabled :: "expiry_button \<Rightarrow> (expiry_resp, expiry_form) page \<Rightarrow> bool" where
  "expiry_disabled SaveExpiry s = (case pg_state s of Ready d \<Rightarrow> pg_saving s | _ \<Rightarrow> True)"

definition expiry_page :: "(expiry_resp, expiry_form, expiry_button) policy" where
  "expiry_page =
     \<lparr>po_url = ''/api/pat-expiry-warning'', po_fill = expiry_fill, po_press = expiry_press, po_describe = expiry_describe, po_caught = Some,
      po_disabled = expiry_disabled\<rparr>"

definition example_text :: "(string \<times> string) list \<Rightarrow> string" where
  "example_text hs = or_str (join [CHR 0x0A] (map (\<lambda>(k, v). k @ '': '' @ v) hs)) ''(none)''"

definition expiry_run :: "(expiry_resp, expiry_form, expiry_button) page_op list \<Rightarrow> (expiry_resp, expiry_form) page" where
  "expiry_run ops = page_run expiry_page \<lparr>ef_days = 0, ef_url = []\<rparr> ops"

definition expiry_view :: "(rat \<Rightarrow> string) \<Rightarrow> (expiry_resp, expiry_form) page \<Rightarrow> node list" where
  "expiry_view loc s =
     (case pg_state s of
        Loading \<Rightarrow> [Text ''Loading policy...'']
      | Failed st m \<Rightarrow>
          [Text (''Could not load policy ('' @ (if st \<noteq> 0 then nat_digits st else ''network'') @ '')''), Text m]
      | Ready d \<Rightarrow>
          [Badge (ex_enforcing d)
             (if ex_enforcing d
              then ''Warning headers active within '' @ num_to_string (ex_warn_within_days d) @ '' days of expiry''
              else ''No warning headers (policy off)''),
           Text (''Last updated '' @ formatTs loc (ex_updated_at d) @ '' '' @
             (if ex_updated_by d \<noteq> [] then ''by '' @ ex_updated_by d else [])),
           Text ''Threshold'']
          @ map (\<lambda>(label, days). Choice label (days = ef_days (pg_form s))) PRESETS
          @ [TextField ''Rotation runbook URL (optional)'' (ef_url (pg_form s))]
          @ error_nodes (pg_saveError s)
          @ [Button (if pg_saving s then ''Saving...'' else ''Save policy'') (expiry_disabled SaveExpiry s)]
          @ (if ex_enforcing d
             then [Text ''Headers your SDKs will see'', Text (example_text (ex_example_headers d))] else []))"

section \<open>Every page keeps the contract\<close>

interpretation topk: policy_page topk_page
proof
  show "pg_saving s \<Longrightarrow> po_disabled topk_page b s" for s b
    by (cases b) (simp_all add: topk_page_def split: page_state.split)
qed

interpretation duration: policy_page duration_page
proof
  show "pg_saving s \<Longrightarrow> po_disabled duration_page b s" for s b
    by (cases b) (simp_all add: duration_page_def split: page_state.split)
qed

interpretation concurrency: policy_page concurrency_page
proof
  show "pg_saving s \<Longrightarrow> po_disabled concurrency_page b s" for s b
    by (cases b) (simp_all add: concurrency_page_def split: page_state.split)
qed

interpretation rate: policy_page rate_page
proof
  show "pg_saving s \<Longrightarrow> po_disabled rate_page b s" for s b
    by (cases b) (simp_all add: rate_page_def split: page_state.split)
qed

interpretation dest: policy_page dest_page
proof
  show "pg_saving s \<Longrightarrow> po_disabled dest_page b s" for s b
    by (simp add: dest_page_def split: page_state.split)
qed

interpretation expiry: policy_page expiry_page
proof
  show "pg_saving s \<Longrightarrow> po_disabled expiry_page b s" for s b
    by (cases b) (simp_all add: expiry_page_def split: page_state.split)
qed

end
