(* ===== verification/Whole.thy ===== *)
theory Whole
  imports Numbers
begin

text \<open>
  Whole numbers: rounding keeps them, and what \<open>parseInt\<close> reads is one.
\<close>

section \<open>Whole numbers\<close>

text \<open>\<open>Number.isInteger\<close> on finite numbers.\<close>

definition is_integer :: "rat \<Rightarrow> bool" where
  "is_integer x \<longleftrightarrow> of_int (floor x) = x"

lemma half_even_scaled_int:
  assumes "0 \<le> k"
  shows "of_int (half_even (a / pow2 k)) * pow2 k = of_int (half_even (a / pow2 k) * 2 ^ nat k)"
  using assms by (simp add: pow2_def)

text \<open>Rounding a whole number to a double leaves a whole number.\<close>

lemma dbl_int_whole:
  assumes d: "dbl (of_int n) = Fin x"
  shows "\<exists>k. x = of_int k"
proof (cases "\<bar>n\<bar> < 2 ^ 53")
  case True
  then show ?thesis using d dbl_int by auto
next
  case False
  then have pos: "0 < \<bar>n\<bar>" and big: "2 ^ 53 \<le> nat \<bar>n\<bar>" by auto
  have "53 < bitlen (nat \<bar>n\<bar>)"
  proof (rule ccontr)
    assume "\<not> 53 < bitlen (nat \<bar>n\<bar>)"
    then have "(2::nat) ^ bitlen (nat \<bar>n\<bar>) \<le> 2 ^ 53" by (intro power_increasing) auto
    moreover have "nat \<bar>n\<bar> < 2 ^ bitlen (nat \<bar>n\<bar>)" using bitlen_bounds [of "nat \<bar>n\<bar>"] pos by simp
    ultimately show False using big by linarith
  qed
  then have k: "0 \<le> max (ilog2 (of_int \<bar>n\<bar>)) (-1022) - (53 - 1)"
    using ilog2_int [OF pos] by simp
  let ?k = "max (ilog2 (of_int \<bar>n\<bar>)) (-1022) - (53 - 1)"
  have abs: "\<bar>of_int n\<bar> = (of_int \<bar>n\<bar> :: rat)" by simp
  have "x = sgn (of_int n) * (of_int (half_even (of_int \<bar>n\<bar> / pow2 ?k) * 2 ^ nat ?k))"
    using d pos unfolding dbl_def round_float_def Let_def abs half_even_scaled_int [OF k]
    by (auto split: if_splits)
  then have "x = of_int (sgn n * (half_even (of_int \<bar>n\<bar> / pow2 ?k) * 2 ^ nat ?k))"
    by (simp add: sgn_if)
  then show ?thesis by blast
qed

lemma of_int_is_integer [simp]: "is_integer (of_int k)"
  by (simp add: is_integer_def)

lemma of_nat_is_integer [simp]: "is_integer (of_nat n)"
  using of_int_is_integer [of "int n"] by simp

definition natural :: "rat \<Rightarrow> bool" where
  "natural x \<longleftrightarrow> x \<ge> 0 \<and> is_integer x"

lemma natural_iff: "natural x \<longleftrightarrow> (\<exists>n. x = of_nat n)"
proof
  assume n: "natural x"
  then have "x = of_int (floor x)" "0 \<le> floor x" by (auto simp: natural_def is_integer_def)
  then have "x = of_nat (nat (floor x))" by simp
  then show "\<exists>n. x = of_nat n" by blast
qed (auto simp: natural_def)

lemma parse_int_whole: "parse_int s = Fin x \<Longrightarrow> is_integer x"
proof -
  assume p: "parse_int s = Fin x"
  obtain sg r where sr: "sign_of (trim_start s) = (sg, r)" by force
  have "sg = 1 \<or> sg = -1" using sr by (auto simp: sign_of_def split: list.splits if_splits)
  then obtain k where k: "sg * of_nat (dec_nat (takeWhile is_digit r)) = of_int k"
    by (metis mult_1 mult_minus1 of_int_minus of_int_of_nat_eq)
  then show ?thesis
    using p dbl_int_whole [of k x] by (auto simp: parse_int_def sr Let_def split: if_splits)
qed

end
