(* ===== verification/AdminPages.thy ===== *)
theory AdminPages
  imports Pages Dates Whole
begin

text \<open>
  Four consoles of the same make under \<open>web/app/admin\<close>: \<open>body-size\<close>, \<open>webhook-max-attempts-policy\<close>,
  \<open>webhook-auto-disable-policy\<close> and \<open>retention-floor\<close>. Their state is spread over the hooks \<open>data\<close>,
  \<open>loading\<close>, \<open>error\<close>, \<open>busy\<close>, \<open>msg\<close>, \<open>actionErr\<close> and \<open>draft\<close>. A load that fails offers a retry; a save
  answers with the new document and does not load again. \<open>admin_spec\<close> is the record of what differs.
\<close>

section \<open>State\<close>

datatype 'v admin_task = LoadTask | SaveTask 'v

record ('d, 'f, 'v) admin_page =
  ad_data :: "'d option"
  ad_loading :: bool
  ad_error :: "string option"
  ad_busy :: bool
  ad_msg :: "string option"
  ad_actionErr :: "string option"
  ad_draft :: 'f
  ad_tasks :: "'v admin_task list"
  ad_sent :: "'v list"

text \<open>\<open>Complain\<close> only sets the error; \<open>FailSave\<close> fails inside the save, which has cleared the message.\<close>

datatype 'v admin_verdict = Complain string | FailSave string | SendSave 'v

text \<open>The answer to a save: a thrown exception, a refusal with its body, a document (or a body that is no JSON).\<close>

datatype 'd save_answer = SaveThrew string | SaveRefused nat "json option" | SaveOk "'d option"

text \<open>\<open>as_saved\<close> gives the new draft, or \<^const>\<open>None\<close> when the code throws on a missing document.\<close>

record ('d, 'f, 'v, 'b) admin_spec =
  as_url :: string
  as_body :: "'v \<Rightarrow> json"
  as_fill :: "'d \<Rightarrow> 'f"
  as_press :: "'b \<Rightarrow> ('d, 'f, 'v) admin_page \<Rightarrow> 'v admin_verdict"
  as_saved :: "'d option \<Rightarrow> 'f \<Rightarrow> 'f option"
  as_null_error :: string
  as_msg :: "'v \<Rightarrow> string"
  as_disabled :: "'b \<Rightarrow> ('d, 'f, 'v) admin_page \<Rightarrow> bool"

definition admin_start :: "'f \<Rightarrow> ('d, 'f, 'v) admin_page" where
  "admin_start draft =
     \<lparr>ad_data = None, ad_loading = True, ad_error = None, ad_busy = False, ad_msg = None, ad_actionErr = None,
      ad_draft = draft, ad_tasks = [], ad_sent = []\<rparr>"

definition shown_error :: "string option \<Rightarrow> bool" where
  "shown_error e \<longleftrightarrow> nullish e [] \<noteq> []"

section \<open>Handlers\<close>

definition admin_headers :: "'v browser \<Rightarrow> (string \<times> string) list \<Rightarrow> (string \<times> string) list" where
  "admin_headers b extra =
     (let k = getApiKey b in
      [(''Content-Type'', ''application/json'')] @ extra @ (if k \<noteq> [] then [(''X-API-Key'', k)] else []))"

text \<open>The two requests; \<open>base\<close> is \<open>API_BASE\<close>, an environment variable of the build.\<close>

definition admin_load_request :: "string \<Rightarrow> ('d, 'f, 'v, 'b) admin_spec \<Rightarrow> 'w browser \<Rightarrow> request" where
  "admin_load_request base p b =
     \<lparr>req_method = ''GET'', req_path = base @ as_url p, req_headers = admin_headers b [], req_payload = None\<rparr>"

definition admin_save_request :: "string \<Rightarrow> ('d, 'f, 'v, 'b) admin_spec \<Rightarrow> 'w browser \<Rightarrow> 'v \<Rightarrow> request" where
  "admin_save_request base p b v =
     \<lparr>req_method = ''PUT'', req_path = base @ as_url p, req_headers = admin_headers b [], req_payload = Some (as_body p v)\<rparr>"

definition admin_load :: "('d, 'f, 'v) admin_page \<Rightarrow> ('d, 'f, 'v) admin_page" where
  "admin_load s = s\<lparr>ad_loading := True, ad_error := None, ad_tasks := ad_tasks s @ [LoadTask]\<rparr>"

definition admin_loaded ::
  "('d, 'f, 'v, 'b) admin_spec \<Rightarrow> 'd answer \<Rightarrow> ('d, 'f, 'v) admin_page \<Rightarrow> ('d, 'f, 'v) admin_page" where
  "admin_loaded p a s =
     (case a of
        Threw m \<Rightarrow> s\<lparr>ad_error := Some m, ad_loading := False\<rparr>
      | Refused st body statusText \<Rightarrow> s\<lparr>ad_error := Some (''HTTP '' @ nat_digits st), ad_loading := False\<rparr>
      | Fetched d \<Rightarrow> s\<lparr>ad_data := Some d, ad_draft := as_fill p d, ad_loading := False\<rparr>)"

text \<open>\<open>j?.detail?.message || j?.detail || `HTTP ${r.status}`\<close>, as a string or as JSON.\<close>

definition admin_describe :: "nat \<Rightarrow> json option \<Rightarrow> string" where
  "admin_describe st j =
     (let detail = (case j of None \<Rightarrow> None | Some v \<Rightarrow> field v ''detail'');
          message = (case detail of None \<Rightarrow> None | Some v \<Rightarrow> field v ''message'');
          text = (\<lambda>v. case v of JStr s \<Rightarrow> s | _ \<Rightarrow> json_stringify v)
      in if truthy message then text (the message)
         else if truthy detail then text (the detail)
         else ''HTTP '' @ nat_digits st)"

definition admin_press ::
  "('d, 'f, 'v, 'b) admin_spec \<Rightarrow> 'b \<Rightarrow> ('d, 'f, 'v) admin_page \<Rightarrow> ('d, 'f, 'v) admin_page" where
  "admin_press p b s =
     (if as_disabled p b s then s
      else case as_press p b s of
             Complain m \<Rightarrow> s\<lparr>ad_actionErr := Some m\<rparr>
           | FailSave m \<Rightarrow> s\<lparr>ad_msg := None, ad_actionErr := Some m\<rparr>
           | SendSave v \<Rightarrow>
               s\<lparr>ad_busy := True, ad_msg := None, ad_actionErr := None, ad_tasks := ad_tasks s @ [SaveTask v],
                 ad_sent := ad_sent s @ [v]\<rparr>)"

definition admin_saved ::
  "('d, 'f, 'v, 'b) admin_spec \<Rightarrow> 'v \<Rightarrow> 'd save_answer \<Rightarrow> ('d, 'f, 'v) admin_page \<Rightarrow> ('d, 'f, 'v) admin_page" where
  "admin_saved p v a s =
     (case a of
        SaveThrew m \<Rightarrow> s\<lparr>ad_actionErr := Some m, ad_busy := False\<rparr>
      | SaveRefused st j \<Rightarrow> s\<lparr>ad_actionErr := Some (admin_describe st j), ad_busy := False\<rparr>
      | SaveOk j \<Rightarrow>
          (case as_saved p j (ad_draft s) of
             None \<Rightarrow> s\<lparr>ad_data := j, ad_actionErr := Some (as_null_error p), ad_busy := False\<rparr>
           | Some draft \<Rightarrow> s\<lparr>ad_data := j, ad_draft := draft, ad_msg := Some (as_msg p v), ad_busy := False\<rparr>))"

text \<open>The button of the error box, which is rendered only then.\<close>

definition admin_retry :: "('d, 'f, 'v) admin_page \<Rightarrow> ('d, 'f, 'v) admin_page" where
  "admin_retry s = (if \<not> ad_loading s \<and> shown_error (ad_error s) then admin_load s else s)"

definition admin_answer ::
  "('d, 'f, 'v, 'b) admin_spec \<Rightarrow> nat \<Rightarrow> 'd answer \<Rightarrow> 'd save_answer \<Rightarrow> ('d, 'f, 'v) admin_page \<Rightarrow> ('d, 'f, 'v) admin_page" where
  "admin_answer p i a sa s =
     (if i < length (ad_tasks s) then
        (let s' = s\<lparr>ad_tasks := drop_nth i (ad_tasks s)\<rparr> in
         case ad_tasks s ! i of LoadTask \<Rightarrow> admin_loaded p a s' | SaveTask v \<Rightarrow> admin_saved p v sa s')
      else s)"

text \<open>Whether the fields and buttons are rendered; the fields are disabled while the page saves.\<close>

definition admin_visible :: "('d, 'f, 'v) admin_page \<Rightarrow> bool" where
  "admin_visible s \<longleftrightarrow> \<not> ad_loading s \<and> \<not> shown_error (ad_error s) \<and> ad_data s \<noteq> None"

datatype ('d, 'f, 'b) admin_op = Retry | Draft 'f | Click 'b | Arrive nat "'d answer" "'d save_answer"

fun admin_step ::
  "('d, 'f, 'v, 'b) admin_spec \<Rightarrow> ('d, 'f, 'b) admin_op \<Rightarrow> ('d, 'f, 'v) admin_page \<Rightarrow> ('d, 'f, 'v) admin_page" where
  "admin_step p Retry s = admin_retry s"
| "admin_step p (Draft f) s = (if admin_visible s \<and> \<not> ad_busy s then s\<lparr>ad_draft := f\<rparr> else s)"
| "admin_step p (Click b) s = admin_press p b s"
| "admin_step p (Arrive i a sa) s = admin_answer p i a sa s"

definition admin_run ::
  "('d, 'f, 'v, 'b) admin_spec \<Rightarrow> 'f \<Rightarrow> ('d, 'f, 'b) admin_op list \<Rightarrow> ('d, 'f, 'v) admin_page" where
  "admin_run p draft ops = fold (admin_step p) ops (admin_load (admin_start draft))"

section \<open>What is shown\<close>

text \<open>\<open>new Date(ts * 1000).toISOString().replace("T", " ").slice(0, 19) + " UTC"\<close>\<close>

fun replace_first :: "char \<Rightarrow> char \<Rightarrow> string \<Rightarrow> string" where
  "replace_first c d [] = []"
| "replace_first c d (x # xs) = (if x = c then d # xs else x # replace_first c d xs)"

definition fmtDate :: "rat \<Rightarrow> string" where
  "fmtDate ts =
     (if ts = 0 then ''never''
      else case toISOString (ts * 1000) of
             Some t \<Rightarrow> take 19 (replace_first (CHR ''T'') (CHR '' '') t) @ '' UTC''
           | None \<Rightarrow> num_to_string ts)"

definition admin_frame ::
  "string \<Rightarrow> string \<Rightarrow> nat \<Rightarrow> ('d \<Rightarrow> node list) \<Rightarrow> ('d, 'f, 'v) admin_page \<Rightarrow> node list" where
  "admin_frame failure none bars body s =
     (if ad_loading s then [Skeleton bars]
      else if shown_error (ad_error s) then [Text failure, Text (nullish (ad_error s) []), Button ''Retry'' False]
      else case ad_data s of
             None \<Rightarrow> [Text none]
           | Some d \<Rightarrow> body d @ error_nodes (ad_msg s) @ error_nodes (ad_actionErr s))"

section \<open>The contract of an admin page\<close>

definition is_save :: "'v admin_task \<Rightarrow> bool" where
  "is_save t \<longleftrightarrow> t \<noteq> LoadTask"

text \<open>
  One request of each kind at most, each exactly while its flag is set, and never both: a page that
  loads shows no button that saves, and a page that saves shows no retry.
\<close>

definition admin_good :: "('d, 'f, 'v) admin_page \<Rightarrow> bool" where
  "admin_good s \<longleftrightarrow>
     length (filter is_save (ad_tasks s)) = (if ad_busy s then 1 else 0) \<and>
     length (filter (\<lambda>t. \<not> is_save t) (ad_tasks s)) = (if ad_loading s then 1 else 0) \<and>
     \<not> (ad_loading s \<and> ad_busy s) \<and> \<not> (ad_busy s \<and> shown_error (ad_error s))"

lemma admin_answer_good:
  assumes g: "admin_good s"
  shows "admin_good (admin_answer p i a sa s)"
proof (cases "i < length (ad_tasks s)")
  case True
  let ?t = "ad_tasks s ! i"
  obtain ys zs where t: "ad_tasks s = ys @ ?t # zs" and d: "drop_nth i (ad_tasks s) = ys @ zs"
    using drop_nth_split [OF True] by blast
  have len: "length (filter q (ad_tasks s)) = length (filter q ys) + length (filter q zs) + (if q ?t then 1 else 0)" for q
    by (subst t) simp
  have count: "length (filter is_save ys) + length (filter is_save zs) + (if is_save ?t then 1 else 0) =
      (if ad_busy s then 1 else 0)"
    using g len [of is_save] by (simp add: admin_good_def)
  have count': "length (filter (\<lambda>t. \<not> is_save t) ys) + length (filter (\<lambda>t. \<not> is_save t) zs) +
      (if is_save ?t then 0 else 1) = (if ad_loading s then 1 else 0)"
    using g len [of "\<lambda>t. \<not> is_save t"] by (simp add: admin_good_def split: if_splits)
  show ?thesis
  proof (cases ?t)
    case LoadTask
    then show ?thesis
      using g count count' True
      by (cases a) (auto simp: admin_answer_def admin_loaded_def admin_good_def d is_save_def Let_def split: if_splits)
  next
    case (SaveTask v)
    then show ?thesis
      using g count count' True
      by (cases sa) (auto simp: admin_answer_def admin_saved_def admin_good_def d is_save_def Let_def
          split: if_splits option.splits)
  qed
qed (simp add: admin_answer_def g)

locale admin_console =
  fixes p :: "('d, 'f, 'v, 'b) admin_spec"
  assumes busy_disables: "ad_busy s \<Longrightarrow> as_disabled p b s"
    and hidden_disabled: "\<not> admin_visible s \<Longrightarrow> as_disabled p b s"
begin

lemma press_good: "admin_good s \<Longrightarrow> admin_good (admin_press p b s)"
proof (cases "as_disabled p b s")
  case False
  then have "\<not> ad_busy s" "admin_visible s" using busy_disables hidden_disabled by blast+
  then show "admin_good s \<Longrightarrow> admin_good (admin_press p b s)"
    using False
    by (auto simp: admin_press_def admin_good_def admin_visible_def is_save_def split: admin_verdict.split)
qed (simp add: admin_press_def)

lemma step_good: "admin_good s \<Longrightarrow> admin_good (admin_step p op s)"
proof (cases op)
  case Retry
  then show "admin_good s \<Longrightarrow> admin_good (admin_step p op s)"
    by (auto simp: admin_retry_def admin_load_def admin_good_def is_save_def shown_error_def)
next
  case (Draft f)
  then show "admin_good s \<Longrightarrow> admin_good (admin_step p op s)"
    by (cases "admin_visible s \<and> \<not> ad_busy s") (auto simp: admin_good_def)
qed (simp_all add: press_good admin_answer_good)

lemma run_good: "admin_good (admin_run p draft ops)"
proof -
  have "admin_good (admin_load (admin_start draft))"
    by (simp add: admin_load_def admin_start_def admin_good_def is_save_def shown_error_def)
  moreover have "admin_good s \<Longrightarrow> admin_good (fold (admin_step p) ops s)" for s
    by (induction ops arbitrary: s) (simp_all add: step_good)
  ultimately show ?thesis by (simp add: admin_run_def)
qed

lemma one_request: "length (ad_tasks (admin_run p draft ops)) =
    (if ad_busy (admin_run p draft ops) \<or> ad_loading (admin_run p draft ops) then 1 else 0)"
  using run_good [of draft ops] sum_length_filter_compl [of is_save "ad_tasks (admin_run p draft ops)"]
  by (auto simp: admin_good_def split: if_splits)

end

end
