(* ===== verification/AdminPolicies.thy ===== *)
theory AdminPolicies
  imports AdminPages
begin

text \<open>
  The four consoles: for each its document, its draft, what its buttons send, the messages, when a
  button is disabled, and what it renders. \<open>loc\<close> is \<open>toLocaleString("en-US")\<close>.
\<close>

datatype admin_button = Preset rat | SubmitDraft

text \<open>What the parser of a draft demands: a whole number that is not below \<open>low\<close>.\<close>

definition draft_number :: "rat \<Rightarrow> string \<Rightarrow> rat option" where
  "draft_number low draft =
     (case string_to_number draft of
        Fin n \<Rightarrow> if n < low \<or> \<not> is_integer n then None else Some n
      | _ \<Rightarrow> None)"

definition updated_nodes :: "string \<Rightarrow> rat \<Rightarrow> node list" where
  "updated_nodes who at_time = [Text (or_str who ''unset''), Text (fmtDate at_time)]"

definition null_read :: "string \<Rightarrow> string" where
  "null_read k = ''Cannot read properties of null (reading '' @ [CHR 0x27] @ k @ [CHR 0x27] @ '')''"

section \<open>Body size\<close>

record BodySizeView =
  bs_max_bytes :: rat
  bs_ceiling :: rat
  bs_updated_at :: rat
  bs_updated_by :: string

definition fmtBytes :: "rat \<Rightarrow> string" where
  "fmtBytes n =
     (if n = 0 then ''no cap''
      else if n < 1024 then num_to_string n @ '' B''
      else if n < 1024 * 1024 then to_fixed (n / 1024) 1 @ '' KiB''
      else if n < 1024 * 1024 * 1024 then to_fixed (n / (1024 * 1024)) 2 @ '' MiB''
      else to_fixed (n / (1024 * 1024 * 1024)) 2 @ '' GiB'')"

definition bytes_presets :: "(string \<times> rat) list" where
  "bytes_presets =
     [(''No cap'', 0), (''64 KiB'', 64 * 1024), (''1 MiB'', 1024 * 1024), (''8 MiB'', 8 * 1024 * 1024),
      (''32 MiB'', 32 * 1024 * 1024)]"

fun bytes_press :: "admin_button \<Rightarrow> (BodySizeView, string, rat) admin_page \<Rightarrow> rat admin_verdict" where
  "bytes_press (Preset n) s = SendSave n"
| "bytes_press SubmitDraft s =
     (case draft_number 0 (ad_draft s) of
        None \<Rightarrow> Complain ''Enter a non negative integer number of bytes''
      | Some n \<Rightarrow> SendSave n)"

definition bytes_saved :: "BodySizeView option \<Rightarrow> string \<Rightarrow> string option" where
  "bytes_saved j draft = map_option (\<lambda>d. num_to_string (bs_max_bytes d)) j"

definition bytes_msg :: "rat \<Rightarrow> string" where
  "bytes_msg n = (if n = 0 then ''Cap removed'' else ''Cap set to '' @ fmtBytes n)"

definition bytes_disabled :: "admin_button \<Rightarrow> (BodySizeView, string, rat) admin_page \<Rightarrow> bool" where
  "bytes_disabled b s =
     (\<not> admin_visible s \<or> ad_busy s \<or>
      (case ad_data s of
         None \<Rightarrow> True
       | Some d \<Rightarrow>
           (case b of
              Preset n \<Rightarrow> bs_max_bytes d = n \<or> n \<notin> snd ` set bytes_presets
            | SubmitDraft \<Rightarrow> ad_draft s = num_to_string (bs_max_bytes d))))"

definition bytes_console :: "(BodySizeView, string, rat, admin_button) admin_spec" where
  "bytes_console =
     \<lparr>as_url = ''/body-size'', as_body = (\<lambda>n. JObj [(''max_bytes'', JNum (Fin n))]),
      as_fill = (\<lambda>d. num_to_string (bs_max_bytes d)), as_press = bytes_press, as_saved = bytes_saved,
      as_null_error = null_read ''max_bytes'', as_msg = bytes_msg, as_disabled = bytes_disabled\<rparr>"

definition bytes_run ::
  "(BodySizeView, string, admin_button) admin_op list \<Rightarrow> (BodySizeView, string, rat) admin_page" where
  "bytes_run ops = admin_run bytes_console [] ops"

definition bytes_view :: "(rat \<Rightarrow> string) \<Rightarrow> (BodySizeView, string, rat) admin_page \<Rightarrow> node list" where
  "bytes_view loc s =
     admin_frame ''Could not load policy'' ''No policy data. Try reloading.'' 2
       (\<lambda>d. [Stat ''Current cap'' (fmtBytes (bs_max_bytes d)),
             Text (if bs_max_bytes d = 0
               then ''No per workspace cap. The 256 MiB platform ceiling still applies.''
               else loc (bs_max_bytes d) @ '' bytes exactly'')]
            @ updated_nodes (bs_updated_by d) (bs_updated_at d)
            @ map (\<lambda>(label, n). Button label (bytes_disabled (Preset n) s)) bytes_presets
            @ [Text (''Bytes. 0 disables the per workspace cap. Maximum '' @ loc (bs_ceiling d) @ '' bytes.''),
               NumberField (bs_ceiling d) (ad_draft s),
               Button (if ad_busy s then ''Saving'' else ''Save'') (bytes_disabled SubmitDraft s)])
       s"

section \<open>Delivery attempts\<close>

record AttemptsView =
  at_explicit :: bool
  at_max_attempts :: rat
  at_effective :: rat
  at_global_default :: rat
  at_ceiling :: rat
  at_updated_at :: rat
  at_updated_by :: string

definition attempts_presets :: "(string \<times> rat \<times> string) list" where
  "attempts_presets =
     [(''1'', 1, ''Fail fast''), (''3'', 3, ''Default''), (''5'', 5, ''Resilient''), (''8'', 8, ''Very resilient'')]"

definition attempts_fill :: "AttemptsView \<Rightarrow> string" where
  "attempts_fill d = num_to_string (if at_explicit d then at_max_attempts d else at_global_default d)"

fun attempts_press :: "admin_button \<Rightarrow> (AttemptsView, string, rat) admin_page \<Rightarrow> rat admin_verdict" where
  "attempts_press (Preset n) s = SendSave n"
| "attempts_press SubmitDraft s =
     (case draft_number 1 (ad_draft s) of
        None \<Rightarrow> Complain ''Enter a positive integer (at least 1)''
      | Some n \<Rightarrow>
          (case ad_data s of
             Some d \<Rightarrow>
               if at_ceiling d < n then Complain (''Cannot exceed '' @ num_to_string (at_ceiling d)) else SendSave n
           | None \<Rightarrow> SendSave n))"

definition attempts_saved :: "AttemptsView option \<Rightarrow> string \<Rightarrow> string option" where
  "attempts_saved j draft = map_option (\<lambda>d. num_to_string (at_max_attempts d)) j"

definition attempts_msg :: "rat \<Rightarrow> string" where
  "attempts_msg n =
     ''Retry envelope pinned to '' @ num_to_string n @ '' attempt'' @ (if n = 1 then [] else ''s'') @ '' per event''"

definition attempts_disabled :: "admin_button \<Rightarrow> (AttemptsView, string, rat) admin_page \<Rightarrow> bool" where
  "attempts_disabled b s =
     (\<not> admin_visible s \<or> ad_busy s \<or>
      (case (b, ad_data s) of
         (Preset n, Some d) \<Rightarrow> at_explicit d \<and> at_max_attempts d = n \<or> n \<notin> (fst \<circ> snd) ` set attempts_presets
       | (SubmitDraft, Some d) \<Rightarrow> False
       | _ \<Rightarrow> True))"

definition attempts_console :: "(AttemptsView, string, rat, admin_button) admin_spec" where
  "attempts_console =
     \<lparr>as_url = ''/webhook-max-attempts-policy'', as_body = (\<lambda>n. JObj [(''max_attempts'', JNum (Fin n))]),
      as_fill = attempts_fill, as_press = attempts_press, as_saved = attempts_saved,
      as_null_error = null_read ''max_attempts'', as_msg = attempts_msg, as_disabled = attempts_disabled\<rparr>"

definition attempts_run ::
  "(AttemptsView, string, admin_button) admin_op list \<Rightarrow> (AttemptsView, string, rat) admin_page" where
  "attempts_run ops = admin_run attempts_console [] ops"

definition attempts_view :: "(AttemptsView, string, rat) admin_page \<Rightarrow> node list" where
  "attempts_view s =
     admin_frame ''Could not load policy'' ''No policy data. Try reloading.'' 3
       (\<lambda>d. [Stat ''Effective retry envelope''
               (num_to_string (at_effective d) @ '' attempt'' @ (if at_effective d = 1 then [] else ''s'')),
             Text (if at_explicit d then ''Per workspace pin in effect''
               else ''Falling back to deployment default ('' @ num_to_string (at_global_default d) @ '')'')]
            @ updated_nodes (at_updated_by d) (at_updated_at d)
            @ map (\<lambda>(label, n, note). Button (label @ note) (attempts_disabled (Preset n) s)) attempts_presets
            @ [Text (''Attempts per event. Minimum 1, maximum '' @ num_to_string (at_ceiling d) @ ''.''),
               NumberField (at_ceiling d) (ad_draft s),
               Button (if ad_busy s then ''Saving'' else ''Save'') (attempts_disabled SubmitDraft s)])
       s"

section \<open>Auto disable threshold\<close>

record BreakerView =
  br_explicit :: bool
  br_threshold :: rat
  br_effective :: rat
  br_enabled :: bool
  br_global_default :: rat
  br_max_threshold :: rat
  br_updated_at :: rat
  br_updated_by :: string

definition breaker_presets :: "(string \<times> rat \<times> string) list" where
  "breaker_presets =
     [(''Off'', 0, ''Manual pause only''), (''3'', 3, ''Tight''), (''10'', 10, ''Default''),
      (''25'', 25, ''Lenient''), (''100'', 100, ''Very lenient'')]"

definition breaker_fill :: "BreakerView \<Rightarrow> string" where
  "breaker_fill d = num_to_string (if br_explicit d then br_threshold d else br_global_default d)"

fun breaker_press :: "admin_button \<Rightarrow> (BreakerView, string, rat) admin_page \<Rightarrow> rat admin_verdict" where
  "breaker_press (Preset n) s = SendSave n"
| "breaker_press SubmitDraft s =
     (case draft_number 0 (ad_draft s) of
        None \<Rightarrow> Complain ''Enter a non negative integer''
      | Some n \<Rightarrow>
          (case ad_data s of
             Some d \<Rightarrow>
               if br_max_threshold d < n then Complain (''Cannot exceed '' @ num_to_string (br_max_threshold d))
               else SendSave n
           | None \<Rightarrow> SendSave n))"

definition breaker_saved :: "BreakerView option \<Rightarrow> string \<Rightarrow> string option" where
  "breaker_saved j draft = map_option (\<lambda>d. num_to_string (br_threshold d)) j"

definition breaker_msg :: "rat \<Rightarrow> string" where
  "breaker_msg n =
     (if n = 0 then ''Circuit breaker disabled for this workspace''
      else ''Threshold pinned to '' @ num_to_string n @ '' consecutive failures'')"

definition breaker_disabled :: "admin_button \<Rightarrow> (BreakerView, string, rat) admin_page \<Rightarrow> bool" where
  "breaker_disabled b s =
     (\<not> admin_visible s \<or> ad_busy s \<or>
      (case (b, ad_data s) of
         (Preset n, Some d) \<Rightarrow> br_explicit d \<and> br_threshold d = n \<or> n \<notin> (fst \<circ> snd) ` set breaker_presets
       | (SubmitDraft, Some d) \<Rightarrow> False
       | _ \<Rightarrow> True))"

definition breaker_console :: "(BreakerView, string, rat, admin_button) admin_spec" where
  "breaker_console =
     \<lparr>as_url = ''/webhook-auto-disable-policy'', as_body = (\<lambda>n. JObj [(''threshold'', JNum (Fin n))]),
      as_fill = breaker_fill, as_press = breaker_press, as_saved = breaker_saved,
      as_null_error = null_read ''threshold'', as_msg = breaker_msg, as_disabled = breaker_disabled\<rparr>"

definition breaker_run ::
  "(BreakerView, string, admin_button) admin_op list \<Rightarrow> (BreakerView, string, rat) admin_page" where
  "breaker_run ops = admin_run breaker_console [] ops"

definition breaker_view :: "(rat \<Rightarrow> string) \<Rightarrow> (BreakerView, string, rat) admin_page \<Rightarrow> node list" where
  "breaker_view loc s =
     admin_frame ''Could not load policy'' ''No policy data. Try reloading.'' 3
       (\<lambda>d. [Badge (br_enabled d) ''Effective threshold'',
             Text (if br_enabled d then num_to_string (br_effective d) @ '' failures'' else ''Breaker off''),
             Text (if br_explicit d then ''Per workspace pin in effect''
               else ''Falling back to deployment default ('' @ num_to_string (br_global_default d) @ '')'')]
            @ updated_nodes (br_updated_by d) (br_updated_at d)
            @ map (\<lambda>(label, n, note). Button (label @ note) (breaker_disabled (Preset n) s)) breaker_presets
            @ [Text (''Consecutive failed deliveries. 0 disables the breaker for this workspace. Maximum '' @
                 loc (br_max_threshold d) @ ''.''),
               NumberField (br_max_threshold d) (ad_draft s),
               Button (if ad_busy s then ''Saving'' else ''Save'') (breaker_disabled SubmitDraft s)])
       s"

section \<open>Retention floor\<close>

record FloorView =
  fl_tenant_id :: string
  fl_history_days :: rat
  fl_feedback_days :: rat
  fl_audit_days :: rat
  fl_webhook_deliveries_days :: rat
  fl_updated_at :: rat
  fl_updated_by :: string
  fl_ceiling :: rat

datatype floor_key = history_days | feedback_days | audit_days | webhook_deliveries_days

definition FIELDS :: "(floor_key \<times> string \<times> string) list" where
  "FIELDS =
     [(history_days, ''history'', ''match history rows''),
      (feedback_days, ''feedback'', ''user feedback rows''),
      (audit_days, ''audit'', ''audit log entries''),
      (webhook_deliveries_days, ''webhook deliveries'', ''outbound delivery records'')]"

fun floor_days :: "FloorView \<Rightarrow> floor_key \<Rightarrow> rat" where
  "floor_days d history_days = fl_history_days d"
| "floor_days d feedback_days = fl_feedback_days d"
| "floor_days d audit_days = fl_audit_days d"
| "floor_days d webhook_deliveries_days = fl_webhook_deliveries_days d"

text \<open>The loop of \<open>save\<close>: the payload, or the message of the first field that is refused.\<close>

fun floor_payload ::
  "FloorView option \<Rightarrow> (floor_key \<Rightarrow> string) \<Rightarrow> (floor_key \<times> string \<times> string) list \<Rightarrow> string + (floor_key \<times> rat) list" where
  "floor_payload data draft [] = Inr []"
| "floor_payload data draft ((k, label, note) # fs) =
     (case draft_number 0 (draft k) of
        None \<Rightarrow> Inl (label @ '': enter a non negative integer'')
      | Some n \<Rightarrow>
          if (case data of Some d \<Rightarrow> fl_ceiling d < n | None \<Rightarrow> False)
          then Inl (label @ '': cannot exceed '' @ num_to_string (fl_ceiling (the data)))
          else map_sum id (\<lambda>rest. (k, n) # rest) (floor_payload data draft fs))"

datatype floor_button = SaveFloor

type_synonym floor_page = "(FloorView, floor_key \<Rightarrow> string, (floor_key \<times> rat) list) admin_page"

fun floor_press :: "floor_button \<Rightarrow> floor_page \<Rightarrow> (floor_key \<times> rat) list admin_verdict" where
  "floor_press SaveFloor s =
     (case floor_payload (ad_data s) (ad_draft s) FIELDS of Inl m \<Rightarrow> FailSave m | Inr payload \<Rightarrow> SendSave payload)"

definition floor_disabled :: "floor_button \<Rightarrow> floor_page \<Rightarrow> bool" where
  "floor_disabled b s = (\<not> admin_visible s \<or> ad_busy s)"

fun floor_name :: "floor_key \<Rightarrow> string" where
  "floor_name history_days = ''history_days''"
| "floor_name feedback_days = ''feedback_days''"
| "floor_name audit_days = ''audit_days''"
| "floor_name webhook_deliveries_days = ''webhook_deliveries_days''"

definition floor_body :: "(floor_key \<times> rat) list \<Rightarrow> json" where
  "floor_body payload = JObj (map (\<lambda>(k, n). (floor_name k, JNum (Fin n))) payload)"

definition floor_console ::
  "(FloorView, floor_key \<Rightarrow> string, (floor_key \<times> rat) list, floor_button) admin_spec" where
  "floor_console =
     \<lparr>as_url = ''/retention-floor'', as_body = floor_body,
      as_fill = (\<lambda>d k. num_to_string (floor_days d k)), as_press = floor_press, as_saved = (\<lambda>j draft. Some draft),
      as_null_error = [],
      as_msg = (\<lambda>_. ''Retention floor updated. Future PUT /retention calls cannot drop below these values.''),
      as_disabled = floor_disabled\<rparr>"

definition anyFloor :: "FloorView option \<Rightarrow> bool" where
  "anyFloor data \<longleftrightarrow>
     (case data of
        None \<Rightarrow> False
      | Some d \<Rightarrow> fl_history_days d > 0 \<or> fl_feedback_days d > 0 \<or> fl_audit_days d > 0 \<or>
                  fl_webhook_deliveries_days d > 0)"

definition floor_run ::
  "(FloorView, floor_key \<Rightarrow> string, floor_button) admin_op list \<Rightarrow> (FloorView, floor_key \<Rightarrow> string, (floor_key \<times> rat) list) admin_page" where
  "floor_run ops = admin_run floor_console (\<lambda>_. ''0'') ops"

definition floor_view :: "floor_page \<Rightarrow> node list" where
  "floor_view s =
     admin_frame ''Could not load floor'' ''No floor data. Try reloading.'' 2
       (\<lambda>d. [Text (if anyFloor (ad_data s) then ''Floor active'' else ''No floor set''),
             Text (if anyFloor (ad_data s) then ''Retention reductions below these values are blocked''
               else ''Retention can be set to any in range value'')]
            @ updated_nodes (fl_updated_by d) (fl_updated_at d)
            @ [Text (''0 means no floor for that category. Maximum '' @ num_to_string (fl_ceiling d) @ ''.'')]
            @ concat (map (\<lambda>(k, label, note). [Text label, Text note, NumberField (fl_ceiling d) (ad_draft s k)]) FIELDS)
            @ [Button (if ad_busy s then ''Saving'' else ''Save floor'') (floor_disabled SaveFloor s)])
       s"

section \<open>Every console keeps the contract\<close>

interpretation bytes_admin: admin_console bytes_console
  by unfold_locales (simp_all add: bytes_console_def bytes_disabled_def)

interpretation attempts_admin: admin_console attempts_console
  by unfold_locales (simp_all add: attempts_console_def attempts_disabled_def)

interpretation breaker_admin: admin_console breaker_console
  by unfold_locales (simp_all add: breaker_console_def breaker_disabled_def)

interpretation floor_admin: admin_console floor_console
  by unfold_locales (simp_all add: floor_console_def floor_disabled_def)

end
