(* ===== verification/PageLaws.thy ===== *)
theory PageLaws
  imports PolicyPages AdminPolicies
begin

text \<open>
  What the six settings pages and the four admin consoles keep over every run of events: the flags
  say how many requests are under way, every page comes to rest, and what is sent was validated (or, for a reset to the default, is what the
  server delivered).
\<close>

section \<open>What is sent\<close>

lemma send_number_natural: "send_number m key draft = Send f body \<Longrightarrow> \<exists>x. body = JObj [(key, JNum (Fin x))] \<and> natural x"
  using parse_int_whole [of draft]
  by (auto simp: send_number_def natural_def not_less split: jsnum.splits if_splits)

lemma draft_number_natural: "draft_number 0 draft = Some n \<Longrightarrow> natural n"
  by (auto simp: draft_number_def natural_def not_less split: jsnum.splits if_splits)

section \<open>Everything that is sent\<close>

lemma press_sent:
  assumes "\<And>f body. po_press p b s = Send f body \<Longrightarrow> P body" and "list_all P (pg_sent s)"
  shows "list_all P (pg_sent (press p b s))"
  using assms by (auto simp: press_def split: verdict.split)

lemma answer_task_sent: "pg_sent (answer_task p i a pa s) = pg_sent s"
  by (cases "pg_tasks s ! i"; cases pa; cases a)
    (simp_all add: answer_task_def load_done_def save_done_def load_begin_def Let_def split: option.split)

lemma page_step_sent:
  assumes "\<And>b s f body. po_press p b s = Send f body \<Longrightarrow> P body" and "list_all P (pg_sent s)"
  shows "list_all P (pg_sent (page_step p op s))"
  using assms press_sent [of p _ s P]
  by (cases op) (simp_all add: load_begin_def answer_task_sent split: page_state.split)

text \<open>What every button of a page sends, every run of the page sends.\<close>

lemma page_run_sent:
  assumes "\<And>b s f body. po_press p b s = Send f body \<Longrightarrow> P body"
  shows "list_all P (pg_sent (page_run p form ops))"
proof -
  have "list_all P (pg_sent s) \<Longrightarrow> list_all P (pg_sent (fold (page_step p) ops s))" for s
    by (induction ops arbitrary: s) (simp_all add: page_step_sent assms)
  then show ?thesis by (simp add: page_run_def load_begin_def page_start_def)
qed

lemma admin_answer_sent: "ad_sent (admin_answer p i a sa s) = ad_sent s"
  by (cases "ad_tasks s ! i"; cases sa; cases a)
    (simp_all add: admin_answer_def admin_loaded_def admin_saved_def Let_def split: option.split)

lemma admin_step_sent:
  assumes "\<And>b s v. as_press p b s = SendSave v \<Longrightarrow> \<not> as_disabled p b s \<Longrightarrow> P v" and "list_all P (ad_sent s)"
  shows "list_all P (ad_sent (admin_step p op s))"
proof (cases op)
  case (Click b)
  then show ?thesis using assms by (auto simp: admin_press_def split: admin_verdict.split)
qed (use assms in \<open>simp_all add: admin_answer_sent admin_retry_def admin_load_def\<close>)

lemma admin_run_sent:
  assumes "\<And>b s v. as_press p b s = SendSave v \<Longrightarrow> \<not> as_disabled p b s \<Longrightarrow> P v"
  shows "list_all P (ad_sent (admin_run p draft ops))"
proof -
  have "list_all P (ad_sent s) \<Longrightarrow> list_all P (ad_sent (fold (admin_step p) ops s))" for s
    by (induction ops arbitrary: s) (simp_all add: admin_step_sent [OF assms])
  then show ?thesis by (simp add: admin_run_def admin_load_def admin_start_def)
qed

section \<open>The settings pages\<close>

text \<open>
  Whatever is edited, pressed and answered, in whatever order the answers come, a settings page has at
  most one save under way (the PUT, or the load that follows it), and exactly while it shows so; its
  buttons are disabled by that flag alone.
\<close>

theorem pages_one_save:
  "length (filter busy (pg_tasks (topk_run o1))) = (if pg_saving (topk_run o1) then 1 else 0) \<and>
   length (filter busy (pg_tasks (duration_run o2))) = (if pg_saving (duration_run o2) then 1 else 0) \<and>
   length (filter busy (pg_tasks (concurrency_run o3))) = (if pg_saving (concurrency_run o3) then 1 else 0) \<and>
   length (filter busy (pg_tasks (rate_run o4))) = (if pg_saving (rate_run o4) then 1 else 0) \<and>
   length (filter busy (pg_tasks (dest_run o5))) = (if pg_saving (dest_run o5) then 1 else 0) \<and>
   length (filter busy (pg_tasks (expiry_run o6))) = (if pg_saving (expiry_run o6) then 1 else 0)"
  unfolding topk_run_def duration_run_def concurrency_run_def rate_run_def dest_run_def expiry_run_def
  by (intro conjI topk.one_save duration.one_save concurrency.one_save rate.one_save dest.one_save expiry.one_save)

text \<open>Answering the oldest request again and again, as often as requests can still come.\<close>

definition drain :: "('d, 'f, 'b) policy \<Rightarrow> (nat \<Rightarrow> 'd answer \<times> put_answer) \<Rightarrow> ('d, 'f) page \<Rightarrow> ('d, 'f) page" where
  "drain p f s = fold (\<lambda>(a, pa). answer_task p 0 a pa) (map f [0..<outstanding s]) s"

definition at_rest :: "('d, 'f) page \<Rightarrow> bool" where
  "at_rest s \<longleftrightarrow> pg_tasks s = [] \<and> \<not> pg_saving s \<and> pg_state s \<noteq> Loading"

context policy_page
begin

lemma drain_rests: "at_rest (drain p f (page_run p form ops))"
  using settles [where f = f, OF run_good order_refl, of form ops] by (simp add: drain_def at_rest_def Let_def)

end

text \<open>
  A settings page never hangs: from every state it can reach, once the requests under way (and the one
  load that a finished save adds) have been answered, by whatever success, refusal or exception, it
  saves no more and shows a document or an error instead of the skeleton.
\<close>

theorem pages_settle:
  "at_rest (drain topk_page f1 (topk_run o1)) \<and> at_rest (drain duration_page f2 (duration_run o2)) \<and>
   at_rest (drain concurrency_page f3 (concurrency_run o3)) \<and> at_rest (drain rate_page f4 (rate_run o4)) \<and>
   at_rest (drain dest_page f5 (dest_run o5)) \<and> at_rest (drain expiry_page f6 (expiry_run o6))"
  unfolding topk_run_def duration_run_def concurrency_run_def rate_run_def dest_run_def expiry_run_def
  by (intro conjI topk.drain_rests duration.drain_rests concurrency.drain_rests rate.drain_rests
      dest.drain_rests expiry.drain_rests)

definition sends_natural :: "string \<Rightarrow> json \<Rightarrow> bool" where
  "sends_natural key body \<longleftrightarrow> (\<exists>n. body = JObj [(key, JNum (Fin (of_nat n)))])"

lemma sends_natural_number: "send_number m key draft = Send f body \<Longrightarrow> sends_natural key body"
  using send_number_natural [of m key draft f body] by (auto simp: sends_natural_def natural_iff)

lemma sends_natural_zero: "sends_natural key (JObj [(key, JNum (Fin 0))])"
  unfolding sends_natural_def by (rule exI [of _ 0]) simp

lemma topk_sends: "po_press topk_page b s = Send f body \<Longrightarrow> sends_natural ''max_top_k'' body"
  by (cases b) (auto simp: topk_page_def intro: sends_natural_number sends_natural_zero)

lemma duration_sends: "po_press duration_page b s = Send f body \<Longrightarrow> sends_natural ''max_duration_sec'' body"
  by (cases b) (auto simp: duration_page_def intro: sends_natural_number sends_natural_zero)

lemma concurrency_sends: "po_press concurrency_page b s = Send f body \<Longrightarrow> sends_natural ''max_active'' body"
  by (cases b) (auto simp: concurrency_page_def intro: sends_natural_number sends_natural_zero)

lemma rate_sends: "po_press rate_page b s = Send f body \<Longrightarrow> sends_natural ''max_per_minute'' body"
  by (cases b) (auto simp: rate_page_def intro: sends_natural_number sends_natural_zero)

text \<open>A page that shows a document was given it by an answer.\<close>

definition fetched :: "('d, 'f, 'b) page_op list \<Rightarrow> 'd \<Rightarrow> bool" where
  "fetched ops d \<longleftrightarrow> (\<exists>i pa. Answer i (Fetched d) pa \<in> set ops)"

lemma answer_task_ready: "pg_state (answer_task p i a pa s) = Ready d \<Longrightarrow> pg_state s = Ready d \<or> a = Fetched d"
  by (cases "pg_tasks s ! i"; cases pa; cases a)
    (auto simp: answer_task_def load_done_def save_done_def load_begin_def Let_def split: option.splits if_splits)

lemma page_step_ready:
  "pg_state (page_step p op s) = Ready d \<Longrightarrow> pg_state s = Ready d \<or> fetched [op] d"
  by (cases op) (auto simp: fetched_def load_begin_def press_def dest: answer_task_ready
      split: page_state.splits verdict.splits if_splits)

lemma page_run_ready: "pg_state (page_run p form ops) = Ready d \<Longrightarrow> fetched ops d"
proof (induction ops rule: rev_induct)
  case Nil
  then show ?case by (simp add: page_run_def load_begin_def)
next
  case (snoc op ops)
  have "page_run p form (ops @ [op]) = page_step p op (page_run p form ops)" by (simp add: page_run_def)
  then show ?case using page_step_ready [of p op "page_run p form ops" d] snoc by (auto simp: fetched_def)
qed

text \<open>The same for pages whose buttons send what the document on show says.\<close>

lemma page_run_sent_ready:
  assumes "\<And>b s f body. po_press p b s = Send f body \<Longrightarrow> P body \<or> (\<exists>d. pg_state s = Ready d \<and> Q d body)"
  shows "list_all (\<lambda>body. P body \<or> (\<exists>d. fetched ops d \<and> Q d body)) (pg_sent (page_run p form ops))"
proof (induction ops rule: rev_induct)
  case Nil
  then show ?case by (simp add: page_run_def load_begin_def page_start_def)
next
  case (snoc op ops)
  let ?s = "page_run p form ops"
  let ?P = "\<lambda>ops body. P body \<or> (\<exists>d. fetched ops d \<and> Q d body)"
  have old: "list_all (?P (ops @ [op])) (pg_sent ?s)"
    using snoc by (auto simp: list_all_iff fetched_def)
  have "list_all (?P (ops @ [op])) (pg_sent (press p b ?s))" for b
  proof (rule press_sent [OF _ old])
    fix f body
    assume "po_press p b ?s = Send f body"
    then consider "P body" | d where "pg_state ?s = Ready d" "Q d body" using assms by blast
    then show "?P (ops @ [op]) body"
    proof cases
      case (2 d)
      have "fetched ops d" by (rule page_run_ready [OF 2(1)])
      then show ?thesis using 2(2) by (auto simp: fetched_def)
    qed simp
  qed
  then have "list_all (?P (ops @ [op])) (pg_sent (page_step p op ?s))"
    using old by (cases op) (simp_all add: load_begin_def answer_task_sent split: page_state.split)
  then show ?case by (simp add: page_run_def)
qed

lemma dest_sends:
  "po_press dest_page b s = Send f body \<Longrightarrow> sends_natural ''max_active'' body \<or>
     (\<exists>d. pg_state s = Ready d \<and> body = JObj [(''max_active'', JNum (Fin (de_default_cap d)))])"
  by (cases b) (auto simp: dest_page_def split: page_state.splits intro: sends_natural_number)

text \<open>
  C39. The pages of the top-k cap, the duration cap, the concurrency cap and the delivery rate only ever send a
  whole number that is not negative, under the key of their document: no draft (empty, signed, fractional,
  with trailing text or too long for a double) gets a NaN, a fraction or an infinity to the server. The
  page of the destination cap does so too, but for its reset button: that sends, without a check, the
  default cap of a document that the server delivered during the run.
\<close>

theorem pages_send_naturals:
  "list_all (sends_natural ''max_top_k'') (pg_sent (topk_run o1)) \<and>
   list_all (sends_natural ''max_duration_sec'') (pg_sent (duration_run o2)) \<and>
   list_all (sends_natural ''max_active'') (pg_sent (concurrency_run o3)) \<and>
   list_all (sends_natural ''max_per_minute'') (pg_sent (rate_run o4)) \<and>
   list_all (\<lambda>body. sends_natural ''max_active'' body \<or>
       (\<exists>d. fetched o5 d \<and> body = JObj [(''max_active'', JNum (Fin (de_default_cap d)))])) (pg_sent (dest_run o5))"
  unfolding topk_run_def duration_run_def concurrency_run_def rate_run_def dest_run_def
  by (intro conjI page_run_sent page_run_sent_ready dest_sends)
    (erule topk_sends duration_sends concurrency_sends rate_sends dest_sends)+

lemma send_number_digits:
  "n < 10 ^ 15 \<Longrightarrow> send_number m key (nat_digits n) = Send (nat_digits n) (JObj [(key, JNum (Fin (of_nat n)))])"
  using parse_int_nat_digits [of n] by (simp add: send_number_def)

lemmas page_unfold [page_defs] =
  page_run_def page_start_def load_begin_def load_done_def answer_task_def drop_nth_def press_def save_done_def Let_def

text \<open>
  A form that nobody touched sends back what was loaded: the number a page writes into its field is
  read back by \<open>parseInt\<close> as the same number, for every cap below \<open>10 ^ 15\<close>, so saving an open page
  changes nothing; the delivery rate page does not even offer it, its button being disabled.
\<close>

theorem untouched_form:
  assumes n: "n < 10 ^ 15"
  shows "pg_sent (topk_run [Answer 0 (Fetched (tk\<lparr>tk_max_top_k := of_nat n\<rparr>)) PutDone, Press SaveCap]) =
           [JObj [(''max_top_k'', JNum (Fin (of_nat n)))]] \<and>
         pg_sent (duration_run [Answer 0 (Fetched (du\<lparr>du_max_duration_sec := of_nat n\<rparr>)) PutDone, Press SaveCap]) =
           [JObj [(''max_duration_sec'', JNum (Fin (of_nat n)))]] \<and>
         pg_sent (concurrency_run [Answer 0 (Fetched (co\<lparr>co_max_active := of_nat n\<rparr>)) PutDone, Press SaveCap]) =
           [JObj [(''max_active'', JNum (Fin (of_nat n)))]] \<and>
         pg_sent (dest_run [Answer 0 (Fetched (de\<lparr>de_max_active := of_nat n\<rparr>)) PutDone, Press SaveDest]) =
           [JObj [(''max_active'', JNum (Fin (of_nat n)))]] \<and>
         pg_sent (rate_run [Answer 0 (Fetched (ra\<lparr>ra_max_per_minute := of_nat n\<rparr>)) PutDone, Press SaveRate]) = []"
proof -
  have digits: "trim (nat_digits n) = nat_digits n"
    using nat_digits_are_digits [of _ n] by (intro trim_no_space) (auto simp: list_all_iff digit_not_space)
  show ?thesis
    using n digits
    by (simp add: topk_run_def topk_page_def topk_fill_def duration_run_def duration_page_def duration_fill_def
        concurrency_run_def concurrency_page_def concurrency_fill_def dest_run_def dest_page_def dest_fill_def
        rate_run_def rate_page_def rate_fill_def page_defs send_number_digits num_to_string_nat)
qed

theorem untouched_form_witness:
  "pg_sent (topk_run [Answer 0 (Fetched \<lparr>tk_max_top_k = 40, tk_ceiling = 100, tk_updated_at = 0, tk_updated_by = []\<rparr>) PutDone,
     Press SaveCap]) = [JObj [(''max_top_k'', JNum (Fin 40))]]"
proof -
  have "(40 :: nat) < 10 ^ 15" by simp
  from untouched_form [OF this, where tk = "\<lparr>tk_max_top_k = 40, tk_ceiling = 100, tk_updated_at = 0, tk_updated_by = []\<rparr>"]
  show ?thesis by simp
qed

text \<open>
  The limits of these pages, exactly. Two loads under way (the key changed while the first was out)
  settle on the answer that came last, so the document of the old key can replace that of the new one.
  A save that the network drops ends without a word on the pages that only have a \<open>finally\<close>, and
  with its message on the page that catches. And a refusal without a usable body reads \<open>{}\<close> on the
  pages that print \<open>JSON.stringify(body.detail || {})\<close>: their "Request failed" is only reached by an empty
  string.
\<close>

theorem page_gaps:
  "pg_state (topk_run [Effect, Answer 1 (Fetched new) PutDone, Answer 0 (Fetched old) PutDone]) = Ready old \<and>
   (let s = topk_run [Answer 0 (Fetched (d\<lparr>tk_max_top_k := 1\<rparr>)) PutDone, Press ClearCap, Answer 0 (Fetched d) (PutThrew m)]
    in pg_state s = Ready (d\<lparr>tk_max_top_k := 1\<rparr>) \<and> pg_form s = ''0'' \<and> \<not> pg_saving s \<and> pg_saveError s = None) \<and>
   pg_saveError (expiry_run [Answer 0 (Fetched e) PutDone, Press SaveExpiry, Answer 0 (Fetched e) (PutThrew m)]) = Some m \<and>
   cap_describe st t None = Some ''{}'' \<and> rate_describe st t None = Some ''{}'' \<and>
   match_describe st t None = Some (request_failed st) \<and>
   cap_describe st t (Some (JObj [(''detail'', JStr [])])) = Some (request_failed st)"
proof -
  have race: "pg_state (topk_run [Effect, Answer 1 (Fetched new) PutDone, Answer 0 (Fetched old) PutDone]) = Ready old"
    by (simp add: topk_run_def topk_page_def page_defs)
  have quiet: "let s = topk_run [Answer 0 (Fetched (d\<lparr>tk_max_top_k := 1\<rparr>)) PutDone, Press ClearCap,
        Answer 0 (Fetched d) (PutThrew m)]
      in pg_state s = Ready (d\<lparr>tk_max_top_k := 1\<rparr>) \<and> pg_form s = ''0'' \<and> \<not> pg_saving s \<and> pg_saveError s = None"
    by (simp add: topk_run_def topk_page_def page_defs)
  have loud: "pg_saveError (expiry_run [Answer 0 (Fetched e) PutDone, Press SaveExpiry, Answer 0 (Fetched e) (PutThrew m)]) =
      Some m"
    by (simp add: expiry_run_def expiry_page_def page_defs)
  show ?thesis
    using race quiet loud
    by (simp add: cap_describe_def rate_describe_def match_describe_def body_detail_def stringify_detail_def
        or_str_def request_failed_def)
qed

section \<open>The admin consoles\<close>

text \<open>
  An admin console has at most one request under way, load or save, and exactly while it says that it
  loads or is busy: its retry is shown only when nothing is out, and its presets and fields are
  disabled until the save has been answered, so answers never cross.
\<close>

theorem consoles_one_request:
  "length (ad_tasks (bytes_run o1)) = (if ad_busy (bytes_run o1) \<or> ad_loading (bytes_run o1) then 1 else 0) \<and>
   length (ad_tasks (attempts_run o2)) = (if ad_busy (attempts_run o2) \<or> ad_loading (attempts_run o2) then 1 else 0) \<and>
   length (ad_tasks (breaker_run o3)) = (if ad_busy (breaker_run o3) \<or> ad_loading (breaker_run o3) then 1 else 0) \<and>
   length (ad_tasks (floor_run o4)) = (if ad_busy (floor_run o4) \<or> ad_loading (floor_run o4) then 1 else 0)"
  unfolding bytes_run_def attempts_run_def breaker_run_def floor_run_def
  by (intro conjI bytes_admin.one_request attempts_admin.one_request breaker_admin.one_request floor_admin.one_request)

definition whole_from :: "nat \<Rightarrow> rat \<Rightarrow> bool" where
  "whole_from low x \<longleftrightarrow> (\<exists>n. low \<le> n \<and> x = of_nat n)"

lemma whole_fromI: "natural x \<Longrightarrow> of_nat low \<le> x \<Longrightarrow> whole_from low x"
  by (auto simp: whole_from_def natural_iff)

lemma draft_number_whole: "draft_number (of_nat low) draft = Some n \<Longrightarrow> whole_from low n"
proof (rule whole_fromI)
  assume d: "draft_number (of_nat low) draft = Some n"
  then show low: "of_nat low \<le> n"
    by (auto simp: draft_number_def not_less split: jsnum.splits if_splits)
  have "0 \<le> (of_nat low :: rat)" by simp
  then have "0 \<le> n" using low by linarith
  then show "natural n" using d by (auto simp: draft_number_def natural_def split: jsnum.splits if_splits)
qed

lemmas draft_number_whole_0 = draft_number_whole [of 0, simplified] and draft_number_whole_1 = draft_number_whole [of 1, simplified]

lemma numeral_whole: "low \<le> numeral k \<Longrightarrow> whole_from low (numeral k)" "low \<le> 1 \<Longrightarrow> whole_from low 1" "whole_from 0 0"
  by (auto simp: whole_from_def intro: exI [of _ "numeral k"] exI [of _ 1] exI [of _ 0])

lemma bytes_sends: "as_press bytes_console b s = SendSave v \<Longrightarrow> \<not> as_disabled bytes_console b s \<Longrightarrow> whole_from 0 v"
  by (cases b) (auto simp: bytes_console_def bytes_disabled_def bytes_presets_def intro: draft_number_whole_0 numeral_whole
      split: option.splits)

lemma attempts_sends:
  "as_press attempts_console b s = SendSave v \<Longrightarrow> \<not> as_disabled attempts_console b s \<Longrightarrow> whole_from 1 v"
  by (cases b) (auto simp: attempts_console_def attempts_disabled_def attempts_presets_def
      intro: draft_number_whole_1 numeral_whole split: option.splits if_splits)

lemma breaker_sends:
  "as_press breaker_console b s = SendSave v \<Longrightarrow> \<not> as_disabled breaker_console b s \<Longrightarrow> whole_from 0 v"
  by (cases b) (auto simp: breaker_console_def breaker_disabled_def breaker_presets_def
      intro: draft_number_whole_0 numeral_whole split: option.splits if_splits)

definition floor_keys :: "floor_key list" where
  "floor_keys = map fst FIELDS"

text \<open>The whole number that the draft of a field stands for, when the field passes.\<close>

definition field_passes :: "rat \<Rightarrow> (floor_key \<Rightarrow> string) \<Rightarrow> floor_key \<Rightarrow> bool" where
  "field_passes bound draft k \<longleftrightarrow> (case draft_number 0 (draft k) of None \<Rightarrow> False | Some n \<Rightarrow> n \<le> bound)"

lemma floor_payload_passes:
  "list_all (\<lambda>(k, l, n). field_passes (fl_ceiling d) draft k) fs \<Longrightarrow>
     floor_payload (Some d) draft fs = Inr (map (\<lambda>(k, l, n). (k, the (draft_number 0 (draft k)))) fs)"
  by (induction fs) (auto simp: field_passes_def not_less split: option.splits)

lemma floor_payload_fails:
  "\<not> list_all (\<lambda>(k, l, n). field_passes (fl_ceiling d) draft k) fs \<Longrightarrow>
     \<exists>k l n m. find (\<lambda>(k, l, n). \<not> field_passes (fl_ceiling d) draft k) fs = Some (k, l, n) \<and>
       floor_payload (Some d) draft fs = Inl (l @ '': '' @ m)"
proof (induction fs)
  case (Cons f fs)
  obtain k l n where f: "f = (k, l, n)" by (cases f)
  show ?case
  proof (cases "field_passes (fl_ceiling d) draft k")
    case True
    then show ?thesis using Cons by (auto simp: f field_passes_def not_less split: option.splits)
  next
    case False
    then show ?thesis by (auto simp: f field_passes_def not_less split: option.splits)
  qed
qed simp

lemma floor_payload_sends:
  "floor_payload data draft fs = Inr payload \<Longrightarrow> map fst payload = map fst fs \<and> list_all (whole_from 0) (map snd payload)"
proof (induction fs arbitrary: payload)
  case (Cons f fs)
  obtain k l n where f: "f = (k, l, n)" by (cases f)
  show ?case
    using Cons.prems Cons.IH unfolding f
    by (cases "floor_payload data draft fs") (auto split: option.splits if_splits intro: draft_number_whole_0)
qed simp

definition floor_ok :: "(floor_key \<times> rat) list \<Rightarrow> bool" where
  "floor_ok payload \<longleftrightarrow> map fst payload = floor_keys \<and> list_all (whole_from 0) (map snd payload)"

lemma floor_sends: "as_press floor_console b s = SendSave v \<Longrightarrow> \<not> as_disabled floor_console b s \<Longrightarrow> floor_ok v"
  using floor_payload_sends
  by (cases b) (auto simp: floor_console_def floor_ok_def floor_keys_def split: sum.splits)

text \<open>
  Over every run of a console, every value it sends is a whole number in range from below: no cap, no
  threshold and no floor is negative or fractional, the number of delivery attempts is at least one,
  and a retention floor always names all four categories in order.
\<close>

theorem consoles_send_whole:
  "list_all (whole_from 0) (ad_sent (bytes_run o1)) \<and> list_all (whole_from 1) (ad_sent (attempts_run o2)) \<and>
   list_all (whole_from 0) (ad_sent (breaker_run o3)) \<and> list_all floor_ok (ad_sent (floor_run o4))"
  unfolding bytes_run_def attempts_run_def breaker_run_def floor_run_def
  by (intro conjI admin_run_sent; erule (1) bytes_sends attempts_sends breaker_sends floor_sends)

text \<open>
  C40. A retention floor is saved whole or not at all: with a document there and no save under way, the
  button sends the four numbers of the draft when each is a whole number up to the ceiling, and
  otherwise sends nothing, keeps the draft and shows an error that names the first field that fails.
\<close>

theorem floor_all_or_nothing:
  assumes "ad_data s = Some d" and "admin_visible s" and "\<not> ad_busy s"
  shows "if list_all (field_passes (fl_ceiling d) (ad_draft s)) floor_keys
    then ad_sent (admin_press floor_console SaveFloor s) =
           ad_sent s @ [map (\<lambda>k. (k, the (draft_number 0 (ad_draft s k)))) floor_keys] \<and>
         ad_busy (admin_press floor_console SaveFloor s)
    else \<exists>k l n m. find (\<lambda>(k, l, n). \<not> field_passes (fl_ceiling d) (ad_draft s) k) FIELDS = Some (k, l, n) \<and>
           admin_press floor_console SaveFloor s = s\<lparr>ad_msg := None, ad_actionErr := Some (l @ '': '' @ m)\<rparr>"
proof -
  have keys: "list_all (field_passes (fl_ceiling d) (ad_draft s)) floor_keys =
      list_all (\<lambda>(k, l, n). field_passes (fl_ceiling d) (ad_draft s) k) FIELDS"
    by (simp add: floor_keys_def FIELDS_def)
  have pairs: "map (\<lambda>(k, l, n). (k, the (draft_number 0 (ad_draft s k)))) FIELDS =
      map (\<lambda>k. (k, the (draft_number 0 (ad_draft s k)))) floor_keys"
    by (simp add: floor_keys_def FIELDS_def)
  show ?thesis
  proof (cases "list_all (field_passes (fl_ceiling d) (ad_draft s)) floor_keys")
    case True
    then show ?thesis
      using assms floor_payload_passes [of d "ad_draft s" FIELDS, folded keys, unfolded pairs]
      by (simp add: admin_press_def floor_console_def floor_disabled_def)
  next
    case False
    then obtain k l n m where "find (\<lambda>(k, l, n). \<not> field_passes (fl_ceiling d) (ad_draft s) k) FIELDS = Some (k, l, n)"
      and m: "floor_payload (Some d) (ad_draft s) FIELDS = Inl (l @ '': '' @ m)"
      using floor_payload_fails [of d "ad_draft s" FIELDS] unfolding keys by blast
    moreover have "admin_press floor_console SaveFloor s = s\<lparr>ad_msg := None, ad_actionErr := Some (l @ '': '' @ m)\<rparr>"
      using assms m by (simp add: admin_press_def floor_console_def floor_disabled_def)
    ultimately show ?thesis using False by auto
  qed
qed

definition floor_example :: floor_page where
  "floor_example =
     \<lparr>ad_data = Some \<lparr>fl_tenant_id = ''acme'', fl_history_days = 30, fl_feedback_days = 0, fl_audit_days = 365,
        fl_webhook_deliveries_days = 7, fl_updated_at = 0, fl_updated_by = [], fl_ceiling = 3650\<rparr>,
      ad_loading = False, ad_error = None, ad_busy = False, ad_msg = None, ad_actionErr = None,
      ad_draft = (\<lambda>k. if k = audit_days then ''x'' else []), ad_tasks = [], ad_sent = []\<rparr>"

theorem floor_all_or_nothing_witness:
  "admin_visible floor_example \<and>
   (\<exists>k l n m. find (\<lambda>(k, l, n). \<not> field_passes 3650 (ad_draft floor_example) k) FIELDS = Some (k, l, n) \<and>
      ad_actionErr (admin_press floor_console SaveFloor floor_example) = Some (l @ '': '' @ m))"
proof -
  have vis: "admin_visible floor_example"
    by (simp add: floor_example_def admin_visible_def shown_error_def nullish_def)
  have "string_to_number ''x'' = NaN" by code_simp
  then have bad: "\<not> list_all (field_passes 3650 (ad_draft floor_example)) floor_keys"
    by (simp add: floor_keys_def FIELDS_def field_passes_def draft_number_def floor_example_def)
  obtain d where d: "ad_data floor_example = Some d" "fl_ceiling d = 3650" and free: "\<not> ad_busy floor_example"
    by (simp add: floor_example_def)
  obtain k l n m where "find (\<lambda>(k, l, n). \<not> field_passes 3650 (ad_draft floor_example) k) FIELDS = Some (k, l, n)"
    "admin_press floor_console SaveFloor floor_example =
       floor_example\<lparr>ad_msg := None, ad_actionErr := Some (l @ '': '' @ m)\<rparr>"
    using floor_all_or_nothing [OF d(1) vis free] bad unfolding d(2) by (auto split: if_splits)
  then show ?thesis using vis by auto
qed

text \<open>
  An empty field is a number: \<open>Number("")\<close> is zero, so a cleared draft sends 0 and removes the body size
  cap, switches the webhook breaker off and drops the floor of its category; only the console of the
  delivery attempts, which demands at least 1, refuses it.
\<close>

theorem blank_draft_is_zero:
  assumes "trim draft = []"
  shows "draft_number 0 draft = Some 0 \<and> draft_number 1 draft = None \<and>
    (ad_draft s = draft \<longrightarrow> bytes_press SubmitDraft s = SendSave 0) \<and>
    (ad_draft t = draft \<longrightarrow> ad_data t = None \<or> 0 \<le> br_max_threshold (the (ad_data t)) \<longrightarrow> breaker_press SubmitDraft t = SendSave 0) \<and>
    (ad_draft u = draft \<longrightarrow> attempts_press SubmitDraft u = Complain ''Enter a positive integer (at least 1)'')"
proof -
  have "string_to_number draft = Fin 0" using assms by (simp add: string_to_number_def)
  then have z: "draft_number 0 draft = Some 0" "draft_number 1 draft = None"
    using of_int_is_integer [of 0] by (simp_all add: draft_number_def)
  then show ?thesis by (auto split: option.split)
qed

theorem blank_draft_is_zero_witness:
  "trim '' '' = [] \<and> draft_number 0 '' '' = Some 0"
proof -
  have "trim '' '' = []" by code_simp
  with blank_draft_is_zero [OF this] show ?thesis by simp
qed

end
