(* ===== verification/Pool.thy ===== *)
theory Pool
  imports Pages "HOL-Library.Multiset"
begin

text \<open>
  The worker pool of the bulk operations on the history page (\<open>web/app/history/page.tsx\<close>): at most six
  workers share one index into the list of jobs; a worker takes the next job, sends its request, waits
  for the answer, counts a failure and goes on until the list is used up. The list of the jobs under
  way stands for the running workers, one job each; \<open>pl_sent\<close> and \<open>pl_answered\<close> record what happened.
\<close>

record 'a pool =
  pl_jobs :: "'a list"
  pl_next :: nat
  pl_flight :: "'a list"
  pl_failed :: nat
  pl_sent :: "'a list"
  pl_answered :: "('a \<times> bool) list"

definition pool_limit :: nat where
  "pool_limit = 6"

text \<open>The head of the loop of a worker: \<open>while (i < ids.length) { const id = ids[i++]; ... fetch ... }\<close>.\<close>

definition take_job :: "'a pool \<Rightarrow> 'a pool" where
  "take_job p =
     (if pl_next p < length (pl_jobs p) then
        p\<lparr>pl_next := Suc (pl_next p), pl_flight := pl_flight p @ [pl_jobs p ! pl_next p],
          pl_sent := pl_sent p @ [pl_jobs p ! pl_next p]\<rparr>
      else p)"

text \<open>\<open>Array.from({ length: Math.min(limit, ids.length) }, worker)\<close>: every worker runs up to its first request.\<close>

definition pool_start :: "'a list \<Rightarrow> 'a pool" where
  "pool_start jobs =
     (take_job ^^ min pool_limit (length jobs))
       \<lparr>pl_jobs = jobs, pl_next = 0, pl_flight = [], pl_failed = 0, pl_sent = [], pl_answered = []\<rparr>"

text \<open>The answer to the job at a place; \<open>ok\<close> is false for a refusal and for an exception.\<close>

definition pool_answer :: "nat \<Rightarrow> bool \<Rightarrow> 'a pool \<Rightarrow> 'a pool" where
  "pool_answer w ok p =
     (if w < length (pl_flight p) then
        take_job (p\<lparr>pl_flight := drop_nth w (pl_flight p),
          pl_failed := (if ok then pl_failed p else Suc (pl_failed p)),
          pl_answered := pl_answered p @ [(pl_flight p ! w, ok)]\<rparr>)
      else p)"

text \<open>\<open>Promise.all\<close> resolves once every worker has returned.\<close>

definition pool_done :: "'a pool \<Rightarrow> bool" where
  "pool_done p \<longleftrightarrow> pl_flight p = []"

text \<open>
  Answering one request after the other, as long as there is one: \<open>sched\<close> picks which of the requests
  under way is answered, \<open>ok\<close> says which jobs succeed.
\<close>

fun pool_run :: "('a \<Rightarrow> bool) \<Rightarrow> nat list \<Rightarrow> 'a pool \<Rightarrow> 'a pool" where
  "pool_run ok [] p = p"
| "pool_run ok (w # sched) p =
     (let v = w mod length (pl_flight p) in pool_run ok sched (pool_answer v (ok (pl_flight p ! v)) p))"

text \<open>The specification: one job after the other, counting the failures.\<close>

fun sequential :: "('a \<Rightarrow> bool) \<Rightarrow> 'a list \<Rightarrow> nat" where
  "sequential ok [] = 0"
| "sequential ok (j # js) = (if ok j then 0 else 1) + sequential ok js"

section \<open>The invariant of a pool\<close>

definition failures :: "('a \<times> bool) list \<Rightarrow> nat" where
  "failures answered = length (filter (\<lambda>(j, ok). \<not> ok) answered)"

definition pool_good :: "'a pool \<Rightarrow> bool" where
  "pool_good p \<longleftrightarrow>
     pl_next p \<le> length (pl_jobs p) \<and>
     pl_sent p = take (pl_next p) (pl_jobs p) \<and>
     mset (pl_sent p) = mset (pl_flight p) + image_mset fst (mset (pl_answered p)) \<and>
     length (pl_flight p) = min pool_limit (length (pl_jobs p) - length (pl_answered p)) \<and>
     pl_failed p = failures (pl_answered p)"

lemma take_job_frame [simp]:
  "pl_jobs (take_job p) = pl_jobs p" "pl_failed (take_job p) = pl_failed p" "pl_answered (take_job p) = pl_answered p"
  by (simp_all add: take_job_def)

lemma pool_answer_frame [simp]:
  "pl_jobs (pool_answer w ok p) = pl_jobs p"
  by (simp add: pool_answer_def)

lemma pool_start_steps:
  "n \<le> length jobs \<Longrightarrow>
     (take_job ^^ n) \<lparr>pl_jobs = jobs, pl_next = 0, pl_flight = [], pl_failed = 0, pl_sent = [], pl_answered = []\<rparr> =
     \<lparr>pl_jobs = jobs, pl_next = n, pl_flight = take n jobs, pl_failed = 0, pl_sent = take n jobs, pl_answered = []\<rparr>"
  by (induction n) (simp_all add: take_job_def take_Suc_conv_app_nth)

lemma pool_start_eq:
  "pool_start jobs =
     (let n = min pool_limit (length jobs) in
      \<lparr>pl_jobs = jobs, pl_next = n, pl_flight = take n jobs, pl_failed = 0, pl_sent = take n jobs, pl_answered = []\<rparr>)"
  by (simp add: pool_start_def pool_start_steps Let_def)

lemma pool_start_good: "pool_good (pool_start jobs)"
  by (simp add: pool_start_eq pool_good_def failures_def Let_def)

lemma mset_drop_nth: "i < length xs \<Longrightarrow> add_mset (xs ! i) (mset (drop_nth i xs)) = mset xs"
  using drop_nth_split [of i xs] by (metis add_mset_add_single mset_append mset.simps(2) union_mset_add_mset_right)

lemma length_drop_nth: "i < length xs \<Longrightarrow> length (drop_nth i xs) = length xs - 1"
  by (simp add: drop_nth_def)

lemma pool_goodD:
  assumes "pool_good p"
  shows "pl_next p \<le> length (pl_jobs p)" "pl_sent p = take (pl_next p) (pl_jobs p)"
    "mset (pl_sent p) = mset (pl_flight p) + image_mset fst (mset (pl_answered p))"
    "length (pl_flight p) = min pool_limit (length (pl_jobs p) - length (pl_answered p))"
    "pl_failed p = failures (pl_answered p)"
  using assms unfolding pool_good_def by blast+

lemma pool_good_counts: "pool_good p \<Longrightarrow> pl_next p = length (pl_flight p) + length (pl_answered p)"
  using arg_cong [OF pool_goodD(3), of p size] pool_goodD(1, 2) [of p] by simp

lemma pool_answer_good:
  assumes g: "pool_good p" and w: "w < length (pl_flight p)"
  shows "pool_good (pool_answer w ok p)"
proof -
  let ?q = "p\<lparr>pl_flight := drop_nth w (pl_flight p), pl_failed := (if ok then pl_failed p else Suc (pl_failed p)),
    pl_answered := pl_answered p @ [(pl_flight p ! w, ok)]\<rparr>"
  have n: "pl_next p = length (pl_flight p) + length (pl_answered p)" by (rule pool_good_counts [OF g])
  have m: "mset (pl_sent p) = mset (drop_nth w (pl_flight p)) + image_mset fst (mset (pl_answered p)) + {#pl_flight p ! w#}"
    unfolding pool_goodD(3) [OF g] mset_drop_nth [OF w, symmetric] by simp
  have f: "pl_failed ?q = failures (pl_answered ?q)"
    using pool_goodD(5) [OF g] by (simp add: failures_def)
  have l: "length (drop_nth w (pl_flight p)) = length (pl_flight p) - 1" by (rule length_drop_nth [OF w])
  show ?thesis
  proof (cases "pl_next p < length (pl_jobs p)")
    case True
    then have full: "length (pl_flight p) = pool_limit" using pool_goodD(4) [OF g] n by linarith
    have "take (Suc (pl_next p)) (pl_jobs p) = pl_sent p @ [pl_jobs p ! pl_next p]"
      using True pool_goodD(2) [OF g] by (simp add: take_Suc_conv_app_nth)
    then show ?thesis
      using w m f l n True full pool_goodD(4) [OF g]
      by (auto simp: pool_answer_def take_job_def pool_good_def)
  next
    case False
    then show ?thesis
      using w m f l n pool_goodD [OF g]
      by (auto simp: pool_answer_def take_job_def pool_good_def)
  qed
qed

lemma pool_answer_count:
  "w < length (pl_flight p) \<Longrightarrow> length (pl_answered (pool_answer w ok p)) = Suc (length (pl_answered p))"
  by (simp add: pool_answer_def)

definition truthful :: "('a \<Rightarrow> bool) \<Rightarrow> 'a pool \<Rightarrow> bool" where
  "truthful ok p \<longleftrightarrow> list_all (\<lambda>(j, b). b = ok j) (pl_answered p)"

lemma pool_answer_truthful: "truthful ok p \<Longrightarrow> truthful ok (pool_answer w (ok (pl_flight p ! w)) p)"
  by (simp add: truthful_def pool_answer_def)

lemma pool_run_invariant:
  "pool_good p \<Longrightarrow> truthful ok p \<Longrightarrow>
     pool_good (pool_run ok sched p) \<and> truthful ok (pool_run ok sched p) \<and>
     pl_jobs (pool_run ok sched p) = pl_jobs p \<and>
     length (pl_answered (pool_run ok sched p)) =
       max (length (pl_answered p)) (min (length (pl_jobs p)) (length (pl_answered p) + length sched))"
proof (induction sched arbitrary: p)
  case (Cons w sched)
  let ?v = "w mod length (pl_flight p)"
  let ?q = "pool_answer ?v (ok (pl_flight p ! ?v)) p"
  have n: "pl_next p = length (pl_flight p) + length (pl_answered p)" and le: "pl_next p \<le> length (pl_jobs p)"
    and f: "length (pl_flight p) = min pool_limit (length (pl_jobs p) - length (pl_answered p))"
    using pool_good_counts pool_goodD Cons.prems(1) by blast+
  show ?case
  proof (cases "pl_flight p = []")
    case True
    then have "?q = p" by (simp add: pool_answer_def)
    moreover have "length (pl_jobs p) \<le> length (pl_answered p)" using True f by (simp add: pool_limit_def)
    ultimately show ?thesis using Cons.IH [OF Cons.prems] by (simp add: Let_def)
  next
    case False
    then have v: "?v < length (pl_flight p)" by simp
    have g: "pool_good ?q" by (rule pool_answer_good [OF Cons.prems(1) v])
    have t: "truthful ok ?q" by (rule pool_answer_truthful [OF Cons.prems(2)])
    have c: "length (pl_answered ?q) = Suc (length (pl_answered p))" by (rule pool_answer_count [OF v])
    have "length (pl_answered p) < length (pl_jobs p)" using n le v by linarith
    then show ?thesis using Cons.IH [OF g t] c by (simp add: Let_def min_def max_def)
  qed
qed simp

lemma pool_run_start:
  "pool_good (pool_run ok sched (pool_start jobs)) \<and> truthful ok (pool_run ok sched (pool_start jobs)) \<and>
   pl_jobs (pool_run ok sched (pool_start jobs)) = jobs \<and>
   length (pl_answered (pool_run ok sched (pool_start jobs))) = min (length jobs) (length sched)"
  using pool_run_invariant [OF pool_start_good, of ok jobs sched]
  by (simp add: truthful_def) (simp add: pool_start_eq Let_def)

lemma failures_truthful:
  "list_all (\<lambda>(j, b). b = ok j) answered \<Longrightarrow> failures answered = size (filter_mset (\<lambda>j. \<not> ok j) (image_mset fst (mset answered)))"
  by (induction answered) (auto simp: failures_def)

lemma sequential_mset: "sequential ok js = size (filter_mset (\<lambda>j. \<not> ok j) (mset js))"
  by (induction js) simp_all

section \<open>Properties\<close>

text \<open>
  C17. The pool ends, after exactly as many answers as there are jobs, whichever request is answered next and
  whether it succeeds: until then some worker waits, and it never waits for more.
\<close>

theorem pool_terminates: "pool_done (pool_run ok sched (pool_start jobs)) \<longleftrightarrow> length jobs \<le> length sched"
proof -
  let ?q = "pool_run ok sched (pool_start jobs)"
  have "length (pl_flight ?q) = min pool_limit (length jobs - min (length jobs) (length sched))"
    using pool_run_start [of ok sched jobs] pool_goodD(4) [of ?q] by simp
  then show ?thesis by (auto simp: pool_done_def pool_limit_def simp flip: length_0_conv)
qed

text \<open>
  C2. The pool refines the loop that does one job after the other: under every schedule of the answers, once
  it is done, each job has been sent exactly once, in the order of the list, and the number of
  failures is that of the loop.
\<close>

theorem pool_refines_loop:
  assumes "pool_done (pool_run ok sched (pool_start jobs))"
  shows "pl_sent (pool_run ok sched (pool_start jobs)) = jobs \<and>
    pl_failed (pool_run ok sched (pool_start jobs)) = sequential ok jobs"
proof -
  let ?q = "pool_run ok sched (pool_start jobs)"
  have q: "pool_good ?q" "truthful ok ?q" "pl_jobs ?q = jobs" "length (pl_answered ?q) = min (length jobs) (length sched)"
    using pool_run_start [of ok sched jobs] by blast+
  have "length (pl_flight ?q) = 0" using assms by (simp add: pool_done_def)
  then have all: "pl_next ?q = length jobs"
    using pool_good_counts [OF q(1)] pool_goodD(4) [OF q(1)] q(3, 4) by (simp add: pool_limit_def)
  then have sent: "pl_sent ?q = jobs" using pool_goodD(2) [OF q(1)] q(3) by simp
  have "pl_failed ?q = size (filter_mset (\<lambda>j. \<not> ok j) (image_mset fst (mset (pl_answered ?q))))"
    using pool_goodD(5) [OF q(1)] failures_truthful q(2) unfolding truthful_def by metis
  also have "image_mset fst (mset (pl_answered ?q)) = mset jobs"
    using pool_goodD(3) [OF q(1)] assms sent by (simp add: pool_done_def)
  finally show ?thesis using sent by (simp add: sequential_mset)
qed

theorem pool_refines_loop_witness:
  "pl_sent (pool_run (\<lambda>j. j \<noteq> ''b'') [2, 0, 5] (pool_start [''a'', ''b'', ''c''])) = [''a'', ''b'', ''c''] \<and>
   pl_failed (pool_run (\<lambda>j. j \<noteq> ''b'') [2, 0, 5] (pool_start [''a'', ''b'', ''c''])) = 1"
proof -
  have "pool_done (pool_run (\<lambda>j. j \<noteq> ''b'') [2, 0, 5] (pool_start [''a'', ''b'', ''c'']))" by code_simp
  from pool_refines_loop [OF this] show ?thesis by simp
qed

text \<open>
  The backend is not hammered: at every moment at most six requests of a bulk operation are under way, and
  exactly six as long as six jobs are unanswered; what has been sent is always a prefix of the list.
\<close>

theorem pool_bounded:
  "length (pl_flight (pool_run ok sched (pool_start jobs))) = min 6 (length jobs - length sched) \<and>
   pl_sent (pool_run ok sched (pool_start jobs)) = take (min 6 (length jobs - length sched) + length sched) jobs"
proof -
  let ?q = "pool_run ok sched (pool_start jobs)"
  have q: "pool_good ?q" "pl_jobs ?q = jobs" "length (pl_answered ?q) = min (length jobs) (length sched)"
    using pool_run_start [of ok sched jobs] by blast+
  have f: "length (pl_flight ?q) = min 6 (length jobs - length sched)"
    using pool_goodD(4) [OF q(1)] q(2, 3) by (simp add: pool_limit_def)
  have "pl_sent ?q = take (length (pl_flight ?q) + length (pl_answered ?q)) jobs"
    using pool_goodD(2) [OF q(1)] pool_good_counts [OF q(1)] q(2) by simp
  then show ?thesis using f q(3) by (auto simp: min_def)
qed

end
