(* ===== verification/HistoryPage.thy ===== *)
theory HistoryPage
  imports Pool BulkSelect OEmbed Export
begin

text \<open>
  \<open>web/app/history/page.tsx\<close>: the page of the cloud history, with its filters, paging, selection, inline
  edits and bulk operations. The requests under way are the entries of \<open>hp_tasks\<close>; a bulk operation is
  a \<^theory_text>\<open>Pool\<close> of requests followed by a load that it awaits. A load is started with the filters of the
  render that made its closure, which a bulk operation and a patch keep until they end.
\<close>

section \<open>Data\<close>

record PageMatch =
  pm_track_id :: string
  pm_title :: string
  pm_artist :: "string option"
  pm_album :: "string option"
  pm_score :: rat
  pm_segment_index :: "int option"
  pm_preview_url :: "string option"
  pm_artwork_url :: "string option"
  pm_source :: "string option"
  pm_tempo_bpm :: "rat option"

record HistoryItem =
  hi_id :: string
  hi_created_at :: rat
  hi_updated_at :: rat
  hi_query_id :: string
  hi_elapsed_ms :: rat
  hi_count :: rat
  hi_results :: "PageMatch list"
  hi_filename :: "string option"
  hi_duration_sec :: "rat option"
  hi_name :: "string option"
  hi_tags :: "string list"
  hi_starred :: bool

record HistoryList =
  hl_items :: "HistoryItem list"
  hl_total :: int
  hl_limit :: int
  hl_offset :: int

definition PAGE :: int where
  "PAGE = 25"

datatype SortKey = sort_recent | sort_oldest | sort_name | sort_results | sort_top_score

fun sort_text :: "SortKey \<Rightarrow> string" where
  "sort_text sort_recent = ''recent''"
| "sort_text sort_oldest = ''oldest''"
| "sort_text sort_name = ''name''"
| "sort_text sort_results = ''results''"
| "sort_text sort_top_score = ''top_score''"

fun SORT_LABELS :: "SortKey \<Rightarrow> string" where
  "SORT_LABELS sort_recent = ''newest first''"
| "SORT_LABELS sort_oldest = ''oldest first''"
| "SORT_LABELS sort_name = ''name a / z''"
| "SORT_LABELS sort_results = ''most matches''"
| "SORT_LABELS sort_top_score = ''best score''"

section \<open>Times\<close>

text \<open>The local fields of a date that holds no time are all NaN.\<close>

definition fmtTs :: "(int \<Rightarrow> int) \<Rightarrow> rat \<Rightarrow> string" where
  "fmtTs tz epochSec =
     (if epochSec = 0 then []
      else case time_clip (epochSec * 1000) of
             None \<Rightarrow> ''NaN-NaN-NaN NaN:NaN''
           | Some t \<Rightarrow>
               (let d = local_fields tz t in
                int_to_string (d_year d) @ ''-'' @ pad2 (d_month d + 1) @ ''-'' @ pad2 (d_day d) @ '' '' @
                pad2 (d_hour d) @ '':'' @ pad2 (d_minute d)))"

definition fmtRel :: "rat \<Rightarrow> rat \<Rightarrow> string" where
  "fmtRel now epochSec =
     (let ms = now - epochSec * 1000 in
      if ms < 60000 then int_to_string (math_round (ms / 1000)) @ ''s ago''
      else if ms < 3600000 then int_to_string (math_round (ms / 60000)) @ ''m ago''
      else if ms < 86400000 then int_to_string (math_round (ms / 3600000)) @ ''h ago''
      else int_to_string (math_round (ms / 86400000)) @ ''d ago'')"

section \<open>State\<close>

datatype bulk_kind = BulkDelete | BulkTag

type_synonym query = "(string \<times> string) list"

text \<open>
  A load (with the bulk operation that awaits it, its failures and its size), a single edit with the
  query it loads on success, a pool with the query it loads at the end.
\<close>

datatype hp_task =
  Fetching "(bulk_kind \<times> nat \<times> nat) option"
| Patching query
| Pooling bulk_kind query "request pool"

record history_page =
  hp_q :: string
  hp_tag :: string
  hp_sort :: SortKey
  hp_starredOnly :: bool
  hp_offset :: int
  hp_data :: "HistoryList option"
  hp_loading :: bool
  hp_err :: "string option"
  hp_renaming :: "string option"
  hp_renameDraft :: string
  hp_tagging :: "string option"
  hp_tagDraft :: string
  hp_selected :: "string list"
  hp_bulkBusy :: "bulk_kind option"
  hp_bulkTagDraft :: string
  hp_showBulkTag :: bool
  hp_timer :: bool
  hp_tasks :: "hp_task list"
  hp_sent :: "request list"

text \<open>The first render, whose effects start the timer.\<close>

definition hp_start :: history_page where
  "hp_start =
     \<lparr>hp_q = [], hp_tag = [], hp_sort = sort_recent, hp_starredOnly = False, hp_offset = 0, hp_data = None,
      hp_loading = False, hp_err = None, hp_renaming = None, hp_renameDraft = [], hp_tagging = None,
      hp_tagDraft = [], hp_selected = [], hp_bulkBusy = None, hp_bulkTagDraft = [], hp_showBulkTag = False,
      hp_timer = True, hp_tasks = [], hp_sent = []\<rparr>"

section \<open>Requests\<close>

text \<open>\<open>URLSearchParams\<close>: spaces become \<open>+\<close>, all but letters, digits and four marks is escaped.\<close>

definition form_char :: "char \<Rightarrow> string" where
  "form_char c =
     (let n = of_char c in
      if c = CHR '' '' then ''+''
      else if is_alpha c \<or> is_digit c \<or> c \<in> set ''*-._'' then [c]
      else if n < 128 then percent n
      else percent (192 + n div 64) @ percent (128 + n mod 64))"

definition form_query :: "query \<Rightarrow> string" where
  "form_query qs =
     (if qs = [] then []
      else ''?'' @ join ''&'' (map (\<lambda>(k, v). concat (map form_char k) @ ''='' @ concat (map form_char v)) qs))"

definition history_query :: "history_page \<Rightarrow> query" where
  "history_query s =
     [(''limit'', int_to_string PAGE), (''offset'', int_to_string (hp_offset s))]
     @ (if trim (hp_q s) \<noteq> [] then [(''q'', trim (hp_q s))] else [])
     @ (if trim (hp_tag s) \<noteq> [] then [(''tag'', to_lower (trim (hp_tag s)))] else [])
     @ (if hp_sort s \<noteq> sort_recent then [(''sort'', sort_text (hp_sort s))] else [])
     @ (if hp_starredOnly s then [(''starred'', ''true'')] else [])"

definition list_request :: "query \<Rightarrow> request" where
  "list_request qs =
     \<lparr>req_method = ''GET'', req_path = ''/api/history'' @ form_query qs, req_headers = [], req_payload = None\<rparr>"

definition delete_request :: "string \<Rightarrow> request" where
  "delete_request i =
     \<lparr>req_method = ''DELETE'', req_path = ''/api/history/'' @ encodeURIComponent i, req_headers = [], req_payload = None\<rparr>"

definition patch_request :: "string \<Rightarrow> json \<Rightarrow> request" where
  "patch_request i body =
     \<lparr>req_method = ''PATCH'', req_path = ''/api/history/'' @ encodeURIComponent i,
      req_headers = [(''Content-Type'', ''application/json'')], req_payload = Some body\<rparr>"

definition tags_body :: "string list \<Rightarrow> json" where
  "tags_body tags = JObj [(''tags'', JArr (map JStr tags))]"

section \<open>Loads\<close>

definition fetch_begin :: "query \<Rightarrow> (bulk_kind \<times> nat \<times> nat) option \<Rightarrow> history_page \<Rightarrow> history_page" where
  "fetch_begin qs aw s =
     s\<lparr>hp_loading := True, hp_err := None, hp_tasks := hp_tasks s @ [Fetching aw],
       hp_sent := hp_sent s @ [list_request qs]\<rparr>"

datatype fetch_answer = FetchThrew string | FetchRefused nat | FetchOk HistoryList

text \<open>The effect that drops the selected ids that are no longer on the page.\<close>

definition drop_stale :: "string list \<Rightarrow> HistoryItem list \<Rightarrow> string list" where
  "drop_stale prev items =
     (let visible = jset_of (map hi_id items);
          next = fold (\<lambda>i next. if i \<in> set visible then jset_add i next else next) prev []
      in if length next = length prev then prev else next)"

definition fetch_settle :: "fetch_answer \<Rightarrow> history_page \<Rightarrow> history_page" where
  "fetch_settle a s =
     (case a of
        FetchThrew m \<Rightarrow> s\<lparr>hp_err := Some m, hp_data := None, hp_loading := False\<rparr>
      | FetchRefused st \<Rightarrow>
          s\<lparr>hp_err := Some (if st = 401 then ''missing api key. set one in settings to enable cloud history.''
              else ''fetch failed ('' @ nat_digits st @ '')''),
            hp_data := None, hp_loading := False\<rparr>
      | FetchOk d \<Rightarrow>
          s\<lparr>hp_data := Some d, hp_selected := drop_stale (hp_selected s) (hl_items d), hp_loading := False\<rparr>)"

fun bulk_label :: "bulk_kind \<Rightarrow> string" where
  "bulk_label BulkDelete = ''bulk delete''"
| "bulk_label BulkTag = ''bulk tag''"

definition fetch_done :: "(bulk_kind \<times> nat \<times> nat) option \<Rightarrow> fetch_answer \<Rightarrow> history_page \<Rightarrow> history_page" where
  "fetch_done aw a s =
     (let t = fetch_settle a s in
      case aw of
        None \<Rightarrow> t
      | Some (k, failed, n) \<Rightarrow>
          t\<lparr>hp_err := (if failed > 0
               then Some (bulk_label k @ '': '' @ nat_digits failed @ '' of '' @ nat_digits n @ '' failed'')
               else hp_err t),
            hp_bulkBusy := None\<rparr>)"

text \<open>The debounce timer, restarted by every render with other filters or another offset.\<close>

definition fire_timer :: "history_page \<Rightarrow> history_page" where
  "fire_timer s = (if hp_timer s then fetch_begin (history_query s) None (s\<lparr>hp_timer := False\<rparr>) else s)"

definition set_filters :: "string \<Rightarrow> string \<Rightarrow> SortKey \<Rightarrow> bool \<Rightarrow> history_page \<Rightarrow> history_page" where
  "set_filters q tag key starred s =
     (if q = hp_q s \<and> tag = hp_tag s \<and> key = hp_sort s \<and> starred = hp_starredOnly s then s
      else s\<lparr>hp_q := q, hp_tag := tag, hp_sort := key, hp_starredOnly := starred, hp_offset := 0, hp_timer := True\<rparr>)"

definition refresh_click :: "history_page \<Rightarrow> history_page" where
  "refresh_click s = (if hp_loading s then s else fetch_begin (history_query s) None s)"

section \<open>Paging\<close>

definition hp_total :: "history_page \<Rightarrow> int" where
  "hp_total s = (case hp_data s of None \<Rightarrow> 0 | Some d \<Rightarrow> hl_total d)"

definition hp_pages :: "history_page \<Rightarrow> int" where
  "hp_pages s = max 1 (ceiling (rat_of_int (hp_total s) / rat_of_int PAGE))"

definition hp_page :: "history_page \<Rightarrow> int" where
  "hp_page s = floor (rat_of_int (hp_offset s) / rat_of_int PAGE) + 1"

definition pager_shown :: "history_page \<Rightarrow> bool" where
  "pager_shown s \<longleftrightarrow> hp_data s \<noteq> None \<and> hp_total s > PAGE"

definition prev_click :: "history_page \<Rightarrow> history_page" where
  "prev_click s =
     (if \<not> pager_shown s \<or> hp_offset s = 0 then s
      else s\<lparr>hp_offset := max 0 (hp_offset s - PAGE), hp_timer := True\<rparr>)"

definition next_click :: "history_page \<Rightarrow> history_page" where
  "next_click s =
     (if \<not> pager_shown s \<or> hp_offset s + PAGE \<ge> hp_total s then s
      else s\<lparr>hp_offset := hp_offset s + PAGE, hp_timer := True\<rparr>)"

section \<open>Selection\<close>

definition hp_items :: "history_page \<Rightarrow> HistoryItem list" where
  "hp_items s = (case hp_data s of None \<Rightarrow> [] | Some d \<Rightarrow> hl_items d)"

definition visibleIds :: "history_page \<Rightarrow> string list" where
  "visibleIds s = map hi_id (hp_items s)"

definition allSelected_flag :: "string list \<Rightarrow> string list \<Rightarrow> bool" where
  "allSelected_flag selected visible \<longleftrightarrow> length visible > 0 \<and> list_all (\<lambda>i. i \<in> set selected) visible"

definition someSelected_flag :: "string list \<Rightarrow> string list \<Rightarrow> bool" where
  "someSelected_flag selected visible \<longleftrightarrow> length selected > 0 \<and> \<not> allSelected_flag selected visible"

definition page_toggleOne :: "string \<Rightarrow> string list \<Rightarrow> string list" where
  "page_toggleOne i prev = (if i \<in> set prev then jset_delete i prev else jset_add i prev)"

definition page_toggleAll :: "string list \<Rightarrow> string list \<Rightarrow> string list" where
  "page_toggleAll visible prev =
     (if list_all (\<lambda>i. i \<in> set prev) visible then fold jset_delete visible prev else fold jset_add visible prev)"

text \<open>The rows and the bar above them are rendered when there is a row.\<close>

definition toggleOne_click :: "string \<Rightarrow> history_page \<Rightarrow> history_page" where
  "toggleOne_click i s =
     (if i \<in> set (visibleIds s) then s\<lparr>hp_selected := page_toggleOne i (hp_selected s)\<rparr> else s)"

definition toggleAll_click :: "history_page \<Rightarrow> history_page" where
  "toggleAll_click s =
     (if hp_items s = [] then s else s\<lparr>hp_selected := page_toggleAll (visibleIds s) (hp_selected s)\<rparr>)"

section \<open>Bulk operations\<close>

definition pool_finish :: "bulk_kind \<Rightarrow> query \<Rightarrow> request pool \<Rightarrow> history_page \<Rightarrow> history_page" where
  "pool_finish k qs p s =
     fetch_begin qs (Some (k, pl_failed p, length (pl_jobs p)))
       (case k of
          BulkDelete \<Rightarrow> s\<lparr>hp_selected := []\<rparr>
        | BulkTag \<Rightarrow> s\<lparr>hp_bulkTagDraft := [], hp_showBulkTag := False\<rparr>)"

definition pool_begin :: "bulk_kind \<Rightarrow> request list \<Rightarrow> history_page \<Rightarrow> history_page" where
  "pool_begin k jobs s =
     (let p = pool_start jobs; t = s\<lparr>hp_bulkBusy := Some k\<rparr>
      in if pool_done p then pool_finish k (history_query s) p t
         else t\<lparr>hp_tasks := hp_tasks t @ [Pooling k (history_query s) p]\<rparr>)"

definition bulkDelete :: "bool \<Rightarrow> history_page \<Rightarrow> history_page" where
  "bulkDelete confirmed s =
     (if hp_selected s = [] then s
      else if \<not> confirmed then s
      else pool_begin BulkDelete (map delete_request (hp_selected s)) s)"

definition bulk_tags :: "string \<Rightarrow> string list" where
  "bulk_tags draft = filter (\<lambda>t. t \<noteq> []) (map (\<lambda>t. to_lower (trim t)) (split_on (CHR '','') draft))"

definition tag_request :: "string list \<Rightarrow> HistoryItem \<Rightarrow> request" where
  "tag_request tags it = patch_request (hi_id it) (tags_body (jset_of (hi_tags it @ tags)))"

definition bulkAddTags :: "history_page \<Rightarrow> history_page" where
  "bulkAddTags s =
     (if hp_selected s = [] then s
      else let tags = bulk_tags (hp_bulkTagDraft s) in
        if tags = [] then s
        else pool_begin BulkTag
               (map (tag_request tags) (filter (\<lambda>it. hi_id it \<in> set (hp_selected s)) (hp_items s))) s)"

text \<open>The two buttons ask for no bulk operation under way; the key in the tag field does not.\<close>

definition bar_shown :: "history_page \<Rightarrow> bool" where
  "bar_shown s \<longleftrightarrow> hp_items s \<noteq> [] \<and> hp_selected s \<noteq> []"

definition delete_click :: "bool \<Rightarrow> history_page \<Rightarrow> history_page" where
  "delete_click confirmed s = (if bar_shown s \<and> hp_bulkBusy s = None then bulkDelete confirmed s else s)"

definition tag_field :: "history_page \<Rightarrow> bool" where
  "tag_field s \<longleftrightarrow> bar_shown s \<and> hp_showBulkTag s"

definition tag_click :: "history_page \<Rightarrow> history_page" where
  "tag_click s =
     (if tag_field s \<and> hp_bulkBusy s = None \<and> trim (hp_bulkTagDraft s) \<noteq> [] then bulkAddTags s else s)"

definition tag_enter :: "history_page \<Rightarrow> history_page" where
  "tag_enter s = (if tag_field s then bulkAddTags s else s)"

section \<open>Edits of one entry\<close>

definition hp_patch :: "string \<Rightarrow> json \<Rightarrow> history_page \<Rightarrow> history_page" where
  "hp_patch i body s =
     s\<lparr>hp_tasks := hp_tasks s @ [Patching (history_query s)], hp_sent := hp_sent s @ [patch_request i body]\<rparr>"

definition hp_remove :: "string \<Rightarrow> bool \<Rightarrow> history_page \<Rightarrow> history_page" where
  "hp_remove i confirmed s =
     (if \<not> confirmed then s
      else s\<lparr>hp_tasks := hp_tasks s @ [Patching (history_query s)], hp_sent := hp_sent s @ [delete_request i]\<rparr>)"

definition with_item :: "string \<Rightarrow> (HistoryItem \<Rightarrow> history_page \<Rightarrow> history_page) \<Rightarrow> history_page \<Rightarrow> history_page" where
  "with_item i f s = (case find (\<lambda>it. hi_id it = i) (hp_items s) of None \<Rightarrow> s | Some it \<Rightarrow> f it s)"

definition inline_tags :: "HistoryItem \<Rightarrow> string \<Rightarrow> string list" where
  "inline_tags it draft = jset_of (hi_tags it @ filter (\<lambda>t. t \<noteq> []) (map trim (split_on (CHR '','') draft)))"

datatype row_op =
  StartRename | RenameDraft string | CommitRename | CancelRename
| StartTag | TagDraft string | CommitTags | CancelTag
| ToggleStar | RemoveEntry bool

fun row_step :: "row_op \<Rightarrow> HistoryItem \<Rightarrow> history_page \<Rightarrow> history_page" where
  "row_step StartRename it s = s\<lparr>hp_renaming := Some (hi_id it), hp_renameDraft := nullish (hi_name it) []\<rparr>"
| "row_step (RenameDraft t) it s = (if hp_renaming s = Some (hi_id it) then s\<lparr>hp_renameDraft := t\<rparr> else s)"
| "row_step CommitRename it s =
     (if hp_renaming s = Some (hi_id it)
      then (hp_patch (hi_id it) (JObj [(''name'', JStr (hp_renameDraft s))]) s)\<lparr>hp_renaming := None\<rparr> else s)"
| "row_step CancelRename it s = (if hp_renaming s = Some (hi_id it) then s\<lparr>hp_renaming := None\<rparr> else s)"
| "row_step StartTag it s = s\<lparr>hp_tagging := Some (hi_id it), hp_tagDraft := []\<rparr>"
| "row_step (TagDraft t) it s = (if hp_tagging s = Some (hi_id it) then s\<lparr>hp_tagDraft := t\<rparr> else s)"
| "row_step CommitTags it s =
     (if hp_tagging s = Some (hi_id it)
      then (hp_patch (hi_id it) (tags_body (inline_tags it (hp_tagDraft s))) s)\<lparr>hp_tagging := None, hp_tagDraft := []\<rparr>
      else s)"
| "row_step CancelTag it s =
     (if hp_tagging s = Some (hi_id it) then s\<lparr>hp_tagging := None, hp_tagDraft := []\<rparr> else s)"
| "row_step ToggleStar it s = hp_patch (hi_id it) (JObj [(''starred'', JBool (\<not> hi_starred it))]) s"
| "row_step (RemoveEntry confirmed) it s = hp_remove (hi_id it) confirmed s"

section \<open>Steps\<close>

text \<open>
  The answer to the request under way at place \<open>i\<close>: for a load the answer itself, for an edit whether
  it was accepted, for a pool which of its requests is answered and whether it was accepted.
\<close>

definition hp_answer :: "nat \<Rightarrow> fetch_answer \<Rightarrow> nat \<Rightarrow> bool \<Rightarrow> history_page \<Rightarrow> history_page" where
  "hp_answer i a w ok s =
     (if i < length (hp_tasks s) then
        (let t = s\<lparr>hp_tasks := drop_nth i (hp_tasks s)\<rparr> in
         case hp_tasks s ! i of
           Fetching aw \<Rightarrow> fetch_done aw a t
         | Patching qs \<Rightarrow> if ok then fetch_begin qs None t else t
         | Pooling k qs p \<Rightarrow>
             (let p' = pool_answer w ok p in
              if pool_done p' then pool_finish k qs p' t
              else s\<lparr>hp_tasks := (hp_tasks s)[i := Pooling k qs p']\<rparr>))
      else s)"

datatype hp_op =
  FireTimer | SetFilters string string SortKey bool | RefreshClick | PrevClick | NextClick
| ToggleOne string | ToggleAllRows | ClearSelection
| ShowTagField | TagFieldDraft string | HideTagField | DeleteClick bool | TagClick | TagEnter
| Row string row_op | Reply nat fetch_answer nat bool

fun hp_step :: "hp_op \<Rightarrow> history_page \<Rightarrow> history_page" where
  "hp_step FireTimer s = fire_timer s"
| "hp_step (SetFilters q tag key starred) s = set_filters q tag key starred s"
| "hp_step RefreshClick s = refresh_click s"
| "hp_step PrevClick s = prev_click s"
| "hp_step NextClick s = next_click s"
| "hp_step (ToggleOne i) s = toggleOne_click i s"
| "hp_step ToggleAllRows s = toggleAll_click s"
| "hp_step ClearSelection s = (if bar_shown s then s\<lparr>hp_selected := []\<rparr> else s)"
| "hp_step ShowTagField s =
     (if bar_shown s \<and> hp_bulkBusy s = None then s\<lparr>hp_showBulkTag := \<not> hp_showBulkTag s\<rparr> else s)"
| "hp_step (TagFieldDraft t) s = (if tag_field s then s\<lparr>hp_bulkTagDraft := t\<rparr> else s)"
| "hp_step HideTagField s = (if tag_field s then s\<lparr>hp_showBulkTag := False, hp_bulkTagDraft := []\<rparr> else s)"
| "hp_step (DeleteClick confirmed) s = delete_click confirmed s"
| "hp_step TagClick s = tag_click s"
| "hp_step TagEnter s = tag_enter s"
| "hp_step (Row i r) s = with_item i (row_step r) s"
| "hp_step (Reply i a w ok) s = hp_answer i a w ok s"

definition hp_run :: "hp_op list \<Rightarrow> history_page" where
  "hp_run ops = fold hp_step ops hp_start"

section \<open>The export menu\<close>

datatype export_format = format_csv | format_json

fun format_text :: "export_format \<Rightarrow> string" where
  "format_text format_csv = ''csv''"
| "format_text format_json = ''json''"

record export_menu =
  em_open :: bool
  em_busy :: "export_format option"
  em_err :: "string option"

definition export_query :: "export_format \<Rightarrow> history_page \<Rightarrow> query" where
  "export_query f s =
     [(''format'', format_text f)]
     @ (if trim (hp_q s) \<noteq> [] then [(''q'', trim (hp_q s))] else [])
     @ (if trim (hp_tag s) \<noteq> [] then [(''tag'', to_lower (trim (hp_tag s)))] else [])
     @ (if hp_starredOnly s then [(''starred'', ''true'')] else [])"

definition export_request :: "export_format \<Rightarrow> history_page \<Rightarrow> request" where
  "export_request f s =
     \<lparr>req_method = ''GET'', req_path = ''/api/history/export'' @ form_query (export_query f s), req_headers = [],
      req_payload = None\<rparr>"

text \<open>The entry of the menu that opens it, and the two formats, disabled while one of them is under way.\<close>

definition menu_click :: "history_page \<Rightarrow> export_menu \<Rightarrow> export_menu" where
  "menu_click s m = (if hp_total s = 0 then m else m\<lparr>em_open := \<not> em_open m\<rparr>)"

definition download_begin :: "export_format \<Rightarrow> history_page \<Rightarrow> export_menu \<Rightarrow> export_menu \<times> request option" where
  "download_begin f s m =
     (if em_open m \<and> em_busy m = None then (m\<lparr>em_err := None, em_busy := Some f\<rparr>, Some (export_request f s)) else (m, None))"

datatype blob_answer = BlobThrew string | BlobRefused nat | BlobOk string string

text \<open>\<open>new Date().toISOString().replace(/[:.]/g, "-").slice(0, 19)\<close>; \<open>now\<close> is a time of the clock.\<close>

definition export_stamp :: "int \<Rightarrow> string" where
  "export_stamp now =
     take 19 (map (\<lambda>c. if c = CHR '':'' \<or> c = CHR ''.'' then CHR ''-'' else c)
       (case toISOString (of_int now) of Some t \<Rightarrow> t | None \<Rightarrow> []))"

definition download_done :: "int \<Rightarrow> export_format \<Rightarrow> blob_answer \<Rightarrow> export_menu \<Rightarrow> export_menu \<times> dom_op list" where
  "download_done now f a m =
     (case a of
        BlobThrew e \<Rightarrow> (m\<lparr>em_err := Some e, em_busy := None\<rparr>, [])
      | BlobRefused st \<Rightarrow>
          (m\<lparr>em_err := Some (if st = 401 then ''set an api key in settings first''
               else ''export failed ('' @ nat_digits st @ '')''),
             em_busy := None\<rparr>, [])
      | BlobOk body mime \<Rightarrow>
          (m\<lparr>em_open := False, em_busy := None\<rparr>,
           [CreateObjectURL body mime, AppendLink (''clawhum-history-'' @ export_stamp now @ ''.'' @ format_text f),
            ClickLink, RemoveLink, RevokeAfter 1000]))"

section \<open>What is shown of an entry\<close>

definition item_title :: "HistoryItem \<Rightarrow> string" where
  "item_title it =
     (let name = nullish (hi_name it) []; file = nullish (hi_filename it) []
      in if name \<noteq> [] then name else if file \<noteq> [] then file else ''query '' @ take 8 (hi_query_id it))"

definition top_text :: "PageMatch \<Rightarrow> string" where
  "top_text r =
     ''top: '' @ pm_title r @ (if nullish (pm_artist r) [] \<noteq> [] then '' / '' @ the (pm_artist r) else [])
     @ '' ('' @ to_fixed (pm_score r) 2 @ '')''"

definition item_view :: "rat \<Rightarrow> history_page \<Rightarrow> HistoryItem \<Rightarrow> node list" where
  "item_view now s it =
     (let sel = hi_id it \<in> set (hp_selected s) in
      [Button (if sel then ''deselect entry'' else ''select entry'') False]
      @ (if hp_renaming s = Some (hi_id it) then [TextField [] (hp_renameDraft s)] else [Text (item_title it)])
      @ [Text (fmtRel now (hi_created_at it)), Text (num_to_string (hi_count it) @ '' matches''),
         Text (num_to_string (hi_elapsed_ms it) @ '' ms'')]
      @ (case hi_results it of [] \<Rightarrow> [] | r # _ \<Rightarrow> [Text (top_text r)])
      @ (if hi_tags it \<noteq> [] \<or> hp_tagging s = Some (hi_id it)
         then map Text (hi_tags it) @
           (if hp_tagging s = Some (hi_id it) then [TextField ''add tags, comma separated'' (hp_tagDraft s)] else [])
         else [])
      @ [Button (if hi_starred it then ''unstar entry'' else ''star entry'') False,
         Button ''rename'' False, Button ''add tag'' False, Button ''delete'' False])"

definition pager_view :: "history_page \<Rightarrow> node list" where
  "pager_view s =
     (if pager_shown s
      then [Text (''page '' @ int_to_string (hp_page s) @ '' of '' @ int_to_string (hp_pages s)),
            Button ''prev'' (hp_offset s = 0), Button ''next'' (hp_offset s + PAGE \<ge> hp_total s)]
      else [])"

definition bar_view :: "history_page \<Rightarrow> node list" where
  "bar_view s =
     (if hp_items s = [] then []
      else [Button (if allSelected_flag (hp_selected s) (visibleIds s) then ''deselect all on page'' else ''select all on page'') False,
            Text (if hp_selected s = [] then ''none selected'' else nat_digits (length (hp_selected s)) @ '' selected'')]
           @ (if bar_shown s
              then [Button ''clear'' False, Button ''tag'' (hp_bulkBusy s \<noteq> None),
                    Button (if hp_bulkBusy s = Some BulkDelete then ''deleting...'' else ''delete'') (hp_bulkBusy s \<noteq> None)]
              else [])
           @ (if tag_field s
              then [TextField ''tags, comma separated'' (hp_bulkTagDraft s),
                    Button ''apply tags'' (hp_bulkBusy s \<noteq> None \<or> trim (hp_bulkTagDraft s) = []), Button ''cancel'' False]
              else []))"

text \<open>The distinct tags of the listed entries, sorted.\<close>

definition tagOptions :: "history_page \<Rightarrow> string list" where
  "tagOptions s = js_sort str_cmp (jset_of (concat (map hi_tags (hp_items s))))"

end
