(* ===== verification/HistoryPageLaws.thy ===== *)
theory HistoryPageLaws
  imports HistoryPage
begin

text \<open>
  What the history page keeps over every run: its selection is on the page, its offset is a page
  boundary, its flags say what is under way; and where two bulk operations can meet.
\<close>

section \<open>Frames\<close>

lemma fetch_begin_frame [simp]:
  "hp_data (fetch_begin qs aw s) = hp_data s" "hp_selected (fetch_begin qs aw s) = hp_selected s"
  "hp_offset (fetch_begin qs aw s) = hp_offset s" "hp_bulkBusy (fetch_begin qs aw s) = hp_bulkBusy s"
  "hp_loading (fetch_begin qs aw s)" "hp_tasks (fetch_begin qs aw s) = hp_tasks s @ [Fetching aw]"
  by (simp_all add: fetch_begin_def)

lemma fetch_settle_frame [simp]:
  "hp_tasks (fetch_settle a s) = hp_tasks s" "hp_offset (fetch_settle a s) = hp_offset s"
  "hp_bulkBusy (fetch_settle a s) = hp_bulkBusy s" "\<not> hp_loading (fetch_settle a s)"
  "hp_data (fetch_settle a s) = (case a of FetchOk d \<Rightarrow> Some d | _ \<Rightarrow> None)"
  "hp_selected (fetch_settle a s) =
     (case a of FetchOk d \<Rightarrow> drop_stale (hp_selected s) (hl_items d) | _ \<Rightarrow> hp_selected s)"
  by (simp_all add: fetch_settle_def split: fetch_answer.split)

lemma fetch_done_frame [simp]:
  "hp_tasks (fetch_done aw a s) = hp_tasks s" "hp_offset (fetch_done aw a s) = hp_offset s"
  "hp_bulkBusy (fetch_done aw a s) = (if aw = None then hp_bulkBusy s else None)"
  "\<not> hp_loading (fetch_done aw a s)"
  "hp_data (fetch_done aw a s) = hp_data (fetch_settle a s)"
  "hp_selected (fetch_done aw a s) = hp_selected (fetch_settle a s)"
  by (simp_all add: fetch_done_def Let_def split: option.split prod.split)

lemma pool_finish_frame [simp]:
  "hp_data (pool_finish k qs p s) = hp_data s" "hp_offset (pool_finish k qs p s) = hp_offset s"
  "hp_selected (pool_finish k qs p s) = (if k = BulkDelete then [] else hp_selected s)"
  "hp_bulkBusy (pool_finish k qs p s) = hp_bulkBusy s" "hp_loading (pool_finish k qs p s)"
  "hp_tasks (pool_finish k qs p s) = hp_tasks s @ [Fetching (Some (k, pl_failed p, length (pl_jobs p)))]"
  by (cases k; simp add: pool_finish_def)+

lemma pool_start_done: "pool_done (pool_start jobs) \<longleftrightarrow> jobs = []"
  by (cases jobs) (simp_all add: pool_done_def pool_start_eq pool_limit_def Let_def)

lemma pool_begin_frame [simp]:
  "hp_data (pool_begin k jobs s) = hp_data s" "hp_offset (pool_begin k jobs s) = hp_offset s"
  "hp_selected (pool_begin k jobs s) = (if k = BulkDelete \<and> jobs = [] then [] else hp_selected s)"
  "hp_bulkBusy (pool_begin k jobs s) = Some k"
  "hp_loading (pool_begin k jobs s) = (jobs = [] \<or> hp_loading s)"
  by (auto simp: pool_begin_def Let_def pool_start_done)

lemma hp_patch_frame [simp]:
  "hp_data (hp_patch i body s) = hp_data s" "hp_offset (hp_patch i body s) = hp_offset s"
  "hp_selected (hp_patch i body s) = hp_selected s" "hp_bulkBusy (hp_patch i body s) = hp_bulkBusy s"
  "hp_loading (hp_patch i body s) = hp_loading s"
  "hp_tasks (hp_patch i body s) = hp_tasks s @ [Patching (history_query s)]"
  by (simp_all add: hp_patch_def)

lemma row_step_frame [simp]:
  "hp_data (row_step r it s) = hp_data s" "hp_offset (row_step r it s) = hp_offset s"
  "hp_selected (row_step r it s) = hp_selected s" "hp_bulkBusy (row_step r it s) = hp_bulkBusy s"
  "hp_loading (row_step r it s) = hp_loading s"
  by (cases r; simp add: hp_remove_def)+

lemma row_step_tasks: "\<exists>ts. hp_tasks (row_step r it s) = hp_tasks s @ ts \<and> list_all (\<lambda>t. \<exists>qs. t = Patching qs) ts"
proof (cases r)
  case (RemoveEntry confirmed)
  then show ?thesis by (cases confirmed) (auto simp: hp_remove_def intro: exI [of _ "[]"])
qed (auto intro: exI [of _ "[]"])

lemma with_item_cases: "with_item i f s = s \<or> (\<exists>it. with_item i f s = f it s)"
  by (auto simp: with_item_def split: option.split)

section \<open>The selection of the page and that of the library\<close>

lemma drop_stale_filter: "distinct prev \<Longrightarrow> drop_stale prev items = filter (\<lambda>i. i \<in> hi_id ` set items) prev"
proof -
  assume d: "distinct prev"
  let ?f = "filter (\<lambda>i. i \<in> hi_id ` set items) prev"
  have vis: "set (jset_of (map hi_id items)) = hi_id ` set items"
    by (simp add: jset_of_def)
  have "drop_stale prev items = (if length ?f = length prev then prev else ?f)"
    using d by (simp add: drop_stale_def Let_def vis pruneStale_fold flip: jset_of_def) (simp add: jset_of_distinct)
  moreover have "?f = prev" if "length ?f = length prev"
    using that by (metis filter_id_conv length_filter_less less_irrefl)
  ultimately show ?thesis by (auto split: if_splits)
qed

text \<open>
  The page repeats the selection of \<open>lib/bulkSelect.ts\<close> inline; on sets of ids its handlers and its
  checkbox are exactly those of the library.
\<close>

theorem page_selection_lib:
  assumes "distinct prev"
  shows "page_toggleOne i prev = toggleId prev i \<and> page_toggleAll (map hi_id items) prev = toggleAll prev (map hi_id items) \<and>
    drop_stale prev items = pruneStale prev (map hi_id items) \<and>
    summarize prev (map hi_id items) =
      \<lparr>count = length prev, allSelected = allSelected_flag prev (map hi_id items),
       someSelected = someSelected_flag prev (map hi_id items)\<rparr>"
proof (intro conjI)
  show "page_toggleOne i prev = toggleId prev i" by (simp add: page_toggleOne_def toggleId_def)
  show "page_toggleAll (map hi_id items) prev = toggleAll prev (map hi_id items)"
    by (cases items) (simp_all add: page_toggleAll_def toggleAll_def allOn_def jset_delete_all_def jset_add_all_def)
  show "drop_stale prev items = pruneStale prev (map hi_id items)"
    using assms by (simp add: drop_stale_filter pruneStale_filter)
  show "summarize prev (map hi_id items) =
      \<lparr>count = length prev, allSelected = allSelected_flag prev (map hi_id items),
       someSelected = someSelected_flag prev (map hi_id items)\<rparr>"
    by (simp add: summarize_def allSelected_flag_def someSelected_flag_def allOn_def Let_def)
qed

theorem page_selection_lib_witness:
  "page_toggleOne ''b'' [''a'', ''b''] = toggleId [''a'', ''b''] ''b'' \<and> drop_stale [''a'', ''b''] [] = pruneStale [''a'', ''b''] []"
proof -
  have "distinct [''a'', ''b'']" by simp
  from page_selection_lib [OF this, of "''b''" "[]"] show ?thesis by simp
qed

section \<open>The selection is on the page\<close>

definition selection_good :: "history_page \<Rightarrow> bool" where
  "selection_good s \<longleftrightarrow> distinct (hp_selected s) \<and> (hp_data s = None \<or> set (hp_selected s) \<subseteq> set (visibleIds s))"

lemma visibleIds_data: "visibleIds s = (case hp_data s of None \<Rightarrow> [] | Some d \<Rightarrow> map hi_id (hl_items d))"
  by (simp add: visibleIds_def hp_items_def split: option.split)

lemma selection_cong:
  "hp_data t = hp_data s \<Longrightarrow> hp_selected t = hp_selected s \<or> hp_selected t = [] \<Longrightarrow> selection_good s \<Longrightarrow> selection_good t"
  by (auto simp: selection_good_def visibleIds_data)

lemma fetch_done_selection: "selection_good s \<Longrightarrow> selection_good (fetch_done aw a s)"
  by (cases a) (auto simp: selection_good_def visibleIds_data drop_stale_filter)

lemma answer_selection: "selection_good s \<Longrightarrow> selection_good (hp_answer i a w ok s)"
proof (cases "i < length (hp_tasks s)")
  case True
  assume g: "selection_good s"
  have t: "selection_good (s\<lparr>hp_tasks := drop_nth i (hp_tasks s)\<rparr>)" using g by (rule selection_cong [rotated 2]) simp_all
  show ?thesis
  proof (cases "hp_tasks s ! i")
    case (Fetching aw)
    then show ?thesis using True fetch_done_selection [OF t] by (simp add: hp_answer_def Let_def)
  next
    case (Patching qs)
    then show ?thesis using True t by (auto simp: hp_answer_def Let_def intro: selection_cong [OF _ _ t])
  next
    case (Pooling k qs p)
    then show ?thesis using True t g
      by (cases k) (auto simp: hp_answer_def Let_def intro: selection_cong [OF _ _ t] selection_cong [OF _ _ g])
  qed
qed (simp add: hp_answer_def)

lemma toggle_selection: "selection_good s \<Longrightarrow> selection_good (toggleOne_click i s)" "selection_good s \<Longrightarrow> selection_good (toggleAll_click s)"
proof -
  assume g: "selection_good s"
  show "selection_good (toggleOne_click i s)"
    using g by (auto simp: toggleOne_click_def page_toggleOne_def selection_good_def visibleIds_data distinct_jset_delete
        split: option.split)
  have "distinct (page_toggleAll v (hp_selected s))" "set (page_toggleAll v (hp_selected s)) \<subseteq> set (hp_selected s) \<union> set v" for v
    using g by (auto simp: page_toggleAll_def selection_good_def distinct_jset_delete_all
        simp flip: jset_add_all_def jset_delete_all_def)
  then show "selection_good (toggleAll_click s)"
    using g by (fastforce simp: toggleAll_click_def selection_good_def visibleIds_data split: option.split)
qed

lemma step_selection: "selection_good s \<Longrightarrow> selection_good (hp_step op s)"
proof (cases op)
  case (Row i r)
  then show "selection_good s \<Longrightarrow> selection_good (hp_step op s)"
    using with_item_cases [of i "row_step r" s] by (auto intro: selection_cong)
next
  case (SetFilters q tag key starred)
  then show "selection_good s \<Longrightarrow> selection_good (hp_step op s)" by (auto simp: set_filters_def intro: selection_cong)
qed (auto simp: answer_selection toggle_selection fire_timer_def refresh_click_def prev_click_def next_click_def
    delete_click_def bulkDelete_def tag_click_def tag_enter_def bulkAddTags_def Let_def intro: selection_cong)

text \<open>
  C6. The selection never leaves the page: over every run, with filters changed, pages turned, loads answered
  in any order and bulk operations interleaved, the selected ids are distinct, and whenever a list is
  shown each of them is one of its rows; so a bulk delete is confirmed for rows that are on the screen.
\<close>

theorem selection_on_page:
  "distinct (hp_selected (hp_run ops)) \<and>
   (case hp_data (hp_run ops) of None \<Rightarrow> True | Some d \<Rightarrow> set (hp_selected (hp_run ops)) \<subseteq> hi_id ` set (hl_items d))"
proof -
  have "selection_good s \<Longrightarrow> selection_good (fold hp_step ops s)" for s
    by (induction ops arbitrary: s) (simp_all add: step_selection)
  moreover have "selection_good hp_start" by (simp add: selection_good_def hp_start_def)
  ultimately have "selection_good (hp_run ops)" by (simp add: hp_run_def)
  then show ?thesis by (auto simp: selection_good_def visibleIds_data split: option.split)
qed

section \<open>Pages\<close>

definition offset_good :: "history_page \<Rightarrow> bool" where
  "offset_good s \<longleftrightarrow> 0 \<le> hp_offset s \<and> PAGE dvd hp_offset s"

lemma offset_cong: "hp_offset t = hp_offset s \<Longrightarrow> offset_good s \<Longrightarrow> offset_good t"
  by (simp add: offset_good_def)

lemma answer_offset [simp]: "hp_offset (hp_answer i a w ok s) = hp_offset s"
  by (cases "hp_tasks s ! i") (simp_all add: hp_answer_def Let_def)

lemma step_offset: "offset_good s \<Longrightarrow> offset_good (hp_step op s)"
proof (cases op)
  case (Row i r)
  then show "offset_good s \<Longrightarrow> offset_good (hp_step op s)"
    using with_item_cases [of i "row_step r" s] by (auto intro: offset_cong)
next
  case PrevClick
  assume g: "offset_good s"
  then obtain n where n: "hp_offset s = PAGE * n" by (auto simp: offset_good_def)
  show "offset_good (hp_step op s)"
  proof (cases "n \<le> 0")
    case True
    then have "hp_offset s = 0" using g n by (auto simp: offset_good_def PAGE_def)
    then show ?thesis using g PrevClick by (simp add: prev_click_def)
  next
    case False
    then have "0 \<le> hp_offset s - PAGE" using n by (simp add: PAGE_def)
    then show ?thesis using g PrevClick by (auto simp: prev_click_def offset_good_def max_def)
  qed
next
  case NextClick
  then show "offset_good s \<Longrightarrow> offset_good (hp_step op s)"
    by (auto simp: next_click_def offset_good_def PAGE_def)
qed (auto simp: fire_timer_def refresh_click_def set_filters_def toggleOne_click_def toggleAll_click_def
    delete_click_def bulkDelete_def tag_click_def tag_enter_def bulkAddTags_def Let_def offset_good_def)

lemma run_offset: "offset_good (hp_run ops)"
proof -
  have "offset_good s \<Longrightarrow> offset_good (fold hp_step ops s)" for s
    by (induction ops arbitrary: s) (simp_all add: step_offset)
  moreover have "offset_good hp_start" by (simp add: offset_good_def hp_start_def)
  ultimately show ?thesis by (simp add: hp_run_def)
qed

text \<open>
  Paging: the offset that is asked for is always a multiple of the page size and never negative, so every
  page starts at a page boundary; and where the pager offers the next page, that page holds an entry,
  and the button before it leads back.
\<close>

theorem paging:
  assumes "pager_shown (hp_run ops)" and "hp_offset (hp_run ops) + PAGE < hp_total (hp_run ops)"
  shows "0 \<le> hp_offset (hp_run ops) \<and> hp_offset (hp_run ops) mod PAGE = 0 \<and>
    hp_offset (next_click (hp_run ops)) < hp_total (hp_run ops) \<and>
    hp_page (next_click (hp_run ops)) = hp_page (hp_run ops) + 1 \<and>
    hp_page (next_click (hp_run ops)) \<le> hp_pages (hp_run ops) \<and>
    hp_offset (prev_click (next_click (hp_run ops))) = hp_offset (hp_run ops)"
proof -
  let ?s = "hp_run ops"
  have g: "0 \<le> hp_offset ?s" "PAGE dvd hp_offset ?s" using run_offset [of ops] by (auto simp: offset_good_def)
  then obtain n where n: "hp_offset ?s = PAGE * n" by auto
  have fwd: "next_click ?s = ?s\<lparr>hp_offset := hp_offset ?s + PAGE, hp_timer := True\<rparr>"
    using assms by (simp add: next_click_def)
  have shown: "pager_shown (next_click ?s)" using assms(1) by (simp add: fwd pager_shown_def hp_total_def)
  have ret: "hp_offset (prev_click (next_click ?s)) = hp_offset ?s"
    using shown g(1) by (simp add: prev_click_def) (simp add: fwd PAGE_def)
  have pg: "hp_page t = hp_offset t div PAGE + 1" for t
    by (simp add: hp_page_def PAGE_def floor_divide_of_int_eq [of _ 25, simplified])
  have "rat_of_int (n + 1) < rat_of_int (hp_total ?s) / rat_of_int PAGE"
  proof -
    have "PAGE * (n + 1) < hp_total ?s" using assms(2) n by (simp add: PAGE_def)
    then have "rat_of_int (PAGE * (n + 1)) < rat_of_int (hp_total ?s)" by (simp only: of_int_less_iff)
    then show ?thesis by (simp add: PAGE_def field_simps)
  qed
  then have "n + 1 < ceiling (rat_of_int (hp_total ?s) / rat_of_int PAGE)" by (simp add: less_ceiling_iff)
  then have "hp_page (next_click ?s) \<le> hp_pages ?s"
    by (simp add: pg hp_pages_def fwd n PAGE_def)
  then show ?thesis
    using assms g ret n by (simp add: fwd pg PAGE_def)
qed

lemmas run_defs =
  hp_run_def hp_start_def fire_timer_def fetch_begin_def hp_answer_def fetch_done_def fetch_settle_def drop_stale_def
  drop_nth_def hp_total_def pager_shown_def

definition sixty :: HistoryList where
  "sixty = \<lparr>hl_items = [], hl_total = 60, hl_limit = 25, hl_offset = 0\<rparr>"

theorem paging_witness:
  "pager_shown (hp_run [FireTimer, Reply 0 (FetchOk sixty) 0 True]) \<and>
   hp_page (next_click (hp_run [FireTimer, Reply 0 (FetchOk sixty) 0 True])) =
     hp_page (hp_run [FireTimer, Reply 0 (FetchOk sixty) 0 True]) + 1"
proof -
  let ?s = "hp_run [FireTimer, Reply 0 (FetchOk sixty) 0 True]"
  have "pager_shown ?s" by (simp add: run_defs sixty_def PAGE_def Let_def)
  moreover have "hp_offset ?s + PAGE < hp_total ?s" by (simp add: run_defs sixty_def PAGE_def Let_def)
  ultimately show ?thesis using paging by blast
qed

section \<open>What the flags say\<close>

definition is_bulk :: "hp_task \<Rightarrow> bool" where
  "is_bulk t \<longleftrightarrow> (case t of Fetching aw \<Rightarrow> aw \<noteq> None | Patching qs \<Rightarrow> False | Pooling k qs p \<Rightarrow> True)"

lemma is_bulk_simps [simp]:
  "is_bulk (Fetching aw) = (aw \<noteq> None)" "\<not> is_bulk (Patching qs)" "is_bulk (Pooling k qs p)"
  by (simp_all add: is_bulk_def)

definition bulk_count :: "history_page \<Rightarrow> nat" where
  "bulk_count s = length (filter is_bulk (hp_tasks s))"

definition bulk_good :: "history_page \<Rightarrow> bool" where
  "bulk_good s \<longleftrightarrow> bulk_count s = (if hp_bulkBusy s = None then 0 else 1)"

lemma filter_length_update: "i < length xs \<Longrightarrow> q y = q (xs ! i) \<Longrightarrow> length (filter q (xs[i := y])) = length (filter q xs)"
  by (induction xs arbitrary: i) (auto split: nat.split simp: nth_Cons)

lemma filter_length_drop:
  "i < length xs \<Longrightarrow> length (filter q xs) = length (filter q (drop_nth i xs)) + (if q (xs ! i) then 1 else 0)"
proof -
  assume "i < length xs"
  then obtain ys zs where x: "xs = ys @ xs ! i # zs" and d: "drop_nth i xs = ys @ zs" using drop_nth_split by blast
  show ?thesis unfolding d by (subst x) simp
qed

lemma pool_begin_count: "bulk_count (pool_begin k jobs s) = Suc (bulk_count s)"
  by (simp add: pool_begin_def Let_def bulk_count_def)

lemma row_step_count: "bulk_count (row_step r it s) = bulk_count s"
  using row_step_tasks [of r it s] by (fastforce simp: bulk_count_def list_all_iff filter_empty_conv)

lemma answer_bulk: "bulk_good s \<Longrightarrow> bulk_good (hp_answer i a w ok s)"
proof (cases "i < length (hp_tasks s)")
  case True
  assume g: "bulk_good s"
  note d = filter_length_drop [OF True, of is_bulk]
  show ?thesis
  proof (cases "hp_tasks s ! i")
    case (Fetching aw)
    then show ?thesis using True g d
      by (auto simp: hp_answer_def Let_def bulk_good_def bulk_count_def split: if_splits)
  next
    case (Patching qs)
    then show ?thesis using True g d
      by (auto simp: hp_answer_def Let_def bulk_good_def bulk_count_def)
  next
    case (Pooling k qs p)
    then show ?thesis using True g d
      by (auto simp: hp_answer_def Let_def bulk_good_def bulk_count_def filter_length_update split: if_splits)
  qed
qed (simp add: hp_answer_def)

lemma pool_begin_bulk: "bulk_good s \<Longrightarrow> hp_bulkBusy s = None \<Longrightarrow> bulk_good (pool_begin k jobs s)"
  by (simp add: bulk_good_def pool_begin_count)

lemma bulk_cong: "hp_bulkBusy t = hp_bulkBusy s \<Longrightarrow> bulk_count t = bulk_count s \<Longrightarrow> bulk_good s \<Longrightarrow> bulk_good t"
  by (simp add: bulk_good_def)

lemma step_bulk: "bulk_good s \<Longrightarrow> op \<noteq> TagEnter \<Longrightarrow> bulk_good (hp_step op s)"
proof (cases op)
  case (Row i r)
  then show "bulk_good s \<Longrightarrow> bulk_good (hp_step op s)"
    using with_item_cases [of i "row_step r" s] by (auto intro: bulk_cong simp: row_step_count)
next
  case (DeleteClick confirmed)
  then show "bulk_good s \<Longrightarrow> bulk_good (hp_step op s)"
    by (simp add: delete_click_def bulkDelete_def pool_begin_bulk)
next
  case TagClick
  then show "bulk_good s \<Longrightarrow> bulk_good (hp_step op s)"
    by (simp add: tag_click_def bulkAddTags_def Let_def pool_begin_bulk)
next
  case (Reply i a w ok)
  then show "bulk_good s \<Longrightarrow> bulk_good (hp_step op s)" by (simp add: answer_bulk)
qed (auto simp: fire_timer_def refresh_click_def set_filters_def toggleOne_click_def toggleAll_click_def
    prev_click_def next_click_def bulk_count_def bulk_good_def)

text \<open>
  C18. Bulk operations exclude each other as far as the buttons go: over every run in which the tag field is
  confirmed with its button, at most one of them is under way (its requests, or the load it awaits),
  and exactly while the page says that it is busy.
\<close>

theorem bulk_exclusive:
  assumes "list_all (\<lambda>op. op \<noteq> TagEnter) ops"
  shows "bulk_count (hp_run ops) = (if hp_bulkBusy (hp_run ops) = None then 0 else 1)"
proof -
  have "list_all (\<lambda>op. op \<noteq> TagEnter) ops \<Longrightarrow> bulk_good s \<Longrightarrow> bulk_good (fold hp_step ops s)" for s
    by (induction ops arbitrary: s) (simp_all add: step_bulk)
  moreover have "bulk_good hp_start" by (simp add: bulk_good_def bulk_count_def hp_start_def)
  ultimately have "bulk_good (hp_run ops)" using assms by (simp add: hp_run_def)
  then show ?thesis by (simp add: bulk_good_def)
qed

definition one_row :: HistoryList where
  "one_row =
     \<lparr>hl_items =
        [\<lparr>hi_id = ''a'', hi_created_at = 1, hi_updated_at = 1, hi_query_id = ''q'', hi_elapsed_ms = 5, hi_count = 0,
          hi_results = [], hi_filename = None, hi_duration_sec = None, hi_name = None, hi_tags = [], hi_starred = False\<rparr>],
      hl_total = 1, hl_limit = 25, hl_offset = 0\<rparr>"

theorem bulk_exclusive_witness:
  "bulk_count (hp_run [FireTimer, Reply 0 (FetchOk one_row) 0 True, ToggleOne ''a'', DeleteClick True]) = 1"
proof -
  let ?ops = "[FireTimer, Reply 0 (FetchOk one_row) 0 True, ToggleOne ''a'', DeleteClick True]"
  have "hp_bulkBusy (hp_run ?ops) = Some BulkDelete" by code_simp
  with bulk_exclusive [of ?ops] show ?thesis by simp
qed

text \<open>
  The key in the tag field does not ask whether a bulk operation is under way: a second one starts beside the
  first, the same entry is patched while it is deleted, and the first to end says that the page is idle
  while the other goes on.
\<close>

theorem enter_overlaps:
  "let ops = [FireTimer, Reply 0 (FetchOk one_row) 0 True, ToggleOne ''a'', ShowTagField, TagFieldDraft ''x'',
      DeleteClick True, TagEnter]
   in bulk_count (hp_run ops) = 2 \<and>
      (let s = hp_run (ops @ [Reply 1 (FetchOk one_row) 0 True, Reply 1 (FetchOk one_row) 0 True])
       in hp_bulkBusy s = None \<and> bulk_count s = 1)"
  by code_simp

definition is_fetch :: "hp_task \<Rightarrow> bool" where
  "is_fetch t \<longleftrightarrow> (case t of Fetching aw \<Rightarrow> True | _ \<Rightarrow> False)"

lemma is_fetch_simps [simp]: "is_fetch (Fetching aw)" "\<not> is_fetch (Patching qs)" "\<not> is_fetch (Pooling k qs p)"
  by (simp_all add: is_fetch_def)

definition fetch_count :: "history_page \<Rightarrow> nat" where
  "fetch_count s = length (filter is_fetch (hp_tasks s))"

definition flags_good :: "history_page \<Rightarrow> bool" where
  "flags_good s \<longleftrightarrow> (hp_bulkBusy s = None \<or> 0 < bulk_count s) \<and> (hp_loading s \<longrightarrow> 0 < fetch_count s)"

lemma answer_flags: "flags_good s \<Longrightarrow> flags_good (hp_answer i a w ok s)"
proof (cases "i < length (hp_tasks s)")
  case True
  assume g: "flags_good s"
  note d = filter_length_drop [OF True, of is_bulk] filter_length_drop [OF True, of is_fetch]
  show ?thesis
  proof (cases "hp_tasks s ! i")
    case (Fetching aw)
    then show ?thesis using True g d
      by (auto simp: hp_answer_def Let_def flags_good_def bulk_count_def fetch_count_def)
  next
    case (Patching qs)
    then show ?thesis using True g d
      by (auto simp: hp_answer_def Let_def flags_good_def bulk_count_def fetch_count_def)
  next
    case (Pooling k qs p)
    let ?p = "Pooling k qs (pool_answer w ok p)"
    show ?thesis
      using True g d Pooling filter_length_update [OF True, of is_bulk ?p] filter_length_update [OF True, of is_fetch ?p]
      by (auto simp: hp_answer_def Let_def flags_good_def bulk_count_def fetch_count_def)
  qed
qed (simp add: hp_answer_def)

lemma pool_begin_flags: "flags_good s \<Longrightarrow> flags_good (pool_begin k jobs s)"
proof -
  have "hp_tasks (pool_begin k jobs s) = hp_tasks s @ [Fetching (Some (k, pl_failed (pool_start jobs), length jobs))] \<or>
      (jobs \<noteq> [] \<and> hp_tasks (pool_begin k jobs s) = hp_tasks s @ [Pooling k (history_query s) (pool_start jobs)])"
    by (auto simp: pool_begin_def Let_def pool_start_done) (simp add: pool_start_eq)
  then show "flags_good s \<Longrightarrow> flags_good (pool_begin k jobs s)"
    by (auto simp: flags_good_def bulk_count_def fetch_count_def)
qed

lemma row_step_fetch_count: "fetch_count (row_step r it s) = fetch_count s"
  using row_step_tasks [of r it s] by (fastforce simp: fetch_count_def list_all_iff filter_empty_conv)

lemma step_flags: "flags_good s \<Longrightarrow> flags_good (hp_step op s)"
proof (cases op)
  case (Row i r)
  then show "flags_good s \<Longrightarrow> flags_good (hp_step op s)"
    using with_item_cases [of i "row_step r" s] by (auto simp: flags_good_def row_step_count row_step_fetch_count)
next
  case (Reply i a w ok)
  then show "flags_good s \<Longrightarrow> flags_good (hp_step op s)" by (simp add: answer_flags)
next
  case (DeleteClick confirmed)
  then show "flags_good s \<Longrightarrow> flags_good (hp_step op s)"
    by (simp add: delete_click_def bulkDelete_def pool_begin_flags)
next
  case TagClick
  then show "flags_good s \<Longrightarrow> flags_good (hp_step op s)"
    by (simp add: tag_click_def bulkAddTags_def Let_def pool_begin_flags)
next
  case TagEnter
  then show "flags_good s \<Longrightarrow> flags_good (hp_step op s)"
    by (simp add: tag_enter_def bulkAddTags_def Let_def pool_begin_flags)
qed (auto simp: fire_timer_def refresh_click_def set_filters_def toggleOne_click_def toggleAll_click_def
    prev_click_def next_click_def flags_good_def bulk_count_def fetch_count_def)

text \<open>
  The skeleton goes away and the buttons come back: over every run, with or without the key, a page
  that shows that it loads has a load under way, and a page that says it is busy with a bulk
  operation has one under way, whose last answer ends it.
\<close>

theorem flags_backed:
  "(if hp_loading (hp_run ops) then list_ex is_fetch (hp_tasks (hp_run ops)) else True) \<and>
   (case hp_bulkBusy (hp_run ops) of None \<Rightarrow> True | Some k \<Rightarrow> list_ex is_bulk (hp_tasks (hp_run ops)))"
proof -
  have "flags_good s \<Longrightarrow> flags_good (fold hp_step ops s)" for s
    by (induction ops arbitrary: s) (simp_all add: step_flags)
  moreover have "flags_good hp_start" by (simp add: flags_good_def hp_start_def)
  ultimately have "flags_good (hp_run ops)" by (simp add: hp_run_def)
  then show ?thesis
    by (auto simp: flags_good_def bulk_count_def fetch_count_def list_ex_iff length_greater_0_conv filter_empty_conv
        split: option.split)
qed

end
