(* ===== verification/Rounding.thy ===== *)
theory Rounding
  imports Numbers
begin

text \<open>
  Rounding to doubles as an operation on rationals: \<open>rnd x\<close> is the double next to \<open>x\<close>, for the values of
  the drawing code, which are far from the largest double. It is monotone and keeps the whole numbers
  up to \<open>2 ^ 53\<close>, so bounds between such numbers survive every operation.
\<close>

definition rnd :: "rat \<Rightarrow> rat" where
  "rnd x = (case dbl x of Fin y \<Rightarrow> y | _ \<Rightarrow> x)"

section \<open>Powers of two\<close>

lemma pow2_Suc: "pow2 (k + 1) = 2 * pow2 k"
proof (cases "0 \<le> k")
  case True
  then show ?thesis by (simp add: pow2_def nat_add_distrib)
next
  case False
  then have "nat (- k) = Suc (nat (- (k + 1)))" by simp
  then show ?thesis using False by (cases "k = -1") (simp_all add: pow2_def field_simps)
qed

lemma pow2_add_nat: "pow2 (k + int n) = pow2 k * 2 ^ n"
proof (induction n)
  case (Suc n)
  have "pow2 (k + int (Suc n)) = pow2 ((k + int n) + 1)" by (simp add: add_ac)
  then show ?case using Suc by (simp only: pow2_Suc) simp
qed simp

lemma pow2_mono: "a \<le> b \<Longrightarrow> pow2 a \<le> pow2 b"
proof -
  assume "a \<le> b"
  then have b: "b = a + int (nat (b - a))" by simp
  have "pow2 a * 1 \<le> pow2 a * 2 ^ nat (b - a)" by (intro mult_left_mono) (simp_all add: less_imp_le)
  then show "pow2 a \<le> pow2 b" by (subst b) (simp only: pow2_add_nat mult_1_right)
qed

lemma pow2_less: "pow2 a < pow2 b \<Longrightarrow> a < b"
  using pow2_mono [of b a] by linarith

lemma pow2_eq_power: "pow2 (int n) = 2 ^ n"
  by (simp add: pow2_def)

lemma pow2_nat_bounds: "2 ^ k \<le> n \<Longrightarrow> pow2 (int k) \<le> of_nat n" "n < 2 ^ k \<Longrightarrow> of_nat n < pow2 (int k)"
  using of_nat_le_iff [of "2 ^ k" n, where 'a = rat] of_nat_less_iff [of n "2 ^ k", where 'a = rat]
  by (simp_all add: pow2_eq_power)

text \<open>The exponent of a positive number.\<close>

lemma ilog2_bounds:
  assumes "0 < x"
  shows "pow2 (ilog2 x) \<le> x \<and> x < pow2 (ilog2 x + 1)"
proof -
  obtain p q where pq: "quotient_of x = (p, q)" by force
  have q: "0 < q" and x: "x = of_int p / of_int q" using pq by (auto simp: quotient_of_denom_pos quotient_of_div)
  have p: "0 < p" using assms q by (simp add: x zero_less_divide_iff)
  let ?m = "bitlen (nat p)" and ?n = "bitlen (nat q)"
  have b: "2 ^ (?m - 1) \<le> nat p" "nat p < 2 ^ ?m" "2 ^ (?n - 1) \<le> nat q" "nat q < 2 ^ ?n"
    using bitlen_bounds [of "nat p"] bitlen_bounds [of "nat q"] p q by auto
  have b0: "0 < ?m" "0 < ?n" using p q by (simp_all add: bitlen.simps [of "nat p"] bitlen.simps [of "nat q"])
  have ip: "(of_nat (nat p) :: rat) = of_int p" "(of_nat (nat q) :: rat) = of_int q" using p q by simp_all
  have pr: "pow2 (int ?m - 1) \<le> of_int p" "of_int p < pow2 (int ?m)"
    "pow2 (int ?n - 1) \<le> of_int q" "of_int q < pow2 (int ?n)"
  proof -
    have s: "int ?m - 1 = int (?m - 1)" "int ?n - 1 = int (?n - 1)" using b0 by simp_all
    show "pow2 (int ?m - 1) \<le> of_int p" "of_int p < pow2 (int ?m)"
      "pow2 (int ?n - 1) \<le> of_int q" "of_int q < pow2 (int ?n)"
      unfolding s ip [symmetric] by (rule pow2_nat_bounds b)+
  qed
  let ?e = "int ?m - int ?n"
  have up: "x < pow2 (?e + 1)"
  proof -
    have e: "int ?m = int ?m" "int (?n - 1) = int ?n - 1" using b0 by simp_all
    have "pow2 (int ?m) = pow2 (?e + 1) * pow2 (int ?n - 1)"
      using pow2_add_nat [of "?e + 1" "?n - 1"] unfolding pow2_eq_power [symmetric] e(2) by simp
    then have "of_int p < pow2 (?e + 1) * pow2 (int ?n - 1)" using pr(2) by simp
    also have "\<dots> \<le> pow2 (?e + 1) * of_int q" using pr(3) by (intro mult_left_mono) (simp_all add: less_imp_le)
    finally show ?thesis using q by (simp add: x divide_less_eq)
  qed
  have lo: "pow2 (?e - 1) \<le> x"
  proof -
    have "pow2 (?e - 1) * of_int q \<le> pow2 (?e - 1) * pow2 (int ?n)"
      using pr(4) by (intro mult_left_mono) (simp_all add: less_imp_le)
    also have "\<dots> = pow2 (int ?m - 1)" using pow2_add_nat [of "?e - 1" ?n] by (simp add: pow2_eq_power)
    also have "\<dots> \<le> of_int p" by (rule pr(1))
    finally show ?thesis using q by (simp add: x le_divide_eq)
  qed
  show ?thesis using up lo by (simp add: ilog2_def pq Let_def not_le)
qed

lemma ilog2_mono: "0 < x \<Longrightarrow> x \<le> y \<Longrightarrow> ilog2 x \<le> ilog2 y"
proof -
  assume "0 < x" "x \<le> y"
  then have "pow2 (ilog2 x) < pow2 (ilog2 y + 1)" using ilog2_bounds [of x] ilog2_bounds [of y] by linarith
  then show "ilog2 x \<le> ilog2 y" using pow2_less by fastforce
qed

lemma half_even_bounds: "floor x \<le> half_even x \<and> half_even x \<le> floor x + 1"
  by (simp add: half_even_def Let_def)

lemma half_even_mono: "x \<le> y \<Longrightarrow> half_even x \<le> half_even y"
proof -
  assume xy: "x \<le> y"
  show ?thesis
  proof (cases "floor x = floor y")
    case True
    then show ?thesis using xy by (simp add: half_even_def Let_def)
  next
    case False
    then have "floor x + 1 \<le> floor y" using floor_mono [OF xy] by linarith
    then show ?thesis using half_even_bounds [of x] half_even_bounds [of y] by linarith
  qed
qed

section \<open>Rounding is monotone\<close>

text \<open>The scale and the multiple of \<^const>\<open>round_float\<close> at 53 digits.\<close>

definition expo :: "rat \<Rightarrow> int" where
  "expo x = max (ilog2 x) (-1022)"

definition scaled :: "rat \<Rightarrow> int" where
  "scaled x = half_even (x / pow2 (expo x - 52))"

definition rounded :: "rat \<Rightarrow> rat" where
  "rounded x = of_int (scaled x) * pow2 (expo x - 52)"

lemma dbl_rounded: "0 < x \<Longrightarrow> dbl x = (if pow2 1024 \<le> rounded x then PInf else Fin (rounded x))"
  by (simp add: dbl_def round_float_def rounded_def scaled_def expo_def Let_def)

lemma scaled_bounds:
  assumes "0 < x"
  shows "0 \<le> scaled x \<and> scaled x \<le> 2 ^ 53 \<and> (-1022 < expo x \<longrightarrow> 2 ^ 52 \<le> scaled x)"
proof -
  have e: "x < pow2 (expo x + 1)" and l: "-1022 < expo x \<Longrightarrow> pow2 (expo x) \<le> x"
    using ilog2_bounds [OF assms] pow2_mono [of "ilog2 x + 1" "expo x + 1"] by (auto simp: expo_def max_def split: if_splits)
  have p: "pow2 (expo x + 1) = pow2 (expo x - 52) * of_int (2 ^ 53)" "pow2 (expo x) = pow2 (expo x - 52) * of_int (2 ^ 52)"
    using pow2_add_nat [of "expo x - 52" 53] pow2_add_nat [of "expo x - 52" 52] by (simp_all add: add.commute)
  have "x / pow2 (expo x - 52) \<le> of_int (2 ^ 53)" using e unfolding p(1) by (simp add: divide_le_eq mult.commute)
  then have up: "scaled x \<le> 2 ^ 53" using half_even_mono half_even_int unfolding scaled_def by metis
  have "of_int 0 \<le> x / pow2 (expo x - 52)" using assms by (simp add: zero_le_divide_iff less_imp_le)
  then have lo: "0 \<le> scaled x" using half_even_mono half_even_int unfolding scaled_def by metis
  have "2 ^ 52 \<le> scaled x" if "-1022 < expo x"
  proof -
    have "of_int (2 ^ 52) \<le> x / pow2 (expo x - 52)" using l [OF that] unfolding p(2) by (simp add: le_divide_eq mult.commute)
    then show ?thesis using half_even_mono half_even_int unfolding scaled_def by metis
  qed
  then show ?thesis using up lo by blast
qed

lemma rounded_mono:
  assumes "0 < x" "x \<le> y"
  shows "rounded x \<le> rounded y"
proof (cases "expo x = expo y")
  case True
  have "x / pow2 (expo x - 52) \<le> y / pow2 (expo x - 52)" using assms by (intro divide_right_mono) (simp_all add: less_imp_le)
  then have "scaled x \<le> scaled y" unfolding scaled_def True [symmetric] by (rule half_even_mono)
  then show ?thesis unfolding rounded_def True by (intro mult_right_mono) (simp_all add: less_imp_le)
next
  case False
  have y: "0 < y" using assms by linarith
  have e: "expo x + 1 \<le> expo y" using ilog2_mono [OF assms] False by (auto simp: expo_def max_def split: if_splits)
  then have big: "-1022 < expo y" by (simp add: expo_def)
  have "rounded x \<le> of_int (2 ^ 53) * pow2 (expo x - 52)"
    unfolding rounded_def using scaled_bounds [OF assms(1)] by (intro mult_right_mono) (simp_all only: of_int_le_iff less_imp_le pow2_pos)
  also have "\<dots> = pow2 (expo x + 1)"
    using pow2_add_nat [of "expo x - 52" 53] by (simp add: add.commute mult.commute)
  also have "\<dots> \<le> pow2 (expo y)" using e by (rule pow2_mono)
  also have "\<dots> = of_int (2 ^ 52) * pow2 (expo y - 52)" using pow2_add_nat [of "expo y - 52" 52] by simp
  also have "\<dots> \<le> rounded y"
    unfolding rounded_def using scaled_bounds [OF y] big by (intro mult_right_mono) (simp_all only: of_int_le_iff less_imp_le pow2_pos)
  finally show ?thesis .
qed

text \<open>Below \<open>2 ^ 53\<close> nothing overflows, whole numbers stay, and the order is kept.\<close>

lemma rnd_int: "\<bar>n\<bar> < 2 ^ 53 \<Longrightarrow> rnd (of_int n) = of_int n"
  by (simp add: rnd_def dbl_int)

lemma rnd_pos:
  assumes "0 < x" "x \<le> 2 ^ 52"
  shows "rnd x = rounded x"
proof -
  have "rnd (of_int (2 ^ 52)) = of_int (2 ^ 52)" by (rule rnd_int) simp
  moreover have d: "dbl (of_int (2 ^ 52)) = Fin (of_int (2 ^ 52))" by (rule dbl_int) simp
  ultimately have r: "rounded (of_int (2 ^ 52)) = of_int (2 ^ 52)"
    using dbl_rounded [of "of_int (2 ^ 52)"] by (auto split: if_splits)
  have "rounded x \<le> rounded (of_int (2 ^ 52))" using assms by (intro rounded_mono) simp_all
  also have "\<dots> < pow2 1024"
  proof -
    have "pow2 52 < pow2 (52 + 1)" unfolding pow2_Suc by simp
    also have "\<dots> \<le> pow2 1024" by (rule pow2_mono) simp
    finally show ?thesis using pow2_eq_power [of 52] by (simp only: r) simp
  qed
  finally show ?thesis using assms by (simp add: rnd_def dbl_rounded)
qed

lemma rnd_mono:
  assumes "0 \<le> x" "x \<le> y" "y \<le> 2 ^ 52"
  shows "rnd x \<le> rnd y"
proof (cases "x = 0")
  case True
  then show ?thesis
  proof (cases "y = 0")
    case False
    then have "0 < y" using assms by simp
    then show ?thesis using True assms scaled_bounds [of y] rnd_int [of 0] less_imp_le [OF pow2_pos]
      by (simp add: rnd_pos rounded_def)
  qed (use True in simp)
next
  case False
  then show ?thesis using assms by (simp add: rnd_pos rounded_mono)
qed

lemma rnd_between:
  assumes "0 \<le> x" "x \<le> of_nat n" "n \<le> 2 ^ 52"
  shows "0 \<le> rnd x \<and> rnd x \<le> of_nat n"
proof -
  have n: "(of_nat n :: rat) \<le> 2 ^ 52" using assms(3) by (metis of_nat_le_iff of_nat_numeral of_nat_power)
  have i: "rnd (of_nat n) = of_nat n" using rnd_int [of "int n"] assms(3) by simp
  show ?thesis using rnd_mono [OF assms(1, 2) n] rnd_mono [of 0 x] rnd_int [of 0] assms n i by simp
qed

lemma rnd_nonneg: "0 \<le> x \<Longrightarrow> 0 \<le> rnd x"
proof (cases "x = 0")
  case False
  assume "0 \<le> x"
  then have "0 < x" using False by simp
  then show ?thesis
    using scaled_bounds [of x] less_imp_le [OF pow2_pos, of "expo x - 52"] by (auto simp: rnd_def dbl_rounded rounded_def)
qed (use rnd_int [of 0] in simp)

text \<open>A normal number is rounded by at most half a unit of its last place.\<close>

lemma rnd_error:
  assumes "pow2 (-1022) \<le> x" "x \<le> 2 ^ 52"
  shows "\<bar>rnd x - x\<bar> \<le> x / 2 ^ 53"
proof -
  have x: "0 < x" using assms(1) pow2_pos [of "-1022"] by linarith
  have "pow2 (-1022) < pow2 (ilog2 x + 1)" using assms(1) ilog2_bounds [OF x] by linarith
  then have "-1022 \<le> ilog2 x" using pow2_less by fastforce
  then have e: "expo x = ilog2 x" by (simp add: expo_def)
  have half: "\<bar>of_int (half_even y) - y\<bar> \<le> 1 / 2" for y :: rat
    using floor_correct [of y] unfolding half_even_def Let_def of_int_add of_int_1 abs_le_iff
    by (cases "y - of_int (floor y) < 1 / 2"; cases "1 / 2 < y - of_int (floor y)"; simp) linarith+
  have "\<bar>rounded x - x\<bar> = \<bar>of_int (scaled x) - x / pow2 (expo x - 52)\<bar> * pow2 (expo x - 52)"
  proof -
    have "rounded x - x = (of_int (scaled x) - x / pow2 (expo x - 52)) * pow2 (expo x - 52)"
      using pow2_pos [of "expo x - 52"] by (simp add: rounded_def left_diff_distrib less_imp_neq [symmetric])
    then show ?thesis by (simp add: abs_mult less_imp_le)
  qed
  also have "\<dots> \<le> 1 / 2 * pow2 (expo x - 52)"
    unfolding scaled_def by (intro mult_right_mono half) (simp add: less_imp_le)
  also have "\<dots> = pow2 (ilog2 x) / 2 ^ 53" using pow2_add_nat [of "expo x - 52" 52] by (simp add: e)
  also have "\<dots> \<le> x / 2 ^ 53" using ilog2_bounds [OF x] by (simp add: divide_right_mono)
  finally show ?thesis using x assms(2) by (simp add: rnd_pos)
qed

end
