(* ===== verification/PitchOverlay.thy ===== *)
theory PitchOverlay
  imports Rounding History OEmbed NumberText
begin

text \<open>
  \<open>web/components/PitchOverlay.tsx\<close>: the overlay of two pitch contours. Two effects fetch the contours and
  drop the answers of superseded requests; the rows of the chart and the agreement are computed from
  what they hold. Every operation on fractions is rounded (\<^const>\<open>rnd\<close>).
\<close>

section \<open>Effects that fetch\<close>

datatype 'd Fetched = Idle | FLoading | FReady 'd | FError string

text \<open>What an effect does for its dependencies: it has the data, it has nothing to do, or it asks.\<close>

datatype ('k, 'd) dep = Given 'd | Nothing | Ask 'k

text \<open>A request under way, with the flag \<open>cancelled\<close> of the effect that made it.\<close>

record ('k, 'd) effect =
  ef_dep :: "('k, 'd) dep"
  ef_state :: "'d Fetched"
  ef_tasks :: "('k \<times> bool) list"

text \<open>New dependencies: the cleanup of the old effect runs, then the new one.\<close>

definition effect_change :: "('k, 'd) dep \<Rightarrow> ('k, 'd) effect \<Rightarrow> ('k, 'd) effect" where
  "effect_change d e =
     (let old = map (\<lambda>(k, cancelled). (k, True)) (ef_tasks e) in
      case d of
        Given x \<Rightarrow> \<lparr>ef_dep = d, ef_state = FReady x, ef_tasks = old\<rparr>
      | Nothing \<Rightarrow> \<lparr>ef_dep = d, ef_state = Idle, ef_tasks = old\<rparr>
      | Ask k \<Rightarrow> \<lparr>ef_dep = d, ef_state = FLoading, ef_tasks = old @ [(k, False)]\<rparr>)"

definition effect_land :: "('k \<Rightarrow> 'd Fetched) \<Rightarrow> nat \<Rightarrow> ('k, 'd) effect \<Rightarrow> ('k, 'd) effect" where
  "effect_land result i e =
     (if i < length (ef_tasks e) then
        (let (k, cancelled) = ef_tasks e ! i; t = e\<lparr>ef_tasks := take i (ef_tasks e) @ drop (Suc i) (ef_tasks e)\<rparr>
         in if cancelled then t else t\<lparr>ef_state := result k\<rparr>)
      else e)"

datatype ('k, 'd) effect_op = Change "('k, 'd) dep" | Land nat

fun effect_step :: "('k \<Rightarrow> 'd Fetched) \<Rightarrow> ('k, 'd) effect_op \<Rightarrow> ('k, 'd) effect \<Rightarrow> ('k, 'd) effect" where
  "effect_step result (Change d) e = effect_change d e"
| "effect_step result (Land i) e = effect_land result i e"

definition effect_mount :: "('k, 'd) dep \<Rightarrow> ('k, 'd) effect" where
  "effect_mount d = effect_change d \<lparr>ef_dep = Nothing, ef_state = Idle, ef_tasks = []\<rparr>"

definition effect_run :: "('k \<Rightarrow> 'd Fetched) \<Rightarrow> ('k, 'd) dep \<Rightarrow> ('k, 'd) effect_op list \<Rightarrow> ('k, 'd) effect" where
  "effect_run result d ops = fold (effect_step result) ops (effect_mount d)"

section \<open>The two requests\<close>

datatype contour_answer = AThrew string | ARefused nat string string | AContour PitchContour

definition refusal_text :: "nat \<Rightarrow> string \<Rightarrow> string \<Rightarrow> string" where
  "refusal_text st statusText body = nat_digits st @ '' '' @ statusText @ '' '' @ take 140 body"

fun query_result :: "contour_answer \<Rightarrow> PitchContour Fetched" where
  "query_result (AThrew m) = FError m"
| "query_result (ARefused st statusText body) = FError (refusal_text st statusText body)"
| "query_result (AContour c) = FReady c"

fun reference_result :: "contour_answer \<Rightarrow> PitchContour Fetched" where
  "reference_result (AThrew m) = FError m"
| "reference_result (ARefused st statusText body) =
     FError (if st = 404 then ''reference audio not available'' else refusal_text st statusText body)"
| "reference_result (AContour c) = FReady c"

text \<open>The dependencies of the query: a saved contour, or a recording to post.\<close>

definition query_dep :: "PitchContour option \<Rightarrow> 'blob option \<Rightarrow> ('blob, PitchContour) dep" where
  "query_dep queryContour queryBlob =
     (case queryContour of
        Some c \<Rightarrow> Given c
      | None \<Rightarrow> (case queryBlob of None \<Rightarrow> Nothing | Some b \<Rightarrow> Ask b))"

definition reference_url :: "string \<Rightarrow> rat \<Rightarrow> rat \<Rightarrow> string" where
  "reference_url trackId segmentIndex windowSec =
     ''/api/track/'' @ encodeURIComponent trackId @ ''/pitch?segment_index='' @ num_to_string segmentIndex @
     ''&window='' @ num_to_string windowSec"

definition reference_dep :: "string \<Rightarrow> rat \<Rightarrow> rat \<Rightarrow> (string, PitchContour) dep" where
  "reference_dep trackId segmentIndex windowSec =
     (if trackId = [] then Nothing else Ask (reference_url trackId segmentIndex windowSec))"

section \<open>Notes\<close>

definition note_names :: "string list" where
  "note_names = [''C'', ''C#'', ''D'', ''D#'', ''E'', ''F'', ''F#'', ''G'', ''G#'', ''A'', ''A#'', ''B'']"

definition noteName :: "rat \<Rightarrow> string" where
  "noteName midi =
     (let n = math_round midi; octave = n div 12 - 1
      in note_names ! nat (n mod 12) @ int_to_string octave)"

definition voiced :: "rat option list \<Rightarrow> rat list" where
  "voiced midi = concat (map (\<lambda>m. case m of None \<Rightarrow> [] | Some x \<Rightarrow> [x]) midi)"

definition normalizeToCommonKey :: "rat option list \<Rightarrow> rat" where
  "normalizeToCommonKey midi =
     (let v = js_sort (by_key (\<lambda>x. x)) (voiced midi) in if v = [] then 0 else v ! (length v div 2))"

section \<open>Rows\<close>

record chart_row =
  cr_t :: jsnum
  cr_query :: "rat option"
  cr_reference :: "rat option"

definition ready_data :: "'d Fetched \<Rightarrow> 'd option" where
  "ready_data f = (case f of FReady d \<Rightarrow> Some d | _ \<Rightarrow> None)"

text \<open>\<open>x / y\<close> and \<open>a * y\<close> for \<open>0 \<le> y\<close>, with what a zero makes of them.\<close>

definition js_div :: "rat \<Rightarrow> rat \<Rightarrow> jsnum" where
  "js_div x y = (if y = 0 then (if x = 0 then NaN else if 0 < x then PInf else NInf) else dbl (x / y))"

definition js_scale :: "jsnum \<Rightarrow> rat \<Rightarrow> jsnum" where
  "js_scale a y =
     (case a of Fin x \<Rightarrow> dbl (x * y) | NaN \<Rightarrow> NaN | _ \<Rightarrow> if y = 0 then NaN else a)"

text \<open>\<open>Math.min(n - 1, Math.max(0, Math.round(v)))\<close>; a NaN stays one.\<close>

definition clamp_index :: "nat \<Rightarrow> jsnum \<Rightarrow> nat option" where
  "clamp_index n v =
     (case v of
        NaN \<Rightarrow> None
      | PInf \<Rightarrow> Some (n - 1)
      | NInf \<Rightarrow> Some 0
      | Fin x \<Rightarrow> Some (min (n - 1) (nat (math_round x))))"

text \<open>An index that is NaN reads \<open>undefined\<close>, which counts as no pitch.\<close>

definition sample :: "PitchContour option \<Rightarrow> rat \<Rightarrow> rat \<Rightarrow> rat option" where
  "sample c t shift =
     (case c of
        None \<Rightarrow> None
      | Some c \<Rightarrow>
          (let n = length (p_midi c) in
           if n = 0 then None
           else case clamp_index n (js_scale (js_div t (p_duration_sec c)) (of_nat (n - 1))) of
                  None \<Rightarrow> None
                | Some i \<Rightarrow> map_option (\<lambda>m. rnd (m + shift)) (p_midi c ! i)))"

definition or_num :: "rat \<Rightarrow> rat \<Rightarrow> rat" where
  "or_num a b = (if a = 0 then b else a)"

definition chart_target :: "rat \<Rightarrow> rat \<Rightarrow> rat" where
  "chart_target qMed rMed =
     or_num (of_int (math_round (rnd (rnd (qMed + rMed) / 2)))) (or_num qMed (or_num rMed 60))"

definition chart_rows :: "PitchContour Fetched \<Rightarrow> PitchContour Fetched \<Rightarrow> chart_row list" where
  "chart_rows q r =
     (let qData = ready_data q; rData = ready_data r in
      if qData = None \<and> rData = None then []
      else
        let qDur = (case qData of None \<Rightarrow> 0 | Some c \<Rightarrow> p_duration_sec c);
            rDur = (case rData of None \<Rightarrow> 0 | Some c \<Rightarrow> p_duration_sec c);
            dur = max (max qDur rDur) (rnd (1 / 100));
            qMed = (case qData of None \<Rightarrow> 0 | Some c \<Rightarrow> normalizeToCommonKey (p_midi c));
            rMed = (case rData of None \<Rightarrow> 0 | Some c \<Rightarrow> normalizeToCommonKey (p_midi c));
            target = chart_target qMed rMed
        in map (\<lambda>i. let t = rnd (rnd (of_nat i / 199) * dur)
                    in \<lparr>cr_t = string_to_number (to_fixed t 3),
                        cr_query = sample qData t (rnd (target - qMed)),
                        cr_reference = sample rData t (rnd (target - rMed))\<rparr>)
             [0..<200])"

section \<open>Agreement\<close>

record chart_stats =
  cs_both :: nat
  cs_agree :: nat
  cs_pct :: int

definition row_both :: "chart_row \<Rightarrow> bool" where
  "row_both row \<longleftrightarrow> cr_query row \<noteq> None \<and> cr_reference row \<noteq> None"

definition row_agrees :: "chart_row \<Rightarrow> bool" where
  "row_agrees row \<longleftrightarrow>
     (case (cr_query row, cr_reference row) of
        (Some x, Some y) \<Rightarrow> \<bar>rnd (x - y)\<bar> \<le> 3 / 2
      | _ \<Rightarrow> False)"

definition chart_stats :: "chart_row list \<Rightarrow> chart_stats" where
  "chart_stats rows =
     (let both = length (filter row_both rows); agree = length (filter row_agrees rows)
      in \<lparr>cs_both = both, cs_agree = agree,
          cs_pct = (if both \<noteq> 0 then math_round (rnd (rnd (of_nat agree / of_nat both) * 100)) else 0)\<rparr>)"

section \<open>What is shown\<close>

datatype overlay_view = Waiting | Unavailable string | Extracting | Chart

definition overlay_body :: "PitchContour Fetched \<Rightarrow> PitchContour Fetched \<Rightarrow> overlay_view" where
  "overlay_body q r =
     (if q = Idle \<and> r = Idle then Waiting
      else
        let err = (case q of FError m \<Rightarrow> Some m | _ \<Rightarrow> (case r of FError m \<Rightarrow> Some m | _ \<Rightarrow> None))
        in case err of
             Some m \<Rightarrow> if m \<noteq> [] then Unavailable m
               else if (q = FLoading \<or> r = FLoading) \<and> chart_rows q r = [] then Extracting else Chart
           | None \<Rightarrow> if (q = FLoading \<or> r = FLoading) \<and> chart_rows q r = [] then Extracting else Chart)"

definition overlay_caption :: "chart_row list \<Rightarrow> string" where
  "overlay_caption rows =
     (let s = chart_stats rows in
      if cs_both s > 0
      then ''agreement '' @ int_to_string (cs_pct s) @ ''% across '' @ nat_digits (cs_both s) @ '' frames''
      else ''melody shape (semitone, key normalised)'')"

section \<open>Properties\<close>

definition effect_good :: "('k \<Rightarrow> 'd Fetched) \<Rightarrow> ('k, 'd) effect \<Rightarrow> bool" where
  "effect_good result e \<longleftrightarrow>
     (case ef_dep e of
        Given x \<Rightarrow> ef_state e = FReady x \<and> filter (\<lambda>(k, c). \<not> c) (ef_tasks e) = []
      | Nothing \<Rightarrow> ef_state e = Idle \<and> filter (\<lambda>(k, c). \<not> c) (ef_tasks e) = []
      | Ask k \<Rightarrow>
          ef_state e = FLoading \<and> filter (\<lambda>(k, c). \<not> c) (ef_tasks e) = [(k, False)] \<or>
          ef_state e = result k \<and> filter (\<lambda>(k, c). \<not> c) (ef_tasks e) = [])"

lemma filter_cancelled [simp]: "filter (\<lambda>(k, c). \<not> c) (map (\<lambda>(k, c). (k, True)) ts) = []"
  by (induction ts) auto

lemma effect_change_good: "effect_good result (effect_change d e)"
  by (cases d) (simp_all add: effect_change_def effect_good_def Let_def)

lemma effect_land_good: "effect_good result e \<Longrightarrow> effect_good result (effect_land result i e)"
proof (cases "i < length (ef_tasks e)")
  case True
  assume g: "effect_good result e"
  obtain k c where kc: "ef_tasks e ! i = (k, c)" by force
  let ?live = "filter (\<lambda>(k, c). \<not> c)"
  define ys zs where ys: "ys = take i (ef_tasks e)" and zs: "zs = drop (Suc i) (ef_tasks e)"
  have t: "ef_tasks e = ys @ (k, c) # zs" unfolding ys zs kc [symmetric] by (rule id_take_nth_drop [OF True])
  have land: "effect_land result i e = (let t = e\<lparr>ef_tasks := ys @ zs\<rparr> in if c then t else t\<lparr>ef_state := result k\<rparr>)"
    using True by (simp add: effect_land_def kc ys zs Let_def)
  have f: "?live (ef_tasks e) = ?live ys @ (if c then [] else [(k, c)]) @ ?live zs"
    unfolding t by simp
  show ?thesis
  proof (cases c)
    case True
    then have "?live (ys @ zs) = ?live (ef_tasks e)" using f by simp
    then show ?thesis using g True by (cases "ef_dep e") (simp_all add: land effect_good_def Let_def)
  next
    case False
    have "?live (ef_tasks e) \<noteq> []" using f False by simp
    then obtain k' where d: "ef_dep e = Ask k'" and l: "?live (ef_tasks e) = [(k', False)]"
      using g by (auto simp: effect_good_def split: dep.splits)
    have "?live ys @ (k, False) # ?live zs = [(k', False)]" using f l False by simp
    then have "k' = k" "?live ys = []" "?live zs = []" by (cases "?live ys"; simp)+
    then show ?thesis using False d by (simp add: land effect_good_def Let_def)
  qed
qed (simp add: effect_land_def)

lemma live_task: "filter (\<lambda>(k, c). \<not> c) ts = [(k, False)] \<Longrightarrow> (k, False) \<in> set ts"
  by (metis filter_is_subset list.set_intros(1) subsetD)

text \<open>
  C15. The overlay never shows the contour of another track: however the track, the segment or the recording
  change while requests are out, and in whatever order their answers land, the state is the one of the
  current dependencies (what they give, nothing, or the answer to their own request, which is awaited
  as long as it is not there).
\<close>

theorem contour_is_current:
  "case ef_dep (effect_run result d ops) of
     Given x \<Rightarrow> ef_state (effect_run result d ops) = FReady x
   | Nothing \<Rightarrow> ef_state (effect_run result d ops) = Idle
   | Ask k \<Rightarrow>
       ef_state (effect_run result d ops) = result k \<or>
       ef_state (effect_run result d ops) = FLoading \<and> (k, False) \<in> set (ef_tasks (effect_run result d ops))"
proof -
  have step: "effect_good result e \<Longrightarrow> effect_good result (effect_step result op e)" for op e
    by (cases op) (simp_all add: effect_change_good effect_land_good)
  have "effect_good result e \<Longrightarrow> effect_good result (fold (effect_step result) ops e)" for e
    by (induction ops arbitrary: e) (simp_all add: step)
  then have g: "effect_good result (effect_run result d ops)"
    by (simp add: effect_run_def effect_mount_def effect_change_good)
  then show ?thesis using live_task by (fastforce simp: effect_good_def split: dep.splits)
qed

lemma filter_split: "length (filter P xs) = length (filter P (take n xs)) + length (filter P (drop n xs))"
  by (metis append_take_drop_id filter_append length_append)

lemma set_voiced: "set (voiced midi) = {x. Some x \<in> set midi}"
  by (induction midi) (auto simp: voiced_def split: option.splits)

text \<open>
  The key that the contours are shifted to is a median: a pitch of the contour, with at least half of the
  voiced frames not above it and at least half not below it (0 for a contour without a voice).
\<close>

theorem common_key_median:
  assumes "voiced midi \<noteq> []"
  shows "Some (normalizeToCommonKey midi) \<in> set midi \<and>
    length (voiced midi) \<le> 2 * length (filter (\<lambda>x. x \<le> normalizeToCommonKey midi) (voiced midi)) \<and>
    length (voiced midi) \<le> 2 * length (filter (\<lambda>x. normalizeToCommonKey midi \<le> x) (voiced midi))"
proof -
  let ?v = "js_sort (by_key (\<lambda>x. x)) (voiced midi)" and ?m = "length (voiced midi) div 2"
  have len: "length ?v = length (voiced midi)" by simp
  have m: "?m < length ?v" using assms by (simp add: div_less_dividend)
  have key: "normalizeToCommonKey midi = ?v ! ?m" using assms by (simp add: normalizeToCommonKey_def Let_def)
  have "?v ! ?m \<in> set ?v" using m by (rule nth_mem)
  then have mem: "Some (normalizeToCommonKey midi) \<in> set midi" unfolding key by (simp add: set_voiced)
  have sorted: "sorted_wrt (\<le>) ?v"
    using by_key.sort_sorted [of "\<lambda>x. x" "voiced midi"] by (simp add: by_key_def)
  have count: "length (filter P (voiced midi)) = length (filter P ?v)" for P
    by (metis mset_filter mset_js_sort size_mset)
  have low: "Suc ?m \<le> length (filter (\<lambda>x. x \<le> ?v ! ?m) ?v)"
  proof -
    have "length (filter (\<lambda>x. x \<le> ?v ! ?m) (take (Suc ?m) ?v)) = length (take (Suc ?m) ?v)"
      using sorted m by (intro arg_cong [of _ _ length] filter_True) (auto simp: in_set_conv_nth sorted_wrt_iff_nth_less less_Suc_eq)
    then show ?thesis using m filter_split [of "\<lambda>x. x \<le> ?v ! ?m" ?v "Suc ?m"] by simp
  qed
  have high: "length ?v - ?m \<le> length (filter (\<lambda>x. ?v ! ?m \<le> x) ?v)"
  proof -
    have "length (filter (\<lambda>x. ?v ! ?m \<le> x) (drop ?m ?v)) = length (drop ?m ?v)"
    proof (intro arg_cong [of _ _ length] filter_True ballI)
      fix x assume "x \<in> set (drop ?m ?v)"
      then obtain j where "j < length ?v - ?m" "x = ?v ! (?m + j)" by (auto simp: in_set_conv_nth)
      then show "?v ! ?m \<le> x" using sorted m by (cases j) (auto simp: sorted_wrt_iff_nth_less)
    qed
    then have "length (drop ?m ?v) \<le> length (filter (\<lambda>x. ?v ! ?m \<le> x) ?v)"
      using filter_split [of "\<lambda>x. ?v ! ?m \<le> x" ?v ?m] by linarith
    then show ?thesis by (simp only: length_drop)
  qed
  show ?thesis using mem low high len unfolding key count by simp linarith
qed

theorem common_key_median_witness:
  "Some (normalizeToCommonKey [Some 60, None, Some 62, Some 61]) \<in> set [Some 60, None, Some 62, Some (61 :: rat)]"
proof -
  have "voiced [Some 60, None, Some 62, Some 61] \<noteq> []" by (simp add: voiced_def)
  from common_key_median [OF this] show ?thesis by blast
qed

lemma row_agrees_both: "row_agrees row \<Longrightarrow> row_both row"
  by (auto simp: row_agrees_def row_both_def split: option.splits)

lemma clamp_index_range: "0 < n \<Longrightarrow> clamp_index n v = Some i \<Longrightarrow> i < n"
  by (cases v) (auto simp: clamp_index_def)

text \<open>A sample is the rounded sum of a voiced frame and the shift; no index leaves the contour.\<close>

lemma sample_from_contour:
  "sample c t shift = Some x \<Longrightarrow> \<exists>d m. c = Some d \<and> Some m \<in> set (p_midi d) \<and> x = rnd (m + shift)"
proof -
  assume s: "sample c t shift = Some x"
  then obtain d i m where d: "c = Some d" "p_midi d \<noteq> []"
    and i: "clamp_index (length (p_midi d)) (js_scale (js_div t (p_duration_sec d)) (of_nat (length (p_midi d) - 1))) = Some i"
    and m: "p_midi d ! i = Some m" "x = rnd (m + shift)"
    by (auto simp: sample_def Let_def split: option.splits if_splits)
  have "i < length (p_midi d)" using clamp_index_range [OF _ i] d(2) by simp
  then have "Some m \<in> set (p_midi d)" using m(1) nth_mem by metis
  then show ?thesis using d(1) m(2) by blast
qed

lemma chart_rows_shape:
  "\<exists>dur sq sr. chart_rows q r =
     (if ready_data q = None \<and> ready_data r = None then []
      else map (\<lambda>i. \<lparr>cr_t = string_to_number (to_fixed (rnd (rnd (of_nat i / 199) * dur)) 3),
                      cr_query = sample (ready_data q) (rnd (rnd (of_nat i / 199) * dur)) sq,
                      cr_reference = sample (ready_data r) (rnd (rnd (of_nat i / 199) * dur)) sr\<rparr>) [0..<200])"
  unfolding chart_rows_def Let_def by (intro exI, rule refl)

definition shifted_frame :: "PitchContour option \<Rightarrow> rat \<Rightarrow> rat option \<Rightarrow> bool" where
  "shifted_frame c shift v \<longleftrightarrow>
     (case v of None \<Rightarrow> True | Some x \<Rightarrow> (\<exists>d m. c = Some d \<and> Some m \<in> set (p_midi d) \<and> x = rnd (m + shift)))"

lemma sample_shifted: "shifted_frame c shift (sample c t shift)"
  using sample_from_contour [of c t shift] by (auto simp: shifted_frame_def split: option.split)

text \<open>
  The chart: as soon as one contour is there it has 200 rows, a value in a row is a voiced frame of that
  contour moved by the one shift of the contour (a missing contour gives none), and the agreement is a
  percentage of the frames where both have a pitch.
\<close>

theorem chart_sound:
  "length (chart_rows q r) = (if ready_data q = None \<and> ready_data r = None then 0 else 200) \<and>
   (\<exists>sq sr. list_all (\<lambda>row. shifted_frame (ready_data q) sq (cr_query row) \<and>
      shifted_frame (ready_data r) sr (cr_reference row)) (chart_rows q r)) \<and>
   cs_agree (chart_stats (chart_rows q r)) \<le> cs_both (chart_stats (chart_rows q r)) \<and>
   cs_both (chart_stats (chart_rows q r)) \<le> 200 \<and>
   0 \<le> cs_pct (chart_stats (chart_rows q r)) \<and> cs_pct (chart_stats (chart_rows q r)) \<le> 100"
proof -
  have pct: "0 \<le> cs_pct (chart_stats rows) \<and> cs_pct (chart_stats rows) \<le> 100" for rows
  proof (cases "length (filter row_both rows) = 0")
    case False
    let ?a = "of_nat (length (filter row_agrees rows)) :: rat" and ?b = "of_nat (length (filter row_both rows)) :: rat"
    have "?a / ?b \<le> of_nat 1" using False length_filter_mono [of row_agrees row_both rows] row_agrees_both
      by (simp add: divide_le_eq)
    then have one: "0 \<le> rnd (?a / ?b) \<and> rnd (?a / ?b) \<le> of_nat 1" by (intro rnd_between) simp_all
    then have "0 \<le> rnd (rnd (?a / ?b) * 100) \<and> rnd (rnd (?a / ?b) * 100) \<le> of_nat 100" by (intro rnd_between) simp_all
    then show ?thesis using False by (simp add: chart_stats_def Let_def math_round_def floor_le_iff le_floor_iff)
  qed (simp add: chart_stats_def Let_def)
  have len: "length (chart_rows q r) = (if ready_data q = None \<and> ready_data r = None then 0 else 200)"
    by (simp add: chart_rows_def Let_def)
  have both: "cs_both (chart_stats (chart_rows q r)) \<le> 200"
    using length_filter_le [of row_both "chart_rows q r"] len by (auto simp: chart_stats_def Let_def split: if_splits)
  have agree: "cs_agree (chart_stats rows) \<le> cs_both (chart_stats rows)" for rows
    using length_filter_mono [of row_agrees row_both rows] row_agrees_both by (simp add: chart_stats_def Let_def)
  obtain dur sq sr where rows: "chart_rows q r =
     (if ready_data q = None \<and> ready_data r = None then []
      else map (\<lambda>i. \<lparr>cr_t = string_to_number (to_fixed (rnd (rnd (of_nat i / 199) * dur)) 3),
                      cr_query = sample (ready_data q) (rnd (rnd (of_nat i / 199) * dur)) sq,
                      cr_reference = sample (ready_data r) (rnd (rnd (of_nat i / 199) * dur)) sr\<rparr>) [0..<200])"
    using chart_rows_shape [of q r] by blast
  have "list_all (\<lambda>row. shifted_frame (ready_data q) sq (cr_query row) \<and>
      shifted_frame (ready_data r) sr (cr_reference row)) (chart_rows q r)"
    unfolding rows by (simp add: list_all_iff sample_shifted del: upt_Suc)
  then show ?thesis using len both agree pct by blast
qed

end
