(* ===== verification/Spectrogram.thy ===== *)
theory Spectrogram
  imports Rounding "HOL-Library.Word"
begin

unbundle bit_operations_syntax

text \<open>
  \<open>web/components/Spectrogram.tsx\<close>: the deterministic placeholder (a 32-bit hash seeds a 32-bit generator),
  the colour ramp, and the division of the canvas into cells. Bit operations of the language work on
  32 bits; sums of a generator are numbers, below \<open>2 ^ 53\<close> for every placeholder, and are taken modulo
  \<open>2 ^ 32\<close> where they enter a bit operation. \<open>Math.exp\<close> and \<open>Math.sin\<close> are the platform's: the harmonic part
  of the placeholder is a parameter.
\<close>

section \<open>The generator\<close>

text \<open>\<open>h ^= s.charCodeAt(i); h = Math.imul(h, 16777619)\<close>\<close>

definition hash :: "string \<Rightarrow> 32 word" where
  "hash s = fold (\<lambda>c h. (h XOR of_char c) * 16777619) s 2166136261"

definition GOLDEN :: int where
  "GOLDEN = 0x6D2B79F5"

text \<open>One call: the number drawn and the new state.\<close>

definition mulberry_mix :: "32 word \<Rightarrow> 32 word" where
  "mulberry_mix a =
     (let t = (a XOR drop_bit 15 a) * (a OR 1);
          u = t XOR (t + (t XOR drop_bit 7 t) * (t OR 61))
      in u XOR drop_bit 14 u)"

definition mulberry32 :: "int \<Rightarrow> rat \<times> int" where
  "mulberry32 a = (let a' = a + GOLDEN in (of_nat (unat (mulberry_mix (word_of_int a'))) / 4294967296, a'))"

section \<open>The placeholder\<close>

definition place_T :: nat where "place_T = 96"
definition place_F :: nat where "place_F = 32"

definition place_base :: "nat \<Rightarrow> rat" where
  "place_base f = max 0 (rnd (1 - rnd (of_nat f / of_nat place_F * rnd (9 / 10))))"

definition place_value :: "rat \<Rightarrow> nat \<Rightarrow> rat \<Rightarrow> rat" where
  "place_value harm f draw =
     (let noise = rnd (draw * rnd (35 / 100))
      in min 1 (rnd (rnd (rnd (place_base f * rnd (3 / 10)) + harm) + rnd (noise * (1 / 2)))))"

text \<open>A row, and the rows, with the generator threaded through.\<close>

fun place_row :: "(nat \<Rightarrow> rat) \<Rightarrow> nat list \<Rightarrow> int \<Rightarrow> rat list \<times> int" where
  "place_row harm [] a = ([], a)"
| "place_row harm (f # fs) a =
     (let (draw, a') = mulberry32 a; (vs, a'') = place_row harm fs a'
      in (place_value (harm f) f draw # vs, a''))"

fun place_rows :: "(nat \<Rightarrow> nat \<Rightarrow> rat) \<Rightarrow> nat list \<Rightarrow> int \<Rightarrow> rat list list \<times> int" where
  "place_rows harm [] a = ([], a)"
| "place_rows harm (t # ts) a =
     (let (row, a') = place_row (harm t) [0..<place_F] a; (rows, a'') = place_rows harm ts a'
      in (row # rows, a''))"

definition spectrogram_data :: "(nat \<Rightarrow> nat \<Rightarrow> rat) \<Rightarrow> jsnum list list option \<Rightarrow> string \<Rightarrow> jsnum list list" where
  "spectrogram_data harm bins seed =
     (case bins of
        Some (b # bs) \<Rightarrow> b # bs
      | _ \<Rightarrow> map (map Fin) (fst (place_rows harm [0..<place_T] (uint (hash seed)))))"

section \<open>Colours\<close>

type_synonym colour = "rat \<times> rat \<times> rat"

definition stops :: "(rat \<times> colour) list" where
  "stops =
     [(rnd (4 / 100), (4, 12, 8)), (rnd (35 / 100), (12, 80, 50)), (rnd (6 / 10), (61, 252, 142)),
      (rnd (82 / 100), (245, 158, 11)), (1, (255, 61, 190))]"

definition clamp01 :: "jsnum \<Rightarrow> rat option" where
  "clamp01 v = (case v of NaN \<Rightarrow> None | PInf \<Rightarrow> Some 1 | NInf \<Rightarrow> Some 0 | Fin x \<Rightarrow> Some (max 0 (min 1 x)))"

definition lerp :: "rat \<Rightarrow> rat \<Rightarrow> rat \<Rightarrow> rat" where
  "lerp x y t = rnd (x + rnd ((y - x) * t))"

text \<open>The loop over the stops from the second on, with the one before it.\<close>

fun ramp :: "rat \<Rightarrow> (rat \<times> colour) list \<Rightarrow> colour" where
  "ramp v (a # b # rest) =
     (if v \<le> fst b then
        (let (xr, xg, xb) = snd a; (yr, yg, yb) = snd b; t = rnd (rnd (v - fst a) / rnd (fst b - fst a))
         in (lerp xr yr t, lerp xg yg t, lerp xb yb t))
      else ramp v (b # rest))"
| "ramp v _ = (255, 61, 190)"

definition colorAt :: "jsnum \<Rightarrow> colour" where
  "colorAt v = (case clamp01 v of None \<Rightarrow> (255, 61, 190) | Some x \<Rightarrow> ramp x stops)"

text \<open>A store into \<open>Uint8ClampedArray\<close>.\<close>

definition store_byte :: "rat \<Rightarrow> int" where
  "store_byte x = max 0 (min 255 (half_even x))"

section \<open>Cells\<close>

text \<open>\<open>cellW\<close> and \<open>cellH\<close>, and \<open>Math.floor(i * cell)\<close>: where the cell of index \<open>i\<close> begins.\<close>

definition cell_size :: "nat \<Rightarrow> nat \<Rightarrow> rat" where
  "cell_size len n = rnd (of_nat len / of_nat n)"

definition edge :: "nat \<Rightarrow> nat \<Rightarrow> nat \<Rightarrow> nat" where
  "edge len n i = nat (floor (rnd (of_nat i * cell_size len n)))"

record pixel_cell =
  px_x0 :: nat
  px_x1 :: nat
  px_y0 :: nat
  px_y1 :: nat
  px_colour :: colour

text \<open>The loops over time and frequency; a short row reads \<open>undefined\<close>, low frequencies are at the bottom.\<close>

definition cell_value :: "jsnum list list \<Rightarrow> nat \<Rightarrow> nat \<Rightarrow> jsnum" where
  "cell_value data t f = (if f < length (data ! t) then data ! t ! f else NaN)"

definition freq_count :: "jsnum list list \<Rightarrow> nat" where
  "freq_count data = (case data of [] \<Rightarrow> 1 | row # _ \<Rightarrow> length row)"

definition cells :: "nat \<Rightarrow> nat \<Rightarrow> jsnum list list \<Rightarrow> pixel_cell list" where
  "cells width height data =
     (let T = length data; F = freq_count data in
      concat (map (\<lambda>t. map (\<lambda>f.
        \<lparr>px_x0 = edge width T t, px_x1 = edge width T (t + 1), px_y0 = edge height F (F - 1 - f),
         px_y1 = edge height F (F - f), px_colour = colorAt (cell_value data t f)\<rparr>) [0..<F]) [0..<T]))"

definition in_cell :: "nat \<Rightarrow> nat \<Rightarrow> pixel_cell \<Rightarrow> bool" where
  "in_cell x y c \<longleftrightarrow> px_x0 c \<le> x \<and> x < px_x1 c \<and> px_y0 c \<le> y \<and> y < px_y1 c"

text \<open>The image: every write of a cell in turn, so the last cell that holds a pixel sets it.\<close>

definition paint :: "nat \<Rightarrow> nat \<Rightarrow> jsnum list list \<Rightarrow> nat \<Rightarrow> nat \<Rightarrow> (int \<times> int \<times> int) option" where
  "paint width height data x y =
     fold (\<lambda>c old. if in_cell x y c
             then Some (let (r, g, b) = px_colour c in (store_byte r, store_byte g, store_byte b)) else old)
       (cells width height data) None"

text \<open>The index of the first byte of a pixel.\<close>

definition byte_index :: "nat \<Rightarrow> nat \<Rightarrow> nat \<Rightarrow> nat" where
  "byte_index width x y = (y * width + x) * 4"

section \<open>Edges\<close>

lemma rnd_0 [simp]: "rnd 0 = 0"
  using rnd_int [of 0] by simp

lemma edge_0 [simp]: "edge len n 0 = 0"
  by (simp add: edge_def)

text \<open>The sizes for which the divisions stay far from the limits of doubles.\<close>

definition moderate :: "nat \<Rightarrow> nat \<Rightarrow> bool" where
  "moderate len n \<longleftrightarrow> 0 < n \<and> n < 2 ^ 20 \<and> len < 2 ^ 20"

lemma below_20: "k < 2 ^ 20 \<Longrightarrow> (of_nat k :: rat) \<le> 2 ^ 20"
  by (metis less_imp_le of_nat_le_iff of_nat_numeral of_nat_power)

lemma cell_size_nonneg: "0 \<le> cell_size len n"
  by (simp add: cell_size_def rnd_nonneg)

text \<open>The cells together are as long as the canvas, up to the rounding of one division.\<close>

lemma cell_size_error:
  assumes "moderate len n"
  shows "\<bar>of_nat n * cell_size len n - of_nat len\<bar> \<le> of_nat len / 2 ^ 53"
proof (cases "len = 0")
  case True
  then show ?thesis by (simp add: cell_size_def)
next
  case False
  have n: "0 < n" "n < 2 ^ 20" and len: "len < 2 ^ 20" using assms by (simp_all add: moderate_def)
  let ?q = "of_nat len / of_nat n :: rat"
  have "of_nat len * 1 \<le> of_nat len * (of_nat n :: rat)" using n(1) by (intro mult_left_mono) simp_all
  then have le: "?q \<le> of_nat len" using n(1) by (simp add: divide_le_eq)
  have p20: "pow2 (-20) = 1 / 2 ^ 20" by (simp add: pow2_def)
  have "1 / 2 ^ 20 \<le> 1 / (of_nat n :: rat)" using n(1) below_20 [OF n(2)] by (intro divide_left_mono) simp_all
  also have "\<dots> \<le> ?q" using False n(1) by (intro divide_right_mono) simp_all
  finally have "pow2 (-20) \<le> ?q" unfolding p20 .
  then have low: "pow2 (-1022) \<le> ?q" using pow2_mono [of "-1022" "-20"] by simp
  have "?q \<le> 2 ^ 52" using le below_20 [OF len] by simp
  then have "\<bar>cell_size len n - ?q\<bar> \<le> ?q / 2 ^ 53" unfolding cell_size_def by (rule rnd_error [OF low])
  then have "of_nat n * \<bar>cell_size len n - ?q\<bar> \<le> of_nat n * (?q / 2 ^ 53)" by (intro mult_left_mono) simp_all
  moreover have "of_nat n * \<bar>cell_size len n - ?q\<bar> = \<bar>of_nat n * (cell_size len n - ?q)\<bar>" by (simp add: abs_mult)
  ultimately show ?thesis using n(1) by (simp add: right_diff_distrib)
qed

lemma moderate_len: "moderate len n \<Longrightarrow> (of_nat len :: rat) \<le> 1048576"
  using below_20 [of len] by (simp add: moderate_def)

lemma cell_size_total:
  assumes "moderate len n"
  shows "of_nat len - 1 / 1000 \<le> of_nat n * cell_size len n" "of_nat n * cell_size len n \<le> of_nat len + 1 / 1000"
proof -
  have "of_nat len / 2 ^ 53 \<le> (1048576 / 2 ^ 53 :: rat)" using moderate_len [OF assms] by (intro divide_right_mono) simp_all
  also have "\<dots> \<le> 1 / 1000" by simp
  finally have "\<bar>of_nat n * cell_size len n - of_nat len\<bar> \<le> (1 / 1000 :: rat)"
    using cell_size_error [OF assms] by (rule order_trans [rotated])
  then show "of_nat len - 1 / 1000 \<le> of_nat n * cell_size len n" "of_nat n * cell_size len n \<le> of_nat len + 1 / 1000"
    by linarith+
qed

lemma edge_mono:
  assumes "moderate len n" "i \<le> j" "j \<le> n"
  shows "edge len n i \<le> edge len n j"
proof -
  have "of_nat n * cell_size len n \<le> 4503599627370496"
    using cell_size_total(2) [OF assms(1)] moderate_len [OF assms(1)] by linarith
  moreover have "of_nat j * cell_size len n \<le> of_nat n * cell_size len n"
    using assms(3) cell_size_nonneg by (intro mult_right_mono) simp_all
  moreover have "of_nat i * cell_size len n \<le> of_nat j * cell_size len n"
    using assms(2) cell_size_nonneg by (intro mult_right_mono) simp_all
  ultimately have "rnd (of_nat i * cell_size len n) \<le> rnd (of_nat j * cell_size len n)"
    using cell_size_nonneg by (intro rnd_mono) (simp_all del: of_nat_mult)
  then show ?thesis unfolding edge_def by (intro nat_mono floor_mono)
qed

text \<open>The last cell ends at the border, or one pixel before it.\<close>

lemma edge_last:
  assumes m: "moderate len n"
  shows "edge len n n \<le> len \<and> len \<le> Suc (edge len n n)"
proof (cases "len = 0")
  case True
  then show ?thesis by (simp add: edge_def cell_size_def)
next
  case False
  let ?p = "of_nat n * cell_size len n"
  have l: "(of_nat len :: rat) \<le> 1048576" by (rule moderate_len [OF m])
  have l1: "1 \<le> (of_nat len :: rat)" using False by simp
  note p = cell_size_total [OF m]
  have "pow2 (-1022) \<le> 1 / 2" using pow2_mono [of "-1022" "-1"] by (simp add: pow2_def [of "-1"])
  then have low: "pow2 (-1022) \<le> ?p" using p(1) l1 by linarith
  have "?p \<le> 2097152" using p(2) l by linarith
  then have high: "?p \<le> 2 ^ 52" and big: "?p / 2 ^ 53 \<le> 2097152 / 2 ^ 53"
    by (simp, intro divide_right_mono, simp_all)
  have "\<bar>rnd ?p - ?p\<bar> \<le> ?p / 2 ^ 53" by (rule rnd_error [OF low high])
  also note big
  finally have "\<bar>rnd ?p - ?p\<bar> \<le> 1 / 1000" by simp
  then have r: "of_nat len - 1 < rnd ?p" "rnd ?p < of_nat len + 1" using p by linarith+
  have "floor (rnd ?p) \<le> int len" using r(2) by (simp add: floor_le_iff)
  moreover have "int len - 1 \<le> floor (rnd ?p)" using r(1) by (simp add: le_floor_iff)
  ultimately show ?thesis by (auto simp: edge_def)
qed

text \<open>A position before the last edge lies between two neighbouring edges, and only there.\<close>

lemma edge_between: "x < edge len n k \<Longrightarrow> \<exists>i<k. edge len n i \<le> x \<and> x < edge len n (i + 1)"
proof (induction k)
  case (Suc k)
  then show ?case by (cases "x < edge len n k") (auto simp: not_less intro: less_SucI)
qed simp

lemma edge_unique:
  assumes "moderate len n" "i < n" "j < n" "edge len n i \<le> x" "x < edge len n (i + 1)" "edge len n j \<le> x" "x < edge len n (j + 1)"
  shows "i = j"
proof (rule ccontr)
  assume "i \<noteq> j"
  then consider "i + 1 \<le> j" | "j + 1 \<le> i" by linarith
  then show False
  proof cases
    case 1
    then have "edge len n (i + 1) \<le> edge len n j" using assms by (intro edge_mono) auto
    then show ?thesis using assms by linarith
  next
    case 2
    then have "edge len n (j + 1) \<le> edge len n i" using assms by (intro edge_mono) auto
    then show ?thesis using assms by linarith
  qed
qed

section \<open>The image\<close>

definition cell_of :: "nat \<Rightarrow> nat \<Rightarrow> jsnum list list \<Rightarrow> nat \<Rightarrow> nat \<Rightarrow> pixel_cell" where
  "cell_of width height data t f =
     (let T = length data; F = freq_count data in
      \<lparr>px_x0 = edge width T t, px_x1 = edge width T (t + 1), px_y0 = edge height F (F - 1 - f),
       px_y1 = edge height F (F - f), px_colour = colorAt (cell_value data t f)\<rparr>)"

lemma cells_product:
  "cells width height data =
     map (\<lambda>(t, f). cell_of width height data t f) (List.product [0..<length data] [0..<freq_count data])"
  by (simp add: cells_def cell_of_def Let_def product_concat_map map_concat comp_def)

lemma filter_one:
  assumes "distinct xs" "x \<in> set xs" "P x" "\<And>y. y \<in> set xs \<Longrightarrow> P y \<Longrightarrow> y = x"
  shows "filter P xs = [x]"
proof -
  have s: "set (filter P xs) = {x}" using assms(2, 3) by (auto dest: assms(4))
  then have "length (filter P xs) = 1" using distinct_card [of "filter P xs"] assms(1) by simp
  then obtain a where "filter P xs = [a]" by (auto simp: length_Suc_conv)
  then show ?thesis using s by simp
qed

lemma fold_last:
  "fold (\<lambda>c old. if P c then Some (h c) else old) cs acc =
     (if filter P cs = [] then acc else Some (h (last (filter P cs))))"
  by (induction cs arbitrary: acc) auto

definition bytes_of :: "colour \<Rightarrow> int \<times> int \<times> int" where
  "bytes_of c = (let (r, g, b) = c in (store_byte r, store_byte g, store_byte b))"

text \<open>
  C16. Below and left of its last edges the canvas is tiled: for canvases and data of fewer than a
  million rows and columns, in spite of the rounding of every division and product, each pixel before
  the last edges lies in exactly one cell and gets its colour, and no byte outside the image is written.
  The last edges reach the border or stop one pixel before it; in that case the last column or row of
  pixels stays without a colour.
\<close>

theorem canvas_tiled:
  assumes m: "moderate width (length data)" "moderate height (freq_count data)"
    and xy: "x < edge width (length data) (length data)" "y < edge height (freq_count data) (freq_count data)"
  shows "\<exists>t f. t < length data \<and> f < freq_count data \<and>
      filter (in_cell x y) (cells width height data) = [cell_of width height data t f] \<and>
      paint width height data x y = Some (bytes_of (colorAt (cell_value data t f))) \<and>
      byte_index width x y + 3 < width * height * 4 \<and>
      width \<le> Suc (edge width (length data) (length data)) \<and>
      height \<le> Suc (edge height (freq_count data) (freq_count data))"
proof -
  let ?T = "length data" and ?F = "freq_count data"
  obtain t where t: "t < ?T" "edge width ?T t \<le> x" "x < edge width ?T (t + 1)" using edge_between [OF xy(1)] by blast
  obtain g where g: "g < ?F" "edge height ?F g \<le> y" "y < edge height ?F (g + 1)" using edge_between [OF xy(2)] by blast
  let ?f = "?F - 1 - g"
  have f: "?f < ?F" "?F - 1 - ?f = g" "?F - ?f = g + 1" using g(1) by simp_all
  let ?P = "\<lambda>(t, f). in_cell x y (cell_of width height data t f)"
  have hit: "?P (t, ?f)" using t g f by (simp add: in_cell_def cell_of_def Let_def)
  have only: "p = (t, ?f)" if "p \<in> set (List.product [0..<?T] [0..<?F])" "?P p" for p
  proof -
    obtain t' f' where p: "p = (t', f')" by force
    have r: "t' < ?T" "f' < ?F" using that(1) p by auto
    have c: "edge width ?T t' \<le> x" "x < edge width ?T (t' + 1)" "edge height ?F (?F - 1 - f') \<le> y" "y < edge height ?F (?F - f')"
      using that(2) p by (simp_all add: in_cell_def cell_of_def Let_def)
    have e: "?F - f' = (?F - 1 - f') + 1" using r(2) by simp
    have "t' = t" by (rule edge_unique [OF m(1) r(1) t(1) c(1, 2) t(2, 3)])
    moreover have "?F - 1 - f' = g"
      using edge_unique [OF m(2) _ g(1) c(3) c(4) [unfolded e] g(2, 3)] r(2) by simp
    ultimately show ?thesis using p r(2) by auto
  qed
  have "filter ?P (List.product [0..<?T] [0..<?F]) = [(t, ?f)]"
    using hit only t(1) f(1) by (intro filter_one) (auto simp: distinct_product)
  then have one: "filter (in_cell x y) (cells width height data) = [cell_of width height data t ?f]"
    unfolding cells_product filter_map comp_def by (simp add: case_prod_unfold)
  have p: "paint width height data x y = Some (bytes_of (colorAt (cell_value data t ?f)))"
    unfolding paint_def fold_last one by (simp add: cell_of_def bytes_of_def Let_def)
  have b: "x < width" "y < height" using xy edge_last [OF m(1)] edge_last [OF m(2)] by linarith+
  have "y * width + x < Suc y * width" using b(1) by simp
  also have "\<dots> \<le> height * width" using b(2) by (intro mult_le_mono1) simp
  finally have "byte_index width x y + 3 < width * height * 4" by (simp add: byte_index_def mult.commute)
  then show ?thesis using t(1) f(1) one p edge_last [OF m(1)] edge_last [OF m(2)] by blast
qed

section \<open>The placeholder is a picture\<close>

lemma mulberry32_draw: "0 \<le> fst (mulberry32 a) \<and> fst (mulberry32 a) < 1 \<and> snd (mulberry32 a) = a + GOLDEN"
proof -
  define k where "k = unat (mulberry_mix (word_of_int (a + GOLDEN)))"
  have "k < 4294967296" using unsigned_less [of "mulberry_mix (word_of_int (a + GOLDEN))", where 'a = nat] by (simp add: k_def)
  then have "(of_nat k :: rat) < of_nat 4294967296" by (simp only: of_nat_less_iff)
  moreover have "fst (mulberry32 a) = of_nat k / 4294967296" by (simp only: mulberry32_def Let_def fst_conv k_def)
  moreover have "snd (mulberry32 a) = a + GOLDEN" by (simp add: mulberry32_def Let_def)
  ultimately show ?thesis by (simp add: divide_less_eq)
qed

definition unit_interval :: "rat \<Rightarrow> bool" where
  "unit_interval x \<longleftrightarrow> 0 \<le> x \<and> x \<le> 1"

lemma place_value_unit: "0 \<le> harm \<Longrightarrow> 0 \<le> draw \<Longrightarrow> unit_interval (place_value harm f draw)"
proof -
  assume h: "0 \<le> harm" and d: "0 \<le> draw"
  have b: "0 \<le> place_base f" by (simp add: place_base_def)
  have "0 \<le> rnd (draw * rnd (35 / 100))" using d by (intro rnd_nonneg mult_nonneg_nonneg) simp_all
  then have "0 \<le> rnd (rnd (draw * rnd (35 / 100)) * (1 / 2))" by (intro rnd_nonneg) simp
  moreover have "0 \<le> rnd (place_base f * rnd (3 / 10))" using b by (intro rnd_nonneg mult_nonneg_nonneg) simp_all
  then have "0 \<le> rnd (rnd (place_base f * rnd (3 / 10)) + harm)" using h by (intro rnd_nonneg) simp
  ultimately show ?thesis by (simp add: place_value_def unit_interval_def Let_def rnd_nonneg)
qed

lemma place_row_spec:
  assumes h: "\<And>f. 0 \<le> harm f"
  shows "length (fst (place_row harm fs a)) = length fs \<and> list_all unit_interval (fst (place_row harm fs a)) \<and>
    snd (place_row harm fs a) = a + int (length fs) * GOLDEN"
proof (induction fs arbitrary: a)
  case (Cons f fs)
  obtain d a' where m: "mulberry32 a = (d, a')" by force
  obtain vs a'' where r: "place_row harm fs a' = (vs, a'')" by force
  have "0 \<le> d" "a' = a + GOLDEN" using mulberry32_draw [of a] by (simp_all add: m)
  moreover have "length vs = length fs" "list_all unit_interval vs" "a'' = a' + int (length fs) * GOLDEN"
    using Cons.IH [of a'] by (simp_all add: r)
  moreover have "place_row harm (f # fs) a = (place_value (harm f) f d # vs, a'')" by (simp add: m r)
  ultimately show ?case using h [of f] place_value_unit [of "harm f" d f] by (simp add: algebra_simps del: place_row.simps)
qed simp

lemma place_rows_spec:
  assumes h: "\<And>t f. 0 \<le> harm t f"
  shows "length (fst (place_rows harm ts a)) = length ts \<and>
    list_all (\<lambda>row. length row = 32 \<and> list_all unit_interval row) (fst (place_rows harm ts a)) \<and>
    snd (place_rows harm ts a) = a + int (32 * length ts) * GOLDEN"
proof (induction ts arbitrary: a)
  case (Cons t ts)
  obtain row a' where m: "place_row (harm t) [0..<place_F] a = (row, a')" by force
  obtain rows a'' where r: "place_rows harm ts a' = (rows, a'')" by force
  have "length row = 32" "list_all unit_interval row" "a' = a + 32 * GOLDEN"
    using place_row_spec [of "harm t" "[0..<place_F]" a, OF h] unfolding m by (simp_all add: place_F_def)
  moreover have "length rows = length ts" "list_all (\<lambda>row. length row = 32 \<and> list_all unit_interval row) rows"
    "a'' = a' + int (32 * length ts) * GOLDEN"
    using Cons.IH [of a'] by (simp_all add: r)
  moreover have "place_rows harm (t # ts) a = (row # rows, a'')" by (simp add: m r)
  ultimately show ?case by (simp add: algebra_simps del: place_rows.simps)
qed simp

text \<open>
  The placeholder is a picture: whatever the seed, it has 96 columns of 32 values from 0 to 1, as long as
  the harmonic part, an exponential, is not negative; and the state of the generator stays below
  \<open>2 ^ 53\<close> through all its draws, so that the sums of the code are exact.
\<close>

theorem placeholder_picture:
  assumes "\<And>t f. 0 \<le> harm t f"
  shows "length (spectrogram_data harm None seed) = 96 \<and>
    list_all (\<lambda>row. length row = 32 \<and> list_all (\<lambda>v. case v of Fin x \<Rightarrow> 0 \<le> x \<and> x \<le> 1 | _ \<Rightarrow> False) row)
      (spectrogram_data harm None seed) \<and>
    snd (place_rows harm [0..<place_T] (uint (hash seed))) < 2 ^ 53"
proof -
  let ?r = "place_rows harm [0..<place_T] (uint (hash seed))"
  have "uint (hash seed) < 4294967296" using unsigned_less [of "hash seed", where 'a = int] by simp
  then show ?thesis
    using place_rows_spec [of harm "[0..<place_T]" "uint (hash seed)", OF assms]
    by (simp add: spectrogram_data_def place_T_def GOLDEN_def list_all_iff unit_interval_def)
qed

theorem placeholder_picture_witness: "length (spectrogram_data (\<lambda>_ _. 0) None ''x'') = 96"
proof -
  have "\<And>t f. (0 :: rat) \<le> (\<lambda>_ _. 0) (t :: nat) (f :: nat)" by simp
  from placeholder_picture [of "\<lambda>_ _. 0", OF this] show ?thesis by blast
qed

theorem canvas_tiled_witness:
  "\<exists>t f. t < 1 \<and> f < 1 \<and> filter (in_cell 0 0) (cells 2 1 [[Fin 1]]) = [cell_of 2 1 [[Fin 1]] t f]"
proof -
  have m: "moderate 2 (length [[Fin 1]])" "moderate 1 (freq_count [[Fin 1]])" by (simp_all add: moderate_def freq_count_def)
  have "2 \<le> Suc (edge 2 (length [[Fin 1]]) (length [[Fin 1]]))" using edge_last [OF m(1)] by blast
  then have x: "0 < edge 2 (length [[Fin 1]]) (length [[Fin 1]])" by linarith
  have "rnd (of_int 1) = of_int 1" by (rule rnd_int) simp
  then have y: "0 < edge 1 (freq_count [[Fin 1]]) (freq_count [[Fin 1]])"
    by (simp add: freq_count_def edge_def cell_size_def)
  from canvas_tiled [OF m x y] show ?thesis by (simp add: freq_count_def)
qed

end
