(* ===== verification/Requests.thy ===== *)
theory Requests
  imports Pages
begin

text \<open>
  What the larger pages share. A request under way is an entry of a list of tasks and carries what the
  code after its \<open>await\<close> needs; the answer to it is a \<open>reply\<close>. Three contracts are stated once: a flag
  that is raised with a request and lowered with its last answer (\<open>flights\<close>), a page that only adds to
  what it has sent (\<open>logging\<close>), and a page whose requests run out when they are answered (\<open>draining\<close>). A panel that loads its content on a click is kept by
  several pages and has its operations here.
\<close>

section \<open>Replies\<close>

text \<open>
  The call (or the reading of its document) threw; a refusal with its status, its text (absent when it
  cannot be read) and its status text; a document, under each of the types the code casts it to.
\<close>

datatype 'd reply = Broke string | Denied nat "string option" string | Got 'd

text \<open>\<open>msg || `failed with ${r.status}`\<close> after \<open>r.text().catch(() => "")\<close>\<close>

definition failed_with :: "nat \<Rightarrow> string option \<Rightarrow> string" where
  "failed_with st body = or_str (nullish body []) (''failed with '' @ nat_digits st)"

text \<open>The same after \<open>r.text().catch(() => r.statusText)\<close>.\<close>

definition failed_status :: "nat \<Rightarrow> string option \<Rightarrow> string \<Rightarrow> string" where
  "failed_status st body statusText = or_str (nullish body statusText) (''failed with '' @ nat_digits st)"

text \<open>\<open>new Error(`http ${r.status}`)\<close>\<close>

definition http_status :: "nat \<Rightarrow> string" where
  "http_status st = ''http '' @ nat_digits st"

text \<open>\<open>String(v)\<close>, the text that an \<open>Error\<close> made of \<open>v\<close> carries.\<close>

fun js_text :: "json \<Rightarrow> string" where
  "js_text JNull = ''null''"
| "js_text (JBool x) = (if x then ''true'' else ''false'')"
| "js_text (JNum n) = num_text n"
| "js_text (JStr s) = s"
| "js_text (JArr vs) = join '','' (map (\<lambda>v. if v = JNull then [] else js_text v) vs)"
| "js_text (JObj fs) = ''[object Object]''"

section \<open>Splitting at separators\<close>

definition is_sep :: "char \<Rightarrow> bool" where
  "is_sep c \<longleftrightarrow> is_space c \<or> c = CHR '',''"

text \<open>\<open>s.split(/[\\s,]+/)\<close>: the fields between maximal runs of separators, the empty ones at the ends included.\<close>

function split_runs :: "(char \<Rightarrow> bool) \<Rightarrow> string \<Rightarrow> string list" where
  "split_runs p s =
     (case dropWhile (\<lambda>c. \<not> p c) s of
        [] \<Rightarrow> [s]
      | c # cs \<Rightarrow> takeWhile (\<lambda>c. \<not> p c) s # split_runs p (dropWhile p cs))"
  by pat_completeness auto
termination
proof (relation "measure (\<lambda>(p, s). length s)")
  fix p s c cs
  assume "dropWhile (\<lambda>c. \<not> p c) s = c # cs"
  then have "Suc (length cs) \<le> length s" by (metis length_Cons length_dropWhile_le)
  then show "((p, dropWhile p cs), (p, s)) \<in> measure (\<lambda>(p, s). length s)"
    using length_dropWhile_le [of p cs] by simp
qed simp

declare split_runs.simps [simp del]

text \<open>\<open>draft.split(/[\\s,]+/).map((s) => s.trim()).filter(Boolean)\<close>\<close>

definition entries :: "string \<Rightarrow> string list" where
  "entries draft = filter (\<lambda>w. w \<noteq> []) (map trim (split_runs is_sep draft))"

definition entry_ok :: "string \<Rightarrow> bool" where
  "entry_ok w \<longleftrightarrow> w \<noteq> [] \<and> list_all (\<lambda>c. \<not> is_sep c) w"

lemma split_runs_fields: "w \<in> set (split_runs p s) \<Longrightarrow> list_all (\<lambda>c. \<not> p c) w"
proof (induction p s rule: split_runs.induct)
  case (1 p s)
  show ?case
  proof (cases "dropWhile (\<lambda>c. \<not> p c) s")
    case Nil
    then have "list_all (\<lambda>c. \<not> p c) s" by (simp add: list_all_iff dropWhile_eq_Nil_conv)
    moreover have "w = s" using "1.prems" Nil by (simp only: split_runs.simps [of p s] list.case) simp
    ultimately show ?thesis by simp
  next
    case (Cons c cs)
    then have "w = takeWhile (\<lambda>c. \<not> p c) s \<or> w \<in> set (split_runs p (dropWhile p cs))"
      using "1.prems" split_runs.simps [of p s] by simp
    then show ?thesis
    proof
      assume "w = takeWhile (\<lambda>c. \<not> p c) s"
      then show ?thesis by (auto simp: list_all_iff dest: set_takeWhileD)
    next
      assume "w \<in> set (split_runs p (dropWhile p cs))"
      then show ?thesis using "1.IH" Cons by blast
    qed
  qed
qed

lemma entries_ok: "w \<in> set (entries draft) \<Longrightarrow> entry_ok w"
proof -
  assume "w \<in> set (entries draft)"
  then obtain v where v: "v \<in> set (split_runs is_sep draft)" and w: "w = trim v" "w \<noteq> []"
    by (auto simp: entries_def)
  have "list_all (\<lambda>c. \<not> is_sep c) v" using split_runs_fields [OF v] .
  then show ?thesis using w set_trim [of v] by (auto simp: entry_ok_def list_all_iff)
qed

lemma split_runs_word:
  assumes "list_all (\<lambda>c. \<not> p c) w" and "p d"
  shows "split_runs p (w @ d # s) = w # split_runs p (dropWhile p s)"
proof -
  have "dropWhile (\<lambda>c. \<not> p c) (w @ d # s) = d # s" "takeWhile (\<lambda>c. \<not> p c) (w @ d # s) = w"
    using assms by (induction w) auto
  then show ?thesis using split_runs.simps [of p "w @ d # s"] by simp
qed

lemma split_runs_last: "list_all (\<lambda>c. \<not> p c) w \<Longrightarrow> split_runs p w = [w]"
proof -
  assume "list_all (\<lambda>c. \<not> p c) w"
  then have "dropWhile (\<lambda>c. \<not> p c) w = []" by (simp add: list_all_iff dropWhile_eq_Nil_conv)
  then show ?thesis by (simp only: split_runs.simps [of p w] list.case)
qed

lemma split_runs_join:
  assumes "is_sep d" and "ws \<noteq> []" and "list_all entry_ok ws"
  shows "split_runs is_sep (join [d] ws) = ws"
  using assms(2,3)
proof (induction "[d]" ws rule: join.induct)
  case (2 w)
  then show ?case by (simp add: entry_ok_def split_runs_last)
next
  case (3 w v ws)
  have w: "list_all (\<lambda>c. \<not> is_sep c) w" using "3.prems" by (simp add: entry_ok_def)
  obtain c cs where v: "v = c # cs" "\<not> is_sep c"
    using "3.prems" by (cases v) (auto simp: entry_ok_def)
  then obtain r where "join [d] (v # ws) = c # r" by (cases ws) auto
  then have "dropWhile is_sep (join [d] (v # ws)) = join [d] (v # ws)" using v(2) by simp
  then show ?case using "3.hyps" "3.prems" split_runs_word [OF w assms(1)] by simp
qed simp

lemma trim_entry: "entry_ok w \<Longrightarrow> trim w = w"
  by (rule trim_no_space) (auto simp: entry_ok_def is_sep_def list_all_iff)

text \<open>A list of clean entries, written one per line, is read back as it is.\<close>

lemma entries_join:
  assumes "list_all entry_ok ws"
  shows "entries (join (''\<newline>'') ws) = ws"
proof (cases "ws = []")
  case True
  show ?thesis unfolding True by (simp add: entries_def split_runs_last trim_def)
next
  case False
  have "is_sep (CHR ''\<newline>'')" by (simp add: is_sep_def is_space_def)
  from split_runs_join [OF this False assms]
  have "entries (join (''\<newline>'') ws) = filter (\<lambda>w. w \<noteq> []) (map trim ws)" by (simp add: entries_def)
  moreover have "map trim ws = ws" "filter (\<lambda>w. w \<noteq> []) ws = ws"
    using assms by (auto simp: list_all_iff trim_entry entry_ok_def intro: map_idI)
  ultimately show ?thesis by simp
qed

text \<open>And only such a list is: any other is changed by the way through the text field.\<close>

lemma entries_join_iff: "entries (join (''\<newline>'') ws) = ws \<longleftrightarrow> list_all entry_ok ws"
proof
  assume e: "entries (join (''\<newline>'') ws) = ws"
  show "list_all entry_ok ws" unfolding list_all_iff using entries_ok [of _ "join (''\<newline>'') ws"] e by auto
qed (rule entries_join)

lemma concat_split_runs: "concat (split_runs p s) = filter (\<lambda>c. \<not> p c) s"
proof (induction p s rule: split_runs.induct)
  case (1 p s)
  let ?w = "takeWhile (\<lambda>c. \<not> p c) s" and ?r = "dropWhile (\<lambda>c. \<not> p c) s"
  have s: "filter (\<lambda>c. \<not> p c) s = ?w @ filter (\<lambda>c. \<not> p c) ?r"
  proof -
    have "filter (\<lambda>c. \<not> p c) ?w = ?w" by (auto simp: filter_id_conv dest: set_takeWhileD)
    then show ?thesis by (metis filter_append takeWhile_dropWhile_id)
  qed
  show ?case
  proof (cases ?r)
    case Nil
    have "?w = s" using Nil takeWhile_dropWhile_id [of "\<lambda>c. \<not> p c" s] by (metis append_Nil2)
    moreover have "split_runs p s = [s]" using Nil by (simp only: split_runs.simps [of p s] list.case)
    ultimately show ?thesis using s Nil by simp
  next
    case (Cons c cs)
    have c: "p c" using Cons by (metis hd_dropWhile list.distinct(1) list.sel(1))
    have "filter (\<lambda>c. \<not> p c) cs = filter (\<lambda>c. \<not> p c) (dropWhile p cs)"
      by (induction cs) auto
    moreover have "split_runs p s = ?w # split_runs p (dropWhile p cs)"
      using Cons by (simp only: split_runs.simps [of p s] list.case)
    ultimately show ?thesis using s c Cons "1.IH" [OF Cons] by simp
  qed
qed

text \<open>An entry list keeps every character of the draft but the separators.\<close>

lemma entries_content: "concat (entries draft) = filter (\<lambda>c. \<not> is_sep c) draft"
proof -
  have "trim w = w" if "w \<in> set (split_runs is_sep draft)" for w
    using split_runs_fields [OF that] by (intro trim_no_space) (auto simp: list_all_iff is_sep_def)
  then have "map trim (split_runs is_sep draft) = split_runs is_sep draft" by (simp add: map_idI)
  moreover have "concat (filter (\<lambda>w. w \<noteq> []) ws) = concat ws" for ws :: "string list" by (induction ws) auto
  ultimately show ?thesis by (simp add: entries_def concat_split_runs)
qed

section \<open>Flags that say what is under way\<close>

definition under_way :: "('t \<Rightarrow> 'k option) \<Rightarrow> 'k \<Rightarrow> 't list \<Rightarrow> nat" where
  "under_way kind k ts = length (filter (\<lambda>t. kind t = Some k) ts)"

lemma under_way_simps [simp]:
  "under_way kind k [] = 0"
  "under_way kind k (t # ts) = (if kind t = Some k then Suc (under_way kind k ts) else under_way kind k ts)"
  "under_way kind k (ts @ us) = under_way kind k ts + under_way kind k us"
  by (simp_all add: under_way_def)

lemma under_way_drop:
  "i < length ts \<Longrightarrow>
     under_way kind k ts = under_way kind k (drop_nth i ts) + (if kind (ts ! i) = Some k then 1 else 0)"
proof -
  assume "i < length ts"
  then obtain ys zs where t: "ts = ys @ ts ! i # zs" and d: "drop_nth i ts = ys @ zs"
    using drop_nth_split by blast
  have "under_way kind k (ys @ ts ! i # zs) = under_way kind k (ys @ zs) + (if kind (ts ! i) = Some k then 1 else 0)"
    by simp
  then show ?thesis by (simp only: d t [symmetric])
qed

text \<open>
  The weaker contract: a flag is up only while a request of its kind is under way. It is stated for the
  steps that satisfy \<open>ok\<close> from the states that satisfy \<open>inv\<close>, which they keep.
\<close>

locale backed =
  fixes step :: "'op \<Rightarrow> 's \<Rightarrow> 's" and start :: 's and tasks :: "'s \<Rightarrow> 't list"
    and kind :: "'t \<Rightarrow> 'k option" and flag :: "'k \<Rightarrow> 's \<Rightarrow> bool"
    and inv :: "'s \<Rightarrow> bool" and ok :: "'op \<Rightarrow> bool"
  assumes inv_start: "inv start"
    and inv_step: "inv s \<Longrightarrow> ok op \<Longrightarrow> inv (step op s)"
    and start_backed: "flag k start \<Longrightarrow> under_way kind k (tasks start) \<noteq> 0"
    and step_backed: "inv s \<Longrightarrow> ok op \<Longrightarrow> flag k (step op s) \<Longrightarrow>
      under_way kind k (tasks (step op s)) \<noteq> 0 \<or>
      flag k s \<and> under_way kind k (tasks (step op s)) = under_way kind k (tasks s)"
begin

lemma run_inv: "list_all ok ops \<Longrightarrow> inv s \<Longrightarrow> inv (fold step ops s)"
  by (induction ops arbitrary: s) (simp_all add: inv_step)

lemma backed_from:
  "list_all ok ops \<Longrightarrow> inv s \<Longrightarrow> (flag k s \<Longrightarrow> under_way kind k (tasks s) \<noteq> 0) \<Longrightarrow>
     flag k (fold step ops s) \<Longrightarrow> under_way kind k (tasks (fold step ops s)) \<noteq> 0"
proof (induction ops arbitrary: s)
  case (Cons op ops)
  have "flag k (step op s) \<Longrightarrow> under_way kind k (tasks (step op s)) \<noteq> 0"
    using Cons.prems step_backed [of s op k] by auto
  then show ?case using Cons.IH [of "step op s"] Cons.prems by (simp add: inv_step)
qed simp

lemma run_backed:
  "list_all ok ops \<Longrightarrow> flag k (fold step ops start) \<Longrightarrow> under_way kind k (tasks (fold step ops start)) \<noteq> 0"
  using backed_from [of ops start k] inv_start start_backed by blast

lemma at_rest: "list_all ok ops \<Longrightarrow> tasks (fold step ops start) = [] \<Longrightarrow> \<not> flag k (fold step ops start)"
  using run_backed [of ops k] by auto

end

text \<open>
  The contract of a page that raises a flag of a kind only while it is down, together with a request of
  that kind, and lowers it with the answer that ends the request. Every other step leaves both alone.
\<close>

definition flight_move :: "bool \<Rightarrow> nat \<Rightarrow> bool \<Rightarrow> nat \<Rightarrow> bool" where
  "flight_move f n f' n' \<longleftrightarrow> f' = f \<and> n' = n \<or> \<not> f \<and> f' \<and> n' = Suc n \<or> \<not> f' \<and> n = Suc n'"

locale flights =
  fixes step :: "'op \<Rightarrow> 's \<Rightarrow> 's" and start :: 's and tasks :: "'s \<Rightarrow> 't list"
    and kind :: "'t \<Rightarrow> 'k option" and flag :: "'k \<Rightarrow> 's \<Rightarrow> bool"
    and inv :: "'s \<Rightarrow> bool" and ok :: "'op \<Rightarrow> bool"
  assumes kept_start: "inv start"
    and kept_step: "inv s \<Longrightarrow> ok op \<Longrightarrow> inv (step op s)"
    and started: "under_way kind k (tasks start) = 0 \<and> \<not> flag k start"
    and moves: "inv s \<Longrightarrow> ok op \<Longrightarrow>
      flight_move (flag k s) (under_way kind k (tasks s)) (flag k (step op s)) (under_way kind k (tasks (step op s)))"

sublocale flights \<subseteq> backed
proof
  fix s op k
  assume "inv s" "ok op" "flag k (step op s)"
  then show "under_way kind k (tasks (step op s)) \<noteq> 0 \<or>
      flag k s \<and> under_way kind k (tasks (step op s)) = under_way kind k (tasks s)"
    using moves [of s op k] by (auto simp: flight_move_def)
qed (simp_all add: kept_start kept_step started)

context flights
begin

lemma flag_counts:
  "list_all ok ops \<Longrightarrow> inv s \<Longrightarrow> under_way kind k (tasks s) = (if flag k s then 1 else 0) \<Longrightarrow>
     under_way kind k (tasks (fold step ops s)) = (if flag k (fold step ops s) then 1 else 0)"
proof (induction ops arbitrary: s)
  case (Cons op ops)
  have "under_way kind k (tasks (step op s)) = (if flag k (step op s) then 1 else 0)"
    using moves [of s op k] Cons.prems by (auto simp: flight_move_def split: if_splits)
  then show ?case using Cons.IH [of "step op s"] Cons.prems by (simp add: inv_step)
qed simp

lemma one_flight:
  "list_all ok ops \<Longrightarrow>
     under_way kind k (tasks (fold step ops start)) = (if flag k (fold step ops start) then 1 else 0)"
  using flag_counts [of ops start k] inv_start started [of k] by simp

end

section \<open>What was sent\<close>

text \<open>
  The contract of a page that only adds to what it has sent: what a step adds satisfies \<open>sends\<close>, of the
  state it starts from. Then every request of a run is an old one, or one of its steps sent it.
\<close>

locale logging =
  fixes step :: "'op \<Rightarrow> 's \<Rightarrow> 's" and sent :: "'s \<Rightarrow> 'r list" and sends :: "'s \<Rightarrow> 'op \<Rightarrow> 'r \<Rightarrow> bool"
  assumes logs: "\<exists>rs. sent (step op s) = sent s @ rs \<and> (\<forall>r\<in>set rs. sends s op r)"
begin

lemma run_log:
  "r \<in> set (sent (fold step ops s)) \<Longrightarrow>
     r \<in> set (sent s) \<or> (\<exists>pre op post. ops = pre @ op # post \<and> sends (fold step pre s) op r)"
proof (induction ops rule: rev_induct)
  case (snoc op ops)
  obtain rs where rs: "sent (step op (fold step ops s)) = sent (fold step ops s) @ rs"
    "\<forall>r\<in>set rs. sends (fold step ops s) op r" using logs by blast
  show ?case
  proof (cases "r \<in> set rs")
    case True
    then show ?thesis using rs(2) by (intro disjI2 exI [of _ ops] exI [of _ op] exI [of _ "[]"]) simp
  next
    case False
    then have "r \<in> set (sent (fold step ops s))" using snoc.prems rs(1) by auto
    from snoc.IH [OF this] show ?thesis by (metis append_Cons append_assoc)
  qed
qed simp

lemma sent_kept: "set (sent s) \<subseteq> set (sent (fold step ops s))"
proof (induction ops rule: rev_induct)
  case (snoc op ops)
  then show ?case using logs [of op "fold step ops s"] by auto
qed simp

end

section \<open>Pages that come to rest\<close>

text \<open>
  The contract of a page whose requests run out: every task has a weight, the requests that may still
  follow it included, and answering the oldest one takes away some of the weight.
\<close>

definition workload :: "('t \<Rightarrow> nat) \<Rightarrow> 't list \<Rightarrow> nat" where
  "workload weight ts = sum_list (map weight ts)"

lemma workload_simps [simp]:
  "workload weight [] = 0" "workload weight (t # ts) = weight t + workload weight ts"
  "workload weight (ts @ us) = workload weight ts + workload weight us"
  by (simp_all add: workload_def)

locale draining =
  fixes answer :: "'a \<Rightarrow> 's \<Rightarrow> 's" and tasks :: "'s \<Rightarrow> 't list" and weight :: "'t \<Rightarrow> nat"
  assumes positive: "0 < weight t"
    and lighter: "tasks s \<noteq> [] \<Longrightarrow> workload weight (tasks (answer a s)) < workload weight (tasks s)"
    and idle: "tasks s = [] \<Longrightarrow> tasks (answer a s) = []"
begin

lemma empty_iff: "workload weight ts = 0 \<longleftrightarrow> ts = []"
  using positive by (cases ts) (auto simp: neq0_conv)

lemma drained: "workload weight (tasks s) \<le> length as \<Longrightarrow> tasks (fold answer as s) = []"
proof (induction as arbitrary: s)
  case Nil
  then show ?case by (simp add: empty_iff)
next
  case (Cons a as)
  have "workload weight (tasks (answer a s)) \<le> length as"
    using Cons.prems lighter [of s a] idle [of s a] by (cases "tasks s = []") auto
  from Cons.IH [OF this] show ?case by simp
qed

end

end
