(* ===== verification/KeysPage.thy ===== *)
theory KeysPage
  imports Requests Arrays Rounding
begin

text \<open>
  \<open>web/app/settings/keys/page.tsx\<close>: the page of the personal access tokens. It mints, lists, rotates and
  revokes tokens, edits their three allowlists, and opens two panels per token. The state is that of the
  component's hooks, the three editors and the two panels grouped; a handler is cut at its \<open>await\<close>s and
  its rest is a task.
\<close>

section \<open>Data\<close>

record KeyRow =
  kr_id :: string
  kr_name :: string
  kr_roles :: "string list"
  kr_rpm :: rat
  kr_created_at :: rat
  kr_last_used_at :: rat
  kr_last_used_ip :: "string option"
  kr_last_used_ua :: "string option"
  kr_secret_hint :: string
  kr_expires_at :: rat
  kr_expired :: bool
  kr_scopes :: "string list"
  kr_effective_scopes :: "string list"
  kr_prior_secret_hint :: "string option"
  kr_prior_secret_expires_at :: "rat option"
  kr_rotation_active :: "bool option"
  kr_ip_cidrs :: "string list option"
  kr_path_prefixes :: "string list option"
  kr_http_methods :: "string list option"
  kr_require_device_approval :: "bool option"
  kr_max_age_minutes :: "rat option"
  kr_age_seconds_remaining :: "rat option"
  kr_aged_out :: "bool option"
  kr_max_idle_minutes :: "rat option"
  kr_idle_seconds_remaining :: "rat option"
  kr_idle_revoked :: "bool option"

record CreatedKey = KeyRow +
  ck_secret :: string

record IpHistoryItem =
  ih_ip :: string
  ih_first_seen :: rat
  ih_last_seen :: rat
  ih_count :: rat
  ih_last_ua :: "string option"

record IpHistoryView =
  hv_id :: string
  hv_name :: string
  hv_distinct_ips :: rat
  hv_truncated :: bool
  hv_items :: "IpHistoryItem list"

record DeviceItem =
  dv_fingerprint :: string
  dv_status :: string
  dv_label :: string
  dv_first_seen :: rat
  dv_last_seen :: rat
  dv_count :: rat
  dv_last_ua :: string
  dv_last_ip :: string

record DevicesView =
  ds_id :: string
  ds_name :: string
  ds_require_device_approval :: bool
  ds_devices :: "DeviceItem list"

record KeyPolicy =
  kp_max_ttl_days :: rat
  kp_default_ttl_days :: rat
  kp_available_scopes :: "string list"
  kp_allowed_scopes :: "string list"

text \<open>The documents of the routes, as the tasks cast the body.\<close>

record key_docs =
  kd_rows :: "KeyRow list"
  kd_policy :: KeyPolicy
  kd_created :: CreatedKey
  kd_history :: IpHistoryView
  kd_devices :: DevicesView
  kd_revoked :: "string list"
  kd_preserved :: "string option"

type_synonym key_reply = "key_docs reply"

section \<open>Texts\<close>

text \<open>Times are quotients of the milliseconds of the clock, rounded as the code computes them.\<close>

definition seconds_now :: "rat \<Rightarrow> rat" where
  "seconds_now now = rnd (now / 1000)"

definition timeAgo :: "rat \<Rightarrow> rat \<Rightarrow> string" where
  "timeAgo now ts =
     (if ts = 0 then ''never''
      else let d = max 0 (rnd (seconds_now now - ts)) in
        if d < 60 then ''just now''
        else if d < 3600 then int_to_string (floor (rnd (d / 60))) @ ''m ago''
        else if d < 86400 then int_to_string (floor (rnd (d / 3600))) @ ''h ago''
        else int_to_string (floor (rnd (d / 86400))) @ ''d ago'')"

definition expiryLabel :: "rat \<Rightarrow> rat \<Rightarrow> bool \<Rightarrow> string" where
  "expiryLabel now expiresAt expired =
     (if expiresAt = 0 then ''never''
      else if expired then ''expired''
      else let d = rnd (expiresAt - seconds_now now) in
        if d < 3600 then ''in '' @ int_to_string (max 1 (floor (rnd (d / 60)))) @ ''m''
        else if d < 86400 then ''in '' @ int_to_string (floor (rnd (d / 3600))) @ ''h''
        else ''in '' @ int_to_string (floor (rnd (d / 86400))) @ ''d'')"

definition ttl_base :: "(string \<times> string) list" where
  "ttl_base =
     [(''1'', ''in 1 day''), (''7'', ''in 7 days''), (''30'', ''in 30 days''), (''90'', ''in 90 days''),
      (''180'', ''in 180 days''), (''365'', ''in 365 days'')]"

definition ttl_cap :: "KeyPolicy option \<Rightarrow> rat" where
  "ttl_cap policy = (case policy of None \<Rightarrow> 0 | Some p \<Rightarrow> kp_max_ttl_days p)"

text \<open>\<open>Number(o.value) <= cap\<close> and \<open>Number(o.value) === cap\<close>\<close>

definition ttl_at_most :: "rat \<Rightarrow> string \<Rightarrow> bool" where
  "ttl_at_most cap v = (case string_to_number v of Fin x \<Rightarrow> x \<le> cap | NInf \<Rightarrow> True | _ \<Rightarrow> False)"

definition ttlChoices :: "KeyPolicy option \<Rightarrow> (string \<times> string) list" where
  "ttlChoices policy =
     (let cap = ttl_cap policy;
          filtered = (if cap > 0 then filter (\<lambda>(v, l). ttl_at_most cap v) ttl_base else ttl_base);
          capped = (if cap > 0 \<and> \<not> list_ex (\<lambda>(v, l). string_to_number v = Fin cap) filtered
                    then filtered @ [(num_to_string cap, ''in '' @ num_to_string cap @ '' days (max)'')]
                    else filtered)
      in if cap = 0 then capped @ [(''never'', ''never'')] else capped)"

section \<open>State\<close>

datatype key_list = KLoading | KReady "KeyRow list" | KFailed nat string

text \<open>An allowlist editor: the token it is open for, its draft, the save under way, its message.\<close>

record 'd editor =
  ed_id :: "string option"
  ed_draft :: 'd
  ed_saving :: "string option"
  ed_error :: "string option"

text \<open>A panel of a token: whose it is, whose request is awaited, a message or its content.\<close>

record 'd panel =
  pn_id :: "string option"
  pn_loading :: "string option"
  pn_error :: "string option"
  pn_data :: "'d option"

text \<open>The rest of a handler after the reload of the list that it awaits.\<close>

datatype after = NoMore | EndCreate | EndRotate | EndRevoke | EndIp | EndPath | EndMethods | EndRevokeAll
  | ThenDevices string bool

datatype copy_label = secret_label | curl_label

text \<open>
  The requests under way: reloads of the list, of the policy (with the number of the effect that sent
  it), the handlers up to their answer, the second request of the device handlers, and a clipboard
  write with the timer after it.
\<close>

datatype key_task =
  TList after | TPolicy nat | TCreate | TRotate | TRevoke | TIp | TPath | TMethods
| THistory string | TDevices string | TToggle string bool | TDevice string | TReload string
| TRevokeAll | TCopy copy_label | TUncopy

record keys_page =
  ks_key :: string
  ks_hook :: string
  ks_state :: key_list
  ks_name :: string
  ks_ttlDays :: string
  ks_policy :: "KeyPolicy option"
  ks_scopes :: "string list"
  ks_creating :: bool
  ks_createError :: "string option"
  ks_justCreated :: "CreatedKey option"
  ks_revoking :: "string option"
  ks_confirmId :: "string option"
  ks_rotateId :: "string option"
  ks_rotateGrace :: string
  ks_rotating :: "string option"
  ks_rotateError :: "string option"
  ks_revokeAllOpen :: bool
  ks_revokingAll :: bool
  ks_revokeAllError :: "string option"
  ks_revokeAllResult :: "(nat \<times> bool) option"
  ks_ip :: "string editor"
  ks_path :: "string editor"
  ks_methods :: "string list editor"
  ks_history :: "IpHistoryView panel"
  ks_devices :: "DevicesView panel"
  ks_deviceBusy :: "string option"
  ks_copied :: "copy_label option"
  ks_epoch :: nat
  ks_tasks :: "key_task list"
  ks_sent :: "request list"

section \<open>Requests\<close>

text \<open>\<open>authHeaders()\<close> for the stored key.\<close>

definition key_headers :: "string \<Rightarrow> headers" where
  "key_headers k = (if k \<noteq> [] then [(''X-API-Key'', k)] else [])"

definition plain_request :: "string \<Rightarrow> string \<Rightarrow> string \<Rightarrow> request" where
  "plain_request m path k = \<lparr>req_method = m, req_path = path, req_headers = key_headers k, req_payload = None\<rparr>"

definition body_request :: "string \<Rightarrow> string \<Rightarrow> string \<Rightarrow> json \<Rightarrow> request" where
  "body_request m path k body =
     \<lparr>req_method = m, req_path = path, req_headers = key_headers k @ [(''Content-Type'', ''application/json'')],
      req_payload = Some body\<rparr>"

definition key_path :: "string \<Rightarrow> string \<Rightarrow> string" where
  "key_path i rest = ''/api/keys/'' @ i @ rest"

definition strings :: "string list \<Rightarrow> json" where
  "strings ss = JArr (map JStr ss)"

text \<open>A request with what remains of its handler.\<close>

definition send :: "key_task \<Rightarrow> request \<Rightarrow> keys_page \<Rightarrow> keys_page" where
  "send t r s = s\<lparr>ks_tasks := ks_tasks s @ [t], ks_sent := ks_sent s @ [r]\<rparr>"

section \<open>The list and the policy\<close>

definition refresh :: "after \<Rightarrow> keys_page \<Rightarrow> keys_page" where
  "refresh aft s = send (TList aft) (plain_request ''GET'' ''/api/keys'' (ks_key s)) (s\<lparr>ks_state := KLoading\<rparr>)"

definition refresh_land :: "key_reply \<Rightarrow> keys_page \<Rightarrow> keys_page" where
  "refresh_land a s =
     s\<lparr>ks_state :=
        (case a of
           Broke m \<Rightarrow> KFailed 0 m
         | Denied st body statusText \<Rightarrow> KFailed st (or_str (nullish body statusText) statusText)
         | Got d \<Rightarrow> KReady (kd_rows d))\<rparr>"

text \<open>The effect that loads the policy; a change of the key ends the one before it.\<close>

definition policy_begin :: "keys_page \<Rightarrow> keys_page" where
  "policy_begin s =
     send (TPolicy (Suc (ks_epoch s))) (plain_request ''GET'' ''/api/keys/policy'' (ks_key s))
       (s\<lparr>ks_epoch := Suc (ks_epoch s)\<rparr>)"

definition policy_land :: "nat \<Rightarrow> key_reply \<Rightarrow> keys_page \<Rightarrow> keys_page" where
  "policy_land e a s =
     (case a of
        Got d \<Rightarrow>
          (if e \<noteq> ks_epoch s then s
           else let p = kd_policy d in
             s\<lparr>ks_policy := Some p,
               ks_ttlDays := (if kp_default_ttl_days p > 0 then num_to_string (kp_default_ttl_days p)
                 else if kp_max_ttl_days p > 0 then num_to_string (kp_max_ttl_days p) else ks_ttlDays s)\<rparr>)
      | _ \<Rightarrow> s)"

text \<open>
  Both effects run when the page is mounted and when \<open>useApiKey\<close> gives another key, which it first does
  after the mount; \<open>ks_key\<close> is the key in the storage, \<open>ks_hook\<close> that of the hook.
\<close>

definition key_change :: "string \<Rightarrow> keys_page \<Rightarrow> keys_page" where
  "key_change k s =
     (if k = ks_hook s then s\<lparr>ks_key := k\<rparr>
      else policy_begin (refresh NoMore (s\<lparr>ks_key := k, ks_hook := k\<rparr>)))"

definition devices_request :: "string \<Rightarrow> string \<Rightarrow> request" where
  "devices_request i k = plain_request ''GET'' (key_path i ''/devices'') k"

text \<open>What a handler does once the reload it awaits has ended.\<close>

definition after_refresh :: "after \<Rightarrow> keys_page \<Rightarrow> keys_page" where
  "after_refresh aft s =
     (case aft of
        NoMore \<Rightarrow> s
      | EndCreate \<Rightarrow> s\<lparr>ks_creating := False\<rparr>
      | EndRotate \<Rightarrow> s\<lparr>ks_rotating := None\<rparr>
      | EndRevoke \<Rightarrow> s\<lparr>ks_revoking := None\<rparr>
      | EndIp \<Rightarrow> s\<lparr>ks_ip := (ks_ip s)\<lparr>ed_saving := None\<rparr>\<rparr>
      | EndPath \<Rightarrow> s\<lparr>ks_path := (ks_path s)\<lparr>ed_saving := None\<rparr>\<rparr>
      | EndMethods \<Rightarrow> s\<lparr>ks_methods := (ks_methods s)\<lparr>ed_saving := None\<rparr>\<rparr>
      | EndRevokeAll \<Rightarrow> s\<lparr>ks_revokingAll := False\<rparr>
      | ThenDevices i shown \<Rightarrow>
          if shown then send (TReload i) (devices_request i (ks_key s)) s else s\<lparr>ks_deviceBusy := None\<rparr>)"

section \<open>Minting\<close>

definition expires_in_days :: "string \<Rightarrow> jsnum" where
  "expires_in_days ttl = (if ttl = ''never'' then Fin 0 else string_to_number ttl)"

definition create_body :: "keys_page \<Rightarrow> json" where
  "create_body s =
     JObj [(''name'', JStr (trim (ks_name s))), (''expires_in_days'', JNum (expires_in_days (ks_ttlDays s))),
           (''scopes'', strings (ks_scopes s))]"

definition create_begin :: "keys_page \<Rightarrow> keys_page" where
  "create_begin s =
     (if trim (ks_name s) = [] \<or> ks_creating s then s
      else send TCreate (body_request ''POST'' ''/api/keys'' (ks_key s) (create_body s))
             (s\<lparr>ks_creating := True, ks_createError := None\<rparr>))"

definition create_land :: "key_reply \<Rightarrow> keys_page \<Rightarrow> keys_page" where
  "create_land a s =
     (case a of
        Broke m \<Rightarrow> s\<lparr>ks_createError := Some m, ks_creating := False\<rparr>
      | Denied st body statusText \<Rightarrow>
          s\<lparr>ks_createError := Some (failed_status st body statusText), ks_creating := False\<rparr>
      | Got d \<Rightarrow> refresh EndCreate (s\<lparr>ks_justCreated := Some (kd_created d), ks_name := [], ks_scopes := []\<rparr>))"

definition scope_box :: "string \<Rightarrow> bool \<Rightarrow> keys_page \<Rightarrow> keys_page" where
  "scope_box sc on s =
     (case ks_policy s of
        None \<Rightarrow> s
      | Some p \<Rightarrow>
          if sc \<in> set (kp_allowed_scopes p)
          then s\<lparr>ks_scopes := (if on then jset_add sc (ks_scopes s) else jset_delete sc (ks_scopes s))\<rparr> else s)"

section \<open>Rotating and revoking\<close>

text \<open>\<open>rotateGrace === "now" ? 0 : Math.max(0, parseInt(rotateGrace, 10) || 0)\<close>\<close>

definition grace_minutes :: "string \<Rightarrow> jsnum" where
  "grace_minutes g =
     (if g = ''now'' then Fin 0
      else case parse_int g of Fin x \<Rightarrow> Fin (max 0 x) | PInf \<Rightarrow> PInf | _ \<Rightarrow> Fin 0)"

definition rotate_begin :: "string \<Rightarrow> keys_page \<Rightarrow> keys_page" where
  "rotate_begin i s =
     (if nullish (ks_rotating s) [] \<noteq> [] then s
      else send TRotate
             (body_request ''POST'' (key_path i ''/rotate'') (ks_key s)
                (JObj [(''grace_minutes'', JNum (grace_minutes (ks_rotateGrace s)))]))
             (s\<lparr>ks_rotating := Some i, ks_rotateError := None\<rparr>))"

definition rotate_land :: "key_reply \<Rightarrow> keys_page \<Rightarrow> keys_page" where
  "rotate_land a s =
     (case a of
        Broke m \<Rightarrow> s\<lparr>ks_rotateError := Some m, ks_rotating := None\<rparr>
      | Denied st body statusText \<Rightarrow> s\<lparr>ks_rotateError := Some (failed_with st body), ks_rotating := None\<rparr>
      | Got d \<Rightarrow> refresh EndRotate (s\<lparr>ks_justCreated := Some (kd_created d), ks_rotateId := None\<rparr>))"

text \<open>\<open>revoke\<close> has no \<open>catch\<close> and says nothing about a refusal.\<close>

definition revoke_begin :: "string \<Rightarrow> keys_page \<Rightarrow> keys_page" where
  "revoke_begin i s =
     send TRevoke (plain_request ''DELETE'' (key_path i []) (ks_key s)) (s\<lparr>ks_revoking := Some i\<rparr>)"

definition revoke_land :: "key_reply \<Rightarrow> keys_page \<Rightarrow> keys_page" where
  "revoke_land a s =
     (case a of Got d \<Rightarrow> refresh EndRevoke (s\<lparr>ks_confirmId := None\<rparr>) | _ \<Rightarrow> s\<lparr>ks_revoking := None\<rparr>)"

definition revokeAll_begin :: "keys_page \<Rightarrow> keys_page" where
  "revokeAll_begin s =
     (if ks_revokingAll s then s
      else send TRevokeAll
             (body_request ''POST'' ''/api/keys/revoke-all'' (ks_key s) (JObj [(''include_self'', JBool False)]))
             (s\<lparr>ks_revokingAll := True, ks_revokeAllError := None\<rparr>))"

definition revokeAll_land :: "key_reply \<Rightarrow> keys_page \<Rightarrow> keys_page" where
  "revokeAll_land a s =
     (case a of
        Broke m \<Rightarrow> s\<lparr>ks_revokeAllError := Some m, ks_revokingAll := False\<rparr>
      | Denied st body statusText \<Rightarrow>
          s\<lparr>ks_revokeAllError := Some (failed_status st body statusText), ks_revokingAll := False\<rparr>
      | Got d \<Rightarrow>
          refresh EndRevokeAll
            (s\<lparr>ks_revokeAllResult := Some (length (kd_revoked d), nullish (kd_preserved d) [] \<noteq> []),
               ks_revokeAllOpen := False\<rparr>))"

section \<open>Allowlist editors\<close>

definition editor_start :: "'d \<Rightarrow> 'd editor" where
  "editor_start d = \<lparr>ed_id = None, ed_draft = d, ed_saving = None, ed_error = None\<rparr>"

definition editor_open :: "string \<Rightarrow> 'd \<Rightarrow> 'd editor \<Rightarrow> 'd editor" where
  "editor_open i d e = e\<lparr>ed_id := Some i, ed_draft := d, ed_error := None\<rparr>"

definition editor_cancel :: "'d \<Rightarrow> 'd editor \<Rightarrow> 'd editor" where
  "editor_cancel blank e = e\<lparr>ed_id := None, ed_draft := blank, ed_error := None\<rparr>"

definition editor_saving :: "string \<Rightarrow> 'd editor \<Rightarrow> 'd editor" where
  "editor_saving i e = e\<lparr>ed_saving := Some i, ed_error := None\<rparr>"

definition editor_failed :: "string \<Rightarrow> 'd editor \<Rightarrow> 'd editor" where
  "editor_failed m e = e\<lparr>ed_error := Some m, ed_saving := None\<rparr>"

definition editor_saved :: "'d \<Rightarrow> 'd editor \<Rightarrow> 'd editor" where
  "editor_saved blank e = e\<lparr>ed_id := None, ed_draft := blank\<rparr>"

definition editor_busy :: "'d editor \<Rightarrow> bool" where
  "editor_busy e \<longleftrightarrow> nullish (ed_saving e) [] \<noteq> []"

text \<open>The message of a save that failed; \<^const>\<open>None\<close> when it succeeded.\<close>

definition save_error :: "'e reply \<Rightarrow> string option" where
  "save_error a = (case a of Broke m \<Rightarrow> Some m | Denied st body statusText \<Rightarrow> Some (failed_with st body) | Got d \<Rightarrow> None)"

definition saveIpAllowlist :: "string \<Rightarrow> keys_page \<Rightarrow> keys_page" where
  "saveIpAllowlist i s =
     (if editor_busy (ks_ip s) then s
      else send TIp
             (body_request ''PUT'' (key_path i ''/ip-allowlist'') (ks_key s)
                (JObj [(''cidrs'', strings (entries (ed_draft (ks_ip s))))]))
             (s\<lparr>ks_ip := editor_saving i (ks_ip s)\<rparr>))"

definition ip_land :: "key_reply \<Rightarrow> keys_page \<Rightarrow> keys_page" where
  "ip_land a s =
     (case save_error a of
        Some m \<Rightarrow> s\<lparr>ks_ip := editor_failed m (ks_ip s)\<rparr>
      | None \<Rightarrow> refresh EndIp (s\<lparr>ks_ip := editor_saved [] (ks_ip s)\<rparr>))"

definition savePathAllowlist :: "string \<Rightarrow> keys_page \<Rightarrow> keys_page" where
  "savePathAllowlist i s =
     (if editor_busy (ks_path s) then s
      else send TPath
             (body_request ''PUT'' (key_path i ''/path-allowlist'') (ks_key s)
                (JObj [(''path_prefixes'', strings (entries (ed_draft (ks_path s))))]))
             (s\<lparr>ks_path := editor_saving i (ks_path s)\<rparr>))"

definition path_land :: "key_reply \<Rightarrow> keys_page \<Rightarrow> keys_page" where
  "path_land a s =
     (case save_error a of
        Some m \<Rightarrow> s\<lparr>ks_path := editor_failed m (ks_path s)\<rparr>
      | None \<Rightarrow> refresh EndPath (s\<lparr>ks_path := editor_saved [] (ks_path s)\<rparr>))"

text \<open>\<open>toUpperCase\<close> on Latin-1; two letters whose capitals are no Latin-1 code units are left as they are.\<close>

definition upper_char :: "char \<Rightarrow> string" where
  "upper_char c =
     (let n = (of_char c :: nat) in
      if n = 223 then ''SS''
      else if 97 \<le> n \<and> n \<le> 122 \<or> 224 \<le> n \<and> n \<le> 254 \<and> n \<noteq> 247 then [char_of (n - 32)] else [c])"

definition to_upper :: "string \<Rightarrow> string" where
  "to_upper s = concat (map upper_char s)"

definition method_list :: "string list \<Rightarrow> string list" where
  "method_list draft = filter (\<lambda>m. m \<noteq> []) (map (\<lambda>m. to_upper (trim m)) draft)"

definition saveMethodAllowlist :: "string \<Rightarrow> keys_page \<Rightarrow> keys_page" where
  "saveMethodAllowlist i s =
     (if editor_busy (ks_methods s) then s
      else send TMethods
             (body_request ''PUT'' (key_path i ''/method-allowlist'') (ks_key s)
                (JObj [(''http_methods'', strings (method_list (ed_draft (ks_methods s))))]))
             (s\<lparr>ks_methods := editor_saving i (ks_methods s)\<rparr>))"

definition methods_land :: "key_reply \<Rightarrow> keys_page \<Rightarrow> keys_page" where
  "methods_land a s =
     (case save_error a of
        Some m \<Rightarrow> s\<lparr>ks_methods := editor_failed m (ks_methods s)\<rparr>
      | None \<Rightarrow> refresh EndMethods (s\<lparr>ks_methods := editor_saved [] (ks_methods s)\<rparr>))"

definition METHOD_BUTTONS :: "string list" where
  "METHOD_BUTTONS = [''GET'', ''HEAD'', ''POST'', ''PUT'', ''PATCH'', ''DELETE'', ''OPTIONS'']"

text \<open>\<open>d.includes(m) ? d.filter((x) => x !== m) : [...d, m].sort()\<close>\<close>

definition toggle_method :: "string \<Rightarrow> string list \<Rightarrow> string list" where
  "toggle_method m d = (if m \<in> set d then filter (\<lambda>x. x \<noteq> m) d else js_sort str_cmp (d @ [m]))"

section \<open>Panels\<close>

definition panel_closed :: "'d panel \<Rightarrow> 'd panel" where
  "panel_closed p = p\<lparr>pn_id := None, pn_data := None, pn_error := None\<rparr>"

definition panel_opened :: "string \<Rightarrow> 'd panel \<Rightarrow> 'd panel" where
  "panel_opened i p = p\<lparr>pn_id := Some i, pn_data := None, pn_error := None, pn_loading := Some i\<rparr>"

definition panel_error :: "string \<Rightarrow> nat \<Rightarrow> string option \<Rightarrow> string" where
  "panel_error what st body =
     (if st = 403 then ''Admin role required to view '' @ what @ ''.''
      else if st = 404 then ''Token not found in this workspace.''
      else failed_with st body)"

definition panel_land :: "string \<Rightarrow> (key_docs \<Rightarrow> 'd) \<Rightarrow> key_reply \<Rightarrow> 'd panel \<Rightarrow> 'd panel" where
  "panel_land what content a p =
     (case a of
        Broke m \<Rightarrow> p\<lparr>pn_error := Some m, pn_loading := None\<rparr>
      | Denied st body statusText \<Rightarrow> p\<lparr>pn_error := Some (panel_error what st body), pn_loading := None\<rparr>
      | Got d \<Rightarrow> p\<lparr>pn_data := Some (content d), pn_loading := None\<rparr>)"

definition openHistory :: "string \<Rightarrow> keys_page \<Rightarrow> keys_page" where
  "openHistory i s =
     (if pn_id (ks_history s) = Some i then s\<lparr>ks_history := panel_closed (ks_history s)\<rparr>
      else send (THistory i) (plain_request ''GET'' (key_path i ''/ip-history'') (ks_key s))
             (s\<lparr>ks_history := panel_opened i (ks_history s)\<rparr>))"

definition openDevices :: "string \<Rightarrow> keys_page \<Rightarrow> keys_page" where
  "openDevices i s =
     (if pn_id (ks_devices s) = Some i then s\<lparr>ks_devices := panel_closed (ks_devices s)\<rparr>
      else send (TDevices i) (devices_request i (ks_key s)) (s\<lparr>ks_devices := panel_opened i (ks_devices s)\<rparr>))"

definition history_land :: "key_reply \<Rightarrow> keys_page \<Rightarrow> keys_page" where
  "history_land a s = s\<lparr>ks_history := panel_land ''source IP history'' kd_history a (ks_history s)\<rparr>"

definition devices_land :: "key_reply \<Rightarrow> keys_page \<Rightarrow> keys_page" where
  "devices_land a s = s\<lparr>ks_devices := panel_land ''trusted devices'' kd_devices a (ks_devices s)\<rparr>"

section \<open>Trusted devices\<close>

definition device_busy :: "string \<Rightarrow> keys_page \<Rightarrow> keys_page" where
  "device_busy tag s = s\<lparr>ks_deviceBusy := Some tag, ks_devices := (ks_devices s)\<lparr>pn_error := None\<rparr>\<rparr>"

definition device_failed :: "string \<Rightarrow> keys_page \<Rightarrow> keys_page" where
  "device_failed m s = s\<lparr>ks_deviceBusy := None, ks_devices := (ks_devices s)\<lparr>pn_error := Some m\<rparr>\<rparr>"

text \<open>Whether the panel of the token is open is read from the render of the click.\<close>

definition toggleDeviceApproval :: "string \<Rightarrow> bool \<Rightarrow> keys_page \<Rightarrow> keys_page" where
  "toggleDeviceApproval i required s =
     send (TToggle i (pn_id (ks_devices s) = Some i))
       (body_request ''PUT'' (key_path i ''/device-approval'') (ks_key s) (JObj [(''required'', JBool required)]))
       (device_busy i s)"

definition toggle_land :: "string \<Rightarrow> bool \<Rightarrow> key_reply \<Rightarrow> keys_page \<Rightarrow> keys_page" where
  "toggle_land i shown a s =
     (case save_error a of Some m \<Rightarrow> device_failed m s | None \<Rightarrow> refresh (ThenDevices i shown) s)"

definition device_tag :: "string \<Rightarrow> string \<Rightarrow> string" where
  "device_tag i fp = i @ '':'' @ fp"

definition approveDevice :: "string \<Rightarrow> string \<Rightarrow> keys_page \<Rightarrow> keys_page" where
  "approveDevice i fp s =
     send (TDevice i)
       (body_request ''POST'' (key_path i (''/devices/'' @ fp @ ''/approve'')) (ks_key s) (JObj [(''label'', JStr [])]))
       (device_busy (device_tag i fp) s)"

definition revokeDevice :: "string \<Rightarrow> string \<Rightarrow> keys_page \<Rightarrow> keys_page" where
  "revokeDevice i fp s =
     send (TDevice i) (plain_request ''DELETE'' (key_path i (''/devices/'' @ fp)) (ks_key s))
       (device_busy (device_tag i fp) s)"

definition device_land :: "string \<Rightarrow> key_reply \<Rightarrow> keys_page \<Rightarrow> keys_page" where
  "device_land i a s =
     (case save_error a of
        Some m \<Rightarrow> device_failed m s
      | None \<Rightarrow> send (TReload i) (devices_request i (ks_key s)) s)"

definition reload_land :: "key_reply \<Rightarrow> keys_page \<Rightarrow> keys_page" where
  "reload_land a s =
     (case a of
        Broke m \<Rightarrow> device_failed m s
      | Denied st body statusText \<Rightarrow> s\<lparr>ks_deviceBusy := None\<rparr>
      | Got d \<Rightarrow> s\<lparr>ks_deviceBusy := None, ks_devices := (ks_devices s)\<lparr>pn_data := Some (kd_devices d)\<rparr>\<rparr>)"

section \<open>The clipboard\<close>

definition copy_begin :: "copy_label \<Rightarrow> keys_page \<Rightarrow> keys_page" where
  "copy_begin l s = (if ks_justCreated s = None then s else s\<lparr>ks_tasks := ks_tasks s @ [TCopy l]\<rparr>)"

definition copy_land :: "copy_label \<Rightarrow> key_reply \<Rightarrow> keys_page \<Rightarrow> keys_page" where
  "copy_land l a s =
     (case a of Got d \<Rightarrow> s\<lparr>ks_copied := Some l, ks_tasks := ks_tasks s @ [TUncopy]\<rparr> | _ \<Rightarrow> s)"

definition quoted :: "string \<Rightarrow> string" where
  "quoted s = [CHR 0x22] @ s @ [CHR 0x22]"

definition curl_text :: "string \<Rightarrow> CreatedKey option \<Rightarrow> string" where
  "curl_text origin created =
     (case created of
        None \<Rightarrow> []
      | Some c \<Rightarrow>
          ''curl -X POST '' @ origin @ ''/api/v1/match '' @ [CHR 0x5C, CHR 0x0A] @
          ''  -H '' @ quoted (''X-API-Key: '' @ ck_secret c) @ '' '' @ [CHR 0x5C, CHR 0x0A] @
          ''  -F '' @ quoted ''audio=@hum.wav'')"

section \<open>Answers\<close>

definition key_resume :: "key_task \<Rightarrow> key_reply \<Rightarrow> keys_page \<Rightarrow> keys_page" where
  "key_resume t a s =
     (case t of
        TList aft \<Rightarrow> after_refresh aft (refresh_land a s)
      | TPolicy e \<Rightarrow> policy_land e a s
      | TCreate \<Rightarrow> create_land a s
      | TRotate \<Rightarrow> rotate_land a s
      | TRevoke \<Rightarrow> revoke_land a s
      | TIp \<Rightarrow> ip_land a s
      | TPath \<Rightarrow> path_land a s
      | TMethods \<Rightarrow> methods_land a s
      | THistory i \<Rightarrow> history_land a s
      | TDevices i \<Rightarrow> devices_land a s
      | TToggle i shown \<Rightarrow> toggle_land i shown a s
      | TDevice i \<Rightarrow> device_land i a s
      | TReload i \<Rightarrow> reload_land a s
      | TRevokeAll \<Rightarrow> revokeAll_land a s
      | TCopy l \<Rightarrow> copy_land l a s
      | TUncopy \<Rightarrow> s\<lparr>ks_copied := None\<rparr>)"

definition key_answer :: "nat \<Rightarrow> key_reply \<Rightarrow> keys_page \<Rightarrow> keys_page" where
  "key_answer i a s =
     (if i < length (ks_tasks s)
      then key_resume (ks_tasks s ! i) a (s\<lparr>ks_tasks := drop_nth i (ks_tasks s)\<rparr>) else s)"

section \<open>Rows\<close>

definition key_rows :: "keys_page \<Rightarrow> KeyRow list" where
  "key_rows s = (case ks_state s of KReady rows \<Rightarrow> rows | _ \<Rightarrow> [])"

text \<open>What stands at the end of a row: a confirmation, an editor, or its buttons.\<close>

datatype row_tail = Confirming | Rotating | EditingIp | EditingPath | EditingMethods | RowButtons

definition row_tail_of :: "keys_page \<Rightarrow> string \<Rightarrow> row_tail" where
  "row_tail_of s i =
     (if ks_confirmId s = Some i then Confirming
      else if ks_rotateId s = Some i then Rotating
      else if ed_id (ks_ip s) = Some i then EditingIp
      else if ed_id (ks_path s) = Some i then EditingPath
      else if ed_id (ks_methods s) = Some i then EditingMethods
      else RowButtons)"

datatype key_row_op =
  AskRevoke | ConfirmRevoke | CancelRevoke
| AskRotate | PickGrace string | ConfirmRotate | CancelRotate
| OpenIp | IpDraft string | SaveIp | ClearIp | CancelIp
| OpenPath | PathDraft string | SavePath | ClearPath | CancelPath
| OpenMethods | ToggleMethod string | SaveMethods | ReadOnly | ClearMethods | CancelMethods
| HistoryButton | HistoryClose | DevicesButton | DevicesClose
| StrictMode bool | Approve string | Forget string

text \<open>What is rendered, and enabled, for a row.\<close>

fun row_enabled :: "keys_page \<Rightarrow> KeyRow \<Rightarrow> key_row_op \<Rightarrow> bool" where
  "row_enabled s row ConfirmRevoke \<longleftrightarrow> row_tail_of s (kr_id row) = Confirming \<and> ks_revoking s \<noteq> Some (kr_id row)"
| "row_enabled s row CancelRevoke \<longleftrightarrow> row_tail_of s (kr_id row) = Confirming"
| "row_enabled s row ConfirmRotate \<longleftrightarrow> row_tail_of s (kr_id row) = Rotating \<and> ks_rotating s \<noteq> Some (kr_id row)"
| "row_enabled s row (PickGrace g) \<longleftrightarrow> row_tail_of s (kr_id row) = Rotating"
| "row_enabled s row CancelRotate \<longleftrightarrow> row_tail_of s (kr_id row) = Rotating"
| "row_enabled s row SaveIp \<longleftrightarrow> row_tail_of s (kr_id row) = EditingIp \<and> ed_saving (ks_ip s) \<noteq> Some (kr_id row)"
| "row_enabled s row (IpDraft d) \<longleftrightarrow> row_tail_of s (kr_id row) = EditingIp"
| "row_enabled s row ClearIp \<longleftrightarrow> row_tail_of s (kr_id row) = EditingIp"
| "row_enabled s row CancelIp \<longleftrightarrow> row_tail_of s (kr_id row) = EditingIp"
| "row_enabled s row SavePath \<longleftrightarrow> row_tail_of s (kr_id row) = EditingPath \<and> ed_saving (ks_path s) \<noteq> Some (kr_id row)"
| "row_enabled s row (PathDraft d) \<longleftrightarrow> row_tail_of s (kr_id row) = EditingPath"
| "row_enabled s row ClearPath \<longleftrightarrow> row_tail_of s (kr_id row) = EditingPath"
| "row_enabled s row CancelPath \<longleftrightarrow> row_tail_of s (kr_id row) = EditingPath"
| "row_enabled s row SaveMethods \<longleftrightarrow>
     row_tail_of s (kr_id row) = EditingMethods \<and> ed_saving (ks_methods s) \<noteq> Some (kr_id row)"
| "row_enabled s row (ToggleMethod m) \<longleftrightarrow> row_tail_of s (kr_id row) = EditingMethods \<and> m \<in> set METHOD_BUTTONS"
| "row_enabled s row ReadOnly \<longleftrightarrow> row_tail_of s (kr_id row) = EditingMethods"
| "row_enabled s row ClearMethods \<longleftrightarrow> row_tail_of s (kr_id row) = EditingMethods"
| "row_enabled s row CancelMethods \<longleftrightarrow> row_tail_of s (kr_id row) = EditingMethods"
| "row_enabled s row HistoryClose \<longleftrightarrow> pn_id (ks_history s) = Some (kr_id row)"
| "row_enabled s row DevicesClose \<longleftrightarrow> pn_id (ks_devices s) = Some (kr_id row)"
| "row_enabled s row (StrictMode x) \<longleftrightarrow>
     pn_id (ks_devices s) = Some (kr_id row) \<and> ks_deviceBusy s \<noteq> Some (kr_id row)"
| "row_enabled s row (Approve fp) \<longleftrightarrow>
     pn_id (ks_devices s) = Some (kr_id row) \<and> ks_deviceBusy s \<noteq> Some (device_tag (kr_id row) fp) \<and>
     (case pn_data (ks_devices s) of None \<Rightarrow> False
      | Some v \<Rightarrow> list_ex (\<lambda>d. dv_fingerprint d = fp \<and> dv_status d \<noteq> ''approved'') (ds_devices v))"
| "row_enabled s row (Forget fp) \<longleftrightarrow>
     pn_id (ks_devices s) = Some (kr_id row) \<and> ks_deviceBusy s \<noteq> Some (device_tag (kr_id row) fp) \<and>
     (case pn_data (ks_devices s) of None \<Rightarrow> False
      | Some v \<Rightarrow> list_ex (\<lambda>d. dv_fingerprint d = fp) (ds_devices v))"
| "row_enabled s row op \<longleftrightarrow>
     row_tail_of s (kr_id row) = RowButtons \<and>
     (op \<in> {AskRotate, OpenIp, OpenPath, OpenMethods} \<longrightarrow> \<not> kr_expired row)"

text \<open>The handlers of a row, by the id of its token.\<close>

fun row_handler :: "KeyRow \<Rightarrow> key_row_op \<Rightarrow> keys_page \<Rightarrow> keys_page" where
  "row_handler row AskRevoke s = s\<lparr>ks_confirmId := Some (kr_id row)\<rparr>"
| "row_handler row ConfirmRevoke s = revoke_begin (kr_id row) s"
| "row_handler row CancelRevoke s = s\<lparr>ks_confirmId := None\<rparr>"
| "row_handler row AskRotate s = s\<lparr>ks_rotateId := Some (kr_id row), ks_rotateGrace := ''30'', ks_rotateError := None\<rparr>"
| "row_handler row (PickGrace g) s = s\<lparr>ks_rotateGrace := g\<rparr>"
| "row_handler row ConfirmRotate s = rotate_begin (kr_id row) s"
| "row_handler row CancelRotate s = s\<lparr>ks_rotateId := None, ks_rotateError := None\<rparr>"
| "row_handler row OpenIp s =
     s\<lparr>ks_ip := editor_open (kr_id row) (join (''\<newline>'') (nullish (kr_ip_cidrs row) [])) (ks_ip s)\<rparr>"
| "row_handler row (IpDraft d) s = s\<lparr>ks_ip := (ks_ip s)\<lparr>ed_draft := d\<rparr>\<rparr>"
| "row_handler row SaveIp s = saveIpAllowlist (kr_id row) s"
| "row_handler row ClearIp s = s\<lparr>ks_ip := (ks_ip s)\<lparr>ed_draft := []\<rparr>\<rparr>"
| "row_handler row CancelIp s = s\<lparr>ks_ip := editor_cancel [] (ks_ip s)\<rparr>"
| "row_handler row OpenPath s =
     s\<lparr>ks_path := editor_open (kr_id row) (join (''\<newline>'') (nullish (kr_path_prefixes row) [])) (ks_path s)\<rparr>"
| "row_handler row (PathDraft d) s = s\<lparr>ks_path := (ks_path s)\<lparr>ed_draft := d\<rparr>\<rparr>"
| "row_handler row SavePath s = savePathAllowlist (kr_id row) s"
| "row_handler row ClearPath s = s\<lparr>ks_path := (ks_path s)\<lparr>ed_draft := []\<rparr>\<rparr>"
| "row_handler row CancelPath s = s\<lparr>ks_path := editor_cancel [] (ks_path s)\<rparr>"
| "row_handler row OpenMethods s =
     s\<lparr>ks_methods := editor_open (kr_id row) (nullish (kr_http_methods row) []) (ks_methods s)\<rparr>"
| "row_handler row (ToggleMethod m) s =
     s\<lparr>ks_methods := (ks_methods s)\<lparr>ed_draft := toggle_method m (ed_draft (ks_methods s))\<rparr>\<rparr>"
| "row_handler row SaveMethods s = saveMethodAllowlist (kr_id row) s"
| "row_handler row ReadOnly s = s\<lparr>ks_methods := (ks_methods s)\<lparr>ed_draft := [''GET'']\<rparr>\<rparr>"
| "row_handler row ClearMethods s = s\<lparr>ks_methods := (ks_methods s)\<lparr>ed_draft := []\<rparr>\<rparr>"
| "row_handler row CancelMethods s = s\<lparr>ks_methods := editor_cancel [] (ks_methods s)\<rparr>"
| "row_handler row HistoryButton s = openHistory (kr_id row) s"
| "row_handler row HistoryClose s = openHistory (kr_id row) s"
| "row_handler row DevicesButton s = openDevices (kr_id row) s"
| "row_handler row DevicesClose s = openDevices (kr_id row) s"
| "row_handler row (StrictMode x) s = toggleDeviceApproval (kr_id row) x s"
| "row_handler row (Approve fp) s = approveDevice (kr_id row) fp s"
| "row_handler row (Forget fp) s = revokeDevice (kr_id row) fp s"

definition row_op :: "string \<Rightarrow> key_row_op \<Rightarrow> keys_page \<Rightarrow> keys_page" where
  "row_op i op s =
     (case find (\<lambda>row. kr_id row = i) (key_rows s) of
        None \<Rightarrow> s
      | Some row \<Rightarrow> if row_enabled s row op then row_handler row op s else s)"

section \<open>Steps\<close>

datatype key_op =
  KeyChange string | NameEdit string | TtlPick string | ScopeBox string bool | CreateSubmit
| DismissSecret | CopyClick copy_label | RevokeAllAsk | RevokeAllConfirm | RevokeAllCancel
| OnRow string key_row_op | KeyAnswer nat key_reply

fun key_step :: "key_op \<Rightarrow> keys_page \<Rightarrow> keys_page" where
  "key_step (KeyChange k) s = key_change k s"
| "key_step (NameEdit n) s = s\<lparr>ks_name := n\<rparr>"
| "key_step (TtlPick v) s = (if v \<in> fst ` set (ttlChoices (ks_policy s)) then s\<lparr>ks_ttlDays := v\<rparr> else s)"
| "key_step (ScopeBox sc on) s = scope_box sc on s"
| "key_step CreateSubmit s = create_begin s"
| "key_step DismissSecret s = s\<lparr>ks_justCreated := None\<rparr>"
| "key_step (CopyClick l) s = copy_begin l s"
| "key_step RevokeAllAsk s =
     (if key_rows s = [] then s else s\<lparr>ks_revokeAllOpen := True, ks_revokeAllError := None\<rparr>)"
| "key_step RevokeAllConfirm s = (if ks_revokeAllOpen s then revokeAll_begin s else s)"
| "key_step RevokeAllCancel s =
     (if ks_revokeAllOpen s \<and> \<not> ks_revokingAll s then s\<lparr>ks_revokeAllOpen := False\<rparr> else s)"
| "key_step (OnRow i op) s = row_op i op s"
| "key_step (KeyAnswer i a) s = key_answer i a s"

definition panel_start :: "'d panel" where
  "panel_start = \<lparr>pn_id = None, pn_loading = None, pn_error = None, pn_data = None\<rparr>"

definition keys_blank :: "string \<Rightarrow> keys_page" where
  "keys_blank k =
     \<lparr>ks_key = k, ks_hook = [], ks_state = KLoading, ks_name = [], ks_ttlDays = ''90'', ks_policy = None, ks_scopes = [],
      ks_creating = False, ks_createError = None, ks_justCreated = None, ks_revoking = None, ks_confirmId = None,
      ks_rotateId = None, ks_rotateGrace = ''30'', ks_rotating = None, ks_rotateError = None,
      ks_revokeAllOpen = False, ks_revokingAll = False, ks_revokeAllError = None, ks_revokeAllResult = None,
      ks_ip = editor_start [], ks_path = editor_start [], ks_methods = editor_start [],
      ks_history = panel_start, ks_devices = panel_start, ks_deviceBusy = None, ks_copied = None,
      ks_epoch = 0, ks_tasks = [], ks_sent = []\<rparr>"

text \<open>The page after its first effects.\<close>

definition keys_start :: "string \<Rightarrow> keys_page" where
  "keys_start k = policy_begin (refresh NoMore (keys_blank k))"

definition keys_run :: "string \<Rightarrow> key_op list \<Rightarrow> keys_page" where
  "keys_run k ops = fold key_step ops (keys_start k)"

end
