(* ===== verification/KeysView.thy ===== *)
theory KeysView
  imports KeysPage
begin

text \<open>
  What \<open>web/app/settings/keys/page.tsx\<close> renders: the banner with the fresh secret, the form, the list with
  its badges, the end of every row and its two panels. \<open>Hint\<close> is the text of a \<open>title\<close>.
\<close>

section \<open>Above the list\<close>

definition copy_text :: "keys_page \<Rightarrow> copy_label \<Rightarrow> string" where
  "copy_text s l = (if ks_copied s = Some l then ''copied'' else ''copy'')"

definition banner_view :: "string \<Rightarrow> keys_page \<Rightarrow> node list" where
  "banner_view origin s =
     (case ks_justCreated s of
        None \<Rightarrow> []
      | Some c \<Rightarrow>
          [Text ''Copy this token now. You will not see it again.'', Text (ck_secret c),
           Button (copy_text s secret_label) False, Text (curl_text origin (Some c)),
           Button (copy_text s curl_label) False, Button ''I have saved it, dismiss'' False])"

definition scopes_view :: "keys_page \<Rightarrow> node list" where
  "scopes_view s =
     (case ks_policy s of
        None \<Rightarrow> []
      | Some p \<Rightarrow>
          (if kp_max_ttl_days p > 0 then [Text (''workspace cap: '' @ num_to_string (kp_max_ttl_days p) @ ''d'')] else [])
          @ (if kp_allowed_scopes p \<noteq> []
             then map (\<lambda>sc. Choice sc (sc \<in> set (ks_scopes s))) (kp_allowed_scopes p)
                  @ (if ks_scopes s = [] then [Text ''No scopes selected. Token will get every scope its role permits.''] else [])
             else []))"

definition form_view :: "keys_page \<Rightarrow> node list" where
  "form_view s =
     [TextField ''ci-bot, local-laptop, zapier...'' (ks_name s)]
     @ map (\<lambda>(v, l). Choice (''expires '' @ l) (v = ks_ttlDays s)) (ttlChoices (ks_policy s))
     @ [Button (if ks_creating s then ''creating...'' else ''create'') (trim (ks_name s) = [] \<or> ks_creating s)]
     @ scopes_view s @ error_nodes (ks_createError s)"

definition revoked_text :: "nat \<times> bool \<Rightarrow> string" where
  "revoked_text r =
     ''Revoked '' @ nat_digits (fst r) @ '' token'' @ (if fst r = 1 then [] else ''s'') @ ''. '' @
     (if snd r then ''Your current token was preserved so you stay signed in.'' else ''No tokens were preserved.'')"

definition dialog_view :: "keys_page \<Rightarrow> node list" where
  "dialog_view s =
     (if ks_revokeAllOpen s
      then [Text ''Revoke every token in this workspace?''] @ error_nodes (ks_revokeAllError s)
           @ [Button (if ks_revokingAll s then ''revoking...'' else ''yes, revoke them all'') (ks_revokingAll s),
              Button ''cancel'' (ks_revokingAll s)]
      else [])"

definition load_error_text :: "nat \<Rightarrow> string \<Rightarrow> string" where
  "load_error_text st m =
     (if st = 401 then ''Set your API key in settings first.''
      else if st = 403 then ''Your current key cannot manage tokens. You need the writer role.''
      else m)"

section \<open>A row\<close>

definition given :: "bool option \<Rightarrow> bool" where
  "given b = nullish b False"

text \<open>\<open>typeof v === "number" && v > 0 && v < limit\<close>\<close>

definition ending :: "rat option \<Rightarrow> rat \<Rightarrow> bool" where
  "ending v limit = (case v of None \<Rightarrow> False | Some x \<Rightarrow> 0 < x \<and> x < limit)"

definition or_null :: "string option \<Rightarrow> string" where
  "or_null v = nullish v ''undefined''"

definition badges :: "(rat \<Rightarrow> string) \<Rightarrow> KeyRow \<Rightarrow> node list" where
  "badges toLocaleString row =
     (if kr_expired row then [Badge False ''expired''] else [])
     @ (if given (kr_rotation_active row)
        then [Hint (''Previous secret pat_...'' @ or_null (kr_prior_secret_hint row) @ '' still valid until '' @
                (if nullish (kr_prior_secret_expires_at row) 0 \<noteq> 0
                 then toLocaleString (the (kr_prior_secret_expires_at row) * 1000) else [])),
              Badge True ''rotating'']
        else [])
     @ (if given (kr_aged_out row) then [Badge False ''aged out''] else [])
     @ (if given (kr_idle_revoked row) then [Badge False ''idle revoked''] else [])
     @ (if \<not> given (kr_idle_revoked row) \<and> ending (kr_idle_seconds_remaining row) (24 * 3600)
        then [Badge True ''idle soon''] else [])
     @ (if \<not> given (kr_aged_out row) \<and> ending (kr_age_seconds_remaining row) (7 * 24 * 3600)
        then [Badge True ''rotate soon''] else [])"

definition last_used_hint :: "KeyRow \<Rightarrow> string" where
  "last_used_hint row =
     (if kr_last_used_at row > 0
      then ''Last successful auth from '' @ or_str (nullish (kr_last_used_ip row) []) ''unknown ip'' @
        (if nullish (kr_last_used_ua row) [] \<noteq> [] then '' using '' @ the (kr_last_used_ua row) else [])
      else ''Token has not been used since it was minted.'')"

text \<open>The three allowlists: the tooltip and the short text.\<close>

definition limits_hint :: "string \<Rightarrow> string \<Rightarrow> string list option \<Rightarrow> string" where
  "limits_hint when_set when_empty v = (if nullish v [] \<noteq> [] then when_set @ join '', '' (the v) else when_empty)"

definition limits_text :: "string \<Rightarrow> string list option \<Rightarrow> string" where
  "limits_text many v =
     (let xs = nullish v [] in
      if xs = [] then ''any'' else if length xs = 1 then hd xs else nat_digits (length xs) @ '' '' @ many)"

definition methods_hint :: "string list option \<Rightarrow> string" where
  "methods_hint v =
     (let xs = nullish v [] in
      if xs = [] then ''Token usable with any HTTP verb. Click 'method allowlist' to restrict.''
      else ''Token only accepts: '' @ join '', '' xs @
        (if ''GET'' \<in> set xs \<and> ''HEAD'' \<notin> set xs then '' (HEAD implicit)'' else []))"

definition meta_view :: "rat \<Rightarrow> KeyRow \<Rightarrow> node list" where
  "meta_view now row =
     [Text (''roles: '' @ or_str (join '', '' (kr_roles row)) ''reader''),
      Hint (join '', '' (kr_effective_scopes row)),
      Text (''scopes: '' @ (if length (kr_scopes row) > 0 then join '', '' (kr_scopes row) else ''role default'')),
      Hint (last_used_hint row),
      Text (''used: '' @ timeAgo now (kr_last_used_at row) @
        (if kr_last_used_at row > 0 \<and> nullish (kr_last_used_ip row) [] \<noteq> [] then '' from '' @ the (kr_last_used_ip row) else [])),
      Text (''created: '' @ timeAgo now (kr_created_at row)),
      Text (''expires: '' @ expiryLabel now (kr_expires_at row) (kr_expired row)),
      Hint (limits_hint ''Token rejected from any IP outside: ''
        ''Token usable from any IP. Click 'ip allowlist' to restrict.'' (kr_ip_cidrs row)),
      Text (''ips: '' @ limits_text ''ranges'' (kr_ip_cidrs row)),
      Hint (limits_hint ''Token only reaches: ''
        ''Token usable on any route. Click 'path allowlist' to restrict.'' (kr_path_prefixes row)),
      Text (''paths: '' @ limits_text ''prefixes'' (kr_path_prefixes row)),
      Hint (methods_hint (kr_http_methods row)),
      Text (''methods: '' @ (let xs = nullish (kr_http_methods row) [] in if xs = [] then ''any'' else join '','' xs))]"

definition grace_options :: "(string \<times> string) list" where
  "grace_options =
     [(''now'', ''revoke old now''), (''5'', ''5 minutes''), (''15'', ''15 minutes''), (''30'', ''30 minutes''),
      (''60'', ''60 minutes'')]"

text \<open>The buttons under an editor, with the texts of the save button.\<close>

definition editor_tail :: "string \<Rightarrow> string list \<Rightarrow> 'd editor \<Rightarrow> node list" where
  "editor_tail i extra e =
     [Button (if ed_saving e = Some i then ''saving...'' else ''save'') (ed_saving e = Some i)]
     @ map (\<lambda>l. Button l False) extra @ [Button ''clear'' False, Button ''cancel'' False] @ error_nodes (ed_error e)"

definition devices_label :: "keys_page \<Rightarrow> KeyRow \<Rightarrow> string" where
  "devices_label s row =
     (if pn_loading (ks_devices s) = Some (kr_id row) then ''loading...''
      else if given (kr_require_device_approval row) then ''devices: strict'' else ''devices'')"

definition buttons_view :: "keys_page \<Rightarrow> KeyRow \<Rightarrow> node list" where
  "buttons_view s row =
     [Button ''rotate'' (kr_expired row), Button ''ip allowlist'' (kr_expired row),
      Button ''path allowlist'' (kr_expired row), Button ''method allowlist'' (kr_expired row),
      Button (if pn_loading (ks_history s) = Some (kr_id row) then ''loading...'' else ''ip history'') False,
      Button (devices_label s row) False, Button ''revoke'' False]"

definition methods_view :: "string \<Rightarrow> string list editor \<Rightarrow> node list" where
  "methods_view i e =
     [Text ''allowed http methods''] @ map (\<lambda>m. Choice m (m \<in> set (ed_draft e))) METHOD_BUTTONS
     @ editor_tail i [''read only''] e"

definition tail_view :: "keys_page \<Rightarrow> KeyRow \<Rightarrow> node list" where
  "tail_view s row =
     (let i = kr_id row in
      case row_tail_of s i of
        Confirming \<Rightarrow>
          [Button (if ks_revoking s = Some i then ''revoking...'' else ''confirm revoke'') (ks_revoking s = Some i),
           Button ''cancel'' False]
      | Rotating \<Rightarrow>
          map (\<lambda>(v, l). Choice l (v = ks_rotateGrace s)) grace_options
          @ [Button (if ks_rotating s = Some i then ''rotating...'' else ''confirm rotate'') (ks_rotating s = Some i),
             Button ''cancel'' False] @ error_nodes (ks_rotateError s)
      | EditingIp \<Rightarrow>
          [Text ''allowed cidrs (one per line, ipv4 or ipv6)'',
           TextField (''203.0.113.0/24\<newline>2001:db8::/32'') (ed_draft (ks_ip s))] @ editor_tail i [] (ks_ip s)
      | EditingPath \<Rightarrow>
          [Text ''allowed url path prefixes (one per line)'',
           TextField (''/match\<newline>/feedback'') (ed_draft (ks_path s))] @ editor_tail i [] (ks_path s)
      | EditingMethods \<Rightarrow> methods_view i (ks_methods s)
      | RowButtons \<Rightarrow> buttons_view s row)"

section \<open>Panels\<close>

definition device_view :: "rat \<Rightarrow> keys_page \<Rightarrow> string \<Rightarrow> DeviceItem \<Rightarrow> node list" where
  "device_view now s i d =
     (let held = (ks_deviceBusy s = Some (device_tag i (dv_fingerprint d))) in
      [Badge (dv_status d = ''approved'') (dv_status d),
       Text (dv_fingerprint d @ (if dv_label d \<noteq> [] then '' ('' @ dv_label d @ '')'' else [])),
       Text (dv_last_ip d), Text (dv_last_ua d), Text (num_to_string (dv_count d)), Text (timeAgo now (dv_last_seen d))]
      @ (if dv_status d = ''approved'' then [] else [Button ''approve'' held]) @ [Button ''forget'' held])"

definition devices_panel :: "rat \<Rightarrow> keys_page \<Rightarrow> KeyRow \<Rightarrow> node list" where
  "devices_panel now s row =
     (let p = ks_devices s; i = kr_id row in
      if pn_id p \<noteq> Some i then []
      else [Text ''trusted devices'']
        @ (case pn_data p of None \<Rightarrow> [] | Some v \<Rightarrow> [Text (nat_digits (length (ds_devices v)) @ '' known'')])
        @ [Choice ''strict mode''
             (case pn_data p of Some v \<Rightarrow> ds_require_device_approval v
              | None \<Rightarrow> given (kr_require_device_approval row)),
           Button ''close'' False]
        @ error_nodes (pn_error p)
        @ (case pn_data p of
             None \<Rightarrow> if nullish (pn_error p) [] = [] then [Text ''loading...''] else []
           | Some v \<Rightarrow>
               if ds_devices v = []
               then [Text ''No devices have tried to use this token yet. Strict mode rejects every caller until an admin approves a fingerprint after the first 403.'']
               else concat (map (device_view now s i) (ds_devices v))))"

definition history_item_view :: "rat \<Rightarrow> IpHistoryItem \<Rightarrow> node list" where
  "history_item_view now it =
     [Text (ih_ip it), Text (num_to_string (ih_count it)), Text (timeAgo now (ih_first_seen it)),
      Text (timeAgo now (ih_last_seen it)), Text (nullish (ih_last_ua it) [])]"

definition history_panel :: "rat \<Rightarrow> keys_page \<Rightarrow> KeyRow \<Rightarrow> node list" where
  "history_panel now s row =
     (let p = ks_history s in
      if pn_id p \<noteq> Some (kr_id row) then []
      else [Text ''source ip history'']
        @ (case pn_data p of
             None \<Rightarrow> []
           | Some v \<Rightarrow>
               [Text (num_to_string (hv_distinct_ips v) @ '' distinct ip'' @ (if hv_distinct_ips v = 1 then [] else ''s'') @
                  (if hv_truncated v then '' (truncated)'' else []))])
        @ [Button ''close'' False]
        @ (if nullish (pn_error p) [] \<noteq> [] then [Text (the (pn_error p))]
           else case pn_data p of
             None \<Rightarrow> [Text ''loading...'']
           | Some v \<Rightarrow>
               if hv_items v = []
               then [Text ''No successful authentications recorded yet. The token has been minted but never used.'']
               else concat (map (history_item_view now) (hv_items v))))"

section \<open>The page\<close>

definition key_row_view :: "(rat \<Rightarrow> string) \<Rightarrow> rat \<Rightarrow> keys_page \<Rightarrow> KeyRow \<Rightarrow> node list" where
  "key_row_view toLocaleString now s row =
     [Text (kr_name row), Text (''pat_...'' @ kr_secret_hint row)] @ badges toLocaleString row @ meta_view now row
     @ tail_view s row @ devices_panel now s row @ history_panel now s row"

text \<open>\<open>state.rows.slice().sort((a, b) => b.created_at - a.created_at)\<close>\<close>

definition newest_first :: "KeyRow list \<Rightarrow> KeyRow list" where
  "newest_first rows = js_sort (by_key_desc kr_created_at) rows"

definition list_view :: "(rat \<Rightarrow> string) \<Rightarrow> rat \<Rightarrow> keys_page \<Rightarrow> node list" where
  "list_view toLocaleString now s =
     [Text ''Your tokens'']
     @ (if key_rows s \<noteq> [] then [Button ''revoke all'' False] else [])
     @ (case ks_revokeAllResult s of None \<Rightarrow> [] | Some r \<Rightarrow> [Text (revoked_text r)])
     @ dialog_view s
     @ (case ks_state s of
          KLoading \<Rightarrow> [Skeleton 2]
        | KFailed st m \<Rightarrow>
            [Text ''Could not load tokens'', Text (load_error_text st m)]
            @ (if st = 401 then [Text ''go to settings''] else [])
        | KReady rows \<Rightarrow>
            if rows = [] then [Text ''No tokens yet. Mint one above to call the API from outside the browser.'']
            else concat (map (key_row_view toLocaleString now s) (newest_first rows)))"

definition keys_view :: "string \<Rightarrow> (rat \<Rightarrow> string) \<Rightarrow> rat \<Rightarrow> keys_page \<Rightarrow> node list" where
  "keys_view origin toLocaleString now s = banner_view origin s @ form_view s @ list_view toLocaleString now s"

end
