(* ===== verification/KeysLaws.thy ===== *)
theory KeysLaws
  imports KeysView
begin

text \<open>
  The laws of the token page: its requests and flags over every run, what its requests carry, and whose
  data its panels show.
\<close>

section \<open>Requests under way\<close>

datatype key_flight = FCreate | FRotate | FRevokeAll | FIp | FPath | FMethods

fun flight_of :: "key_task \<Rightarrow> key_flight option" where
  "flight_of TCreate = Some FCreate"
| "flight_of TRotate = Some FRotate"
| "flight_of TRevokeAll = Some FRevokeAll"
| "flight_of TIp = Some FIp"
| "flight_of TPath = Some FPath"
| "flight_of TMethods = Some FMethods"
| "flight_of (TList EndCreate) = Some FCreate"
| "flight_of (TList EndRotate) = Some FRotate"
| "flight_of (TList EndRevokeAll) = Some FRevokeAll"
| "flight_of (TList EndIp) = Some FIp"
| "flight_of (TList EndPath) = Some FPath"
| "flight_of (TList EndMethods) = Some FMethods"
| "flight_of _ = None"

fun flight_flag :: "key_flight \<Rightarrow> keys_page \<Rightarrow> bool" where
  "flight_flag FCreate s = ks_creating s"
| "flight_flag FRotate s = (ks_rotating s \<noteq> None)"
| "flight_flag FRevokeAll s = ks_revokingAll s"
| "flight_flag FIp s = (ed_saving (ks_ip s) \<noteq> None)"
| "flight_flag FPath s = (ed_saving (ks_path s) \<noteq> None)"
| "flight_flag FMethods s = (ed_saving (ks_methods s) \<noteq> None)"

text \<open>The server names its tokens: no id is empty.\<close>

definition named_rows :: "KeyRow list \<Rightarrow> bool" where
  "named_rows rows \<longleftrightarrow> list_all (\<lambda>row. kr_id row \<noteq> []) rows"

definition names_kept :: "keys_page \<Rightarrow> bool" where
  "names_kept s \<longleftrightarrow> named_rows (key_rows s) \<and> ks_rotating s \<noteq> Some [] \<and> ed_saving (ks_ip s) \<noteq> Some [] \<and>
     ed_saving (ks_path s) \<noteq> Some [] \<and> ed_saving (ks_methods s) \<noteq> Some []"

fun named_op :: "key_op \<Rightarrow> bool" where
  "named_op (KeyAnswer i (Got d)) \<longleftrightarrow> named_rows (kd_rows d)"
| "named_op op \<longleftrightarrow> True"

lemma send_simps [simp]:
  "ks_tasks (send t r s) = ks_tasks s @ [t]" "ks_sent (send t r s) = ks_sent s @ [r]"
  "ks_state (send t r s) = ks_state s" "ks_key (send t r s) = ks_key s"
  "ks_creating (send t r s) = ks_creating s" "ks_rotating (send t r s) = ks_rotating s"
  "ks_revokingAll (send t r s) = ks_revokingAll s" "ks_ip (send t r s) = ks_ip s" "ks_path (send t r s) = ks_path s"
  "ks_methods (send t r s) = ks_methods s" "ks_revoking (send t r s) = ks_revoking s"
  "ks_history (send t r s) = ks_history s" "ks_devices (send t r s) = ks_devices s"
  "ks_deviceBusy (send t r s) = ks_deviceBusy s" "ks_confirmId (send t r s) = ks_confirmId s"
  "ks_justCreated (send t r s) = ks_justCreated s" "ks_policy (send t r s) = ks_policy s"
  "ks_ttlDays (send t r s) = ks_ttlDays s" "ks_epoch (send t r s) = ks_epoch s"
  "ks_revokeAllOpen (send t r s) = ks_revokeAllOpen s" "ks_rotateId (send t r s) = ks_rotateId s"
  "ks_name (send t r s) = ks_name s" "ks_scopes (send t r s) = ks_scopes s" "ks_hook (send t r s) = ks_hook s"
  by (simp_all add: send_def)

lemmas editor_defs =
  editor_start_def editor_open_def editor_cancel_def editor_saving_def editor_failed_def editor_saved_def editor_busy_def

lemmas begin_defs =
  create_begin_def rotate_begin_def revoke_begin_def revokeAll_begin_def saveIpAllowlist_def savePathAllowlist_def
  saveMethodAllowlist_def openHistory_def openDevices_def toggleDeviceApproval_def approveDevice_def revokeDevice_def
  device_busy_def copy_begin_def panel_opened_def panel_closed_def

lemmas land_defs =
  refresh_def refresh_land_def policy_land_def create_land_def rotate_land_def revoke_land_def revokeAll_land_def
  ip_land_def path_land_def methods_land_def history_land_def devices_land_def toggle_land_def device_land_def
  reload_land_def copy_land_def after_refresh_def panel_land_def device_failed_def save_error_def

lemma row_op_cases:
  "row_op i op s = s \<or> (\<exists>row. row \<in> set (key_rows s) \<and> kr_id row = i \<and> row_enabled s row op \<and> row_op i op s = row_handler row op s)"
  by (auto simp: row_op_def find_Some_iff in_set_conv_nth split: option.split)

lemma busy_named: "x \<noteq> Some [] \<Longrightarrow> nullish x [] \<noteq> [] \<longleftrightarrow> x \<noteq> None"
  by (cases x) auto

lemma row_handler_moves:
  assumes "kr_id row \<noteq> []" and "names_kept s"
  shows "flight_move (flight_flag k s) (under_way flight_of k (ks_tasks s))
    (flight_flag k (row_handler row op s)) (under_way flight_of k (ks_tasks (row_handler row op s)))"
  using assms busy_named [of "ks_rotating s"] busy_named [of "ed_saving (ks_ip s)"] busy_named [of "ed_saving (ks_path s)"]
    busy_named [of "ed_saving (ks_methods s)"]
  by (cases op; cases k) (simp_all add: flight_move_def begin_defs editor_defs names_kept_def)

lemma resume_moves:
  "flight_move (flight_flag k s) (under_way flight_of k (ks_tasks s) + (if flight_of t = Some k then 1 else 0))
    (flight_flag k (key_resume t a s)) (under_way flight_of k (ks_tasks (key_resume t a s)))"
proof (cases t)
  case (TList aft)
  then show ?thesis by (cases aft; cases k) (auto simp: key_resume_def flight_move_def land_defs)
qed (cases k; cases a; simp add: key_resume_def flight_move_def land_defs editor_defs Let_def)+

lemma key_answer_cases:
  "i < length (ks_tasks s) \<Longrightarrow>
     key_answer i a s = key_resume (ks_tasks s ! i) a (s\<lparr>ks_tasks := drop_nth i (ks_tasks s)\<rparr>)"
  "\<not> i < length (ks_tasks s) \<Longrightarrow> key_answer i a s = s"
  by (simp_all add: key_answer_def)

lemma flight_flag_tasks [simp]: "flight_flag k (s\<lparr>ks_tasks := ts\<rparr>) = flight_flag k s"
  by (cases k) simp_all

lemma answer_moves:
  "flight_move (flight_flag k s) (under_way flight_of k (ks_tasks s))
    (flight_flag k (key_answer i a s)) (under_way flight_of k (ks_tasks (key_answer i a s)))"
proof (cases "i < length (ks_tasks s)")
  case True
  then show ?thesis
    using resume_moves [of k "s\<lparr>ks_tasks := drop_nth i (ks_tasks s)\<rparr>" "ks_tasks s ! i" a]
    by (simp add: key_answer_cases under_way_drop [OF True, of flight_of k])
qed (simp add: key_answer_cases flight_move_def)

lemma key_step_moves:
  assumes "names_kept s"
  shows "flight_move (flight_flag k s) (under_way flight_of k (ks_tasks s))
    (flight_flag k (key_step op s)) (under_way flight_of k (ks_tasks (key_step op s)))"
proof (cases op)
  case (OnRow i rop)
  show ?thesis
  proof (cases "row_op i rop s = s")
    case False
    then obtain row where "row \<in> set (key_rows s)" "row_op i rop s = row_handler row rop s"
      using row_op_cases [of i rop s] by blast
    moreover have "kr_id row \<noteq> []" if "row \<in> set (key_rows s)" for row
      using assms that by (auto simp: names_kept_def named_rows_def list_all_iff)
    ultimately show ?thesis using OnRow row_handler_moves [OF _ assms] by simp
  qed (use OnRow in \<open>simp add: flight_move_def\<close>)
next
  case (KeyAnswer i a)
  then show ?thesis by (simp add: answer_moves)
qed (cases k; simp add: flight_move_def key_change_def policy_begin_def refresh_def scope_box_def begin_defs
  split: option.split)+

lemma names_kept_frame:
  "ks_state t = ks_state s \<Longrightarrow> ks_rotating t = ks_rotating s \<Longrightarrow> ed_saving (ks_ip t) = ed_saving (ks_ip s) \<Longrightarrow>
   ed_saving (ks_path t) = ed_saving (ks_path s) \<Longrightarrow> ed_saving (ks_methods t) = ed_saving (ks_methods s) \<Longrightarrow>
   names_kept s \<Longrightarrow> names_kept t"
  by (simp add: names_kept_def key_rows_def)

lemma row_handler_names: "kr_id row \<noteq> [] \<Longrightarrow> names_kept s \<Longrightarrow> names_kept (row_handler row op s)"
  by (cases op) (auto simp: names_kept_def key_rows_def begin_defs editor_defs)

lemma resume_names:
  assumes "names_kept s" and "\<And>d. a = Got d \<Longrightarrow> named_rows (kd_rows d)"
  shows "names_kept (key_resume t a s)"
proof (cases t)
  case (TList aft)
  have "names_kept (refresh_land a s)"
    using assms by (cases a) (simp_all add: refresh_land_def names_kept_def key_rows_def named_rows_def)
  then show ?thesis using TList
    by (cases aft) (auto simp: key_resume_def after_refresh_def names_kept_def key_rows_def)
qed (cases a; use assms in \<open>simp add: key_resume_def names_kept_def key_rows_def named_rows_def land_defs editor_defs Let_def\<close>)+

lemma key_step_names: "names_kept s \<Longrightarrow> named_op op \<Longrightarrow> names_kept (key_step op s)"
proof (cases op)
  case (OnRow i rop)
  assume n: "names_kept s"
  have "kr_id row \<noteq> []" if "row \<in> set (key_rows s)" for row
    using n that by (auto simp: names_kept_def named_rows_def list_all_iff)
  then show ?thesis using OnRow n row_op_cases [of i rop s] row_handler_names by auto
next
  case (KeyAnswer i a)
  assume n: "names_kept s" and o: "named_op op"
  show ?thesis
  proof (cases "i < length (ks_tasks s)")
    case True
    have "names_kept (s\<lparr>ks_tasks := drop_nth i (ks_tasks s)\<rparr>)" using n by (rule names_kept_frame [rotated 5]) simp_all
    then show ?thesis using True KeyAnswer o by (cases a) (auto simp: key_answer_cases intro!: resume_names)
  qed (use KeyAnswer n in \<open>simp add: key_answer_cases\<close>)
qed (auto simp: names_kept_def key_rows_def key_change_def policy_begin_def refresh_def scope_box_def begin_defs named_rows_def
    split: option.splits)

interpretation key_flights: flights key_step "keys_start k" ks_tasks flight_of flight_flag names_kept named_op for k
proof unfold_locales
  show "names_kept (keys_start k)"
    by (simp add: names_kept_def keys_start_def policy_begin_def refresh_def key_rows_def named_rows_def keys_blank_def editor_start_def)
  show "under_way flight_of f (ks_tasks (keys_start k)) = 0 \<and> \<not> flight_flag f (keys_start k)" for f
    by (cases f) (simp_all add: keys_start_def policy_begin_def refresh_def keys_blank_def editor_start_def)
qed (simp_all add: key_step_names key_step_moves)

text \<open>The flags that two requests of one kind may share.\<close>

datatype key_wait = WList | WRevoke | WHistory | WDevices | WDevice

fun wait_of :: "key_task \<Rightarrow> key_wait option" where
  "wait_of TRevoke = Some WRevoke"
| "wait_of (THistory i) = Some WHistory"
| "wait_of (TDevices i) = Some WDevices"
| "wait_of (TToggle i shown) = Some WDevice"
| "wait_of (TDevice i) = Some WDevice"
| "wait_of (TReload i) = Some WDevice"
| "wait_of _ = None"

fun wait_flag :: "key_wait \<Rightarrow> keys_page \<Rightarrow> bool" where
  "wait_flag WList s = (ks_state s = KLoading)"
| "wait_flag WRevoke s = (ks_revoking s \<noteq> None)"
| "wait_flag WHistory s = (pn_loading (ks_history s) \<noteq> None)"
| "wait_flag WDevices s = (pn_loading (ks_devices s) \<noteq> None)"
| "wait_flag WDevice s = (ks_deviceBusy s \<noteq> None)"

fun waits :: "key_task \<Rightarrow> key_wait list" where
  "waits (TList EndRevoke) = [WList, WRevoke]"
| "waits (TList (ThenDevices i shown)) = [WList, WDevice]"
| "waits (TList aft) = [WList]"
| "waits t = (case wait_of t of None \<Rightarrow> [] | Some w \<Rightarrow> [w])"

definition wait_kind :: "key_wait \<Rightarrow> key_task \<Rightarrow> unit option" where
  "wait_kind w t = (if w \<in> set (waits t) then Some () else None)"

definition wait_move :: "bool \<Rightarrow> nat \<Rightarrow> bool \<Rightarrow> nat \<Rightarrow> bool" where
  "wait_move f n f' n' \<longleftrightarrow> (f' \<longrightarrow> n' \<noteq> 0 \<or> f \<and> n' = n)"

lemma row_handler_waits:
  "wait_move (wait_flag w s) (under_way (wait_kind w) () (ks_tasks s))
    (wait_flag w (row_handler row op s)) (under_way (wait_kind w) () (ks_tasks (row_handler row op s)))"
  by (cases op; cases w) (simp_all add: wait_move_def begin_defs editor_defs wait_kind_def)

lemma resume_waits:
  "wait_move (wait_flag w s) (under_way (wait_kind w) () (ks_tasks s) + (if wait_kind w t = Some () then 1 else 0))
    (wait_flag w (key_resume t a s)) (under_way (wait_kind w) () (ks_tasks (key_resume t a s)))"
proof (cases t)
  case (TList aft)
  then show ?thesis by (cases aft; cases w; cases a) (auto simp: key_resume_def wait_move_def land_defs wait_kind_def)
qed (cases w; cases a; simp add: key_resume_def wait_move_def land_defs editor_defs Let_def wait_kind_def)+

lemma wait_flag_tasks [simp]: "wait_flag w (s\<lparr>ks_tasks := ts\<rparr>) = wait_flag w s"
  by (cases w) simp_all

lemma key_step_waits:
  "wait_move (wait_flag w s) (under_way (wait_kind w) () (ks_tasks s))
    (wait_flag w (key_step op s)) (under_way (wait_kind w) () (ks_tasks (key_step op s)))"
proof (cases op)
  case (OnRow i rop)
  consider "row_op i rop s = s" | row where "row_op i rop s = row_handler row rop s"
    using row_op_cases [of i rop s] by blast
  then show ?thesis using OnRow row_handler_waits [of w s] by cases (simp_all add: wait_move_def)
next
  case (KeyAnswer i a)
  show ?thesis
  proof (cases "i < length (ks_tasks s)")
    case True
    then show ?thesis
      using KeyAnswer resume_waits [of w "s\<lparr>ks_tasks := drop_nth i (ks_tasks s)\<rparr>" "ks_tasks s ! i" a]
      by (simp add: key_answer_cases under_way_drop [OF True, of "wait_kind w"])
  qed (use KeyAnswer in \<open>simp add: key_answer_cases wait_move_def\<close>)
qed (cases w; simp add: wait_move_def key_change_def policy_begin_def refresh_def scope_box_def begin_defs wait_kind_def
  split: option.split)+

interpretation key_waits: backed key_step "keys_start k" ks_tasks "wait_kind w" "\<lambda>_. wait_flag w" "\<lambda>_. True" "\<lambda>_. True"
  for k w
proof unfold_locales
  fix s op and u :: unit
  show "wait_flag w (key_step op s) \<Longrightarrow> under_way (wait_kind w) u (ks_tasks (key_step op s)) \<noteq> 0 \<or>
      wait_flag w s \<and> under_way (wait_kind w) u (ks_tasks (key_step op s)) = under_way (wait_kind w) u (ks_tasks s)"
    using key_step_waits [of w s op] by (cases u) (simp add: wait_move_def)
  show "wait_flag w (keys_start k) \<Longrightarrow> under_way (wait_kind w) u (ks_tasks (keys_start k)) \<noteq> 0"
    by (cases u; cases w)
      (simp_all add: keys_start_def policy_begin_def refresh_def keys_blank_def panel_start_def wait_kind_def)
qed simp_all

text \<open>What a request may still bring with it.\<close>

fun key_weight :: "key_task \<Rightarrow> nat" where
  "key_weight (TList (ThenDevices i shown)) = 2"
| "key_weight TCreate = 2"
| "key_weight TRotate = 2"
| "key_weight TRevoke = 2"
| "key_weight TIp = 2"
| "key_weight TPath = 2"
| "key_weight TMethods = 2"
| "key_weight (TToggle i shown) = 3"
| "key_weight (TDevice i) = 2"
| "key_weight TRevokeAll = 2"
| "key_weight (TCopy l) = 2"
| "key_weight _ = 1"

lemma resume_weight: "workload key_weight (ks_tasks (key_resume t a s)) < workload key_weight (ks_tasks s) + key_weight t"
proof (cases t)
  case (TList aft)
  then show ?thesis by (cases aft) (simp_all add: key_resume_def after_refresh_def refresh_land_def)
qed (cases a; simp add: key_resume_def land_defs Let_def)+

interpretation key_drain: draining "key_answer 0" ks_tasks key_weight
proof unfold_locales
  show "0 < key_weight t" for t by (induction t rule: key_weight.induct) simp_all
  fix s :: keys_page and a
  assume "ks_tasks s \<noteq> []"
  then obtain t ts where "ks_tasks s = t # ts" by (cases "ks_tasks s") auto
  then show "workload key_weight (ks_tasks (key_answer 0 a s)) < workload key_weight (ks_tasks s)"
    using resume_weight [of t a "s\<lparr>ks_tasks := ts\<rparr>"] by (simp add: key_answer_def drop_nth_def)
qed (simp add: key_answer_def)

text \<open>
  C9. Over every run of the token page, with requests answered in any order and fields, buttons and the API key
  changed in between, at most one mint, one rotation, one revocation of all tokens and one save of each
  of the three allowlists is under way (its reload of the list included), exactly while the page shows
  it as busy. The server's tokens are assumed to have an id.
\<close>

theorem keys_one_flight:
  assumes "list_all named_op ops"
  shows "under_way flight_of f (ks_tasks (keys_run k ops)) = (if flight_flag f (keys_run k ops) then 1 else 0)"
  unfolding keys_run_def using assms by (rule key_flights.one_flight)

theorem keys_one_flight_witness:
  "under_way flight_of FCreate (ks_tasks (keys_run ''k'' [NameEdit ''ci'', CreateSubmit, CreateSubmit])) = 1"
proof -
  have "list_all named_op [NameEdit ''ci'', CreateSubmit, CreateSubmit]" by simp
  from keys_one_flight [OF this, of FCreate "''k''"] show ?thesis
    by (simp add: keys_run_def begin_defs trim_def is_space_def keys_start_def policy_begin_def refresh_def keys_blank_def)
qed

definition keys_resting :: "keys_page \<Rightarrow> bool" where
  "keys_resting s \<longleftrightarrow>
     ks_state s \<noteq> KLoading \<and> \<not> ks_creating s \<and> ks_rotating s = None \<and> ks_revoking s = None \<and> \<not> ks_revokingAll s \<and>
     ed_saving (ks_ip s) = None \<and> ed_saving (ks_path s) = None \<and> ed_saving (ks_methods s) = None \<and>
     pn_loading (ks_history s) = None \<and> pn_loading (ks_devices s) = None \<and> ks_deviceBusy s = None"

lemma keys_run_answers: "fold (key_answer 0) as (keys_run k ops) = keys_run k (ops @ map (KeyAnswer 0) as)"
proof -
  have "fold (key_answer 0) as s = fold key_step (map (KeyAnswer 0) as) s" for s
    by (induction as arbitrary: s) simp_all
  then show ?thesis by (simp add: keys_run_def)
qed

lemma keys_rest: "list_all named_op ops \<Longrightarrow> ks_tasks (keys_run k ops) = [] \<Longrightarrow> keys_resting (keys_run k ops)"
  using key_flights.at_rest [of ops k FCreate] key_flights.at_rest [of ops k FRotate]
    key_flights.at_rest [of ops k FRevokeAll] key_flights.at_rest [of ops k FIp] key_flights.at_rest [of ops k FPath]
    key_flights.at_rest [of ops k FMethods] key_waits.at_rest [of ops k WList] key_waits.at_rest [of ops k WRevoke]
    key_waits.at_rest [of ops k WHistory] key_waits.at_rest [of ops k WDevices] key_waits.at_rest [of ops k WDevice]
  by (simp add: keys_resting_def keys_run_def list_all_iff)

text \<open>
  C10. The token page comes to rest: answer the oldest request over and over, refusals and network failures
  included, and after as many answers as the requests under way weigh (at most three each, for a
  handler that reloads the list and then a panel) nothing is under way, the list is no longer loading
  and every busy flag is down.
\<close>

theorem keys_settle:
  assumes "list_all named_op (ops @ map (KeyAnswer 0) as)"
    and "workload key_weight (ks_tasks (keys_run k ops)) \<le> length as"
  shows "ks_tasks (fold (key_answer 0) as (keys_run k ops)) = [] \<and> keys_resting (fold (key_answer 0) as (keys_run k ops))"
proof -
  have "ks_tasks (fold (key_answer 0) as (keys_run k ops)) = []" using assms(2) by (rule key_drain.drained)
  then show ?thesis using keys_rest [OF assms(1), of k] by (simp add: keys_run_answers)
qed

theorem keys_settle_witness:
  "keys_resting (fold (key_answer 0) [Denied 401 None ''Unauthorized'', Broke ''offline''] (keys_run ''k'' []))"
proof -
  let ?as = "[Denied 401 None ''Unauthorized'', Broke ''offline''] :: key_reply list"
  have "list_all named_op ([] @ map (KeyAnswer 0) ?as)" by simp
  moreover have "workload key_weight (ks_tasks (keys_run ''k'' [])) \<le> length ?as"
    by (simp add: keys_run_def keys_start_def policy_begin_def refresh_def keys_blank_def)
  ultimately show ?thesis using keys_settle [of "[]" ?as "''k''"] by blast
qed

section \<open>Allowlists\<close>

text \<open>The request of a save of one of the two text editors.\<close>

definition allowlist_put :: "string \<Rightarrow> string \<Rightarrow> string \<Rightarrow> string \<Rightarrow> string list \<Rightarrow> request" where
  "allowlist_put k i route name xs = body_request ''PUT'' (key_path i route) k (JObj [(name, strings xs)])"

lemma found_row: "find (\<lambda>row. kr_id row = i) (key_rows s) = Some row \<Longrightarrow> kr_id row = i"
  by (auto simp: find_Some_iff)

lemma row_op_found:
  "find (\<lambda>row. kr_id row = i) (key_rows s) = Some row \<Longrightarrow>
     row_op i op s = (if row_enabled s row op then row_handler row op s else s)"
  by (simp add: row_op_def)

text \<open>The methods on offer are sent as they are.\<close>

lemma method_list_buttons: "set ms \<subseteq> set METHOD_BUTTONS \<Longrightarrow> method_list ms = ms"
proof -
  have "list_all (\<lambda>m. to_upper (trim m) = m \<and> m \<noteq> []) METHOD_BUTTONS" by code_simp
  then have "to_upper (trim m) = m \<and> m \<noteq> []" if "m \<in> set METHOD_BUTTONS" for m
    using that unfolding list_all_iff by blast
  moreover assume "set ms \<subseteq> set METHOD_BUTTONS"
  ultimately have "to_upper (trim m) = m \<and> m \<noteq> []" if "m \<in> set ms" for m using that by blast
  then show ?thesis by (induction ms) (auto simp: method_list_def)
qed

lemma set_toggle_method: "set (toggle_method m ms) = (if m \<in> set ms then set ms - {m} else insert m (set ms))"
  by (auto simp: toggle_method_def)

text \<open>What the two handlers of an editor, and a change of its draft between them, put on the wire.\<close>

lemma ip_saved:
  assumes row: "find (\<lambda>row. kr_id row = i) (key_rows s) = Some row"
    and on: "row_enabled s row OpenIp" and idle: "ed_saving (ks_ip s) = None"
  shows "ks_sent (row_op i SaveIp (row_op i OpenIp s)) = ks_sent s @ [allowlist_put (ks_key s) i ''/ip-allowlist'' ''cidrs''
        (entries (join (''\<newline>'') (nullish (kr_ip_cidrs row) [])))]"
    and "ks_sent (row_op i SaveIp (row_op i (IpDraft d) (row_op i OpenIp s))) =
      ks_sent s @ [allowlist_put (ks_key s) i ''/ip-allowlist'' ''cidrs'' (entries d)]"
proof -
  define ip where "ip = row_handler row OpenIp s"
  define typed where "typed = ip\<lparr>ks_ip := (ks_ip ip)\<lparr>ed_draft := d\<rparr>\<rparr>"
  note defs = ip_def typed_def
  have i: "kr_id row = i" using row by (rule found_row)
  have found: "find (\<lambda>row. kr_id row = i) (key_rows t) = Some row" if "t \<in> {ip, typed}" for t
    using that row by (auto simp: defs key_rows_def)
  have tails: "row_tail_of ip i = EditingIp" "row_tail_of typed i = EditingIp"
    using on i by (auto simp: defs row_tail_of_def editor_open_def split: if_splits)
  have free: "ed_saving (ks_ip ip) = None" "ed_saving (ks_ip typed) = None"
    using idle by (simp_all add: defs editor_open_def)
  have opened: "row_op i OpenIp s = ip" using on by (simp add: row_op_found [OF row] defs)
  have ops: "row_op i SaveIp ip = saveIpAllowlist i ip"
    "row_op i (IpDraft d) ip = typed" "row_op i SaveIp typed = saveIpAllowlist i typed"
    using tails free i found by (simp_all add: row_op_found typed_def [symmetric])
  show "ks_sent (row_op i SaveIp (row_op i OpenIp s)) = ks_sent s @ [allowlist_put (ks_key s) i ''/ip-allowlist'' ''cidrs''
        (entries (join (''\<newline>'') (nullish (kr_ip_cidrs row) [])))]"
    using free by (simp add: opened ops saveIpAllowlist_def allowlist_put_def editor_busy_def) (simp add: defs editor_open_def)
  show "ks_sent (row_op i SaveIp (row_op i (IpDraft d) (row_op i OpenIp s))) =
      ks_sent s @ [allowlist_put (ks_key s) i ''/ip-allowlist'' ''cidrs'' (entries d)]"
    using free by (simp add: opened ops saveIpAllowlist_def allowlist_put_def editor_busy_def) (simp add: defs editor_open_def)
qed

lemma path_saved:
  assumes row: "find (\<lambda>row. kr_id row = i) (key_rows s) = Some row"
    and on: "row_enabled s row OpenPath" and idle: "ed_saving (ks_path s) = None"
  shows "ks_sent (row_op i SavePath (row_op i OpenPath s)) = ks_sent s @ [allowlist_put (ks_key s) i ''/path-allowlist'' ''path_prefixes''
        (entries (join (''\<newline>'') (nullish (kr_path_prefixes row) [])))]"
    and "ks_sent (row_op i SavePath (row_op i (PathDraft d) (row_op i OpenPath s))) =
      ks_sent s @ [allowlist_put (ks_key s) i ''/path-allowlist'' ''path_prefixes'' (entries d)]"
proof -
  define path where "path = row_handler row OpenPath s"
  define typed where "typed = path\<lparr>ks_path := (ks_path path)\<lparr>ed_draft := d\<rparr>\<rparr>"
  note defs = path_def typed_def
  have i: "kr_id row = i" using row by (rule found_row)
  have found: "find (\<lambda>row. kr_id row = i) (key_rows t) = Some row" if "t \<in> {path, typed}" for t
    using that row by (auto simp: defs key_rows_def)
  have tails: "row_tail_of path i = EditingPath" "row_tail_of typed i = EditingPath"
    using on i by (auto simp: defs row_tail_of_def editor_open_def split: if_splits)
  have free: "ed_saving (ks_path path) = None" "ed_saving (ks_path typed) = None"
    using idle by (simp_all add: defs editor_open_def)
  have opened: "row_op i OpenPath s = path" using on by (simp add: row_op_found [OF row] defs)
  have ops: "row_op i SavePath path = savePathAllowlist i path"
    "row_op i (PathDraft d) path = typed" "row_op i SavePath typed = savePathAllowlist i typed"
    using tails free i found by (simp_all add: row_op_found typed_def [symmetric])
  show "ks_sent (row_op i SavePath (row_op i OpenPath s)) = ks_sent s @ [allowlist_put (ks_key s) i ''/path-allowlist'' ''path_prefixes''
        (entries (join (''\<newline>'') (nullish (kr_path_prefixes row) [])))]"
    using free by (simp add: opened ops savePathAllowlist_def allowlist_put_def editor_busy_def) (simp add: defs editor_open_def)
  show "ks_sent (row_op i SavePath (row_op i (PathDraft d) (row_op i OpenPath s))) =
      ks_sent s @ [allowlist_put (ks_key s) i ''/path-allowlist'' ''path_prefixes'' (entries d)]"
    using free by (simp add: opened ops savePathAllowlist_def allowlist_put_def editor_busy_def) (simp add: defs editor_open_def)
qed

lemma methods_saved:
  assumes row: "find (\<lambda>row. kr_id row = i) (key_rows s) = Some row"
    and on: "row_enabled s row OpenMethods" and idle: "ed_saving (ks_methods s) = None"
  shows "ks_sent (row_op i SaveMethods (row_op i OpenMethods s)) =
      ks_sent s @ [allowlist_put (ks_key s) i ''/method-allowlist'' ''http_methods'' (method_list (nullish (kr_http_methods row) []))]"
    and "m \<in> set METHOD_BUTTONS \<Longrightarrow> ks_sent (row_op i SaveMethods (row_op i (ToggleMethod m) (row_op i OpenMethods s))) =
      ks_sent s @ [allowlist_put (ks_key s) i ''/method-allowlist'' ''http_methods''
        (method_list (toggle_method m (nullish (kr_http_methods row) [])))]"
proof -
  define op where "op = row_handler row OpenMethods s"
  define typed where "typed = row_handler row (ToggleMethod m) op"
  note defs = op_def typed_def
  have i: "kr_id row = i" using row by (rule found_row)
  have found: "find (\<lambda>row. kr_id row = i) (key_rows t) = Some row" if "t \<in> {op, typed}" for t
    using that row by (auto simp: defs key_rows_def)
  have tails: "row_tail_of op i = EditingMethods" "row_tail_of typed i = EditingMethods"
    using on i by (auto simp: defs row_tail_of_def editor_open_def split: if_splits)
  have free: "ed_saving (ks_methods op) = None" "ed_saving (ks_methods typed) = None"
    using idle by (simp_all add: defs editor_open_def)
  have opened: "row_op i OpenMethods s = op" using on by (simp add: row_op_found [OF row] defs)
  have ops: "row_op i SaveMethods op = saveMethodAllowlist i op"
    "row_op i SaveMethods typed = saveMethodAllowlist i typed"
    using tails free i found by (simp_all add: row_op_found)
  have toggled: "row_op i (ToggleMethod m) op = typed" if "m \<in> set METHOD_BUTTONS"
    using that tails i found by (simp add: row_op_found typed_def)
  show "ks_sent (row_op i SaveMethods (row_op i OpenMethods s)) =
      ks_sent s @ [allowlist_put (ks_key s) i ''/method-allowlist'' ''http_methods'' (method_list (nullish (kr_http_methods row) []))]"
    using free by (simp add: opened ops saveMethodAllowlist_def allowlist_put_def editor_busy_def) (simp add: defs editor_open_def)
  show "ks_sent (row_op i SaveMethods (row_op i (ToggleMethod m) (row_op i OpenMethods s))) =
      ks_sent s @ [allowlist_put (ks_key s) i ''/method-allowlist'' ''http_methods''
        (method_list (toggle_method m (nullish (kr_http_methods row) [])))]" if "m \<in> set METHOD_BUTTONS"
    using free by (simp add: opened ops toggled [OF that] saveMethodAllowlist_def allowlist_put_def editor_busy_def)
      (simp add: defs editor_open_def)
qed

text \<open>
  C12. The three allowlist editors of a token, opened from its row while no save of them is under way. Opening the address or the path editor and saving it
  untouched sends one list; it is the list of the token, in order, exactly when each of its entries is
  non-empty and free of white space and commas, and any other list is changed on the way through the
  text field. Whatever is typed instead, the entries sent are non-empty and free of blanks and commas,
  and together they are the draft without its separators. The method editor sends back the methods of
  the token untouched, and after one click on a method the same methods with that one put in or
  taken out, when they are among those on offer.
\<close>

theorem allowlist_round_trip:
  assumes row: "find (\<lambda>row. kr_id row = i) (key_rows s) = Some row"
    and on: "row_enabled s row OpenIp" "row_enabled s row OpenPath" "row_enabled s row OpenMethods"
    and idle: "ed_saving (ks_ip s) = None" "ed_saving (ks_path s) = None" "ed_saving (ks_methods s) = None"
  shows "(\<exists>ws. ks_sent (row_op i SaveIp (row_op i OpenIp s)) =
        ks_sent s @ [allowlist_put (ks_key s) i ''/ip-allowlist'' ''cidrs'' ws] \<and>
      (ws = nullish (kr_ip_cidrs row) [] \<longleftrightarrow> list_all entry_ok (nullish (kr_ip_cidrs row) []))) \<and>
    (\<exists>ws. ks_sent (row_op i SavePath (row_op i OpenPath s)) =
        ks_sent s @ [allowlist_put (ks_key s) i ''/path-allowlist'' ''path_prefixes'' ws] \<and>
      (ws = nullish (kr_path_prefixes row) [] \<longleftrightarrow> list_all entry_ok (nullish (kr_path_prefixes row) []))) \<and>
    (\<exists>ws. ks_sent (row_op i SaveIp (row_op i (IpDraft d) (row_op i OpenIp s))) =
        ks_sent s @ [allowlist_put (ks_key s) i ''/ip-allowlist'' ''cidrs'' ws] \<and>
      ks_sent (row_op i SavePath (row_op i (PathDraft d) (row_op i OpenPath s))) =
        ks_sent s @ [allowlist_put (ks_key s) i ''/path-allowlist'' ''path_prefixes'' ws] \<and>
      list_all entry_ok ws \<and> concat ws = filter (\<lambda>c. \<not> is_sep c) d) \<and>
    (set (nullish (kr_http_methods row) []) \<subseteq> set METHOD_BUTTONS \<longrightarrow>
      ks_sent (row_op i SaveMethods (row_op i OpenMethods s)) =
        ks_sent s @ [allowlist_put (ks_key s) i ''/method-allowlist'' ''http_methods'' (nullish (kr_http_methods row) [])]) \<and>
    (set (nullish (kr_http_methods row) []) \<subseteq> set METHOD_BUTTONS \<and> m \<in> set METHOD_BUTTONS \<longrightarrow>
      (\<exists>ws. ks_sent (row_op i SaveMethods (row_op i (ToggleMethod m) (row_op i OpenMethods s))) =
        ks_sent s @ [allowlist_put (ks_key s) i ''/method-allowlist'' ''http_methods'' ws] \<and>
      set ws = (if m \<in> set (nullish (kr_http_methods row) []) then set (nullish (kr_http_methods row) []) - {m}
                else insert m (set (nullish (kr_http_methods row) [])))))"
proof (intro conjI)
  show "\<exists>ws. ks_sent (row_op i SaveIp (row_op i (IpDraft d) (row_op i OpenIp s))) =
        ks_sent s @ [allowlist_put (ks_key s) i ''/ip-allowlist'' ''cidrs'' ws] \<and>
      ks_sent (row_op i SavePath (row_op i (PathDraft d) (row_op i OpenPath s))) =
        ks_sent s @ [allowlist_put (ks_key s) i ''/path-allowlist'' ''path_prefixes'' ws] \<and>
      list_all entry_ok ws \<and> concat ws = filter (\<lambda>c. \<not> is_sep c) d"
    using ip_saved(2) [OF row on(1) idle(1), of d] path_saved(2) [OF row on(2) idle(2), of d] entries_content [of d]
    by (auto simp: list_all_iff intro: entries_ok)
  let ?ms = "nullish (kr_http_methods row) []"
  show "set ?ms \<subseteq> set METHOD_BUTTONS \<and> m \<in> set METHOD_BUTTONS \<longrightarrow>
      (\<exists>ws. ks_sent (row_op i SaveMethods (row_op i (ToggleMethod m) (row_op i OpenMethods s))) =
          ks_sent s @ [allowlist_put (ks_key s) i ''/method-allowlist'' ''http_methods'' ws] \<and>
        set ws = (if m \<in> set ?ms then set ?ms - {m} else insert m (set ?ms)))"
  proof
    assume m: "set ?ms \<subseteq> set METHOD_BUTTONS \<and> m \<in> set METHOD_BUTTONS"
    then have "set (toggle_method m ?ms) \<subseteq> set METHOD_BUTTONS" by (auto simp: set_toggle_method)
    then show "\<exists>ws. ks_sent (row_op i SaveMethods (row_op i (ToggleMethod m) (row_op i OpenMethods s))) =
          ks_sent s @ [allowlist_put (ks_key s) i ''/method-allowlist'' ''http_methods'' ws] \<and>
        set ws = (if m \<in> set ?ms then set ?ms - {m} else insert m (set ?ms))"
      using methods_saved(2) [OF row on(3) idle(3)] m
      by (intro exI [of _ "toggle_method m ?ms"]) (simp only: method_list_buttons set_toggle_method simp_thms)
  qed
  show "\<exists>ws. ks_sent (row_op i SaveIp (row_op i OpenIp s)) =
        ks_sent s @ [allowlist_put (ks_key s) i ''/ip-allowlist'' ''cidrs'' ws] \<and>
      (ws = nullish (kr_ip_cidrs row) [] \<longleftrightarrow> list_all entry_ok (nullish (kr_ip_cidrs row) []))"
    using ip_saved(1) [OF row on(1) idle(1)] entries_join_iff by blast
  show "\<exists>ws. ks_sent (row_op i SavePath (row_op i OpenPath s)) =
        ks_sent s @ [allowlist_put (ks_key s) i ''/path-allowlist'' ''path_prefixes'' ws] \<and>
      (ws = nullish (kr_path_prefixes row) [] \<longleftrightarrow> list_all entry_ok (nullish (kr_path_prefixes row) []))"
    using path_saved(1) [OF row on(2) idle(2)] entries_join_iff by blast
qed (use methods_saved(1) [OF row on(3) idle(3)] in \<open>simp add: method_list_buttons\<close>)

text \<open>A page with two tokens, for the witnesses.\<close>

definition sample_key :: "string \<Rightarrow> KeyRow" where
  "sample_key i =
     \<lparr>kr_id = i, kr_name = ''ci'', kr_roles = [''writer''], kr_rpm = 60, kr_created_at = 1, kr_last_used_at = 0,
      kr_last_used_ip = None, kr_last_used_ua = None, kr_secret_hint = ''9f3c'', kr_expires_at = 0, kr_expired = False,
      kr_scopes = [], kr_effective_scopes = [], kr_prior_secret_hint = None, kr_prior_secret_expires_at = None,
      kr_rotation_active = None, kr_ip_cidrs = Some [''10.0.0.0/8'', ''2001:db8::/32''],
      kr_path_prefixes = Some [''/match''], kr_http_methods = None, kr_require_device_approval = None,
      kr_max_age_minutes = None, kr_age_seconds_remaining = None, kr_aged_out = None, kr_max_idle_minutes = None,
      kr_idle_seconds_remaining = None, kr_idle_revoked = None\<rparr>"

definition sample_docs :: "string \<Rightarrow> key_docs" where
  "sample_docs i =
     \<lparr>kd_rows = [sample_key ''a'', sample_key ''b''],
      kd_policy = \<lparr>kp_max_ttl_days = 30, kp_default_ttl_days = 0, kp_available_scopes = [], kp_allowed_scopes = []\<rparr>,
      kd_created = KeyRow.extend (sample_key ''c'') \<lparr>ck_secret = ''pat_s3cret''\<rparr>,
      kd_history = \<lparr>hv_id = i, hv_name = ''ci'', hv_distinct_ips = 0, hv_truncated = False, hv_items = []\<rparr>,
      kd_devices = \<lparr>ds_id = i, ds_name = ''ci'', ds_require_device_approval = False, ds_devices = []\<rparr>,
      kd_revoked = [], kd_preserved = None\<rparr>"

abbreviation sample_list :: key_op where
  "sample_list \<equiv> KeyAnswer 0 (Got (sample_docs ''a''))"

lemmas key_eval =
  keys_run_def keys_start_def keys_blank_def policy_begin_def refresh_def key_answer_def key_resume_def drop_nth_def
  row_op_def key_rows_def row_tail_of_def sample_docs_def sample_key_def land_defs begin_defs editor_defs panel_start_def

lemma sample_loaded:
  "key_rows (keys_run ''k'' [sample_list]) = [sample_key ''a'', sample_key ''b'']"
  "ks_tasks (keys_run ''k'' [sample_list]) = [TPolicy 1]"
  by (simp_all add: key_eval)

theorem allowlist_round_trip_witness:
  "ks_sent (row_op ''a'' SaveIp (row_op ''a'' OpenIp (keys_run ''k'' [sample_list]))) =
     ks_sent (keys_run ''k'' [sample_list])
       @ [allowlist_put ''k'' ''a'' ''/ip-allowlist'' ''cidrs'' [''10.0.0.0/8'', ''2001:db8::/32'']] \<and>
   (\<exists>ws. ks_sent (row_op ''a'' SaveMethods (row_op ''a'' (ToggleMethod ''GET'') (row_op ''a'' OpenMethods (keys_run ''k'' [sample_list])))) =
     ks_sent (keys_run ''k'' [sample_list]) @ [allowlist_put ''k'' ''a'' ''/method-allowlist'' ''http_methods'' ws] \<and> set ws = {''GET''})"
proof -
  let ?s = "keys_run ''k'' [sample_list]"
  have f: "find (\<lambda>row. kr_id row = ''a'') (key_rows ?s) = Some (sample_key ''a'')"
    by (simp only: sample_loaded) (simp add: sample_key_def)
  have on: "row_enabled ?s (sample_key ''a'') OpenIp" "row_enabled ?s (sample_key ''a'') OpenPath"
    "row_enabled ?s (sample_key ''a'') OpenMethods"
    by (simp_all add: key_eval)
  have idle: "ed_saving (ks_ip ?s) = None" "ed_saving (ks_path ?s) = None" "ed_saving (ks_methods ?s) = None"
    and key: "ks_key ?s = ''k''"
    by (simp_all add: key_eval)
  have clean: "list_all entry_ok (nullish (kr_ip_cidrs (sample_key ''a'')) [])"
    by (simp add: sample_key_def entry_ok_def is_sep_def is_space_def)
  have ips: "nullish (kr_ip_cidrs (sample_key ''a'')) [] = [''10.0.0.0/8'', ''2001:db8::/32'']" by (simp add: sample_key_def)
  have none: "nullish (kr_http_methods (sample_key ''a'')) [] = []" by (simp add: sample_key_def)
  have get: "''GET'' \<in> set METHOD_BUTTONS" by (simp add: METHOD_BUTTONS_def)
  note all = allowlist_round_trip [OF f on idle, of "[]" "''GET''", unfolded key ips none]
  show ?thesis
  proof
    show "ks_sent (row_op ''a'' SaveIp (row_op ''a'' OpenIp ?s)) =
        ks_sent ?s @ [allowlist_put ''k'' ''a'' ''/ip-allowlist'' ''cidrs'' [''10.0.0.0/8'', ''2001:db8::/32'']]"
      using all [THEN conjunct1] clean unfolding ips by blast
    show "\<exists>ws. ks_sent (row_op ''a'' SaveMethods (row_op ''a'' (ToggleMethod ''GET'') (row_op ''a'' OpenMethods ?s))) =
        ks_sent ?s @ [allowlist_put ''k'' ''a'' ''/method-allowlist'' ''http_methods'' ws] \<and> set ws = {''GET''}"
      using all [THEN conjunct2, THEN conjunct2, THEN conjunct2, THEN conjunct2] get by simp
  qed
qed

text \<open>A path prefix with a comma, which the server accepts, is split by a save of the untouched editor.\<close>

lemma comma_prefix_split: "entries (join (''\<newline>'') [''/match,v2'']) = [''/match'', ''v2'']"
proof -
  have sep: "is_sep (CHR '','')" by (simp add: is_sep_def)
  have "split_runs is_sep (''/match'' @ CHR '','' # ''v2'') = ''/match'' # split_runs is_sep ''v2''"
    using split_runs_word [where p = is_sep and w = "''/match''" and d = "CHR '',''" and s = "''v2''"] sep
    by (simp add: is_sep_def is_space_def)
  moreover have "split_runs is_sep ''v2'' = [''v2'']" by (rule split_runs_last) (simp add: is_sep_def is_space_def)
  moreover have "trim ''/match'' = ''/match''" "trim ''v2'' = ''v2''" by code_simp+
  ultimately show ?thesis by (simp add: entries_def)
qed

section \<open>What is asked before something is deleted\<close>

definition confirmed_delete :: "keys_page \<Rightarrow> key_op \<Rightarrow> request \<Rightarrow> bool" where
  "confirmed_delete s op r \<longleftrightarrow>
     (\<exists>i. op = OnRow i ConfirmRevoke \<and> ks_confirmId s = Some i \<and> req_path r = key_path i []) \<or>
     (\<exists>i fp. op = OnRow i (Forget fp) \<and> pn_id (ks_devices s) = Some i \<and> req_path r = key_path i (''/devices/'' @ fp))"

lemma not_revoke_all: "rest \<noteq> [] \<Longrightarrow> last rest \<noteq> CHR ''l'' \<Longrightarrow> key_path i rest \<noteq> ''/api/keys/revoke-all''"
proof
  assume "rest \<noteq> []" "last rest \<noteq> CHR ''l''" "key_path i rest = ''/api/keys/revoke-all''"
  then have "last (''/api/keys/'' @ i @ rest) = last ''/api/keys/revoke-all''" by (simp only: key_path_def)
  then show False using \<open>rest \<noteq> []\<close> \<open>last rest \<noteq> CHR ''l''\<close> by simp
qed

definition mass_request :: "request \<Rightarrow> bool" where
  "mass_request r \<longleftrightarrow> req_method r = ''POST'' \<and> req_path r = ''/api/keys/revoke-all''"

definition sends_ok :: "keys_page \<Rightarrow> key_op \<Rightarrow> request list \<Rightarrow> bool" where
  "sends_ok s op rs \<longleftrightarrow>
     list_all (\<lambda>r. (req_method r = ''DELETE'' \<longrightarrow> confirmed_delete s op r) \<and>
       (mass_request r \<longrightarrow> op = RevokeAllConfirm \<and> ks_revokeAllOpen s)) rs"

lemmas request_defs = plain_request_def body_request_def devices_request_def mass_request_def not_revoke_all

lemma row_handler_sends:
  "row_enabled s row rop \<Longrightarrow>
     \<exists>rs. ks_sent (row_handler row rop s) = ks_sent s @ rs \<and> sends_ok s (OnRow (kr_id row) rop) rs"
  by (cases rop) (auto simp: sends_ok_def begin_defs editor_defs request_defs confirmed_delete_def row_tail_of_def split: if_splits)

lemma resume_sends: "\<exists>rs. ks_sent (key_resume t a s) = ks_sent s @ rs \<and> list_all (\<lambda>r. req_method r = ''GET'') rs"
proof (cases t)
  case (TList aft)
  then show ?thesis by (cases aft) (simp_all add: key_resume_def after_refresh_def refresh_land_def request_defs)
qed (cases a; simp add: key_resume_def land_defs request_defs Let_def)+

lemma key_step_sends: "\<exists>rs. ks_sent (key_step op s) = ks_sent s @ rs \<and> sends_ok s op rs"
proof (cases op)
  case (OnRow i rop)
  then show ?thesis using row_op_cases [of i rop s] row_handler_sends [of s _ rop]
    by (auto simp: sends_ok_def intro: exI [of _ "[]"])
next
  case (KeyAnswer i a)
  show ?thesis
  proof (cases "i < length (ks_tasks s)")
    case True
    then obtain rs where "ks_sent (key_answer i a s) = ks_sent s @ rs" "list_all (\<lambda>r. req_method r = ''GET'') rs"
      using resume_sends [of "ks_tasks s ! i" a "s\<lparr>ks_tasks := drop_nth i (ks_tasks s)\<rparr>"] by (auto simp: key_answer_cases)
    then show ?thesis using KeyAnswer by (auto simp: sends_ok_def list_all_iff mass_request_def)
  qed (use KeyAnswer in \<open>simp add: key_answer_cases sends_ok_def\<close>)
qed (simp add: sends_ok_def key_change_def policy_begin_def refresh_def scope_box_def begin_defs request_defs split: option.split)+

lemma run_snoc: "keys_run k (ops @ [op]) = key_step op (keys_run k ops)"
  by (simp add: keys_run_def)

text \<open>Every request of a run was sent by one of its steps, or by the effects of the mount.\<close>

lemma run_sends:
  "r \<in> set (ks_sent (keys_run k ops)) \<Longrightarrow> req_method r \<noteq> ''GET'' \<Longrightarrow>
     \<exists>pre op post rs. ops = pre @ op # post \<and> r \<in> set rs \<and> sends_ok (keys_run k pre) op rs"
proof (induction ops rule: rev_induct)
  case Nil
  then show ?case by (auto simp: key_eval request_defs send_def)
next
  case (snoc op ops)
  obtain rs where rs: "ks_sent (key_step op (keys_run k ops)) = ks_sent (keys_run k ops) @ rs" "sends_ok (keys_run k ops) op rs"
    using key_step_sends by blast
  show ?case
  proof (cases "r \<in> set rs")
    case True
    then show ?thesis using rs(2) by blast
  next
    case False
    then have "r \<in> set (ks_sent (keys_run k ops))" using snoc.prems(1) rs(1) by (simp add: run_snoc)
    then obtain pre op' post rs where "ops = pre @ op' # post" "r \<in> set rs" "sends_ok (keys_run k pre) op' rs"
      using snoc.IH snoc.prems(2) by blast
    then show ?thesis by (metis append.assoc append_Cons)
  qed
qed

lemma row_handler_confirms:
  "ks_confirmId (row_handler row rop s) = (case rop of AskRevoke \<Rightarrow> Some (kr_id row) | CancelRevoke \<Rightarrow> None | _ \<Rightarrow> ks_confirmId s) \<and>
   ks_revokeAllOpen (row_handler row rop s) = ks_revokeAllOpen s"
  by (cases rop) (simp_all add: begin_defs editor_defs)

lemma resume_confirms:
  "(ks_confirmId (key_resume t a s) = Some i \<longrightarrow> ks_confirmId s = Some i) \<and>
   (ks_revokeAllOpen (key_resume t a s) \<longrightarrow> ks_revokeAllOpen s)"
proof (cases t)
  case (TList aft)
  then show ?thesis by (cases aft) (simp_all add: key_resume_def after_refresh_def refresh_land_def)
qed (cases a; simp add: key_resume_def land_defs Let_def)+

lemma step_confirms:
  "(ks_confirmId (key_step op s) = Some i \<longrightarrow> op = OnRow i AskRevoke \<or> ks_confirmId s = Some i) \<and>
   (ks_revokeAllOpen (key_step op s) \<longrightarrow> op = RevokeAllAsk \<or> ks_revokeAllOpen s)"
proof (cases op)
  case (OnRow j rop)
  consider "row_op j rop s = s" | row where "row_op j rop s = row_handler row rop s" "kr_id row = j"
    using row_op_cases [of j rop s] by blast
  then show ?thesis using OnRow row_handler_confirms [of _ rop s] by cases (auto split: key_row_op.splits)
next
  case (KeyAnswer j a)
  then show ?thesis using resume_confirms [of "ks_tasks s ! j" a "s\<lparr>ks_tasks := drop_nth j (ks_tasks s)\<rparr>" i]
    by (cases "j < length (ks_tasks s)") (simp_all add: key_answer_cases)
qed (simp_all add: key_change_def policy_begin_def refresh_def scope_box_def begin_defs split: option.split)

lemma run_confirms:
  "(ks_confirmId (keys_run k ops) = Some i \<longrightarrow> OnRow i AskRevoke \<in> set ops) \<and>
   (ks_revokeAllOpen (keys_run k ops) \<longrightarrow> RevokeAllAsk \<in> set ops)"
proof (induction ops rule: rev_induct)
  case Nil
  show ?case by (simp add: key_eval)
next
  case (snoc op ops)
  then show ?case using step_confirms [of op "keys_run k ops" i] by (auto simp: run_snoc)
qed

text \<open>
  C11. Nothing is deleted without being asked for. Over every run, a DELETE that the page has sent either
  revokes the token whose revocation was confirmed, after the revocation of that very token had been
  asked for, or forgets a device from the open panel of its token; and the request that revokes all
  tokens was sent by the confirmation of its dialog, which had been opened before. No other button,
  effect or answer sends one.
\<close>

theorem deletes_confirmed:
  assumes "r \<in> set (ks_sent (keys_run k ops))"
  shows "(req_method r = ''DELETE'' \<longrightarrow>
      (\<exists>pre i post. ops = pre @ OnRow i ConfirmRevoke # post \<and> OnRow i AskRevoke \<in> set pre \<and> req_path r = key_path i []) \<or>
      (\<exists>pre i fp post. ops = pre @ OnRow i (Forget fp) # post \<and> pn_id (ks_devices (keys_run k pre)) = Some i \<and>
        req_path r = key_path i (''/devices/'' @ fp))) \<and>
    (mass_request r \<longrightarrow> (\<exists>pre post. ops = pre @ RevokeAllConfirm # post \<and> RevokeAllAsk \<in> set pre))"
proof (cases "req_method r = ''GET''")
  case False
  then obtain pre op post rs where ops: "ops = pre @ op # post" and r: "r \<in> set rs" "sends_ok (keys_run k pre) op rs"
    using run_sends [OF assms] by blast
  then have "req_method r = ''DELETE'' \<longrightarrow> confirmed_delete (keys_run k pre) op r"
    "mass_request r \<longrightarrow> op = RevokeAllConfirm \<and> ks_revokeAllOpen (keys_run k pre)"
    by (auto simp: sends_ok_def list_all_iff)
  moreover have "ks_confirmId (keys_run k pre) = Some i \<longrightarrow> OnRow i AskRevoke \<in> set pre" for i
    using run_confirms by blast
  moreover have "ks_revokeAllOpen (keys_run k pre) \<longrightarrow> RevokeAllAsk \<in> set pre" using run_confirms by blast
  ultimately show ?thesis unfolding confirmed_delete_def using ops by blast
qed (auto simp: mass_request_def)

theorem deletes_confirmed_witness:
  "\<exists>pre i post. [sample_list, OnRow ''a'' AskRevoke, OnRow ''a'' ConfirmRevoke] = pre @ OnRow i ConfirmRevoke # post \<and>
     OnRow i AskRevoke \<in> set pre \<and> key_path ''a'' [] = key_path i []"
proof -
  let ?ops = "[sample_list, OnRow ''a'' AskRevoke, OnRow ''a'' ConfirmRevoke]"
  let ?r = "plain_request ''DELETE'' (key_path ''a'' []) ''k''"
  have "?r \<in> set (ks_sent (keys_run ''k'' ?ops))" by (simp add: key_eval)
  from deletes_confirmed [OF this] show ?thesis
    by (auto simp: plain_request_def Cons_eq_append_conv)
qed

section \<open>The fresh secret\<close>

fun mints :: "key_task \<Rightarrow> bool" where
  "mints TCreate \<longleftrightarrow> True"
| "mints TRotate \<longleftrightarrow> True"
| "mints _ \<longleftrightarrow> False"

definition minted_by :: "keys_page \<Rightarrow> key_op \<Rightarrow> CreatedKey \<Rightarrow> bool" where
  "minted_by s op c \<longleftrightarrow>
     (\<exists>i d. op = KeyAnswer i (Got d) \<and> i < length (ks_tasks s) \<and> mints (ks_tasks s ! i) \<and> c = kd_created d)"

lemma resume_secret:
  "ks_justCreated (key_resume t a s) = ks_justCreated s \<or>
   (\<exists>d. a = Got d \<and> mints t \<and> ks_justCreated (key_resume t a s) = Some (kd_created d))"
proof (cases t)
  case (TList aft)
  then show ?thesis by (cases aft) (simp_all add: key_resume_def after_refresh_def refresh_land_def)
qed (cases a; simp add: key_resume_def land_defs Let_def)+

lemma step_secret:
  "ks_justCreated (key_step op s) = Some c \<Longrightarrow> minted_by s op c \<or> ks_justCreated s = Some c \<and> op \<noteq> DismissSecret"
proof (cases op)
  case (OnRow j rop)
  have "ks_justCreated (row_handler row rop s) = ks_justCreated s" for row
    by (cases rop) (simp_all add: begin_defs editor_defs)
  moreover assume "ks_justCreated (key_step op s) = Some c"
  ultimately show ?thesis using OnRow row_op_cases [of j rop s] by auto
next
  case (KeyAnswer j a)
  assume "ks_justCreated (key_step op s) = Some c"
  then show ?thesis using KeyAnswer resume_secret [of "ks_tasks s ! j" a "s\<lparr>ks_tasks := drop_nth j (ks_tasks s)\<rparr>"]
    by (cases "j < length (ks_tasks s)") (auto simp: key_answer_cases minted_by_def)
qed (simp_all add: key_change_def policy_begin_def refresh_def scope_box_def begin_defs split: option.splits if_splits)

text \<open>
  C13. The secret of a token is shown once: whenever the page shows one, it is that of the last token that was
  minted or rotated, as the server's answer to this very request carried it, and the user has not
  dismissed it since. So a dismissed secret never comes back, whatever is reloaded or answered later.
\<close>

theorem secret_shown_once:
  assumes "ks_justCreated (keys_run k ops) = Some c"
  shows "\<exists>pre op post. ops = pre @ op # post \<and> minted_by (keys_run k pre) op c \<and> DismissSecret \<notin> set post \<and>
    (\<forall>later op' rest. post = later @ op' # rest \<longrightarrow> \<not> (\<exists>c'. c' \<noteq> c \<and> minted_by (keys_run k (pre @ op # later)) op' c'))"
  using assms
proof (induction ops rule: rev_induct)
  case Nil
  then show ?case by (simp add: key_eval)
next
  case (snoc op ops)
  let ?s = "keys_run k ops"
  have shown: "ks_justCreated (key_step op ?s) = Some c" using snoc.prems by (simp add: run_snoc)
  show ?case
  proof (cases "minted_by ?s op c")
    case True
    then show ?thesis by (intro exI [of _ ops] exI [of _ op] exI [of _ "[]"]) simp
  next
    case False
    then have kept: "ks_justCreated ?s = Some c" "op \<noteq> DismissSecret" using step_secret [OF shown] by auto
    from snoc.IH [OF kept(1)] obtain pre op0 post where IH: "ops = pre @ op0 # post" "minted_by (keys_run k pre) op0 c"
      "DismissSecret \<notin> set post"
      "\<And>later op' rest c'. post = later @ op' # rest \<Longrightarrow> c' \<noteq> c \<Longrightarrow> \<not> minted_by (keys_run k (pre @ op0 # later)) op' c'"
      by blast
    have last: "\<not> minted_by ?s op c'" if "c' \<noteq> c" for c'
      using that shown by (auto simp: minted_by_def key_answer_cases key_resume_def land_defs elim!: mints.elims)
    have "\<not> minted_by (keys_run k (pre @ op0 # later)) op' c'" if "post @ [op] = later @ op' # rest" "c' \<noteq> c" for later op' rest c'
    proof (cases rest rule: rev_cases)
      case Nil
      then show ?thesis using that last IH(1) by simp
    next
      case (snoc rest' z)
      then have "post = later @ op' # rest'" using that(1) by simp
      then show ?thesis using IH(4) that(2) by blast
    qed
    then show ?thesis using IH(1-3) kept(2)
      by (intro exI [of _ pre] exI [of _ op0] exI [of _ "post @ [op]"]) auto
  qed
qed

abbreviation sample_mint :: "key_op list" where
  "sample_mint \<equiv> [NameEdit ''ci'', CreateSubmit, KeyAnswer 2 (Got (sample_docs ''a''))]"

lemma sample_minted: "ks_justCreated (keys_run ''k'' sample_mint) = Some (kd_created (sample_docs ''a''))"
  by (simp add: key_eval trim_def is_space_def)

theorem secret_shown_once_witness:
  "\<exists>pre op post. sample_mint = pre @ op # post \<and> minted_by (keys_run ''k'' pre) op (kd_created (sample_docs ''a''))"
  using secret_shown_once [OF sample_minted] by blast

section \<open>Panels\<close>

text \<open>
  A run is orderly for the address history when its button is not pressed while a history is being
  fetched, and the server answers with the history of the token it was asked for.
\<close>

definition no_history :: "keys_page \<Rightarrow> bool" where
  "no_history s \<longleftrightarrow> list_all (\<lambda>t. case t of THistory i \<Rightarrow> False | _ \<Rightarrow> True) (ks_tasks s)"

fun orderly_op :: "keys_page \<Rightarrow> key_op \<Rightarrow> bool" where
  "orderly_op s (OnRow i HistoryButton) \<longleftrightarrow> no_history s"
| "orderly_op s (KeyAnswer n (Got d)) \<longleftrightarrow>
     n < length (ks_tasks s) \<and> (case ks_tasks s ! n of THistory i \<Rightarrow> hv_id (kd_history d) = i | _ \<Rightarrow> True)"
| "orderly_op s op \<longleftrightarrow> True"

fun orderly :: "keys_page \<Rightarrow> key_op list \<Rightarrow> bool" where
  "orderly s [] \<longleftrightarrow> True"
| "orderly s (op # ops) \<longleftrightarrow> orderly_op s op \<and> orderly (key_step op s) ops"

definition history_matches :: "keys_page \<Rightarrow> bool" where
  "history_matches s \<longleftrightarrow>
     list_all (\<lambda>t. case t of THistory i \<Rightarrow> pn_id (ks_history s) \<in> {None, Some i} | _ \<Rightarrow> True) (ks_tasks s) \<and>
     (case (pn_id (ks_history s), pn_data (ks_history s)) of (Some i, Some v) \<Rightarrow> hv_id v = i | _ \<Rightarrow> True)"

lemma history_frame:
  "ks_history t = ks_history s \<Longrightarrow> set (ks_tasks t) \<subseteq> set (ks_tasks s) \<union> {u. \<forall>i. u \<noteq> THistory i} \<Longrightarrow>
     history_matches s \<Longrightarrow> history_matches t"
  by (auto simp: history_matches_def list_all_iff split: key_task.splits)

lemma set_drop_nth: "set (drop_nth i xs) \<subseteq> set xs"
  by (auto simp: drop_nth_def dest: in_set_takeD in_set_dropD)

lemma resume_history:
  assumes "history_matches s" and "\<And>i d. t = THistory i \<Longrightarrow> a = Got d \<Longrightarrow> hv_id (kd_history d) = i"
    and "\<And>i. t = THistory i \<Longrightarrow> pn_id (ks_history s) \<in> {None, Some i}"
  shows "history_matches (key_resume t a s)"
proof (cases t)
  case (THistory i)
  then show ?thesis using assms
    by (cases a) (auto simp: key_resume_def history_land_def panel_land_def history_matches_def split: option.splits)
next
  case (TList aft)
  then show ?thesis
    by (cases aft; intro history_frame [OF _ _ assms(1)])
      (auto simp: key_resume_def after_refresh_def refresh_land_def)
qed (cases a; rule history_frame [OF _ _ assms(1)]; auto simp: key_resume_def land_defs Let_def)+

lemma close_history: "pn_id (ks_history s) = Some i \<Longrightarrow> history_matches s \<Longrightarrow> history_matches (openHistory i s)"
  by (auto simp: openHistory_def panel_closed_def history_matches_def list_all_iff split: key_task.splits)

lemma open_history: "pn_id (ks_history s) \<noteq> Some i \<Longrightarrow> no_history s \<Longrightarrow> history_matches (openHistory i s)"
  by (auto simp: openHistory_def panel_opened_def history_matches_def no_history_def list_all_iff split: key_task.splits)

lemma row_history:
  assumes "history_matches s" and "rop = HistoryButton \<Longrightarrow> no_history s"
    and "row_enabled s row rop"
  shows "history_matches (row_handler row rop s)"
proof (cases "rop = HistoryButton \<or> rop = HistoryClose")
  case True
  then have "row_handler row rop s = openHistory (kr_id row) s" by auto
  then show ?thesis
    using True assms close_history [of s "kr_id row"] open_history [of s "kr_id row"]
    by (cases "pn_id (ks_history s) = Some (kr_id row)") auto
next
  case False
  then show ?thesis
    by (cases rop; intro history_frame [OF _ _ assms(1)]) (auto simp: begin_defs editor_defs)
qed

lemma step_history:
  assumes "history_matches s" and "orderly_op s op"
  shows "history_matches (key_step op s)"
proof (cases op)
  case (OnRow i rop)
  have "rop = HistoryButton \<Longrightarrow> no_history s" using OnRow assms(2) by simp
  then show ?thesis using OnRow assms(1) row_op_cases [of i rop s] row_history [OF assms(1)] by auto
next
  case (KeyAnswer n a)
  show ?thesis
  proof (cases "n < length (ks_tasks s)")
    case True
    let ?t = "ks_tasks s ! n" and ?s = "s\<lparr>ks_tasks := drop_nth n (ks_tasks s)\<rparr>"
    have "?t \<in> set (ks_tasks s)" using True by simp
    then have pn: "pn_id (ks_history ?s) \<in> {None, Some i}" if "?t = THistory i" for i
      using assms(1) that by (fastforce simp: history_matches_def list_all_iff)
    have honest: "hv_id (kd_history d) = i" if "?t = THistory i" "a = Got d" for i d
      using assms(2) KeyAnswer that by simp
    have "history_matches ?s" using set_drop_nth [of n "ks_tasks s"] by (intro history_frame [OF _ _ assms(1)]) auto
    from resume_history [OF this honest pn] show ?thesis using True KeyAnswer by (simp add: key_answer_cases)
  qed (use KeyAnswer assms(1) in \<open>simp add: key_answer_cases\<close>)
qed (rule history_frame [OF _ _ assms(1)]; auto simp: key_change_def policy_begin_def refresh_def scope_box_def begin_defs
  split: option.split)+

text \<open>
  The address history that the page shows under a token is that token's, over every run in which the
  button is not pressed while a history is being fetched; the panel may be closed, the list reloaded
  and everything else done meanwhile, in any order. (Without that care it can be another token's: the
  answer is taken whatever panel is open, as \<open>history_panel_mixed\<close> shows.)
\<close>

theorem history_panel_current:
  assumes "orderly (keys_start k) ops"
    and "pn_id (ks_history (keys_run k ops)) = Some i" and "pn_data (ks_history (keys_run k ops)) = Some v"
  shows "hv_id v = i"
proof -
  have "history_matches s \<Longrightarrow> orderly s ops \<Longrightarrow> history_matches (fold key_step ops s)" for s
    by (induction ops arbitrary: s) (simp_all add: step_history)
  moreover have "history_matches (keys_start k)" by (simp add: history_matches_def key_eval)
  ultimately have "history_matches (keys_run k ops)" using assms(1) by (simp add: keys_run_def)
  then show ?thesis using assms(2,3) by (simp add: history_matches_def)
qed

theorem history_panel_current_witness:
  "pn_data (ks_history (keys_run ''k'' [sample_list, OnRow ''a'' HistoryButton, KeyAnswer 1 (Got (sample_docs ''a''))])) \<noteq> None \<and>
   hv_id (kd_history (sample_docs ''a'')) = ''a''"
proof -
  let ?ops = "[sample_list, OnRow ''a'' HistoryButton, KeyAnswer 1 (Got (sample_docs ''a''))]"
  have o: "orderly (keys_start ''k'') ?ops" by (simp add: key_eval no_history_def)
  have "pn_id (ks_history (keys_run ''k'' ?ops)) = Some ''a''"
    and d: "pn_data (ks_history (keys_run ''k'' ?ops)) = Some (kd_history (sample_docs ''a''))"
    by (simp_all add: key_eval)
  from history_panel_current [OF o this] d show ?thesis by simp
qed

text \<open>Two histories under way, answered late first: the addresses of one token under another.\<close>

lemma history_panel_mixed:
  "\<exists>ops v. pn_id (ks_history (keys_run ''k'' ops)) = Some ''b'' \<and> pn_data (ks_history (keys_run ''k'' ops)) = Some v \<and>
     hv_id v = ''a'' \<and> (\<forall>i d. KeyAnswer i (Got d) \<in> set ops \<longrightarrow> hv_id (kd_history d) \<in> {''a'', ''b''})"
proof -
  let ?ops = "[sample_list, OnRow ''a'' HistoryButton, OnRow ''b'' HistoryButton,
      KeyAnswer 2 (Got (sample_docs ''b'')), KeyAnswer 1 (Got (sample_docs ''a''))]"
  have "pn_id (ks_history (keys_run ''k'' ?ops)) = Some ''b''"
    "pn_data (ks_history (keys_run ''k'' ?ops)) = Some (kd_history (sample_docs ''a''))"
    by (simp_all add: key_eval)
  moreover have "\<forall>i d. KeyAnswer i (Got d) \<in> set ?ops \<longrightarrow> hv_id (kd_history d) \<in> {''a'', ''b''}"
    by (auto simp: sample_docs_def)
  ultimately show ?thesis by (intro exI [of _ ?ops] exI [of _ "kd_history (sample_docs ''a'')"]) (simp add: sample_docs_def)
qed

section \<open>Lifetimes\<close>

lemma base_digits:
  "string_to_number (fst q) \<in> (\<lambda>n. Fin (of_nat n)) ` {1, 7, 30, 90, 180, 365}" if "q \<in> set ttl_base" for q
proof -
  have "map nat_digits [1, 7, 30, 90, 180, 365] = map fst ttl_base" by code_simp
  then have "fst q \<in> set (map nat_digits [1, 7, 30, 90, 180, 365])" using that by simp
  then obtain n where "n \<in> {1, 7, 30, 90, 180, 365}" "fst q = nat_digits n" by auto
  moreover have "n < 2 ^ 53" using calculation(1) by auto
  ultimately show ?thesis using string_to_number_nat [of n] by auto
qed

text \<open>
  C14. The lifetimes that the form offers respect the policy of the workspace. Under a cap of \<open>n\<close> days every
  offered lifetime is a whole number of days between 1 and \<open>n\<close>, the cap itself is always offered, and
  "never" is not; without a cap "never" is offered. A token minted with an offered lifetime therefore
  asks for at most \<open>n\<close> days.
\<close>

theorem ttl_choices_capped:
  assumes "ttl_cap policy = of_nat n" and "n < 10 ^ 15"
  shows "(0 < n \<longrightarrow>
      (\<forall>v\<in>fst ` set (ttlChoices policy). \<exists>m. expires_in_days v = Fin (of_nat m) \<and> 1 \<le> m \<and> m \<le> n) \<and>
      (\<exists>v\<in>fst ` set (ttlChoices policy). expires_in_days v = Fin (of_nat n))) \<and>
    (n = 0 \<longrightarrow> ''never'' \<in> fst ` set (ttlChoices policy))"
proof (cases "n = 0")
  case True
  then show ?thesis using assms by (simp add: ttlChoices_def Let_def)
next
  case False
  let ?kept = "filter (\<lambda>(v, l). ttl_at_most (of_nat n) v) ttl_base"
  let ?cap = "num_to_string (of_nat n) :: string"
  have cap: "string_to_number ?cap = Fin (of_nat n)" using assms(2) by (rule number_text_round_trip)
  have days: "expires_in_days v = Fin (of_nat m)" if "string_to_number v = Fin (of_nat m)" for v m
  proof -
    have "string_to_number ''never'' = NaN" by code_simp
    then show ?thesis using that by (auto simp: expires_in_days_def)
  qed
  have kept: "\<exists>m. string_to_number (fst q) = Fin (of_nat m) \<and> 1 \<le> m \<and> m \<le> n" if "q \<in> set ?kept" for q
  proof -
    have base: "q \<in> set ttl_base" and le: "ttl_at_most (of_nat n) (fst q)" using that by (auto simp: case_prod_beta)
    obtain m where "string_to_number (fst q) = Fin (of_nat m)" "1 \<le> m" using base_digits [OF base] by auto
    then show ?thesis using le by (auto simp: ttl_at_most_def)
  qed
  have choices: "ttlChoices policy =
      (if list_ex (\<lambda>(v, l). string_to_number v = Fin (of_nat n)) ?kept then ?kept
       else ?kept @ [(?cap, ''in '' @ ?cap @ '' days (max)'')])"
    using assms(1) False by (simp add: ttlChoices_def Let_def)
  have "\<exists>m. string_to_number v = Fin (of_nat m) \<and> 1 \<le> m \<and> m \<le> n" if "v \<in> fst ` set (ttlChoices policy)" for v
  proof -
    have "v \<in> fst ` set ?kept \<or> v = ?cap" using that unfolding choices by (auto split: if_splits)
    then show ?thesis using kept cap False by (auto intro: exI [of _ n])
  qed
  moreover have "\<exists>v\<in>fst ` set (ttlChoices policy). string_to_number v = Fin (of_nat n)"
  proof (cases "list_ex (\<lambda>(v, l). string_to_number v = Fin (of_nat n)) ?kept")
    case True
    then show ?thesis unfolding choices by (force simp: list_ex_iff)
  next
    case no: False
    then show ?thesis unfolding choices using cap by force
  qed
  ultimately show ?thesis using days False by meson
qed

theorem ttl_choices_capped_witness:
  "\<exists>v\<in>fst ` set (ttlChoices (Some (kd_policy (sample_docs ''a'')))). expires_in_days v = Fin (of_nat 30)"
proof -
  have "ttl_cap (Some (kd_policy (sample_docs ''a''))) = of_nat 30" by (simp add: ttl_cap_def sample_docs_def)
  from ttl_choices_capped [OF this] show ?thesis by simp
qed

end
