(* ===== verification/WebhooksPage.thy ===== *)
theory WebhooksPage
  imports Requests Export
begin

text \<open>
  \<open>web/app/webhooks/page.tsx\<close>: the card of the delivery rate, a component of its own, and the page that
  registers, tests, pauses, rotates and deletes webhooks and shows their delivery logs.
\<close>

section \<open>Times\<close>

text \<open>The local fields of a date that holds no time are all NaN.\<close>

definition hook_ts :: "(int \<Rightarrow> int) \<Rightarrow> rat \<Rightarrow> string" where
  "hook_ts tz ms =
     (case time_clip ms of
        None \<Rightarrow> ''NaN-NaN-NaN NaN:NaN:NaN''
      | Some t \<Rightarrow>
          (let d = local_fields tz t in
           int_to_string (d_year d) @ ''-'' @ pad2 (d_month d + 1) @ ''-'' @ pad2 (d_day d) @ '' '' @
           pad2 (d_hour d) @ '':'' @ pad2 (d_minute d) @ '':'' @ pad2 (d_second d)))"

section \<open>The card of the delivery rate\<close>

record DeliveryRateState =
  dr_max_per_minute :: rat
  dr_ceiling :: rat
  dr_active_hook_count :: rat
  dr_updated_at :: rat
  dr_updated_by :: string

text \<open>A refusal carries its body when it is JSON (a body that is not is read as \<open>{}\<close>).\<close>

datatype rate_reply = RateBroke string | RateDenied nat "json option" | RateGot DeliveryRateState

datatype rate_task = RateLoad | RateSave | RateTimer

record rate_card =
  rc_state :: "DeliveryRateState option"
  rc_draft :: string
  rc_err :: "string option"
  rc_busy :: bool
  rc_saved :: bool
  rc_tasks :: "rate_task list"
  rc_sent :: "json list"

definition rate_start :: rate_card where
  "rate_start =
     \<lparr>rc_state = None, rc_draft = [], rc_err = None, rc_busy = False, rc_saved = False, rc_tasks = [RateLoad], rc_sent = []\<rparr>"

definition rate_adopt :: "DeliveryRateState \<Rightarrow> rate_card \<Rightarrow> rate_card" where
  "rate_adopt d s = s\<lparr>rc_state := Some d, rc_draft := num_to_string (dr_max_per_minute d)\<rparr>"

definition rate_load_land :: "rate_reply \<Rightarrow> rate_card \<Rightarrow> rate_card" where
  "rate_load_land a s =
     (case a of
        RateBroke m \<Rightarrow> s\<lparr>rc_err := Some m\<rparr>
      | RateDenied st body \<Rightarrow> s\<lparr>rc_err := Some (http_status st)\<rparr>
      | RateGot d \<Rightarrow> rate_adopt d s)"

text \<open>The checks of \<open>save\<close>: a message, or the number it sends.\<close>

definition rate_check :: "rat \<Rightarrow> string \<Rightarrow> string + rat" where
  "rate_check ceil draft =
     (case parse_int draft of
        Fin n \<Rightarrow>
          if n < 0 then Inl ''enter a non-negative integer''
          else if n > ceil then Inl (''max is '' @ num_to_string ceil) else Inr n
      | _ \<Rightarrow> Inl ''enter a non-negative integer'')"

definition rate_disabled :: "rate_card \<Rightarrow> bool" where
  "rate_disabled s \<longleftrightarrow>
     rc_busy s \<or> rc_state s = None \<or>
     rc_draft s = (case rc_state s of None \<Rightarrow> ''0'' | Some d \<Rightarrow> num_to_string (dr_max_per_minute d))"

definition rate_save :: "rate_card \<Rightarrow> rate_card" where
  "rate_save s =
     (case rc_state s of
        None \<Rightarrow> s
      | Some d \<Rightarrow>
          (case rate_check (dr_ceiling d) (rc_draft s) of
             Inl m \<Rightarrow> s\<lparr>rc_err := Some m\<rparr>
           | Inr n \<Rightarrow>
               s\<lparr>rc_busy := True, rc_err := None, rc_tasks := rc_tasks s @ [RateSave],
                 rc_sent := rc_sent s @ [JObj [(''max_per_minute'', JNum (Fin n))]]\<rparr>))"

text \<open>
  The message of a refusal: \<open>(body && body.detail) || body\<close>, as a string or its \<open>message\<close>. An
  \<open>Error\<close> made of another value carries its text.
\<close>

definition rate_detail :: "json \<Rightarrow> json" where
  "rate_detail body = (if truthy (field body ''detail'') then the (field body ''detail'') else body)"

definition rate_refusal :: "nat \<Rightarrow> json option \<Rightarrow> string" where
  "rate_refusal st body =
     (case rate_detail (nullish body (JObj [])) of
        JStr m \<Rightarrow> m
      | d \<Rightarrow> (case field d ''message'' of
               Some v \<Rightarrow> if truthy (Some v) then js_text v else http_status st
             | None \<Rightarrow> http_status st))"

definition rate_save_land :: "rate_reply \<Rightarrow> rate_card \<Rightarrow> rate_card" where
  "rate_save_land a s =
     (case a of
        RateBroke m \<Rightarrow> s\<lparr>rc_err := Some m, rc_busy := False\<rparr>
      | RateDenied st body \<Rightarrow> s\<lparr>rc_err := Some (rate_refusal st body), rc_busy := False\<rparr>
      | RateGot d \<Rightarrow> (rate_adopt d s)\<lparr>rc_saved := True, rc_busy := False, rc_tasks := rc_tasks s @ [RateTimer]\<rparr>)"

definition rate_answer :: "nat \<Rightarrow> rate_reply \<Rightarrow> rate_card \<Rightarrow> rate_card" where
  "rate_answer i a s =
     (if i < length (rc_tasks s) then
        (let t = s\<lparr>rc_tasks := drop_nth i (rc_tasks s)\<rparr> in
         case rc_tasks s ! i of
           RateLoad \<Rightarrow> rate_load_land a t
         | RateSave \<Rightarrow> rate_save_land a t
         | RateTimer \<Rightarrow> t\<lparr>rc_saved := False\<rparr>)
      else s)"

datatype rate_op = RateDraft string | RateClick | RateAnswer nat rate_reply

text \<open>The card shows its field and button once its state is there or a load has failed.\<close>

definition rate_shown :: "rate_card \<Rightarrow> bool" where
  "rate_shown s \<longleftrightarrow> rc_state s \<noteq> None \<or> rc_err s \<noteq> None"

fun rate_step :: "rate_op \<Rightarrow> rate_card \<Rightarrow> rate_card" where
  "rate_step (RateDraft d) s = (if rate_shown s then s\<lparr>rc_draft := d\<rparr> else s)"
| "rate_step RateClick s = (if rate_shown s \<and> \<not> rate_disabled s then rate_save s else s)"
| "rate_step (RateAnswer i a) s = rate_answer i a s"

definition rate_view :: "(int \<Rightarrow> int) \<Rightarrow> rate_card \<Rightarrow> node list" where
  "rate_view tz s =
     (if rc_state s = None \<and> rc_err s = None then [Text ''loading delivery rate policy...'']
      else
        (let cap = (case rc_state s of None \<Rightarrow> 0 | Some d \<Rightarrow> dr_max_per_minute d) in
         [Text ''per hook delivery rate cap'',
          Text (case rc_state s of None \<Rightarrow> []
                | Some d \<Rightarrow> num_to_string (dr_active_hook_count d) @ '' active hook'' @
                    (if dr_active_hook_count d = 1 then [] else ''s'')),
          TextField (case rc_state s of None \<Rightarrow> ''10000'' | Some d \<Rightarrow> num_to_string (dr_ceiling d)) (rc_draft s),
          Button (if rc_busy s then ''saving'' else ''save'') (rate_disabled s),
          Text (''status: '' @ (if cap > 0 then ''enforced at '' @ num_to_string cap @ ''/min'' else ''no cap''))]
         @ (if rc_saved s then [Text ''saved''] else [])
         @ error_nodes (rc_err s)
         @ (case rc_state s of
              None \<Rightarrow> []
            | Some d \<Rightarrow>
                if dr_updated_at d > 0
                then [Text (''last updated '' @ hook_ts tz (dr_updated_at d * 1000) @ '' by '' @ or_str (dr_updated_by d) ''unknown'')]
                else [])))"

definition rate_run :: "rate_op list \<Rightarrow> rate_card" where
  "rate_run ops = fold rate_step ops rate_start"

section \<open>The page\<close>

record WebhookItem =
  wi_id :: string
  wi_url :: string
  wi_events :: "string list"
  wi_created_at :: rat
  wi_active :: bool
  wi_secret_hint :: string
  wi_previous_secret_hint :: "string option"
  wi_previous_secret_expires_at :: "rat option"
  wi_rotated_at :: "rat option"
  wi_paused_at :: "rat option"
  wi_resumed_at :: "rat option"
  wi_auto_disabled_at :: "rat option"
  wi_auto_disabled_reason :: "string option"
  wi_consecutive_failures :: "rat option"

record RotateResponse =
  rr_id :: string
  rr_secret :: string
  rr_previous_secret_expires_at :: "rat option"
  rr_rotated_at :: rat

record CreateResponse =
  cr_id :: string
  cr_url :: string
  cr_events :: "string list"
  cr_secret :: string
  cr_created_at :: rat

record DeliveryItem =
  di_id :: string
  di_webhook_id :: string
  di_event :: string
  di_attempt :: rat
  di_status :: rat
  di_ok :: bool
  di_elapsed_ms :: rat
  di_error :: "string option"
  di_created_at :: rat
  di_redelivery_of :: "string option"
  di_replayable :: "bool option"

text \<open>The documents, as the tasks cast the body; lists and ids may be missing.\<close>

record hook_docs =
  hd_webhooks :: "WebhookItem list option"
  hd_created :: CreateResponse
  hd_deliveries :: "DeliveryItem list option"
  hd_delivery_id :: "string option"
  hd_rotated :: RotateResponse

text \<open>A refusal carries its text and, when it is JSON, its \<open>detail\<close>.\<close>

datatype hook_reply = HookBroke string | HookDenied nat string "json option" | HookGot hook_docs

datatype hook_after = HookNoMore | EndBusy | EndTag string | EndAction string

text \<open>
  The requests under way: a reload, the log of a webhook, and the handlers up to their answer, with the
  tag of their button and what they have read from the render of their click.
\<close>

datatype hook_task =
  HReload hook_after | HCreate | HRemove bool | HPause string bool string | HLog string hook_after
| HTest string bool | HRedeliver string string | HRotate string string | HCopy bool | HUncopy bool | HClear

record hooks_page =
  wp_items :: "WebhookItem list option"
  wp_loadErr :: "string option"
  wp_busy :: bool
  wp_draftUrl :: string
  wp_createErr :: "string option"
  wp_revealed :: "CreateResponse option"
  wp_copied :: bool
  wp_selected :: "string option"
  wp_deliveries :: "DeliveryItem list option"
  wp_delivErr :: "string option"
  wp_actionBusy :: "string option"
  wp_actionMsg :: "(bool \<times> string) option"
  wp_rotateFor :: "string option"
  wp_rotateGrace :: jsnum
  wp_rotated :: "(string \<times> RotateResponse) option"
  wp_rotateCopied :: bool
  wp_alerts :: "string list"
  wp_tasks :: "hook_task list"
  wp_sent :: "request list"

definition hook_send :: "hook_task \<Rightarrow> request \<Rightarrow> hooks_page \<Rightarrow> hooks_page" where
  "hook_send t r s = s\<lparr>wp_tasks := wp_tasks s @ [t], wp_sent := wp_sent s @ [r]\<rparr>"

definition hook_request :: "string \<Rightarrow> string \<Rightarrow> json option \<Rightarrow> request" where
  "hook_request m path body =
     \<lparr>req_method = m, req_path = path,
      req_headers = (if body = None then [] else [(''Content-Type'', ''application/json'')]), req_payload = body\<rparr>"

definition hook_path :: "string \<Rightarrow> string \<Rightarrow> string" where
  "hook_path i rest = ''/api/webhooks/'' @ i @ rest"

text \<open>\<open>typeof j?.detail === "string" ? j.detail : `http ${r.status}`\<close>\<close>

definition hook_detail :: "nat \<Rightarrow> json option \<Rightarrow> string" where
  "hook_detail st body =
     (case body of Some v \<Rightarrow> (case field v ''detail'' of Some (JStr m) \<Rightarrow> m | _ \<Rightarrow> http_status st) | None \<Rightarrow> http_status st)"

section \<open>Loads\<close>

definition hook_reload :: "hook_after \<Rightarrow> hooks_page \<Rightarrow> hooks_page" where
  "hook_reload aft s = hook_send (HReload aft) (hook_request ''GET'' ''/api/webhooks'' None) (s\<lparr>wp_loadErr := None\<rparr>)"

definition reload_settle :: "hook_reply \<Rightarrow> hooks_page \<Rightarrow> hooks_page" where
  "reload_settle a s =
     (case a of
        HookBroke m \<Rightarrow> s\<lparr>wp_loadErr := Some m, wp_items := Some []\<rparr>
      | HookDenied st txt body \<Rightarrow> s\<lparr>wp_loadErr := Some (http_status st), wp_items := Some []\<rparr>
      | HookGot d \<Rightarrow> s\<lparr>wp_items := Some (nullish (hd_webhooks d) [])\<rparr>)"

text \<open>
  The end of the handler that awaited a load: the shared busy flag; the tag, if it is still shown; or
  whatever tag is shown, with the timer that takes the message away.
\<close>

definition hook_finish :: "hook_after \<Rightarrow> hooks_page \<Rightarrow> hooks_page" where
  "hook_finish aft s =
     (case aft of
        HookNoMore \<Rightarrow> s
      | EndBusy \<Rightarrow> s\<lparr>wp_busy := False\<rparr>
      | EndTag tag \<Rightarrow> (if wp_actionBusy s = Some tag then s\<lparr>wp_actionBusy := None\<rparr> else s)
      | EndAction tag \<Rightarrow> s\<lparr>wp_actionBusy := None\<rparr>)"

definition action_over :: "hooks_page \<Rightarrow> hooks_page" where
  "action_over s = s\<lparr>wp_actionBusy := None, wp_tasks := wp_tasks s @ [HClear]\<rparr>"

definition openDeliveries :: "hook_after \<Rightarrow> string \<Rightarrow> hooks_page \<Rightarrow> hooks_page" where
  "openDeliveries aft i s =
     hook_send (HLog i aft) (hook_request ''GET'' (hook_path i ''/deliveries'') None)
       (s\<lparr>wp_selected := Some i, wp_deliveries := None, wp_delivErr := None\<rparr>)"

definition log_settle :: "hook_reply \<Rightarrow> hooks_page \<Rightarrow> hooks_page" where
  "log_settle a s =
     (case a of
        HookBroke m \<Rightarrow> s\<lparr>wp_delivErr := Some m, wp_deliveries := Some []\<rparr>
      | HookDenied st txt body \<Rightarrow> s\<lparr>wp_delivErr := Some (http_status st), wp_deliveries := Some []\<rparr>
      | HookGot d \<Rightarrow> s\<lparr>wp_deliveries := Some (nullish (hd_deliveries d) [])\<rparr>)"

text \<open>A test or a redelivery awaits the log and then ends with its timer.\<close>

definition log_finish :: "hook_after \<Rightarrow> hooks_page \<Rightarrow> hooks_page" where
  "log_finish aft s = (case aft of EndAction tag \<Rightarrow> action_over s | _ \<Rightarrow> s)"

section \<open>Registering and deleting\<close>

text \<open>\<open>create\<close> reads the JSON before it looks at the status: a body that is none is a \<open>HookBroke\<close>.\<close>

definition hook_create :: "hooks_page \<Rightarrow> hooks_page" where
  "hook_create s =
     hook_send HCreate
       (hook_request ''POST'' ''/api/webhooks''
          (Some (JObj [(''url'', JStr (wp_draftUrl s)), (''events'', JArr [JStr ''match.completed''])])))
       (s\<lparr>wp_busy := True, wp_createErr := None\<rparr>)"

definition create_settle :: "hook_reply \<Rightarrow> hooks_page \<Rightarrow> hooks_page" where
  "create_settle a s =
     (case a of
        HookBroke m \<Rightarrow> s\<lparr>wp_createErr := Some m, wp_busy := False\<rparr>
      | HookDenied st txt body \<Rightarrow> s\<lparr>wp_createErr := Some (hook_detail st body), wp_busy := False\<rparr>
      | HookGot d \<Rightarrow> hook_reload EndBusy (s\<lparr>wp_revealed := Some (hd_created d), wp_draftUrl := []\<rparr>))"

definition hook_remove :: "string \<Rightarrow> bool \<Rightarrow> hooks_page \<Rightarrow> hooks_page" where
  "hook_remove i confirmed s =
     (if \<not> confirmed then s
      else hook_send (HRemove (wp_selected s = Some i)) (hook_request ''DELETE'' (hook_path i []) None) (s\<lparr>wp_busy := True\<rparr>))"

definition remove_settle :: "bool \<Rightarrow> hook_reply \<Rightarrow> hooks_page \<Rightarrow> hooks_page" where
  "remove_settle was_selected a s =
     (let failed = (\<lambda>m. s\<lparr>wp_alerts := wp_alerts s @ [''delete failed: '' @ m], wp_busy := False\<rparr>) in
      case a of
        HookBroke m \<Rightarrow> failed m
      | HookDenied st txt body \<Rightarrow> failed (http_status st)
      | HookGot d \<Rightarrow>
          hook_reload EndBusy (if was_selected then s\<lparr>wp_selected := None, wp_deliveries := None\<rparr> else s))"

section \<open>Actions\<close>

definition pause_verb :: "bool \<Rightarrow> string" where
  "pause_verb paused = (if paused then ''pause'' else ''resume'')"

definition action_tag :: "string \<Rightarrow> string \<Rightarrow> string" where
  "action_tag verb i = verb @ '':'' @ i"

definition action_begin :: "string \<Rightarrow> hooks_page \<Rightarrow> hooks_page" where
  "action_begin tag s = s\<lparr>wp_actionBusy := Some tag, wp_actionMsg := None\<rparr>"

definition hook_setPaused :: "string \<Rightarrow> bool \<Rightarrow> hooks_page \<Rightarrow> hooks_page" where
  "hook_setPaused i paused s =
     (let tag = action_tag (pause_verb paused) i in
      hook_send (HPause i paused tag) (hook_request ''POST'' (hook_path i (''/'' @ pause_verb paused)) None) (action_begin tag s))"

definition paused_text :: "bool \<Rightarrow> string" where
  "paused_text paused =
     (if paused then ''webhook paused. deliveries are suspended until you resume it.''
      else ''webhook resumed. deliveries will fire on the next matching event.'')"

definition pause_settle :: "bool \<Rightarrow> string \<Rightarrow> hook_reply \<Rightarrow> hooks_page \<Rightarrow> hooks_page" where
  "pause_settle paused tag a s =
     (let failed = (\<lambda>m. hook_finish (EndTag tag) (s\<lparr>wp_actionMsg := Some (False, pause_verb paused @ '' failed: '' @ m)\<rparr>)) in
      case a of
        HookBroke m \<Rightarrow> failed m
      | HookDenied st txt body \<Rightarrow> failed (http_status st @ (if txt \<noteq> [] then '': '' @ take 200 txt else []))
      | HookGot d \<Rightarrow> hook_reload (EndTag tag) (s\<lparr>wp_actionMsg := Some (True, paused_text paused)\<rparr>))"

text \<open>\<open>j.delivery_id?.slice(0, 8) || "ok"\<close>\<close>

definition delivery_mark :: "string option \<Rightarrow> string" where
  "delivery_mark v = (case v of None \<Rightarrow> ''ok'' | Some i \<Rightarrow> or_str (take 8 i) ''ok'')"

definition hook_sendTest :: "string \<Rightarrow> hooks_page \<Rightarrow> hooks_page" where
  "hook_sendTest i s =
     hook_send (HTest i (wp_selected s \<noteq> Some i)) (hook_request ''POST'' (hook_path i ''/test'') None)
       (action_begin (action_tag ''test'' i) s)"

definition action_failed :: "string \<Rightarrow> string \<Rightarrow> hooks_page \<Rightarrow> hooks_page" where
  "action_failed what m s = action_over (s\<lparr>wp_actionMsg := Some (False, what @ '' failed: '' @ m)\<rparr>)"

definition test_settle :: "string \<Rightarrow> bool \<Rightarrow> hook_reply \<Rightarrow> hooks_page \<Rightarrow> hooks_page" where
  "test_settle i unselected a s =
     (case a of
        HookBroke m \<Rightarrow> action_failed ''test'' m s
      | HookDenied st txt body \<Rightarrow> action_failed ''test'' (hook_detail st body) s
      | HookGot d \<Rightarrow>
          (let t = s\<lparr>wp_actionMsg := Some (True, ''test ping delivered ('' @ delivery_mark (hd_delivery_id d) @ '')'')\<rparr>
           in openDeliveries (EndAction (action_tag ''test'' i)) i (if unselected then t\<lparr>wp_selected := Some i\<rparr> else t)))"

definition hook_redeliver :: "string \<Rightarrow> string \<Rightarrow> hooks_page \<Rightarrow> hooks_page" where
  "hook_redeliver i d s =
     hook_send (HRedeliver i d) (hook_request ''POST'' (hook_path i (''/deliveries/'' @ d @ ''/redeliver'')) None)
       (action_begin (action_tag ''re'' d) s)"

definition redeliver_settle :: "string \<Rightarrow> string \<Rightarrow> hook_reply \<Rightarrow> hooks_page \<Rightarrow> hooks_page" where
  "redeliver_settle i d a s =
     (case a of
        HookBroke m \<Rightarrow> action_failed ''redeliver'' m s
      | HookDenied st txt body \<Rightarrow> action_failed ''redeliver'' (hook_detail st body) s
      | HookGot r \<Rightarrow>
          openDeliveries (EndAction (action_tag ''re'' d)) i
            (s\<lparr>wp_actionMsg := Some (True, ''redelivered ('' @ delivery_mark (hd_delivery_id r) @ '')'')\<rparr>))"

text \<open>\<open>Math.max(0, Math.floor(rotateGrace)) * 60\<close>\<close>

definition grace_seconds :: "jsnum \<Rightarrow> jsnum" where
  "grace_seconds g =
     (case g of
        Fin x \<Rightarrow> dbl (of_int (max 0 (floor x)) * 60)
      | NaN \<Rightarrow> NaN | PInf \<Rightarrow> PInf | NInf \<Rightarrow> Fin 0)"

definition hook_rotate :: "string \<Rightarrow> string \<Rightarrow> hooks_page \<Rightarrow> hooks_page" where
  "hook_rotate i url s =
     hook_send (HRotate i url)
       (hook_request ''POST'' (hook_path i ''/rotate-secret'')
          (Some (JObj [(''grace_seconds'', JNum (grace_seconds (wp_rotateGrace s)))])))
       (action_begin (action_tag ''rot'' i) s)"

definition rotate_settle :: "string \<Rightarrow> string \<Rightarrow> hook_reply \<Rightarrow> hooks_page \<Rightarrow> hooks_page" where
  "rotate_settle i url a s =
     (let failed = (\<lambda>m. s\<lparr>wp_actionMsg := Some (False, ''rotate failed: '' @ m), wp_actionBusy := None\<rparr>) in
      case a of
        HookBroke m \<Rightarrow> failed m
      | HookDenied st txt body \<Rightarrow> failed (hook_detail st body)
      | HookGot d \<Rightarrow>
          hook_reload (EndAction (action_tag ''rot'' i)) (s\<lparr>wp_rotated := Some (url, hd_rotated d), wp_rotateFor := None\<rparr>))"

text \<open>The clipboard: the created secret or, with the flag, the rotated one.\<close>

definition hook_copy :: "bool \<Rightarrow> hooks_page \<Rightarrow> hooks_page" where
  "hook_copy of_rotated s =
     (if (if of_rotated then wp_rotated s = None else wp_revealed s = None) then s
      else s\<lparr>wp_tasks := wp_tasks s @ [HCopy of_rotated]\<rparr>)"

definition copy_settle :: "bool \<Rightarrow> hook_reply \<Rightarrow> hooks_page \<Rightarrow> hooks_page" where
  "copy_settle of_rotated a s =
     (case a of
        HookGot d \<Rightarrow>
          (let t = s\<lparr>wp_tasks := wp_tasks s @ [HUncopy of_rotated]\<rparr>
           in if of_rotated then t\<lparr>wp_rotateCopied := True\<rparr> else t\<lparr>wp_copied := True\<rparr>)
      | _ \<Rightarrow> s)"

section \<open>Steps\<close>

definition hook_resume :: "hook_task \<Rightarrow> hook_reply \<Rightarrow> hooks_page \<Rightarrow> hooks_page" where
  "hook_resume t a s =
     (case t of
        HReload aft \<Rightarrow> hook_finish aft (reload_settle a s)
      | HCreate \<Rightarrow> create_settle a s
      | HRemove was_selected \<Rightarrow> remove_settle was_selected a s
      | HPause i paused tag \<Rightarrow> pause_settle paused tag a s
      | HLog i aft \<Rightarrow> log_finish aft (log_settle a s)
      | HTest i unselected \<Rightarrow> test_settle i unselected a s
      | HRedeliver i d \<Rightarrow> redeliver_settle i d a s
      | HRotate i url \<Rightarrow> rotate_settle i url a s
      | HCopy of_rotated \<Rightarrow> copy_settle of_rotated a s
      | HUncopy of_rotated \<Rightarrow> if of_rotated then s\<lparr>wp_rotateCopied := False\<rparr> else s\<lparr>wp_copied := False\<rparr>
      | HClear \<Rightarrow> s\<lparr>wp_actionMsg := None\<rparr>)"

definition hook_answer :: "nat \<Rightarrow> hook_reply \<Rightarrow> hooks_page \<Rightarrow> hooks_page" where
  "hook_answer i a s =
     (if i < length (wp_tasks s)
      then hook_resume (wp_tasks s ! i) a (s\<lparr>wp_tasks := drop_nth i (wp_tasks s)\<rparr>) else s)"

datatype hook_row_op =
  TestClick | LogClick | RotateToggle | GraceEdit string | RotateCancel | RotateConfirm | PauseClick
| RemoveClick bool | RedeliverClick string

definition replayable :: "hooks_page \<Rightarrow> string \<Rightarrow> bool" where
  "replayable s d \<longleftrightarrow>
     (case wp_deliveries s of None \<Rightarrow> False
      | Some ds \<Rightarrow> list_ex (\<lambda>x. di_id x = d \<and> di_replayable x = Some True) ds)"

fun hook_row :: "WebhookItem \<Rightarrow> hook_row_op \<Rightarrow> hooks_page \<Rightarrow> hooks_page" where
  "hook_row w TestClick s =
     (if wp_actionBusy s = Some (action_tag ''test'' (wi_id w)) then s else hook_sendTest (wi_id w) s)"
| "hook_row w LogClick s = openDeliveries HookNoMore (wi_id w) s"
| "hook_row w RotateToggle s =
     s\<lparr>wp_rotateFor := (if wp_rotateFor s = Some (wi_id w) then None else Some (wi_id w)), wp_rotateGrace := Fin 60\<rparr>"
| "hook_row w (GraceEdit v) s =
     (if wp_rotateFor s = Some (wi_id w) then s\<lparr>wp_rotateGrace := string_to_number v\<rparr> else s)"
| "hook_row w RotateCancel s = (if wp_rotateFor s = Some (wi_id w) then s\<lparr>wp_rotateFor := None\<rparr> else s)"
| "hook_row w RotateConfirm s =
     (if wp_rotateFor s = Some (wi_id w) \<and> wp_actionBusy s \<noteq> Some (action_tag ''rot'' (wi_id w))
      then hook_rotate (wi_id w) (wi_url w) s else s)"
| "hook_row w PauseClick s =
     (if wp_actionBusy s \<in> {Some (action_tag ''pause'' (wi_id w)), Some (action_tag ''resume'' (wi_id w))} then s
      else hook_setPaused (wi_id w) (wi_active w) s)"
| "hook_row w (RemoveClick confirmed) s = (if wp_busy s then s else hook_remove (wi_id w) confirmed s)"
| "hook_row w (RedeliverClick d) s =
     (if wp_selected s = Some (wi_id w) \<and> replayable s d \<and> wp_actionBusy s \<noteq> Some (action_tag ''re'' d)
      then hook_redeliver (wi_id w) d s else s)"

datatype hook_op =
  ReloadClick | UrlEdit string | CreateClick | DismissCreated | DismissRotated | CopyClick bool
| HookRow string hook_row_op | HookAnswer nat hook_reply

fun hook_step :: "hook_op \<Rightarrow> hooks_page \<Rightarrow> hooks_page" where
  "hook_step ReloadClick s = hook_reload HookNoMore s"
| "hook_step (UrlEdit u) s = s\<lparr>wp_draftUrl := u\<rparr>"
| "hook_step CreateClick s = (if wp_busy s \<or> wp_draftUrl s = [] then s else hook_create s)"
| "hook_step DismissCreated s = s\<lparr>wp_revealed := None\<rparr>"
| "hook_step DismissRotated s = s\<lparr>wp_rotated := None\<rparr>"
| "hook_step (CopyClick of_rotated) s = hook_copy of_rotated s"
| "hook_step (HookRow i op) s =
     (case find (\<lambda>w. wi_id w = i) (nullish (wp_items s) []) of None \<Rightarrow> s | Some w \<Rightarrow> hook_row w op s)"
| "hook_step (HookAnswer i a) s = hook_answer i a s"

definition hooks_start :: hooks_page where
  "hooks_start =
     hook_reload HookNoMore
       \<lparr>wp_items = None, wp_loadErr = None, wp_busy = False, wp_draftUrl = [], wp_createErr = None, wp_revealed = None,
        wp_copied = False, wp_selected = None, wp_deliveries = None, wp_delivErr = None, wp_actionBusy = None,
        wp_actionMsg = None, wp_rotateFor = None, wp_rotateGrace = Fin 60, wp_rotated = None, wp_rotateCopied = False,
        wp_alerts = [], wp_tasks = [], wp_sent = []\<rparr>"

definition hooks_run :: "hook_op list \<Rightarrow> hooks_page" where
  "hooks_run ops = fold hook_step ops hooks_start"

section \<open>What is shown\<close>

text \<open>The ellipsis of the loading text is written as three dots.\<close>

definition hook_form_view :: "hooks_page \<Rightarrow> node list" where
  "hook_form_view s =
     [Text ''register endpoint'', TextField ''https://example.com/hooks/clawhum'' (wp_draftUrl s),
      Button ''register'' (wp_busy s \<or> wp_draftUrl s = [])]
     @ error_nodes (wp_createErr s) @ [Text ''subscribed events: match.completed'']"

definition created_view :: "hooks_page \<Rightarrow> node list" where
  "created_view s =
     (case wp_revealed s of
        None \<Rightarrow> []
      | Some r \<Rightarrow>
          [Text ''signing secret (shown once)'', Text ''store this somewhere safe. you will not see it again.'',
           Text (cr_secret r), Badge (wp_copied s) ''Copy secret'', Button ''dismiss'' False])"

definition rotated_view :: "(int \<Rightarrow> int) \<Rightarrow> hooks_page \<Rightarrow> node list" where
  "rotated_view tz s =
     (case wp_rotated s of
        None \<Rightarrow> []
      | Some (url, r) \<Rightarrow>
          [Text (''new signing secret (shown once) for '' @ url),
           Text (if nullish (rr_previous_secret_expires_at r) 0 \<noteq> 0
                 then ''previous secret stays valid until '' @ hook_ts tz (the (rr_previous_secret_expires_at r) * 1000) @
                   ''. deploy this key on your receiver before then.''
                 else ''previous secret has been invalidated immediately.''),
           Text (rr_secret r), Badge (wp_rotateCopied s) ''Copy new secret'', Button ''dismiss'' False])"

text \<open>The lines under a webhook. \<open>set_ts v\<close> asks whether a time is there and not zero.\<close>

definition set_ts :: "rat option \<Rightarrow> bool" where
  "set_ts v \<longleftrightarrow> nullish v 0 \<noteq> 0"

definition hook_notes :: "(int \<Rightarrow> int) \<Rightarrow> WebhookItem \<Rightarrow> node list" where
  "hook_notes tz w =
     (if \<not> wi_active w \<and> set_ts (wi_auto_disabled_at w)
      then [Text (''auto disabled at '' @ hook_ts tz (the (wi_auto_disabled_at w) * 1000) @
              (let why = nullish (wi_auto_disabled_reason w) [] in if why \<noteq> [] then '' ('' @ why @ '')'' else []) @
              ''. resume to retry.'')]
      else [])
     @ (if \<not> wi_active w \<and> \<not> set_ts (wi_auto_disabled_at w)
        then [Text (''paused'' @ (if set_ts (wi_paused_at w) then '' at '' @ hook_ts tz (the (wi_paused_at w) * 1000) else []) @
                ''. deliveries suspended.'')]
        else [])
     @ (if wi_active w \<and> nullish (wi_consecutive_failures w) 0 \<ge> 3
        then [Text (num_to_string (the (wi_consecutive_failures w)) @ '' consecutive failures. nearing auto disable.'')]
        else [])
     @ (if nullish (wi_previous_secret_hint w) [] \<noteq> [] \<and> set_ts (wi_previous_secret_expires_at w)
        then [Text (''previous secret '' @ the (wi_previous_secret_hint w) @ '' accepted until '' @
                hook_ts tz (the (wi_previous_secret_expires_at w) * 1000))]
        else [])"

definition acting :: "hooks_page \<Rightarrow> string \<Rightarrow> string \<Rightarrow> bool" where
  "acting s verb i \<longleftrightarrow> wp_actionBusy s = Some (action_tag verb i)"

definition hook_buttons :: "hooks_page \<Rightarrow> WebhookItem \<Rightarrow> node list" where
  "hook_buttons s w =
     (let i = wi_id w; switching = acting s ''pause'' i \<or> acting s ''resume'' i in
      [Button (if acting s ''test'' i then ''sending'' else ''send test'') (acting s ''test'' i),
       Button ''deliveries'' False, Button ''rotate'' False,
       Button (if wi_active w then (if acting s ''pause'' i then ''pausing'' else ''pause'')
               else (if acting s ''resume'' i then ''resuming'' else ''resume'')) switching,
       Button ''delete'' (wp_busy s)])"

definition hook_rotate_view :: "hooks_page \<Rightarrow> WebhookItem \<Rightarrow> node list" where
  "hook_rotate_view s w =
     (if wp_rotateFor s = Some (wi_id w)
      then [Text ''rotate signing secret'', TextField ''overlap (minutes)'' (num_text (wp_rotateGrace s)), Button ''cancel'' False,
            Button (if acting s ''rot'' (wi_id w) then ''rotating'' else ''rotate secret'') (acting s ''rot'' (wi_id w))]
      else [])"

definition delivery_view :: "(int \<Rightarrow> int) \<Rightarrow> hooks_page \<Rightarrow> DeliveryItem \<Rightarrow> node list" where
  "delivery_view tz s d =
     [Text (hook_ts tz (di_created_at d * 1000)), Text (di_event d), Text (num_to_string (di_attempt d)),
      (if di_status d = 0 then Dash else Badge (di_ok d) (num_to_string (di_status d))),
      Text (num_to_string (di_elapsed_ms d) @ ''ms''), Hint (nullish (di_error d) []), Text (nullish (di_error d) [])]
     @ (if di_replayable d = Some True
        then [Button (if acting s ''re'' (di_id d) then ''sending'' else ''redeliver'') (acting s ''re'' (di_id d))]
        else let r = nullish (di_redelivery_of d) [] in
          if r \<noteq> [] then [Hint (''replay of '' @ r), Text ''replay''] else [Hint ''no stored payload'', Dash])"

definition hook_log_view :: "(int \<Rightarrow> int) \<Rightarrow> hooks_page \<Rightarrow> WebhookItem \<Rightarrow> node list" where
  "hook_log_view tz s w =
     (if wp_selected s \<noteq> Some (wi_id w) then []
      else [Text ''delivery log''] @ error_nodes (wp_delivErr s)
        @ (case wp_deliveries s of
             None \<Rightarrow> if nullish (wp_delivErr s) [] = [] then [Text ''loading...''] else []
           | Some ds \<Rightarrow>
               if ds = [] then [Text ''no deliveries yet. run a match to trigger one.'']
               else concat (map (delivery_view tz s) ds)))"

text \<open>The middle dot between the parts of a line.\<close>

definition dot :: string where
  "dot = [CHR 0x20, CHR 0xB7, CHR 0x20]"

definition hook_item_view :: "(int \<Rightarrow> int) \<Rightarrow> hooks_page \<Rightarrow> WebhookItem \<Rightarrow> node list" where
  "hook_item_view tz s w =
     [Text (wi_url w),
      Text (''id '' @ wi_id w @ dot @ ''created '' @ hook_ts tz (wi_created_at w * 1000) @ dot @ ''events '' @ join '','' (wi_events w) @
        dot @ ''secret '' @ wi_secret_hint w)]
     @ hook_notes tz w @ hook_buttons s w @ hook_rotate_view s w @ hook_log_view tz s w"

definition hooks_view :: "(int \<Rightarrow> int) \<Rightarrow> rate_card \<Rightarrow> hooks_page \<Rightarrow> node list" where
  "hooks_view tz rate s =
     [Button ''reload'' False] @ rate_view tz rate
     @ (case wp_actionMsg s of None \<Rightarrow> [] | Some (good, m) \<Rightarrow> [Badge good m])
     @ hook_form_view s @ created_view s @ rotated_view tz s
     @ [Text (''registered ('' @ (case wp_items s of None \<Rightarrow> ''0'' | Some ws \<Rightarrow> nat_digits (length ws)) @ '')'')]
     @ error_nodes (wp_loadErr s)
     @ (case wp_items s of
          None \<Rightarrow> if nullish (wp_loadErr s) [] = [] then [Skeleton 2] else []
        | Some ws \<Rightarrow>
            if ws = [] then (if nullish (wp_loadErr s) [] = []
              then [Text ''no webhooks yet. register one above to start receiving events.''] else [])
            else concat (map (hook_item_view tz s) ws))"

end
