(* ===== verification/WebhookLaws.thy ===== *)
theory WebhookLaws
  imports WebhooksPage Whole
begin

text \<open>
  The laws of the webhooks page: its requests and flags, what the rate card sends, and whose log is shown.
\<close>

section \<open>The shared busy flag\<close>

fun changes :: "hook_task \<Rightarrow> unit option" where
  "changes HCreate = Some ()"
| "changes (HRemove was_selected) = Some ()"
| "changes (HReload EndBusy) = Some ()"
| "changes _ = None"

lemma hook_send_simps [simp]:
  "wp_tasks (hook_send t r s) = wp_tasks s @ [t]" "wp_sent (hook_send t r s) = wp_sent s @ [r]"
  "wp_busy (hook_send t r s) = wp_busy s" "wp_actionBusy (hook_send t r s) = wp_actionBusy s"
  "wp_items (hook_send t r s) = wp_items s" "wp_loadErr (hook_send t r s) = wp_loadErr s"
  "wp_selected (hook_send t r s) = wp_selected s" "wp_deliveries (hook_send t r s) = wp_deliveries s"
  "wp_delivErr (hook_send t r s) = wp_delivErr s"
  by (simp_all add: hook_send_def)

lemmas hook_defs =
  hook_reload_def openDeliveries_def hook_create_def hook_remove_def hook_setPaused_def hook_sendTest_def
  hook_redeliver_def hook_rotate_def hook_copy_def action_begin_def

lemmas settle_defs =
  reload_settle_def hook_finish_def action_over_def log_settle_def log_finish_def create_settle_def remove_settle_def
  pause_settle_def action_failed_def test_settle_def redeliver_settle_def rotate_settle_def copy_settle_def

lemma hook_row_moves:
  "flight_move (wp_busy s) (under_way changes u (wp_tasks s)) (wp_busy (hook_row w op s)) (under_way changes u (wp_tasks (hook_row w op s)))"
  by (cases op; cases u) (simp_all add: flight_move_def hook_defs Let_def)

lemma hook_resume_moves:
  "flight_move (wp_busy s) (under_way changes u (wp_tasks s) + (if changes t = Some u then 1 else 0))
     (wp_busy (hook_resume t a s)) (under_way changes u (wp_tasks (hook_resume t a s)))"
proof (cases t)
  case (HReload aft)
  then show ?thesis by (cases aft; cases a; cases u) (simp_all add: hook_resume_def flight_move_def settle_defs)
next
  case (HLog i aft)
  then show ?thesis by (cases aft; cases a; cases u) (simp_all add: hook_resume_def flight_move_def settle_defs)
qed (cases u; cases a; simp add: hook_resume_def flight_move_def settle_defs hook_defs Let_def)+

lemma hook_answer_cases:
  "i < length (wp_tasks s) \<Longrightarrow> hook_answer i a s = hook_resume (wp_tasks s ! i) a (s\<lparr>wp_tasks := drop_nth i (wp_tasks s)\<rparr>)"
  "\<not> i < length (wp_tasks s) \<Longrightarrow> hook_answer i a s = s"
  by (simp_all add: hook_answer_def)

lemma hook_row_cases:
  "hook_step (HookRow i op) s = s \<or> (\<exists>w. hook_step (HookRow i op) s = hook_row w op s \<and> wi_id w = i)"
  by (auto simp: find_Some_iff split: option.split)

lemma hook_moves:
  "flight_move (wp_busy s) (under_way changes u (wp_tasks s)) (wp_busy (hook_step op s)) (under_way changes u (wp_tasks (hook_step op s)))"
proof (cases op)
  case (HookRow i rop)
  consider "hook_step (HookRow i rop) s = s" | w where "hook_step (HookRow i rop) s = hook_row w rop s"
    using hook_row_cases [of i rop s] by blast
  then show ?thesis by cases (simp_all only: HookRow hook_row_moves, simp add: flight_move_def)
next
  case (HookAnswer i a)
  show ?thesis
  proof (cases "i < length (wp_tasks s)")
    case True
    then show ?thesis
      using HookAnswer hook_resume_moves [of "s\<lparr>wp_tasks := drop_nth i (wp_tasks s)\<rparr>" u "wp_tasks s ! i" a]
      by (simp add: hook_answer_cases under_way_drop [OF True, of changes])
  qed (use HookAnswer in \<open>simp add: hook_answer_cases flight_move_def\<close>)
qed (cases u; simp add: flight_move_def hook_defs)+

interpretation hook_changes: flights hook_step hooks_start wp_tasks changes "\<lambda>_. wp_busy" "\<lambda>_. True" "\<lambda>_. True"
  by unfold_locales (simp_all add: hook_moves, simp add: hooks_start_def hook_reload_def)

section \<open>The busy buttons\<close>

fun tag_of :: "hook_task \<Rightarrow> string option" where
  "tag_of (HPause i paused tag) = Some tag"
| "tag_of (HTest i unselected) = Some (action_tag ''test'' i)"
| "tag_of (HRedeliver i d) = Some (action_tag ''re'' d)"
| "tag_of (HRotate i url) = Some (action_tag ''rot'' i)"
| "tag_of (HReload (EndTag tag)) = Some tag"
| "tag_of (HReload (EndAction tag)) = Some tag"
| "tag_of (HLog i (EndAction tag)) = Some tag"
| "tag_of _ = None"

definition shows_tag :: "string \<Rightarrow> hooks_page \<Rightarrow> bool" where
  "shows_tag tag s \<longleftrightarrow> wp_actionBusy s = Some tag"

definition tag_move :: "bool \<Rightarrow> nat \<Rightarrow> bool \<Rightarrow> nat \<Rightarrow> bool" where
  "tag_move f n f' n' \<longleftrightarrow> (f' \<longrightarrow> n' \<noteq> 0 \<or> f \<and> n' = n)"

lemma hook_row_tags:
  "tag_move (shows_tag tag s) (under_way tag_of tag (wp_tasks s)) (shows_tag tag (hook_row w op s))
     (under_way tag_of tag (wp_tasks (hook_row w op s)))"
  by (cases op) (simp_all add: tag_move_def shows_tag_def hook_defs Let_def)

lemma hook_resume_tags:
  "tag_move (shows_tag tag s) (under_way tag_of tag (wp_tasks s) + (if tag_of t = Some tag then 1 else 0))
     (shows_tag tag (hook_resume t a s)) (under_way tag_of tag (wp_tasks (hook_resume t a s)))"
proof (cases t)
  case (HReload aft)
  then show ?thesis by (cases aft; cases a) (simp_all add: hook_resume_def tag_move_def shows_tag_def settle_defs)
next
  case (HLog i aft)
  then show ?thesis by (cases aft; cases a) (simp_all add: hook_resume_def tag_move_def shows_tag_def settle_defs)
qed (cases a; simp add: hook_resume_def tag_move_def shows_tag_def settle_defs hook_defs Let_def)+

lemma hook_tags:
  "tag_move (shows_tag tag s) (under_way tag_of tag (wp_tasks s)) (shows_tag tag (hook_step op s))
     (under_way tag_of tag (wp_tasks (hook_step op s)))"
proof (cases op)
  case (HookRow i rop)
  consider "hook_step (HookRow i rop) s = s" | w where "hook_step (HookRow i rop) s = hook_row w rop s"
    using hook_row_cases [of i rop s] by blast
  then show ?thesis by cases (simp_all only: HookRow hook_row_tags, simp add: tag_move_def)
next
  case (HookAnswer i a)
  show ?thesis
  proof (cases "i < length (wp_tasks s)")
    case True
    have "shows_tag tag (s\<lparr>wp_tasks := ts\<rparr>) = shows_tag tag s" for ts by (simp add: shows_tag_def)
    then show ?thesis
      using True HookAnswer hook_resume_tags [of tag "s\<lparr>wp_tasks := drop_nth i (wp_tasks s)\<rparr>" "wp_tasks s ! i" a]
      by (simp add: hook_answer_cases under_way_drop [OF True, of tag_of])
  qed (use HookAnswer in \<open>simp add: hook_answer_cases tag_move_def\<close>)
qed (simp add: tag_move_def shows_tag_def hook_defs)+

interpretation hook_actions: backed hook_step hooks_start wp_tasks tag_of shows_tag "\<lambda>_. True" "\<lambda>_. True"
proof unfold_locales
  fix s op tag
  show "shows_tag tag (hook_step op s) \<Longrightarrow> under_way tag_of tag (wp_tasks (hook_step op s)) \<noteq> 0 \<or>
      shows_tag tag s \<and> under_way tag_of tag (wp_tasks (hook_step op s)) = under_way tag_of tag (wp_tasks s)"
    using hook_tags [of tag s op] by (simp add: tag_move_def)
qed (simp_all add: shows_tag_def hooks_start_def hook_reload_def)

section \<open>Coming to rest\<close>

fun hook_weight :: "hook_task \<Rightarrow> nat" where
  "hook_weight HCreate = 2"
| "hook_weight (HRemove was_selected) = 2"
| "hook_weight (HPause i paused tag) = 2"
| "hook_weight (HLog i aft) = 2"
| "hook_weight (HTest i unselected) = 3"
| "hook_weight (HRedeliver i d) = 3"
| "hook_weight (HRotate i url) = 2"
| "hook_weight (HCopy of_rotated) = 2"
| "hook_weight _ = 1"

lemma hook_resume_weight: "workload hook_weight (wp_tasks (hook_resume t a s)) < workload hook_weight (wp_tasks s) + hook_weight t"
proof (cases t)
  case (HReload aft)
  then show ?thesis by (cases aft; cases a) (simp_all add: hook_resume_def settle_defs)
next
  case (HLog i aft)
  then show ?thesis by (cases aft; cases a) (simp_all add: hook_resume_def settle_defs)
qed (cases a; simp add: hook_resume_def settle_defs hook_defs Let_def)+

interpretation hook_drain: draining "hook_answer 0" wp_tasks hook_weight
proof unfold_locales
  show "0 < hook_weight t" for t by (cases t) simp_all
  fix s :: hooks_page and a
  assume "wp_tasks s \<noteq> []"
  then obtain t ts where "wp_tasks s = t # ts" by (cases "wp_tasks s") auto
  then show "workload hook_weight (wp_tasks (hook_answer 0 a s)) < workload hook_weight (wp_tasks s)"
    using hook_resume_weight [of t a "s\<lparr>wp_tasks := ts\<rparr>"] by (simp add: hook_answer_def drop_nth_def)
qed (simp add: hook_answer_def)

lemma hooks_run_answers: "fold (hook_answer 0) as (hooks_run ops) = hooks_run (ops @ map (HookAnswer 0) as)"
proof -
  have "fold (hook_answer 0) as s = fold hook_step (map (HookAnswer 0) as) s" for s
    by (induction as arbitrary: s) simp_all
  then show ?thesis by (simp add: hooks_run_def)
qed

text \<open>
  On the webhooks page a registration and a deletion never overlap: over every run at most one of them is
  under way, its reload included, exactly while the page is busy. A button that reads "sending",
  "pausing" or "rotating" has a request of its own under way. And the page comes to rest: once the
  requests are answered, one after the other and whatever the answers, no flag and no tag is left.
\<close>

theorem hooks_settle:
  "under_way changes () (wp_tasks (hooks_run ops)) = (if wp_busy (hooks_run ops) then 1 else 0) \<and>
   (wp_actionBusy (hooks_run ops) = Some tag \<longrightarrow> under_way tag_of tag (wp_tasks (hooks_run ops)) \<noteq> 0) \<and>
   (workload hook_weight (wp_tasks (hooks_run ops)) \<le> length as \<longrightarrow>
     (let t = fold (hook_answer 0) as (hooks_run ops) in wp_tasks t = [] \<and> \<not> wp_busy t \<and> wp_actionBusy t = None))"
proof (intro conjI impI)
  have all: "list_all (\<lambda>_. True) ops" for ops :: "hook_op list" by (simp add: list_all_iff)
  show "under_way changes () (wp_tasks (hooks_run ops)) = (if wp_busy (hooks_run ops) then 1 else 0)"
    unfolding hooks_run_def using hook_changes.one_flight [OF all] .
  show "under_way tag_of tag (wp_tasks (hooks_run ops)) \<noteq> 0" if "wp_actionBusy (hooks_run ops) = Some tag"
    using hook_actions.run_backed [OF all, of tag ops] that by (simp add: shows_tag_def hooks_run_def)
  assume "workload hook_weight (wp_tasks (hooks_run ops)) \<le> length as"
  then have empty: "wp_tasks (fold (hook_answer 0) as (hooks_run ops)) = []" by (rule hook_drain.drained)
  let ?t = "hooks_run (ops @ map (HookAnswer 0) as)"
  have rest: "wp_tasks ?t = []" using empty by (simp add: hooks_run_answers)
  have "\<not> wp_busy ?t" using hook_changes.at_rest [OF all] rest unfolding hooks_run_def by blast
  moreover have "\<not> shows_tag tag ?t" for tag using hook_actions.at_rest [OF all] rest unfolding hooks_run_def by blast
  ultimately show "let t = fold (hook_answer 0) as (hooks_run ops) in wp_tasks t = [] \<and> \<not> wp_busy t \<and> wp_actionBusy t = None"
    using rest by (auto simp: hooks_run_answers shows_tag_def)
qed

theorem hooks_settle_witness:
  "let t = fold (hook_answer 0) [HookDenied 401 [] None] (hooks_run []) in
     wp_tasks t = [] \<and> \<not> wp_busy t \<and> wp_actionBusy t = None"
proof -
  have "workload hook_weight (wp_tasks (hooks_run [])) \<le> length [HookDenied 401 [] None]"
    by (simp add: hooks_run_def hooks_start_def hook_reload_def)
  then show ?thesis using hooks_settle [of "[]" _ "[HookDenied 401 [] None]"] by blast
qed

section \<open>The delivery rate\<close>

lemma rate_check_sound: "rate_check ceil draft = Inr n \<Longrightarrow> natural n \<and> n \<le> ceil \<and> parse_int draft = Fin n"
  using parse_int_whole [of draft] by (auto simp: rate_check_def natural_def split: jsnum.splits if_splits)

definition rate_body :: "rat \<Rightarrow> json" where
  "rate_body n = JObj [(''max_per_minute'', JNum (Fin n))]"

lemma rate_answer_sent: "rc_sent (rate_answer i a s) = rc_sent s"
  by (cases a; cases "rc_tasks s ! i")
    (simp_all add: rate_answer_def rate_load_land_def rate_save_land_def rate_adopt_def Let_def)

lemma rate_step_sent:
  "rc_sent (rate_step op s) = rc_sent s \<or>
   (\<exists>d n. op = RateClick \<and> \<not> rc_busy s \<and> rc_state s = Some d \<and> natural n \<and> n \<le> dr_ceiling d \<and>
      parse_int (rc_draft s) = Fin n \<and> rc_sent (rate_step op s) = rc_sent s @ [rate_body n])"
proof (cases op)
  case RateClick
  show ?thesis
  proof (cases "rate_shown s \<and> \<not> rate_disabled s")
    case True
    then obtain d where d: "rc_state s = Some d" "\<not> rc_busy s" by (auto simp: rate_disabled_def)
    show ?thesis
    proof (cases "rate_check (dr_ceiling d) (rc_draft s)")
      case (Inr n)
      then show ?thesis using True RateClick d rate_check_sound [OF Inr] by (simp add: rate_save_def rate_body_def)
    qed (use True RateClick d in \<open>simp add: rate_save_def\<close>)
  qed (use RateClick in auto)
qed (simp_all add: rate_answer_sent)

lemma rate_moves:
  "flight_move (rc_busy s) (under_way (\<lambda>t. if t = RateSave then Some () else None) u (rc_tasks s))
     (rc_busy (rate_step op s)) (under_way (\<lambda>t. if t = RateSave then Some () else None) u (rc_tasks (rate_step op s)))"
proof (cases op)
  case (RateAnswer i a)
  show ?thesis
  proof (cases "i < length (rc_tasks s)")
    case True
    then show ?thesis using RateAnswer under_way_drop [OF True, of "\<lambda>t. if t = RateSave then Some () else None" u]
      by (cases "rc_tasks s ! i"; cases a)
        (simp_all add: rate_answer_def rate_load_land_def rate_save_land_def rate_adopt_def flight_move_def Let_def)
  qed (use RateAnswer in \<open>simp add: rate_answer_def flight_move_def\<close>)
next
  case RateClick
  then show ?thesis by (cases u) (auto simp: flight_move_def rate_save_def rate_disabled_def split: option.split sum.split)
qed (simp add: flight_move_def)

interpretation rate_saves: flights rate_step rate_start rc_tasks "\<lambda>t. if t = RateSave then Some () else None"
  "\<lambda>_. rc_busy" "\<lambda>_. True" "\<lambda>_. True"
  by unfold_locales (simp_all add: rate_moves, simp add: rate_start_def)

text \<open>
  The card of the delivery rate sends only what its checks admit: over every run, every saved limit is a
  whole number from 0 to the ceiling that the card held when its button was pressed, namely the number
  the field then read as, and it was sent while no other save was under way. At most one save is under
  way at any time, exactly while the button reads "saving".
\<close>

theorem rate_saves_checked:
  "(\<forall>body\<in>set (rc_sent (rate_run ops)).
      \<exists>pre post d n. ops = pre @ RateClick # post \<and> rc_state (rate_run pre) = Some d \<and> body = rate_body n \<and>
        natural n \<and> n \<le> dr_ceiling d \<and> parse_int (rc_draft (rate_run pre)) = Fin n \<and> \<not> rc_busy (rate_run pre)) \<and>
   length (filter (\<lambda>t. t = RateSave) (rc_tasks (rate_run ops))) = (if rc_busy (rate_run ops) then 1 else 0)"
proof
  show "\<forall>body\<in>set (rc_sent (rate_run ops)).
      \<exists>pre post d n. ops = pre @ RateClick # post \<and> rc_state (rate_run pre) = Some d \<and> body = rate_body n \<and>
        natural n \<and> n \<le> dr_ceiling d \<and> parse_int (rc_draft (rate_run pre)) = Fin n \<and> \<not> rc_busy (rate_run pre)"
  proof (induction ops rule: rev_induct)
    case Nil
    show ?case by (simp add: rate_run_def rate_start_def)
  next
    case (snoc op ops)
    have run: "rate_run (ops @ [op]) = rate_step op (rate_run ops)" by (simp add: rate_run_def)
    show ?case
    proof
      fix body
      assume "body \<in> set (rc_sent (rate_run (ops @ [op])))"
      then consider "body \<in> set (rc_sent (rate_run ops))"
        | d n where "op = RateClick" "\<not> rc_busy (rate_run ops)" "rc_state (rate_run ops) = Some d" "natural n"
          "n \<le> dr_ceiling d" "parse_int (rc_draft (rate_run ops)) = Fin n" "body = rate_body n"
        using rate_step_sent [of op "rate_run ops"] by (auto simp: run)
      then show "\<exists>pre post d n. ops @ [op] = pre @ RateClick # post \<and> rc_state (rate_run pre) = Some d \<and> body = rate_body n \<and>
          natural n \<and> n \<le> dr_ceiling d \<and> parse_int (rc_draft (rate_run pre)) = Fin n \<and> \<not> rc_busy (rate_run pre)"
      proof cases
        case 1
        then obtain pre post d n where "ops = pre @ RateClick # post" "rc_state (rate_run pre) = Some d" "body = rate_body n"
          "natural n" "n \<le> dr_ceiling d" "parse_int (rc_draft (rate_run pre)) = Fin n" "\<not> rc_busy (rate_run pre)"
          using snoc.IH by blast
        then show ?thesis
          by (intro exI [of _ pre] exI [of _ "post @ [op]"] exI [of _ d] exI [of _ n]) simp
      next
        case 2
        then show ?thesis by (intro exI [of _ ops] exI [of _ "[]"] exI [of _ d] exI [of _ n]) simp
      qed
    qed
  qed
  have "list_all (\<lambda>_. True) ops" by (simp add: list_all_iff)
  from rate_saves.one_flight [OF this, of "()"]
  show "length (filter (\<lambda>t. t = RateSave) (rc_tasks (rate_run ops))) = (if rc_busy (rate_run ops) then 1 else 0)"
    unfolding rate_run_def under_way_def
    by (simp only: if_distrib [of "\<lambda>v. v = Some ()"] option.distinct option.inject simp_thms if_bool_eq_conj cong: if_cong)
qed

text \<open>A card whose limit is changed from 10 to 25.\<close>

definition sample_rate :: DeliveryRateState where
  "sample_rate = \<lparr>dr_max_per_minute = 10, dr_ceiling = 100, dr_active_hook_count = 1, dr_updated_at = 0, dr_updated_by = []\<rparr>"

abbreviation sample_rate_ops :: "rate_op list" where
  "sample_rate_ops \<equiv> [RateAnswer 0 (RateGot sample_rate), RateDraft ''25'', RateClick]"

theorem rate_saves_checked_witness:
  "\<exists>pre post. sample_rate_ops = pre @ RateClick # post \<and> rc_state (rate_run pre) = Some sample_rate \<and> natural (25::rat)"
proof -
  have ten: "num_to_string 10 = ''10''"
  proof -
    have "num_to_string (of_nat 10) = nat_digits 10" by (rule num_to_string_nat) simp
    moreover have "nat_digits 10 = ''10''" by code_simp
    ultimately show ?thesis by simp
  qed
  have p: "parse_int ''25'' = Fin 25"
  proof -
    have "parse_int (nat_digits 25) = Fin (of_nat 25)" by (rule parse_int_nat_digits) simp
    moreover have "nat_digits 25 = ''25''" by code_simp
    ultimately show ?thesis by simp
  qed
  have "rc_sent (rate_run sample_rate_ops) = [rate_body 25]"
    by (simp add: rate_run_def rate_start_def rate_answer_def rate_load_land_def rate_adopt_def drop_nth_def rate_shown_def
        rate_disabled_def rate_save_def rate_check_def rate_body_def sample_rate_def ten p)
  then obtain pre post d n where "sample_rate_ops = pre @ RateClick # post" "rc_state (rate_run pre) = Some d"
      "rate_body 25 = rate_body n" "natural n"
    using rate_saves_checked [of sample_rate_ops] by (metis list.set_intros(1))
  moreover have "pre = [RateAnswer 0 (RateGot sample_rate), RateDraft ''25'']"
    using calculation(1) by (auto simp: Cons_eq_append_conv)
  moreover have "rc_state (rate_run [RateAnswer 0 (RateGot sample_rate), RateDraft ''25'']) = Some sample_rate"
    by (simp add: rate_run_def rate_start_def rate_answer_def rate_load_land_def rate_adopt_def drop_nth_def rate_shown_def)
  ultimately have "rc_state (rate_run pre) = Some sample_rate" "natural (25::rat)" by (simp_all add: rate_body_def)
  with \<open>sample_rate_ops = pre @ RateClick # post\<close> show ?thesis by blast
qed

end
