(* ===== verification/AuditPage.thy ===== *)
theory AuditPage
  imports Requests HistoryPage
begin

text \<open>
  \<open>web/app/settings/audit/page.tsx\<close>: the audit log with its filters, paging, export and chain check. A
  load starts whenever a filter, the offset or the key of the render has changed; \<open>date_ms\<close> is what the
  host makes of the text of a local date field, in milliseconds.
\<close>

section \<open>Data\<close>

record AuditEvent =
  ae_ts :: rat
  ae_actor :: string
  ae_api_key_name :: "string option"
  ae_pat_id :: "string option"
  ae_session_id :: "string option"
  ae_tenant_id :: "string option"
  ae_roles :: "string list"
  ae_method :: string
  ae_path :: string
  ae_status :: rat
  ae_request_id :: "string option"
  ae_trace_id :: "string option"
  ae_client_ip :: "string option"
  ae_user_agent :: "string option"
  ae_duration_ms :: "rat option"
  ae_dry_run :: bool

record ListResp =
  lr_items :: "AuditEvent list"
  lr_total :: int
  lr_limit :: int
  lr_offset :: int
  lr_truncated :: bool

record ChainFile =
  cf_path :: string
  cf_entries :: rat
  cf_valid :: rat
  cf_ok :: bool
  cf_first_bad_line :: "rat option"
  cf_reason :: "string option"
  cf_head_prev_hash :: "string option"
  cf_tail_entry_hash :: "string option"

record VerifyResp =
  vr_ok :: bool
  vr_files :: "ChainFile list"

datatype audit_state = AuditIdle | AuditLoading | AuditReady ListResp | AuditError nat string

datatype chain_state = ChainIdle | ChainLoading | ChainOk VerifyResp rat | ChainError nat string

definition PAGE_SIZE :: int where
  "PAGE_SIZE = 50"

definition METHODS :: "string list" where
  "METHODS = [[], ''POST'', ''PUT'', ''PATCH'', ''DELETE'']"

definition DRY_RUN_OPTIONS :: "(string \<times> string) list" where
  "DRY_RUN_OPTIONS = [(''any'', ''any''), (''only'', ''dry-run only''), (''exclude'', ''exclude dry-run'')]"

record audit_filters =
  af_q :: string
  af_actor :: string
  af_method :: string
  af_pathPrefix :: string
  af_statusMin :: string
  af_statusMax :: string
  af_since :: string
  af_until :: string
  af_dryRun :: string
  af_patId :: string
  af_sessionId :: string

definition no_filters :: audit_filters where
  "no_filters =
     \<lparr>af_q = [], af_actor = [], af_method = [], af_pathPrefix = [], af_statusMin = [], af_statusMax = [], af_since = [],
      af_until = [], af_dryRun = ''any'', af_patId = [], af_sessionId = []\<rparr>"

section \<open>Queries\<close>

text \<open>\<open>params.set(k, v)\<close> on parameters with distinct names, and \<open>if (v) params.set(k, v)\<close>.\<close>

definition param_set :: "string \<Rightarrow> string \<Rightarrow> query \<Rightarrow> query" where
  "param_set k v qs = AList.update k v qs"

definition param_if :: "string \<Rightarrow> string \<Rightarrow> query \<Rightarrow> query" where
  "param_if k v qs = (if v \<noteq> [] then param_set k v qs else qs)"

text \<open>\<open>Math.floor(new Date(text).getTime() / 1000)\<close>; \<^const>\<open>None\<close> for no date, which is not above zero.\<close>

definition unix_seconds :: "(string \<Rightarrow> jsnum) \<Rightarrow> string \<Rightarrow> int option" where
  "unix_seconds date_ms v = (case date_ms v of Fin ms \<Rightarrow> Some (floor (ms / 1000)) | _ \<Rightarrow> None)"

text \<open>
  \<open>buildQuery(extra)\<close>, which the page calls without extras, and the query of \<open>exportAs\<close>: the source
  writes the parameters of the filters out in both places, and so does the model.
\<close>

definition buildQuery :: "(string \<Rightarrow> jsnum) \<Rightarrow> query \<Rightarrow> audit_filters \<Rightarrow> int \<Rightarrow> query" where
  "buildQuery date_ms extra f offset =
     (let p = [];
      p = param_if ''q'' (af_q f) p;
      p = param_if ''actor'' (af_actor f) p;
      p = param_if ''method'' (af_method f) p;
      p = param_if ''path'' (af_pathPrefix f) p;
      p = param_if ''status_min'' (af_statusMin f) p;
      p = param_if ''status_max'' (af_statusMax f) p;
      p = (if af_since f \<noteq> []
           then (case unix_seconds date_ms (af_since f) of
                   Some s \<Rightarrow> if s > 0 then param_set ''since'' (int_to_string s) p else p
                 | None \<Rightarrow> p)
           else p);
      p = (if af_until f \<noteq> []
           then (case unix_seconds date_ms (af_until f) of
                   Some s \<Rightarrow> if s > 0 then param_set ''until'' (int_to_string s) p else p
                 | None \<Rightarrow> p)
           else p);
      p = (if af_dryRun f \<noteq> [] \<and> af_dryRun f \<noteq> ''any'' then param_set ''dry_run'' (af_dryRun f) p else p);
      p = param_if ''pat_id'' (af_patId f) p;
      p = param_if ''session_id'' (af_sessionId f) p;
      p = param_set ''limit'' (int_to_string PAGE_SIZE) p;
      p = param_set ''offset'' (int_to_string offset) p
      in fold (\<lambda>(k, v). param_set k v) extra p)"

definition exportQuery :: "(string \<Rightarrow> jsnum) \<Rightarrow> audit_filters \<Rightarrow> string \<Rightarrow> query" where
  "exportQuery date_ms f format =
     (let p = [];
      p = param_if ''q'' (af_q f) p;
      p = param_if ''actor'' (af_actor f) p;
      p = param_if ''method'' (af_method f) p;
      p = param_if ''path'' (af_pathPrefix f) p;
      p = param_if ''status_min'' (af_statusMin f) p;
      p = param_if ''status_max'' (af_statusMax f) p;
      p = (if af_since f \<noteq> []
           then (case unix_seconds date_ms (af_since f) of
                   Some s \<Rightarrow> if s > 0 then param_set ''since'' (int_to_string s) p else p
                 | None \<Rightarrow> p)
           else p);
      p = (if af_until f \<noteq> []
           then (case unix_seconds date_ms (af_until f) of
                   Some s \<Rightarrow> if s > 0 then param_set ''until'' (int_to_string s) p else p
                 | None \<Rightarrow> p)
           else p);
      p = (if af_dryRun f \<noteq> [] \<and> af_dryRun f \<noteq> ''any'' then param_set ''dry_run'' (af_dryRun f) p else p);
      p = param_if ''pat_id'' (af_patId f) p;
      p = param_if ''session_id'' (af_sessionId f) p
      in param_set ''format'' format p)"

section \<open>State\<close>

text \<open>A load carries the query it was sent with.\<close>

datatype audit_task = ALoad query | AVerify | AExport string

record audit_docs =
  ad_list :: ListResp
  ad_verify :: VerifyResp
  ad_disposition :: "string option"
  ad_blob :: string

type_synonym audit_reply = "audit_docs Requests.reply"

record audit_page =
  ap_key :: string
  ap_state :: audit_state
  ap_filters :: audit_filters
  ap_offset :: int
  ap_chain :: chain_state
  ap_tasks :: "audit_task list"
  ap_sent :: "request list"
  ap_alerts :: "string list"
  ap_downloads :: "(string \<times> string) list"

definition audit_request :: "string \<Rightarrow> string \<Rightarrow> request" where
  "audit_request k path =
     \<lparr>req_method = ''GET'', req_path = path, req_headers = (if k \<noteq> [] then [(''X-API-Key'', k)] else []), req_payload = None\<rparr>"

definition audit_send :: "audit_task \<Rightarrow> string \<Rightarrow> audit_page \<Rightarrow> audit_page" where
  "audit_send t path s = s\<lparr>ap_tasks := ap_tasks s @ [t], ap_sent := ap_sent s @ [audit_request (ap_key s) path]\<rparr>"

definition current_query :: "(string \<Rightarrow> jsnum) \<Rightarrow> audit_page \<Rightarrow> query" where
  "current_query date_ms s = buildQuery date_ms [] (ap_filters s) (ap_offset s)"

section \<open>Loading\<close>

definition audit_load :: "(string \<Rightarrow> jsnum) \<Rightarrow> audit_page \<Rightarrow> audit_page" where
  "audit_load date_ms s =
     (if ap_key s = []
      then s\<lparr>ap_state := AuditError 401 ''missing api key. set one on /settings first.''\<rparr>
      else audit_send (ALoad (current_query date_ms s)) (''/api/audit'' @ form_query (current_query date_ms s))
             (s\<lparr>ap_state := AuditLoading\<rparr>))"

definition load_state :: "audit_reply \<Rightarrow> audit_state" where
  "load_state a =
     (case a of
        Broke m \<Rightarrow> AuditError 0 m
      | Denied st body statusText \<Rightarrow>
          if st = 403
          then AuditError 403 ''admin role required to view the audit log. ask your workspace owner.''
          else AuditError st (or_str (nullish body []) statusText)
      | Got d \<Rightarrow> AuditReady (ad_list d))"

definition load_land :: "audit_reply \<Rightarrow> audit_page \<Rightarrow> audit_page" where
  "load_land a s = s\<lparr>ap_state := load_state a\<rparr>"

text \<open>A render in which the key, a filter or the offset is another runs the effect that loads.\<close>

definition audit_deps :: "audit_page \<Rightarrow> string \<times> audit_filters \<times> int" where
  "audit_deps s = (ap_key s, ap_filters s, ap_offset s)"

definition rerender :: "(string \<Rightarrow> jsnum) \<Rightarrow> audit_page \<Rightarrow> audit_page \<Rightarrow> audit_page" where
  "rerender date_ms old new = (if audit_deps new = audit_deps old then new else audit_load date_ms new)"

text \<open>
  The search button goes to the first page and loads with the query of the render it was clicked in; the
  other offset then loads once more.
\<close>

definition audit_submit :: "(string \<Rightarrow> jsnum) \<Rightarrow> audit_page \<Rightarrow> audit_page" where
  "audit_submit date_ms s = rerender date_ms s ((audit_load date_ms s)\<lparr>ap_offset := 0\<rparr>)"

section \<open>The hash chain\<close>

definition verify_begin :: "audit_page \<Rightarrow> audit_page" where
  "verify_begin s = audit_send AVerify ''/api/audit/verify'' (s\<lparr>ap_chain := ChainLoading\<rparr>)"

definition verify_land :: "rat \<Rightarrow> audit_reply \<Rightarrow> audit_page \<Rightarrow> audit_page" where
  "verify_land now a s =
     s\<lparr>ap_chain :=
        (case a of
           Broke m \<Rightarrow> ChainError 0 m
         | Denied st body statusText \<Rightarrow> ChainError st (or_str (nullish body []) statusText)
         | Got d \<Rightarrow> ChainOk (ad_verify d) now)\<rparr>"

section \<open>Exports\<close>

definition filename_mark :: string where
  "filename_mark = ''filename='' @ [CHR 0x22]"

text \<open>\<open>dispo.match(/filename="([^"]+)"/)\<close>: the first place where the pattern fits.\<close>

fun filename_match :: "string \<Rightarrow> string option" where
  "filename_match [] = None"
| "filename_match (c # cs) =
     (let r = drop (length filename_mark) (c # cs); name = takeWhile (\<lambda>x. x \<noteq> CHR 0x22) r in
      if prefix filename_mark (c # cs) \<and> name \<noteq> [] \<and> length name < length r then Some name
      else filename_match cs)"

definition export_name :: "string \<Rightarrow> string option \<Rightarrow> string" where
  "export_name format disposition =
     (case filename_match (nullish disposition []) of Some name \<Rightarrow> name | None \<Rightarrow> ''clawhum-audit.'' @ format)"

definition export_begin :: "(string \<Rightarrow> jsnum) \<Rightarrow> string \<Rightarrow> audit_page \<Rightarrow> audit_page" where
  "export_begin date_ms format s =
     audit_send (AExport format) (''/api/audit/export'' @ form_query (exportQuery date_ms (ap_filters s) format)) s"

definition export_land :: "string \<Rightarrow> audit_reply \<Rightarrow> audit_page \<Rightarrow> audit_page" where
  "export_land format a s =
     (let alert = (\<lambda>m. s\<lparr>ap_alerts := ap_alerts s @ [''export failed: '' @ m]\<rparr>) in
      case a of
        Broke m \<Rightarrow> alert m
      | Denied st body statusText \<Rightarrow> alert (nat_digits st @ '' '' @ or_str (nullish body []) statusText)
      | Got d \<Rightarrow> s\<lparr>ap_downloads := ap_downloads s @ [(export_name format (ad_disposition d), ad_blob d)]\<rparr>)"

section \<open>Steps\<close>

datatype audit_field = FQ | FActor | FMethod | FPath | FStatusMin | FStatusMax | FSince | FUntil | FDryRun | FPat | FSession

fun set_field :: "audit_field \<Rightarrow> string \<Rightarrow> audit_filters \<Rightarrow> audit_filters" where
  "set_field FQ v f = f\<lparr>af_q := v\<rparr>"
| "set_field FActor v f = f\<lparr>af_actor := v\<rparr>"
| "set_field FMethod v f = f\<lparr>af_method := v\<rparr>"
| "set_field FPath v f = f\<lparr>af_pathPrefix := v\<rparr>"
| "set_field FStatusMin v f = f\<lparr>af_statusMin := v\<rparr>"
| "set_field FStatusMax v f = f\<lparr>af_statusMax := v\<rparr>"
| "set_field FSince v f = f\<lparr>af_since := v\<rparr>"
| "set_field FUntil v f = f\<lparr>af_until := v\<rparr>"
| "set_field FDryRun v f = f\<lparr>af_dryRun := v\<rparr>"
| "set_field FPat v f = f\<lparr>af_patId := v\<rparr>"
| "set_field FSession v f = f\<lparr>af_sessionId := v\<rparr>"

text \<open>The page's \<open>ready\<close>, \<open>total\<close> and the pager; it is shown below a table that has rows.\<close>

definition audit_data :: "audit_page \<Rightarrow> ListResp option" where
  "audit_data s = (case ap_state s of AuditReady d \<Rightarrow> Some d | _ \<Rightarrow> None)"

definition audit_rows :: "audit_page \<Rightarrow> AuditEvent list" where
  "audit_rows s = (case audit_data s of Some d \<Rightarrow> lr_items d | None \<Rightarrow> [])"

definition audit_total :: "audit_page \<Rightarrow> int" where
  "audit_total s = (case audit_data s of Some d \<Rightarrow> lr_total d | None \<Rightarrow> 0)"

definition showing :: "audit_page \<Rightarrow> int \<times> int" where
  "showing s =
     (if audit_rows s \<noteq> [] then ap_offset s + 1 else 0,
      if audit_data s \<noteq> None then ap_offset s + int (length (audit_rows s)) else 0)"

definition prev_disabled :: "audit_page \<Rightarrow> bool" where
  "prev_disabled s \<longleftrightarrow> ap_offset s = 0"

definition next_disabled :: "audit_page \<Rightarrow> bool" where
  "next_disabled s \<longleftrightarrow> ap_offset s + PAGE_SIZE \<ge> audit_total s"

definition audit_prev :: "audit_page \<Rightarrow> audit_page" where
  "audit_prev s = (if audit_rows s = [] \<or> prev_disabled s then s else s\<lparr>ap_offset := max 0 (ap_offset s - PAGE_SIZE)\<rparr>)"

definition audit_next :: "audit_page \<Rightarrow> audit_page" where
  "audit_next s =
     (if audit_rows s = [] \<or> next_disabled s then s
      else let n = ap_offset s + PAGE_SIZE in if n < audit_total s then s\<lparr>ap_offset := n\<rparr> else s)"

text \<open>The button in a row with a PAT.\<close>

definition audit_pat :: "nat \<Rightarrow> audit_page \<Rightarrow> audit_page" where
  "audit_pat i s =
     (if i < length (audit_rows s) then
        (let v = nullish (ae_pat_id (audit_rows s ! i)) [] in
         if v = [] then s else s\<lparr>ap_filters := (ap_filters s)\<lparr>af_patId := v\<rparr>, ap_offset := 0\<rparr>)
      else s)"

definition audit_answer :: "nat \<Rightarrow> rat \<Rightarrow> audit_reply \<Rightarrow> audit_page \<Rightarrow> audit_page" where
  "audit_answer i now a s =
     (if i < length (ap_tasks s) then
        (let t = s\<lparr>ap_tasks := drop_nth i (ap_tasks s)\<rparr> in
         case ap_tasks s ! i of
           ALoad q \<Rightarrow> load_land a t
         | AVerify \<Rightarrow> verify_land now a t
         | AExport format \<Rightarrow> export_land format a t)
      else s)"

datatype audit_op =
  AEdit audit_field string | AClear | ASubmit | ARefresh | AVerifyClick | AExportClick string
| APrev | ANext | APat nat | AKey string | AAnswer nat rat audit_reply

fun audit_step :: "(string \<Rightarrow> jsnum) \<Rightarrow> audit_op \<Rightarrow> audit_page \<Rightarrow> audit_page" where
  "audit_step dm (AEdit f v) s = rerender dm s (s\<lparr>ap_filters := set_field f v (ap_filters s)\<rparr>)"
| "audit_step dm AClear s = rerender dm s (s\<lparr>ap_filters := no_filters, ap_offset := 0\<rparr>)"
| "audit_step dm ASubmit s = audit_submit dm s"
| "audit_step dm ARefresh s = audit_load dm s"
| "audit_step dm AVerifyClick s = verify_begin s"
| "audit_step dm (AExportClick format) s = (if audit_data s = None then s else export_begin dm format s)"
| "audit_step dm APrev s = rerender dm s (audit_prev s)"
| "audit_step dm ANext s = rerender dm s (audit_next s)"
| "audit_step dm (APat i) s = rerender dm s (audit_pat i s)"
| "audit_step dm (AKey k) s = rerender dm s (s\<lparr>ap_key := k\<rparr>)"
| "audit_step dm (AAnswer i now a) s = audit_answer i now a s"

text \<open>
  The first render has no key, so its effect reports that; the effect of \<open>useApiKey\<close> then gives the stored
  key, and the change of it loads.
\<close>

definition audit_start :: "(string \<Rightarrow> jsnum) \<Rightarrow> string \<Rightarrow> audit_page" where
  "audit_start date_ms key =
     (let s = audit_load date_ms
        \<lparr>ap_key = [], ap_state = AuditIdle, ap_filters = no_filters, ap_offset = 0, ap_chain = ChainIdle, ap_tasks = [],
         ap_sent = [], ap_alerts = [], ap_downloads = []\<rparr>
      in rerender date_ms s (s\<lparr>ap_key := key\<rparr>))"

definition audit_run :: "(string \<Rightarrow> jsnum) \<Rightarrow> string \<Rightarrow> audit_op list \<Rightarrow> audit_page" where
  "audit_run date_ms key ops = fold (audit_step date_ms) ops (audit_start date_ms key)"

section \<open>What the page shows\<close>

definition statusTone :: "rat \<Rightarrow> string" where
  "statusTone s =
     (if s \<ge> 500 then ''text-red-400'' else if s \<ge> 400 then ''text-amber-400'' else if s \<ge> 300 then ''text-sky-400''
      else if s \<ge> 200 then ''text-emerald-400'' else ''text-[var(--color-muted)]'')"

definition methodTone :: "string \<Rightarrow> string" where
  "methodTone m =
     (if m = ''POST'' then ''border-emerald-700/60 text-emerald-300''
      else if m = ''PUT'' \<or> m = ''PATCH'' then ''border-sky-700/60 text-sky-300''
      else if m = ''DELETE'' then ''border-red-700/60 text-red-300''
      else ''border-[var(--color-line)] text-[var(--color-muted)]'')"

definition audit_ts :: "(rat \<Rightarrow> string) \<Rightarrow> rat \<Rightarrow> string" where
  "audit_ts toLocaleString ts = (if ts = 0 then [] else toLocaleString (ts * 1000))"

text \<open>\<open>p.split("/").slice(-1)[0]\<close>: what follows the last slash.\<close>

definition base_name :: "string \<Rightarrow> string" where
  "base_name p = rev (takeWhile (\<lambda>c. c \<noteq> CHR ''/'') (rev p))"

definition chain_file_text :: "ChainFile \<Rightarrow> string" where
  "chain_file_text f =
     base_name (cf_path f) @ '': '' @ num_to_string (cf_valid f) @ ''/'' @ num_to_string (cf_entries f) @ '' valid'' @
     (case cf_first_bad_line f of
        None \<Rightarrow> []
      | Some n \<Rightarrow> '' line '' @ num_to_string n @ '' '' @ nullish (cf_reason f) [])"

definition chain_view :: "chain_state \<Rightarrow> node list" where
  "chain_view c =
     (case c of
        ChainIdle \<Rightarrow> []
      | ChainLoading \<Rightarrow> [Text ''verifying hash chain'']
      | ChainError st m \<Rightarrow> [Text (''chain verify failed: '' @ nat_digits st @ '' '' @ m)]
      | ChainOk d now \<Rightarrow>
          Text (if vr_ok d then ''chain ok'' else ''chain broken'') # map (\<lambda>f. Text (chain_file_text f)) (vr_files d))"

definition audit_header_view :: "audit_page \<Rightarrow> node list" where
  "audit_header_view s =
     [Text ''audit log'', Button ''verify chain'' False, Button ''refresh'' False,
      Button ''csv'' (audit_data s = None), Button ''json'' (audit_data s = None)]"

definition audit_form_view :: "audit_filters \<Rightarrow> node list" where
  "audit_form_view f =
     [TextField ''actor, path, request id, user agent'' (af_q f), TextField ''key:...'' (af_actor f)]
     @ map (\<lambda>m. Choice (or_str m ''any'') (m = af_method f)) METHODS
     @ [TextField ''/keys'' (af_pathPrefix f), TextField ''status min'' (af_statusMin f), TextField ''status max'' (af_statusMax f),
        TextField ''since'' (af_since f), TextField ''until'' (af_until f)]
     @ map (\<lambda>(v, l). Choice l (v = af_dryRun f)) DRY_RUN_OPTIONS
     @ [TextField ''pat_xxxxxxxxxxxx'' (af_patId f), TextField ''sess_...'' (af_sessionId f), Button ''search'' False,
        Button ''clear'' False]"

definition audit_row_view :: "(rat \<Rightarrow> string) \<Rightarrow> AuditEvent \<Rightarrow> node list" where
  "audit_row_view loc e =
     (let pat = nullish (ae_pat_id e) []; name = nullish (ae_api_key_name e) [] in
      [Text (audit_ts loc (ae_ts e)), Text (ae_actor e)]
      @ (if name \<noteq> [] then [Text (''('' @ name @ '')'')] else [])
      @ (if ae_dry_run e then [Text ''dry''] else [])
      @ [if pat \<noteq> [] then Button pat False else Text (take 12 (nullish (ae_session_id e) [])),
         Text (ae_method e), Text (ae_path e), Text (num_to_string (ae_status e)), Text (nullish (ae_client_ip e) []),
         Text (take 12 (nullish (ae_request_id e) []))])"

definition audit_pager_view :: "audit_page \<Rightarrow> node list" where
  "audit_pager_view s =
     [Text (''showing '' @ int_to_string (fst (showing s)) @ ''-'' @ int_to_string (snd (showing s)) @ '' of '' @
        int_to_string (audit_total s)),
      Button ''prev'' (prev_disabled s), Button ''next'' (next_disabled s)]"

definition audit_body_view :: "(rat \<Rightarrow> string) \<Rightarrow> audit_page \<Rightarrow> node list" where
  "audit_body_view loc s =
     (case ap_state s of
        AuditIdle \<Rightarrow> []
      | AuditLoading \<Rightarrow> [Skeleton 6]
      | AuditError st m \<Rightarrow> [Text (''error '' @ (if st \<noteq> 0 then nat_digits st else [])), Text m]
      | AuditReady d \<Rightarrow>
          if lr_items d = [] then [Text ''no events match these filters yet.'']
          else map Text [''when'', ''actor'', ''pat / session'', ''method'', ''path'', ''status'', ''ip'', ''request id'']
               @ concat (map (audit_row_view loc) (lr_items d)) @ audit_pager_view s)"

definition audit_view :: "(rat \<Rightarrow> string) \<Rightarrow> audit_page \<Rightarrow> node list" where
  "audit_view loc s =
     audit_header_view s @ chain_view (ap_chain s) @ audit_form_view (ap_filters s) @ audit_body_view loc s"

end
