(* ===== verification/AuditLaws.thy ===== *)
theory AuditLaws
  imports AuditPage
begin

text \<open>
  What holds of the audit log page: its list and its export ask for the same events, and when the loads
  are answered in the order of their sending the page ends with the answer to the query that its fields show.
\<close>

section \<open>Queries\<close>

lemma update_new: "k \<notin> fst ` set qs \<Longrightarrow> AList.update k v qs = qs @ [(k, v)]"
  by (induction qs) auto

text \<open>
  What the fields of the filters ask for, as a list of parameters: a text that is not empty, a time from
  the first second of 1970 on in whole seconds, and a choice for trial runs other than \<open>any\<close>.
\<close>

definition asks :: "string \<Rightarrow> string \<Rightarrow> query" where
  "asks k v = (if v = [] then [] else [(k, v)])"

definition asks_time :: "(string \<Rightarrow> jsnum) \<Rightarrow> string \<Rightarrow> string \<Rightarrow> query" where
  "asks_time dm k v =
     (case dm v of
        Fin ms \<Rightarrow> if v \<noteq> [] \<and> 1 \<le> ms / 1000 then [(k, int_to_string (floor (ms / 1000)))] else []
      | _ \<Rightarrow> [])"

definition asked :: "(string \<Rightarrow> jsnum) \<Rightarrow> audit_filters \<Rightarrow> query" where
  "asked dm f =
     asks ''q'' (af_q f) @ asks ''actor'' (af_actor f) @ asks ''method'' (af_method f) @ asks ''path'' (af_pathPrefix f) @
     asks ''status_min'' (af_statusMin f) @ asks ''status_max'' (af_statusMax f) @
     asks_time dm ''since'' (af_since f) @ asks_time dm ''until'' (af_until f) @
     asks ''dry_run'' (if af_dryRun f = ''any'' then [] else af_dryRun f) @
     asks ''pat_id'' (af_patId f) @ asks ''session_id'' (af_sessionId f)"

lemma asks_names: "fst ` set (asks k v) \<subseteq> {k}" "fst ` set (asks_time dm k v) \<subseteq> {k}"
  by (auto simp: asks_def asks_time_def split: jsnum.splits)

lemma asks_other [simp]: "k' \<noteq> k \<Longrightarrow> k' \<notin> fst ` set (asks k v)" "k' \<noteq> k \<Longrightarrow> k' \<notin> fst ` set (asks_time dm k v)"
  using asks_names(1) [where k = k and v = v] asks_names(2) [where dm = dm and k = k and v = v] by blast+

lemma asks_distinct [simp]: "distinct (map fst (asks k v))" "distinct (map fst (asks_time dm k v))"
  by (auto simp: asks_def asks_time_def split: jsnum.splits)

text \<open>Each step of the two builders appends what its field asks for.\<close>

lemma param_if_asks: "k \<notin> fst ` set p \<Longrightarrow> param_if k v p = p @ asks k v"
  by (simp add: param_if_def param_set_def asks_def update_new)

lemma param_time_asks:
  "k \<notin> fst ` set p \<Longrightarrow>
     (if v \<noteq> [] then (case unix_seconds dm v of
        Some s \<Rightarrow> if s > 0 then param_set k (int_to_string s) p else p | None \<Rightarrow> p) else p) = p @ asks_time dm k v"
  by (auto simp: unix_seconds_def asks_time_def param_set_def update_new zero_less_floor split: jsnum.split)

lemma param_choice_asks:
  "k \<notin> fst ` set p \<Longrightarrow>
     (if v \<noteq> [] \<and> v \<noteq> ''any'' then param_set k v p else p) = p @ asks k (if v = ''any'' then [] else v)"
  by (simp add: param_set_def asks_def update_new)

lemma param_set_new: "k \<notin> fst ` set p \<Longrightarrow> param_set k v p = p @ [(k, v)]"
  by (simp add: param_set_def update_new)

lemmas builder = param_if_asks param_time_asks param_choice_asks param_set_new

lemma buildQuery_eq:
  "buildQuery dm [] f n = asked dm f @ [(''limit'', int_to_string PAGE_SIZE), (''offset'', int_to_string n)]"
  unfolding buildQuery_def Let_def by (simp add: builder image_Un asked_def)

lemma exportQuery_eq: "exportQuery dm f format = asked dm f @ [(''format'', format)]"
  unfolding exportQuery_def Let_def by (simp add: builder image_Un asked_def)

lemma asks_mem: "x \<in> set (asks k v) \<Longrightarrow> fst x = k" "x \<in> set (asks_time dm k v) \<Longrightarrow> fst x = k"
  using asks_names(1) [where k = k and v = v] asks_names(2) [where dm = dm and k = k and v = v] by blast+

lemma asked_fresh:
  "''limit'' \<notin> fst ` set (asked dm f)" "''offset'' \<notin> fst ` set (asked dm f)" "''format'' \<notin> fst ` set (asked dm f)"
  by (simp_all add: asked_def image_Un)

lemma asked_distinct: "distinct (map fst (asked dm f))"
proof -
  have disjoint: "fst ` set p \<inter> fst ` set q = {}" if "\<forall>x\<in>set p. fst x \<notin> fst ` set q" for p q :: query
    using that by blast
  show ?thesis
    unfolding asked_def
    by (simp only: map_append distinct_append set_append set_map asks_distinct simp_thms)
      (intro conjI disjoint ballI; auto dest!: asks_mem simp: image_Un)
qed

text \<open>
  C33. An export asks for exactly the events of the list. The page builds the parameters of the filters in
  two places; in both they are what the fields ask for, in the same order and each name at most once,
  followed by the page (limit and offset) in the query of the list, and by the format in that of the
  export.
\<close>

theorem export_asks_for_list:
  "buildQuery dm [] f n = asked dm f @ [(''limit'', int_to_string PAGE_SIZE), (''offset'', int_to_string n)] \<and>
   exportQuery dm f format = asked dm f @ [(''format'', format)] \<and>
   filter (\<lambda>(k, v). k \<notin> {''limit'', ''offset''}) (buildQuery dm [] f n) =
     filter (\<lambda>(k, v). k \<noteq> ''format'') (exportQuery dm f format) \<and>
   distinct (map fst (buildQuery dm [] f n)) \<and> distinct (map fst (exportQuery dm f format))"
proof -
  have "filter (\<lambda>(k, v). k \<notin> {''limit'', ''offset''}) (asked dm f) = asked dm f"
    "filter (\<lambda>(k, v). k \<noteq> ''format'') (asked dm f) = asked dm f"
    using asked_fresh [of dm f] by (force simp: filter_id_conv)+
  then show ?thesis
    using asked_fresh [of dm f] asked_distinct [of dm f] by (simp add: buildQuery_eq exportQuery_eq)
qed

section \<open>Loads in order\<close>

fun load_queries :: "audit_task list \<Rightarrow> query list" where
  "load_queries [] = []"
| "load_queries (ALoad q # ts) = q # load_queries ts"
| "load_queries (_ # ts) = load_queries ts"

definition loads :: "audit_page \<Rightarrow> query list" where
  "loads s = load_queries (ap_tasks s)"

lemma load_queries_append [simp]: "load_queries (ts @ us) = load_queries ts @ load_queries us"
  by (induction ts rule: load_queries.induct) simp_all

text \<open>An answer comes to the oldest request, and a load gets what the server has for its query.\<close>

fun honest :: "(query \<Rightarrow> audit_reply) \<Rightarrow> audit_page \<Rightarrow> audit_op \<Rightarrow> bool" where
  "honest server s (AAnswer i now a) \<longleftrightarrow>
     i = 0 \<and> (case ap_tasks s of ALoad q # ts \<Rightarrow> a = server q | _ \<Rightarrow> True)"
| "honest server s op \<longleftrightarrow> True"

fun honest_run :: "(string \<Rightarrow> jsnum) \<Rightarrow> (query \<Rightarrow> audit_reply) \<Rightarrow> audit_page \<Rightarrow> audit_op list \<Rightarrow> bool" where
  "honest_run dm server s [] \<longleftrightarrow> True"
| "honest_run dm server s (op # ops) \<longleftrightarrow> honest server s op \<and> honest_run dm server (audit_step dm op s) ops"

text \<open>What the page is going to show once its loads are answered.\<close>

definition fresh :: "(string \<Rightarrow> jsnum) \<Rightarrow> (query \<Rightarrow> audit_reply) \<Rightarrow> audit_page \<Rightarrow> bool" where
  "fresh dm server s \<longleftrightarrow>
     (ap_key s \<noteq> [] \<longrightarrow>
       (loads s = [] \<longrightarrow> ap_state s = load_state (server (current_query dm s))) \<and>
       (loads s \<noteq> [] \<longrightarrow> last (loads s) = current_query dm s))"

lemma fresh_load: "fresh dm server (audit_load dm s)"
  by (simp add: fresh_def audit_load_def audit_send_def loads_def current_query_def)

lemma fresh_rerender: "fresh dm server s \<Longrightarrow> ap_tasks t = ap_tasks s \<Longrightarrow> ap_state t = ap_state s \<Longrightarrow> fresh dm server (rerender dm s t)"
  by (auto simp: rerender_def fresh_load) (simp add: fresh_def audit_deps_def loads_def current_query_def)

lemma load_frame [simp]:
  "ap_filters (audit_load dm s) = ap_filters s" "ap_offset (audit_load dm s) = ap_offset s"
  "ap_key (audit_load dm s) = ap_key s"
  by (simp_all add: audit_load_def audit_send_def)

lemma fresh_submit: "fresh dm server (audit_submit dm s)"
proof (cases "ap_offset s = 0")
  case True
  then have "(audit_load dm s)\<lparr>ap_offset := 0\<rparr> = audit_load dm s" by (metis audit_page.surjective audit_page.update_convs(4) load_frame(2))
  then show ?thesis using fresh_load [of dm server s] by (simp add: audit_submit_def rerender_def audit_deps_def)
next
  case False
  then show ?thesis by (simp add: audit_submit_def rerender_def audit_deps_def fresh_load)
qed

lemma fresh_answer:
  assumes "fresh dm server s" and "honest server s (AAnswer i now a)"
  shows "fresh dm server (audit_answer i now a s)"
proof (cases "ap_tasks s")
  case Nil
  then show ?thesis using assms(1) by (simp add: audit_answer_def)
next
  case (Cons t ts)
  have d: "drop_nth 0 (t # ts) = ts" by (simp add: drop_nth_def)
  show ?thesis
  proof (cases t)
    case (ALoad q)
    then show ?thesis using assms Cons d
      by (auto simp: audit_answer_def fresh_def loads_def current_query_def load_land_def)
  next
    case AVerify
    then show ?thesis using assms Cons d
      by (auto simp: audit_answer_def fresh_def loads_def current_query_def verify_land_def)
  next
    case (AExport format)
    then show ?thesis using assms Cons d
      by (auto simp: audit_answer_def fresh_def loads_def current_query_def export_land_def Let_def split: Requests.reply.splits)
  qed
qed

lemma fresh_send:
  "fresh dm server s \<Longrightarrow> load_queries [t] = [] \<Longrightarrow> fresh dm server (audit_send t path s)"
  by (cases t) (simp_all add: fresh_def audit_send_def loads_def current_query_def)

lemma paging_frame:
  "ap_tasks (audit_prev s) = ap_tasks s" "ap_state (audit_prev s) = ap_state s"
  "ap_tasks (audit_next s) = ap_tasks s" "ap_state (audit_next s) = ap_state s"
  "ap_tasks (audit_pat i s) = ap_tasks s" "ap_state (audit_pat i s) = ap_state s"
  by (simp_all add: audit_prev_def audit_next_def audit_pat_def Let_def)

lemma fresh_step:
  assumes "fresh dm server s" and "honest server s op"
  shows "fresh dm server (audit_step dm op s)"
proof (cases op)
  case AVerifyClick
  have "fresh dm server (s\<lparr>ap_chain := ChainLoading\<rparr>)" using assms(1) by (simp add: fresh_def loads_def current_query_def)
  then show ?thesis using AVerifyClick by (simp add: verify_begin_def fresh_send)
next
  case (AExportClick format)
  then show ?thesis using assms(1) by (simp add: export_begin_def fresh_send)
next
  case (AAnswer i now a)
  then show ?thesis using assms fresh_answer by simp
qed (use assms(1) in \<open>simp_all add: fresh_rerender fresh_load fresh_submit paging_frame\<close>)

lemma fresh_run: "fresh dm server s \<Longrightarrow> honest_run dm server s ops \<Longrightarrow> fresh dm server (fold (audit_step dm) ops s)"
  by (induction ops arbitrary: s) (simp_all add: fresh_step)

interpretation audit_drain: draining "\<lambda>(now, a). audit_answer 0 now a" ap_tasks "\<lambda>t. 1"
proof
  fix s :: audit_page and na :: "rat \<times> audit_reply"
  obtain now a where na: "na = (now, a)" by (cases na)
  show "ap_tasks s = [] \<Longrightarrow> ap_tasks ((\<lambda>(now, a). audit_answer 0 now a) na s) = []" by (simp add: na audit_answer_def)
  assume "ap_tasks s \<noteq> []"
  then obtain t ts where ts: "ap_tasks s = t # ts" by (cases "ap_tasks s") auto
  have "ap_tasks (audit_answer 0 now a s) = ts"
    using ts by (cases t) (simp_all add: audit_answer_def drop_nth_def load_land_def verify_land_def export_land_def Let_def split: Requests.reply.split)
  then show "workload (\<lambda>t. 1) (ap_tasks ((\<lambda>(now, a). audit_answer 0 now a) na s)) < workload (\<lambda>t. 1) (ap_tasks s)"
    by (simp add: na ts)
qed simp

lemma answers_fold:
  "fold (audit_step dm) (map (\<lambda>(now, a). AAnswer 0 now a) as) s = fold (\<lambda>(now, a). audit_answer 0 now a) as s"
  by (induction as arbitrary: s) auto

lemma workload_one: "workload (\<lambda>t. Suc 0) ts = length ts"
  by (induction ts) simp_all

text \<open>
  C32. Whatever is typed, clicked and answered, and however many loads are under way: when the requests are
  answered in the order of their sending, and as many answers come as requests are under way, the page
  ends with no request and with the answer to the query that its fields and its offset make.
\<close>

theorem audit_shows_current:
  assumes "honest_run dm server (audit_start dm key) (ops @ map (\<lambda>(now, a). AAnswer 0 now a) as)"
    and "length (ap_tasks (audit_run dm key ops)) \<le> length as"
    and "s = audit_run dm key (ops @ map (\<lambda>(now, a). AAnswer 0 now a) as)" and "ap_key s \<noteq> []"
  shows "ap_tasks s = [] \<and> ap_state s = load_state (server (current_query dm s))"
proof -
  have "s = fold (\<lambda>(now, a). audit_answer 0 now a) as (audit_run dm key ops)"
    by (simp add: assms(3) audit_run_def answers_fold)
  then have none: "ap_tasks s = []"
    using audit_drain.drained [of "audit_run dm key ops" as] assms(2) by (simp add: workload_one)
  have "fresh dm server (audit_start dm key)" by (simp add: audit_start_def Let_def fresh_rerender fresh_load)
  from fresh_run [OF this assms(1)] have "fresh dm server s" by (simp only: assms(3) audit_run_def)
  then show ?thesis using none assms(4) by (simp add: fresh_def loads_def)
qed

text \<open>Two loads, the second after a click on search; the answers name what they were asked.\<close>

lemma audit_shows_current_witness:
  "let s = audit_run (\<lambda>v. NaN) ''k''
             ([AEdit FQ ''ada''] @ map (\<lambda>(now, a). AAnswer 0 now a) [(0, Denied 501 None ''gone''), (0, Denied 500 None ''gone'')])
   in ap_tasks s = [] \<and> ap_state s = AuditError 500 ''gone''"
proof -
  define server :: "query \<Rightarrow> audit_reply" where
    "server = (\<lambda>q. Denied (if map_of q ''q'' = Some ''ada'' then 500 else 501) None ''gone'')"
  define as :: "(rat \<times> audit_reply) list" where
    "as = [(0, Denied 501 None ''gone''), (0, Denied 500 None ''gone'')]"
  define s where "s = audit_run (\<lambda>v. NaN) ''k'' ([AEdit FQ ''ada''] @ map (\<lambda>(now, a). AAnswer 0 now a) as)"
  note ev = audit_run_def audit_start_def Let_def audit_load_def audit_send_def rerender_def audit_deps_def no_filters_def
    audit_answer_def drop_nth_def load_land_def current_query_def buildQuery_eq asked_def asks_def asks_time_def
  have h: "honest_run (\<lambda>v. NaN) server (audit_start (\<lambda>v. NaN) ''k'') ([AEdit FQ ''ada''] @ map (\<lambda>(now, a). AAnswer 0 now a) as)"
    by (simp add: as_def server_def ev)
  have l: "length (ap_tasks (audit_run (\<lambda>v. NaN) ''k'' [AEdit FQ ''ada''])) \<le> length as" by (simp add: as_def ev)
  have k: "ap_key s \<noteq> []" and q: "map_of (current_query (\<lambda>v. NaN) s) ''q'' = Some ''ada''"
    by (simp_all add: s_def as_def ev)
  have "load_state (server (current_query (\<lambda>v. NaN) s)) = AuditError 500 ''gone''"
    by (simp add: q server_def load_state_def or_str_def nullish_def)
  then show ?thesis
    using audit_shows_current [OF h l s_def k] by (simp only: s_def as_def Let_def)
qed

text \<open>
  Without the order the page may end with the answer to another query: here the answer to the first load
  comes last and stays, under fields that ask for something else.
\<close>

lemma audit_stale:
  assumes "s = audit_run dm ''k'' [AEdit FQ ''ada'', AAnswer 1 0 new, AAnswer 0 0 old]"
  shows "ap_tasks s = [] \<and> ap_state s = load_state old \<and> af_q (ap_filters s) = ''ada''"
  by (simp add: assms audit_run_def audit_start_def Let_def audit_load_def audit_send_def rerender_def audit_deps_def no_filters_def
      audit_answer_def drop_nth_def load_land_def)

section \<open>Paging\<close>

definition paged :: "audit_page \<Rightarrow> bool" where
  "paged s \<longleftrightarrow> 0 \<le> ap_offset s \<and> PAGE_SIZE dvd ap_offset s"

lemma paged_load [simp]: "paged (audit_load dm s) = paged s"
  by (simp add: paged_def)

lemma paged_rerender [simp]: "paged (rerender dm s t) = paged t"
  by (simp add: rerender_def)

lemma paged_prev: "paged s \<Longrightarrow> paged (audit_prev s)"
  by (auto simp: paged_def audit_prev_def PAGE_SIZE_def max_def dvd_diff_commute)

lemma paged_next: "paged s \<Longrightarrow> paged (audit_next s)"
  by (auto simp: paged_def audit_next_def PAGE_SIZE_def Let_def)

lemma paged_other:
  "paged s \<Longrightarrow> paged (audit_pat i s)" "paged s \<Longrightarrow> paged (audit_answer i now a s)"
  "paged (audit_submit dm s)"
  by (auto simp: paged_def audit_pat_def audit_answer_def audit_submit_def rerender_def load_land_def verify_land_def
      export_land_def Let_def split: audit_task.split Requests.reply.split)

lemma paged_step: "paged s \<Longrightarrow> paged (audit_step dm op s)"
  by (cases op) (simp_all add: paged_prev paged_next paged_other, simp_all add: paged_def verify_begin_def
      export_begin_def audit_send_def)

text \<open>
  The offset of a request is never negative and always at the start of a page of fifty; a click on
  next leads to a page that starts before the end of the list, and prev takes a next back.
\<close>

theorem audit_paging:
  assumes "s = audit_run dm key ops"
  shows "0 \<le> ap_offset s \<and> PAGE_SIZE dvd ap_offset s
    \<and> (audit_rows s \<noteq> [] \<and> \<not> next_disabled s \<longrightarrow>
         ap_offset (audit_next s) = ap_offset s + PAGE_SIZE \<and> ap_offset (audit_next s) < audit_total s
         \<and> audit_prev (audit_next s) = s)"
proof -
  have "paged (audit_start dm key)" by (simp add: audit_start_def Let_def) (simp add: paged_def)
  then have "paged (fold (audit_step dm) ops (audit_start dm key))"
    by (induction ops rule: rev_induct) (simp_all add: paged_step)
  then have "paged s" by (simp add: assms audit_run_def)
  then show ?thesis
    by (auto simp: paged_def audit_next_def audit_prev_def next_disabled_def prev_disabled_def PAGE_SIZE_def Let_def
        audit_rows_def audit_data_def)
qed

definition an_event :: AuditEvent where
  "an_event =
     \<lparr>ae_ts = 1, ae_actor = ''key:a'', ae_api_key_name = None, ae_pat_id = None, ae_session_id = None, ae_tenant_id = None,
      ae_roles = [], ae_method = ''POST'', ae_path = ''/keys'', ae_status = 200, ae_request_id = None, ae_trace_id = None,
      ae_client_ip = None, ae_user_agent = None, ae_duration_ms = None, ae_dry_run = False\<rparr>"

definition some_docs :: audit_docs where
  "some_docs =
     \<lparr>ad_list = \<lparr>lr_items = [an_event], lr_total = 51, lr_limit = 50, lr_offset = 0, lr_truncated = False\<rparr>,
      ad_verify = \<lparr>vr_ok = True, vr_files = []\<rparr>, ad_disposition = None, ad_blob = []\<rparr>"

lemma audit_paging_witness:
  "let s = audit_run (\<lambda>v. NaN) ''k'' [AAnswer 0 0 (Got some_docs)]
   in ap_offset (audit_next s) = 50 \<and> ap_offset (audit_next s) < audit_total s \<and> audit_prev (audit_next s) = s"
proof -
  define s where "s = audit_run (\<lambda>v. NaN) ''k'' [AAnswer 0 0 (Got some_docs)]"
  have s: "ap_state s = AuditReady (ad_list some_docs)" "ap_offset s = 0"
    by (simp_all add: s_def audit_run_def audit_start_def Let_def rerender_def audit_deps_def audit_load_def audit_send_def audit_answer_def load_land_def load_state_def)
  then have "audit_rows s \<noteq> []" "\<not> next_disabled s"
    by (simp_all add: audit_rows_def audit_data_def next_disabled_def audit_total_def some_docs_def PAGE_SIZE_def)
  with audit_paging [OF s_def] s(2) show ?thesis by (simp add: s_def [symmetric] PAGE_SIZE_def)
qed

section \<open>The name of a download\<close>

text \<open>No earlier place of the header fits the pattern when its first part has no \<open>f\<close>.\<close>

lemma filename_match_skip:
  "CHR ''f'' \<notin> set pre \<Longrightarrow> filename_match (pre @ filename_mark @ r) = filename_match (filename_mark @ r)"
proof (induction pre)
  case (Cons c cs)
  then show ?case by (simp add: filename_mark_def)
qed simp

text \<open>
  The name the server gives in the header \<open>content-disposition: attachment; filename="..."\<close> is the
  name of the download, whatever follows it; without such a header the name is made of the format.
\<close>

theorem export_name_given:
  assumes "name \<noteq> []" and "CHR 0x22 \<notin> set name" and "CHR ''f'' \<notin> set pre"
  shows "export_name format (Some (pre @ filename_mark @ name @ [CHR 0x22] @ rest)) = name
    \<and> export_name format (Some pre) = ''clawhum-audit.'' @ format \<and> export_name format None = ''clawhum-audit.'' @ format"
proof -
  have tw: "takeWhile (\<lambda>x. x \<noteq> CHR 0x22) (name @ CHR 0x22 # rest) = name"
    using assms(2) by (induction name) auto
  have m: "filename_match (filename_mark @ name @ [CHR 0x22] @ rest) = Some name"
    using assms(1) tw by (simp add: filename_mark_def)
  have "filename_match pre = None" using assms(3) by (induction pre) (auto simp: filename_mark_def)
  then show ?thesis using m filename_match_skip [OF assms(3)] by (simp add: export_name_def nullish_def)
qed

lemma export_name_given_witness:
  "export_name ''csv'' (Some (''attachment; '' @ filename_mark @ ''a.csv'' @ [CHR 0x22] @ [])) = ''a.csv''"
  using export_name_given [of "''a.csv''" "''attachment; ''" "''csv''" "[]"] by simp

end
