(* ===== verification/SavedViews.thy ===== *)
theory SavedViews
  imports Requests HistoryPage
begin

text \<open>
  \<open>web/components/SavedViews.tsx\<close>: the saved combinations of filters, mounted on the history page. Its
  props are what the history page holds: the current filters, the handler that applies a view
  (\<^const>\<open>set_filters\<close>), and whether an API key is saved. \<open>views_page\<close> is the composition of the two.
\<close>

section \<open>Filters\<close>

record ViewFilters =
  vf_q :: string
  vf_tag :: string
  vf_sort :: SortKey
  vf_starred :: bool

record ViewItem =
  vi_id :: string
  vi_name :: string
  vi_filters :: ViewFilters
  vi_created_at :: rat
  vi_updated_at :: rat

definition filtersEqual :: "ViewFilters \<Rightarrow> ViewFilters \<Rightarrow> bool" where
  "filtersEqual a b \<longleftrightarrow>
     trim (vf_q a) = trim (vf_q b) \<and> to_lower (trim (vf_tag a)) = to_lower (trim (vf_tag b)) \<and>
     vf_sort a = vf_sort b \<and> vf_starred a = vf_starred b"

definition filtersAreDefault :: "ViewFilters \<Rightarrow> bool" where
  "filtersAreDefault f \<longleftrightarrow> trim (vf_q f) = [] \<and> trim (vf_tag f) = [] \<and> vf_sort f = sort_recent \<and> \<not> vf_starred f"

text \<open>\<open>f.sort.replace("_", " ")\<close>: the first underscore.\<close>

fun replace_first :: "char \<Rightarrow> char \<Rightarrow> string \<Rightarrow> string" where
  "replace_first c d [] = []"
| "replace_first c d (x # xs) = (if x = c then d # xs else x # replace_first c d xs)"

definition view_summary :: "ViewFilters \<Rightarrow> string" where
  "view_summary f =
     (let bits = (if trim (vf_q f) \<noteq> [] then [[CHR 0x22] @ trim (vf_q f) @ [CHR 0x22]] else [])
        @ (if trim (vf_tag f) \<noteq> [] then [''#'' @ trim (vf_tag f)] else [])
        @ (if vf_starred f then [''starred''] else [])
        @ (if vf_sort f \<noteq> sort_recent then [replace_first (CHR ''_'') (CHR '' '') (sort_text (vf_sort f))] else [])
      in if bits \<noteq> [] then join '' / '' bits else ''no filters'')"

text \<open>The filters and the body that \<open>save\<close> posts.\<close>

definition posted_filters :: "ViewFilters \<Rightarrow> ViewFilters" where
  "posted_filters f = f\<lparr>vf_q := trim (vf_q f), vf_tag := to_lower (trim (vf_tag f))\<rparr>"

definition filters_json :: "ViewFilters \<Rightarrow> json" where
  "filters_json f =
     JObj [(''q'', JStr (vf_q f)), (''tag'', JStr (vf_tag f)), (''sort'', JStr (sort_text (vf_sort f))),
           (''starred'', JBool (vf_starred f))]"

section \<open>State\<close>

text \<open>A load, with the flag that a handler awaits it, and the three handlers.\<close>

datatype sv_task = SvLoad bool | SvSave | SvRename | SvRemove

text \<open>A refusal carries its body when it is JSON; the list may miss its items.\<close>

datatype sv_reply = SvBroke string | SvDenied nat "json option" | SvGot "ViewItem list option"

record saved_views =
  sv_views :: "ViewItem list option"
  sv_err :: "string option"
  sv_busy :: bool
  sv_naming :: bool
  sv_draft :: string
  sv_renamingId :: "string option"
  sv_renameDraft :: string
  sv_tasks :: "sv_task list"
  sv_sent :: "request list"

definition views_path :: string where
  "views_path = ''/api/history/views''"

definition views_request :: "string \<Rightarrow> string \<Rightarrow> json option \<Rightarrow> request" where
  "views_request m path body =
     \<lparr>req_method = m, req_path = path,
      req_headers = (if body = None then [] else [(''Content-Type'', ''application/json'')]), req_payload = body\<rparr>"

definition sv_send :: "sv_task \<Rightarrow> request \<Rightarrow> saved_views \<Rightarrow> saved_views" where
  "sv_send t r s = s\<lparr>sv_tasks := sv_tasks s @ [t], sv_sent := sv_sent s @ [r]\<rparr>"

section \<open>Handlers\<close>

definition sv_load :: "bool \<Rightarrow> bool \<Rightarrow> saved_views \<Rightarrow> saved_views" where
  "sv_load hasApiKey awaited s =
     (if \<not> hasApiKey then s\<lparr>sv_views := Some []\<rparr>
      else sv_send (SvLoad awaited) (views_request ''GET'' views_path None) s)"

definition sv_load_settle :: "sv_reply \<Rightarrow> saved_views \<Rightarrow> saved_views" where
  "sv_load_settle a s =
     (case a of
        SvBroke m \<Rightarrow> s\<lparr>sv_err := Some (or_str m ''failed to load views''), sv_views := Some []\<rparr>
      | SvDenied st body \<Rightarrow>
          if st = 401 then s\<lparr>sv_views := Some []\<rparr> else s\<lparr>sv_err := Some (http_status st), sv_views := Some []\<rparr>
      | SvGot items \<Rightarrow> s\<lparr>sv_views := Some (nullish items []), sv_err := None\<rparr>)"

text \<open>\<open>new Error(j?.detail || `save failed (${r.status})`)\<close> and the message that is shown of it.\<close>

definition sv_refusal :: "string \<Rightarrow> nat \<Rightarrow> json option \<Rightarrow> string" where
  "sv_refusal what st body =
     (let d = (case body of Some v \<Rightarrow> field v ''detail'' | None \<Rightarrow> None) in
      or_str (if truthy d then js_text (the d) else what @ '' ('' @ nat_digits st @ '')'') what)"

definition sv_failed :: "string \<Rightarrow> saved_views \<Rightarrow> saved_views" where
  "sv_failed m s = s\<lparr>sv_err := Some m, sv_busy := False\<rparr>"

definition sv_save :: "ViewFilters \<Rightarrow> saved_views \<Rightarrow> saved_views" where
  "sv_save current s =
     (let name = trim (sv_draft s) in
      if name = [] then s
      else sv_send SvSave
             (views_request ''POST'' views_path
                (Some (JObj [(''name'', JStr name), (''filters'', filters_json (posted_filters current))])))
             (s\<lparr>sv_busy := True\<rparr>))"

definition sv_rename :: "string \<Rightarrow> saved_views \<Rightarrow> saved_views" where
  "sv_rename i s =
     (let name = trim (sv_renameDraft s) in
      if name = [] then s
      else sv_send SvRename (views_request ''PATCH'' (views_path @ ''/'' @ i) (Some (JObj [(''name'', JStr name)])))
             (s\<lparr>sv_busy := True\<rparr>))"

definition sv_remove :: "string \<Rightarrow> bool \<Rightarrow> saved_views \<Rightarrow> saved_views" where
  "sv_remove i confirmed s =
     (if \<not> confirmed then s
      else sv_send SvRemove (views_request ''DELETE'' (views_path @ ''/'' @ i) None) (s\<lparr>sv_busy := True\<rparr>))"

text \<open>Success closes the field and awaits a load (of a render with a key), whose end lowers the flag.\<close>

definition sv_save_settle :: "sv_reply \<Rightarrow> saved_views \<Rightarrow> saved_views" where
  "sv_save_settle a s =
     (case a of
        SvBroke m \<Rightarrow> sv_failed (or_str m ''save failed'') s
      | SvDenied st body \<Rightarrow> sv_failed (sv_refusal ''save failed'' st body) s
      | SvGot items \<Rightarrow> sv_load True True (s\<lparr>sv_naming := False, sv_draft := []\<rparr>))"

definition sv_rename_settle :: "sv_reply \<Rightarrow> saved_views \<Rightarrow> saved_views" where
  "sv_rename_settle a s =
     (case a of
        SvBroke m \<Rightarrow> sv_failed (or_str m ''rename failed'') s
      | SvDenied st body \<Rightarrow> sv_failed (sv_refusal ''rename failed'' st body) s
      | SvGot items \<Rightarrow> sv_load True True (s\<lparr>sv_renamingId := None, sv_renameDraft := []\<rparr>))"

definition sv_remove_settle :: "sv_reply \<Rightarrow> saved_views \<Rightarrow> saved_views" where
  "sv_remove_settle a s =
     (case a of
        SvBroke m \<Rightarrow> sv_failed (or_str m ''delete failed'') s
      | SvDenied st body \<Rightarrow> sv_failed (''delete failed ('' @ nat_digits st @ '')'') s
      | SvGot items \<Rightarrow> sv_load True True s)"

definition sv_resume :: "sv_task \<Rightarrow> sv_reply \<Rightarrow> saved_views \<Rightarrow> saved_views" where
  "sv_resume t a s =
     (case t of
        SvLoad awaited \<Rightarrow> (if awaited then (sv_load_settle a s)\<lparr>sv_busy := False\<rparr> else sv_load_settle a s)
      | SvSave \<Rightarrow> sv_save_settle a s
      | SvRename \<Rightarrow> sv_rename_settle a s
      | SvRemove \<Rightarrow> sv_remove_settle a s)"

definition sv_answer :: "nat \<Rightarrow> sv_reply \<Rightarrow> saved_views \<Rightarrow> saved_views" where
  "sv_answer i a s =
     (if i < length (sv_tasks s) then sv_resume (sv_tasks s ! i) a (s\<lparr>sv_tasks := drop_nth i (sv_tasks s)\<rparr>) else s)"

section \<open>Buttons and fields\<close>

definition activeView :: "ViewFilters \<Rightarrow> saved_views \<Rightarrow> ViewItem option" where
  "activeView current s = List.find (\<lambda>v. filtersEqual (vi_filters v) current) (nullish (sv_views s) [])"

definition canSave :: "bool \<Rightarrow> ViewFilters \<Rightarrow> saved_views \<Rightarrow> bool" where
  "canSave hasApiKey current s \<longleftrightarrow> hasApiKey \<and> \<not> filtersAreDefault current \<and> activeView current s = None"

definition view_named :: "string \<Rightarrow> saved_views \<Rightarrow> ViewItem option" where
  "view_named i s = List.find (\<lambda>v. vi_id v = i) (nullish (sv_views s) [])"

datatype sv_op =
  SvOpenName | SvDraft string | SvEnter | SvConfirm | SvCancel | SvApply string | SvOpenRename string
| SvRenameDraft string | SvRenameEnter | SvRenameConfirm | SvRenameCancel | SvDelete string bool | SvAnswer nat sv_reply

text \<open>
  The chip of a view shows its field while it is renamed, and its three buttons otherwise. The buttons
  that confirm look at the busy flag; the Enter key and the delete button do not.
\<close>

definition sv_renaming :: "saved_views \<Rightarrow> ViewItem option" where
  "sv_renaming s = (case sv_renamingId s of None \<Rightarrow> None | Some i \<Rightarrow> view_named i s)"

fun sv_step :: "bool \<Rightarrow> ViewFilters \<Rightarrow> sv_op \<Rightarrow> saved_views \<Rightarrow> saved_views" where
  "sv_step key cur SvOpenName s =
     (if sv_naming s \<or> \<not> canSave key cur s \<or> sv_busy s then s else s\<lparr>sv_naming := True, sv_draft := []\<rparr>)"
| "sv_step key cur (SvDraft v) s = (if sv_naming s then s\<lparr>sv_draft := v\<rparr> else s)"
| "sv_step key cur SvEnter s = (if sv_naming s then sv_save cur s else s)"
| "sv_step key cur SvConfirm s = (if sv_naming s \<and> trim (sv_draft s) \<noteq> [] \<and> \<not> sv_busy s then sv_save cur s else s)"
| "sv_step key cur SvCancel s = (if sv_naming s then s\<lparr>sv_naming := False, sv_draft := []\<rparr> else s)"
| "sv_step key cur (SvApply i) s = s"
| "sv_step key cur (SvOpenRename i) s =
     (case view_named i s of
        Some v \<Rightarrow> if sv_renamingId s = Some i then s else s\<lparr>sv_renamingId := Some i, sv_renameDraft := vi_name v\<rparr>
      | None \<Rightarrow> s)"
| "sv_step key cur (SvRenameDraft v) s = (if sv_renaming s \<noteq> None then s\<lparr>sv_renameDraft := v\<rparr> else s)"
| "sv_step key cur SvRenameEnter s = (case sv_renaming s of Some v \<Rightarrow> sv_rename (vi_id v) s | None \<Rightarrow> s)"
| "sv_step key cur SvRenameConfirm s =
     (case sv_renaming s of
        Some v \<Rightarrow> if trim (sv_renameDraft s) \<noteq> [] \<and> \<not> sv_busy s then sv_rename (vi_id v) s else s
      | None \<Rightarrow> s)"
| "sv_step key cur SvRenameCancel s = (if sv_renaming s \<noteq> None then s\<lparr>sv_renamingId := None, sv_renameDraft := []\<rparr> else s)"
| "sv_step key cur (SvDelete i confirmed) s =
     (if view_named i s \<noteq> None \<and> sv_renamingId s \<noteq> Some i then sv_remove i confirmed s else s)"
| "sv_step key cur (SvAnswer i a) s = sv_answer i a s"

section \<open>On the history page\<close>

record views_page =
  vp_history :: history_page
  vp_key :: string
  vp_views :: saved_views

definition page_filters :: "history_page \<Rightarrow> ViewFilters" where
  "page_filters h = \<lparr>vf_q = hp_q h, vf_tag = hp_tag h, vf_sort = hp_sort h, vf_starred = hp_starredOnly h\<rparr>"

definition apply_filters :: "ViewFilters \<Rightarrow> history_page \<Rightarrow> history_page" where
  "apply_filters f h = set_filters (vf_q f) (vf_tag f) (vf_sort f) (vf_starred f) h"

definition sv_start :: saved_views where
  "sv_start =
     \<lparr>sv_views = None, sv_err = None, sv_busy = False, sv_naming = False, sv_draft = [], sv_renamingId = None,
      sv_renameDraft = [], sv_tasks = [], sv_sent = []\<rparr>"

definition vp_start :: "string \<Rightarrow> views_page" where
  "vp_start key = \<lparr>vp_history = hp_start, vp_key = key, vp_views = sv_load (key \<noteq> []) False sv_start\<rparr>"

datatype vp_op = VHistory hp_op | VKey string | VViews sv_op

text \<open>Without a key the component shows nothing, so that only answers reach it.\<close>

definition sv_reached :: "sv_op \<Rightarrow> bool" where
  "sv_reached op = (case op of SvAnswer i a \<Rightarrow> True | _ \<Rightarrow> False)"

definition applied_view :: "sv_op \<Rightarrow> saved_views \<Rightarrow> ViewItem option" where
  "applied_view op s =
     (case op of SvApply i \<Rightarrow> if sv_renamingId s = Some i then None else view_named i s | _ \<Rightarrow> None)"

fun vp_step :: "vp_op \<Rightarrow> views_page \<Rightarrow> views_page" where
  "vp_step (VHistory op) s = s\<lparr>vp_history := hp_step op (vp_history s)\<rparr>"
| "vp_step (VKey k) s =
     (let t = s\<lparr>vp_key := k\<rparr> in
      if (k \<noteq> []) = (vp_key s \<noteq> []) then t else t\<lparr>vp_views := sv_load (k \<noteq> []) False (vp_views s)\<rparr>)"
| "vp_step (VViews op) s =
     (if vp_key s = [] \<and> \<not> sv_reached op then s
      else case applied_view op (vp_views s) of
             Some v \<Rightarrow> s\<lparr>vp_history := apply_filters (vi_filters v) (vp_history s)\<rparr>
           | None \<Rightarrow> s\<lparr>vp_views := sv_step (vp_key s \<noteq> []) (page_filters (vp_history s)) op (vp_views s)\<rparr>)"

definition vp_run :: "string \<Rightarrow> vp_op list \<Rightarrow> views_page" where
  "vp_run key ops = fold vp_step ops (vp_start key)"

section \<open>What it shows\<close>

definition save_title :: "ViewFilters \<Rightarrow> saved_views \<Rightarrow> string" where
  "save_title cur s =
     (case activeView cur s of
        Some v \<Rightarrow> ''current filters match '' @ [CHR 0x22] @ vi_name v @ [CHR 0x22]
      | None \<Rightarrow> if filtersAreDefault cur then ''apply some filters first'' else ''save current filters'')"

definition naming_view :: "bool \<Rightarrow> ViewFilters \<Rightarrow> saved_views \<Rightarrow> node list" where
  "naming_view key cur s =
     (if \<not> sv_naming s
      then [Hint (save_title cur s), Button ''save current'' (\<not> canSave key cur s \<or> sv_busy s)]
      else [TextField ''view name'' (sv_draft s), Button ''confirm save'' (trim (sv_draft s) = [] \<or> sv_busy s),
            Button ''cancel save'' False])"

definition chip_view :: "ViewFilters \<Rightarrow> saved_views \<Rightarrow> ViewItem \<Rightarrow> node list" where
  "chip_view cur s v =
     (if sv_renamingId s = Some (vi_id v)
      then [TextField [] (sv_renameDraft s), Button ''confirm rename'' (trim (sv_renameDraft s) = [] \<or> sv_busy s),
            Button ''cancel rename'' False]
      else [Hint (view_summary (vi_filters v)),
            Choice (vi_name v) (map_option vi_id (activeView cur s) = Some (vi_id v)),
            Button (''rename '' @ vi_name v) False, Button (''delete '' @ vi_name v) False])"

definition views_view :: "bool \<Rightarrow> ViewFilters \<Rightarrow> saved_views \<Rightarrow> node list" where
  "views_view key cur s =
     (if \<not> key then []
      else Text ''saved views'' # naming_view key cur s @ error_nodes (sv_err s)
        @ (case sv_views s of
             None \<Rightarrow> [Text ''loading...'']
           | Some vs \<Rightarrow>
               if vs = [] then [Text ''no saved views. set some filters, then save current to pin them here.'']
               else concat (map (chip_view cur s) vs)))"

end
