(* ===== verification/SavedViewsLaws.thy ===== *)
theory SavedViewsLaws
  imports SavedViews
begin

text \<open>
  What holds of the saved views on the history page: two combinations of filters count as equal exactly
  when they ask the server for the same list, a view that has been applied or just saved is the active
  one, and the busy flag is backed by a request.
\<close>

section \<open>Filters and queries\<close>

definition with_filters :: "ViewFilters \<Rightarrow> history_page \<Rightarrow> history_page" where
  "with_filters f h =
     h\<lparr>hp_q := vf_q f, hp_tag := vf_tag f, hp_sort := vf_sort f, hp_starredOnly := vf_starred f, hp_offset := 0\<rparr>"

lemma sort_text_inj: "sort_text a = sort_text b \<longleftrightarrow> a = b"
  by (cases a; cases b) simp_all

lemma sort_text_names: "sort_text k \<noteq> []" by (cases k) simp_all

definition query_part :: "string \<Rightarrow> query \<Rightarrow> string" where
  "query_part k qs = nullish (map_of qs k) []"

lemma query_parts:
  "query_part ''q'' (history_query h) = trim (hp_q h)"
  "query_part ''tag'' (history_query h) = to_lower (trim (hp_tag h))"
  "query_part ''sort'' (history_query h) = (if hp_sort h = sort_recent then [] else sort_text (hp_sort h))"
  "query_part ''starred'' (history_query h) = (if hp_starredOnly h then ''true'' else [])"
  by (auto simp: query_part_def history_query_def nullish_def to_lower_def)

lemma filtersEqual_refl [simp]: "filtersEqual f f"
  by (simp add: filtersEqual_def)

lemma filtersEqual_sym: "filtersEqual a b \<Longrightarrow> filtersEqual b a"
  by (simp add: filtersEqual_def)

lemma filtersEqual_trans: "filtersEqual a b \<Longrightarrow> filtersEqual b c \<Longrightarrow> filtersEqual a c"
  by (simp add: filtersEqual_def)

lemma lower_empty: "to_lower s = [] \<longleftrightarrow> s = []"
  by (simp add: to_lower_def)

lemma posted_equal: "filtersEqual (posted_filters a) a"
  by (simp add: filtersEqual_def posted_filters_def trim_to_lower)

text \<open>
  C34. The comparison that marks a view as active is the right one: two combinations of filters count as
  equal exactly when the history page asks the server the same query with either of them. It is an
  equivalence, the filters that are posted for a view are equal to the current ones, and only filters
  that add nothing to the query count as default.
\<close>

theorem filters_equal_queries:
  "(filtersEqual a b \<longleftrightarrow> history_query (with_filters a h) = history_query (with_filters b h))
   \<and> filtersEqual (posted_filters a) a
   \<and> (filtersAreDefault a \<longleftrightarrow> length (history_query (with_filters a h)) = 2)"
proof (intro conjI)
  show "filtersEqual a b \<longleftrightarrow> history_query (with_filters a h) = history_query (with_filters b h)"
  proof
    assume "filtersEqual a b"
    then have eq: "trim (vf_q a) = trim (vf_q b)" "to_lower (trim (vf_tag a)) = to_lower (trim (vf_tag b))"
      "vf_sort a = vf_sort b" "vf_starred a = vf_starred b" by (simp_all add: filtersEqual_def)
    have "trim (vf_tag a) = [] \<longleftrightarrow> trim (vf_tag b) = []"
      using lower_empty [of "trim (vf_tag a)"] lower_empty [of "trim (vf_tag b)"] by (simp only: eq)
    then show "history_query (with_filters a h) = history_query (with_filters b h)"
      by (simp add: history_query_def with_filters_def eq)
  next
    assume q: "history_query (with_filters a h) = history_query (with_filters b h)"
    note parts = query_parts [of "with_filters a h", unfolded q query_parts [of "with_filters b h"]]
    have "vf_sort a = vf_sort b"
      using parts(3) by (cases "vf_sort a"; cases "vf_sort b") (simp_all add: with_filters_def)
    moreover have "vf_starred a = vf_starred b" using parts(4) by (auto simp: with_filters_def split: if_splits)
    ultimately show "filtersEqual a b" using parts(1,2) by (simp add: filtersEqual_def with_filters_def)
  qed
  show "filtersEqual (posted_filters a) a" by (rule posted_equal)
  show "filtersAreDefault a \<longleftrightarrow> length (history_query (with_filters a h)) = 2"
    by (auto simp: filtersAreDefault_def history_query_def with_filters_def)
qed

section \<open>The active view\<close>

lemma activeView_some:
  "v \<in> set (nullish (sv_views s) []) \<Longrightarrow> filtersEqual (vi_filters v) cur \<Longrightarrow>
     \<exists>w. activeView cur s = Some w \<and> filtersEqual (vi_filters w) cur"
proof -
  assume v: "v \<in> set (nullish (sv_views s) [])" "filtersEqual (vi_filters v) cur"
  then have "List.find (\<lambda>v. filtersEqual (vi_filters v) cur) (nullish (sv_views s) []) \<noteq> None"
    by (auto simp: find_None_iff)
  then obtain w where "List.find (\<lambda>v. filtersEqual (vi_filters v) cur) (nullish (sv_views s) []) = Some w" by blast
  then show ?thesis by (auto simp: activeView_def find_Some_iff)
qed

lemma page_filters_apply: "page_filters (apply_filters f h) = f"
  by (simp add: page_filters_def apply_filters_def set_filters_def)

lemma view_named_in: "view_named i s = Some v \<Longrightarrow> v \<in> set (nullish (sv_views s) []) \<and> vi_id v = i"
  by (auto simp: view_named_def find_Some_iff)

text \<open>
  A click on a view puts its filters on the history page, which then are those of the active view, and
  "save current" is disabled. A load whose list holds the filters as a save posts them makes them active
  as well, so that what has been saved cannot be saved twice.
\<close>

theorem views_become_active:
  assumes "vp_key s \<noteq> []"
  shows "(applied_view op (vp_views s) = Some v \<longrightarrow>
      (let t = vp_step (VViews op) s in
       page_filters (vp_history t) = vi_filters v \<and>
       (\<exists>w. activeView (vi_filters v) (vp_views t) = Some w \<and> filtersEqual (vi_filters w) (vi_filters v)) \<and>
       \<not> canSave True (page_filters (vp_history t)) (vp_views t)))
    \<and> (sv_tasks (vp_views s) = SvLoad aw # ts \<and> (\<exists>v\<in>set vs. vi_filters v = posted_filters (page_filters (vp_history s))) \<longrightarrow>
      (let t = vp_step (VViews (SvAnswer 0 (SvGot (Some vs)))) s in
       activeView (page_filters (vp_history t)) (vp_views t) \<noteq> None \<and>
       \<not> canSave True (page_filters (vp_history t)) (vp_views t)))"
proof (intro conjI impI)
  assume app: "applied_view op (vp_views s) = Some v"
  then have "v \<in> set (nullish (sv_views (vp_views s)) [])"
    by (auto simp: applied_view_def split: sv_op.splits if_splits dest!: view_named_in)
  from activeView_some [OF this, of "vi_filters v"]
  show "let t = vp_step (VViews op) s in
       page_filters (vp_history t) = vi_filters v \<and>
       (\<exists>w. activeView (vi_filters v) (vp_views t) = Some w \<and> filtersEqual (vi_filters w) (vi_filters v)) \<and>
       \<not> canSave True (page_filters (vp_history t)) (vp_views t)"
    using app assms by (auto simp: Let_def page_filters_apply canSave_def)
next
  assume a: "sv_tasks (vp_views s) = SvLoad aw # ts \<and> (\<exists>v\<in>set vs. vi_filters v = posted_filters (page_filters (vp_history s)))"
  let ?cur = "page_filters (vp_history s)" and ?t = "vp_step (VViews (SvAnswer 0 (SvGot (Some vs)))) s"
  have t: "vp_history ?t = vp_history s" "sv_views (vp_views ?t) = Some vs"
    using a by (simp_all add: applied_view_def sv_reached_def sv_answer_def drop_nth_def sv_resume_def sv_load_settle_def nullish_def)
  obtain v where v: "v \<in> set vs" "vi_filters v = posted_filters ?cur" using a by blast
  then have "filtersEqual (vi_filters v) ?cur" using posted_equal by simp
  then have "\<exists>w. activeView ?cur (vp_views ?t) = Some w \<and> filtersEqual (vi_filters w) ?cur"
    using v(1) activeView_some [of v "vp_views ?t" ?cur] t(2) by (simp only: nullish_def option.case)
  then show "let t = vp_step (VViews (SvAnswer 0 (SvGot (Some vs)))) s in
       activeView (page_filters (vp_history t)) (vp_views t) \<noteq> None \<and>
       \<not> canSave True (page_filters (vp_history t)) (vp_views t)"
    by (auto simp only: Let_def t(1) canSave_def)
qed

section \<open>Requests\<close>

fun sv_kind :: "sv_task \<Rightarrow> unit option" where
  "sv_kind (SvLoad awaited) = (if awaited then Some () else None)"
| "sv_kind _ = Some ()"

lemmas sv_defs = sv_load_def sv_send_def sv_load_settle_def sv_failed_def sv_save_settle_def sv_rename_settle_def
  sv_remove_settle_def sv_resume_def

definition busy_move :: "bool \<Rightarrow> nat \<Rightarrow> bool \<Rightarrow> nat \<Rightarrow> bool" where
  "busy_move f n f' n' \<longleftrightarrow> (f' \<longrightarrow> n' \<noteq> 0 \<or> f \<and> n' = n)"

lemma sv_resume_busy:
  "busy_move (sv_busy s) (under_way sv_kind u (sv_tasks s) + (if sv_kind t = Some u then 1 else 0))
     (sv_busy (sv_resume t a s)) (under_way sv_kind u (sv_tasks (sv_resume t a s)))"
  by (cases t; cases a; cases u) (auto simp: sv_defs busy_move_def)

lemma sv_answer_busy:
  "busy_move (sv_busy s) (under_way sv_kind u (sv_tasks s)) (sv_busy (sv_answer i a s)) (under_way sv_kind u (sv_tasks (sv_answer i a s)))"
proof (cases "i < length (sv_tasks s)")
  case True
  then show ?thesis
    using sv_resume_busy [of "s\<lparr>sv_tasks := drop_nth i (sv_tasks s)\<rparr>" u "sv_tasks s ! i" a]
    by (simp add: sv_answer_def under_way_drop [OF True, of sv_kind])
qed (simp add: sv_answer_def busy_move_def)

lemma sv_step_busy:
  "busy_move (sv_busy s) (under_way sv_kind u (sv_tasks s)) (sv_busy (sv_step key cur op s))
     (under_way sv_kind u (sv_tasks (sv_step key cur op s)))"
proof (cases op)
  case (SvAnswer i a)
  then show ?thesis by (simp add: sv_answer_busy)
qed (cases u; auto simp: busy_move_def sv_save_def sv_rename_def sv_remove_def sv_send_def Let_def split: option.split)+

lemma vp_step_busy:
  "busy_move (sv_busy (vp_views s)) (under_way sv_kind u (sv_tasks (vp_views s)))
     (sv_busy (vp_views (vp_step op s))) (under_way sv_kind u (sv_tasks (vp_views (vp_step op s))))"
proof (cases op)
  case (VViews o')
  then show ?thesis
    using sv_step_busy [of "vp_views s" u "vp_key s \<noteq> []" "page_filters (vp_history s)" o']
    by (auto simp: busy_move_def split: option.split)
qed (auto simp: busy_move_def sv_load_def sv_send_def Let_def)

interpretation views_busy: backed vp_step "vp_start key" "\<lambda>s. sv_tasks (vp_views s)" sv_kind "\<lambda>_ s. sv_busy (vp_views s)"
  "\<lambda>_. True" "\<lambda>_. True"
proof unfold_locales
  fix s op u
  show "sv_busy (vp_views (vp_step op s)) \<Longrightarrow> under_way sv_kind u (sv_tasks (vp_views (vp_step op s))) \<noteq> 0 \<or>
      sv_busy (vp_views s) \<and> under_way sv_kind u (sv_tasks (vp_views (vp_step op s))) = under_way sv_kind u (sv_tasks (vp_views s))"
    using vp_step_busy [of s u op] by (simp add: busy_move_def)
qed (auto simp: vp_start_def sv_load_def sv_send_def sv_start_def split: if_splits)

fun sv_weight :: "sv_task \<Rightarrow> nat" where
  "sv_weight (SvLoad awaited) = 1"
| "sv_weight _ = 2"

interpretation views_drain: draining "sv_answer 0" sv_tasks sv_weight
proof unfold_locales
  show "0 < sv_weight t" for t by (cases t) simp_all
  fix s :: saved_views and a
  assume "sv_tasks s \<noteq> []"
  then obtain t ts where "sv_tasks s = t # ts" by (cases "sv_tasks s") auto
  then show "workload sv_weight (sv_tasks (sv_answer 0 a s)) < workload sv_weight (sv_tasks s)"
    by (cases t; cases a) (auto simp: sv_answer_def drop_nth_def sv_defs)
qed (simp add: sv_answer_def)

lemma vp_answers:
  "vp_views (fold vp_step (map (\<lambda>a. VViews (SvAnswer 0 a)) as) s) = fold (sv_answer 0) as (vp_views s)"
  by (induction as arbitrary: s) (simp_all add: sv_reached_def applied_view_def)

text \<open>
  The buttons of the saved views are disabled only while a request that lowers the flag is under way,
  and once the requests are answered, whatever the answers and whatever happened on the history page
  before, none is left and the buttons are enabled again.
\<close>

theorem views_settle:
  "(sv_busy (vp_views (vp_run key ops)) \<longrightarrow> under_way sv_kind () (sv_tasks (vp_views (vp_run key ops))) \<noteq> 0)
   \<and> (workload sv_weight (sv_tasks (vp_views (vp_run key ops))) \<le> length as \<longrightarrow>
      (let t = vp_views (vp_run key (ops @ map (\<lambda>a. VViews (SvAnswer 0 a)) as)) in sv_tasks t = [] \<and> \<not> sv_busy t))"
proof (intro conjI impI)
  have all: "list_all (\<lambda>_. True) ops" for ops :: "vp_op list" by (simp add: list_all_iff)
  show "sv_busy (vp_views (vp_run key ops)) \<Longrightarrow> under_way sv_kind () (sv_tasks (vp_views (vp_run key ops))) \<noteq> 0"
    using views_busy.run_backed [OF all, where ops = ops and key = key] by (simp add: vp_run_def)
  assume "workload sv_weight (sv_tasks (vp_views (vp_run key ops))) \<le> length as"
  from views_drain.drained [OF this]
  have rest: "sv_tasks (vp_views (vp_run key (ops @ map (\<lambda>a. VViews (SvAnswer 0 a)) as))) = []"
    by (simp add: vp_run_def vp_answers)
  then have "\<not> sv_busy (vp_views (vp_run key (ops @ map (\<lambda>a. VViews (SvAnswer 0 a)) as)))"
    using views_busy.at_rest [OF all, where key = key] unfolding vp_run_def by blast
  then show "let t = vp_views (vp_run key (ops @ map (\<lambda>a. VViews (SvAnswer 0 a)) as)) in sv_tasks t = [] \<and> \<not> sv_busy t"
    using rest by simp
qed

section \<open>Examples\<close>

definition ada_view :: ViewItem where
  "ada_view =
     \<lparr>vi_id = ''v1'', vi_name = ''ada'', vi_filters = \<lparr>vf_q = ''ada'', vf_tag = ''x'', vf_sort = sort_oldest, vf_starred = True\<rparr>,
      vi_created_at = 0, vi_updated_at = 0\<rparr>"

abbreviation ada_ops :: "vp_op list" where
  "ada_ops \<equiv> [VViews (SvAnswer 0 (SvGot (Some [ada_view])))]"

lemma ada_views: "sv_views (vp_views (vp_run ''k'' ada_ops)) = Some [ada_view]" "vp_key (vp_run ''k'' ada_ops) = ''k''"
  "sv_renamingId (vp_views (vp_run ''k'' ada_ops)) = None"
  by (simp_all add: vp_run_def vp_start_def sv_load_def sv_send_def sv_start_def sv_reached_def applied_view_def sv_answer_def
      drop_nth_def sv_resume_def sv_load_settle_def nullish_def)

theorem views_become_active_witness:
  "let t = vp_step (VViews (SvApply ''v1'')) (vp_run ''k'' ada_ops) in
     page_filters (vp_history t) = vi_filters ada_view \<and> \<not> canSave True (page_filters (vp_history t)) (vp_views t)"
proof -
  have app: "applied_view (SvApply ''v1'') (vp_views (vp_run ''k'' ada_ops)) = Some ada_view"
    by (simp add: applied_view_def ada_views view_named_def nullish_def) (simp add: ada_view_def)
  have key: "vp_key (vp_run ''k'' ada_ops) \<noteq> []" by (simp add: ada_views)
  from views_become_active [OF key, THEN conjunct1, THEN mp, OF app] show ?thesis
    unfolding Let_def by (elim conjE) (intro conjI)
qed

theorem views_settle_witness:
  "let t = vp_views (vp_run ''k'' ([] @ map (\<lambda>a. VViews (SvAnswer 0 a)) [SvBroke ''x''])) in sv_tasks t = [] \<and> \<not> sv_busy t"
proof -
  have "workload sv_weight (sv_tasks (vp_views (vp_run ''k'' []))) \<le> length [SvBroke ''x'']"
    by (simp add: vp_run_def vp_start_def sv_load_def sv_send_def sv_start_def)
  then show ?thesis using views_settle [of "''k''" "[]" "[SvBroke ''x'']"] by blast
qed

text \<open>The Enter key does not look at the flag: it posts the same view twice.\<close>

lemma view_saved_twice:
  "sv_tasks (sv_step True cur SvEnter (sv_step True cur SvEnter (sv_start\<lparr>sv_naming := True, sv_draft := ''a''\<rparr>))) = [SvSave, SvSave]"
  by (simp add: sv_save_def sv_send_def sv_start_def trim_def is_space_def Let_def)

end
