(* ===== verification/RulePages.thy ===== *)
theory RulePages
  imports Requests OEmbed
begin

text \<open>
  The settings pages that keep a list of rules: \<open>ip-allowlist\<close>, \<open>trusted-proxies\<close>, \<open>embed-origins\<close>,
  \<open>invite-domains\<close>, \<open>security-contacts\<close> and \<open>support-access\<close> under \<open>web/app/settings\<close>. Their handlers are the
  same but for what \<open>rules\<close> records: a rule is added by a form and acted on by the buttons of its row,
  the destructive ones by a click that asks and a click that confirms.
\<close>

section \<open>State\<close>

text \<open>
  A document \<open>'d\<close>, the fields \<open>'f\<close> of the forms, the actions \<open>'r\<close> of a row; a load knows the handler
  that awaits it.
\<close>

datatype rule_after = RuleNoMore | EndAdd | EndRow string

datatype 'r rule_task = RuleLoad rule_after | RuleAdd | RuleAct 'r string

record ('d, 'f, 'r) rule_page =
  ru_key :: string
  ru_state :: "'d page_state"
  ru_form :: 'f
  ru_creating :: bool
  ru_createError :: "json option"
  ru_busyId :: "string option"
  ru_confirmId :: "string option"
  ru_alerts :: "string list"
  ru_tasks :: "'r rule_task list"
  ru_sent :: "request list"

datatype row_outcome = Silently | Shown json | Alerted string

text \<open>
  What differs: the address, the fields at the start and after a creation, when one may be sent and its
  body, the message of a refused creation (\<^const>\<open>None\<close> when making it throws), whether an exception of it is
  shown; for the actions, which rows offer them, whether they ask first, their method, the rest of their
  address and their body, what becomes of a refusal, and the fields after success and after a cancel.
\<close>

record ('d, 'f, 'r) rules =
  rl_url :: string
  rl_blank :: 'f
  rl_cleared :: "'f \<Rightarrow> 'f"
  rl_may_add :: "'f \<Rightarrow> bool"
  rl_body :: "'f \<Rightarrow> json"
  rl_refusal :: "nat \<Rightarrow> json option \<Rightarrow> json option"
  rl_shows_exception :: bool
  rl_offers :: "'r \<Rightarrow> string \<Rightarrow> 'd \<Rightarrow> bool"
  rl_asks :: "'r \<Rightarrow> bool"
  rl_action :: "'r \<Rightarrow> string \<Rightarrow> 'f \<Rightarrow> string \<times> string \<times> json option"
  rl_row_refusal :: "'r \<Rightarrow> nat \<Rightarrow> string option \<Rightarrow> string \<Rightarrow> row_outcome"
  rl_acted :: "'r \<Rightarrow> 'f \<Rightarrow> 'f"
  rl_cancelled :: "'f \<Rightarrow> 'f"

text \<open>A refusal with its body as text (absent when it cannot be read), its status text, and its body as JSON.\<close>

datatype 'd rule_reply = RuleBroke string | RuleDenied nat "string option" string "json option" | RuleGot 'd

definition rule_headers :: "bool \<Rightarrow> string \<Rightarrow> (string \<times> string) list" where
  "rule_headers json k =
     (if json then [(''Content-Type'', ''application/json'')] else []) @ (if k \<noteq> [] then [(''X-API-Key'', k)] else [])"

definition rule_send ::
  "'r rule_task \<Rightarrow> string \<Rightarrow> string \<Rightarrow> json option \<Rightarrow> ('d, 'f, 'r) rule_page \<Rightarrow> ('d, 'f, 'r) rule_page" where
  "rule_send t m path body s =
     s\<lparr>ru_tasks := ru_tasks s @ [t],
       ru_sent := ru_sent s @
         [\<lparr>req_method = m, req_path = path, req_headers = rule_headers (body \<noteq> None) (ru_key s), req_payload = body\<rparr>]\<rparr>"

section \<open>Handlers\<close>

definition rule_refresh :: "('d, 'f, 'r) rules \<Rightarrow> rule_after \<Rightarrow> ('d, 'f, 'r) rule_page \<Rightarrow> ('d, 'f, 'r) rule_page" where
  "rule_refresh p aft s = rule_send (RuleLoad aft) ''GET'' (rl_url p) None (s\<lparr>ru_state := Loading\<rparr>)"

text \<open>A load catches what it throws, the reading of a refusal included (that is a \<^const>\<open>RuleBroke\<close>).\<close>

definition refresh_settle :: "'d rule_reply \<Rightarrow> ('d, 'f, 'r) rule_page \<Rightarrow> ('d, 'f, 'r) rule_page" where
  "refresh_settle a s =
     s\<lparr>ru_state :=
        (case a of
           RuleBroke m \<Rightarrow> Failed 0 m
         | RuleDenied st body statusText js \<Rightarrow> Failed st (or_str (nullish body []) statusText)
         | RuleGot d \<Rightarrow> Ready d)\<rparr>"

definition rule_end :: "rule_after \<Rightarrow> ('d, 'f, 'r) rule_page \<Rightarrow> ('d, 'f, 'r) rule_page" where
  "rule_end aft s =
     (case aft of RuleNoMore \<Rightarrow> s | EndAdd \<Rightarrow> s\<lparr>ru_creating := False\<rparr> | EndRow i \<Rightarrow> s\<lparr>ru_busyId := None\<rparr>)"

definition add_disabled :: "('d, 'f, 'r) rules \<Rightarrow> ('d, 'f, 'r) rule_page \<Rightarrow> bool" where
  "add_disabled p s \<longleftrightarrow> ru_creating s \<or> \<not> rl_may_add p (ru_form s)"

definition onCreate :: "('d, 'f, 'r) rules \<Rightarrow> ('d, 'f, 'r) rule_page \<Rightarrow> ('d, 'f, 'r) rule_page" where
  "onCreate p s =
     (if \<not> rl_may_add p (ru_form s) then s
      else rule_send RuleAdd ''POST'' (rl_url p) (Some (rl_body p (ru_form s)))
             (s\<lparr>ru_creating := True, ru_createError := None\<rparr>))"

definition add_settle :: "('d, 'f, 'r) rules \<Rightarrow> 'd rule_reply \<Rightarrow> ('d, 'f, 'r) rule_page \<Rightarrow> ('d, 'f, 'r) rule_page" where
  "add_settle p a s =
     (let thrown = (\<lambda>m. if rl_shows_exception p then s\<lparr>ru_createError := Some (JStr m), ru_creating := False\<rparr>
                        else s\<lparr>ru_creating := False\<rparr>) in
      case a of
        RuleBroke m \<Rightarrow> thrown m
      | RuleDenied st body statusText js \<Rightarrow>
          (case rl_refusal p st js of
             Some e \<Rightarrow> s\<lparr>ru_createError := Some e, ru_creating := False\<rparr>
           | None \<Rightarrow> thrown (''Cannot read properties of null (reading '' @ [CHR 0x27] @ ''detail'' @ [CHR 0x27] @ '')''))
      | RuleGot d \<Rightarrow> rule_refresh p EndAdd (s\<lparr>ru_form := rl_cleared p (ru_form s)\<rparr>))"

text \<open>\<open>onDelete\<close>, \<open>onPromote\<close>, \<open>onRevoke\<close>\<close>

definition onAction :: "('d, 'f, 'r) rules \<Rightarrow> 'r \<Rightarrow> string \<Rightarrow> ('d, 'f, 'r) rule_page \<Rightarrow> ('d, 'f, 'r) rule_page" where
  "onAction p r i s =
     (let (m, rest, body) = rl_action p r i (ru_form s) in
      rule_send (RuleAct r i) m (rl_url p @ rest) body (s\<lparr>ru_busyId := Some i\<rparr>))"

definition action_settle ::
  "('d, 'f, 'r) rules \<Rightarrow> 'r \<Rightarrow> string \<Rightarrow> 'd rule_reply \<Rightarrow> ('d, 'f, 'r) rule_page \<Rightarrow> ('d, 'f, 'r) rule_page" where
  "action_settle p r i a s =
     (case a of
        RuleBroke m \<Rightarrow> s\<lparr>ru_busyId := None\<rparr>
      | RuleDenied st body statusText js \<Rightarrow>
          (case rl_row_refusal p r st body statusText of
             Silently \<Rightarrow> s\<lparr>ru_busyId := None\<rparr>
           | Shown e \<Rightarrow> s\<lparr>ru_createError := Some e, ru_busyId := None\<rparr>
           | Alerted m \<Rightarrow> s\<lparr>ru_alerts := ru_alerts s @ [m], ru_busyId := None\<rparr>)
      | RuleGot d \<Rightarrow>
          rule_refresh p (EndRow i)
            (s\<lparr>ru_confirmId := (if rl_asks p r then None else ru_confirmId s), ru_form := rl_acted p r (ru_form s)\<rparr>))"

definition rule_resume ::
  "('d, 'f, 'r) rules \<Rightarrow> 'r rule_task \<Rightarrow> 'd rule_reply \<Rightarrow> ('d, 'f, 'r) rule_page \<Rightarrow> ('d, 'f, 'r) rule_page" where
  "rule_resume p t a s =
     (case t of
        RuleLoad aft \<Rightarrow> rule_end aft (refresh_settle a s)
      | RuleAdd \<Rightarrow> add_settle p a s
      | RuleAct r i \<Rightarrow> action_settle p r i a s)"

definition rule_answer :: "('d, 'f, 'r) rules \<Rightarrow> nat \<Rightarrow> 'd rule_reply \<Rightarrow> ('d, 'f, 'r) rule_page \<Rightarrow> ('d, 'f, 'r) rule_page" where
  "rule_answer p i a s =
     (if i < length (ru_tasks s) then rule_resume p (ru_tasks s ! i) a (s\<lparr>ru_tasks := drop_nth i (ru_tasks s)\<rparr>) else s)"

definition row_offers :: "('d, 'f, 'r) rules \<Rightarrow> 'r \<Rightarrow> string \<Rightarrow> ('d, 'f, 'r) rule_page \<Rightarrow> bool" where
  "row_offers p r i s \<longleftrightarrow> (case ru_state s of Ready d \<Rightarrow> rl_offers p r i d | _ \<Rightarrow> False)"

datatype ('d, 'f, 'r) rule_op =
  RuleForm 'f | RuleSubmit | RuleAsk 'r string | RuleClick 'r string | RuleCancel 'r string | RuleKey string
| RuleAnswer nat "'d rule_reply"

text \<open>An action that asks has its button while its row is the one that was asked for.\<close>

fun rule_step :: "('d, 'f, 'r) rules \<Rightarrow> ('d, 'f, 'r) rule_op \<Rightarrow> ('d, 'f, 'r) rule_page \<Rightarrow> ('d, 'f, 'r) rule_page" where
  "rule_step p (RuleForm f) s = s\<lparr>ru_form := f\<rparr>"
| "rule_step p RuleSubmit s = (if add_disabled p s then s else onCreate p s)"
| "rule_step p (RuleAsk r i) s =
     (if row_offers p r i s \<and> rl_asks p r \<and> ru_confirmId s \<noteq> Some i then s\<lparr>ru_confirmId := Some i\<rparr> else s)"
| "rule_step p (RuleClick r i) s =
     (if row_offers p r i s \<and> (rl_asks p r \<longrightarrow> ru_confirmId s = Some i) \<and> ru_busyId s \<noteq> Some i then onAction p r i s else s)"
| "rule_step p (RuleCancel r i) s =
     (if row_offers p r i s \<and> rl_asks p r \<and> ru_confirmId s = Some i
      then s\<lparr>ru_confirmId := None, ru_form := rl_cancelled p (ru_form s)\<rparr> else s)"
| "rule_step p (RuleKey k) s = (if k = ru_key s then s else rule_refresh p RuleNoMore (s\<lparr>ru_key := k\<rparr>))"
| "rule_step p (RuleAnswer i a) s = rule_answer p i a s"

text \<open>
  The first render loads; when a key is stored, the effect of \<open>useApiKey\<close> then changes the key of the hook
  from the empty one, which loads again. Both loads carry the stored key.
\<close>

definition rule_start :: "('d, 'f, 'r) rules \<Rightarrow> string \<Rightarrow> ('d, 'f, 'r) rule_page" where
  "rule_start p k =
     (let s = rule_refresh p RuleNoMore
        \<lparr>ru_key = k, ru_state = Loading, ru_form = rl_blank p, ru_creating = False, ru_createError = None,
         ru_busyId = None, ru_confirmId = None, ru_alerts = [], ru_tasks = [], ru_sent = []\<rparr>
      in if k = [] then s else rule_refresh p RuleNoMore s)"

definition rule_run :: "('d, 'f, 'r) rules \<Rightarrow> string \<Rightarrow> ('d, 'f, 'r) rule_op list \<Rightarrow> ('d, 'f, 'r) rule_page" where
  "rule_run p k ops = fold (rule_step p) ops (rule_start p k)"

section \<open>Messages\<close>

text \<open>\<open>body.detail || `Request failed (${r.status})`\<close>, where a body that is no JSON is read as \<open>{}\<close>.\<close>

definition request_failed :: "nat \<Rightarrow> string" where
  "request_failed st = ''Request failed ('' @ nat_digits st @ '')''"

definition any_detail :: "nat \<Rightarrow> json option \<Rightarrow> json option" where
  "any_detail st js =
     (case nullish js (JObj []) of
        JNull \<Rightarrow> None
      | v \<Rightarrow> (case field v ''detail'' of
                Some d \<Rightarrow> Some (if truthy (Some d) then d else JStr (request_failed st))
              | None \<Rightarrow> Some (JStr (request_failed st))))"

text \<open>The same when only a string counts as detail.\<close>

definition string_detail :: "nat \<Rightarrow> json option \<Rightarrow> json option" where
  "string_detail st js =
     (case nullish js (JObj []) of
        JNull \<Rightarrow> None
      | v \<Rightarrow> (case field v ''detail'' of
                Some (JStr d) \<Rightarrow> Some (JStr (or_str d (request_failed st)))
              | _ \<Rightarrow> Some (JStr (request_failed st))))"

text \<open>A refused removal: shown with the errors of the form, or dropped.\<close>

definition delete_message :: "unit \<Rightarrow> nat \<Rightarrow> string option \<Rightarrow> string \<Rightarrow> row_outcome" where
  "delete_message r st body statusText =
     (case body of
        None \<Rightarrow> Silently
      | Some m \<Rightarrow> Shown (JStr (or_str m (''Delete failed ('' @ nat_digits st @ '')''))))"

definition no_message :: "'r \<Rightarrow> nat \<Rightarrow> string option \<Rightarrow> string \<Rightarrow> row_outcome" where
  "no_message r st body statusText = Silently"

definition delete_action :: "unit \<Rightarrow> string \<Rightarrow> 'f \<Rightarrow> string \<times> string \<times> json option" where
  "delete_action r i f = (''DELETE'', ''/'' @ encodeURIComponent i, None)"

section \<open>Views\<close>

definition ru_ts :: "(rat \<Rightarrow> string) \<Rightarrow> rat \<Rightarrow> string" where
  "ru_ts toLocaleString ts = (if ts = 0 then [] else toLocaleString (ts * 1000))"

text \<open>\<open>{createError && ...}\<close>: a value that is no string is shown as its text.\<close>

definition createError_view :: "('d, 'f, 'r) rule_page \<Rightarrow> node list" where
  "createError_view s = (if truthy (ru_createError s) then [Text (shown_text (the (ru_createError s)))] else [])"

definition remove_view :: "('d, 'f, 'r) rule_page \<Rightarrow> string \<Rightarrow> node list" where
  "remove_view s i =
     (if ru_confirmId s = Some i
      then [Text ''Remove?'', Button (if ru_busyId s = Some i then ''Removing'' else ''Confirm'') (ru_busyId s = Some i),
            Button ''Cancel'' False]
      else [Button ''Remove'' False])"

definition cancel_view :: "('d, 'f, 'r) rule_page \<Rightarrow> string \<Rightarrow> node list" where
  "cancel_view s i =
     (if ru_confirmId s = Some i
      then [Button ''cancel'' False,
            Button (if ru_busyId s = Some i then ''removing'' else ''confirm remove'') (ru_busyId s = Some i)]
      else [Button ''remove'' False])"

section \<open>Address rules: ip-allowlist and trusted-proxies\<close>

record cidr_form =
  cf_cidr :: string
  cf_label :: string

record Rule =
  rule_id :: string
  rule_cidr :: string
  rule_label :: string
  rule_created_at :: rat

definition cidr_body :: "cidr_form \<Rightarrow> json" where
  "cidr_body f = JObj [(''cidr'', JStr (trim (cf_cidr f))), (''label'', JStr (trim (cf_label f)))]"

record AllowlistResp =
  al_enforcing :: bool
  al_rules :: "Rule list"
  al_your_ip :: string

definition ip_allowlist :: "(AllowlistResp, cidr_form, unit) rules" where
  "ip_allowlist =
     \<lparr>rl_url = ''/api/ip-allowlist'', rl_blank = \<lparr>cf_cidr = [], cf_label = []\<rparr>, rl_cleared = (\<lambda>f. \<lparr>cf_cidr = [], cf_label = []\<rparr>), rl_may_add = (\<lambda>f. trim (cf_cidr f) \<noteq> []), rl_body = cidr_body,
      rl_refusal = any_detail, rl_shows_exception = True,
      rl_offers = (\<lambda>r i d. i \<in> set (map rule_id (al_rules d))), rl_asks = (\<lambda>r. True), rl_action = delete_action,
      rl_row_refusal = delete_message, rl_acted = (\<lambda>r f. f), rl_cancelled = (\<lambda>f. f)\<rparr>"

record ProxiesResp =
  px_workspace_rules :: "Rule list"
  px_global_cidrs :: "string list"
  px_your_socket_peer :: string
  px_your_resolved_ip :: string
  px_peer_is_trusted :: bool

definition trusted_proxies :: "(ProxiesResp, cidr_form, unit) rules" where
  "trusted_proxies =
     \<lparr>rl_url = ''/api/trusted-proxies'', rl_blank = \<lparr>cf_cidr = [], cf_label = []\<rparr>, rl_cleared = (\<lambda>f. \<lparr>cf_cidr = [], cf_label = []\<rparr>), rl_may_add = (\<lambda>f. trim (cf_cidr f) \<noteq> []), rl_body = cidr_body,
      rl_refusal = any_detail, rl_shows_exception = True,
      rl_offers = (\<lambda>r i d. i \<in> set (map rule_id (px_workspace_rules d))), rl_asks = (\<lambda>r. True), rl_action = delete_action,
      rl_row_refusal = delete_message, rl_acted = (\<lambda>r f. f), rl_cancelled = (\<lambda>f. f)\<rparr>"

text \<open>The bullet of the source (U+2022) is written as a middle dot.\<close>

definition cidr_row_view :: "(rat \<Rightarrow> string) \<Rightarrow> ('d, cidr_form, unit) rule_page \<Rightarrow> Rule \<Rightarrow> node list" where
  "cidr_row_view loc s r =
     [Text (rule_cidr r),
      Text (or_str (rule_label r) ''no label'' @
        (if rule_created_at r \<noteq> 0 then '' '' @ [CHR 0xB7] @ '' added '' @ ru_ts loc (rule_created_at r) else []))]
     @ remove_view s (rule_id r)"

definition cidr_form_view :: "('d, cidr_form, unit) rules \<Rightarrow> string \<Rightarrow> string \<Rightarrow> string \<Rightarrow> ('d, cidr_form, unit) rule_page \<Rightarrow> node list" where
  "cidr_form_view p cidr_hint label_hint add s =
     [TextField cidr_hint (cf_cidr (ru_form s)), TextField label_hint (cf_label (ru_form s)),
      Button (if ru_creating s then ''Adding'' else add) (add_disabled p s)]
     @ createError_view s"

definition cidr_failed :: "string \<Rightarrow> string \<Rightarrow> nat \<Rightarrow> string" where
  "cidr_failed managed loaded st =
     (if st = 403 then ''Admin role required to manage '' @ managed @ ''.''
      else if st = 401 then ''Sign in with an admin API key to manage '' @ managed @ ''.''
      else ''Could not load '' @ loaded @ '' ('' @ (if st \<noteq> 0 then nat_digits st else ''network'') @ '').'')"

definition allowlist_view :: "(rat \<Rightarrow> string) \<Rightarrow> (AllowlistResp, cidr_form, unit) rule_page \<Rightarrow> node list" where
  "allowlist_view loc s =
     (case ru_state s of
        Ready d \<Rightarrow> [Text ''Your current IP looks like '', Text (al_your_ip d), Text (if al_enforcing d then ''Enforcing'' else ''Not enforcing'')]
      | _ \<Rightarrow> [])
     @ cidr_form_view ip_allowlist ''10.0.0.0/24'' ''office vpn (optional)'' ''Add rule'' s
     @ (case ru_state s of
          Loading \<Rightarrow> [Skeleton 2]
        | Failed st m \<Rightarrow> [Text (cidr_failed ''the allowlist'' ''rules'' st), Text m]
        | Ready d \<Rightarrow>
            if al_rules d = [] then [Text ''No rules configured. Every authenticated request is allowed.'']
            else concat (map (cidr_row_view loc s) (al_rules d)))"

definition peer_view :: "(ProxiesResp, cidr_form, unit) rule_page \<Rightarrow> node list" where
  "peer_view s =
     (case ru_state s of
        Ready d \<Rightarrow>
          [Text ''Socket peer '', Text (or_str (px_your_socket_peer d) ''unknown''), Text ''Resolved client '',
           Text (or_str (px_your_resolved_ip d) ''unknown''),
           Text (if px_peer_is_trusted d then ''Your socket peer is in the trusted set. X-Forwarded-For is being honoured.''
                 else ''Your socket peer is NOT trusted. Any X-Forwarded-For header you send is ignored.'')]
          @ (if px_global_cidrs d = [] then [Text ''None configured. The API is exposed directly and every X-Forwarded-For header is ignored.'']
             else map Text (px_global_cidrs d))
      | _ \<Rightarrow> [])"

definition proxies_view :: "(rat \<Rightarrow> string) \<Rightarrow> (ProxiesResp, cidr_form, unit) rule_page \<Rightarrow> node list" where
  "proxies_view loc s =
     peer_view s
     @ cidr_form_view trusted_proxies ''203.0.113.0/24'' ''self hosted ingress (optional)'' ''Add proxy'' s
     @ (case ru_state s of
          Loading \<Rightarrow> [Skeleton 2]
        | Failed st m \<Rightarrow> [Text (cidr_failed ''trusted proxies'' ''trusted proxies'' st), Text m]
        | Ready d \<Rightarrow>
            if px_workspace_rules d = [] then [Text ''No workspace proxies. Only the deployment global list is consulted.'']
            else concat (map (cidr_row_view loc s) (px_workspace_rules d)))"

section \<open>Origins\<close>

record origin_form =
  of_origin :: string
  of_label :: string

record OriginRow =
  or_id :: string
  or_origin :: string
  or_label :: string
  or_created_at :: rat

record OriginsResp =
  og_enforcing :: bool
  og_origins :: "OriginRow list"

definition embed_origins :: "(OriginsResp, origin_form, unit) rules" where
  "embed_origins =
     \<lparr>rl_url = ''/api/embed-origins'', rl_blank = \<lparr>of_origin = [], of_label = []\<rparr>, rl_cleared = (\<lambda>f. \<lparr>of_origin = [], of_label = []\<rparr>), rl_may_add = (\<lambda>f. trim (of_origin f) \<noteq> []),
      rl_body = (\<lambda>f. JObj [(''origin'', JStr (trim (of_origin f))), (''label'', JStr (trim (of_label f)))]),
      rl_refusal = any_detail, rl_shows_exception = False,
      rl_offers = (\<lambda>r i d. i \<in> set (map or_id (og_origins d))), rl_asks = (\<lambda>r. True), rl_action = delete_action,
      rl_row_refusal = no_message, rl_acted = (\<lambda>r f. f), rl_cancelled = (\<lambda>f. f)\<rparr>"

definition origin_row_view :: "(rat \<Rightarrow> string) \<Rightarrow> (OriginsResp, origin_form, unit) rule_page \<Rightarrow> OriginRow \<Rightarrow> node list" where
  "origin_row_view loc s r =
     [Text (or_origin r)] @ (if or_label r \<noteq> [] then [Text (or_label r)] else [])
     @ [Text (''added '' @ ru_ts loc (or_created_at r))] @ cancel_view s (or_id r)"

definition enforcing_view :: "bool \<Rightarrow> node list" where
  "enforcing_view on = [Badge on (if on then ''enforcing'' else ''no restriction'')]"

definition rules_state_view :: "string \<Rightarrow> string \<Rightarrow> ('d \<Rightarrow> node list list) \<Rightarrow> ('d, 'f, 'r) rule_page \<Rightarrow> node list" where
  "rules_state_view failed none rows s =
     (case ru_state s of
        Loading \<Rightarrow> [Skeleton 3]
      | Failed st m \<Rightarrow> [Text failed, Text (http_message st m)]
      | Ready d \<Rightarrow> if rows d = [] then [Text none] else concat (rows d))"

definition origins_view :: "(rat \<Rightarrow> string) \<Rightarrow> (OriginsResp, origin_form, unit) rule_page \<Rightarrow> node list" where
  "origins_view loc s =
     [TextField ''https://docs.acme.com'' (of_origin (ru_form s)), TextField ''label (optional)'' (of_label (ru_form s)),
      Button (if ru_creating s then ''adding'' else ''add'') (add_disabled embed_origins s)]
     @ createError_view s
     @ (case ru_state s of Ready d \<Rightarrow> enforcing_view (og_enforcing d) | _ \<Rightarrow> [])
     @ rules_state_view ''Could not load embed origins'' ''No origins yet. Any site can embed your shares.''
         (\<lambda>d. map (origin_row_view loc s) (og_origins d)) s"

section \<open>Domains\<close>

record domain_form =
  df_domain :: string
  df_label :: string
  df_includeSubdomains :: bool

record DomainRow =
  dr_id :: string
  dr_domain :: string
  dr_include_subdomains :: bool
  dr_label :: string
  dr_created_at :: rat

record DomainsResp =
  dm_enforcing :: bool
  dm_domains :: "DomainRow list"

definition invite_domains :: "(DomainsResp, domain_form, unit) rules" where
  "invite_domains =
     \<lparr>rl_url = ''/api/invite-domains'', rl_blank = \<lparr>df_domain = [], df_label = [], df_includeSubdomains = False\<rparr>, rl_cleared = (\<lambda>f. \<lparr>df_domain = [], df_label = [], df_includeSubdomains = False\<rparr>),
      rl_may_add = (\<lambda>f. trim (df_domain f) \<noteq> []),
      rl_body = (\<lambda>f. JObj [(''domain'', JStr (trim (df_domain f))), (''include_subdomains'', JBool (df_includeSubdomains f)),
                           (''label'', JStr (trim (df_label f)))]),
      rl_refusal = string_detail, rl_shows_exception = False,
      rl_offers = (\<lambda>r i d. i \<in> set (map dr_id (dm_domains d))), rl_asks = (\<lambda>r. True), rl_action = delete_action,
      rl_row_refusal = no_message, rl_acted = (\<lambda>r f. f), rl_cancelled = (\<lambda>f. f)\<rparr>"

definition domain_row_view :: "(rat \<Rightarrow> string) \<Rightarrow> (DomainsResp, domain_form, unit) rule_page \<Rightarrow> DomainRow \<Rightarrow> node list" where
  "domain_row_view loc s r =
     [Text ((if dr_include_subdomains r then ''*.'' else ''@'') @ dr_domain r)]
     @ (if dr_include_subdomains r then [Text ''subdomains''] else [])
     @ (if dr_label r \<noteq> [] then [Text (dr_label r)] else [])
     @ [Text (''added '' @ ru_ts loc (dr_created_at r))] @ cancel_view s (dr_id r)"

definition domains_view :: "(rat \<Rightarrow> string) \<Rightarrow> (DomainsResp, domain_form, unit) rule_page \<Rightarrow> node list" where
  "domains_view loc s =
     [TextField ''acme.com'' (df_domain (ru_form s)), TextField ''label (optional)'' (df_label (ru_form s)),
      Button (if ru_creating s then ''adding'' else ''add'') (add_disabled invite_domains s),
      Choice ''Include subdomains (alice@eu.acme.com matches acme.com)'' (df_includeSubdomains (ru_form s))]
     @ createError_view s
     @ (case ru_state s of Ready d \<Rightarrow> enforcing_view (dm_enforcing d) | _ \<Rightarrow> [])
     @ rules_state_view ''Could not load invite domains'' ''No domains yet. Invites accept any email address.''
         (\<lambda>d. map (domain_row_view loc s) (dm_domains d)) s"

section \<open>Contacts\<close>

record contact_form =
  ct_email :: string
  ct_name :: string
  ct_role :: string
  ct_phone :: string
  ct_primary :: bool

record ContactRow =
  co_id :: string
  co_email :: string
  co_name :: string
  co_role :: string
  co_phone :: string
  co_primary :: bool
  co_created_at :: rat

record ContactsResp =
  cs_contacts :: "ContactRow list"
  cs_primary_id :: "string option"
  cs_roles :: "string list"

datatype contact_act = ContactRemove | ContactPromote

definition contact_blank :: contact_form where
  "contact_blank = \<lparr>ct_email = [], ct_name = [], ct_role = ''security'', ct_phone = [], ct_primary = False\<rparr>"

fun contact_action :: "contact_act \<Rightarrow> string \<Rightarrow> contact_form \<Rightarrow> string \<times> string \<times> json option" where
  "contact_action ContactRemove i f = (''DELETE'', ''/'' @ encodeURIComponent i, None)"
| "contact_action ContactPromote i f = (''POST'', ''/'' @ encodeURIComponent i @ ''/primary'', None)"

definition contact_body :: "contact_form \<Rightarrow> json" where
  "contact_body f =
     JObj [(''email'', JStr (trim (ct_email f))), (''name'', JStr (trim (ct_name f))), (''role'', JStr (trim (ct_role f))),
           (''phone'', JStr (trim (ct_phone f))), (''primary'', JBool (ct_primary f))]"

definition contact_offers :: "contact_act \<Rightarrow> string \<Rightarrow> ContactsResp \<Rightarrow> bool" where
  "contact_offers r i d \<longleftrightarrow> list_ex (\<lambda>c. co_id c = i \<and> (r = ContactPromote \<longrightarrow> \<not> co_primary c)) (cs_contacts d)"

definition security_contacts :: "(ContactsResp, contact_form, contact_act) rules" where
  "security_contacts =
     \<lparr>rl_url = ''/api/security-contacts'', rl_blank = contact_blank, rl_cleared = (\<lambda>f. contact_blank),
      rl_may_add = (\<lambda>f. trim (ct_email f) \<noteq> []), rl_body = contact_body, rl_refusal = any_detail, rl_shows_exception = False,
      rl_offers = contact_offers, rl_asks = (\<lambda>r. r = ContactRemove), rl_action = contact_action,
      rl_row_refusal = no_message, rl_acted = (\<lambda>r f. f), rl_cancelled = (\<lambda>f. f)\<rparr>"

definition DEFAULT_ROLES :: "string list" where
  "DEFAULT_ROLES = [''security'', ''privacy'', ''legal'', ''ops'']"

definition contact_roles :: "(ContactsResp, contact_form, contact_act) rule_page \<Rightarrow> string list" where
  "contact_roles s = (case ru_state s of Ready d \<Rightarrow> if cs_roles d \<noteq> [] then cs_roles d else DEFAULT_ROLES | _ \<Rightarrow> DEFAULT_ROLES)"

definition contact_row_view :: "(rat \<Rightarrow> string) \<Rightarrow> (ContactsResp, contact_form, contact_act) rule_page \<Rightarrow> ContactRow \<Rightarrow> node list" where
  "contact_row_view loc s c =
     (if co_primary c then [Text ''primary''] else [])
     @ [Text (or_str (co_name c) (co_email c)), Text (co_role c), Text (co_email c)]
     @ (if co_phone c \<noteq> [] then [Text (co_phone c)] else []) @ [Text (''added '' @ ru_ts loc (co_created_at c))]
     @ (if \<not> co_primary c then [Button ''make primary'' (ru_busyId s = Some (co_id c))] else []) @ cancel_view s (co_id c)"

definition contacts_view :: "(rat \<Rightarrow> string) \<Rightarrow> (ContactsResp, contact_form, contact_act) rule_page \<Rightarrow> node list" where
  "contacts_view loc s =
     [TextField ''soc@acme.com'' (ct_email (ru_form s)), TextField ''SOC Team'' (ct_name (ru_form s))]
     @ map (\<lambda>r. Choice r (r = ct_role (ru_form s))) (contact_roles s)
     @ [TextField ''+1 555 0100'' (ct_phone (ru_form s)),
        Choice ''Mark as primary contact (the previous primary will be demoted)'' (ct_primary (ru_form s)),
        Button (if ru_creating s then ''adding'' else ''add contact'') (add_disabled security_contacts s)]
     @ createError_view s
     @ (case ru_state s of Ready d \<Rightarrow> [Text (nat_digits (length (cs_contacts d)) @ '' on file'')] | _ \<Rightarrow> [])
     @ rules_state_view ''Could not load contacts''
         ''No security contacts yet. Add at least one so we can reach you during an incident.''
         (\<lambda>d. map (contact_row_view loc s) (cs_contacts d)) s"

section \<open>Support grants\<close>

text \<open>The form and, beside it, the reason typed into the row that is asked for.\<close>

record grant_form =
  gf_actor :: string
  gf_scope :: string
  gf_ttlSec :: rat
  gf_reason :: string
  gf_revokeReason :: string

record GrantRow =
  gr_id :: string
  gr_tenant_id :: string
  gr_support_actor :: string
  gr_scope :: string
  gr_reason :: string
  gr_created_at :: rat
  gr_expires_at :: rat
  gr_created_by :: string
  gr_active :: bool
  gr_revoked_at :: "rat option"
  gr_revoked_by :: "string option"
  gr_revoke_reason :: "string option"

record GrantsResp =
  gs_grants :: "GrantRow list"
  gs_active_count :: rat
  gs_max_ttl_seconds :: rat
  gs_default_ttl_seconds :: rat
  gs_allowed_scopes :: "string list"

definition TTL_PRESETS :: "(string \<times> rat) list" where
  "TTL_PRESETS =
     [(''1 hour'', 3600), (''8 hours'', 8 * 3600), (''24 hours'', 24 * 3600), (''3 days'', 3 * 24 * 3600),
      (''7 days'', 7 * 24 * 3600)]"

definition grant_cleared :: "grant_form \<Rightarrow> grant_form" where
  "grant_cleared f = f\<lparr>gf_actor := [], gf_reason := [], gf_scope := ''read'', gf_ttlSec := 24 * 3600\<rparr>"

definition grant_body :: "grant_form \<Rightarrow> json" where
  "grant_body f =
     JObj [(''support_actor'', JStr (trim (gf_actor f))), (''scope'', JStr (gf_scope f)), (''reason'', JStr (trim (gf_reason f))),
           (''ttl_seconds'', JNum (Fin (gf_ttlSec f)))]"

text \<open>\<open>(body && typeof body.detail === "string" && body.detail) || ...\<close>\<close>

definition grant_refusal :: "nat \<Rightarrow> json option \<Rightarrow> json option" where
  "grant_refusal st js =
     Some (JStr (case field (nullish js (JObj [])) ''detail'' of
        Some (JStr d) \<Rightarrow> or_str d (''request failed ('' @ nat_digits st @ '')'')
      | _ \<Rightarrow> ''request failed ('' @ nat_digits st @ '')''))"

definition revoke_refusal :: "unit \<Rightarrow> nat \<Rightarrow> string option \<Rightarrow> string \<Rightarrow> row_outcome" where
  "revoke_refusal r st body statusText =
     (case body of None \<Rightarrow> Silently | Some m \<Rightarrow> Alerted (''revoke failed: '' @ or_str m statusText))"

definition support_access :: "(GrantsResp, grant_form, unit) rules" where
  "support_access =
     \<lparr>rl_url = ''/api/support-grants'',
      rl_blank = \<lparr>gf_actor = [], gf_scope = ''read'', gf_ttlSec = 24 * 3600, gf_reason = [], gf_revokeReason = []\<rparr>,
      rl_cleared = grant_cleared, rl_may_add = (\<lambda>f. trim (gf_actor f) \<noteq> [] \<and> trim (gf_reason f) \<noteq> []),
      rl_body = grant_body, rl_refusal = grant_refusal, rl_shows_exception = True,
      rl_offers = (\<lambda>r i d. list_ex (\<lambda>g. gr_id g = i \<and> gr_active g) (gs_grants d)), rl_asks = (\<lambda>r. True),
      rl_action = (\<lambda>r i f. (''POST'', ''/'' @ i @ ''/revoke'', Some (JObj [(''reason'', JStr (trim (gf_revokeReason f)))]))),
      rl_row_refusal = revoke_refusal, rl_acted = (\<lambda>r f. f\<lparr>gf_revokeReason := []\<rparr>), rl_cancelled = (\<lambda>f. f\<lparr>gf_revokeReason := []\<rparr>)\<rparr>"

definition formatRemaining :: "rat \<Rightarrow> rat \<Rightarrow> string" where
  "formatRemaining expires now =
     (let sec = max 0 (expires - now); n = floor sec in
      if sec \<ge> 86400 then int_to_string (n div 86400) @ ''d '' @ int_to_string (n mod 86400 div 3600) @ ''h left''
      else if sec \<ge> 3600 then int_to_string (n div 3600) @ ''h '' @ int_to_string (n mod 3600 div 60) @ ''m left''
      else if sec \<ge> 60 then int_to_string (n div 60) @ ''m left''
      else int_to_string n @ ''s left'')"

definition grant_ts :: "(rat \<Rightarrow> string) \<Rightarrow> rat option \<Rightarrow> string" where
  "grant_ts loc ts = (case ts of None \<Rightarrow> [] | Some t \<Rightarrow> ru_ts loc t)"

definition activeGrants :: "GrantsResp \<Rightarrow> GrantRow list" where
  "activeGrants d = filter gr_active (gs_grants d)"

definition historicalGrants :: "GrantsResp \<Rightarrow> GrantRow list" where
  "historicalGrants d = filter (\<lambda>g. \<not> gr_active g) (gs_grants d)"

definition grant_row_view :: "(rat \<Rightarrow> string) \<Rightarrow> rat \<Rightarrow> (GrantsResp, grant_form, unit) rule_page \<Rightarrow> GrantRow \<Rightarrow> node list" where
  "grant_row_view loc now s g =
     [Text (gr_support_actor g), Text (gr_scope g),
      Text (formatRemaining (gr_expires_at g) now @ '' (expires '' @ ru_ts loc (gr_expires_at g) @ '')''),
      Text (gr_reason g @ '' granted by '' @ or_str (gr_created_by g) ''admin'' @ '' at '' @ ru_ts loc (gr_created_at g)),
      Text (''id '' @ gr_id g)]
     @ (if ru_confirmId s = Some (gr_id g)
        then [TextField ''incident closed'' (gf_revokeReason (ru_form s)),
              Button (if ru_busyId s = Some (gr_id g) then ''revoking...'' else ''confirm revoke'') (ru_busyId s = Some (gr_id g)),
              Button ''cancel'' False]
        else [Button ''revoke'' False])"

definition past_grant_view :: "(rat \<Rightarrow> string) \<Rightarrow> GrantRow \<Rightarrow> node list" where
  "past_grant_view loc g =
     [Text (gr_support_actor g), Text (gr_scope g),
      Text (if nullish (gr_revoked_at g) 0 \<noteq> 0
            then ''revoked '' @ grant_ts loc (gr_revoked_at g) @ '' by '' @ or_str (nullish (gr_revoked_by g) []) ''admin''
            else ''expired '' @ ru_ts loc (gr_expires_at g)),
      Text (gr_reason g)]"

definition grant_form_view :: "(GrantsResp, grant_form, unit) rule_page \<Rightarrow> node list" where
  "grant_form_view s =
     [TextField ''alice@clawhum.com'' (gf_actor (ru_form s)), Choice ''read'' (gf_scope (ru_form s) = ''read''),
      Choice ''write'' (gf_scope (ru_form s) = ''write'')]
     @ map (\<lambda>(l, n). Choice l (n = gf_ttlSec (ru_form s))) TTL_PRESETS
     @ [TextField ''Debug failing match runs for incident #1234'' (gf_reason (ru_form s))] @ createError_view s
     @ [Button (if ru_creating s then ''granting...'' else ''grant access'') (add_disabled support_access s)]"

definition grants_view :: "(rat \<Rightarrow> string) \<Rightarrow> rat \<Rightarrow> (GrantsResp, grant_form, unit) rule_page \<Rightarrow> node list" where
  "grants_view loc now s =
     (case ru_state s of
        Ready d \<Rightarrow> [Text (num_to_string (gs_active_count d) @ '' active / '' @ nat_digits (length (gs_grants d)) @ '' total'')]
      | _ \<Rightarrow> [])
     @ grant_form_view s
     @ (case ru_state s of
          Loading \<Rightarrow> [Skeleton 2]
        | Failed st m \<Rightarrow> [Text (or_str m (''status '' @ nat_digits st))]
        | Ready d \<Rightarrow>
            (if activeGrants d = [] then [Text ''no active grants. support staff cannot touch this workspace.'']
             else concat (map (grant_row_view loc now s) (activeGrants d)))
            @ (if historicalGrants d = [] then []
               else Text (nat_digits (length (historicalGrants d)) @ '' expired or revoked'')
                 # concat (map (past_grant_view loc) (historicalGrants d))))"

end
