(* ===== verification/RuleLaws.thy ===== *)
theory RuleLaws
  imports RulePages
begin

text \<open>
  The laws of the pages that keep lists of rules, for every such page \<open>p\<close>: what stands behind their
  flags, how they come to rest, and that every request that changes something was meant.
\<close>

section \<open>Creations\<close>

fun adding :: "'r rule_task \<Rightarrow> unit option" where
  "adding RuleAdd = Some ()"
| "adding (RuleLoad EndAdd) = Some ()"
| "adding _ = None"

lemmas rule_defs = rule_send_def rule_refresh_def refresh_settle_def rule_end_def

lemma rule_resume_adds:
  "flight_move (ru_creating s) (under_way adding u (ru_tasks s) + (if adding t = Some u then 1 else 0))
     (ru_creating (rule_resume p t a s)) (under_way adding u (ru_tasks (rule_resume p t a s)))"
proof (cases t)
  case (RuleLoad aft)
  then show ?thesis by (cases aft; cases u) (simp_all add: rule_resume_def rule_defs flight_move_def)
next
  case RuleAdd
  then show ?thesis
    by (cases a; cases u) (auto simp: rule_resume_def add_settle_def rule_defs flight_move_def Let_def split: option.split)
next
  case (RuleAct r i)
  then show ?thesis
    by (cases a; cases u) (auto simp: rule_resume_def action_settle_def rule_defs flight_move_def split: row_outcome.split)
qed

lemma rule_answer_cases:
  "i < length (ru_tasks s) \<Longrightarrow> rule_answer p i a s = rule_resume p (ru_tasks s ! i) a (s\<lparr>ru_tasks := drop_nth i (ru_tasks s)\<rparr>)"
  "\<not> i < length (ru_tasks s) \<Longrightarrow> rule_answer p i a s = s"
  by (simp_all add: rule_answer_def)

lemma onAction_simps [simp]:
  "ru_creating (onAction p r i s) = ru_creating s" "ru_busyId (onAction p r i s) = Some i"
  "ru_tasks (onAction p r i s) = ru_tasks s @ [RuleAct r i]" "ru_confirmId (onAction p r i s) = ru_confirmId s"
  by (simp_all add: onAction_def rule_send_def split: prod.split)

lemma rule_adds:
  "flight_move (ru_creating s) (under_way adding u (ru_tasks s)) (ru_creating (rule_step p op s))
     (under_way adding u (ru_tasks (rule_step p op s)))"
proof (cases op)
  case (RuleAnswer i a)
  show ?thesis
  proof (cases "i < length (ru_tasks s)")
    case True
    then show ?thesis
      using RuleAnswer rule_resume_adds [of "s\<lparr>ru_tasks := drop_nth i (ru_tasks s)\<rparr>" u "ru_tasks s ! i" p a]
      by (simp add: rule_answer_cases under_way_drop [OF True, of adding])
  qed (use RuleAnswer in \<open>simp add: rule_answer_cases flight_move_def\<close>)
next
  case RuleSubmit
  then show ?thesis by (cases u) (simp add: flight_move_def onCreate_def add_disabled_def rule_send_def)
next
  case (RuleKey k)
  then show ?thesis by (simp add: flight_move_def rule_defs)
qed (simp_all add: flight_move_def)

interpretation rule_creations: flights "rule_step p" "rule_start p k" ru_tasks adding "\<lambda>_. ru_creating" "\<lambda>_. True" "\<lambda>_. True"
  by unfold_locales (simp_all add: rule_adds, simp add: rule_start_def rule_defs Let_def)

section \<open>Busy rows\<close>

fun row_of :: "'r rule_task \<Rightarrow> string option" where
  "row_of (RuleAct r i) = Some i"
| "row_of (RuleLoad (EndRow i)) = Some i"
| "row_of _ = None"

definition row_busy :: "string \<Rightarrow> ('d, 'f, 'r) rule_page \<Rightarrow> bool" where
  "row_busy i s \<longleftrightarrow> ru_busyId s = Some i"

definition backed_move :: "bool \<Rightarrow> nat \<Rightarrow> bool \<Rightarrow> nat \<Rightarrow> bool" where
  "backed_move f n f' n' \<longleftrightarrow> (f' \<longrightarrow> n' \<noteq> 0 \<or> f \<and> n' = n)"

lemma rule_resume_rows:
  "backed_move (row_busy i s) (under_way row_of i (ru_tasks s) + (if row_of t = Some i then 1 else 0))
     (row_busy i (rule_resume p t a s)) (under_way row_of i (ru_tasks (rule_resume p t a s)))"
proof (cases t)
  case (RuleLoad aft)
  then show ?thesis by (cases aft) (simp_all add: rule_resume_def rule_defs backed_move_def row_busy_def)
next
  case RuleAdd
  then show ?thesis
    by (cases a) (auto simp: rule_resume_def add_settle_def rule_defs backed_move_def row_busy_def Let_def split: option.split)
next
  case (RuleAct r j)
  then show ?thesis
    by (cases a) (auto simp: rule_resume_def action_settle_def rule_defs backed_move_def row_busy_def split: row_outcome.split)
qed

lemma rule_rows:
  "backed_move (row_busy i s) (under_way row_of i (ru_tasks s)) (row_busy i (rule_step p op s))
     (under_way row_of i (ru_tasks (rule_step p op s)))"
proof (cases op)
  case (RuleAnswer j a)
  show ?thesis
  proof (cases "j < length (ru_tasks s)")
    case True
    have "row_busy i (s\<lparr>ru_tasks := ts\<rparr>) = row_busy i s" for ts by (simp add: row_busy_def)
    then show ?thesis
      using True RuleAnswer rule_resume_rows [of i "s\<lparr>ru_tasks := drop_nth j (ru_tasks s)\<rparr>" "ru_tasks s ! j" p a]
      by (simp add: rule_answer_cases under_way_drop [OF True, of row_of])
  qed (use RuleAnswer in \<open>simp add: rule_answer_cases backed_move_def\<close>)
qed (simp_all add: backed_move_def row_busy_def onCreate_def rule_defs)

interpretation rule_rows: backed "rule_step p" "rule_start p k" ru_tasks row_of row_busy "\<lambda>_. True" "\<lambda>_. True"
proof unfold_locales
  fix s :: "('a, 'b, 'c) rule_page" and op i
  show "row_busy i (rule_step p op s) \<Longrightarrow> under_way row_of i (ru_tasks (rule_step p op s)) \<noteq> 0 \<or>
      row_busy i s \<and> under_way row_of i (ru_tasks (rule_step p op s)) = under_way row_of i (ru_tasks s)"
    using rule_rows [of i s p op] by (simp add: backed_move_def)
qed (simp_all add: row_busy_def rule_start_def rule_defs Let_def split: if_splits)

section \<open>Coming to rest\<close>

fun rule_weight :: "'r rule_task \<Rightarrow> nat" where
  "rule_weight (RuleLoad aft) = 1"
| "rule_weight _ = 2"

lemma rule_resume_weight: "workload rule_weight (ru_tasks (rule_resume p t a s)) < workload rule_weight (ru_tasks s) + rule_weight t"
proof (cases t)
  case (RuleLoad aft)
  then show ?thesis by (cases aft) (simp_all add: rule_resume_def rule_defs)
next
  case RuleAdd
  then show ?thesis by (cases a) (auto simp: rule_resume_def add_settle_def rule_defs Let_def split: option.split)
next
  case (RuleAct r i)
  then show ?thesis by (cases a) (auto simp: rule_resume_def action_settle_def rule_defs split: row_outcome.split)
qed

interpretation rule_drain: draining "rule_answer p 0" ru_tasks rule_weight
proof unfold_locales
  show "0 < rule_weight t" for t :: "'c rule_task" by (cases t) simp_all
  fix s :: "('a, 'b, 'c) rule_page" and a
  assume "ru_tasks s \<noteq> []"
  then obtain t ts where "ru_tasks s = t # ts" by (cases "ru_tasks s") auto
  then show "workload rule_weight (ru_tasks (rule_answer p 0 a s)) < workload rule_weight (ru_tasks s)"
    using rule_resume_weight [of p t a "s\<lparr>ru_tasks := ts\<rparr>"] by (simp add: rule_answer_def drop_nth_def)
qed (simp add: rule_answer_def)

lemma rule_answers: "fold (rule_answer p 0) as (rule_run p k ops) = rule_run p k (ops @ map (RuleAnswer 0) as)"
proof -
  have "fold (rule_answer p 0) as s = fold (rule_step p) (map (RuleAnswer 0) as) s" for s
    by (induction as arbitrary: s) simp_all
  then show ?thesis by (simp add: rule_run_def)
qed

text \<open>
  On every page of rules at most one creation is under way, its reload included, exactly while the page
  says so; a row is busy only while a request of its own is under way; and the page comes to rest:
  once its requests are answered, whatever the answers, none is left, no row is busy and a rule can be
  added again.
\<close>

theorem rule_pages_settle:
  "under_way adding () (ru_tasks (rule_run p k ops)) = (if ru_creating (rule_run p k ops) then 1 else 0) \<and>
   (ru_busyId (rule_run p k ops) = Some i \<longrightarrow> under_way row_of i (ru_tasks (rule_run p k ops)) \<noteq> 0) \<and>
   (workload rule_weight (ru_tasks (rule_run p k ops)) \<le> length as \<longrightarrow>
     (let t = fold (rule_answer p 0) as (rule_run p k ops) in ru_tasks t = [] \<and> \<not> ru_creating t \<and> ru_busyId t = None))"
proof (intro conjI impI)
  have all: "list_all (\<lambda>_. True) ops" for ops by (simp add: list_all_iff)
  show "under_way adding () (ru_tasks (rule_run p k ops)) = (if ru_creating (rule_run p k ops) then 1 else 0)"
    unfolding rule_run_def using rule_creations.one_flight [OF all] .
  show "under_way row_of i (ru_tasks (rule_run p k ops)) \<noteq> 0" if "ru_busyId (rule_run p k ops) = Some i"
    using rule_rows.run_backed [OF all, of i p ops k] that by (simp add: row_busy_def rule_run_def)
  assume "workload rule_weight (ru_tasks (rule_run p k ops)) \<le> length as"
  then have empty: "ru_tasks (fold (rule_answer p 0) as (rule_run p k ops)) = []" by (rule rule_drain.drained)
  let ?t = "rule_run p k (ops @ map (RuleAnswer 0) as)"
  have rest: "ru_tasks ?t = []" using empty by (simp add: rule_answers)
  have "\<not> ru_creating ?t" using rule_creations.at_rest [OF all] rest unfolding rule_run_def by blast
  moreover have "\<not> row_busy i ?t" for i using rule_rows.at_rest [OF all] rest unfolding rule_run_def by blast
  ultimately show "let t = fold (rule_answer p 0) as (rule_run p k ops) in ru_tasks t = [] \<and> \<not> ru_creating t \<and> ru_busyId t = None"
    using rest by (auto simp: rule_answers row_busy_def)
qed

theorem rule_pages_settle_witness:
  "let t = fold (rule_answer ip_allowlist 0) [RuleBroke ''offline'', RuleBroke ''offline''] (rule_run ip_allowlist ''k'' []) in
     ru_tasks t = [] \<and> \<not> ru_creating t \<and> ru_busyId t = None"
proof -
  have "workload rule_weight (ru_tasks (rule_run ip_allowlist ''k'' [])) \<le> length [RuleBroke ''offline'', RuleBroke ''offline'' :: AllowlistResp rule_reply]"
    by (simp add: rule_run_def rule_start_def rule_defs Let_def)
  then show ?thesis using rule_pages_settle [of ip_allowlist "''k''" "[]" _ "[RuleBroke ''offline'', RuleBroke ''offline'']"] by blast
qed

section \<open>Requests that are meant\<close>

definition act_request :: "('d, 'f, 'r) rules \<Rightarrow> 'r \<Rightarrow> string \<Rightarrow> ('d, 'f, 'r) rule_page \<Rightarrow> request" where
  "act_request p x i s =
     (let (m, rest, body) = rl_action p x i (ru_form s) in
      \<lparr>req_method = m, req_path = rl_url p @ rest, req_headers = rule_headers (body \<noteq> None) (ru_key s), req_payload = body\<rparr>)"

definition add_request :: "('d, 'f, 'r) rules \<Rightarrow> ('d, 'f, 'r) rule_page \<Rightarrow> request" where
  "add_request p s =
     \<lparr>req_method = ''POST'', req_path = rl_url p, req_headers = rule_headers True (ru_key s), req_payload = Some (rl_body p (ru_form s))\<rparr>"

lemma rule_resume_sends:
  "\<exists>rs. ru_sent (rule_resume p t a s) = ru_sent s @ rs \<and> (\<forall>r\<in>set rs. req_method r = ''GET'')"
proof (cases t)
  case (RuleLoad aft)
  then show ?thesis by (cases aft) (simp_all add: rule_resume_def rule_defs)
next
  case RuleAdd
  then show ?thesis by (cases a) (auto simp: rule_resume_def add_settle_def rule_defs Let_def split: option.split)
next
  case (RuleAct r i)
  then show ?thesis by (cases a) (auto simp: rule_resume_def action_settle_def rule_defs split: row_outcome.split)
qed

definition meant :: "('d, 'f, 'r) rules \<Rightarrow> ('d, 'f, 'r) rule_page \<Rightarrow> ('d, 'f, 'r) rule_op \<Rightarrow> request \<Rightarrow> bool" where
  "meant p s op r \<longleftrightarrow>
     req_method r = ''GET'' \<or>
     op = RuleSubmit \<and> r = add_request p s \<and> rl_may_add p (ru_form s) \<and> \<not> ru_creating s \<or>
     (\<exists>x i. op = RuleClick x i \<and> r = act_request p x i s \<and> row_offers p x i s \<and> ru_busyId s \<noteq> Some i \<and>
        (rl_asks p x \<longrightarrow> ru_confirmId s = Some i))"

lemma rule_sends: "\<exists>rs. ru_sent (rule_step p op s) = ru_sent s @ rs \<and> (\<forall>r\<in>set rs. meant p s op r)"
proof (cases op)
  case (RuleAnswer i a)
  show ?thesis
  proof (cases "i < length (ru_tasks s)")
    case True
    then show ?thesis
      using RuleAnswer rule_resume_sends [of p "ru_tasks s ! i" a "s\<lparr>ru_tasks := drop_nth i (ru_tasks s)\<rparr>"]
      by (auto simp: rule_answer_cases meant_def)
  qed (use RuleAnswer in \<open>simp add: rule_answer_cases\<close>)
next
  case RuleSubmit
  then show ?thesis by (simp add: onCreate_def add_disabled_def rule_send_def meant_def add_request_def)
next
  case (RuleClick x i)
  then show ?thesis by (auto simp: onAction_def rule_send_def meant_def act_request_def split: prod.split)
qed (simp_all add: rule_defs meant_def)

lemma resume_confirm: "ru_confirmId (rule_resume p t a s) \<in> {None, ru_confirmId s}"
proof (cases t)
  case (RuleLoad aft)
  then show ?thesis by (cases aft) (simp_all add: rule_resume_def rule_defs)
next
  case RuleAdd
  then show ?thesis by (cases a) (auto simp: rule_resume_def add_settle_def rule_defs Let_def split: option.split)
next
  case (RuleAct r i)
  then show ?thesis by (cases a) (auto simp: rule_resume_def action_settle_def rule_defs split: row_outcome.split)
qed

lemma step_confirm:
  "ru_confirmId (rule_step p op s) = Some i \<Longrightarrow> ru_confirmId s = Some i \<or> (\<exists>x. op = RuleAsk x i \<and> row_offers p x i s)"
proof (cases op)
  case (RuleAnswer j a)
  assume "ru_confirmId (rule_step p op s) = Some i"
  then show ?thesis
    using RuleAnswer resume_confirm [of p "ru_tasks s ! j" a "s\<lparr>ru_tasks := drop_nth j (ru_tasks s)\<rparr>"]
    by (cases "j < length (ru_tasks s)") (auto simp: rule_answer_cases)
qed (auto simp: onCreate_def rule_defs split: if_splits)

lemma rule_run_snoc: "rule_run p k (ops @ [op]) = rule_step p op (rule_run p k ops)"
  by (simp add: rule_run_def)

lemma confirm_asked: "ru_confirmId (rule_run p k ops) = Some i \<Longrightarrow> \<exists>x. RuleAsk x i \<in> set ops"
proof (induction ops rule: rev_induct)
  case (snoc op ops)
  then show ?case using step_confirm [of p op "rule_run p k ops" i] by (auto simp: rule_run_snoc)
qed (simp add: rule_run_def rule_start_def rule_defs Let_def split: if_splits)

interpretation rule_log: logging "rule_step p" ru_sent "meant p"
  by unfold_locales (rule rule_sends)

lemma rule_start_sent: "r \<in> set (ru_sent (rule_start p k)) \<Longrightarrow> req_method r = ''GET''"
  by (auto simp: rule_start_def rule_defs Let_def split: if_splits)

lemma rule_run_sends:
  "r \<in> set (ru_sent (rule_run p k ops)) \<Longrightarrow>
     req_method r = ''GET'' \<or> (\<exists>pre op post. ops = pre @ op # post \<and> meant p (rule_run p k pre) op r)"
  using rule_log.run_log [of r p ops "rule_start p k"] rule_start_sent [of r p k] unfolding rule_run_def by blast

text \<open>A request that takes something away: a deletion or a revocation.\<close>

definition removes :: "request \<Rightarrow> bool" where
  "removes r \<longleftrightarrow> req_method r = ''DELETE'' \<or> req_method r = ''POST'' \<and> suffix ''/revoke'' (req_path r)"

text \<open>
  It is the answer to a question: the confirming button of a row that was listed and offered it sent it,
  while that row was the one asked about, and it was asked about by an earlier click.
\<close>

definition confirmed :: "('d, 'f, 'r) rules \<Rightarrow> string \<Rightarrow> ('d, 'f, 'r) rule_op list \<Rightarrow> request \<Rightarrow> bool" where
  "confirmed p k ops r \<longleftrightarrow>
     (\<exists>pre x i post. ops = pre @ RuleClick x i # post \<and> r = act_request p x i (rule_run p k pre) \<and>
        row_offers p x i (rule_run p k pre) \<and> ru_confirmId (rule_run p k pre) = Some i \<and>
        (\<exists>y. RuleAsk y i \<in> set pre))"

definition removals_confirmed :: "('d, 'f, 'r) rules \<Rightarrow> string \<Rightarrow> ('d, 'f, 'r) rule_op list \<Rightarrow> bool" where
  "removals_confirmed p k ops \<longleftrightarrow> (\<forall>r\<in>set (ru_sent (rule_run p k ops)). removes r \<longrightarrow> confirmed p k ops r)"

lemma removals_asked:
  assumes "\<not> suffix ''/revoke'' (rl_url p)"
    and "\<And>x i s. removes (act_request p x i s) \<Longrightarrow> rl_asks p x"
  shows "removals_confirmed p k ops"
  unfolding removals_confirmed_def
proof (intro ballI impI)
  fix r
  assume r: "r \<in> set (ru_sent (rule_run p k ops))" "removes r"
  then have "req_method r \<noteq> ''GET''" by (auto simp: removes_def)
  then obtain pre op post where ops: "ops = pre @ op # post" and m: "meant p (rule_run p k pre) op r"
    using rule_run_sends [OF r(1)] by blast
  moreover have "r \<noteq> add_request p (rule_run p k pre)" using r(2) assms(1) by (auto simp: removes_def add_request_def)
  ultimately obtain x i where op: "op = RuleClick x i" "r = act_request p x i (rule_run p k pre)"
      "row_offers p x i (rule_run p k pre)" "rl_asks p x \<longrightarrow> ru_confirmId (rule_run p k pre) = Some i"
    using \<open>req_method r \<noteq> ''GET''\<close> by (auto simp: meant_def)
  moreover have "rl_asks p x" using assms(2) op(2) r(2) by blast
  ultimately show "confirmed p k ops r" using ops confirm_asked [of p k pre i] unfolding confirmed_def by blast
qed

lemma six_pages:
  "removals_confirmed ip_allowlist k ops1" "removals_confirmed trusted_proxies k ops2"
  "removals_confirmed embed_origins k ops3" "removals_confirmed invite_domains k ops4"
  "removals_confirmed security_contacts k ops5" "removals_confirmed support_access k ops6"
proof -
  note pages = ip_allowlist_def trusted_proxies_def embed_origins_def invite_domains_def support_access_def
  show "removals_confirmed ip_allowlist k ops1" "removals_confirmed trusted_proxies k ops2"
    "removals_confirmed embed_origins k ops3" "removals_confirmed invite_domains k ops4"
    "removals_confirmed support_access k ops6"
    by (rule removals_asked; simp add: pages suffix_to_prefix)+
  show "removals_confirmed security_contacts k ops5"
  proof (rule removals_asked)
    fix x i s
    assume "removes (act_request security_contacts x i s)"
    then show "rl_asks security_contacts x"
      by (cases x) (simp_all add: removes_def act_request_def security_contacts_def suffix_to_prefix)
  qed (simp add: security_contacts_def suffix_to_prefix)
qed

text \<open>
  C19. On every page of rules, a request that changes something was meant. It is a creation, sent by the button
  of the form while no other was under way, with the fields of that moment, which may be added; or it is
  the action of a row that was listed and offered it, sent by its button with the fields of that moment.
  On the six pages (address allowlist, trusted proxies, embed origins, invite domains, security contacts,
  support access) every removal and every revocation was confirmed: it was sent by the confirming
  button of the row that was being asked about, after an earlier click had asked about that row.
\<close>

theorem rule_requests_meant:
  "(r \<in> set (ru_sent (rule_run p k ops)) \<and> req_method r \<noteq> ''GET'' \<longrightarrow>
      (\<exists>pre post. ops = pre @ RuleSubmit # post \<and> r = add_request p (rule_run p k pre) \<and>
        rl_may_add p (ru_form (rule_run p k pre)) \<and> \<not> ru_creating (rule_run p k pre)) \<or>
      (\<exists>pre x i post. ops = pre @ RuleClick x i # post \<and> r = act_request p x i (rule_run p k pre) \<and>
        row_offers p x i (rule_run p k pre) \<and> (rl_asks p x \<longrightarrow> (\<exists>y. RuleAsk y i \<in> set pre)))) \<and>
   removals_confirmed ip_allowlist k ops1 \<and> removals_confirmed trusted_proxies k ops2 \<and>
   removals_confirmed embed_origins k ops3 \<and> removals_confirmed invite_domains k ops4 \<and>
   removals_confirmed security_contacts k ops5 \<and> removals_confirmed support_access k ops6"
proof (intro conjI impI six_pages)
  assume r: "r \<in> set (ru_sent (rule_run p k ops)) \<and> req_method r \<noteq> ''GET''"
  then obtain pre op post where ops: "ops = pre @ op # post" and m: "meant p (rule_run p k pre) op r"
    using rule_run_sends [of r p k ops] by blast
  show "(\<exists>pre post. ops = pre @ RuleSubmit # post \<and> r = add_request p (rule_run p k pre) \<and>
        rl_may_add p (ru_form (rule_run p k pre)) \<and> \<not> ru_creating (rule_run p k pre)) \<or>
      (\<exists>pre x i post. ops = pre @ RuleClick x i # post \<and> r = act_request p x i (rule_run p k pre) \<and>
        row_offers p x i (rule_run p k pre) \<and> (rl_asks p x \<longrightarrow> (\<exists>y. RuleAsk y i \<in> set pre)))"
  proof (cases "op = RuleSubmit")
    case True
    then show ?thesis using ops m r by (auto simp: meant_def)
  next
    case False
    then obtain x i where "op = RuleClick x i" "r = act_request p x i (rule_run p k pre)" "row_offers p x i (rule_run p k pre)"
      "rl_asks p x \<longrightarrow> ru_confirmId (rule_run p k pre) = Some i" using m r by (auto simp: meant_def)
    then show ?thesis using ops confirm_asked [of p k pre i] by blast
  qed
qed

section \<open>Examples\<close>

definition one_rule :: AllowlistResp where
  "one_rule =
     \<lparr>al_enforcing = True, al_rules = [\<lparr>rule_id = ''r1'', rule_cidr = ''10.0.0.0/8'', rule_label = [], rule_created_at = 0\<rparr>],
      al_your_ip = ''10.0.0.1''\<rparr>"

abbreviation removal_ops :: "(AllowlistResp, cidr_form, unit) rule_op list" where
  "removal_ops \<equiv> [RuleAnswer 0 (RuleGot one_rule), RuleAsk () ''r1'', RuleClick () ''r1'']"

lemmas rule_eval = rule_run_def rule_start_def rule_defs Let_def rule_answer_def drop_nth_def rule_resume_def row_offers_def
  ip_allowlist_def delete_action_def onAction_def one_rule_def

theorem rule_requests_meant_witness:
  "\<exists>r\<in>set (ru_sent (rule_run ip_allowlist ''k'' removal_ops)). req_method r = ''DELETE'' \<and>
     confirmed ip_allowlist ''k'' removal_ops r \<and>
     ((\<exists>pre post. removal_ops = pre @ RuleSubmit # post) \<or>
      (\<exists>pre x i post. removal_ops = pre @ RuleClick x i # post \<and> (\<exists>y. RuleAsk y i \<in> set pre)))"
proof -
  let ?r = "\<lparr>req_method = ''DELETE'', req_path = ''/api/ip-allowlist'' @ ''/'' @ encodeURIComponent ''r1'',
     req_headers = [(''X-API-Key'', ''k'')], req_payload = None\<rparr>"
  have r: "?r \<in> set (ru_sent (rule_run ip_allowlist ''k'' removal_ops))" by (simp add: rule_eval rule_headers_def)
  have "rl_asks ip_allowlist x" for x by (simp add: ip_allowlist_def)
  moreover have "removes ?r" by (simp add: removes_def)
  ultimately show ?thesis
    using rule_requests_meant [of ?r ip_allowlist "''k''" removal_ops removal_ops "[]" "[]" "[]" "[]" "[]"] r
    by (intro bexI [OF _ r]) (simp add: removals_confirmed_def, blast)
qed

text \<open>
  The reason typed to revoke one grant is kept when another row is asked for, and is sent with its
  revocation.
\<close>

lemma revoke_reason_kept:
  assumes "ru_state s = Ready d" and "list_ex (\<lambda>g. gr_id g = ''a'' \<and> gr_active g) (gs_grants d)"
    and "list_ex (\<lambda>g. gr_id g = ''b'' \<and> gr_active g) (gs_grants d)" and "ru_confirmId s = None" and "ru_busyId s = None"
    and "f = (ru_form s)\<lparr>gf_revokeReason := ''wrong person''\<rparr>"
  shows "map req_payload (ru_sent (fold (rule_step support_access)
      [RuleAsk () ''a'', RuleForm f, RuleAsk () ''b'', RuleClick () ''b''] s))
    = map req_payload (ru_sent s) @ [Some (JObj [(''reason'', JStr (trim ''wrong person''))])]"
  using assms by (simp add: row_offers_def support_access_def onAction_def rule_send_def)

end
