(* ===== verification/SessionsPage.thy ===== *)
theory SessionsPage
  imports KeysPage OEmbed Whole
begin

text \<open>
  \<open>web/app/settings/sessions/page.tsx\<close>: the sessions of a workspace, their forced end, and the session
  policy. The page reads the saved key with every request and does not load again when it changes.
\<close>

section \<open>State\<close>

record SessionRow =
  sr_id :: string
  sr_actor :: string
  sr_actor_kind :: string
  sr_ip :: string
  sr_ua_label :: string
  sr_first_seen :: rat
  sr_last_seen :: rat
  sr_request_count :: rat
  sr_revoked :: bool
  sr_revoked_at :: rat
  sr_revoke_reason :: string
  sr_is_current :: bool

record SessionList =
  sl_items :: "SessionRow list"
  sl_current_session_id :: string

record PolicyRow =
  pr_tenant_id :: string
  pr_idle_timeout_minutes :: rat
  pr_absolute_max_minutes :: rat
  pr_max_pat_lifetime_minutes :: rat
  pr_max_pat_age_minutes :: rat
  pr_max_pat_idle_minutes :: rat
  pr_updated_at :: rat

record policy_draft =
  dr_idle :: jsnum
  dr_absolute :: jsnum
  dr_patCap :: jsnum
  dr_patAge :: jsnum
  dr_patIdle :: jsnum

text \<open>A load knows whether a handler awaits it; the handlers that end a session know which.\<close>

datatype session_task = SList bool | SPolicy bool | SSavePolicy | SRevokeOne string | SRevokeActor string

record session_docs =
  sd_list :: SessionList
  sd_policy :: PolicyRow
  sd_revoked :: rat

text \<open>
  The call threw, with the message of the exception (absent when it is no \<open>Error\<close>); a refusal with its
  status text and its body when that is JSON.
\<close>

datatype session_reply = SsBroke "string option" | SsDenied nat string "json option" | SsGot session_docs

record sessions_page =
  ss_key :: string
  ss_list :: "SessionList page_state"
  ss_policy :: "PolicyRow page_state"
  ss_mfa :: string
  ss_busy :: "string option"
  ss_banner :: "(bool \<times> string) option"
  ss_draft :: policy_draft
  ss_tasks :: "session_task list"
  ss_sent :: "request list"

definition ss_send :: "session_task \<Rightarrow> string \<Rightarrow> string \<Rightarrow> (string \<times> string) list \<Rightarrow> json option \<Rightarrow> sessions_page \<Rightarrow> sessions_page" where
  "ss_send t m path headers body s =
     s\<lparr>ss_tasks := ss_tasks s @ [t],
       ss_sent := ss_sent s @ [\<lparr>req_method = m, req_path = path, req_headers = headers, req_payload = body\<rparr>]\<rparr>"

definition session_auth :: "sessions_page \<Rightarrow> (string \<times> string) list" where
  "session_auth s = (if ss_key s \<noteq> [] then [(''X-API-Key'', ss_key s)] else [])"

definition mfa_header :: "sessions_page \<Rightarrow> (string \<times> string) list" where
  "mfa_header s = (if ss_mfa s \<noteq> [] then [(''X-MFA-Code'', ss_mfa s)] else [])"

definition json_header :: "(string \<times> string) list" where
  "json_header = [(''Content-Type'', ''application/json'')]"

definition readError :: "nat \<Rightarrow> string \<Rightarrow> json option \<Rightarrow> string" where
  "readError st statusText body =
     (let d = (case body of Some v \<Rightarrow> field v ''detail'' | None \<Rightarrow> None) in
      if truthy d then js_text (the d) else or_str statusText (''HTTP '' @ nat_digits st))"

section \<open>Loads\<close>

definition refreshList :: "bool \<Rightarrow> sessions_page \<Rightarrow> sessions_page" where
  "refreshList awaited s = ss_send (SList awaited) ''GET'' ''/api/sessions'' (session_auth s) None (s\<lparr>ss_list := Loading\<rparr>)"

definition session_failed :: "session_reply \<Rightarrow> (session_docs \<Rightarrow> 'd) \<Rightarrow> 'd page_state" where
  "session_failed a get =
     (case a of
        SsBroke m \<Rightarrow> Failed 0 (nullish m ''network error'')
      | SsDenied st statusText body \<Rightarrow> Failed st (readError st statusText body)
      | SsGot d \<Rightarrow> Ready (get d))"

definition session_end :: "bool \<Rightarrow> sessions_page \<Rightarrow> sessions_page" where
  "session_end awaited s = (if awaited then s\<lparr>ss_busy := None\<rparr> else s)"

definition list_settle :: "session_reply \<Rightarrow> sessions_page \<Rightarrow> sessions_page" where
  "list_settle a s = s\<lparr>ss_list := session_failed a sd_list\<rparr>"

definition refreshPolicy :: "bool \<Rightarrow> sessions_page \<Rightarrow> sessions_page" where
  "refreshPolicy awaited s = ss_send (SPolicy awaited) ''GET'' ''/api/sessions/policy'' (session_auth s) None (s\<lparr>ss_policy := Loading\<rparr>)"

definition draft_of :: "PolicyRow \<Rightarrow> policy_draft" where
  "draft_of d =
     \<lparr>dr_idle = Fin (pr_idle_timeout_minutes d), dr_absolute = Fin (pr_absolute_max_minutes d),
      dr_patCap = Fin (pr_max_pat_lifetime_minutes d), dr_patAge = Fin (pr_max_pat_age_minutes d),
      dr_patIdle = Fin (pr_max_pat_idle_minutes d)\<rparr>"

definition policy_settle :: "session_reply \<Rightarrow> sessions_page \<Rightarrow> sessions_page" where
  "policy_settle a s =
     (let t = s\<lparr>ss_policy := session_failed a sd_policy\<rparr> in
      case a of SsGot d \<Rightarrow> t\<lparr>ss_draft := draft_of (sd_policy d)\<rparr> | _ \<Rightarrow> t)"

section \<open>Handlers\<close>

text \<open>\<open>Math.max(0, Math.floor(x))\<close>\<close>

definition whole_minutes :: "jsnum \<Rightarrow> jsnum" where
  "whole_minutes x = (case x of Fin v \<Rightarrow> Fin (of_int (max 0 (floor v))) | NInf \<Rightarrow> Fin 0 | n \<Rightarrow> n)"

definition policy_body :: "policy_draft \<Rightarrow> json" where
  "policy_body d =
     JObj [(''idle_timeout_minutes'', JNum (whole_minutes (dr_idle d))),
           (''absolute_max_minutes'', JNum (whole_minutes (dr_absolute d))),
           (''max_pat_lifetime_minutes'', JNum (whole_minutes (dr_patCap d))),
           (''max_pat_age_minutes'', JNum (whole_minutes (dr_patAge d))),
           (''max_pat_idle_minutes'', JNum (whole_minutes (dr_patIdle d)))]"

definition session_busy :: "string \<Rightarrow> sessions_page \<Rightarrow> sessions_page" where
  "session_busy tag s = s\<lparr>ss_busy := Some tag, ss_banner := None\<rparr>"

definition actor_tag :: "string \<Rightarrow> string" where
  "actor_tag actor = ''actor:'' @ actor"

definition savePolicy :: "sessions_page \<Rightarrow> sessions_page" where
  "savePolicy s =
     ss_send SSavePolicy ''PUT'' ''/api/sessions/policy'' (json_header @ session_auth s @ mfa_header s)
       (Some (policy_body (ss_draft s))) (session_busy ''policy'' s)"

definition revokeOne :: "string \<Rightarrow> sessions_page \<Rightarrow> sessions_page" where
  "revokeOne i s =
     ss_send (SRevokeOne i) ''DELETE'' (''/api/sessions/'' @ encodeURIComponent i) (session_auth s @ mfa_header s) None
       (session_busy i s)"

definition actor_body :: "string \<Rightarrow> json" where
  "actor_body actor =
     JObj [(''actor'', JStr actor), (''reason'', JStr ''ui force logout''), (''include_self'', JBool False)]"

definition revokeActor :: "string \<Rightarrow> sessions_page \<Rightarrow> sessions_page" where
  "revokeActor actor s =
     ss_send (SRevokeActor actor) ''POST'' ''/api/sessions/revoke-all'' (json_header @ session_auth s @ mfa_header s)
       (Some (actor_body actor)) (session_busy (actor_tag actor) s)"

text \<open>The end of a handler: an exception passes, a refusal is shown, success is shown and awaits a load.\<close>

definition handler_settle :: "(session_docs \<Rightarrow> string) \<Rightarrow> (sessions_page \<Rightarrow> sessions_page) \<Rightarrow> session_reply \<Rightarrow> sessions_page \<Rightarrow> sessions_page" where
  "handler_settle msg reload a s =
     (case a of
        SsBroke m \<Rightarrow> s\<lparr>ss_busy := None\<rparr>
      | SsDenied st statusText body \<Rightarrow> s\<lparr>ss_banner := Some (False, readError st statusText body), ss_busy := None\<rparr>
      | SsGot d \<Rightarrow> reload (s\<lparr>ss_banner := Some (True, msg d)\<rparr>))"

definition revoked_message :: "session_docs \<Rightarrow> string" where
  "revoked_message d =
     ''Revoked '' @ num_to_string (sd_revoked d) @ '' session'' @ (if sd_revoked d = 1 then [] else ''s'') @ ''.''"

definition session_resume :: "session_task \<Rightarrow> session_reply \<Rightarrow> sessions_page \<Rightarrow> sessions_page" where
  "session_resume t a s =
     (case t of
        SList awaited \<Rightarrow> session_end awaited (list_settle a s)
      | SPolicy awaited \<Rightarrow> session_end awaited (policy_settle a s)
      | SSavePolicy \<Rightarrow> handler_settle (\<lambda>d. ''Policy saved.'') (refreshPolicy True) a s
      | SRevokeOne i \<Rightarrow> handler_settle (\<lambda>d. ''Session revoked.'') (refreshList True) a s
      | SRevokeActor actor \<Rightarrow> handler_settle revoked_message (refreshList True) a s)"

definition session_answer :: "nat \<Rightarrow> session_reply \<Rightarrow> sessions_page \<Rightarrow> sessions_page" where
  "session_answer i a s =
     (if i < length (ss_tasks s) then session_resume (ss_tasks s ! i) a (s\<lparr>ss_tasks := drop_nth i (ss_tasks s)\<rparr>) else s)"

section \<open>Steps\<close>

datatype policy_field = DIdle | DAbsolute | DPatCap | DPatAge | DPatIdle

fun set_draft :: "policy_field \<Rightarrow> jsnum \<Rightarrow> policy_draft \<Rightarrow> policy_draft" where
  "set_draft DIdle n d = d\<lparr>dr_idle := n\<rparr>"
| "set_draft DAbsolute n d = d\<lparr>dr_absolute := n\<rparr>"
| "set_draft DPatCap n d = d\<lparr>dr_patCap := n\<rparr>"
| "set_draft DPatAge n d = d\<lparr>dr_patAge := n\<rparr>"
| "set_draft DPatIdle n d = d\<lparr>dr_patIdle := n\<rparr>"

definition session_rows :: "sessions_page \<Rightarrow> SessionRow list" where
  "session_rows s = (case ss_list s of Ready d \<Rightarrow> sl_items d | _ \<Rightarrow> [])"

definition policy_ready :: "sessions_page \<Rightarrow> bool" where
  "policy_ready s \<longleftrightarrow> (case ss_policy s of Ready d \<Rightarrow> True | _ \<Rightarrow> False)"

datatype session_op =
  SsDraft policy_field string | SsMfa string | SsSave | SsRefresh | SsRevoke nat | SsForce nat | SsKey string
| SsAnswer nat session_reply

text \<open>The buttons of the row at an index.\<close>

definition revoke_disabled :: "sessions_page \<Rightarrow> SessionRow \<Rightarrow> bool" where
  "revoke_disabled s row \<longleftrightarrow> ss_busy s = Some (sr_id row) \<or> sr_is_current row"

definition force_disabled :: "sessions_page \<Rightarrow> SessionRow \<Rightarrow> bool" where
  "force_disabled s row \<longleftrightarrow> ss_busy s = Some (actor_tag (sr_actor row))"

fun session_step :: "session_op \<Rightarrow> sessions_page \<Rightarrow> sessions_page" where
  "session_step (SsDraft f v) s =
     (if policy_ready s then s\<lparr>ss_draft := set_draft f (string_to_number v) (ss_draft s)\<rparr> else s)"
| "session_step (SsMfa v) s = (if policy_ready s then s\<lparr>ss_mfa := trim v\<rparr> else s)"
| "session_step SsSave s = (if policy_ready s \<and> ss_busy s \<noteq> Some ''policy'' then savePolicy s else s)"
| "session_step SsRefresh s = refreshList False s"
| "session_step (SsRevoke n) s =
     (if n < length (session_rows s) \<and> \<not> revoke_disabled s (session_rows s ! n) then revokeOne (sr_id (session_rows s ! n)) s else s)"
| "session_step (SsForce n) s =
     (if n < length (session_rows s) \<and> \<not> force_disabled s (session_rows s ! n) then revokeActor (sr_actor (session_rows s ! n)) s else s)"
| "session_step (SsKey k) s = s\<lparr>ss_key := k\<rparr>"
| "session_step (SsAnswer i a) s = session_answer i a s"

definition sessions_start :: "string \<Rightarrow> sessions_page" where
  "sessions_start k =
     refreshPolicy False (refreshList False
       \<lparr>ss_key = k, ss_list = Loading, ss_policy = Loading, ss_mfa = [], ss_busy = None, ss_banner = None,
        ss_draft = \<lparr>dr_idle = Fin 0, dr_absolute = Fin 0, dr_patCap = Fin 0, dr_patAge = Fin 0, dr_patIdle = Fin 0\<rparr>,
        ss_tasks = [], ss_sent = []\<rparr>)"

definition sessions_run :: "string \<Rightarrow> session_op list \<Rightarrow> sessions_page" where
  "sessions_run k ops = fold session_step ops (sessions_start k)"

section \<open>What it shows\<close>

definition minutes_field :: "string \<Rightarrow> jsnum \<Rightarrow> node list" where
  "minutes_field label n = [Text label, TextField label (num_text n)]"

definition policy_view :: "rat \<Rightarrow> sessions_page \<Rightarrow> node list" where
  "policy_view now s =
     [Text ''Session policy'',
      Text (case ss_policy s of Ready d \<Rightarrow> if pr_updated_at d \<noteq> 0 then ''updated '' @ timeAgo now (pr_updated_at d) else ''not set''
            | _ \<Rightarrow> ''not set'')]
     @ (case ss_policy s of
          Loading \<Rightarrow> [Skeleton 1]
        | Failed st m \<Rightarrow> [Text (''Could not load policy: '' @ m)]
        | Ready d \<Rightarrow>
            minutes_field ''Idle timeout (minutes)'' (dr_idle (ss_draft s))
            @ minutes_field ''Absolute lifetime (minutes)'' (dr_absolute (ss_draft s))
            @ minutes_field ''Max PAT lifetime (minutes)'' (dr_patCap (ss_draft s))
            @ minutes_field ''Force PAT rotation after (minutes)'' (dr_patAge (ss_draft s))
            @ minutes_field ''Revoke PAT if unused for (minutes)'' (dr_patIdle (ss_draft s))
            @ [TextField ''123456'' (ss_mfa s),
               Button (if ss_busy s = Some ''policy'' then ''Saving'' else ''Save policy'') (ss_busy s = Some ''policy'')])"

definition session_row_view :: "rat \<Rightarrow> sessions_page \<Rightarrow> SessionRow \<Rightarrow> node list" where
  "session_row_view now s r =
     [Text (sr_actor r), Text (sr_actor_kind r)] @ (if sr_is_current r then [Text ''this session''] else [])
     @ [Text (''IP '' @ or_str (sr_ip r) ''unknown''), Text (sr_ua_label r), Text (timeAgo now (sr_last_seen r)),
        Text (num_to_string (sr_request_count r) @ '' req''),
        Hint (if sr_is_current r then ''Cannot revoke the current session from this row; use force logout.'' else ''Revoke this session''),
        Button ''Revoke'' (revoke_disabled s r), Hint ''Force log out every session for this actor'',
        Button ''Force logout'' (force_disabled s r)]"

definition sessions_view :: "rat \<Rightarrow> sessions_page \<Rightarrow> node list" where
  "sessions_view now s =
     (case ss_banner s of None \<Rightarrow> [] | Some (ok, m) \<Rightarrow> [Badge ok m])
     @ policy_view now s @ [Text ''Sessions'', Button ''Refresh'' False]
     @ (case ss_list s of
          Loading \<Rightarrow> [Skeleton 2]
        | Failed st m \<Rightarrow> [Text (if st = 403 then ''You need the admin role to view sessions.'' else m)]
        | Ready d \<Rightarrow>
            if sl_items d = [] then [Text ''No active sessions yet. They appear as soon as any credential hits an authenticated route.'']
            else concat (map (session_row_view now s) (sl_items d)))"

end
