(* ===== verification/SessionsLaws.thy ===== *)
theory SessionsLaws
  imports SessionsPage
begin

text \<open>
  What holds of the sessions page: what it sends, that it never ends the session it runs in, and that it
  comes to rest.
\<close>

lemmas session_defs = ss_send_def refreshList_def refreshPolicy_def session_end_def list_settle_def policy_settle_def
  handler_settle_def session_busy_def savePolicy_def revokeOne_def revokeActor_def

lemma session_answer_cases:
  "i < length (ss_tasks s) \<Longrightarrow> session_answer i a s = session_resume (ss_tasks s ! i) a (s\<lparr>ss_tasks := drop_nth i (ss_tasks s)\<rparr>)"
  "\<not> i < length (ss_tasks s) \<Longrightarrow> session_answer i a s = s"
  by (simp_all add: session_answer_def)

section \<open>Flags\<close>

text \<open>A load that is awaited stands for any of the handlers that may await it.\<close>

fun awaited_by :: "session_task \<Rightarrow> unit option" where
  "awaited_by (SList awaited) = (if awaited then Some () else None)"
| "awaited_by (SPolicy awaited) = (if awaited then Some () else None)"
| "awaited_by _ = Some ()"

definition handler_busy :: "sessions_page \<Rightarrow> bool" where
  "handler_busy s \<longleftrightarrow> ss_busy s \<noteq> None"

definition busy_backed :: "bool \<Rightarrow> nat \<Rightarrow> bool \<Rightarrow> nat \<Rightarrow> bool" where
  "busy_backed f n f' n' \<longleftrightarrow> (f' \<longrightarrow> n' \<noteq> 0 \<or> f \<and> n' = n)"

lemma session_resume_busy:
  "busy_backed (handler_busy s) (under_way awaited_by u (ss_tasks s) + (if awaited_by t = Some u then 1 else 0))
     (handler_busy (session_resume t a s)) (under_way awaited_by u (ss_tasks (session_resume t a s)))"
  by (cases t; cases a; cases u) (auto simp: session_resume_def session_defs handler_busy_def busy_backed_def Let_def)

lemma session_step_busy:
  "busy_backed (handler_busy s) (under_way awaited_by u (ss_tasks s)) (handler_busy (session_step op s))
     (under_way awaited_by u (ss_tasks (session_step op s)))"
proof (cases op)
  case (SsAnswer i a)
  show ?thesis
  proof (cases "i < length (ss_tasks s)")
    case True
    have "handler_busy (s\<lparr>ss_tasks := ts\<rparr>) = handler_busy s" for ts by (simp add: handler_busy_def)
    then show ?thesis
      using True SsAnswer session_resume_busy [of "s\<lparr>ss_tasks := drop_nth i (ss_tasks s)\<rparr>" u "ss_tasks s ! i" a]
      by (simp add: session_answer_cases under_way_drop [OF True, of awaited_by])
  qed (use SsAnswer in \<open>simp add: session_answer_cases busy_backed_def\<close>)
qed (cases u; auto simp: handler_busy_def busy_backed_def session_defs)+

interpretation session_flags: backed session_step "sessions_start k" ss_tasks awaited_by "\<lambda>_. handler_busy" "\<lambda>_. True" "\<lambda>_. True"
proof unfold_locales
  fix s op u
  show "handler_busy (session_step op s) \<Longrightarrow> under_way awaited_by u (ss_tasks (session_step op s)) \<noteq> 0 \<or>
      handler_busy s \<and> under_way awaited_by u (ss_tasks (session_step op s)) = under_way awaited_by u (ss_tasks s)"
    using session_step_busy [of s u op] by (simp add: busy_backed_def)
qed (simp_all add: handler_busy_def sessions_start_def session_defs)

fun session_weight :: "session_task \<Rightarrow> nat" where
  "session_weight (SList awaited) = 1"
| "session_weight (SPolicy awaited) = 1"
| "session_weight _ = 2"

interpretation session_drain: draining "session_answer 0" ss_tasks session_weight
proof unfold_locales
  show "0 < session_weight t" for t by (cases t) simp_all
  fix s :: sessions_page and a
  assume "ss_tasks s \<noteq> []"
  then obtain t ts where "ss_tasks s = t # ts" by (cases "ss_tasks s") auto
  then show "workload session_weight (ss_tasks (session_answer 0 a s)) < workload session_weight (ss_tasks s)"
    by (cases t; cases a) (auto simp: session_answer_def drop_nth_def session_resume_def session_defs Let_def)
qed (simp add: session_answer_def)

lemma session_answers: "fold (session_answer 0) as (sessions_run k ops) = sessions_run k (ops @ map (SsAnswer 0) as)"
proof -
  have "fold (session_answer 0) as s = fold session_step (map (SsAnswer 0) as) s" for s
    by (induction as arbitrary: s) simp_all
  then show ?thesis by (simp add: sessions_run_def)
qed

text \<open>
  A button of the sessions page is busy only while a handler is under way, and the page comes to rest:
  once its requests are answered, whatever the answers, none is left and every button is free.
\<close>

theorem sessions_settle:
  "(ss_busy (sessions_run k ops) \<noteq> None \<longrightarrow> under_way awaited_by () (ss_tasks (sessions_run k ops)) \<noteq> 0) \<and>
   (workload session_weight (ss_tasks (sessions_run k ops)) \<le> length as \<longrightarrow>
     (let t = fold (session_answer 0) as (sessions_run k ops) in ss_tasks t = [] \<and> ss_busy t = None))"
proof (intro conjI impI)
  have all: "list_all (\<lambda>_. True) ops" for ops :: "session_op list" by (simp add: list_all_iff)
  show "under_way awaited_by () (ss_tasks (sessions_run k ops)) \<noteq> 0" if "ss_busy (sessions_run k ops) \<noteq> None"
    using session_flags.run_backed [OF all, of ops k] that by (simp add: handler_busy_def sessions_run_def)
  assume "workload session_weight (ss_tasks (sessions_run k ops)) \<le> length as"
  then have empty: "ss_tasks (fold (session_answer 0) as (sessions_run k ops)) = []" by (rule session_drain.drained)
  then have rest: "ss_tasks (sessions_run k (ops @ map (SsAnswer 0) as)) = []" by (simp add: session_answers)
  then have "\<not> handler_busy (sessions_run k (ops @ map (SsAnswer 0) as))"
    using session_flags.at_rest [OF all] unfolding sessions_run_def by blast
  then show "let t = fold (session_answer 0) as (sessions_run k ops) in ss_tasks t = [] \<and> ss_busy t = None"
    using rest by (simp add: session_answers handler_busy_def)
qed

section \<open>What is sent\<close>

lemma session_resume_sent: "\<exists>rs. ss_sent (session_resume t a s) = ss_sent s @ rs \<and> (\<forall>r\<in>set rs. req_method r = ''GET'')"
  by (cases t; cases a) (auto simp: session_resume_def session_defs Let_def)

definition sends_session :: "sessions_page \<Rightarrow> session_op \<Rightarrow> request \<Rightarrow> bool" where
  "sends_session s op r \<longleftrightarrow>
     req_method r = ''GET'' \<or>
     op = SsSave \<and> req_method r = ''PUT'' \<and> req_payload r = Some (policy_body (ss_draft s)) \<or>
     (\<exists>row\<in>set (session_rows s). \<not> sr_is_current row \<and> req_method r = ''DELETE'' \<and>
        req_path r = ''/api/sessions/'' @ encodeURIComponent (sr_id row)) \<or>
     (\<exists>row\<in>set (session_rows s). req_method r = ''POST'' \<and> req_payload r = Some (actor_body (sr_actor row)))"

lemma session_sends: "\<exists>rs. ss_sent (session_step op s) = ss_sent s @ rs \<and> (\<forall>r\<in>set rs. sends_session s op r)"
proof (cases op)
  case (SsAnswer i a)
  show ?thesis
  proof (cases "i < length (ss_tasks s)")
    case True
    then show ?thesis
      using SsAnswer session_resume_sent [of "ss_tasks s ! i" a "s\<lparr>ss_tasks := drop_nth i (ss_tasks s)\<rparr>"]
      by (auto simp: session_answer_cases sends_session_def)
  qed (use SsAnswer in \<open>simp add: session_answer_cases\<close>)
next
  case (SsRevoke n)
  then show ?thesis by (auto simp: session_defs sends_session_def revoke_disabled_def)
next
  case (SsForce n)
  then show ?thesis by (auto simp: session_defs sends_session_def)
qed (auto simp: session_defs sends_session_def)

interpretation session_log: logging session_step ss_sent sends_session
  by unfold_locales (rule session_sends)

lemma sessions_run_sends:
  "r \<in> set (ss_sent (sessions_run k ops)) \<Longrightarrow>
     req_method r = ''GET'' \<or> (\<exists>pre op post. ops = pre @ op # post \<and> sends_session (sessions_run k pre) op r)"
  using session_log.run_log [of r ops "sessions_start k"] by (auto simp: sessions_run_def sessions_start_def session_defs)

text \<open>
  C20. The sessions page does not end the session it runs in: over every run, a session that is revoked by
  its id is one that the list, at that moment, showed and did not mark as the current one, and a forced
  logout of an actor of the list always leaves out the caller (\<open>include_self\<close> is false).
\<close>

theorem own_session_kept:
  assumes "r \<in> set (ss_sent (sessions_run k ops))"
  shows "(req_method r = ''DELETE'' \<longrightarrow>
      (\<exists>pre post. ops = pre @ post \<and> (\<exists>row\<in>set (session_rows (sessions_run k pre)).
         \<not> sr_is_current row \<and> req_path r = ''/api/sessions/'' @ encodeURIComponent (sr_id row)))) \<and>
    (req_method r = ''POST'' \<longrightarrow>
      (\<exists>pre post. ops = pre @ post \<and> (\<exists>row\<in>set (session_rows (sessions_run k pre)).
         req_payload r = Some (actor_body (sr_actor row)))) \<and>
      (\<exists>v. req_payload r = Some v \<and> field v ''include_self'' = Some (JBool False)))"
proof (cases "req_method r = ''GET''")
  case False
  then obtain pre op post where ops: "ops = pre @ (op # post)" and s: "sends_session (sessions_run k pre) op r"
    using sessions_run_sends [OF assms] by blast
  show ?thesis
  proof (intro conjI impI)
    assume "req_method r = ''DELETE''"
    then show "\<exists>pre post. ops = pre @ post \<and> (\<exists>row\<in>set (session_rows (sessions_run k pre)).
         \<not> sr_is_current row \<and> req_path r = ''/api/sessions/'' @ encodeURIComponent (sr_id row))"
      using ops s by (intro exI [of _ pre] exI [of _ "op # post"]) (auto simp: sends_session_def)
  next
    assume m: "req_method r = ''POST''"
    then show "\<exists>pre post. ops = pre @ post \<and> (\<exists>row\<in>set (session_rows (sessions_run k pre)).
         req_payload r = Some (actor_body (sr_actor row)))"
      using ops s by (intro exI [of _ pre] exI [of _ "op # post"]) (auto simp: sends_session_def)
    show "\<exists>v. req_payload r = Some v \<and> field v ''include_self'' = Some (JBool False)"
      using m s by (auto simp: sends_session_def actor_body_def)
  qed
qed simp

section \<open>The policy\<close>

definition minutes_of :: "policy_draft \<Rightarrow> jsnum list" where
  "minutes_of d = [dr_idle d, dr_absolute d, dr_patCap d, dr_patAge d, dr_patIdle d]"

definition policy_numbers :: "PolicyRow \<Rightarrow> rat list" where
  "policy_numbers p =
     [pr_idle_timeout_minutes p, pr_absolute_max_minutes p, pr_max_pat_lifetime_minutes p, pr_max_pat_age_minutes p,
      pr_max_pat_idle_minutes p]"

definition policy_of :: "rat list \<Rightarrow> json" where
  "policy_of ns =
     JObj (zip [''idle_timeout_minutes'', ''absolute_max_minutes'', ''max_pat_lifetime_minutes'', ''max_pat_age_minutes'',
                ''max_pat_idle_minutes''] (map (\<lambda>n. JNum (Fin n)) ns))"

definition minute_value :: "jsnum \<Rightarrow> rat" where
  "minute_value n = (case whole_minutes n of Fin m \<Rightarrow> m | _ \<Rightarrow> 0)"

lemma whole_minutes_nat: "is_finite n \<Longrightarrow> whole_minutes n = Fin (minute_value n) \<and> natural (minute_value n)"
  by (cases n) (auto simp: whole_minutes_def minute_value_def is_finite_def natural_def)

lemma whole_minutes_id: "natural m \<Longrightarrow> whole_minutes (Fin m) = Fin m"
  by (auto simp: whole_minutes_def natural_iff)

text \<open>
  The session policy is sent in whole minutes: when the five fields hold numbers, what is sent are five
  natural numbers under the names of the policy; and a loaded policy of natural numbers that is saved
  untouched is sent back as it was.
\<close>

theorem policy_in_minutes:
  "(list_all is_finite (minutes_of d) \<longrightarrow> (\<exists>ns. policy_body d = policy_of ns \<and> length ns = 5 \<and> list_all natural ns)) \<and>
   (list_all natural (policy_numbers p) \<longrightarrow> policy_body (draft_of p) = policy_of (policy_numbers p))"
proof (intro conjI impI)
  assume "list_all is_finite (minutes_of d)"
  then show "\<exists>ns. policy_body d = policy_of ns \<and> length ns = 5 \<and> list_all natural ns"
    by (intro exI [of _ "map minute_value (minutes_of d)"])
      (simp add: minutes_of_def policy_body_def policy_of_def whole_minutes_nat)
next
  assume "list_all natural (policy_numbers p)"
  then show "policy_body (draft_of p) = policy_of (policy_numbers p)"
    by (simp add: policy_body_def policy_of_def draft_of_def policy_numbers_def whole_minutes_id)
qed

section \<open>Examples\<close>

definition two_sessions :: SessionList where
  "two_sessions =
     (let row = (\<lambda>i current. \<lparr>sr_id = i, sr_actor = ''ada'', sr_actor_kind = ''pat'', sr_ip = [], sr_ua_label = [], sr_first_seen = 0,
        sr_last_seen = 0, sr_request_count = 1, sr_revoked = False, sr_revoked_at = 0, sr_revoke_reason = [], sr_is_current = current\<rparr>)
      in \<lparr>sl_items = [row ''a'' True, row ''b'' False], sl_current_session_id = ''a''\<rparr>)"

definition sample_policy :: PolicyRow where
  "sample_policy =
     \<lparr>pr_tenant_id = ''t'', pr_idle_timeout_minutes = 30, pr_absolute_max_minutes = 0, pr_max_pat_lifetime_minutes = 5,
      pr_max_pat_age_minutes = 0, pr_max_pat_idle_minutes = 0, pr_updated_at = 0\<rparr>"

abbreviation session_sample :: "session_op list" where
  "session_sample \<equiv>
     [SsAnswer 0 (SsGot \<lparr>sd_list = two_sessions, sd_policy = sample_policy, sd_revoked = 0\<rparr>), SsRevoke 0, SsRevoke 1]"

text \<open>Of two clicks, the one on the current session sends nothing.\<close>

theorem own_session_kept_witness:
  "\<exists>r\<in>set (ss_sent (sessions_run [] session_sample)). req_method r = ''DELETE'' \<and>
     (\<exists>pre post. session_sample = pre @ post \<and> (\<exists>row\<in>set (session_rows (sessions_run [] pre)).
        \<not> sr_is_current row \<and> req_path r = ''/api/sessions/'' @ encodeURIComponent (sr_id row)))"
proof -
  let ?r = "\<lparr>req_method = ''DELETE'', req_path = ''/api/sessions/'' @ encodeURIComponent ''b'', req_headers = [], req_payload = None\<rparr>"
  have r: "?r \<in> set (ss_sent (sessions_run [] session_sample))"
    by (simp add: sessions_run_def sessions_start_def session_defs session_answer_def drop_nth_def session_resume_def
        session_failed_def session_rows_def two_sessions_def revoke_disabled_def session_auth_def mfa_header_def Let_def)
  have "req_method ?r = ''DELETE''" by simp
  with own_session_kept [OF r, THEN conjunct1, THEN mp, OF this] show ?thesis by (intro bexI [OF _ r] conjI)
qed

theorem policy_in_minutes_witness:
  "policy_body (draft_of sample_policy) = policy_of [30, 0, 5, 0, 0]"
proof -
  have "natural 30" "natural 0" "natural 5" using natural_iff of_nat_numeral of_nat_0 by metis+
  then have "list_all natural (policy_numbers sample_policy)" by (simp add: policy_numbers_def sample_policy_def)
  with policy_in_minutes [of undefined sample_policy] show ?thesis by (simp add: policy_numbers_def sample_policy_def)
qed

theorem sessions_settle_witness:
  "let t = fold (session_answer 0) [SsBroke None, SsBroke None] (sessions_run [] []) in ss_tasks t = [] \<and> ss_busy t = None"
proof -
  have "workload session_weight (ss_tasks (sessions_run [] [])) \<le> length [SsBroke None, SsBroke None]"
    by (simp add: sessions_run_def sessions_start_def session_defs)
  then show ?thesis using sessions_settle [of "[]" "[]" "[SsBroke None, SsBroke None]"] by blast
qed

end
