(* ===== verification/MembersPage.thy ===== *)
theory MembersPage
  imports KeysPage Whole
begin

text \<open>
  \<open>web/app/settings/members/page.tsx\<close>: the roster of a workspace. An invitation and a repeated invitation
  mint a token that is shown until the next one; roles and seats are changed in the rows.
\<close>

section \<open>State\<close>

datatype member_status = status_invited | status_active | status_revoked

fun status_text :: "member_status \<Rightarrow> string" where
  "status_text status_invited = ''invited''"
| "status_text status_active = ''active''"
| "status_text status_revoked = ''revoked''"

record Member =
  mb_id :: string
  mb_email :: string
  mb_role :: string
  mb_status :: member_status
  mb_invited_by :: string
  mb_invited_at :: rat
  mb_accepted_at :: rat
  mb_invite_expires_at :: rat

record Counts =
  ct_active :: rat
  ct_invited :: rat
  ct_revoked :: rat

record CreatedInvite = Member +
  ci_invite_token :: string

record roster =
  ro_members :: "Member list"
  ro_counts :: Counts

definition ROLES :: "string list" where
  "ROLES = [''reader'', ''writer'', ''admin'']"

datatype member_after = MNone | EndCreating | EndBusyId

datatype member_task = MLoad member_after | MInvite | MRole string | MRevoke string | MResend string string | MCopy | MUncopy

record member_docs =
  md_roster :: roster
  md_created :: CreatedInvite

text \<open>A refusal with its text (empty when it cannot be read), its status text, and its text as JSON if it is any.\<close>

datatype member_reply = MBroke string | MDenied nat string string "json option" | MGot member_docs

record members_page =
  mp_key :: string
  mp_list :: "roster page_state"
  mp_email :: string
  mp_role :: string
  mp_ttlHours :: string
  mp_created :: "CreatedInvite option"
  mp_creating :: bool
  mp_busyId :: "string option"
  mp_copied :: "string option"
  mp_error :: "string option"
  mp_tasks :: "member_task list"
  mp_sent :: "request list"

definition member_send :: "member_task \<Rightarrow> string \<Rightarrow> string \<Rightarrow> json option \<Rightarrow> members_page \<Rightarrow> members_page" where
  "member_send t m path body s =
     s\<lparr>mp_tasks := mp_tasks s @ [t],
       mp_sent := mp_sent s @
         [\<lparr>req_method = m, req_path = path,
           req_headers = (if body = None then [] else [(''Content-Type'', ''application/json'')])
             @ (if mp_key s \<noteq> [] then [(''X-API-Key'', mp_key s)] else []),
           req_payload = body\<rparr>]\<rparr>"

definition member_path :: "string \<Rightarrow> string \<Rightarrow> string" where
  "member_path i rest = ''/api/members/'' @ i @ rest"

section \<open>Times\<close>

definition fmtAgo :: "rat \<Rightarrow> rat \<Rightarrow> string" where
  "fmtAgo now ts =
     (if ts = 0 then ''never''
      else let d = max 0 (rnd (seconds_now now - ts)) in
        if d < 60 then int_to_string (floor d) @ ''s ago''
        else if d < 3600 then int_to_string (floor (rnd (d / 60))) @ ''m ago''
        else if d < 86400 then int_to_string (floor (rnd (d / 3600))) @ ''h ago''
        else int_to_string (floor (rnd (d / 86400))) @ ''d ago'')"

definition invite_expiry :: "rat \<Rightarrow> rat \<Rightarrow> string" where
  "invite_expiry now ts =
     (if ts = 0 then ''never''
      else let d = rnd (ts - seconds_now now) in
        if d \<le> 0 then ''expired''
        else if d < 3600 then ''in '' @ int_to_string (floor (rnd (d / 60))) @ ''m''
        else if d < 86400 then ''in '' @ int_to_string (floor (rnd (d / 3600))) @ ''h''
        else ''in '' @ int_to_string (floor (rnd (d / 86400))) @ ''d'')"

section \<open>Handlers\<close>

definition member_load :: "member_after \<Rightarrow> members_page \<Rightarrow> members_page" where
  "member_load aft s = member_send (MLoad aft) ''GET'' ''/api/members'' None (s\<lparr>mp_list := Loading\<rparr>)"

definition roster_settle :: "member_reply \<Rightarrow> members_page \<Rightarrow> members_page" where
  "roster_settle a s =
     s\<lparr>mp_list :=
        (case a of
           MBroke m \<Rightarrow> Failed 0 m
         | MDenied st txt statusText js \<Rightarrow> Failed st (or_str txt statusText)
         | MGot d \<Rightarrow> Ready (md_roster d))\<rparr>"

definition member_end :: "member_after \<Rightarrow> members_page \<Rightarrow> members_page" where
  "member_end aft s =
     (case aft of MNone \<Rightarrow> s | EndCreating \<Rightarrow> s\<lparr>mp_creating := False\<rparr> | EndBusyId \<Rightarrow> s\<lparr>mp_busyId := None\<rparr>)"

text \<open>A refusal with the \<open>detail\<close> of its JSON, or with its text.\<close>

definition detailed :: "string \<Rightarrow> nat \<Rightarrow> string \<Rightarrow> string \<Rightarrow> json option \<Rightarrow> string" where
  "detailed what st txt statusText js =
     what @ '' failed ('' @ nat_digits st @ ''): '' @
     (let d = (case js of Some v \<Rightarrow> field v ''detail'' | None \<Rightarrow> None) in
      if truthy d then js_text (the d) else or_str txt statusText)"

definition plainly :: "string \<Rightarrow> nat \<Rightarrow> string \<Rightarrow> string \<Rightarrow> string" where
  "plainly what st txt statusText = what @ '' failed ('' @ nat_digits st @ ''): '' @ or_str txt statusText"

definition invite_body :: "members_page \<Rightarrow> json" where
  "invite_body s =
     JObj ([(''email'', JStr (trim (mp_email s))), (''role'', JStr (mp_role s))]
       @ (let ttl = trim (mp_ttlHours s) in
          if ttl \<noteq> [] \<and> string_to_number ttl \<noteq> NaN then [(''ttl_hours'', JNum (string_to_number ttl))] else []))"

definition member_invite :: "members_page \<Rightarrow> members_page" where
  "member_invite s =
     member_send MInvite ''POST'' ''/api/members/invite'' (Some (invite_body s))
       (s\<lparr>mp_error := None, mp_creating := True, mp_created := None\<rparr>)"

definition invite_settle :: "member_reply \<Rightarrow> members_page \<Rightarrow> members_page" where
  "invite_settle a s =
     (case a of
        MBroke m \<Rightarrow> s\<lparr>mp_error := Some m, mp_creating := False\<rparr>
      | MDenied st txt statusText js \<Rightarrow> s\<lparr>mp_error := Some (detailed ''invite'' st txt statusText js), mp_creating := False\<rparr>
      | MGot d \<Rightarrow> member_load EndCreating (s\<lparr>mp_created := Some (md_created d), mp_email := []\<rparr>))"

definition updateRole :: "string \<Rightarrow> string \<Rightarrow> members_page \<Rightarrow> members_page" where
  "updateRole i role s =
     member_send (MRole i) ''PATCH'' (member_path i []) (Some (JObj [(''role'', JStr role)]))
       (s\<lparr>mp_busyId := Some i, mp_error := None\<rparr>)"

text \<open>A change of role and a revocation let an exception pass.\<close>

definition change_settle :: "string \<Rightarrow> member_reply \<Rightarrow> members_page \<Rightarrow> members_page" where
  "change_settle what a s =
     (case a of
        MBroke m \<Rightarrow> s\<lparr>mp_busyId := None\<rparr>
      | MDenied st txt statusText js \<Rightarrow> s\<lparr>mp_error := Some (plainly what st txt statusText), mp_busyId := None\<rparr>
      | MGot d \<Rightarrow> member_load EndBusyId s)"

definition member_revoke :: "string \<Rightarrow> bool \<Rightarrow> members_page \<Rightarrow> members_page" where
  "member_revoke i confirmed s =
     (if \<not> confirmed then s
      else member_send (MRevoke i) ''DELETE'' (member_path i []) None (s\<lparr>mp_busyId := Some i, mp_error := None\<rparr>))"

definition member_resend :: "string \<Rightarrow> string \<Rightarrow> members_page \<Rightarrow> members_page" where
  "member_resend i email s =
     member_send (MResend i email) ''POST'' (member_path i ''/resend'') (Some (JObj []))
       (s\<lparr>mp_busyId := Some i, mp_error := None, mp_created := None\<rparr>)"

definition resend_settle :: "string \<Rightarrow> member_reply \<Rightarrow> members_page \<Rightarrow> members_page" where
  "resend_settle email a s =
     (case a of
        MBroke m \<Rightarrow> s\<lparr>mp_error := Some m, mp_busyId := None\<rparr>
      | MDenied st txt statusText js \<Rightarrow> s\<lparr>mp_error := Some (detailed ''resend'' st txt statusText js), mp_busyId := None\<rparr>
      | MGot d \<Rightarrow> member_load EndBusyId (s\<lparr>mp_created := Some ((md_created d)\<lparr>mb_email := email\<rparr>)\<rparr>))"

text \<open>Copying the token; the timer takes the mark away.\<close>

definition member_copied :: "member_reply \<Rightarrow> members_page \<Rightarrow> members_page" where
  "member_copied a s =
     (case a of MGot d \<Rightarrow> s\<lparr>mp_copied := Some ''token'', mp_tasks := mp_tasks s @ [MUncopy]\<rparr> | _ \<Rightarrow> s)"

definition member_uncopied :: "members_page \<Rightarrow> members_page" where
  "member_uncopied s = (if mp_copied s = Some ''token'' then s\<lparr>mp_copied := None\<rparr> else s)"

definition member_resume :: "member_task \<Rightarrow> member_reply \<Rightarrow> members_page \<Rightarrow> members_page" where
  "member_resume t a s =
     (case t of
        MLoad aft \<Rightarrow> member_end aft (roster_settle a s)
      | MInvite \<Rightarrow> invite_settle a s
      | MRole i \<Rightarrow> change_settle ''update'' a s
      | MRevoke i \<Rightarrow> change_settle ''revoke'' a s
      | MResend i email \<Rightarrow> resend_settle email a s
      | MCopy \<Rightarrow> member_copied a s
      | MUncopy \<Rightarrow> member_uncopied s)"

definition member_answer :: "nat \<Rightarrow> member_reply \<Rightarrow> members_page \<Rightarrow> members_page" where
  "member_answer i a s =
     (if i < length (mp_tasks s) then member_resume (mp_tasks s ! i) a (s\<lparr>mp_tasks := drop_nth i (mp_tasks s)\<rparr>) else s)"

section \<open>Steps\<close>

definition member_rows :: "members_page \<Rightarrow> Member list" where
  "member_rows s = (case mp_list s of Ready d \<Rightarrow> ro_members d | _ \<Rightarrow> [])"

definition invite_disabled :: "members_page \<Rightarrow> bool" where
  "invite_disabled s \<longleftrightarrow> mp_creating s \<or> trim (mp_email s) = []"

datatype member_row_op = RowRole string | RowRevoke bool | RowResend

definition row_active :: "members_page \<Rightarrow> Member \<Rightarrow> member_row_op \<Rightarrow> bool" where
  "row_active s m op \<longleftrightarrow> mp_busyId s \<noteq> Some (mb_id m) \<and> (op = RowResend \<longrightarrow> mb_status m = status_invited)"

definition member_row :: "Member \<Rightarrow> member_row_op \<Rightarrow> members_page \<Rightarrow> members_page" where
  "member_row m op s =
     (case op of
        RowRole role \<Rightarrow> updateRole (mb_id m) role s
      | RowRevoke confirmed \<Rightarrow> member_revoke (mb_id m) confirmed s
      | RowResend \<Rightarrow> member_resend (mb_id m) (mb_email m) s)"

datatype member_op =
  MemberEmail string | MemberRole string | MemberTtl string | MemberSubmit | MemberRow nat member_row_op
| MemberCopy | MemberKey string | MemberAnswer nat member_reply

fun member_step :: "member_op \<Rightarrow> members_page \<Rightarrow> members_page" where
  "member_step (MemberEmail v) s = s\<lparr>mp_email := v\<rparr>"
| "member_step (MemberRole v) s = s\<lparr>mp_role := v\<rparr>"
| "member_step (MemberTtl v) s = s\<lparr>mp_ttlHours := v\<rparr>"
| "member_step MemberSubmit s = (if invite_disabled s then s else member_invite s)"
| "member_step (MemberRow n op) s =
     (if n < length (member_rows s) \<and> row_active s (member_rows s ! n) op then member_row (member_rows s ! n) op s else s)"
| "member_step MemberCopy s = (if mp_created s = None then s else s\<lparr>mp_tasks := mp_tasks s @ [MCopy]\<rparr>)"
| "member_step (MemberKey k) s = s\<lparr>mp_key := k\<rparr>"
| "member_step (MemberAnswer i a) s = member_answer i a s"

definition members_start :: "string \<Rightarrow> members_page" where
  "members_start k =
     member_load MNone
       \<lparr>mp_key = k, mp_list = Loading, mp_email = [], mp_role = ''reader'', mp_ttlHours = ''168'', mp_created = None,
        mp_creating = False, mp_busyId = None, mp_copied = None, mp_error = None, mp_tasks = [], mp_sent = []\<rparr>"

definition members_run :: "string \<Rightarrow> member_op list \<Rightarrow> members_page" where
  "members_run k ops = fold member_step ops (members_start k)"

section \<open>What it shows\<close>

definition invite_view :: "rat \<Rightarrow> members_page \<Rightarrow> node list" where
  "invite_view now s =
     [TextField ''alex@acme.com'' (mp_email s)] @ map (\<lambda>r. Choice r (r = mp_role s)) ROLES
     @ [TextField ''ttl hours'' (mp_ttlHours s), Button (if mp_creating s then ''inviting...'' else ''invite'') (invite_disabled s)]
     @ error_nodes (mp_error s)
     @ (case mp_created s of
          None \<Rightarrow> []
        | Some c \<Rightarrow>
            [Text (''share this token with '' @ mb_email c @ '' once''), Text (ci_invite_token c),
             Button (if mp_copied s = Some ''token'' then ''copied'' else ''copy'') False,
             Text (''expires '' @ invite_expiry now (mb_invite_expires_at c) @ ''. they accept with: POST /api/members/accept'')])"

definition member_row_view :: "rat \<Rightarrow> members_page \<Rightarrow> Member \<Rightarrow> node list" where
  "member_row_view now s m =
     [Text (mb_email m), Text (status_text (mb_status m)), Text (''invited '' @ fmtAgo now (mb_invited_at m))]
     @ (if mb_status m = status_active \<and> mb_accepted_at m > 0 then [Text (''joined '' @ fmtAgo now (mb_accepted_at m))] else [])
     @ (if mb_status m = status_invited then [Text (invite_expiry now (mb_invite_expires_at m))] else [])
     @ [Text (''by '' @ mb_invited_by m)]
     @ (if mb_status m = status_invited then [Button ''resend'' (mp_busyId s = Some (mb_id m))] else [])
     @ map (\<lambda>r. Choice r (r = mb_role m)) ROLES @ [Button ''revoke'' (mp_busyId s = Some (mb_id m))]"

definition roster_view :: "rat \<Rightarrow> members_page \<Rightarrow> node list" where
  "roster_view now s =
     (case mp_list s of
        Loading \<Rightarrow> [Skeleton 3]
      | Failed st m \<Rightarrow> [Text (''could not load roster ('' @ nat_digits st @ ''): '' @ m)]
      | Ready d \<Rightarrow>
          Text (num_to_string (ct_active (ro_counts d)) @ '' active '' @ [CHR 0xB7] @ '' '' @
            num_to_string (ct_invited (ro_counts d)) @ '' pending'')
          # (if ro_members d = [] then [Text ''no members yet. invite your first teammate above.'']
             else concat (map (member_row_view now s) (ro_members d))))"

definition members_view :: "rat \<Rightarrow> members_page \<Rightarrow> node list" where
  "members_view now s = [Text ''workspace members'', Text ''invite teammate''] @ invite_view now s @ [Text ''roster''] @ roster_view now s"

end
