(* ===== verification/MembersLaws.thy ===== *)
theory MembersLaws
  imports MembersPage
begin

text \<open>
  What holds of the roster page: the requests behind its flags, its coming to rest, the token it shows and
  the invitations it sends.
\<close>

lemmas member_defs = member_send_def member_load_def roster_settle_def member_end_def member_invite_def updateRole_def
  member_revoke_def member_resend_def

lemmas member_settles = invite_settle_def change_settle_def resend_settle_def member_copied_def member_uncopied_def

lemma member_answer_cases:
  "i < length (mp_tasks s) \<Longrightarrow> member_answer i a s = member_resume (mp_tasks s ! i) a (s\<lparr>mp_tasks := drop_nth i (mp_tasks s)\<rparr>)"
  "\<not> i < length (mp_tasks s) \<Longrightarrow> member_answer i a s = s"
  by (simp_all add: member_answer_def)

section \<open>Flags\<close>

fun inviting :: "member_task \<Rightarrow> unit option" where
  "inviting MInvite = Some ()"
| "inviting (MLoad EndCreating) = Some ()"
| "inviting _ = None"

lemma member_resume_invites:
  "flight_move (mp_creating s) (under_way inviting u (mp_tasks s) + (if inviting t = Some u then 1 else 0))
     (mp_creating (member_resume t a s)) (under_way inviting u (mp_tasks (member_resume t a s)))"
proof (cases t)
  case (MLoad aft)
  then show ?thesis by (cases aft; cases u) (simp_all add: member_resume_def member_defs flight_move_def)
qed (cases a; cases u; simp add: member_resume_def member_defs member_settles flight_move_def)+

lemma member_invites:
  "flight_move (mp_creating s) (under_way inviting u (mp_tasks s)) (mp_creating (member_step op s))
     (under_way inviting u (mp_tasks (member_step op s)))"
proof (cases op)
  case (MemberAnswer i a)
  show ?thesis
  proof (cases "i < length (mp_tasks s)")
    case True
    then show ?thesis
      using MemberAnswer member_resume_invites [of "s\<lparr>mp_tasks := drop_nth i (mp_tasks s)\<rparr>" u "mp_tasks s ! i" a]
      by (simp add: member_answer_cases under_way_drop [OF True, of inviting])
  qed (use MemberAnswer in \<open>simp add: member_answer_cases flight_move_def\<close>)
next
  case (MemberRow n r)
  then show ?thesis by (cases r) (simp_all add: flight_move_def member_row_def member_defs)
qed (cases u; simp add: flight_move_def member_defs invite_disabled_def)+

interpretation member_invitations: flights member_step "members_start k" mp_tasks inviting "\<lambda>_. mp_creating" "\<lambda>_. True" "\<lambda>_. True"
  by unfold_locales (simp_all add: member_invites, simp add: members_start_def member_defs)

text \<open>The end of any row's handler clears the busy row, so a row is busy only if some row's handler is under way.\<close>

fun changing :: "member_task \<Rightarrow> unit option" where
  "changing (MRole i) = Some ()"
| "changing (MRevoke i) = Some ()"
| "changing (MResend i email) = Some ()"
| "changing (MLoad EndBusyId) = Some ()"
| "changing _ = None"

definition some_busy :: "members_page \<Rightarrow> bool" where
  "some_busy s \<longleftrightarrow> mp_busyId s \<noteq> None"

definition rows_move :: "bool \<Rightarrow> nat \<Rightarrow> bool \<Rightarrow> nat \<Rightarrow> bool" where
  "rows_move f n f' n' \<longleftrightarrow> (f' \<longrightarrow> n' \<noteq> 0 \<or> f \<and> n' = n)"

lemma member_resume_rows:
  "rows_move (some_busy s) (under_way changing u (mp_tasks s) + (if changing t = Some u then 1 else 0))
     (some_busy (member_resume t a s)) (under_way changing u (mp_tasks (member_resume t a s)))"
proof (cases t)
  case (MLoad aft)
  then show ?thesis by (cases aft; cases u) (simp_all add: member_resume_def member_defs rows_move_def some_busy_def)
qed (cases a; cases u; simp add: member_resume_def member_defs member_settles rows_move_def some_busy_def)+

lemma member_rows_move:
  "rows_move (some_busy s) (under_way changing u (mp_tasks s)) (some_busy (member_step op s))
     (under_way changing u (mp_tasks (member_step op s)))"
proof (cases op)
  case (MemberAnswer i a)
  show ?thesis
  proof (cases "i < length (mp_tasks s)")
    case True
    have "some_busy (s\<lparr>mp_tasks := ts\<rparr>) = some_busy s" for ts by (simp add: some_busy_def)
    then show ?thesis
      using True MemberAnswer member_resume_rows [of "s\<lparr>mp_tasks := drop_nth i (mp_tasks s)\<rparr>" u "mp_tasks s ! i" a]
      by (simp add: member_answer_cases under_way_drop [OF True, of changing])
  qed (use MemberAnswer in \<open>simp add: member_answer_cases rows_move_def\<close>)
next
  case (MemberRow n r)
  then show ?thesis by (cases r; cases u) (simp_all add: rows_move_def some_busy_def member_row_def member_defs)
qed (cases u; simp add: rows_move_def some_busy_def member_defs)+

interpretation member_changes: backed member_step "members_start k" mp_tasks changing "\<lambda>_. some_busy" "\<lambda>_. True" "\<lambda>_. True"
proof unfold_locales
  fix s op u
  show "some_busy (member_step op s) \<Longrightarrow> under_way changing u (mp_tasks (member_step op s)) \<noteq> 0 \<or>
      some_busy s \<and> under_way changing u (mp_tasks (member_step op s)) = under_way changing u (mp_tasks s)"
    using member_rows_move [of s u op] by (simp add: rows_move_def)
qed (simp_all add: some_busy_def members_start_def member_defs)

fun member_weight :: "member_task \<Rightarrow> nat" where
  "member_weight (MLoad aft) = 1"
| "member_weight MUncopy = 1"
| "member_weight _ = 2"

interpretation member_drain: draining "member_answer 0" mp_tasks member_weight
proof unfold_locales
  show "0 < member_weight t" for t by (cases t) simp_all
  fix s :: members_page and a
  assume "mp_tasks s \<noteq> []"
  then obtain t ts where ts: "mp_tasks s = t # ts" by (cases "mp_tasks s") auto
  show "workload member_weight (mp_tasks (member_answer 0 a s)) < workload member_weight (mp_tasks s)"
  proof (cases t)
    case (MLoad aft)
    then show ?thesis using ts by (cases aft) (simp_all add: member_answer_def drop_nth_def member_resume_def member_defs)
  qed (use ts in \<open>cases a; simp add: member_answer_def drop_nth_def member_resume_def member_defs member_settles\<close>)+
qed (simp add: member_answer_def)

lemma member_answers: "fold (member_answer 0) as (members_run k ops) = members_run k (ops @ map (MemberAnswer 0) as)"
proof -
  have "fold (member_answer 0) as s = fold member_step (map (MemberAnswer 0) as) s" for s
    by (induction as arbitrary: s) simp_all
  then show ?thesis by (simp add: members_run_def)
qed

text \<open>
  On the roster page at most one invitation is under way, its reload included, exactly while the form
  says so; a row is busy only while the handler of a row is under way; and the page comes to rest: once
  its requests are answered, whatever the answers, none is left, no row is busy and the form is free.
\<close>

theorem members_settle:
  "under_way inviting () (mp_tasks (members_run k ops)) = (if mp_creating (members_run k ops) then 1 else 0) \<and>
   (mp_busyId (members_run k ops) \<noteq> None \<longrightarrow> under_way changing () (mp_tasks (members_run k ops)) \<noteq> 0) \<and>
   (workload member_weight (mp_tasks (members_run k ops)) \<le> length as \<longrightarrow>
     (let t = fold (member_answer 0) as (members_run k ops) in mp_tasks t = [] \<and> \<not> mp_creating t \<and> mp_busyId t = None))"
proof (intro conjI impI)
  have all: "list_all (\<lambda>_. True) ops" for ops :: "member_op list" by (simp add: list_all_iff)
  show "under_way inviting () (mp_tasks (members_run k ops)) = (if mp_creating (members_run k ops) then 1 else 0)"
    unfolding members_run_def using member_invitations.one_flight [OF all] .
  show "under_way changing () (mp_tasks (members_run k ops)) \<noteq> 0" if "mp_busyId (members_run k ops) \<noteq> None"
    using member_changes.run_backed [OF all, of ops k] that by (simp add: some_busy_def members_run_def)
  assume "workload member_weight (mp_tasks (members_run k ops)) \<le> length as"
  then have empty: "mp_tasks (fold (member_answer 0) as (members_run k ops)) = []" by (rule member_drain.drained)
  let ?t = "members_run k (ops @ map (MemberAnswer 0) as)"
  have rest: "mp_tasks ?t = []" using empty by (simp add: member_answers)
  have "\<not> mp_creating ?t" using member_invitations.at_rest [OF all] rest unfolding members_run_def by blast
  moreover have "\<not> some_busy ?t" using member_changes.at_rest [OF all] rest unfolding members_run_def by blast
  ultimately show "let t = fold (member_answer 0) as (members_run k ops) in mp_tasks t = [] \<and> \<not> mp_creating t \<and> mp_busyId t = None"
    using rest by (simp add: member_answers some_busy_def)
qed

section \<open>The token\<close>

text \<open>The answer that mints a token, and the clicks that ask for one.\<close>

definition invited :: "members_page \<Rightarrow> member_op \<Rightarrow> CreatedInvite \<Rightarrow> bool" where
  "invited s op c \<longleftrightarrow>
     (\<exists>i d. op = MemberAnswer i (MGot d) \<and> i < length (mp_tasks s) \<and>
        (case mp_tasks s ! i of
           MInvite \<Rightarrow> c = md_created d
         | MResend j email \<Rightarrow> c = (md_created d)\<lparr>mb_email := email\<rparr>
         | _ \<Rightarrow> False))"

definition asks_token :: "members_page \<Rightarrow> member_op \<Rightarrow> bool" where
  "asks_token s op \<longleftrightarrow>
     op = MemberSubmit \<and> \<not> invite_disabled s \<or>
     (\<exists>n. op = MemberRow n RowResend \<and> n < length (member_rows s) \<and> row_active s (member_rows s ! n) RowResend)"

lemma resume_created:
  "mp_created (member_resume t a s) = mp_created s \<or>
   (\<exists>d. a = MGot d \<and> (case t of MInvite \<Rightarrow> mp_created (member_resume t a s) = Some (md_created d)
        | MResend j email \<Rightarrow> mp_created (member_resume t a s) = Some ((md_created d)\<lparr>mb_email := email\<rparr>) | _ \<Rightarrow> False))"
proof (cases t)
  case (MLoad aft)
  then show ?thesis by (cases aft) (simp_all add: member_resume_def member_defs)
qed (cases a; simp add: member_resume_def member_defs member_settles)+

lemma step_created:
  "mp_created (member_step op s) = Some c \<Longrightarrow> invited s op c \<or> mp_created s = Some c \<and> \<not> asks_token s op"
proof (cases op)
  case (MemberAnswer i a)
  assume c: "mp_created (member_step op s) = Some c"
  show ?thesis
  proof (cases "i < length (mp_tasks s)")
    case True
    then show ?thesis
      using c MemberAnswer resume_created [of "mp_tasks s ! i" a "s\<lparr>mp_tasks := drop_nth i (mp_tasks s)\<rparr>"]
      by (cases "mp_tasks s ! i") (auto simp: member_answer_cases invited_def asks_token_def)
  qed (use c MemberAnswer in \<open>simp add: member_answer_cases asks_token_def\<close>)
next
  case (MemberRow n r)
  assume "mp_created (member_step op s) = Some c"
  then show ?thesis
    using MemberRow by (cases r) (auto simp: member_row_def member_defs asks_token_def split: if_splits)
qed (auto simp: member_defs asks_token_def split: if_splits)

lemma invited_shows: "invited s op c \<Longrightarrow> mp_created (member_step op s) = Some c"
proof -
  assume "invited s op c"
  then obtain i d where op: "op = MemberAnswer i (MGot d)" "i < length (mp_tasks s)"
    and c: "case mp_tasks s ! i of MInvite \<Rightarrow> c = md_created d | MResend j email \<Rightarrow> c = (md_created d)\<lparr>mb_email := email\<rparr> | _ \<Rightarrow> False"
    by (auto simp: invited_def)
  then show ?thesis
    by (cases "mp_tasks s ! i") (simp_all add: member_answer_cases member_resume_def member_defs member_settles)
qed

lemma members_snoc: "members_run k (ops @ [op]) = member_step op (members_run k ops)"
  by (simp add: members_run_def)

text \<open>
  C31. The token of an invitation belongs to what was asked for last: whenever the page shows one, it came with
  an answer to an invitation, or to a repeated one (and is then shown with the address of that row), and
  since then no invitation has been asked for and no other token has come.
\<close>

theorem token_of_last_invite:
  assumes "mp_created (members_run k ops) = Some c"
  shows "\<exists>pre op post. ops = pre @ op # post \<and> invited (members_run k pre) op c \<and>
    (\<forall>later op' rest. post = later @ op' # rest \<longrightarrow>
       \<not> asks_token (members_run k (pre @ op # later)) op' \<and>
       (\<forall>c'. invited (members_run k (pre @ op # later)) op' c' \<longrightarrow> c' = c))"
  using assms
proof (induction ops rule: rev_induct)
  case Nil
  then show ?case by (simp add: members_run_def members_start_def member_defs)
next
  case (snoc op ops)
  let ?s = "members_run k ops"
  have shown: "mp_created (member_step op ?s) = Some c" using snoc.prems by (simp add: members_snoc)
  show ?case
  proof (cases "invited ?s op c")
    case True
    then show ?thesis by (intro exI [of _ ops] exI [of _ op] exI [of _ "[]"]) simp
  next
    case False
    then have kept: "mp_created ?s = Some c" "\<not> asks_token ?s op" using step_created [OF shown] by auto
    obtain pre op0 post where IH: "ops = pre @ op0 # post" "invited (members_run k pre) op0 c"
      "\<And>later op' rest. post = later @ op' # rest \<Longrightarrow> \<not> asks_token (members_run k (pre @ op0 # later)) op' \<and>
         (\<forall>c'. invited (members_run k (pre @ op0 # later)) op' c' \<longrightarrow> c' = c)"
      using snoc.IH [OF kept(1)] by blast
    have "\<not> asks_token (members_run k (pre @ op0 # later)) op' \<and>
        (\<forall>c'. invited (members_run k (pre @ op0 # later)) op' c' \<longrightarrow> c' = c)"
      if "post @ [op] = later @ op' # rest" for later op' rest
    proof (cases rest rule: rev_cases)
      case Nil
      then have "later = post" "op' = op" using that by auto
      then show ?thesis using kept(2) invited_shows [of ?s op] shown IH(1) by fastforce
    next
      case (snoc rest' z)
      then have "post = later @ op' # rest'" using that by simp
      then show ?thesis by (rule IH(3))
    qed
    then show ?thesis using IH(1,2) by (intro exI [of _ pre] exI [of _ op0] exI [of _ "post @ [op]"]) auto
  qed
qed

section \<open>Examples\<close>

definition ada_invite :: CreatedInvite where
  "ada_invite =
     \<lparr>mb_id = ''m1'', mb_email = ''ada@x.org'', mb_role = ''reader'', mb_status = status_invited, mb_invited_by = ''key:a'',
      mb_invited_at = 1, mb_accepted_at = 0, mb_invite_expires_at = 2, ci_invite_token = ''t0k''\<rparr>"

definition ada_docs :: member_docs where
  "ada_docs = \<lparr>md_roster = \<lparr>ro_members = [], ro_counts = \<lparr>ct_active = 0, ct_invited = 1, ct_revoked = 0\<rparr>\<rparr>, md_created = ada_invite\<rparr>"

abbreviation invite_ops :: "member_op list" where
  "invite_ops \<equiv> [MemberEmail ''ada@x.org'', MemberSubmit, MemberAnswer 1 (MGot ada_docs)]"

theorem token_of_last_invite_witness:
  "mp_created (members_run ''k'' invite_ops) = Some ada_invite \<and>
   (\<exists>pre op post. invite_ops = pre @ op # post \<and> invited (members_run ''k'' pre) op ada_invite)"
proof -
  have "trim ''ada@x.org'' \<noteq> []" by (simp add: trim_def is_space_def)
  then have "mp_created (members_run ''k'' invite_ops) = Some ada_invite"
    by (simp add: members_run_def members_start_def member_defs invite_disabled_def member_answer_def drop_nth_def
        member_resume_def member_settles ada_docs_def)
  then show ?thesis using token_of_last_invite [of "''k''" invite_ops ada_invite] by blast
qed

theorem members_settle_witness:
  "let t = fold (member_answer 0) [MBroke ''offline''] (members_run ''k'' []) in
     mp_tasks t = [] \<and> \<not> mp_creating t \<and> mp_busyId t = None"
proof -
  have "workload member_weight (mp_tasks (members_run ''k'' [])) \<le> length [MBroke ''offline'']"
    by (simp add: members_run_def members_start_def member_defs)
  then show ?thesis using members_settle [of "''k''" "[]" "[MBroke ''offline'']"] by blast
qed

end
