(* ===== verification/SubprocessorsPage.thy ===== *)
theory SubprocessorsPage
  imports KeysPage OEmbed
begin

text \<open>
  \<open>web/app/settings/subprocessors/page.tsx\<close>: the registry of the sub-processors, its acknowledgement and
  the addresses that are told of its changes. A load is three requests at once (\<open>Promise.all\<close>); it is one
  task, answered by the three responses together. What a form control refuses before its \<open>onSubmit\<close>
  (\<open>type="email"\<close>, \<open>type="url"\<close>) is the browser's and a parameter.
\<close>

section \<open>State\<close>

record Processor =
  pz_id :: string
  pz_name :: string
  pz_purpose :: string
  pz_region :: string
  pz_data_categories :: "string list"
  pz_dpa_url :: string
  pz_status :: string
  pz_created_at :: rat
  pz_updated_at :: rat

record RegistryResp =
  rg_revision :: rat
  rg_processors :: "Processor list"
  rg_statuses :: "string list"
  rg_can_manage :: bool

record AckResp =
  ac_tenant_id :: string
  ac_revision :: rat
  ac_acknowledged_by :: string
  ac_acknowledged_at :: rat
  ac_current_revision :: rat
  ac_up_to_date :: bool

record Subscription =
  sb_id :: string
  sb_email :: string
  sb_created_at :: rat

record registry_docs =
  rd_reg :: RegistryResp
  rd_ack :: AckResp
  rd_subs :: "Subscription list"

record processor_form =
  pf_name :: string
  pf_purpose :: string
  pf_region :: string
  pf_data_categories :: string
  pf_dpa_url :: string
  pf_status :: string

text \<open>What a load that is awaited ends, and the requests under way. A handler reloads with the filter of its click.\<close>

datatype registry_after = NoAfter | AfterAck | AfterSub | AfterForm | AfterRemove

datatype registry_task =
  RgLoad registry_after | RgAck bool | RgSubscribe bool | RgCreate bool | RgRemove bool

record registry_page =
  rp_key :: string
  rp_state :: "registry_docs page_state"
  rp_includeRemoved :: bool
  rp_newEmail :: string
  rp_subBusy :: bool
  rp_subError :: "json option"
  rp_ackBusy :: bool
  rp_ackError :: "string option"
  rp_addOpen :: bool
  rp_form :: processor_form
  rp_formBusy :: bool
  rp_formError :: "json option"
  rp_busyId :: "string option"
  rp_tasks :: "registry_task list"
  rp_sent :: "request list"

definition blank_form :: processor_form where
  "blank_form =
     \<lparr>pf_name = [], pf_purpose = [], pf_region = [], pf_data_categories = [], pf_dpa_url = [], pf_status = ''active''\<rparr>"

definition registry_auth :: "registry_page \<Rightarrow> (string \<times> string) list" where
  "registry_auth s = (if rp_key s \<noteq> [] then [(''X-API-Key'', rp_key s)] else [])"

definition registry_json :: "registry_page \<Rightarrow> (string \<times> string) list" where
  "registry_json s = registry_auth s @ [(''Content-Type'', ''application/json'')]"

definition statusTone :: "string \<Rightarrow> string" where
  "statusTone st =
     (if st = ''active'' then ''bg-emerald-500/10 text-emerald-300 border-emerald-500/30''
      else if st = ''proposed'' then ''bg-amber-500/10 text-amber-300 border-amber-500/30''
      else ''bg-zinc-500/10 text-zinc-400 border-zinc-500/30'')"

section \<open>Loads\<close>

definition registry_get :: "string \<Rightarrow> registry_page \<Rightarrow> request" where
  "registry_get path s = \<lparr>req_method = ''GET'', req_path = path, req_headers = registry_auth s, req_payload = None\<rparr>"

definition registry_load :: "bool \<Rightarrow> bool \<Rightarrow> registry_after \<Rightarrow> registry_page \<Rightarrow> registry_page" where
  "registry_load includeRemoved showLoading aft s =
     s\<lparr>rp_state := (if showLoading then Loading else rp_state s), rp_tasks := rp_tasks s @ [RgLoad aft],
       rp_sent := rp_sent s
         @ [registry_get (''/api/subprocessors'' @ (if includeRemoved then ''?include_removed=true'' else [])) s,
            registry_get ''/api/subprocessors/acknowledgement'' s, registry_get ''/api/subprocessors/subscriptions'' s]\<rparr>"

text \<open>
  One of the three responses: refused, with its text; or accepted, with its document. \<^const>\<open>Inl\<close> is the
  message of the exception (absent when it is no \<open>Error\<close>) when the body cannot be read.
\<close>

datatype 'd part = NotOk nat "string option + string" | IsOk "string option + 'd"

datatype registry_reply = RgThrew "string option" | RgParts "RegistryResp part" "AckResp part" "Subscription list part"

definition load_broken :: "string option \<Rightarrow> 'd page_state" where
  "load_broken m = Failed 0 (nullish m ''network error'')"

definition load_refused :: "nat \<Rightarrow> string option + string \<Rightarrow> 'd page_state" where
  "load_refused st body = (case body of Inl m \<Rightarrow> load_broken m | Inr text \<Rightarrow> Failed st text)"

fun load_parts :: "RegistryResp part \<Rightarrow> AckResp part \<Rightarrow> Subscription list part \<Rightarrow> registry_docs page_state" where
  "load_parts (NotOk st body) _ _ = load_refused st body"
| "load_parts (IsOk _) (NotOk st body) _ = load_refused st body"
| "load_parts (IsOk _) (IsOk _) (NotOk st body) = load_refused st body"
| "load_parts (IsOk (Inl m)) (IsOk _) (IsOk _) = load_broken m"
| "load_parts (IsOk (Inr reg)) (IsOk (Inl m)) (IsOk _) = load_broken m"
| "load_parts (IsOk (Inr reg)) (IsOk (Inr ack)) (IsOk (Inl m)) = load_broken m"
| "load_parts (IsOk (Inr reg)) (IsOk (Inr ack)) (IsOk (Inr subs)) = Ready \<lparr>rd_reg = reg, rd_ack = ack, rd_subs = subs\<rparr>"

definition load_state :: "registry_reply \<Rightarrow> registry_docs page_state" where
  "load_state a = (case a of RgThrew m \<Rightarrow> load_broken m | RgParts r k u \<Rightarrow> load_parts r k u)"

fun registry_end :: "registry_after \<Rightarrow> registry_page \<Rightarrow> registry_page" where
  "registry_end NoAfter s = s"
| "registry_end AfterAck s = s\<lparr>rp_ackBusy := False\<rparr>"
| "registry_end AfterSub s = s\<lparr>rp_subBusy := False\<rparr>"
| "registry_end AfterForm s = s\<lparr>rp_formBusy := False\<rparr>"
| "registry_end AfterRemove s = s\<lparr>rp_busyId := None\<rparr>"

section \<open>Handlers\<close>

definition registry_send ::
  "registry_task \<Rightarrow> string \<Rightarrow> string \<Rightarrow> (string \<times> string) list \<Rightarrow> json option \<Rightarrow> registry_page \<Rightarrow> registry_page" where
  "registry_send t m path headers body s =
     s\<lparr>rp_tasks := rp_tasks s @ [t],
       rp_sent := rp_sent s @ [\<lparr>req_method = m, req_path = path, req_headers = headers, req_payload = body\<rparr>]\<rparr>"

definition ack_body :: "rat \<Rightarrow> json" where
  "ack_body revision = JObj [(''revision'', JNum (Fin revision))]"

definition registry_ready :: "registry_page \<Rightarrow> registry_docs option" where
  "registry_ready s = (case rp_state s of Ready d \<Rightarrow> Some d | _ \<Rightarrow> None)"

definition acknowledge :: "registry_page \<Rightarrow> registry_page" where
  "acknowledge s =
     (case registry_ready s of
        None \<Rightarrow> s
      | Some d \<Rightarrow>
          registry_send (RgAck (rp_includeRemoved s)) ''POST'' ''/api/subprocessors/acknowledgement'' (registry_json s)
            (Some (ack_body (rg_revision (rd_reg d)))) (s\<lparr>rp_ackBusy := True, rp_ackError := None\<rparr>))"

definition email_body :: "string \<Rightarrow> json" where
  "email_body email = JObj [(''email'', JStr (trim email))]"

definition addSubscription :: "registry_page \<Rightarrow> registry_page" where
  "addSubscription s =
     (if trim (rp_newEmail s) = [] then s
      else registry_send (RgSubscribe (rp_includeRemoved s)) ''POST'' ''/api/subprocessors/subscriptions'' (registry_json s)
             (Some (email_body (rp_newEmail s))) (s\<lparr>rp_subBusy := True, rp_subError := None\<rparr>))"

definition removeSubscription :: "string \<Rightarrow> registry_page \<Rightarrow> registry_page" where
  "removeSubscription i s =
     registry_send (RgRemove (rp_includeRemoved s)) ''DELETE'' (''/api/subprocessors/subscriptions/'' @ encodeURIComponent i)
       (registry_auth s) None (s\<lparr>rp_busyId := Some i\<rparr>)"

definition categories :: "string \<Rightarrow> string list" where
  "categories draft = filter (\<lambda>c. c \<noteq> []) (map trim (split_on (CHR '','') draft))"

definition form_body :: "processor_form \<Rightarrow> json" where
  "form_body f =
     JObj [(''name'', JStr (pf_name f)), (''purpose'', JStr (pf_purpose f)), (''region'', JStr (pf_region f)),
           (''data_categories'', JArr (map JStr (categories (pf_data_categories f)))), (''dpa_url'', JStr (pf_dpa_url f)),
           (''status'', JStr (pf_status f))]"

definition createProcessor :: "registry_page \<Rightarrow> registry_page" where
  "createProcessor s =
     registry_send (RgCreate (rp_includeRemoved s)) ''POST'' ''/api/subprocessors'' (registry_json s)
       (Some (form_body (rp_form s))) (s\<lparr>rp_formBusy := True, rp_formError := None\<rparr>)"

definition removeProcessor :: "string \<Rightarrow> registry_page \<Rightarrow> registry_page" where
  "removeProcessor i s =
     registry_send (RgRemove (rp_includeRemoved s)) ''DELETE'' (''/api/subprocessors/'' @ encodeURIComponent i)
       (registry_auth s) None (s\<lparr>rp_busyId := Some i\<rparr>)"

text \<open>The answer to a handler: it threw, a refusal with its text and the JSON that this is (if it is), success.\<close>

datatype write_reply = WrThrew "string option" | WrRefused string "json option" | WrDone

text \<open>\<open>JSON.parse(body)?.detail || body\<close>, with \<open>body\<close> when it is no JSON\<close>

definition refused_detail :: "string \<Rightarrow> json option \<Rightarrow> json" where
  "refused_detail body parsed =
     (let d = (case parsed of Some v \<Rightarrow> field v ''detail'' | None \<Rightarrow> None) in if truthy d then the d else JStr body)"

definition ack_settle :: "bool \<Rightarrow> write_reply \<Rightarrow> registry_page \<Rightarrow> registry_page" where
  "ack_settle inc a s =
     (case a of
        WrThrew m \<Rightarrow> s\<lparr>rp_ackError := Some (nullish m ''failed''), rp_ackBusy := False\<rparr>
      | WrRefused body parsed \<Rightarrow> s\<lparr>rp_ackError := Some body, rp_ackBusy := False\<rparr>
      | WrDone \<Rightarrow> registry_load inc False AfterAck s)"

definition subscribe_settle :: "bool \<Rightarrow> write_reply \<Rightarrow> registry_page \<Rightarrow> registry_page" where
  "subscribe_settle inc a s =
     (case a of
        WrThrew m \<Rightarrow> s\<lparr>rp_subError := Some (JStr (nullish m ''failed'')), rp_subBusy := False\<rparr>
      | WrRefused body parsed \<Rightarrow> s\<lparr>rp_subError := Some (refused_detail body parsed), rp_subBusy := False\<rparr>
      | WrDone \<Rightarrow> registry_load inc False AfterSub (s\<lparr>rp_newEmail := []\<rparr>))"

definition create_settle :: "bool \<Rightarrow> write_reply \<Rightarrow> registry_page \<Rightarrow> registry_page" where
  "create_settle inc a s =
     (case a of
        WrThrew m \<Rightarrow> s\<lparr>rp_formError := Some (JStr (nullish m ''failed'')), rp_formBusy := False\<rparr>
      | WrRefused body parsed \<Rightarrow> s\<lparr>rp_formError := Some (refused_detail body parsed), rp_formBusy := False\<rparr>
      | WrDone \<Rightarrow> registry_load inc False AfterForm (s\<lparr>rp_form := blank_form, rp_addOpen := False\<rparr>))"

text \<open>A removal reloads when it is accepted; a refusal and an exception only end it.\<close>

definition remove_settle :: "bool \<Rightarrow> write_reply \<Rightarrow> registry_page \<Rightarrow> registry_page" where
  "remove_settle inc a s = (case a of WrDone \<Rightarrow> registry_load inc False AfterRemove s | _ \<Rightarrow> s\<lparr>rp_busyId := None\<rparr>)"

definition registry_resume :: "registry_task \<Rightarrow> registry_reply \<Rightarrow> write_reply \<Rightarrow> registry_page \<Rightarrow> registry_page" where
  "registry_resume t l w s =
     (case t of
        RgLoad aft \<Rightarrow> registry_end aft (s\<lparr>rp_state := load_state l\<rparr>)
      | RgAck inc \<Rightarrow> ack_settle inc w s
      | RgSubscribe inc \<Rightarrow> subscribe_settle inc w s
      | RgCreate inc \<Rightarrow> create_settle inc w s
      | RgRemove inc \<Rightarrow> remove_settle inc w s)"

text \<open>Answering the request under way at place \<open>i\<close>, whichever of the two answers fits it.\<close>

definition registry_answer :: "nat \<Rightarrow> registry_reply \<Rightarrow> write_reply \<Rightarrow> registry_page \<Rightarrow> registry_page" where
  "registry_answer i l w s =
     (if i < length (rp_tasks s) then registry_resume (rp_tasks s ! i) l w (s\<lparr>rp_tasks := drop_nth i (rp_tasks s)\<rparr>) else s)"

section \<open>Steps\<close>

datatype processor_field = PName | PRegion | PPurpose | PCategories | PDpaUrl | PStatus

fun set_form :: "processor_field \<Rightarrow> string \<Rightarrow> processor_form \<Rightarrow> processor_form" where
  "set_form PName v f = f\<lparr>pf_name := v\<rparr>"
| "set_form PRegion v f = f\<lparr>pf_region := v\<rparr>"
| "set_form PPurpose v f = f\<lparr>pf_purpose := v\<rparr>"
| "set_form PCategories v f = f\<lparr>pf_data_categories := v\<rparr>"
| "set_form PDpaUrl v f = f\<lparr>pf_dpa_url := v\<rparr>"
| "set_form PStatus v f = f\<lparr>pf_status := v\<rparr>"

definition can_manage :: "registry_page \<Rightarrow> bool" where
  "can_manage s \<longleftrightarrow> (case registry_ready s of Some d \<Rightarrow> rg_can_manage (rd_reg d) | None \<Rightarrow> False)"

definition processors_shown :: "registry_page \<Rightarrow> Processor list" where
  "processors_shown s = (case registry_ready s of Some d \<Rightarrow> rg_processors (rd_reg d) | None \<Rightarrow> [])"

definition subscribers_shown :: "registry_page \<Rightarrow> Subscription list" where
  "subscribers_shown s = (case registry_ready s of Some d \<Rightarrow> rd_subs d | None \<Rightarrow> [])"

definition ack_disabled :: "registry_page \<Rightarrow> registry_docs \<Rightarrow> bool" where
  "ack_disabled s d \<longleftrightarrow> rp_ackBusy s \<or> ac_up_to_date (rd_ack d) \<or> rg_revision (rd_reg d) = 0"

definition save_disabled :: "registry_page \<Rightarrow> bool" where
  "save_disabled s \<longleftrightarrow> rp_formBusy s \<or> trim (pf_name (rp_form s)) = []"

definition subscribe_disabled :: "registry_page \<Rightarrow> bool" where
  "subscribe_disabled s \<longleftrightarrow> rp_subBusy s \<or> trim (rp_newEmail s) = []"

definition form_shown :: "registry_page \<Rightarrow> bool" where
  "form_shown s \<longleftrightarrow> rp_addOpen s \<and> can_manage s"

text \<open>The two checks of the browser, and the steps of the page.\<close>

record form_checks =
  url_ok :: "string \<Rightarrow> bool"
  email_ok :: "string \<Rightarrow> bool"

datatype registry_op =
  RgInclude bool | RgKey string | RgAcknowledge | RgToggleForm | RgField processor_field string | RgSave
| RgRemoveRow nat | RgEmail string | RgAddEmail | RgRemoveEmail nat | RgAnswer nat registry_reply write_reply

fun registry_step :: "form_checks \<Rightarrow> registry_op \<Rightarrow> registry_page \<Rightarrow> registry_page" where
  "registry_step c (RgInclude v) s =
     (if v = rp_includeRemoved s then s else registry_load v True NoAfter (s\<lparr>rp_includeRemoved := v\<rparr>))"
| "registry_step c (RgKey k) s =
     (if k = rp_key s then s else registry_load (rp_includeRemoved s) True NoAfter (s\<lparr>rp_key := k\<rparr>))"
| "registry_step c RgAcknowledge s =
     (case registry_ready s of Some d \<Rightarrow> if ack_disabled s d then s else acknowledge s | None \<Rightarrow> s)"
| "registry_step c RgToggleForm s = (if can_manage s then s\<lparr>rp_addOpen := \<not> rp_addOpen s\<rparr> else s)"
| "registry_step c (RgField f v) s = (if form_shown s then s\<lparr>rp_form := set_form f v (rp_form s)\<rparr> else s)"
| "registry_step c RgSave s =
     (if form_shown s \<and> \<not> save_disabled s \<and> (pf_dpa_url (rp_form s) = [] \<or> url_ok c (pf_dpa_url (rp_form s)))
      then createProcessor s else s)"
| "registry_step c (RgRemoveRow n) s =
     (if can_manage s \<and> n < length (processors_shown s) \<and> rp_busyId s \<noteq> Some (pz_id (processors_shown s ! n))
      then removeProcessor (pz_id (processors_shown s ! n)) s else s)"
| "registry_step c (RgEmail v) s = (if registry_ready s \<noteq> None then s\<lparr>rp_newEmail := v\<rparr> else s)"
| "registry_step c RgAddEmail s =
     (if registry_ready s \<noteq> None \<and> \<not> subscribe_disabled s \<and> email_ok c (rp_newEmail s) then addSubscription s else s)"
| "registry_step c (RgRemoveEmail n) s =
     (if n < length (subscribers_shown s) \<and> rp_busyId s \<noteq> Some (sb_id (subscribers_shown s ! n))
      then removeSubscription (sb_id (subscribers_shown s ! n)) s else s)"
| "registry_step c (RgAnswer i l w) s = registry_answer i l w s"

definition registry_start :: "string \<Rightarrow> registry_page" where
  "registry_start k =
     registry_load False True NoAfter
       \<lparr>rp_key = k, rp_state = Loading, rp_includeRemoved = False, rp_newEmail = [], rp_subBusy = False, rp_subError = None,
        rp_ackBusy = False, rp_ackError = None, rp_addOpen = False, rp_form = blank_form, rp_formBusy = False,
        rp_formError = None, rp_busyId = None, rp_tasks = [], rp_sent = []\<rparr>"

definition registry_run :: "form_checks \<Rightarrow> string \<Rightarrow> registry_op list \<Rightarrow> registry_page" where
  "registry_run c k ops = fold (registry_step c) ops (registry_start k)"

section \<open>What it shows\<close>

text \<open>\<open>toLocaleString\<close> is a parameter; \<open>{formError && ...}\<close> shows nothing of an empty text.\<close>

definition detail_nodes :: "json option \<Rightarrow> node list" where
  "detail_nodes e = (case e of Some v \<Rightarrow> if truthy e then [Text (shown_text v)] else [] | None \<Rightarrow> [])"

definition revision_text :: "rat \<Rightarrow> string" where
  "revision_text r = CHR ''r'' # num_to_string r"

definition ack_text :: "(rat \<Rightarrow> string) \<Rightarrow> AckResp \<Rightarrow> string" where
  "ack_text loc a =
     ''Current revision '' @ revision_text (ac_current_revision a)
     @ (if ac_revision a > 0
        then '', you acknowledged '' @ revision_text (ac_revision a) @ '' on '' @ formatTs loc (ac_acknowledged_at a)
             @ by_whom (ac_acknowledged_by a)
        else '', never acknowledged'')"

definition ack_view :: "(rat \<Rightarrow> string) \<Rightarrow> registry_page \<Rightarrow> registry_docs \<Rightarrow> node list" where
  "ack_view loc s d =
     [Badge (ac_up_to_date (rd_ack d))
        (if ac_up_to_date (rd_ack d) then ''Acknowledgement up to date'' else ''Acknowledgement out of date''),
      Text (ack_text loc (rd_ack d)),
      Button (if rp_ackBusy s then ''Saving'' else ''Acknowledge '' @ revision_text (rg_revision (rd_reg d))) (ack_disabled s d)]
     @ error_nodes (rp_ackError s)"

definition processor_form_view :: "registry_page \<Rightarrow> registry_docs \<Rightarrow> node list" where
  "processor_form_view s d =
     (if rp_addOpen s \<and> rg_can_manage (rd_reg d) then
        [TextField ''Name'' (pf_name (rp_form s)), TextField ''Region'' (pf_region (rp_form s)),
         TextField ''Purpose'' (pf_purpose (rp_form s)),
         TextField ''Data categories (comma separated)'' (pf_data_categories (rp_form s)),
         TextField ''DPA URL'' (pf_dpa_url (rp_form s))]
        @ map (\<lambda>v. Choice v (v = pf_status (rp_form s))) (rg_statuses (rd_reg d))
        @ detail_nodes (rp_formError s)
        @ [Button (if rp_formBusy s then ''Saving'' else ''Save sub-processor'') (save_disabled s)]
      else [])"

definition processor_view :: "(rat \<Rightarrow> string) \<Rightarrow> registry_page \<Rightarrow> registry_docs \<Rightarrow> Processor \<Rightarrow> node list" where
  "processor_view loc s d p =
     [Text (pz_name p), Text (pz_status p)] @ (if pz_region p \<noteq> [] then [Text (pz_region p)] else [])
     @ (if pz_purpose p \<noteq> [] then [Text (pz_purpose p)] else []) @ map Text (pz_data_categories p)
     @ [Text (''Updated '' @ formatTs loc (pz_updated_at p))] @ (if pz_dpa_url p \<noteq> [] then [Text ''DPA''] else [])
     @ (if rg_can_manage (rd_reg d) then [Button ''Remove'' (rp_busyId s = Some (pz_id p))] else [])"

definition registry_section :: "(rat \<Rightarrow> string) \<Rightarrow> registry_page \<Rightarrow> registry_docs \<Rightarrow> node list" where
  "registry_section loc s d =
     Text ''Registry'' # (if rg_can_manage (rd_reg d) then [Button (if rp_addOpen s then ''Close'' else ''Add sub-processor'') False] else [])
     @ processor_form_view s d
     @ (if rg_processors (rd_reg d) = []
        then [Text ''The sub-processor registry is empty. Once operators seed the list, every workspace will be asked to acknowledge it.'']
        else concat (map (processor_view loc s d) (rg_processors (rd_reg d))))"

definition subscriber_view :: "(rat \<Rightarrow> string) \<Rightarrow> registry_page \<Rightarrow> Subscription \<Rightarrow> node list" where
  "subscriber_view loc s u =
     [Text (sb_email u), Text (''Added '' @ formatTs loc (sb_created_at u)), Button ''Remove'' (rp_busyId s = Some (sb_id u))]"

definition subscribers_section :: "(rat \<Rightarrow> string) \<Rightarrow> registry_page \<Rightarrow> registry_docs \<Rightarrow> node list" where
  "subscribers_section loc s d =
     [Text ''Change notifications'', TextField ''dpo@yourcompany.com'' (rp_newEmail s), Button ''Subscribe'' (subscribe_disabled s)]
     @ detail_nodes (rp_subError s)
     @ (if rd_subs d = []
        then [Text ''No subscribers yet. Without one, the only way to learn about a change is to revisit this page.'']
        else concat (map (subscriber_view loc s) (rd_subs d)))"

definition registry_view :: "(rat \<Rightarrow> string) \<Rightarrow> registry_page \<Rightarrow> node list" where
  "registry_view loc s =
     [Text ''Sub-processors'', Choice ''Show removed'' (rp_includeRemoved s)]
     @ (case rp_state s of
          Loading \<Rightarrow> [Skeleton 3]
        | Failed st m \<Rightarrow>
            [Text (''Could not load sub-processors ('' @ (if st \<noteq> 0 then nat_digits st else ''network'') @ '')''),
             Text (or_str m ''unknown error'')]
        | Ready d \<Rightarrow> ack_view loc s d @ registry_section loc s d @ subscribers_section loc s d)"

end
