(* ===== verification/SubprocessorsLaws.thy ===== *)
theory SubprocessorsLaws
  imports SubprocessorsPage
begin

text \<open>
  What holds of the page of the sub-processors: what it sends was meant and is what it shows, its buttons
  are busy exactly while a request of theirs is under way, and it comes to rest; what a load makes of its
  three responses; the list of the categories is read back from its text.
\<close>

lemmas registry_defs =
  registry_send_def registry_load_def acknowledge_def addSubscription_def removeSubscription_def createProcessor_def
  removeProcessor_def ack_settle_def subscribe_settle_def create_settle_def remove_settle_def registry_answer_def

lemma registry_answer_cases:
  "registry_answer i l w s =
     (if i < length (rp_tasks s) then registry_resume (rp_tasks s ! i) l w (s\<lparr>rp_tasks := drop_nth i (rp_tasks s)\<rparr>) else s)"
  by (simp add: registry_answer_def)

section \<open>Coming to rest\<close>

datatype registry_button = FAck | FSub | FForm

fun registry_kind :: "registry_task \<Rightarrow> registry_button option" where
  "registry_kind (RgLoad AfterAck) = Some FAck"
| "registry_kind (RgLoad AfterSub) = Some FSub"
| "registry_kind (RgLoad AfterForm) = Some FForm"
| "registry_kind (RgAck inc) = Some FAck"
| "registry_kind (RgSubscribe inc) = Some FSub"
| "registry_kind (RgCreate inc) = Some FForm"
| "registry_kind _ = None"

fun registry_flag :: "registry_button \<Rightarrow> registry_page \<Rightarrow> bool" where
  "registry_flag FAck s = rp_ackBusy s"
| "registry_flag FSub s = rp_subBusy s"
| "registry_flag FForm s = rp_formBusy s"

text \<open>The flag that a task of its kind lowers when it ends.\<close>

lemma registry_end_flag: "registry_flag k (registry_end aft s) = (registry_flag k s \<and> registry_kind (RgLoad aft) \<noteq> Some k)"
  by (cases aft; cases k) simp_all

lemma registry_end_tasks [simp]:
  "rp_tasks (registry_end aft s) = rp_tasks s" "rp_sent (registry_end aft s) = rp_sent s"
  by (cases aft; simp)+

lemma registry_flag_tasks [simp]: "registry_flag k (s\<lparr>rp_tasks := ts\<rparr>) = registry_flag k s"
  by (cases k) simp_all

lemma registry_resume_moves:
  "flight_move (registry_flag k s)
     (under_way registry_kind k (rp_tasks s) + (if registry_kind t = Some k then 1 else 0))
     (registry_flag k (registry_resume t l w s)) (under_way registry_kind k (rp_tasks (registry_resume t l w s)))"
proof (cases t)
  case (RgLoad aft)
  then show ?thesis
    by (cases k; cases aft) (simp_all add: registry_resume_def flight_move_def)
qed (cases w; cases k; simp add: registry_resume_def registry_defs flight_move_def)+

lemma registry_step_moves:
  "flight_move (registry_flag k s) (under_way registry_kind k (rp_tasks s)) (registry_flag k (registry_step c op s))
     (under_way registry_kind k (rp_tasks (registry_step c op s)))"
proof (cases op)
  case (RgAnswer i l w)
  show ?thesis
  proof (cases "i < length (rp_tasks s)")
    case True
    then show ?thesis
      using RgAnswer registry_resume_moves [of k "s\<lparr>rp_tasks := drop_nth i (rp_tasks s)\<rparr>" "rp_tasks s ! i" l w]
      by (simp add: registry_answer_cases under_way_drop [OF True, of registry_kind])
  qed (use RgAnswer in \<open>simp add: registry_answer_cases flight_move_def\<close>)
qed (cases k; simp add: flight_move_def registry_defs ack_disabled_def save_disabled_def subscribe_disabled_def split: option.split)+

interpretation registry_flights:
  flights "registry_step c" "registry_start k" rp_tasks registry_kind registry_flag "\<lambda>_. True" "\<lambda>_. True"
proof unfold_locales
  fix f
  show "under_way registry_kind f (rp_tasks (registry_start k)) = 0 \<and> \<not> registry_flag f (registry_start k)"
    by (cases f) (simp_all add: registry_start_def registry_defs)
qed (simp_all add: registry_step_moves)

text \<open>The rows share one flag, that of the last removal begun.\<close>

fun removing :: "registry_task \<Rightarrow> unit option" where
  "removing (RgRemove inc) = Some ()"
| "removing (RgLoad AfterRemove) = Some ()"
| "removing _ = None"

definition row_busy :: "registry_page \<Rightarrow> bool" where
  "row_busy s \<longleftrightarrow> rp_busyId s \<noteq> None"

definition row_backed :: "bool \<Rightarrow> nat \<Rightarrow> bool \<Rightarrow> nat \<Rightarrow> bool" where
  "row_backed f n f' n' \<longleftrightarrow> (f' \<longrightarrow> n' \<noteq> 0 \<or> f \<and> n' = n)"

lemma registry_resume_rows:
  "row_backed (row_busy s) (under_way removing u (rp_tasks s) + (if removing t = Some u then 1 else 0))
     (row_busy (registry_resume t l w s)) (under_way removing u (rp_tasks (registry_resume t l w s)))"
proof (cases t)
  case (RgLoad aft)
  then show ?thesis by (cases aft; cases u) (simp_all add: registry_resume_def row_busy_def row_backed_def)
qed (cases w; cases u; simp add: registry_resume_def registry_defs row_busy_def row_backed_def)+

lemma registry_step_rows:
  "row_backed (row_busy s) (under_way removing u (rp_tasks s)) (row_busy (registry_step c op s))
     (under_way removing u (rp_tasks (registry_step c op s)))"
proof (cases op)
  case (RgAnswer i l w)
  show ?thesis
  proof (cases "i < length (rp_tasks s)")
    case True
    have "row_busy (s\<lparr>rp_tasks := ts\<rparr>) = row_busy s" for ts by (simp add: row_busy_def)
    then show ?thesis
      using True RgAnswer registry_resume_rows [of "s\<lparr>rp_tasks := drop_nth i (rp_tasks s)\<rparr>" u "rp_tasks s ! i" l w]
      by (simp add: registry_answer_cases under_way_drop [OF True, of removing])
  qed (use RgAnswer in \<open>simp add: registry_answer_cases row_backed_def\<close>)
qed (cases u; simp add: row_busy_def row_backed_def registry_defs split: option.split)+

interpretation registry_rows: backed "registry_step c" "registry_start k" rp_tasks removing "\<lambda>_. row_busy" "\<lambda>_. True" "\<lambda>_. True"
proof unfold_locales
  fix s op u
  show "row_busy (registry_step c op s) \<Longrightarrow> under_way removing u (rp_tasks (registry_step c op s)) \<noteq> 0 \<or>
      row_busy s \<and> under_way removing u (rp_tasks (registry_step c op s)) = under_way removing u (rp_tasks s)"
    using registry_step_rows [of s u c op] by (simp add: row_backed_def)
qed (simp_all add: row_busy_def registry_start_def registry_defs)

fun registry_weight :: "registry_task \<Rightarrow> nat" where
  "registry_weight (RgLoad aft) = 1"
| "registry_weight _ = 2"

abbreviation registry_first :: "registry_reply \<times> write_reply \<Rightarrow> registry_page \<Rightarrow> registry_page" where
  "registry_first a \<equiv> registry_answer 0 (fst a) (snd a)"

interpretation registry_drain: draining registry_first rp_tasks registry_weight
proof unfold_locales
  show "0 < registry_weight t" for t by (cases t) simp_all
  fix s :: registry_page and a
  assume "rp_tasks s \<noteq> []"
  then obtain t ts where "rp_tasks s = t # ts" by (cases "rp_tasks s") auto
  then show "workload registry_weight (rp_tasks (registry_first a s)) < workload registry_weight (rp_tasks s)"
    by (cases t; cases "snd a") (auto simp: registry_answer_def drop_nth_def registry_resume_def registry_defs)
qed (simp add: registry_answer_def)

lemma registry_answers:
  "fold registry_first as (registry_run c k ops) = registry_run c k (ops @ map (\<lambda>a. RgAnswer 0 (fst a) (snd a)) as)"
proof -
  have "fold registry_first as s = fold (registry_step c) (map (\<lambda>a. RgAnswer 0 (fst a) (snd a)) as) s" for s
    by (induction as arbitrary: s) simp_all
  then show ?thesis by (simp add: registry_run_def)
qed

text \<open>
  On the page of the sub-processors at most one acknowledgement, one subscription and one creation is
  under way, its reload included, exactly while its button is disabled for it; a row is busy only while a
  removal is under way; and the page comes to rest: once its requests are answered, whatever the answers
  and also when they are exceptions, none is left and every button is free.
\<close>

theorem registry_settles:
  "under_way registry_kind f (rp_tasks (registry_run c k ops)) = (if registry_flag f (registry_run c k ops) then 1 else 0) \<and>
   (rp_busyId (registry_run c k ops) \<noteq> None \<longrightarrow> under_way removing () (rp_tasks (registry_run c k ops)) \<noteq> 0) \<and>
   (workload registry_weight (rp_tasks (registry_run c k ops)) \<le> length as \<longrightarrow>
     (let t = fold (\<lambda>a. registry_answer 0 (fst a) (snd a)) as (registry_run c k ops) in
        rp_tasks t = [] \<and> \<not> registry_flag f t \<and> rp_busyId t = None))"
proof (intro conjI impI)
  have all: "list_all (\<lambda>_. True) ops" for ops :: "registry_op list" by (simp add: list_all_iff)
  show "under_way registry_kind f (rp_tasks (registry_run c k ops)) = (if registry_flag f (registry_run c k ops) then 1 else 0)"
    unfolding registry_run_def using registry_flights.one_flight [OF all] .
  show "under_way removing () (rp_tasks (registry_run c k ops)) \<noteq> 0" if "rp_busyId (registry_run c k ops) \<noteq> None"
    using registry_rows.run_backed [OF all, of c ops k] that by (simp add: row_busy_def registry_run_def)
  assume "workload registry_weight (rp_tasks (registry_run c k ops)) \<le> length as"
  then have empty: "rp_tasks (fold registry_first as (registry_run c k ops)) = []" by (rule registry_drain.drained)
  let ?t = "registry_run c k (ops @ map (\<lambda>a. RgAnswer 0 (fst a) (snd a)) as)"
  have rest: "rp_tasks ?t = []" using empty by (simp add: registry_answers)
  have "\<not> registry_flag f ?t" using registry_flights.at_rest [OF all] rest unfolding registry_run_def by blast
  moreover have "\<not> row_busy ?t" using registry_rows.at_rest [OF all] rest unfolding registry_run_def by blast
  ultimately show "let t = fold (\<lambda>a. registry_answer 0 (fst a) (snd a)) as (registry_run c k ops) in
        rp_tasks t = [] \<and> \<not> registry_flag f t \<and> rp_busyId t = None"
    using rest by (simp add: registry_answers row_busy_def)
qed

section \<open>What is sent\<close>

lemma registry_resume_sent: "\<exists>rs. rp_sent (registry_resume t l w s) = rp_sent s @ rs \<and> (\<forall>r\<in>set rs. req_method r = ''GET'')"
proof (cases t)
  case (RgLoad aft)
  then show ?thesis by (simp add: registry_resume_def)
qed (cases w; simp add: registry_resume_def registry_defs registry_get_def)+

text \<open>The clicks that change something, with what they send.\<close>

definition sends_registry :: "form_checks \<Rightarrow> registry_page \<Rightarrow> registry_op \<Rightarrow> request \<Rightarrow> bool" where
  "sends_registry c s op r \<longleftrightarrow>
     req_method r = ''GET'' \<or>
     op = RgAcknowledge \<and> req_method r = ''POST'' \<and> req_path r = ''/api/subprocessors/acknowledgement'' \<and>
       (\<exists>d. rp_state s = Ready d \<and> \<not> ac_up_to_date (rd_ack d) \<and> rg_revision (rd_reg d) \<noteq> 0 \<and>
          req_payload r = Some (ack_body (rg_revision (rd_reg d)))) \<or>
     op = RgAddEmail \<and> req_method r = ''POST'' \<and> req_path r = ''/api/subprocessors/subscriptions'' \<and>
       trim (rp_newEmail s) \<noteq> [] \<and> email_ok c (rp_newEmail s) \<and> req_payload r = Some (email_body (rp_newEmail s)) \<or>
     op = RgSave \<and> req_method r = ''POST'' \<and> req_path r = ''/api/subprocessors'' \<and> can_manage s \<and>
       trim (pf_name (rp_form s)) \<noteq> [] \<and> req_payload r = Some (form_body (rp_form s)) \<or>
     req_method r = ''DELETE'' \<and>
       ((\<exists>u\<in>set (subscribers_shown s). req_path r = ''/api/subprocessors/subscriptions/'' @ encodeURIComponent (sb_id u)) \<or>
        can_manage s \<and> (\<exists>p\<in>set (processors_shown s). req_path r = ''/api/subprocessors/'' @ encodeURIComponent (pz_id p)))"

lemma registry_sends:
  "\<exists>rs. rp_sent (registry_step c op s) = rp_sent s @ rs \<and> (\<forall>r\<in>set rs. sends_registry c s op r)"
proof (cases op)
  case (RgAnswer i l w)
  show ?thesis
  proof (cases "i < length (rp_tasks s)")
    case True
    then show ?thesis
      using RgAnswer registry_resume_sent [of "rp_tasks s ! i" l w "s\<lparr>rp_tasks := drop_nth i (rp_tasks s)\<rparr>"]
      by (auto simp: registry_answer_cases sends_registry_def)
  qed (use RgAnswer in \<open>simp add: registry_answer_cases\<close>)
next
  case RgAcknowledge
  then show ?thesis
    by (cases "rp_state s")
      (simp_all add: registry_ready_def acknowledge_def registry_send_def ack_disabled_def sends_registry_def)
next
  case RgAddEmail
  then show ?thesis by (simp add: registry_defs sends_registry_def subscribe_disabled_def)
next
  case RgSave
  then show ?thesis by (simp add: registry_defs sends_registry_def save_disabled_def form_shown_def)
next
  case (RgRemoveRow n)
  then show ?thesis by (auto simp: registry_defs sends_registry_def)
next
  case (RgRemoveEmail n)
  then show ?thesis by (auto simp: registry_defs sends_registry_def)
qed (simp_all add: registry_defs registry_get_def sends_registry_def)

interpretation registry_log: logging "registry_step c" rp_sent "sends_registry c"
  by unfold_locales (rule registry_sends)

lemma registry_run_sends:
  "r \<in> set (rp_sent (registry_run c k ops)) \<Longrightarrow>
     req_method r = ''GET'' \<or> (\<exists>pre op post. ops = pre @ op # post \<and> sends_registry c (registry_run c k pre) op r)"
  using registry_log.run_log [of r c ops "registry_start k"]
  by (auto simp: registry_run_def registry_start_def registry_load_def registry_get_def)

text \<open>
  C21. Nothing is acknowledged unseen, and only what is shown is removed. Over every run of the page of the
  sub-processors, the revision that is acknowledged is the one of the registry shown at the click, which
  the page does not say to be acknowledged already; what is removed is an address or a sub-processor of the
  rows then shown; and a sub-processor is added or removed only when the registry shown says that the user
  may manage it.
\<close>

theorem registry_requests_meant:
  assumes "r \<in> set (rp_sent (registry_run c k ops))"
  shows "(req_method r = ''POST'' \<and> req_path r = ''/api/subprocessors/acknowledgement'' \<longrightarrow>
      (\<exists>pre post d. ops = pre @ RgAcknowledge # post \<and> rp_state (registry_run c k pre) = Ready d \<and>
         \<not> ac_up_to_date (rd_ack d) \<and> req_payload r = Some (ack_body (rg_revision (rd_reg d))))) \<and>
    (req_method r = ''POST'' \<and> req_path r = ''/api/subprocessors'' \<longrightarrow>
      (\<exists>pre post. ops = pre @ RgSave # post \<and> can_manage (registry_run c k pre) \<and>
         req_payload r = Some (form_body (rp_form (registry_run c k pre))))) \<and>
    (req_method r = ''DELETE'' \<longrightarrow>
      (\<exists>pre post. ops = pre @ post \<and>
         ((\<exists>u\<in>set (subscribers_shown (registry_run c k pre)).
             req_path r = ''/api/subprocessors/subscriptions/'' @ encodeURIComponent (sb_id u)) \<or>
          can_manage (registry_run c k pre) \<and>
          (\<exists>p\<in>set (processors_shown (registry_run c k pre)). req_path r = ''/api/subprocessors/'' @ encodeURIComponent (pz_id p)))))"
proof (cases "req_method r = ''GET''")
  case False
  then obtain pre op post where ops: "ops = pre @ op # post" and s: "sends_registry c (registry_run c k pre) op r"
    using registry_run_sends [OF assms] by blast
  show ?thesis
  proof (intro conjI impI, goal_cases)
    case 1
    then have "op = RgAcknowledge" "\<exists>d. rp_state (registry_run c k pre) = Ready d \<and> \<not> ac_up_to_date (rd_ack d) \<and>
        req_payload r = Some (ack_body (rg_revision (rd_reg d)))"
      using s by (auto simp: sends_registry_def)
    then show ?case using ops by blast
  next
    case 2
    then have "op = RgSave" "can_manage (registry_run c k pre)" "req_payload r = Some (form_body (rp_form (registry_run c k pre)))"
      using s by (auto simp: sends_registry_def)
    then show ?case using ops by blast
  next
    case 3
    then show ?case using ops s by (intro exI [of _ pre] exI [of _ "op # post"]) (auto simp: sends_registry_def)
  qed
qed simp

section \<open>Loads and texts\<close>

text \<open>The registry is shown only when all three responses were accepted and read; what is shown is theirs.\<close>

lemma load_state_ready:
  "load_state a = Ready d \<longleftrightarrow> a = RgParts (IsOk (Inr (rd_reg d))) (IsOk (Inr (rd_ack d))) (IsOk (Inr (rd_subs d)))"
proof (cases a)
  case (RgParts r k u)
  have "load_refused st b \<noteq> Ready d" for st b by (cases b) (simp_all add: load_refused_def load_broken_def)
  then show ?thesis
    using RgParts
    by (cases "(r, k, u)" rule: load_parts.cases) (auto simp: load_state_def load_broken_def)
qed (simp add: load_state_def load_broken_def)

text \<open>A refusal is shown before any broken body, and the first one in the order of the registry, the acknowledgement and the addresses.\<close>

lemma load_state_refused:
  "load_state (RgParts r k (NotOk st (Inr m))) =
     (case r of NotOk st' b \<Rightarrow> load_refused st' b
      | IsOk _ \<Rightarrow> (case k of NotOk st' b \<Rightarrow> load_refused st' b | IsOk _ \<Rightarrow> Failed st m))"
  by (cases r; cases k) (simp_all add: load_state_def load_refused_def)

text \<open>A list of categories without commas and without space around them is read back from its text.\<close>

definition clean_category :: "string \<Rightarrow> bool" where
  "clean_category w \<longleftrightarrow> w \<noteq> [] \<and> trim w = w \<and> CHR '','' \<notin> set w"

lemma categories_clean: "w \<in> set (categories draft) \<Longrightarrow> w \<noteq> [] \<and> trim w = w"
  by (auto simp: categories_def)

lemma categories_join:
  assumes "list_all clean_category ws"
  shows "categories (join '','' ws) = ws"
proof (cases "ws = []")
  case False
  have "split_on (CHR '','') (join '','' ws) = ws"
    using False assms by (intro split_on_join) (auto simp: list_all_iff clean_category_def)
  then show ?thesis
    using assms by (auto simp: categories_def list_all_iff clean_category_def intro!: trans [OF filter_True] map_idI)
qed (simp add: categories_def trim_def)

section \<open>Examples\<close>

definition one_registry :: registry_docs where
  "one_registry =
     \<lparr>rd_reg = \<lparr>rg_revision = 3, rg_processors = [], rg_statuses = [''active''], rg_can_manage = True\<rparr>,
      rd_ack = \<lparr>ac_tenant_id = ''t'', ac_revision = 2, ac_acknowledged_by = [], ac_acknowledged_at = 0, ac_current_revision = 3,
                ac_up_to_date = False\<rparr>,
      rd_subs = []\<rparr>"

abbreviation registry_sample :: "registry_op list" where
  "registry_sample \<equiv>
     [RgAnswer 0 (RgParts (IsOk (Inr (rd_reg one_registry))) (IsOk (Inr (rd_ack one_registry))) (IsOk (Inr (rd_subs one_registry)))) WrDone,
      RgAcknowledge]"

definition any_form :: form_checks where
  "any_form = \<lparr>url_ok = (\<lambda>_. True), email_ok = (\<lambda>_. True)\<rparr>"

theorem registry_requests_meant_witness:
  "\<exists>r\<in>set (rp_sent (registry_run any_form [] registry_sample)).
     req_method r = ''POST'' \<and> req_path r = ''/api/subprocessors/acknowledgement'' \<and>
     (\<exists>pre post d. registry_sample = pre @ RgAcknowledge # post \<and> rp_state (registry_run any_form [] pre) = Ready d \<and>
        \<not> ac_up_to_date (rd_ack d) \<and> req_payload r = Some (ack_body (rg_revision (rd_reg d))))"
proof -
  let ?r = "\<lparr>req_method = ''POST'', req_path = ''/api/subprocessors/acknowledgement'',
      req_headers = [(''Content-Type'', ''application/json'')], req_payload = Some (ack_body 3)\<rparr>"
  have r: "?r \<in> set (rp_sent (registry_run any_form [] registry_sample))"
    by (simp add: registry_run_def registry_start_def registry_defs drop_nth_def registry_resume_def load_state_def
        registry_ready_def ack_disabled_def one_registry_def registry_json_def registry_auth_def)
  have m: "req_method ?r = ''POST'' \<and> req_path ?r = ''/api/subprocessors/acknowledgement''" by simp
  with registry_requests_meant [OF r, THEN conjunct1, THEN mp, OF m] show ?thesis by (intro bexI [OF _ r] conjI) simp_all
qed

theorem registry_settles_witness:
  "let t = fold (\<lambda>a. registry_answer 0 (fst a) (snd a)) [(RgThrew None, WrDone)] (registry_run any_form [] []) in
     rp_tasks t = [] \<and> \<not> registry_flag FAck t \<and> rp_busyId t = None"
proof -
  have "workload registry_weight (rp_tasks (registry_run any_form [] [])) \<le> length [(RgThrew None :: registry_reply, WrDone)]"
    by (simp add: registry_run_def registry_start_def registry_defs)
  then show ?thesis using registry_settles [of FAck any_form "[]" "[]" "[(RgThrew None, WrDone)]"] by blast
qed

end
