(* ===== verification/IncidentsPage.thy ===== *)
theory IncidentsPage
  imports Requests AdminPages OEmbed Whole
begin

text \<open>
  \<open>web/app/admin/incidents/page.tsx\<close>: the queue of the security incidents, the form that declares one, and
  the detail of the selected one. React keeps the state of a \<open>Detail\<close> for as long as it is rendered in
  the row of the same incident: \<open>inc_open\<close> holds the state of the one that is mounted, with a number that no other
  has, and \<open>remount\<close> mounts and unmounts after every step. A request of a detail knows the number, and its answer
  does not reach another one. The ids of a list are taken to be distinct.
\<close>

section \<open>State\<close>

record IncidentEvent =
  ev_at :: rat
  ev_actor :: string
  ev_kind :: string
  ev_note :: string
  ev_from_status :: string
  ev_to_status :: string

record Incident =
  ic_id :: string
  ic_title :: string
  ic_severity :: string
  ic_status :: string
  ic_detail :: string
  ic_discovered_at :: rat
  ic_created_at :: rat
  ic_updated_at :: rat
  ic_closed_at :: rat
  ic_regulator_notified_at :: rat
  ic_regulator_name :: string
  ic_regulator_reference :: string
  ic_subjects_notified_at :: rat
  ic_affected_count :: rat
  ic_notify_deadline_at :: rat
  ic_notify_overdue :: bool
  ic_history :: "IncidentEvent list"

record IncidentSummary =
  su_total :: rat
  su_open :: rat
  su_overdue :: rat

record IncidentList =
  il_incidents :: "Incident list"
  il_summary :: IncidentSummary
  il_severities :: "string list"
  il_statuses :: "string list"
  il_notify_deadline_seconds :: rat

datatype incident_tab = TabNote | TabAdvance | TabRegulator | TabSubjects

record incident_detail =
  dt_number :: nat
  dt_id :: string
  dt_tab :: incident_tab
  dt_note :: string
  dt_toStatus :: string
  dt_regName :: string
  dt_regRef :: string
  dt_affected :: string
  dt_busy :: bool
  dt_err :: "string option"

record declare_form =
  df_open :: bool
  df_title :: string
  df_severity :: string
  df_detail :: string
  df_busy :: bool
  df_err :: "string option"

text \<open>The requests under way. A post reloads with the filter of its click.\<close>

datatype incident_task = IcLoad | IcDeclare string | IcPost nat string

record incidents_page =
  inc_key :: string
  inc_data :: "IncidentList option"
  inc_loading :: bool
  inc_error :: "string option"
  inc_filter :: string
  inc_selectedId :: "string option"
  inc_form :: declare_form
  inc_open :: "incident_detail option"
  inc_next :: nat
  inc_tasks :: "incident_task list"
  inc_sent :: "request list"

section \<open>What is mounted\<close>

text \<open>\<open>{error ? ... : ...}\<close>\<close>

definition list_error :: "incidents_page \<Rightarrow> bool" where
  "list_error s \<longleftrightarrow> inc_error s \<noteq> None \<and> inc_error s \<noteq> Some []"

definition rows_shown :: "incidents_page \<Rightarrow> Incident list" where
  "rows_shown s =
     (case inc_data s of
        None \<Rightarrow> []
      | Some d \<Rightarrow> if list_error s then [] else il_incidents d)"

definition selected_row :: "incidents_page \<Rightarrow> Incident option" where
  "selected_row s = List.find (\<lambda>i. Some (ic_id i) = inc_selectedId s) (rows_shown s)"

definition statuses_of :: "incidents_page \<Rightarrow> string list" where
  "statuses_of s = (case inc_data s of Some d \<Rightarrow> il_statuses d | None \<Rightarrow> [])"

definition first_other :: "string list \<Rightarrow> string \<Rightarrow> string" where
  "first_other statuses st = nullish (List.find (\<lambda>v. v \<noteq> st) statuses) ''contained''"

definition fresh_detail :: "nat \<Rightarrow> string list \<Rightarrow> Incident \<Rightarrow> incident_detail" where
  "fresh_detail n statuses i =
     \<lparr>dt_number = n, dt_id = ic_id i, dt_tab = TabNote, dt_note = [], dt_toStatus = first_other statuses (ic_status i),
      dt_regName = [], dt_regRef = [], dt_affected = ''0'', dt_busy = False, dt_err = None\<rparr>"

definition remount :: "incidents_page \<Rightarrow> incidents_page" where
  "remount s =
     (case selected_row s of
        None \<Rightarrow> s\<lparr>inc_open := None\<rparr>
      | Some i \<Rightarrow>
          if map_option dt_id (inc_open s) = Some (ic_id i) then s
          else s\<lparr>inc_open := Some (fresh_detail (inc_next s) (statuses_of s) i), inc_next := Suc (inc_next s)\<rparr>)"

section \<open>Requests\<close>

definition incident_headers :: "incidents_page \<Rightarrow> (string \<times> string) list" where
  "incident_headers s =
     (''Content-Type'', ''application/json'') # (if inc_key s \<noteq> [] then [(''X-API-Key'', inc_key s)] else [])"

definition incident_send :: "incident_task \<Rightarrow> string \<Rightarrow> string \<Rightarrow> json option \<Rightarrow> incidents_page \<Rightarrow> incidents_page" where
  "incident_send t m path body s =
     s\<lparr>inc_tasks := inc_tasks s @ [t],
       inc_sent := inc_sent s @ [\<lparr>req_method = m, req_path = path, req_headers = incident_headers s, req_payload = body\<rparr>]\<rparr>"

definition incident_refresh :: "string \<Rightarrow> incidents_page \<Rightarrow> incidents_page" where
  "incident_refresh flt s =
     incident_send IcLoad ''GET'' (''/api/incidents'' @ (if flt \<noteq> [] then ''?status='' @ encodeURIComponent flt else [])) None
       (s\<lparr>inc_loading := True, inc_error := None\<rparr>)"

text \<open>The message of what the three functions throw on a refusal and catch.\<close>

definition refused_text :: "nat \<Rightarrow> string option \<Rightarrow> string \<Rightarrow> string" where
  "refused_text st body statusText = nat_digits st @ '' '' @ or_str (nullish body []) statusText"

definition incidents_settle :: "IncidentList Requests.reply \<Rightarrow> incidents_page \<Rightarrow> incidents_page" where
  "incidents_settle a s =
     (case a of
        Broke m \<Rightarrow> s\<lparr>inc_error := Some m, inc_loading := False\<rparr>
      | Denied st body statusText \<Rightarrow> s\<lparr>inc_error := Some (refused_text st body statusText), inc_loading := False\<rparr>
      | Got d \<Rightarrow> s\<lparr>inc_data := Some d, inc_loading := False\<rparr>)"

section \<open>Declaring\<close>

definition declare_body :: "declare_form \<Rightarrow> json" where
  "declare_body f = JObj [(''title'', JStr (df_title f)), (''severity'', JStr (df_severity f)), (''detail'', JStr (df_detail f))]"

definition declare_disabled :: "declare_form \<Rightarrow> bool" where
  "declare_disabled f \<longleftrightarrow> df_busy f \<or> trim (df_title f) = []"

definition declare_submit :: "incidents_page \<Rightarrow> incidents_page" where
  "declare_submit s =
     incident_send (IcDeclare (inc_filter s)) ''POST'' ''/api/incidents'' (Some (declare_body (inc_form s)))
       (s\<lparr>inc_form := (inc_form s)\<lparr>df_busy := True, df_err := None\<rparr>\<rparr>)"

definition declare_settle :: "string \<Rightarrow> IncidentList Requests.reply \<Rightarrow> incidents_page \<Rightarrow> incidents_page" where
  "declare_settle flt a s =
     (let f = (inc_form s)\<lparr>df_busy := False\<rparr> in
      case a of
        Broke m \<Rightarrow> s\<lparr>inc_form := f\<lparr>df_err := Some m\<rparr>\<rparr>
      | Denied st body statusText \<Rightarrow> s\<lparr>inc_form := f\<lparr>df_err := Some (refused_text st body statusText)\<rparr>\<rparr>
      | Got d \<Rightarrow>
          incident_refresh flt
            (s\<lparr>inc_form := f\<lparr>df_title := [], df_detail := [], df_severity := ''medium'', df_open := False\<rparr>\<rparr>))"

section \<open>The detail\<close>

definition closed_for_good :: "Incident \<Rightarrow> bool" where
  "closed_for_good i \<longleftrightarrow> ic_status i = ''resolved'' \<or> ic_status i = ''closed_no_action''"

text \<open>\<open>Math.max(0, parseInt(affected || "0", 10) || 0)\<close>\<close>

definition affected_number :: "string \<Rightarrow> jsnum" where
  "affected_number v = (case parse_int (or_str v ''0'') of Fin x \<Rightarrow> Fin (max 0 x) | PInf \<Rightarrow> PInf | _ \<Rightarrow> Fin 0)"

fun tab_suffix :: "incident_tab \<Rightarrow> string" where
  "tab_suffix TabNote = ''/notes''"
| "tab_suffix TabAdvance = ''/advance''"
| "tab_suffix TabRegulator = ''/regulator-notified''"
| "tab_suffix TabSubjects = ''/subjects-notified''"

fun tab_body :: "incident_tab \<Rightarrow> incident_detail \<Rightarrow> json" where
  "tab_body TabNote d = JObj [(''note'', JStr (dt_note d))]"
| "tab_body TabAdvance d = JObj [(''to_status'', JStr (dt_toStatus d)), (''note'', JStr (dt_note d))]"
| "tab_body TabRegulator d =
     JObj [(''regulator_name'', JStr (dt_regName d)), (''regulator_reference'', JStr (dt_regRef d)), (''note'', JStr (dt_note d))]"
| "tab_body TabSubjects d = JObj [(''affected_count'', JNum (affected_number (dt_affected d))), (''note'', JStr (dt_note d))]"

fun tab_disabled :: "incident_tab \<Rightarrow> Incident \<Rightarrow> incident_detail \<Rightarrow> bool" where
  "tab_disabled TabNote i d \<longleftrightarrow> dt_busy d \<or> trim (dt_note d) = []"
| "tab_disabled TabAdvance i d \<longleftrightarrow> dt_busy d"
| "tab_disabled TabRegulator i d \<longleftrightarrow> dt_busy d \<or> trim (dt_regName d) = [] \<or> ic_regulator_notified_at i > 0"
| "tab_disabled TabSubjects i d \<longleftrightarrow> dt_busy d \<or> ic_subjects_notified_at i > 0"

definition incident_path :: "string \<Rightarrow> incident_tab \<Rightarrow> string" where
  "incident_path i tab = ''/api/incidents/'' @ i @ tab_suffix tab"

definition incident_post :: "incident_detail \<Rightarrow> incidents_page \<Rightarrow> incidents_page" where
  "incident_post d s =
     incident_send (IcPost (dt_number d) (inc_filter s)) ''POST'' (incident_path (dt_id d) (dt_tab d)) (Some (tab_body (dt_tab d) d))
       (s\<lparr>inc_open := Some (d\<lparr>dt_busy := True, dt_err := None\<rparr>)\<rparr>)"

text \<open>What an answer changes in the detail that sent it, if that is still mounted.\<close>

definition in_detail :: "nat \<Rightarrow> (incident_detail \<Rightarrow> incident_detail) \<Rightarrow> incidents_page \<Rightarrow> incidents_page" where
  "in_detail n f s =
     (case inc_open s of
        None \<Rightarrow> s
      | Some d \<Rightarrow> if dt_number d = n then s\<lparr>inc_open := Some (f d)\<rparr> else s)"

definition post_settle :: "nat \<Rightarrow> string \<Rightarrow> IncidentList Requests.reply \<Rightarrow> incidents_page \<Rightarrow> incidents_page" where
  "post_settle n flt a s =
     (case a of
        Broke m \<Rightarrow> in_detail n (\<lambda>d. d\<lparr>dt_err := Some m, dt_busy := False\<rparr>) s
      | Denied st body statusText \<Rightarrow> in_detail n (\<lambda>d. d\<lparr>dt_err := Some (refused_text st body statusText), dt_busy := False\<rparr>) s
      | Got l \<Rightarrow> incident_refresh flt (in_detail n (\<lambda>d. d\<lparr>dt_note := [], dt_busy := False\<rparr>) s))"

definition incident_resume :: "incident_task \<Rightarrow> IncidentList Requests.reply \<Rightarrow> incidents_page \<Rightarrow> incidents_page" where
  "incident_resume t a s =
     (case t of IcLoad \<Rightarrow> incidents_settle a s | IcDeclare f \<Rightarrow> declare_settle f a s | IcPost n f \<Rightarrow> post_settle n f a s)"

definition incident_answer :: "nat \<Rightarrow> IncidentList Requests.reply \<Rightarrow> incidents_page \<Rightarrow> incidents_page" where
  "incident_answer i a s =
     (if i < length (inc_tasks s) then incident_resume (inc_tasks s ! i) a (s\<lparr>inc_tasks := drop_nth i (inc_tasks s)\<rparr>) else s)"

section \<open>Steps\<close>

datatype incident_field = FNote | FToStatus | FRegName | FRegRef | FAffected

text \<open>\<open>maxLength\<close> of the text fields: the browser lets nobody type more.\<close>

fun field_limit :: "incident_field \<Rightarrow> nat option" where
  "field_limit FNote = Some 4000"
| "field_limit FRegName = Some 200"
| "field_limit FRegRef = Some 200"
| "field_limit _ = None"

definition fits_limit :: "nat option \<Rightarrow> string \<Rightarrow> bool" where
  "fits_limit n v \<longleftrightarrow> (case n of None \<Rightarrow> True | Some m \<Rightarrow> length v \<le> m)"

fun set_detail :: "incident_field \<Rightarrow> string \<Rightarrow> incident_detail \<Rightarrow> incident_detail" where
  "set_detail FNote v d = d\<lparr>dt_note := v\<rparr>"
| "set_detail FToStatus v d = d\<lparr>dt_toStatus := v\<rparr>"
| "set_detail FRegName v d = d\<lparr>dt_regName := v\<rparr>"
| "set_detail FRegRef v d = d\<lparr>dt_regRef := v\<rparr>"
| "set_detail FAffected v d = d\<lparr>dt_affected := v\<rparr>"

datatype incident_op =
  IcKey string | IcFilter string | IcSelect nat | IcOpenForm | IcTitle string | IcSeverity string | IcText string
| IcSubmit | IcCancel | IcTab incident_tab | IcField incident_field string | IcAct | IcAnswer nat "IncidentList Requests.reply"

text \<open>The controls of a detail are rendered unless its incident has reached a terminal state.\<close>

definition in_controls :: "(Incident \<Rightarrow> incident_detail \<Rightarrow> incidents_page \<Rightarrow> incidents_page) \<Rightarrow> incidents_page \<Rightarrow> incidents_page" where
  "in_controls f s =
     (case (selected_row s, inc_open s) of
        (Some i, Some d) \<Rightarrow> if closed_for_good i then s else f i d s
      | _ \<Rightarrow> s)"

fun incident_act :: "incident_op \<Rightarrow> incidents_page \<Rightarrow> incidents_page" where
  "incident_act (IcKey k) s = s\<lparr>inc_key := k\<rparr>"
| "incident_act (IcFilter v) s = (if v = inc_filter s then s else incident_refresh v (s\<lparr>inc_filter := v\<rparr>))"
| "incident_act (IcSelect n) s =
     (if n < length (rows_shown s) then
        s\<lparr>inc_selectedId := (if inc_selectedId s = Some (ic_id (rows_shown s ! n)) then None else Some (ic_id (rows_shown s ! n)))\<rparr>
      else s)"
| "incident_act IcOpenForm s = s\<lparr>inc_form := (inc_form s)\<lparr>df_open := True\<rparr>\<rparr>"
| "incident_act (IcTitle v) s =
     (if df_open (inc_form s) \<and> length v \<le> 200 then s\<lparr>inc_form := (inc_form s)\<lparr>df_title := v\<rparr>\<rparr> else s)"
| "incident_act (IcSeverity v) s = (if df_open (inc_form s) then s\<lparr>inc_form := (inc_form s)\<lparr>df_severity := v\<rparr>\<rparr> else s)"
| "incident_act (IcText v) s =
     (if df_open (inc_form s) \<and> length v \<le> 8000 then s\<lparr>inc_form := (inc_form s)\<lparr>df_detail := v\<rparr>\<rparr> else s)"
| "incident_act IcSubmit s = (if df_open (inc_form s) \<and> \<not> declare_disabled (inc_form s) then declare_submit s else s)"
| "incident_act IcCancel s =
     (if df_open (inc_form s) then s\<lparr>inc_form := (inc_form s)\<lparr>df_open := False, df_err := None\<rparr>\<rparr> else s)"
| "incident_act (IcTab tab) s = in_controls (\<lambda>i d s. s\<lparr>inc_open := Some (d\<lparr>dt_tab := tab\<rparr>)\<rparr>) s"
| "incident_act (IcField f v) s =
     in_controls (\<lambda>i d s. if fits_limit (field_limit f) v then s\<lparr>inc_open := Some (set_detail f v d)\<rparr> else s) s"
| "incident_act IcAct s = in_controls (\<lambda>i d s. if tab_disabled (dt_tab d) i d then s else incident_post d s) s"
| "incident_act (IcAnswer i a) s = incident_answer i a s"

definition incident_step :: "incident_op \<Rightarrow> incidents_page \<Rightarrow> incidents_page" where
  "incident_step op s = remount (incident_act op s)"

definition incidents_start :: "string \<Rightarrow> incidents_page" where
  "incidents_start k =
     incident_refresh []
       \<lparr>inc_key = k, inc_data = None, inc_loading = True, inc_error = None, inc_filter = [], inc_selectedId = None,
        inc_form = \<lparr>df_open = False, df_title = [], df_severity = ''medium'', df_detail = [], df_busy = False, df_err = None\<rparr>,
        inc_open = None, inc_next = 0, inc_tasks = [], inc_sent = []\<rparr>"

definition incidents_run :: "string \<Rightarrow> incident_op list \<Rightarrow> incidents_page" where
  "incidents_run k ops = fold incident_step ops (incidents_start k)"

section \<open>What it shows\<close>

text \<open>Whole hours and minutes between two times in seconds, with a sign when the second has passed; \<open>now\<close> is in milliseconds.\<close>

definition fmtCountdown :: "rat \<Rightarrow> rat \<Rightarrow> string" where
  "fmtCountdown now deadline =
     (if deadline = 0 then []
      else let delta = deadline - now / 1000; h = floor (\<bar>delta\<bar> / 3600); m = floor ((\<bar>delta\<bar> - of_int h * 3600) / 60) in
           (if delta < 0 then ''-'' else []) @ int_to_string h @ ''h '' @ pad2 m @ ''m'')"

definition SEV_TONE :: "(string \<times> string) list" where
  "SEV_TONE =
     [(''low'', ''text-sky-300 border-sky-500/30 bg-sky-500/5''), (''medium'', ''text-amber-300 border-amber-500/30 bg-amber-500/5''),
      (''high'', ''text-orange-300 border-orange-500/30 bg-orange-500/5''), (''critical'', ''text-rose-300 border-rose-500/30 bg-rose-500/5'')]"

definition STATUS_TONE :: "(string \<times> string) list" where
  "STATUS_TONE =
     [(''open'', ''text-rose-300 border-rose-500/30 bg-rose-500/5''), (''contained'', ''text-amber-300 border-amber-500/30 bg-amber-500/5''),
      (''resolved'', ''text-emerald-300 border-emerald-500/30 bg-emerald-500/5''),
      (''closed_no_action'', ''text-[var(--color-dim)] border-[var(--color-border)] bg-transparent'')]"

definition with_spaces :: "string \<Rightarrow> string" where
  "with_spaces v = map (\<lambda>c. if c = CHR ''_'' then CHR '' '' else c) v"

definition clock_text :: "rat \<Rightarrow> Incident \<Rightarrow> string" where
  "clock_text now i =
     (if ic_regulator_notified_at i \<noteq> 0 then ''regulator notified''
      else if ic_notify_overdue i
           then ''overdue by '' @ remove1 (CHR ''-'') (fmtCountdown now (ic_notify_deadline_at i))
           else ''notify in '' @ fmtCountdown now (ic_notify_deadline_at i))"

definition summary_view :: "IncidentList \<Rightarrow> node list" where
  "summary_view d =
     [Stat ''open'' (num_to_string (su_open (il_summary d))), Stat ''overdue'' (num_to_string (su_overdue (il_summary d))),
      Stat ''total'' (num_to_string (su_total (il_summary d))),
      Stat ''deadline'' (int_to_string (math_round (il_notify_deadline_seconds d / 3600)) @ ''h'')]"

definition declare_view :: "string list \<Rightarrow> declare_form \<Rightarrow> node list" where
  "declare_view severities f =
     (if \<not> df_open f then [Button ''declare incident'' False]
      else [Text ''declare incident'', TextField ''short title (required)'' (df_title f)]
           @ map (\<lambda>v. Choice v (v = df_severity f)) severities
           @ [TextField ''detail (optional, max 8000 chars)'' (df_detail f),
              Button (if df_busy f then ''declaring'' else ''declare'') (declare_disabled f), Button ''cancel'' False,
              Hint ''requires admin role and a fresh MFA code'']
           @ error_nodes (df_err f))"

definition detail_row :: "string \<Rightarrow> string \<Rightarrow> node list" where
  "detail_row k v = [Text k, Text v]"

definition facts_view :: "Incident \<Rightarrow> node list" where
  "facts_view i =
     (if ic_detail i \<noteq> [] then [Text (ic_detail i)] else [])
     @ detail_row ''created'' (fmtDate (ic_created_at i)) @ detail_row ''updated'' (fmtDate (ic_updated_at i))
     @ detail_row ''closed'' (fmtDate (ic_closed_at i))
     @ detail_row ''regulator''
         (if ic_regulator_notified_at i \<noteq> 0
          then ic_regulator_name i @ '' ('' @ or_str (ic_regulator_reference i) ''no ref'' @ '') at '' @ fmtDate (ic_regulator_notified_at i)
          else ''not notified'')
     @ detail_row ''subjects''
         (if ic_subjects_notified_at i \<noteq> 0
          then num_to_string (ic_affected_count i) @ '' affected, '' @ fmtDate (ic_subjects_notified_at i) else ''not notified'')"

fun tab_view :: "incident_tab \<Rightarrow> string list \<Rightarrow> Incident \<Rightarrow> incident_detail \<Rightarrow> node list" where
  "tab_view TabNote statuses i d =
     [TextField ''timeline note (required)'' (dt_note d),
      Button (if dt_busy d then ''appending'' else ''append note'') (tab_disabled TabNote i d)]"
| "tab_view TabAdvance statuses i d =
     map (\<lambda>v. Choice (with_spaces v) (v = dt_toStatus d)) (filter (\<lambda>v. v \<noteq> ic_status i) statuses)
     @ [TextField ''justification (required for closed_no_action)'' (dt_note d),
        Button (if dt_busy d then ''advancing'' else ''advance to '' @ with_spaces (dt_toStatus d)) (tab_disabled TabAdvance i d)]"
| "tab_view TabRegulator statuses i d =
     [TextField ''regulator name (required)'' (dt_regName d), TextField ''case reference (optional)'' (dt_regRef d),
      TextField ''note (optional)'' (dt_note d),
      Button (if ic_regulator_notified_at i \<noteq> 0 then ''already recorded'' else if dt_busy d then ''recording''
              else ''record regulator notification'') (tab_disabled TabRegulator i d)]"
| "tab_view TabSubjects statuses i d =
     [TextField ''affected count'' (dt_affected d), TextField ''note (optional)'' (dt_note d),
      Button (if ic_subjects_notified_at i \<noteq> 0 then ''already recorded'' else if dt_busy d then ''recording''
              else ''record subject notification'') (tab_disabled TabSubjects i d)]"

definition event_view :: "IncidentEvent \<Rightarrow> node list" where
  "event_view e =
     [Text (fmtDate (ev_at e)), Text (ev_actor e), Text (ev_kind e)]
     @ (if ev_from_status e \<noteq> ev_to_status e then [Text (ev_from_status e @ '' -> '' @ ev_to_status e)] else [])
     @ (if ev_note e \<noteq> [] then [Text (ev_note e)] else [])"

definition detail_view :: "string list \<Rightarrow> Incident \<Rightarrow> incident_detail \<Rightarrow> node list" where
  "detail_view statuses i d =
     facts_view i
     @ (if closed_for_good i then [Text ''terminal state; declare a new incident if related events surface'']
        else [Choice ''note'' (dt_tab d = TabNote), Choice ''advance'' (dt_tab d = TabAdvance),
              Choice ''regulator'' (dt_tab d = TabRegulator), Choice ''subjects'' (dt_tab d = TabSubjects)]
             @ tab_view (dt_tab d) statuses i d @ error_nodes (dt_err d))
     @ (if ic_history i \<noteq> [] then Text ''timeline'' # concat (map event_view (ic_history i)) else [])"

definition incident_row_view :: "rat \<Rightarrow> incidents_page \<Rightarrow> Incident \<Rightarrow> node list" where
  "incident_row_view now s i =
     [Text (ic_severity i), Text (with_spaces (ic_status i)), Text (ic_id i), Text (ic_title i),
      Text (''discovered '' @ fmtDate (ic_discovered_at i))]
     @ (if ic_status i = ''open'' \<or> ic_status i = ''contained'' then [Badge (\<not> ic_notify_overdue i) (clock_text now i)] else [])
     @ (case inc_open s of
          Some d \<Rightarrow> if selected_row s = Some i then detail_view (statuses_of s) i d else []
        | None \<Rightarrow> [])"

definition incidents_view :: "rat \<Rightarrow> incidents_page \<Rightarrow> node list" where
  "incidents_view now s =
     [Text ''security incidents''] @ (case inc_data s of Some d \<Rightarrow> summary_view d | None \<Rightarrow> [])
     @ declare_view (case inc_data s of Some d \<Rightarrow> il_severities d | None \<Rightarrow> [''low'', ''medium'', ''high'', ''critical'']) (inc_form s)
     @ Choice ''all'' (inc_filter s = []) # map (\<lambda>v. Choice (with_spaces v) (inc_filter s = v)) (statuses_of s)
     @ (if inc_loading s \<and> inc_data s = None then [Skeleton 2]
        else if list_error s then [Text ''Could not load incidents.'', Text (nullish (inc_error s) [])]
        else case inc_data s of
               None \<Rightarrow> []
             | Some d \<Rightarrow>
                 if il_incidents d = [] then [Text ''No incidents match this filter. A clean queue is the goal.'']
                 else concat (map (incident_row_view now s) (il_incidents d)))"

end
