(* ===== verification/HostPages.thy ===== *)
theory HostPages
  imports Requests Arrays
begin

text \<open>
  Two pages about the hosts of webhooks, \<open>web/app/settings/webhook-destinations/page.tsx\<close> and
  \<open>web/app/settings/webhook-egress/page.tsx\<close>. Both keep the pair that \<open>useApiKey()\<close> returns whole and name it as a
  dependency of their effect. The pair is made anew by every render, so the effect runs after every
  render, and renders have to be modelled: a setter changes \<open>now\<close> and asks for a render, a render takes
  \<open>now\<close> over to \<open>seen\<close>, which is what the page shows and its handlers read, and runs the effect. The saved key that
  a request reads comes with the step.
\<close>

section \<open>State of a fetched document\<close>

datatype 'd fetch_state = FsIdle | FsLoading | FsReady 'd | FsError string

text \<open>The call threw (with its message, if that is an \<open>Error\<close>), a status that is no success, a document.\<close>

datatype 'd fetch_reply = FrThrew "string option" | FrStatus nat | FrGot 'd

definition key_header :: "string \<Rightarrow> (string \<times> string) list" where
  "key_header k = (if k \<noteq> [] then [(''X-API-Key'', k)] else [])"

section \<open>Webhook destinations\<close>

record AllowlistResponse =
  al_tenant_id :: string
  al_hosts :: "string list"
  al_block_private_ips :: bool
  al_note :: string

record hosts_ui =
  hu_state :: "AllowlistResponse fetch_state"
  hu_draft :: string
  hu_busy :: bool
  hu_status :: "string option"
  hu_ok :: bool

datatype hosts_task = HostsLoad | HostsSave

record hosts_page =
  hs_now :: hosts_ui
  hs_seen :: hosts_ui
  hs_dirty :: bool
  hs_tasks :: "hosts_task list"
  hs_sent :: "request list"

definition set_hosts :: "(hosts_ui \<Rightarrow> hosts_ui) \<Rightarrow> hosts_page \<Rightarrow> hosts_page" where
  "set_hosts f s = s\<lparr>hs_now := f (hs_now s), hs_dirty := True\<rparr>"

definition hosts_send :: "hosts_task \<Rightarrow> string \<Rightarrow> (string \<times> string) list \<Rightarrow> json option \<Rightarrow> hosts_page \<Rightarrow> hosts_page" where
  "hosts_send t m headers body s =
     s\<lparr>hs_tasks := hs_tasks s @ [t],
       hs_sent := hs_sent s
         @ [\<lparr>req_method = m, req_path = ''/api/v1/webhooks/destination-allowlist'', req_headers = headers, req_payload = body\<rparr>]\<rparr>"

text \<open>\<open>/^[a-z0-9]([a-z0-9.-]*[a-z0-9])?$/i\<close>\<close>

definition host_alnum :: "char \<Rightarrow> bool" where
  "host_alnum c \<longleftrightarrow>
     (let n = of_char c :: nat in 97 \<le> n \<and> n \<le> 122 \<or> 65 \<le> n \<and> n \<le> 90 \<or> 48 \<le> n \<and> n \<le> 57)"

definition HOST_PATTERN :: "string \<Rightarrow> bool" where
  "HOST_PATTERN v \<longleftrightarrow>
     v \<noteq> [] \<and> host_alnum (hd v) \<and> host_alnum (last v) \<and> list_all (\<lambda>c. host_alnum c \<or> c = CHR ''.'' \<or> c = CHR ''-'') v"

text \<open>\<open>draft.trim().toLowerCase().replace(/^\.+|\.+$/g, "")\<close>\<close>

definition strip_dots :: "string \<Rightarrow> string" where
  "strip_dots v = rev (dropWhile (\<lambda>c. c = CHR ''.'') (rev (dropWhile (\<lambda>c. c = CHR ''.'') v)))"

definition clean_host :: "string \<Rightarrow> string" where
  "clean_host draft = strip_dots (to_lower (trim draft))"

definition hosts_load :: "string \<Rightarrow> hosts_page \<Rightarrow> hosts_page" where
  "hosts_load k s =
     hosts_send HostsLoad ''GET'' ((''Accept'', ''application/json'') # key_header k) None (set_hosts (hu_state_update (\<lambda>_. FsLoading)) s)"

definition hosts_load_settle :: "AllowlistResponse fetch_reply \<Rightarrow> hosts_page \<Rightarrow> hosts_page" where
  "hosts_load_settle a =
     set_hosts (hu_state_update (\<lambda>_.
       case a of
         FrThrew m \<Rightarrow> FsError (nullish m ''Network error'')
       | FrStatus st \<Rightarrow>
           FsError (if st = 401 then ''Sign in with a workspace API key to view this page.'' else ''Server returned '' @ nat_digits st)
       | FrGot d \<Rightarrow> FsReady d))"

definition hosts_body :: "string list \<Rightarrow> json" where
  "hosts_body hs = JObj [(''hosts'', JArr (map JStr hs))]"

definition hosts_save :: "string \<Rightarrow> string list \<Rightarrow> hosts_page \<Rightarrow> hosts_page" where
  "hosts_save k hs s =
     hosts_send HostsSave ''PUT'' ((''Content-Type'', ''application/json'') # key_header k) (Some (hosts_body hs))
       (set_hosts (\<lambda>u. u\<lparr>hu_busy := True, hu_status := None\<rparr>) s)"

definition hosts_message :: "bool \<Rightarrow> string \<Rightarrow> hosts_ui \<Rightarrow> hosts_ui" where
  "hosts_message ok m u = u\<lparr>hu_ok := ok, hu_status := Some m\<rparr>"

definition hosts_save_settle :: "AllowlistResponse fetch_reply \<Rightarrow> hosts_page \<Rightarrow> hosts_page" where
  "hosts_save_settle a =
     set_hosts (\<lambda>u.
       (case a of
          FrThrew m \<Rightarrow> hosts_message False (nullish m ''Network error'') u
        | FrStatus st \<Rightarrow>
            hosts_message False (if st = 403 then ''This action needs an admin API key.'' else ''Save failed ('' @ nat_digits st @ '')'') u
        | FrGot d \<Rightarrow> hosts_message True ''Saved.'' (u\<lparr>hu_state := FsReady d\<rparr>))\<lparr>hu_busy := False\<rparr>)"

definition addHost :: "string \<Rightarrow> hosts_page \<Rightarrow> hosts_page" where
  "addHost k s =
     (let v = clean_host (hu_draft (hs_seen s)) in
      if v = [] then s
      else if \<not> HOST_PATTERN v then set_hosts (hosts_message False ''Use a bare hostname like acme.internal (no scheme, no path).'') s
      else case hu_state (hs_seen s) of
             FsReady d \<Rightarrow>
               if v \<in> set (al_hosts d) then set_hosts (hosts_message False ''That host suffix is already in the list.'') s
               else hosts_save k (js_sort str_cmp (al_hosts d @ [v])) (set_hosts (hu_draft_update (\<lambda>_. [])) s)
           | _ \<Rightarrow> s)"

definition removeHost :: "string \<Rightarrow> string \<Rightarrow> hosts_page \<Rightarrow> hosts_page" where
  "removeHost k host s =
     (case hu_state (hs_seen s) of
        FsReady d \<Rightarrow> hosts_save k (filter (\<lambda>h. h \<noteq> host) (al_hosts d)) s
      | _ \<Rightarrow> s)"

text \<open>A render: it commits what the setters have made, and runs the effect.\<close>

definition hosts_render :: "string \<Rightarrow> hosts_page \<Rightarrow> hosts_page" where
  "hosts_render k s = (if hs_dirty s then hosts_load k (s\<lparr>hs_seen := hs_now s, hs_dirty := False\<rparr>) else s)"

definition hosts_answer :: "nat \<Rightarrow> AllowlistResponse fetch_reply \<Rightarrow> hosts_page \<Rightarrow> hosts_page" where
  "hosts_answer i a s =
     (if i < length (hs_tasks s) then
        (let t = s\<lparr>hs_tasks := drop_nth i (hs_tasks s)\<rparr> in
         case hs_tasks s ! i of HostsLoad \<Rightarrow> hosts_load_settle a t | HostsSave \<Rightarrow> hosts_save_settle a t)
      else s)"

datatype hosts_op =
  HostsRender string | HostsDraft string | HostsEnter string | HostsAdd string | HostsRemove string nat
| HostsAnswer nat "AllowlistResponse fetch_reply"

definition hosts_shown :: "hosts_page \<Rightarrow> string list option" where
  "hosts_shown s = (case hu_state (hs_seen s) of FsReady d \<Rightarrow> Some (al_hosts d) | _ \<Rightarrow> None)"

definition hosts_enabled :: "hosts_page \<Rightarrow> bool" where
  "hosts_enabled s \<longleftrightarrow> hosts_shown s \<noteq> None \<and> \<not> hu_busy (hs_seen s)"

fun hosts_step :: "hosts_op \<Rightarrow> hosts_page \<Rightarrow> hosts_page" where
  "hosts_step (HostsRender k) s = hosts_render k s"
| "hosts_step (HostsDraft v) s = (if hosts_enabled s then set_hosts (hu_draft_update (\<lambda>_. v)) s else s)"
| "hosts_step (HostsEnter k) s = (if hosts_enabled s then addHost k s else s)"
| "hosts_step (HostsAdd k) s = (if hosts_enabled s \<and> trim (hu_draft (hs_seen s)) \<noteq> [] then addHost k s else s)"
| "hosts_step (HostsRemove k n) s =
     (case hosts_shown s of
        Some hs \<Rightarrow> if hosts_enabled s \<and> n < length hs then removeHost k (hs ! n) s else s
      | None \<Rightarrow> s)"
| "hosts_step (HostsAnswer i a) s = hosts_answer i a s"

text \<open>The first render is the mount: it shows the initial state and runs the effect.\<close>

definition hosts_start :: "string \<Rightarrow> hosts_page" where
  "hosts_start k =
     (let u = \<lparr>hu_state = FsIdle, hu_draft = [], hu_busy = False, hu_status = None, hu_ok = True\<rparr> in
      hosts_load k \<lparr>hs_now = u, hs_seen = u, hs_dirty = False, hs_tasks = [], hs_sent = []\<rparr>)"

definition hosts_run :: "string \<Rightarrow> hosts_op list \<Rightarrow> hosts_page" where
  "hosts_run k ops = fold hosts_step ops (hosts_start k)"

definition hosts_view :: "hosts_page \<Rightarrow> node list" where
  "hosts_view s =
     (let u = hs_seen s in
      [Text ''Webhook destinations'']
      @ (case hu_state u of
           FsIdle \<Rightarrow> []
         | FsLoading \<Rightarrow> [Skeleton 2]
         | FsError m \<Rightarrow> [Text m]
         | FsReady d \<Rightarrow>
             [Text (if al_block_private_ips d then ''SSRF protection is on. Internal addresses are blocked by default.''
                    else ''SSRF protection is currently disabled on this deployment.''),
              Text (al_note d), TextField ''acme.internal'' (hu_draft u), Button ''Add'' (hu_busy u \<or> trim (hu_draft u) = [])]
             @ (case hu_status u of None \<Rightarrow> [] | Some m \<Rightarrow> if m = [] then [] else [Badge (hu_ok u) m])
             @ (if al_hosts d = []
                then [Text ''No trusted hosts yet.'', Text ''Only public destinations can receive deliveries until you add one.'']
                else concat (map (\<lambda>h. [Text h, Button ''Remove'' (hu_busy u)]) (al_hosts d)))))"

section \<open>Webhook egress addresses\<close>

record EgressResponse =
  eg_pinned :: bool
  eg_addresses :: "string list"
  eg_updated_at :: string
  eg_note :: string

record egress_ui =
  eu_state :: "EgressResponse fetch_state"
  eu_copied :: bool

text \<open>A load, a write to the clipboard, and the timer that takes the note about it away.\<close>

datatype egress_task = EgressLoad | EgressCopy string | EgressTimer

record egress_page =
  ep_now :: egress_ui
  ep_seen :: egress_ui
  ep_dirty :: bool
  ep_tasks :: "egress_task list"
  ep_sent :: "request list"
  ep_clipboard :: "string option"

definition set_egress :: "(egress_ui \<Rightarrow> egress_ui) \<Rightarrow> egress_page \<Rightarrow> egress_page" where
  "set_egress f s = s\<lparr>ep_now := f (ep_now s), ep_dirty := True\<rparr>"

definition egress_load :: "string \<Rightarrow> egress_page \<Rightarrow> egress_page" where
  "egress_load k s =
     (let t = set_egress (eu_state_update (\<lambda>_. FsLoading)) s in
      if k = [] then set_egress (eu_state_update (\<lambda>_. FsError ''set an API key on /developers to view egress IPs'')) t
      else t\<lparr>ep_tasks := ep_tasks t @ [EgressLoad],
             ep_sent := ep_sent t
               @ [\<lparr>req_method = ''GET'', req_path = ''/api/v1/webhooks/egress-ips'',
                   req_headers = [(''X-API-Key'', k), (''Accept'', ''application/json'')], req_payload = None\<rparr>]\<rparr>)"

definition egress_load_settle :: "EgressResponse fetch_reply \<Rightarrow> egress_page \<Rightarrow> egress_page" where
  "egress_load_settle a =
     set_egress (eu_state_update (\<lambda>_.
       case a of
         FrThrew m \<Rightarrow> FsError (nullish m ''network error'')
       | FrStatus st \<Rightarrow>
           FsError (if st = 401 \<or> st = 403 then ''your API key is not authorised for this workspace''
                    else ''server returned '' @ nat_digits st)
       | FrGot d \<Rightarrow> FsReady d))"

definition egress_text :: "EgressResponse \<Rightarrow> string" where
  "egress_text d = join (''\<newline>'') (eg_addresses d)"

text \<open>\<open>copyAll\<close>: the text goes to the clipboard when the promise is fulfilled.\<close>

definition copyAll :: "egress_page \<Rightarrow> egress_page" where
  "copyAll s =
     (case eu_state (ep_seen s) of
        FsReady d \<Rightarrow> if eg_addresses d = [] then s else s\<lparr>ep_tasks := ep_tasks s @ [EgressCopy (egress_text d)]\<rparr>
      | _ \<Rightarrow> s)"

text \<open>The answers: of the server, of the clipboard (whether it took the text), of the timer.\<close>

definition egress_answer :: "nat \<Rightarrow> EgressResponse fetch_reply \<Rightarrow> bool \<Rightarrow> egress_page \<Rightarrow> egress_page" where
  "egress_answer i a copied s =
     (if i < length (ep_tasks s) then
        (let t = s\<lparr>ep_tasks := drop_nth i (ep_tasks s)\<rparr> in
         case ep_tasks s ! i of
           EgressLoad \<Rightarrow> egress_load_settle a t
         | EgressCopy v \<Rightarrow>
             if copied then set_egress (eu_copied_update (\<lambda>_. True)) (t\<lparr>ep_tasks := ep_tasks t @ [EgressTimer], ep_clipboard := Some v\<rparr>) else t
         | EgressTimer \<Rightarrow> set_egress (eu_copied_update (\<lambda>_. False)) t)
      else s)"

definition egress_render :: "string \<Rightarrow> egress_page \<Rightarrow> egress_page" where
  "egress_render k s = (if ep_dirty s then egress_load k (s\<lparr>ep_seen := ep_now s, ep_dirty := False\<rparr>) else s)"

datatype egress_op = EgressRender string | EgressRetry string | EgressCopyAll | EgressAnswer nat "EgressResponse fetch_reply" bool

fun egress_step :: "egress_op \<Rightarrow> egress_page \<Rightarrow> egress_page" where
  "egress_step (EgressRender k) s = egress_render k s"
| "egress_step (EgressRetry k) s = (case eu_state (ep_seen s) of FsError m \<Rightarrow> egress_load k s | _ \<Rightarrow> s)"
| "egress_step EgressCopyAll s = copyAll s"
| "egress_step (EgressAnswer i a copied) s = egress_answer i a copied s"

definition egress_start :: "string \<Rightarrow> egress_page" where
  "egress_start k =
     (let u = \<lparr>eu_state = FsIdle, eu_copied = False\<rparr> in
      egress_load k \<lparr>ep_now = u, ep_seen = u, ep_dirty = False, ep_tasks = [], ep_sent = [], ep_clipboard = None\<rparr>)"

definition egress_run :: "string \<Rightarrow> egress_op list \<Rightarrow> egress_page" where
  "egress_run k ops = fold egress_step ops (egress_start k)"

definition egress_view :: "egress_page \<Rightarrow> node list" where
  "egress_view s =
     (let u = ep_seen s in
      [Text ''webhook egress IPs'']
      @ (case eu_state u of
           FsIdle \<Rightarrow> []
         | FsLoading \<Rightarrow> [Text ''loading...'']
         | FsError m \<Rightarrow> [Text ''unable to load'', Text m, Button ''retry'' False]
         | FsReady d \<Rightarrow>
             [Badge (eg_pinned d) (if eg_pinned d then ''pinned'' else ''not pinned''), Text (eg_note d)]
             @ (if eg_updated_at d \<noteq> [] then [Text (''last operator update: '' @ eg_updated_at d)] else [])
             @ Text ''addresses''
             # (if eg_addresses d = []
                then [Text ''no egress addresses configured. set CLAWHUM_WEBHOOK_EGRESS_IPS on the API service to a comma separated list of IPv4 or IPv6 addresses or CIDRs.'']
                else Button (if eu_copied u then ''copied'' else ''copy all'') False # map Text (eg_addresses d))))"

section \<open>Pages that never come to rest\<close>

text \<open>
  The contract of a page whose every step leaves it with a render to make: it never stops rendering, and
  when every render of a kind also sends something, what it sends grows with them.
\<close>

locale restless =
  fixes step :: "'op \<Rightarrow> 's \<Rightarrow> 's" and dirty :: "'s \<Rightarrow> bool" and fires :: "'op \<Rightarrow> bool" and loads :: "'s \<Rightarrow> nat"
  assumes again: "dirty s \<Longrightarrow> dirty (step op s)"
    and more: "dirty s \<Longrightarrow> loads s + (if fires op then 1 else 0) \<le> loads (step op s)"
begin

lemma never_rests: "dirty s \<Longrightarrow> dirty (fold step ops s) \<and> loads s + length (filter fires ops) \<le> loads (fold step ops s)"
proof (induction ops arbitrary: s)
  case (Cons op ops)
  have d: "dirty (step op s)" using again [OF Cons.prems] .
  have IH: "dirty (fold step ops (step op s))"
    "loads (step op s) + length (filter fires ops) \<le> loads (fold step ops (step op s))"
    using Cons.IH [OF d] by blast+
  have "loads s + length (filter fires (op # ops)) \<le> loads (step op s) + length (filter fires ops)"
    using more [OF Cons.prems, of op] by (cases "fires op") simp_all
  also have "\<dots> \<le> loads (fold step ops (step op s))" by (rule IH(2))
  finally show ?case using IH(1) by simp
qed simp

end

lemmas hosts_defs =
  set_hosts_def hosts_send_def hosts_load_def hosts_load_settle_def hosts_save_def hosts_save_settle_def addHost_def removeHost_def
  hosts_render_def hosts_answer_def

lemmas egress_defs =
  set_egress_def egress_load_def egress_load_settle_def copyAll_def egress_answer_def egress_render_def

fun hosts_renders :: "hosts_op \<Rightarrow> bool" where
  "hosts_renders (HostsRender k) = True"
| "hosts_renders _ = False"

fun egress_renders :: "egress_op \<Rightarrow> bool" where
  "egress_renders (EgressRender k) = (k \<noteq> [])"
| "egress_renders _ = False"

interpretation hosts_restless: restless hosts_step hs_dirty hosts_renders "\<lambda>s. length (hs_sent s)"
proof unfold_locales
  fix s :: hosts_page and op
  assume "hs_dirty s"
  then show "hs_dirty (hosts_step op s)"
    by (cases op) (simp_all add: hosts_defs Let_def split: option.split fetch_state.split hosts_task.split)
  from \<open>hs_dirty s\<close> show "length (hs_sent s) + (if hosts_renders op then 1 else 0) \<le> length (hs_sent (hosts_step op s))"
    by (cases op) (simp_all add: hosts_defs Let_def split: option.split fetch_state.split hosts_task.split)
qed

interpretation egress_restless: restless egress_step ep_dirty egress_renders "\<lambda>s. length (ep_sent s)"
proof unfold_locales
  fix s :: egress_page and op
  assume "ep_dirty s"
  then show "ep_dirty (egress_step op s)"
    by (cases op) (simp_all add: egress_defs Let_def split: fetch_state.split egress_task.split)
  from \<open>ep_dirty s\<close> show "length (ep_sent s) + (if egress_renders op then 1 else 0) \<le> length (ep_sent (egress_step op s))"
    by (cases op) (simp_all add: egress_defs Let_def split: fetch_state.split egress_task.split)
qed

text \<open>
  C23. The two pages about webhook hosts never come to rest: after any steps another render is due (the effect
  depends on a pair that every render makes anew, and what it does asks for the next render), and every
  render sends another load: on the page of the destinations always, on that of the egress addresses when a key
  is saved.
\<close>

theorem hosts_never_rest:
  "hs_dirty (hosts_run k ops) \<and> Suc (length (filter hosts_renders ops)) \<le> length (hs_sent (hosts_run k ops)) \<and>
   ep_dirty (egress_run k eops) \<and> length (filter egress_renders eops) \<le> length (ep_sent (egress_run k eops))"
proof -
  have "hs_dirty (hosts_start k)" "length (hs_sent (hosts_start k)) = 1" "ep_dirty (egress_start k)"
    by (simp_all add: hosts_start_def egress_start_def hosts_defs egress_defs Let_def)
  then show ?thesis
    using hosts_restless.never_rests [of "hosts_start k" ops] egress_restless.never_rests [of "egress_start k" eops]
    by (simp add: hosts_run_def egress_run_def)
qed

section \<open>What is saved\<close>

definition saves_hosts :: "hosts_page \<Rightarrow> hosts_op \<Rightarrow> request \<Rightarrow> bool" where
  "saves_hosts s op r \<longleftrightarrow>
     req_method r = ''GET'' \<or>
     (\<exists>d. hu_state (hs_seen s) = FsReady d \<and> \<not> hu_busy (hs_seen s) \<and>
        (let v = clean_host (hu_draft (hs_seen s)) in
           HOST_PATTERN v \<and> v \<notin> set (al_hosts d) \<and> req_payload r = Some (hosts_body (js_sort str_cmp (al_hosts d @ [v]))) \<or>
           (\<exists>host\<in>set (al_hosts d). req_payload r = Some (hosts_body (filter (\<lambda>h. h \<noteq> host) (al_hosts d))))))"

lemma hosts_enabled_ready:
  "hosts_enabled s \<Longrightarrow> \<exists>d. hu_state (hs_seen s) = FsReady d \<and> hosts_shown s = Some (al_hosts d) \<and> \<not> hu_busy (hs_seen s)"
  by (auto simp: hosts_enabled_def hosts_shown_def split: fetch_state.splits)

lemma addHost_saves:
  assumes "hosts_enabled s"
  shows "\<exists>rs. hs_sent (addHost k s) = hs_sent s @ rs \<and> (\<forall>r\<in>set rs. saves_hosts s op r)"
proof -
  obtain d where d: "hu_state (hs_seen s) = FsReady d" "\<not> hu_busy (hs_seen s)" using hosts_enabled_ready [OF assms] by blast
  let ?v = "clean_host (hu_draft (hs_seen s))"
  show ?thesis
  proof (cases "?v \<noteq> [] \<and> HOST_PATTERN ?v \<and> ?v \<notin> set (al_hosts d)")
    case True
    then have "addHost k s = hosts_save k (js_sort str_cmp (al_hosts d @ [?v])) (set_hosts (hu_draft_update (\<lambda>_. [])) s)"
      by (simp add: addHost_def d(1) Let_def)
    then show ?thesis using True d by (simp add: hosts_save_def hosts_send_def set_hosts_def saves_hosts_def Let_def)
  next
    case False
    then have "hs_sent (addHost k s) = hs_sent s" by (auto simp: addHost_def d(1) set_hosts_def Let_def)
    then show ?thesis by simp
  qed
qed

lemma hosts_saves: "\<exists>rs. hs_sent (hosts_step op s) = hs_sent s @ rs \<and> (\<forall>r\<in>set rs. saves_hosts s op r)"
proof (cases op)
  case (HostsAnswer i a)
  then have "hs_sent (hosts_step op s) = hs_sent s"
    by (cases "hs_tasks s ! i") (simp_all add: hosts_defs Let_def)
  then show ?thesis by simp
next
  case (HostsEnter k)
  then show ?thesis using addHost_saves [of s k op] by simp
next
  case (HostsAdd k)
  then show ?thesis using addHost_saves [of s k op] by simp
next
  case (HostsRemove k n)
  show ?thesis
  proof (cases "hosts_enabled s \<and> n < length (the (hosts_shown s))")
    case True
    then obtain d where d: "hu_state (hs_seen s) = FsReady d" "hosts_shown s = Some (al_hosts d)" "\<not> hu_busy (hs_seen s)"
      using hosts_enabled_ready by blast
    then show ?thesis
      using True HostsRemove by (auto simp: removeHost_def hosts_save_def hosts_send_def set_hosts_def saves_hosts_def Let_def)
  qed (use HostsRemove in \<open>auto split: option.split\<close>)
qed (simp_all add: hosts_defs saves_hosts_def)

interpretation hosts_log: logging hosts_step hs_sent saves_hosts
  by unfold_locales (rule hosts_saves)

lemma sorted_hosts: "sorted_wrt (\<lambda>a b. str_cmp a b \<le> 0) (js_sort str_cmp hs)"
  by (rule str_cmp.sort_sorted)

text \<open>
  What the page of the webhook destinations saves is the list on show with one change. Over every run, a
  saved list was sent while no other save was shown to be under way, and it is either the list that the page
  showed without one of its hosts, or that list with the host of the field, in the order of code units: a host
  that is not among them, in lower case and of the pattern of host names, so that its ends are no dots.
\<close>

theorem hosts_saved:
  assumes "r \<in> set (hs_sent (hosts_run k ops))" and "req_method r = ''PUT''"
  shows "\<exists>pre post shown. ops = pre @ post \<and> hosts_shown (hosts_run k pre) = Some shown \<and> \<not> hu_busy (hs_seen (hosts_run k pre)) \<and>
    ((\<exists>host\<in>set shown. req_payload r = Some (hosts_body (filter (\<lambda>h. h \<noteq> host) shown))) \<or>
     (\<exists>v hs. req_payload r = Some (hosts_body hs) \<and> mset hs = add_mset v (mset shown) \<and> sorted_wrt (\<lambda>a b. str_cmp a b \<le> 0) hs \<and>
        v = clean_host (hu_draft (hs_seen (hosts_run k pre))) \<and> v \<notin> set shown \<and> HOST_PATTERN v))"
proof -
  have "r \<notin> set (hs_sent (hosts_start k))" using assms(2) by (auto simp: hosts_start_def hosts_defs Let_def)
  then obtain pre op post where ops: "ops = pre @ op # post" and s: "saves_hosts (hosts_run k pre) op r"
    using hosts_log.run_log [of r ops "hosts_start k"] assms(1) by (auto simp: hosts_run_def)
  let ?s = "hosts_run k pre"
  obtain d where d: "hu_state (hs_seen ?s) = FsReady d" "\<not> hu_busy (hs_seen ?s)"
    and r: "(let v = clean_host (hu_draft (hs_seen ?s)) in
           HOST_PATTERN v \<and> v \<notin> set (al_hosts d) \<and> req_payload r = Some (hosts_body (js_sort str_cmp (al_hosts d @ [v]))) \<or>
           (\<exists>host\<in>set (al_hosts d). req_payload r = Some (hosts_body (filter (\<lambda>h. h \<noteq> host) (al_hosts d)))))"
    using s assms(2) by (auto simp: saves_hosts_def)
  have shown: "hosts_shown ?s = Some (al_hosts d)" using d by (simp add: hosts_shown_def)
  have "mset (js_sort str_cmp (al_hosts d @ [v])) = add_mset v (mset (al_hosts d))" for v by simp
  then show ?thesis
    using r d shown sorted_hosts ops
    by (intro exI [of _ pre] exI [of _ "op # post"] exI [of _ "al_hosts d"]) (auto simp: Let_def)
qed

abbreviation one_host :: AllowlistResponse where
  "one_host \<equiv> \<lparr>al_tenant_id = ''t'', al_hosts = [''b.c''], al_block_private_ips = True, al_note = []\<rparr>"

abbreviation hosts_sample :: "hosts_op list" where
  "hosts_sample \<equiv> [HostsAnswer 0 (FrGot one_host), HostsRender [], HostsRemove [] 0]"

theorem hosts_saved_witness:
  "\<exists>r\<in>set (hs_sent (hosts_run [] hosts_sample)). req_method r = ''PUT'' \<and>
     (\<exists>pre post shown. hosts_sample = pre @ post \<and> hosts_shown (hosts_run [] pre) = Some shown \<and> \<not> hu_busy (hs_seen (hosts_run [] pre)) \<and>
       ((\<exists>host\<in>set shown. req_payload r = Some (hosts_body (filter (\<lambda>h. h \<noteq> host) shown))) \<or>
        (\<exists>v hs. req_payload r = Some (hosts_body hs) \<and> mset hs = add_mset v (mset shown) \<and> sorted_wrt (\<lambda>a b. str_cmp a b \<le> 0) hs \<and>
           v = clean_host (hu_draft (hs_seen (hosts_run [] pre))) \<and> v \<notin> set shown \<and> HOST_PATTERN v)))"
proof -
  let ?r = "\<lparr>req_method = ''PUT'', req_path = ''/api/v1/webhooks/destination-allowlist'',
      req_headers = [(''Content-Type'', ''application/json'')], req_payload = Some (hosts_body [])\<rparr>"
  have r: "?r \<in> set (hs_sent (hosts_run [] hosts_sample))"
    by (simp add: hosts_run_def hosts_start_def hosts_defs hosts_shown_def hosts_enabled_def drop_nth_def key_header_def Let_def)
  have m: "req_method ?r = ''PUT''" by simp
  show ?thesis using hosts_saved [OF r m] m by (intro bexI [OF _ r] conjI)
qed

end
