(* ===== verification/SharesPage.thy ===== *)
theory SharesPage
  imports Requests HistoryPage OEmbed
begin

text \<open>
  \<open>web/app/shares/page.tsx\<close>: the list of the public links of a workspace. The page loads it, filters it, edits
  the note of a row in place, copies a link and revokes it; what the server accepts is applied to the list
  on show. The answer of \<open>confirm\<close>, the clipboard and the timers are steps; toasts are kept as they are shown.
\<close>

section \<open>Data\<close>

record ShareItem =
  si_id :: string
  si_created_at :: rat
  si_query_id :: string
  si_elapsed_ms :: rat
  si_count :: rat
  si_filename :: "string option"
  si_duration_sec :: "rat option"
  si_note :: "string option"
  si_top_title :: "string option"
  si_top_artist :: "string option"
  si_top_score :: "rat option"
  si_url_path :: string
  si_expires_at :: rat
  si_expired :: bool

record ShareList =
  sl_shares :: "ShareItem list"
  sl_total :: rat

datatype tone = Dim | Muted | Warn | Bad

text \<open>The label of an expiry; \<open>now\<close> is in milliseconds.\<close>

definition fmtExpiry :: "rat \<Rightarrow> rat \<Rightarrow> bool \<Rightarrow> string \<times> tone" where
  "fmtExpiry now expiresAt expired =
     (if expiresAt = 0 then (''no expiry'', Dim)
      else if expired then (''expired'', Bad)
      else let ms = expiresAt * 1000 - now in
        if ms \<le> 0 then (''expired'', Bad)
        else let days = floor (ms / 86400000); hours = floor (ms / 3600000) in
          if days \<ge> 2 then (''expires in '' @ int_to_string days @ ''d'', if days \<le> 3 then Warn else Muted)
          else if hours \<ge> 1 then (''expires in '' @ int_to_string hours @ ''h'', Warn)
          else (''expires in '' @ int_to_string (max 1 (floor (ms / 60000))) @ ''m'', Warn))"

section \<open>State\<close>

text \<open>A request, a write to the clipboard or a timer under way.\<close>

datatype share_task = ShLoad | ShNote string | ShRevoke string | ShCopy string string | ShTimer string

record share_toast =
  st_ok :: bool
  st_title :: string
  st_description :: "string option"

record shares_page =
  sh_key :: string
  sh_data :: "ShareList option"
  sh_loading :: bool
  sh_err :: "string option"
  sh_q :: string
  sh_busyId :: "string option"
  sh_copiedId :: "string option"
  sh_editingId :: "string option"
  sh_noteDraft :: string
  sh_savingId :: "string option"
  sh_toasts :: "share_toast list"
  sh_tasks :: "share_task list"
  sh_sent :: "request list"

record share_docs =
  sd_all :: ShareList
  sd_item :: ShareItem

text \<open>The call (or the reading of its body) threw, a refusal with its text, a document.\<close>

datatype share_reply = ShBroke string | ShDenied nat string | ShGot share_docs

definition share_send :: "share_task \<Rightarrow> string \<Rightarrow> string \<Rightarrow> (string \<times> string) list \<Rightarrow> json option \<Rightarrow> shares_page \<Rightarrow> shares_page" where
  "share_send t m path headers body s =
     s\<lparr>sh_tasks := sh_tasks s @ [t],
       sh_sent := sh_sent s @ [\<lparr>req_method = m, req_path = path, req_headers = headers, req_payload = body\<rparr>]\<rparr>"

definition share_auth :: "shares_page \<Rightarrow> (string \<times> string) list" where
  "share_auth s = (if sh_key s \<noteq> [] then [(''X-API-Key'', sh_key s)] else [])"

definition share_path :: "string \<Rightarrow> string" where
  "share_path i = ''/api/share/'' @ encodeURIComponent i"

definition share_say :: "bool \<Rightarrow> string \<Rightarrow> string option \<Rightarrow> shares_page \<Rightarrow> shares_page" where
  "share_say ok title description s =
     s\<lparr>sh_toasts := sh_toasts s @ [\<lparr>st_ok = ok, st_title = title, st_description = description\<rparr>]\<rparr>"

section \<open>Loads\<close>

definition fetchShares :: "shares_page \<Rightarrow> shares_page" where
  "fetchShares s = share_send ShLoad ''GET'' ''/api/share'' (share_auth s) None (s\<lparr>sh_loading := True, sh_err := None\<rparr>)"

definition load_settle :: "share_reply \<Rightarrow> shares_page \<Rightarrow> shares_page" where
  "load_settle a s =
     (case a of
        ShBroke m \<Rightarrow> s\<lparr>sh_err := Some m, sh_data := None, sh_loading := False\<rparr>
      | ShDenied st body \<Rightarrow>
          s\<lparr>sh_err := Some (if st = 401 then ''api key required. set one on the settings page.''
                            else or_str (take 240 body) (''request failed ('' @ nat_digits st @ '')'')),
            sh_data := None, sh_loading := False\<rparr>
      | ShGot d \<Rightarrow> s\<lparr>sh_data := Some (sd_all d), sh_loading := False\<rparr>)"

section \<open>The rows\<close>

definition haystack :: "ShareItem \<Rightarrow> string" where
  "haystack i =
     to_lower (join '' ''
       (filter (\<lambda>v. v \<noteq> [])
          [si_id i, nullish (si_top_title i) [], nullish (si_top_artist i) [], nullish (si_filename i) [],
           nullish (si_note i) [], si_query_id i]))"

definition filtered :: "shares_page \<Rightarrow> ShareItem list" where
  "filtered s =
     (case sh_data s of
        None \<Rightarrow> []
      | Some d \<Rightarrow>
          let needle = to_lower (trim (sh_q s)) in
          if needle = [] then sl_shares d else filter (\<lambda>i. str_includes (haystack i) needle) (sl_shares d))"

definition startEdit :: "ShareItem \<Rightarrow> shares_page \<Rightarrow> shares_page" where
  "startEdit i s = s\<lparr>sh_editingId := Some (si_id i), sh_noteDraft := nullish (si_note i) []\<rparr>"

definition cancelEdit :: "shares_page \<Rightarrow> shares_page" where
  "cancelEdit s = s\<lparr>sh_editingId := None, sh_noteDraft := []\<rparr>"

definition note_body :: "string \<Rightarrow> json" where
  "note_body draft = JObj [(''note'', JStr (take 280 draft))]"

definition saveNote :: "string \<Rightarrow> shares_page \<Rightarrow> shares_page" where
  "saveNote i s =
     share_send (ShNote i) ''PATCH'' (share_path i) ((''Content-Type'', ''application/json'') # share_auth s)
       (Some (note_body (sh_noteDraft s))) (s\<lparr>sh_savingId := Some i\<rparr>)"

definition set_note :: "string \<Rightarrow> string option \<Rightarrow> ShareList \<Rightarrow> ShareList" where
  "set_note i note d = d\<lparr>sl_shares := map (\<lambda>v. if si_id v = i then v\<lparr>si_note := note\<rparr> else v) (sl_shares d)\<rparr>"

definition note_settle :: "string \<Rightarrow> share_reply \<Rightarrow> shares_page \<Rightarrow> shares_page" where
  "note_settle i a s =
     (let t = s\<lparr>sh_savingId := None\<rparr> in
      case a of
        ShBroke m \<Rightarrow> share_say False ''rename failed'' (Some m) t
      | ShDenied st body \<Rightarrow> share_say False ''rename failed'' (Some (take 200 body)) t
      | ShGot d \<Rightarrow>
          let note = si_note (sd_item d) in
          cancelEdit (share_say True (if nullish note [] \<noteq> [] then ''note updated'' else ''note cleared'') None
            (t\<lparr>sh_data := map_option (set_note i note) (sh_data t)\<rparr>)))"

definition revoke :: "string \<Rightarrow> shares_page \<Rightarrow> shares_page" where
  "revoke i s = share_send (ShRevoke i) ''DELETE'' (share_path i) (share_auth s) None (s\<lparr>sh_busyId := Some i\<rparr>)"

definition drop_share :: "string \<Rightarrow> ShareList \<Rightarrow> ShareList" where
  "drop_share i d = \<lparr>sl_shares = filter (\<lambda>v. si_id v \<noteq> i) (sl_shares d), sl_total = max 0 (sl_total d - 1)\<rparr>"

definition revoke_settle :: "string \<Rightarrow> share_reply \<Rightarrow> shares_page \<Rightarrow> shares_page" where
  "revoke_settle i a s =
     (let t = s\<lparr>sh_busyId := None\<rparr> in
      case a of
        ShBroke m \<Rightarrow> share_say False ''revoke failed'' (Some m) t
      | ShDenied st body \<Rightarrow> share_say False ''revoke failed'' (Some (take 200 body)) t
      | ShGot d \<Rightarrow> fetchShares (share_say True ''share revoked'' None (t\<lparr>sh_data := map_option (drop_share i) (sh_data t)\<rparr>)))"

text \<open>The text of a link; \<open>origin\<close> is the page's. The clipboard may refuse it.\<close>

definition share_link :: "string \<Rightarrow> string \<Rightarrow> string" where
  "share_link origin i = origin @ ''/r/'' @ i"

definition copyLink :: "string \<Rightarrow> string \<Rightarrow> shares_page \<Rightarrow> shares_page" where
  "copyLink origin i s = s\<lparr>sh_tasks := sh_tasks s @ [ShCopy i (share_link origin i)]\<rparr>"

definition copy_settle :: "string \<Rightarrow> string \<Rightarrow> share_reply \<Rightarrow> shares_page \<Rightarrow> shares_page" where
  "copy_settle i url a s =
     (case a of
        ShGot d \<Rightarrow> share_say True ''link copied'' (Some url) (s\<lparr>sh_copiedId := Some i, sh_tasks := sh_tasks s @ [ShTimer i]\<rparr>)
      | _ \<Rightarrow> share_say False ''clipboard blocked'' None s)"

definition timer_fires :: "string \<Rightarrow> shares_page \<Rightarrow> shares_page" where
  "timer_fires i s = (if sh_copiedId s = Some i then s\<lparr>sh_copiedId := None\<rparr> else s)"

definition share_resume :: "share_task \<Rightarrow> share_reply \<Rightarrow> shares_page \<Rightarrow> shares_page" where
  "share_resume t a s =
     (case t of
        ShLoad \<Rightarrow> load_settle a s
      | ShNote i \<Rightarrow> note_settle i a s
      | ShRevoke i \<Rightarrow> revoke_settle i a s
      | ShCopy i url \<Rightarrow> copy_settle i url a s
      | ShTimer i \<Rightarrow> timer_fires i s)"

definition share_answer :: "nat \<Rightarrow> share_reply \<Rightarrow> shares_page \<Rightarrow> shares_page" where
  "share_answer i a s =
     (if i < length (sh_tasks s) then share_resume (sh_tasks s ! i) a (s\<lparr>sh_tasks := drop_nth i (sh_tasks s)\<rparr>) else s)"

section \<open>Steps\<close>

datatype share_op =
  ShKey string | ShFilter string | ShRefresh | ShEdit nat | ShDraft string | ShCancel | ShSave
| ShCopyRow string nat | ShRevokeRow nat bool | ShAnswer nat share_reply

text \<open>The form of a row is rendered in the listed row that is being edited.\<close>

definition edited_row :: "shares_page \<Rightarrow> string option" where
  "edited_row s =
     (case sh_editingId s of
        None \<Rightarrow> None
      | Some i \<Rightarrow> if i \<in> si_id ` set (filtered s) then Some i else None)"

fun share_step :: "share_op \<Rightarrow> shares_page \<Rightarrow> shares_page" where
  "share_step (ShKey k) s = (if k = sh_key s then s else fetchShares (s\<lparr>sh_key := k\<rparr>))"
| "share_step (ShFilter v) s = s\<lparr>sh_q := v\<rparr>"
| "share_step ShRefresh s = (if sh_loading s then s else fetchShares s)"
| "share_step (ShEdit n) s =
     (if n < length (filtered s) \<and> sh_editingId s \<noteq> Some (si_id (filtered s ! n)) then startEdit (filtered s ! n) s else s)"
| "share_step (ShDraft v) s = (if edited_row s \<noteq> None \<and> length v \<le> 280 then s\<lparr>sh_noteDraft := v\<rparr> else s)"
| "share_step ShCancel s = (if edited_row s \<noteq> None then cancelEdit s else s)"
| "share_step ShSave s =
     (case edited_row s of
        Some i \<Rightarrow> if sh_savingId s = Some i then s else saveNote i s
      | None \<Rightarrow> s)"
| "share_step (ShCopyRow origin n) s = (if n < length (filtered s) then copyLink origin (si_id (filtered s ! n)) s else s)"
| "share_step (ShRevokeRow n confirmed) s =
     (if n < length (filtered s) \<and> sh_busyId s \<noteq> Some (si_id (filtered s ! n)) \<and> confirmed
      then revoke (si_id (filtered s ! n)) s else s)"
| "share_step (ShAnswer i a) s = share_answer i a s"

text \<open>
  The first render loads; when a key is stored, the effect of \<open>useApiKey\<close> then changes the key of the hook
  from the empty one, which loads again. Both loads carry the stored key.
\<close>

definition shares_start :: "string \<Rightarrow> shares_page" where
  "shares_start k =
     (let s = fetchShares
        \<lparr>sh_key = k, sh_data = None, sh_loading = False, sh_err = None, sh_q = [], sh_busyId = None, sh_copiedId = None,
         sh_editingId = None, sh_noteDraft = [], sh_savingId = None, sh_toasts = [], sh_tasks = [], sh_sent = []\<rparr>
      in if k = [] then s else fetchShares s)"

definition shares_run :: "string \<Rightarrow> share_op list \<Rightarrow> shares_page" where
  "shares_run k ops = fold share_step ops (shares_start k)"

section \<open>What it shows\<close>

text \<open>A time out of the range of dates throws; here it gives no text.\<close>

definition expiry_hint :: "rat \<Rightarrow> string option" where
  "expiry_hint expires = (if expires \<noteq> 0 then toISOString (expires * 1000) else Some ''link never expires'')"

definition note_view :: "shares_page \<Rightarrow> ShareItem \<Rightarrow> node list" where
  "note_view s i =
     (if sh_editingId s = Some (si_id i) then
        [TextField ''add a short note, 280 chars max'' (sh_noteDraft s), Text (nat_digits (length (sh_noteDraft s)) @ ''/280''),
         Button (if sh_savingId s = Some (si_id i) then ''...'' else ''save'') (sh_savingId s = Some (si_id i)), Button ''cancel'' False]
      else [Button (or_str (nullish (si_note i) []) ''add a note'') False])"

definition share_row_view :: "(int \<Rightarrow> int) \<Rightarrow> rat \<Rightarrow> shares_page \<Rightarrow> ShareItem \<Rightarrow> node list" where
  "share_row_view tz now s i =
     [Text (or_str (nullish (si_top_title i) []) ''(no candidates)''
        @ (if nullish (si_top_artist i) [] \<noteq> [] then '' by '' @ the (si_top_artist i) else [])),
      Text (si_id i), Hint (fmtTs tz (si_created_at i)), Text (fmtRel now (si_created_at i)),
      Text (num_to_string (si_elapsed_ms i) @ ''ms''), Text (''n='' @ num_to_string (si_count i))]
     @ (case si_top_score i of Some v \<Rightarrow> [Text (''score '' @ to_fixed v 3)] | None \<Rightarrow> [])
     @ (if nullish (si_filename i) [] \<noteq> [] then [Text (the (si_filename i))] else [])
     @ [Hint (nullish (expiry_hint (si_expires_at i)) []), Text (fst (fmtExpiry now (si_expires_at i) (si_expired i)))]
     @ note_view s i
     @ [Button ''open'' False, Button (if sh_copiedId s = Some (si_id i) then ''copied'' else ''copy'') False,
        Button (if sh_busyId s = Some (si_id i) then ''...'' else ''revoke'') (sh_busyId s = Some (si_id i))]"

definition shares_view :: "(int \<Rightarrow> int) \<Rightarrow> rat \<Rightarrow> shares_page \<Rightarrow> node list" where
  "shares_view tz now s =
     [Text ''your shared matches'', TextField ''filter by id, title, artist, note'' (sh_q s), Button ''refresh'' (sh_loading s),
      Text (case sh_data s of Some d \<Rightarrow> nat_digits (length (filtered s)) @ '' / '' @ num_to_string (sl_total d) | None \<Rightarrow> ''/'')]
     @ (if sh_key s = [] then [Text ''no api key set''] else [])
     @ (case sh_err s of Some m \<Rightarrow> if m = [] then [] else [Text (''error: '' @ m)] | None \<Rightarrow> [])
     @ (if sh_loading s \<and> sh_data s = None then [Skeleton 4] else [])
     @ (case sh_data s of
          None \<Rightarrow> []
        | Some d \<Rightarrow>
            if filtered s = [] then
              (if sh_loading s then [] else [Text (if sl_total d = 0 then ''no shares yet'' else ''nothing matches that filter'')])
            else concat (map (share_row_view tz now s) (filtered s)))"

end
