(* ===== verification/SharesLaws.thy ===== *)
theory SharesLaws
  imports SharesPage
begin

text \<open>
  What holds of the page of the public links: what it sends was asked for on a listed row, its flags have a
  request behind them and it comes to rest, what an accepted edit or revocation does to the list, and what the
  labels of the expiries say.
\<close>

lemmas share_defs =
  share_send_def fetchShares_def load_settle_def startEdit_def cancelEdit_def saveNote_def note_settle_def revoke_def
  revoke_settle_def copyLink_def copy_settle_def timer_fires_def share_say_def

lemma share_answer_cases:
  "share_answer i a s =
     (if i < length (sh_tasks s) then share_resume (sh_tasks s ! i) a (s\<lparr>sh_tasks := drop_nth i (sh_tasks s)\<rparr>) else s)"
  by (simp add: share_answer_def)

section \<open>Coming to rest\<close>

datatype share_kind = KLoad | KNote | KRevoke

fun share_kind_of :: "share_task \<Rightarrow> share_kind option" where
  "share_kind_of ShLoad = Some KLoad"
| "share_kind_of (ShNote i) = Some KNote"
| "share_kind_of (ShRevoke i) = Some KRevoke"
| "share_kind_of _ = None"

fun share_flag :: "share_kind \<Rightarrow> shares_page \<Rightarrow> bool" where
  "share_flag KLoad s \<longleftrightarrow> sh_loading s"
| "share_flag KNote s \<longleftrightarrow> sh_savingId s \<noteq> None"
| "share_flag KRevoke s \<longleftrightarrow> sh_busyId s \<noteq> None"

definition share_backed :: "bool \<Rightarrow> nat \<Rightarrow> bool \<Rightarrow> nat \<Rightarrow> bool" where
  "share_backed f n f' n' \<longleftrightarrow> (f' \<longrightarrow> n' \<noteq> 0 \<or> f \<and> n' = n)"

lemma share_resume_backed:
  "share_backed (share_flag k s) (under_way share_kind_of k (sh_tasks s) + (if share_kind_of t = Some k then 1 else 0))
     (share_flag k (share_resume t a s)) (under_way share_kind_of k (sh_tasks (share_resume t a s)))"
  by (cases t; cases a; cases k) (simp_all add: share_resume_def share_defs share_backed_def Let_def)

lemma share_step_backed:
  "share_backed (share_flag k s) (under_way share_kind_of k (sh_tasks s)) (share_flag k (share_step op s))
     (under_way share_kind_of k (sh_tasks (share_step op s)))"
proof (cases op)
  case (ShAnswer i a)
  show ?thesis
  proof (cases "i < length (sh_tasks s)")
    case True
    have "share_flag k (s\<lparr>sh_tasks := ts\<rparr>) = share_flag k s" for ts by (cases k) simp_all
    then show ?thesis
      using True ShAnswer share_resume_backed [of k "s\<lparr>sh_tasks := drop_nth i (sh_tasks s)\<rparr>" "sh_tasks s ! i" a]
      by (simp add: share_answer_cases under_way_drop [OF True, of share_kind_of])
  qed (use ShAnswer in \<open>simp add: share_answer_cases share_backed_def\<close>)
qed (cases k; simp add: share_backed_def share_defs split: option.split)+

interpretation share_flags: backed share_step "shares_start k" sh_tasks share_kind_of share_flag "\<lambda>_. True" "\<lambda>_. True"
proof unfold_locales
  fix s op f
  show "share_flag f (share_step op s) \<Longrightarrow> under_way share_kind_of f (sh_tasks (share_step op s)) \<noteq> 0 \<or>
      share_flag f s \<and> under_way share_kind_of f (sh_tasks (share_step op s)) = under_way share_kind_of f (sh_tasks s)"
    using share_step_backed [of f s op] by (simp add: share_backed_def)
  show "share_flag f (shares_start k) \<Longrightarrow> under_way share_kind_of f (sh_tasks (shares_start k)) \<noteq> 0"
    by (cases f) (simp_all add: shares_start_def share_defs Let_def split: if_splits)
qed simp_all

fun share_weight :: "share_task \<Rightarrow> nat" where
  "share_weight ShLoad = 1"
| "share_weight (ShNote i) = 1"
| "share_weight (ShTimer i) = 1"
| "share_weight _ = 2"

interpretation share_drain: draining "share_answer 0" sh_tasks share_weight
proof unfold_locales
  show "0 < share_weight t" for t by (cases t) simp_all
  fix s :: shares_page and a
  assume "sh_tasks s \<noteq> []"
  then obtain t ts where "sh_tasks s = t # ts" by (cases "sh_tasks s") auto
  then show "workload share_weight (sh_tasks (share_answer 0 a s)) < workload share_weight (sh_tasks s)"
    by (cases t; cases a) (simp_all add: share_answer_def drop_nth_def share_resume_def share_defs Let_def)
qed (simp add: share_answer_def)

lemma share_answers: "fold (share_answer 0) as (shares_run k ops) = shares_run k (ops @ map (ShAnswer 0) as)"
proof -
  have "fold (share_answer 0) as s = fold share_step (map (ShAnswer 0) as) s" for s
    by (induction as arbitrary: s) simp_all
  then show ?thesis by (simp add: shares_run_def)
qed

text \<open>
  The page of the links comes to rest: a flag is up only while a request of its kind is under way, and once
  what is under way is answered, whatever the answers, nothing is left and no flag is up.
\<close>

theorem shares_settle:
  "(share_flag f (shares_run k ops) \<longrightarrow> under_way share_kind_of f (sh_tasks (shares_run k ops)) \<noteq> 0) \<and>
   (workload share_weight (sh_tasks (shares_run k ops)) \<le> length as \<longrightarrow>
     (let t = fold (share_answer 0) as (shares_run k ops) in sh_tasks t = [] \<and> \<not> share_flag f t))"
proof (intro conjI impI)
  have all: "list_all (\<lambda>_. True) ops" for ops :: "share_op list" by (simp add: list_all_iff)
  show "under_way share_kind_of f (sh_tasks (shares_run k ops)) \<noteq> 0" if "share_flag f (shares_run k ops)"
    using share_flags.run_backed [OF all, of f ops k] that by (simp add: shares_run_def)
  assume "workload share_weight (sh_tasks (shares_run k ops)) \<le> length as"
  then have empty: "sh_tasks (fold (share_answer 0) as (shares_run k ops)) = []" by (rule share_drain.drained)
  then have rest: "sh_tasks (shares_run k (ops @ map (ShAnswer 0) as)) = []" by (simp add: share_answers)
  then have "\<not> share_flag f (shares_run k (ops @ map (ShAnswer 0) as))"
    using share_flags.at_rest [OF all] unfolding shares_run_def by blast
  then show "let t = fold (share_answer 0) as (shares_run k ops) in sh_tasks t = [] \<and> \<not> share_flag f t"
    using rest by (simp add: share_answers)
qed

section \<open>What is sent\<close>

definition sends_share :: "shares_page \<Rightarrow> share_op \<Rightarrow> request \<Rightarrow> bool" where
  "sends_share s op r \<longleftrightarrow>
     req_method r = ''GET'' \<or>
     op = ShSave \<and> req_method r = ''PATCH'' \<and>
       (\<exists>i\<in>set (filtered s). sh_editingId s = Some (si_id i) \<and> sh_savingId s \<noteq> Some (si_id i) \<and>
          req_path r = share_path (si_id i) \<and> req_payload r = Some (note_body (sh_noteDraft s))) \<or>
     req_method r = ''DELETE'' \<and>
       (\<exists>n. op = ShRevokeRow n True \<and> n < length (filtered s) \<and> sh_busyId s \<noteq> Some (si_id (filtered s ! n)) \<and>
          req_path r = share_path (si_id (filtered s ! n)))"

lemma share_resume_sent: "\<exists>rs. sh_sent (share_resume t a s) = sh_sent s @ rs \<and> (\<forall>r\<in>set rs. req_method r = ''GET'')"
  by (cases t; cases a) (simp_all add: share_resume_def share_defs Let_def)

lemma share_sends: "\<exists>rs. sh_sent (share_step op s) = sh_sent s @ rs \<and> (\<forall>r\<in>set rs. sends_share s op r)"
proof (cases op)
  case (ShAnswer i a)
  show ?thesis
  proof (cases "i < length (sh_tasks s)")
    case True
    then show ?thesis
      using ShAnswer share_resume_sent [of "sh_tasks s ! i" a "s\<lparr>sh_tasks := drop_nth i (sh_tasks s)\<rparr>"]
      by (auto simp: share_answer_cases sends_share_def)
  qed (use ShAnswer in \<open>simp add: share_answer_cases\<close>)
next
  case ShSave
  then show ?thesis
    by (auto simp: share_defs sends_share_def edited_row_def split: option.split)
qed (simp_all add: share_defs sends_share_def)

interpretation share_log: logging share_step sh_sent sends_share
  by unfold_locales (rule share_sends)

lemma shares_start_sent: "r \<in> set (sh_sent (shares_start k)) \<Longrightarrow> req_method r = ''GET''"
  by (auto simp: shares_start_def share_defs Let_def split: if_splits)

lemma shares_run_sends:
  "r \<in> set (sh_sent (shares_run k ops)) \<Longrightarrow>
     req_method r = ''GET'' \<or> (\<exists>pre op post. ops = pre @ op # post \<and> sends_share (shares_run k pre) op r)"
  using share_log.run_log [of r ops "shares_start k"] shares_start_sent [of r k] unfolding shares_run_def by blast

text \<open>
  C24. A link is revoked, and a note saved, only for a row on show. Over every run of the page of the links, a
  link whose revocation is sent stood in the filtered list at the index of the click, the user confirmed it,
  and no revocation of it was shown to be under way; a note that is sent goes to the listed row whose editor
  was open, holds the draft of that moment, and is at most 280 characters long.
\<close>

theorem shares_requests_meant:
  assumes "r \<in> set (sh_sent (shares_run k ops))"
  shows "(req_method r = ''DELETE'' \<longrightarrow>
      (\<exists>pre n post. ops = pre @ ShRevokeRow n True # post \<and>
         (let s = shares_run k pre in
            n < length (filtered s) \<and> req_path r = share_path (si_id (filtered s ! n)) \<and> sh_busyId s \<noteq> Some (si_id (filtered s ! n))))) \<and>
    (req_method r = ''PATCH'' \<longrightarrow>
      (\<exists>pre post v. ops = pre @ ShSave # post \<and> req_payload r = Some (JObj [(''note'', JStr v)]) \<and> length v \<le> 280 \<and>
         (let s = shares_run k pre in
            v = take 280 (sh_noteDraft s) \<and> (\<exists>i\<in>set (filtered s). sh_editingId s = Some (si_id i) \<and> req_path r = share_path (si_id i)))))"
proof (cases "req_method r = ''GET''")
  case False
  then obtain pre op post where ops: "ops = pre @ op # post" and s: "sends_share (shares_run k pre) op r"
    using shares_run_sends [OF assms] by blast
  show ?thesis
  proof (intro conjI impI, goal_cases)
    case 1
    then obtain n where "op = ShRevokeRow n True" "n < length (filtered (shares_run k pre))"
      "sh_busyId (shares_run k pre) \<noteq> Some (si_id (filtered (shares_run k pre) ! n))"
      "req_path r = share_path (si_id (filtered (shares_run k pre) ! n))"
      using s by (auto simp: sends_share_def)
    then show ?case using ops by (intro exI [of _ pre] exI [of _ n] exI [of _ post]) (simp add: Let_def)
  next
    case 2
    then have "op = ShSave" "req_payload r = Some (note_body (sh_noteDraft (shares_run k pre)))"
      "\<exists>i\<in>set (filtered (shares_run k pre)). sh_editingId (shares_run k pre) = Some (si_id i) \<and> req_path r = share_path (si_id i)"
      using s by (auto simp: sends_share_def)
    then show ?case
      using ops by (intro exI [of _ pre] exI [of _ post] exI [of _ "take 280 (sh_noteDraft (shares_run k pre))"]) (simp add: note_body_def Let_def)
  qed
qed simp

section \<open>What an accepted request does to the list\<close>

text \<open>
  An accepted revocation takes the link, and nothing else, from the list on show; an accepted note is set on
  the rows of that link only.
\<close>

lemma revoke_drops:
  assumes "n < length (sh_tasks s)" and "sh_tasks s ! n = ShRevoke i" and "sh_data s = Some d"
  shows "\<exists>d'. sh_data (share_step (ShAnswer n (ShGot x)) s) = Some d' \<and> sl_shares d' = filter (\<lambda>v. si_id v \<noteq> i) (sl_shares d) \<and>
    sl_total d' \<ge> 0 \<and> sh_busyId (share_step (ShAnswer n (ShGot x)) s) = None"
  using assms by (simp add: share_answer_cases share_resume_def share_defs drop_share_def)

lemma note_lands:
  assumes "n < length (sh_tasks s)" and "sh_tasks s ! n = ShNote i" and "sh_data s = Some d" and "j < length (sl_shares d)"
  shows "\<exists>d'. sh_data (share_step (ShAnswer n (ShGot x)) s) = Some d' \<and> length (sl_shares d') = length (sl_shares d) \<and>
    sl_shares d' ! j = (if si_id (sl_shares d ! j) = i then (sl_shares d ! j)\<lparr>si_note := si_note (sd_item x)\<rparr> else sl_shares d ! j)"
  using assms by (simp add: share_answer_cases share_resume_def share_defs set_note_def Let_def)

text \<open>Filtering keeps the order of the list, shows all of it for a blank query, and finds the text of every field.\<close>

lemma filtered_subset: "set (filtered s) \<subseteq> (case sh_data s of None \<Rightarrow> {} | Some d \<Rightarrow> set (sl_shares d))"
  by (auto simp: filtered_def Let_def split: option.split if_splits)

lemma filtered_blank: "trim (sh_q s) = [] \<Longrightarrow> sh_data s = Some d \<Longrightarrow> filtered s = sl_shares d"
  by (simp add: filtered_def to_lower_def Let_def)

section \<open>Expiries\<close>

definition left_in :: "rat \<Rightarrow> rat \<Rightarrow> int \<Rightarrow> bool" where
  "left_in ms unit n \<longleftrightarrow> of_int n * unit \<le> ms \<and> ms < (of_int n + 1) * unit"

text \<open>
  C25. The label of a link's expiry is exact: it says that the link has expired exactly when the server said so or the
  time is past; otherwise it names days from 2 up, hours from 1 to 47, or minutes from 1 to 59, and what it
  names is the time left, cut to that unit (less than a minute is shown as one).
\<close>

theorem expiry_exact:
  assumes "expiresAt \<noteq> 0"
  shows "let ms = expiresAt * 1000 - now; label = fst (fmtExpiry now expiresAt expired) in
    if expired \<or> ms \<le> 0 then label = ''expired''
    else (\<exists>n\<ge>2. label = ''expires in '' @ int_to_string n @ ''d'' \<and> left_in ms 86400000 n) \<or>
         (\<exists>n. 1 \<le> n \<and> n \<le> 47 \<and> label = ''expires in '' @ int_to_string n @ ''h'' \<and> left_in ms 3600000 n) \<or>
         (\<exists>n. 1 \<le> n \<and> n \<le> 59 \<and> label = ''expires in '' @ int_to_string n @ ''m'' \<and> (left_in ms 60000 n \<or> n = 1 \<and> ms < 60000))"
proof -
  let ?ms = "expiresAt * 1000 - now"
  let ?days = "floor (?ms / 86400000)" and ?hours = "floor (?ms / 3600000)" and ?mins = "floor (?ms / 60000)"
  have cut: "left_in ?ms u (floor (?ms / u))" if "0 < u" for u :: rat
  proof -
    have "of_int (floor (?ms / u)) * u \<le> ?ms" using of_int_floor_le [of "?ms / u"] that by (simp only: pos_le_divide_eq)
    moreover have "?ms < (of_int (floor (?ms / u)) + 1) * u"
      using floor_correct [of "?ms / u"] that by (simp add: pos_divide_less_eq)
    ultimately show ?thesis by (simp add: left_in_def)
  qed
  show ?thesis
  proof (cases "expired \<or> ?ms \<le> 0")
    case True
    then show ?thesis using assms by (auto simp: fmtExpiry_def Let_def)
  next
    case False
    consider "?days \<ge> 2" | "?days < 2" "?hours \<ge> 1" | "?days < 2" "?hours < 1" by linarith
    then show ?thesis
    proof cases
      case 1
      then have "fst (fmtExpiry now expiresAt expired) = ''expires in '' @ int_to_string ?days @ ''d''"
        using False assms by (simp add: fmtExpiry_def Let_def)
      then have "\<exists>n\<ge>2. fst (fmtExpiry now expiresAt expired) = ''expires in '' @ int_to_string n @ ''d'' \<and> left_in ?ms 86400000 n"
        using 1 cut [of 86400000] by (intro exI [of _ ?days]) simp
      then show ?thesis using False by (simp add: Let_def)
    next
      case 2
      have "?ms < 172800000" using 2(1) by (simp add: floor_less_iff)
      then have "?hours \<le> 47" by (simp add: floor_le_iff)
      moreover have "fst (fmtExpiry now expiresAt expired) = ''expires in '' @ int_to_string ?hours @ ''h''"
        using 2 False assms by (simp add: fmtExpiry_def Let_def)
      ultimately have "\<exists>n. 1 \<le> n \<and> n \<le> 47 \<and>
          fst (fmtExpiry now expiresAt expired) = ''expires in '' @ int_to_string n @ ''h'' \<and> left_in ?ms 3600000 n"
        using 2 cut [of 3600000] by (intro exI [of _ ?hours]) simp
      then show ?thesis using False by (simp add: Let_def)
    next
      case 3
      have "?ms < 3600000" using 3(2) by (simp add: floor_less_iff)
      then have m: "?mins \<le> 59" by (simp add: floor_le_iff)
      have label: "fst (fmtExpiry now expiresAt expired) = ''expires in '' @ int_to_string (max 1 ?mins) @ ''m''"
        using 3 False assms by (simp add: fmtExpiry_def Let_def)
      have "left_in ?ms 60000 (max 1 ?mins) \<or> max 1 ?mins = 1 \<and> ?ms < 60000"
        using cut [of 60000] by (cases "1 \<le> ?mins") (auto simp: max_def floor_less_iff not_le)
      then have "\<exists>n. 1 \<le> n \<and> n \<le> 59 \<and> fst (fmtExpiry now expiresAt expired) = ''expires in '' @ int_to_string n @ ''m'' \<and>
          (left_in ?ms 60000 n \<or> n = 1 \<and> ?ms < 60000)"
        using label m by (intro exI [of _ "max 1 ?mins"]) simp
      then show ?thesis using False by (simp add: Let_def)
    qed
  qed
qed

section \<open>Examples\<close>

definition two_links :: ShareList where
  "two_links =
     (let row = (\<lambda>i. \<lparr>si_id = i, si_created_at = 0, si_query_id = ''q'', si_elapsed_ms = 0, si_count = 0, si_filename = None,
        si_duration_sec = None, si_note = None, si_top_title = None, si_top_artist = None, si_top_score = None, si_url_path = ''/r/'' @ i,
        si_expires_at = 0, si_expired = False\<rparr>)
      in \<lparr>sl_shares = [row ''a'', row ''b''], sl_total = 2\<rparr>)"

definition link_docs :: share_docs where
  "link_docs = \<lparr>sd_all = two_links, sd_item = hd (sl_shares two_links)\<rparr>"

lemmas share_eval =
  shares_run_def shares_start_def Let_def share_answer_def share_resume_def share_defs drop_nth_def link_docs_def two_links_def filtered_def
  edited_row_def share_auth_def to_lower_def trim_def Let_def

text \<open>An edit of one row, saved while another is opened: its success closes the editor of the other and drops the draft.\<close>

abbreviation note_sample :: "share_op list" where
  "note_sample \<equiv> [ShAnswer 0 (ShGot link_docs), ShEdit 0, ShSave, ShEdit 1, ShDraft ''mine'', ShAnswer 0 (ShGot link_docs)]"

lemma note_save_closes_other:
  "sh_editingId (shares_run [] (butlast note_sample)) = Some ''b'' \<and> sh_noteDraft (shares_run [] (butlast note_sample)) = ''mine'' \<and>
   sh_editingId (shares_run [] note_sample) = None \<and> sh_noteDraft (shares_run [] note_sample) = []"
  by (simp add: share_eval)

abbreviation revoke_sample :: "share_op list" where
  "revoke_sample \<equiv> [ShAnswer 0 (ShGot link_docs), ShRevokeRow 0 False, ShRevokeRow 1 True]"

text \<open>Of two clicks, the one that was not confirmed sends nothing.\<close>

theorem shares_requests_meant_witness:
  "\<exists>r\<in>set (sh_sent (shares_run [] revoke_sample)). req_method r = ''DELETE'' \<and>
     (\<exists>pre n post. revoke_sample = pre @ ShRevokeRow n True # post \<and>
        (let s = shares_run [] pre in
           n < length (filtered s) \<and> req_path r = share_path (si_id (filtered s ! n)) \<and> sh_busyId s \<noteq> Some (si_id (filtered s ! n))))"
proof -
  let ?r = "\<lparr>req_method = ''DELETE'', req_path = share_path ''b'', req_headers = [], req_payload = None\<rparr>"
  have r: "?r \<in> set (sh_sent (shares_run [] revoke_sample))" by (simp add: share_eval)
  have m: "req_method ?r = ''DELETE''" by simp
  with shares_requests_meant [OF r, THEN conjunct1, THEN mp, OF m] show ?thesis by (intro bexI [OF _ r] conjI)
qed

theorem expiry_exact_witness:
  "let label = fst (fmtExpiry 0 7 False) in
     (\<exists>n. 1 \<le> n \<and> n \<le> 59 \<and> label = ''expires in '' @ int_to_string n @ ''m'') \<or>
     (\<exists>n. label = ''expires in '' @ int_to_string n @ ''d'') \<or> (\<exists>n. label = ''expires in '' @ int_to_string n @ ''h'')"
proof -
  have "(7 :: rat) \<noteq> 0" by simp
  from expiry_exact [OF this, of 0 False] show ?thesis unfolding Let_def by auto
qed

theorem shares_settle_witness:
  "let t = fold (share_answer 0) [ShBroke ''offline''] (shares_run [] []) in sh_tasks t = [] \<and> \<not> share_flag KLoad t"
proof -
  have "workload share_weight (sh_tasks (shares_run [] [])) \<le> length [ShBroke ''offline'']"
    by (simp add: shares_run_def shares_start_def share_defs Let_def)
  then show ?thesis using shares_settle [of KLoad "[]" "[]" "[ShBroke ''offline'']"] by blast
qed

end
