(* ===== verification/Insights.thy ===== *)
theory Insights
  imports History Export Rounding Pages
begin

text \<open>
  \<open>web/app/insights/page.tsx\<close>: the statistics of the stored matches, computed in one pass over them
  (\<open>computeAll\<close>), and what the page shows of them. Sums and means are those of doubles (\<open>rnd\<close>); the stored times
  are times of the clock, within the range of dates. A time zone is given by its two offsets: \<open>zn_utc\<close> at a
  time, and \<open>zn_local\<close> at a local time, with which the language turns a local time back.
\<close>

section \<open>Data\<close>

record Bucket =
  bk_label :: string
  bk_count :: nat

record TopTrack =
  tt_track_id :: string
  tt_title :: string
  tt_artist :: string
  tt_seen :: nat
  tt_best_score :: rat
  tt_mean_score :: rat
  tt_source :: string

record DailyPoint =
  dp_day :: string
  dp_ts :: int
  dp_queries :: nat
  dp_hits :: nat
  dp_mean_latency :: int
  dp_mean_top_score :: jsnum

text \<open>A constant of the source, as the double it denotes.\<close>

definition const :: "rat \<Rightarrow> rat" where
  "const x = rnd x"

definition SCORE_BINS :: "(rat \<times> rat \<times> string) list" where
  "SCORE_BINS =
     [(0, const (1/10), ''0.0-0.1''), (const (1/10), const (2/10), ''0.1-0.2''), (const (2/10), const (3/10), ''0.2-0.3''),
      (const (3/10), const (4/10), ''0.3-0.4''), (const (4/10), const (5/10), ''0.4-0.5''), (const (5/10), const (6/10), ''0.5-0.6''),
      (const (6/10), const (7/10), ''0.6-0.7''), (const (7/10), const (8/10), ''0.7-0.8''), (const (8/10), const (9/10), ''0.8-0.9''),
      (const (9/10), const (101/100), ''0.9-1.0'')]"

definition LATENCY_BINS :: "(jsnum \<times> string) list" where
  "LATENCY_BINS =
     [(Fin 100, ''<100''), (Fin 200, ''100-200''), (Fin 400, ''200-400''), (Fin 800, ''400-800''), (Fin 1600, ''800-1600''),
      (Fin 3200, ''1600-3200''), (PInf, ''>3200'')]"

definition fmtPct :: "jsnum \<Rightarrow> nat \<Rightarrow> string" where
  "fmtPct n digits = (case n of Fin v \<Rightarrow> to_fixed (rnd (v * 100)) digits @ ''%'' | _ \<Rightarrow> ''-'')"

section \<open>Days\<close>

record zone =
  zn_utc :: "int \<Rightarrow> int"
  zn_local :: "int \<Rightarrow> int"

definition dayKey :: "zone \<Rightarrow> int \<Rightarrow> string" where
  "dayKey z t =
     (let d = local_fields (zn_utc z) t in int_to_string (d_year d) @ ''-'' @ pad2 (d_month d + 1) @ ''-'' @ pad2 (d_day d))"

text \<open>\<open>setHours(0, 0, 0, 0)\<close>\<close>

definition startOfDay :: "zone \<Rightarrow> int \<Rightarrow> int" where
  "startOfDay z t = (let m = (t + zn_utc z t) div MS_PER_DAY * MS_PER_DAY in m - zn_local z m)"

section \<open>The pass over the matches\<close>

text \<open>The first bin of a list that takes a value is counted up, if there is one.\<close>

fun bump :: "bool list \<Rightarrow> nat list \<Rightarrow> nat list" where
  "bump (b # bs) (n # ns) = (if b then Suc n # ns else n # bump bs ns)"
| "bump _ ns = ns"

definition score_bin :: "rat \<Rightarrow> nat list \<Rightarrow> nat list" where
  "score_bin v = bump (map (\<lambda>(lo, hi, l). lo \<le> v \<and> v < hi) SCORE_BINS)"

definition latency_bin :: "rat \<Rightarrow> nat list \<Rightarrow> nat list" where
  "latency_bin v = bump (map (\<lambda>(lt, l). num_less (Fin v) lt) LATENCY_BINS)"

definition add_all :: "rat list \<Rightarrow> rat" where
  "add_all vs = fold (\<lambda>v s. rnd (s + v)) vs 0"

definition mean_of :: "rat list \<Rightarrow> rat" where
  "mean_of vs = rnd (add_all vs / of_nat (length vs))"

type_synonym track_entry = "TopTrack \<times> rat list"

definition new_top :: "MatchResult \<Rightarrow> track_entry" where
  "new_top r =
     (\<lparr>tt_track_id = r_track_id r, tt_title = or_str (r_title r) ''(untitled)'', tt_artist = r_artist r, tt_seen = 1,
       tt_best_score = r_score r, tt_mean_score = r_score r, tt_source = r_source r\<rparr>, [r_score r])"

definition seen_top :: "MatchResult \<Rightarrow> track_entry \<Rightarrow> track_entry" where
  "seen_top r e =
     (let (t, scores) = e; t' = t\<lparr>tt_seen := Suc (tt_seen t)\<rparr> in
      (if r_score r > tt_best_score t' then t'\<lparr>tt_best_score := r_score r\<rparr> else t', scores @ [r_score r]))"

text \<open>\<open>const prev = map.get(k); if (prev) update(prev) else map.set(k, first)\<close>\<close>

definition get_or_set :: "'k \<Rightarrow> ('v option \<Rightarrow> 'v) \<Rightarrow> ('k \<times> 'v) list \<Rightarrow> ('k \<times> 'v) list" where
  "get_or_set k f m = AList.update k (f (map_of m k)) m"

definition track_seen :: "MatchResult \<Rightarrow> (string \<times> track_entry) list \<Rightarrow> (string \<times> track_entry) list" where
  "track_seen r = get_or_set (r_track_id r) (\<lambda>prev. case prev of None \<Rightarrow> new_top r | Some e \<Rightarrow> seen_top r e)"

record day_entry =
  de_ts :: int
  de_queries :: nat
  de_hits :: nat
  de_latencies :: "rat list"
  de_topScores :: "rat list"

definition new_day :: "zone \<Rightarrow> int \<Rightarrow> day_entry" where
  "new_day z t = \<lparr>de_ts = startOfDay z t, de_queries = 0, de_hits = 0, de_latencies = [], de_topScores = []\<rparr>"

definition top_score :: "StoredMatch \<Rightarrow> rat option" where
  "top_score m = (case m_results m of [] \<Rightarrow> None | r # _ \<Rightarrow> Some (r_score r))"

definition at_least :: "rat \<Rightarrow> StoredMatch \<Rightarrow> bool" where
  "at_least c m \<longleftrightarrow> (case top_score m of None \<Rightarrow> False | Some v \<Rightarrow> const c \<le> v)"

definition day_query :: "StoredMatch \<Rightarrow> day_entry \<Rightarrow> day_entry" where
  "day_query m d =
     d\<lparr>de_queries := Suc (de_queries d), de_hits := (if at_least (3/10) m then Suc (de_hits d) else de_hits d),
       de_latencies := de_latencies d @ [m_elapsed_ms m],
       de_topScores := (case top_score m of None \<Rightarrow> de_topScores d | Some v \<Rightarrow> de_topScores d @ [v])\<rparr>"

definition match_time :: "StoredMatch \<Rightarrow> int" where
  "match_time m = trunc (m_ts m)"

definition day_seen :: "zone \<Rightarrow> StoredMatch \<Rightarrow> (string \<times> day_entry) list \<Rightarrow> (string \<times> day_entry) list" where
  "day_seen z m =
     get_or_set (dayKey z (match_time m))
       (\<lambda>day. day_query m (case day of None \<Rightarrow> new_day z (match_time m) | Some d \<Rightarrow> d))"

record insights_acc =
  ia_hits :: nat
  ia_strong :: nat
  ia_empty :: nat
  ia_scores :: "rat list"
  ia_scoreHist :: "nat list"
  ia_latencies :: "rat list"
  ia_latencyHist :: "nat list"
  ia_totalDuration :: rat
  ia_tracks :: "(string \<times> track_entry) list"
  ia_days :: "(string \<times> day_entry) list"

definition insights_init :: insights_acc where
  "insights_init =
     \<lparr>ia_hits = 0, ia_strong = 0, ia_empty = 0, ia_scores = [], ia_scoreHist = map (\<lambda>_. 0) SCORE_BINS, ia_latencies = [],
      ia_latencyHist = map (\<lambda>_. 0) LATENCY_BINS, ia_totalDuration = 0, ia_tracks = [], ia_days = []\<rparr>"

text \<open>The body of the loop. The sum of the top scores is kept as the list of its summands.\<close>

definition insights_step :: "zone \<Rightarrow> StoredMatch \<Rightarrow> insights_acc \<Rightarrow> insights_acc" where
  "insights_step z m a =
     \<lparr>ia_hits = (if at_least (3/10) m then Suc (ia_hits a) else ia_hits a),
      ia_strong = (if at_least (5/10) m then Suc (ia_strong a) else ia_strong a),
      ia_empty = (if top_score m = None then Suc (ia_empty a) else ia_empty a),
      ia_scores = (case top_score m of None \<Rightarrow> ia_scores a | Some v \<Rightarrow> ia_scores a @ [v]),
      ia_scoreHist = (case top_score m of None \<Rightarrow> ia_scoreHist a | Some v \<Rightarrow> score_bin v (ia_scoreHist a)),
      ia_latencies = ia_latencies a @ [m_elapsed_ms m],
      ia_latencyHist = latency_bin (m_elapsed_ms m) (ia_latencyHist a),
      ia_totalDuration =
        (case m_duration_sec m of
           None \<Rightarrow> ia_totalDuration a
         | Some v \<Rightarrow> if v = 0 then ia_totalDuration a else rnd (ia_totalDuration a + v)),
      ia_tracks = fold track_seen (m_results m) (ia_tracks a),
      ia_days = day_seen z m (ia_days a)\<rparr>"

definition insights_pass :: "zone \<Rightarrow> StoredMatch list \<Rightarrow> insights_acc" where
  "insights_pass z ms = fold (insights_step z) ms insights_init"

section \<open>After the pass\<close>

text \<open>\<open>b.seen - a.seen || b.best_score - a.best_score\<close>\<close>

definition track_cmp :: "TopTrack \<Rightarrow> TopTrack \<Rightarrow> rat" where
  "track_cmp = cmp_or (by_key_desc (\<lambda>t. of_nat (tt_seen t))) (by_key_desc tt_best_score)"

definition finish_track :: "track_entry \<Rightarrow> TopTrack" where
  "finish_track e = (fst e)\<lparr>tt_mean_score := mean_of (snd e)\<rparr>"

definition top_tracks :: "insights_acc \<Rightarrow> TopTrack list" where
  "top_tracks a = js_sort track_cmp (map (\<lambda>(k, e). finish_track e) (ia_tracks a))"

definition sorted_latencies :: "insights_acc \<Rightarrow> rat list" where
  "sorted_latencies a = js_sort (by_key (\<lambda>v. v)) (ia_latencies a)"

definition p95_index :: "nat \<Rightarrow> nat" where
  "p95_index n = min (n - 1) (nat (floor (rnd (const (95/100) * of_nat (n - 1)))))"

record Summary =
  sm_total :: nat
  sm_hits :: nat
  sm_strong :: nat
  sm_empty :: nat
  sm_meanLatency :: rat
  sm_p95Latency :: rat
  sm_meanTopScore :: rat
  sm_uniqueTracks :: nat
  sm_totalDuration :: rat

definition insights_summary :: "StoredMatch list \<Rightarrow> insights_acc \<Rightarrow> Summary" where
  "insights_summary ms a =
     (let sorted = sorted_latencies a in
      \<lparr>sm_total = length ms, sm_hits = ia_hits a, sm_strong = ia_strong a, sm_empty = ia_empty a,
       sm_meanLatency = (if ia_latencies a = [] then 0 else mean_of sorted),
       sm_p95Latency = (if ia_latencies a = [] then 0 else sorted ! p95_index (length sorted)),
       sm_meanTopScore = (if ia_scores a = [] then 0 else mean_of (ia_scores a)),
       sm_uniqueTracks = length (top_tracks a), sm_totalDuration = ia_totalDuration a\<rparr>)"

text \<open>\<open>for (let t = first; t <= last; t += oneDay)\<close>\<close>

function day_times :: "int \<Rightarrow> int \<Rightarrow> int list" where
  "day_times t t1 = (if t \<le> t1 then t # day_times (t + MS_PER_DAY) t1 else [])"
  by pat_completeness auto
termination
  by (relation "measure (\<lambda>(t, z). nat (z - t + 1))") (auto simp: MS_PER_DAY_def)

declare day_times.simps [simp del]

definition day_point :: "zone \<Rightarrow> (string \<times> day_entry) list \<Rightarrow> int \<Rightarrow> DailyPoint" where
  "day_point z days t =
     (let k = dayKey z t in
      case map_of days k of
        None \<Rightarrow> \<lparr>dp_day = drop 5 k, dp_ts = t, dp_queries = 0, dp_hits = 0, dp_mean_latency = 0, dp_mean_top_score = Fin 0\<rparr>
      | Some d \<Rightarrow>
          \<lparr>dp_day = drop 5 k, dp_ts = de_ts d, dp_queries = de_queries d, dp_hits = de_hits d,
           dp_mean_latency = math_round (mean_of (de_latencies d)),
           dp_mean_top_score = string_to_number (to_fixed (if de_topScores d = [] then 0 else mean_of (de_topScores d)) 3)\<rparr>)"

definition sorted_days :: "insights_acc \<Rightarrow> day_entry list" where
  "sorted_days a = js_sort (by_key (\<lambda>d. of_int (de_ts d))) (map snd (ia_days a))"

definition day_points :: "zone \<Rightarrow> insights_acc \<Rightarrow> DailyPoint list" where
  "day_points z a =
     (case sorted_days a of
        [] \<Rightarrow> []
      | d # ds \<Rightarrow> map (day_point z (ia_days a)) (day_times (de_ts d) (de_ts (last (d # ds)))))"

record Insights =
  is_summary :: Summary
  is_scoreHist :: "Bucket list"
  is_latencyHist :: "Bucket list"
  is_tracks :: "TopTrack list"
  is_dayPoints :: "DailyPoint list"

definition buckets :: "string list \<Rightarrow> nat list \<Rightarrow> Bucket list" where
  "buckets = map2 (\<lambda>l n. \<lparr>bk_label = l, bk_count = n\<rparr>)"

definition computeAll :: "zone \<Rightarrow> StoredMatch list \<Rightarrow> Insights" where
  "computeAll z ms =
     (let a = insights_pass z ms in
      \<lparr>is_summary = insights_summary ms a,
       is_scoreHist = buckets (map (\<lambda>(lo, hi, l). l) SCORE_BINS) (ia_scoreHist a),
       is_latencyHist = buckets (map (\<lambda>(lt, l). l) LATENCY_BINS) (ia_latencyHist a),
       is_tracks = top_tracks a, is_dayPoints = day_points z a\<rparr>)"

section \<open>What it shows\<close>

text \<open>The page reads the stored matches once, after it is mounted; until then it has none. \<open>loc\<close> is \<open>toLocaleString\<close> of a number.\<close>

definition insights_mount :: "hbrowser \<Rightarrow> StoredMatch list option \<Rightarrow> StoredMatch list option" where
  "insights_mount b items = Some (loadMatches b)"

definition rate_of :: "nat \<Rightarrow> nat \<Rightarrow> rat" where
  "rate_of n k = (if k = 0 then 0 else rnd (of_nat n / of_nat k))"

definition stat_card :: "string \<Rightarrow> string \<Rightarrow> string \<Rightarrow> node list" where
  "stat_card label v sub = [Stat label v, Text sub]"

definition summary_cards :: "(nat \<Rightarrow> string) \<Rightarrow> Summary \<Rightarrow> node list" where
  "summary_cards loc s =
     stat_card ''queries'' (loc (sm_total s)) (nat_digits (sm_uniqueTracks s) @ '' unique tracks'')
     @ stat_card ''hit rate'' (fmtPct (Fin (rate_of (sm_hits s) (sm_total s))) 1) (nat_digits (sm_hits s) @ '' >= 0.30'')
     @ stat_card ''strong hits'' (fmtPct (Fin (rate_of (sm_strong s) (sm_total s))) 1) (nat_digits (sm_strong s) @ '' >= 0.50'')
     @ stat_card ''mean top score'' (to_fixed (sm_meanTopScore s) 3) (nat_digits (sm_empty s) @ '' empty'')
     @ stat_card ''latency p95'' (int_to_string (math_round (sm_p95Latency s)) @ '' ms'')
         (''mean '' @ int_to_string (math_round (sm_meanLatency s)) @ '' ms'')
     @ stat_card ''audio sent'' (to_fixed (sm_totalDuration s) 1 @ '' s'') ''captured + uploaded''"

definition bar_fill :: "rat \<Rightarrow> string" where
  "bar_fill lo = (if lo \<ge> const (5/10) then ''#3DFC8E'' else if lo \<ge> const (3/10) then ''#F59E0B'' else ''#1F8A4D'')"

definition track_row :: "nat \<Rightarrow> TopTrack \<Rightarrow> node list" where
  "track_row i t =
     [Text (nat_digits (Suc i)), Text (tt_title t), Text (or_str (tt_artist t) ''-''), Text (nat_digits (tt_seen t)),
      Text (to_fixed (tt_best_score t) 3), Text (to_fixed (tt_mean_score t) 3), Text (tt_source t)]"

definition bar_nodes :: "Bucket list \<Rightarrow> node list" where
  "bar_nodes bs = map (\<lambda>b. Stat (bk_label b) (nat_digits (bk_count b))) bs"

definition insights_view :: "(nat \<Rightarrow> string) \<Rightarrow> zone \<Rightarrow> StoredMatch list option \<Rightarrow> node list" where
  "insights_view loc z items =
     (case items of
        None \<Rightarrow> [Text ''loading insights...'']
      | Some [] \<Rightarrow> [Text ''insights / 0'', Text ''empty / run a capture or try a demo sample to populate'']
      | Some ms \<Rightarrow>
          (let d = computeAll z ms in
           Text (''insights / '' @ nat_digits (sm_total (is_summary d))) # summary_cards loc (is_summary d)
           @ Text ''top-score distribution'' # bar_nodes (is_scoreHist d)
           @ Text ''latency distribution'' # bar_nodes (is_latencyHist d)
           @ Text ''activity / day''
           # concat (map (\<lambda>p. [Text (dp_day p), Stat ''queries'' (nat_digits (dp_queries p)), Stat ''hits'' (nat_digits (dp_hits p))]) (is_dayPoints d))
           @ Text (''most matched tracks / '' @ nat_digits (length (is_tracks d)))
           # concat (map2 track_row [0..<length (take 15 (is_tracks d))] (take 15 (is_tracks d)))))"

end
