(* ===== verification/InsightsLaws.thy ===== *)
theory InsightsLaws
  imports Insights ExportLaws
begin

text \<open>
  What holds of the statistics: every match is counted once in every figure and every diagram (\<open>insights_add_up\<close>), the list of tracks
  is that of the results (\<open>insights_tracks\<close>), and the points of the days cover every match while the offset of the time zone
  does not change (\<open>insights_days\<close>); across a change they do not (\<open>spring_day_lost\<close>).
\<close>

section \<open>The pass, figure by figure\<close>

definition top_scores :: "StoredMatch list \<Rightarrow> rat list" where
  "top_scores ms = List.map_filter top_score ms"

lemma top_scores_simps [simp]:
  "top_scores [] = []"
  "top_scores (m # ms) = (case top_score m of None \<Rightarrow> top_scores ms | Some v \<Rightarrow> v # top_scores ms)"
  by (simp_all add: top_scores_def map_filter_simps split: option.split)

lemma pass_fields:
  "ia_hits (fold (insights_step z) ms a) = ia_hits a + length (filter (at_least (3/10)) ms)"
  "ia_strong (fold (insights_step z) ms a) = ia_strong a + length (filter (at_least (5/10)) ms)"
  "ia_empty (fold (insights_step z) ms a) = ia_empty a + length (filter (\<lambda>m. top_score m = None) ms)"
  "ia_latencies (fold (insights_step z) ms a) = ia_latencies a @ map m_elapsed_ms ms"
  "ia_latencyHist (fold (insights_step z) ms a) = fold latency_bin (map m_elapsed_ms ms) (ia_latencyHist a)"
  "ia_scores (fold (insights_step z) ms a) = ia_scores a @ top_scores ms"
  "ia_scoreHist (fold (insights_step z) ms a) = fold score_bin (top_scores ms) (ia_scoreHist a)"
  "ia_tracks (fold (insights_step z) ms a) = fold track_seen (concat (map m_results ms)) (ia_tracks a)"
  "ia_days (fold (insights_step z) ms a) = fold (day_seen z) ms (ia_days a)"
proof -
  have "ia_hits (fold (insights_step z) ms a) = ia_hits a + length (filter (at_least (3/10)) ms) \<and>
    ia_strong (fold (insights_step z) ms a) = ia_strong a + length (filter (at_least (5/10)) ms) \<and>
    ia_empty (fold (insights_step z) ms a) = ia_empty a + length (filter (\<lambda>m. top_score m = None) ms)"
    by (induction ms arbitrary: a) (simp_all add: insights_step_def)
  then show "ia_hits (fold (insights_step z) ms a) = ia_hits a + length (filter (at_least (3/10)) ms)"
    "ia_strong (fold (insights_step z) ms a) = ia_strong a + length (filter (at_least (5/10)) ms)"
    "ia_empty (fold (insights_step z) ms a) = ia_empty a + length (filter (\<lambda>m. top_score m = None) ms)" by blast+
  show "ia_latencies (fold (insights_step z) ms a) = ia_latencies a @ map m_elapsed_ms ms"
    by (induction ms arbitrary: a) (simp_all add: insights_step_def)
  show "ia_latencyHist (fold (insights_step z) ms a) = fold latency_bin (map m_elapsed_ms ms) (ia_latencyHist a)"
    by (induction ms arbitrary: a) (simp_all add: insights_step_def)
  show "ia_scores (fold (insights_step z) ms a) = ia_scores a @ top_scores ms"
    by (induction ms arbitrary: a) (simp_all add: insights_step_def split: option.split)
  show "ia_scoreHist (fold (insights_step z) ms a) = fold score_bin (top_scores ms) (ia_scoreHist a)"
    by (induction ms arbitrary: a) (simp_all add: insights_step_def split: option.split)
  show "ia_tracks (fold (insights_step z) ms a) = fold track_seen (concat (map m_results ms)) (ia_tracks a)"
    by (induction ms arbitrary: a) (simp_all add: insights_step_def)
  show "ia_days (fold (insights_step z) ms a) = fold (day_seen z) ms (ia_days a)"
    by (induction ms arbitrary: a) (simp_all add: insights_step_def)
qed

section \<open>The diagrams\<close>

lemma length_bump [simp]: "length (bump bs ns) = length ns"
  by (induction bs ns rule: bump.induct) simp_all

lemma sum_bump: "length bs = length ns \<Longrightarrow> sum_list (bump bs ns) = sum_list ns + (if True \<in> set bs then 1 else 0)"
  by (induction bs ns rule: bump.induct) simp_all

text \<open>Bins that follow each other take every value between their ends.\<close>

fun chained :: "rat \<Rightarrow> (rat \<times> rat \<times> string) list \<Rightarrow> rat \<Rightarrow> bool" where
  "chained lo [] hi \<longleftrightarrow> lo = hi"
| "chained lo ((l, h, x) # bs) hi \<longleftrightarrow> l = lo \<and> chained h bs hi"

lemma chained_takes:
  "chained lo bs hi \<Longrightarrow> lo \<le> v \<Longrightarrow> v < hi \<Longrightarrow> \<exists>(l, h, x)\<in>set bs. l \<le> v \<and> v < h"
proof (induction lo bs hi rule: chained.induct)
  case (2 lo l h x bs hi)
  then show ?case by (cases "v < h") auto
qed simp

lemma score_bins_chained: "chained 0 SCORE_BINS (const (101/100))"
  by (simp add: SCORE_BINS_def)

lemma length_hists [simp]: "length (score_bin v ns) = length ns" "length (latency_bin v ns) = length ns"
  by (simp_all add: score_bin_def latency_bin_def)

lemma sum_score_hist:
  assumes "\<forall>v\<in>set vs. 0 \<le> v \<and> v < const (101/100)" and "length ns = length SCORE_BINS"
  shows "sum_list (fold score_bin vs ns) = sum_list ns + length vs"
  using assms
proof (induction vs arbitrary: ns)
  case (Cons v vs)
  have "\<exists>(l, h, x)\<in>set SCORE_BINS. l \<le> v \<and> v < h"
    using chained_takes [OF score_bins_chained, of v] Cons.prems(1) by simp
  then have "True \<in> set (map (\<lambda>(lo, hi, l). lo \<le> v \<and> v < hi) SCORE_BINS)" by (fastforce simp: image_iff)
  then have "sum_list (score_bin v ns) = Suc (sum_list ns)"
    using sum_bump [of "map (\<lambda>(lo, hi, l). lo \<le> v \<and> v < hi) SCORE_BINS" ns] Cons.prems(2) by (simp add: score_bin_def)
  then show ?case using Cons.IH [of "score_bin v ns"] Cons.prems by simp
qed simp

lemma sum_latency_hist: "length ns = length LATENCY_BINS \<Longrightarrow> sum_list (fold latency_bin vs ns) = sum_list ns + length vs"
proof (induction vs arbitrary: ns)
  case (Cons v vs)
  have "True \<in> set (map (\<lambda>(lt, l). num_less (Fin v) lt) LATENCY_BINS)" by (simp add: LATENCY_BINS_def)
  then have "sum_list (latency_bin v ns) = Suc (sum_list ns)"
    using sum_bump [of "map (\<lambda>(lt, l). num_less (Fin v) lt) LATENCY_BINS" ns] Cons.prems by (simp add: latency_bin_def)
  then show ?case using Cons.IH [of "latency_bin v ns"] Cons.prems by simp
qed simp

lemma sum_buckets: "length ls = length ns \<Longrightarrow> map bk_count (buckets ls ns) = ns"
  by (simp add: buckets_def list_eq_iff_nth_eq)

lemma length_fold_hists [simp]:
  "length (fold score_bin vs ns) = length ns" "length (fold latency_bin vs ns) = length ns"
  by (induction vs arbitrary: ns) simp_all

lemma top_end: "1 < const (101/100)"
proof -
  have "pow2 (-1022) \<le> (101/100 :: rat)" by (simp add: pow2_def)
  then have "\<bar>rnd (101/100) - 101/100\<bar> \<le> (101/100) / 2 ^ 53" by (rule rnd_error) simp
  moreover have "(101/100 :: rat) / 2 ^ 53 < 1/100" by simp
  ultimately show ?thesis unfolding const_def by linarith
qed

lemma at_least_mono: "at_least (5/10) m \<Longrightarrow> at_least (3/10) m"
proof -
  have "const (3/10) \<le> const (5/10)" unfolding const_def by (rule rnd_mono) simp_all
  moreover assume "at_least (5/10) m"
  ultimately show ?thesis by (auto simp: at_least_def split: option.splits)
qed

lemma length_top_scores: "length (top_scores ms) + length (filter (\<lambda>m. top_score m = None) ms) = length ms"
  by (induction ms) (auto split: option.split)

text \<open>
  The figures of the insights page add up. The strong hits are hits, no hit is counted as empty, every
  match is in exactly one bar of the latencies, and, when the best scores lie between 0 and 1, every match that has
  candidates is in exactly one bar of the scores.
\<close>

theorem insights_add_up:
  "let d = computeAll z ms; s = is_summary d in
     sm_total s = length ms \<and> sm_strong s \<le> sm_hits s \<and> sm_hits s + sm_empty s \<le> sm_total s \<and>
     sum_list (map bk_count (is_latencyHist d)) = sm_total s \<and>
     ((\<forall>m\<in>set ms. \<forall>v. top_score m = Some v \<longrightarrow> 0 \<le> v \<and> v \<le> 1) \<longrightarrow>
        sum_list (map bk_count (is_scoreHist d)) + sm_empty s = sm_total s)"
proof -
  let ?a = "insights_pass z ms"
  note fields = pass_fields [of z ms insights_init, folded insights_pass_def]
  have empty: "ia_empty ?a = length (filter (\<lambda>m. top_score m = None) ms)" by (simp add: fields insights_init_def)
  have strong: "ia_strong ?a \<le> ia_hits ?a"
    using length_filter_mono [of "at_least (5/10)" "at_least (3/10)" ms, OF at_least_mono] by (simp add: fields insights_init_def)
  have hits: "ia_hits ?a + ia_empty ?a \<le> length ms"
    using length_filter_disjoint [of "at_least (3/10)" "\<lambda>m. top_score m = None" ms]
    by (auto simp: fields insights_init_def at_least_def split: option.splits)
  have lat: "sum_list (map bk_count (is_latencyHist (computeAll z ms))) = length ms"
    using sum_latency_hist [of "map (\<lambda>_. 0) LATENCY_BINS" "map m_elapsed_ms ms"]
    by (simp add: computeAll_def Let_def sum_buckets fields insights_init_def)
  have score: "sum_list (map bk_count (is_scoreHist (computeAll z ms))) + ia_empty ?a = length ms"
    if "\<forall>m\<in>set ms. \<forall>v. top_score m = Some v \<longrightarrow> 0 \<le> v \<and> v \<le> 1"
  proof -
    have "\<forall>v\<in>set (top_scores ms). 0 \<le> v \<and> v \<le> 1" using that by (induction ms) (auto split: option.splits)
    then have "\<forall>v\<in>set (top_scores ms). 0 \<le> v \<and> v < const (101/100)" using top_end by fastforce
    from sum_score_hist [OF this, of "map (\<lambda>_. 0) SCORE_BINS"] show ?thesis
      using length_top_scores [of ms] by (simp add: computeAll_def Let_def sum_buckets fields insights_init_def)
  qed
  show ?thesis
    using strong hits lat score by (simp add: computeAll_def insights_summary_def Let_def)
qed

section \<open>Maps that are filled entry by entry\<close>

lemma map_of_get_or_set: "map_of (get_or_set k f m) k' = (if k' = k then Some (f (map_of m k)) else map_of m k')"
  by (simp add: get_or_set_def update_conv)

lemma distinct_get_or_set: "distinct (map fst m) \<Longrightarrow> distinct (map fst (get_or_set k f m))"
  by (simp add: get_or_set_def distinct_update)

text \<open>The entry of one key is that of the values with this key, in their order.\<close>

definition entry_step :: "('a \<Rightarrow> 'k) \<Rightarrow> ('a \<Rightarrow> 'v option \<Rightarrow> 'v) \<Rightarrow> 'a \<Rightarrow> ('k \<times> 'v) list \<Rightarrow> ('k \<times> 'v) list" where
  "entry_step key f x = get_or_set (key x) (f x)"

lemma entry_fold:
  "map_of (fold (entry_step key f) xs m) k = fold (\<lambda>x e. Some (f x e)) (filter (\<lambda>x. key x = k) xs) (map_of m k)"
  by (induction xs arbitrary: m) (simp_all add: entry_step_def map_of_get_or_set)

lemma entry_distinct: "distinct (map fst m) \<Longrightarrow> distinct (map fst (fold (entry_step key f) xs m))"
  by (induction xs arbitrary: m) (simp_all add: entry_step_def distinct_get_or_set)

lemma entry_some: "fold (\<lambda>x e. Some (f x e)) xs e = None \<longleftrightarrow> xs = [] \<and> e = None"
  by (induction xs arbitrary: e) simp_all

lemma entry_keys: "fst ` set (fold (entry_step key f) xs []) = key ` set xs"
proof -
  have "k \<in> fst ` set (fold (entry_step key f) xs []) \<longleftrightarrow> k \<in> key ` set xs" for k
  proof -
    have "k \<notin> fst ` set (fold (entry_step key f) xs []) \<longleftrightarrow> map_of (fold (entry_step key f) xs []) k = None"
      by (simp add: map_of_eq_None_iff)
    also have "\<dots> \<longleftrightarrow> filter (\<lambda>x. key x = k) xs = []" by (simp add: entry_fold entry_some)
    also have "\<dots> \<longleftrightarrow> k \<notin> key ` set xs" by (auto simp: filter_empty_conv)
    finally show ?thesis by blast
  qed
  then show ?thesis by blast
qed

section \<open>The tracks\<close>

lemma track_seen_entry: "track_seen = entry_step r_track_id (\<lambda>r prev. case prev of None \<Rightarrow> new_top r | Some e \<Rightarrow> seen_top r e)"
  by (simp add: track_seen_def entry_step_def fun_eq_iff)

text \<open>The entry that a list of results of one track leaves.\<close>

definition entry_of :: "string \<Rightarrow> MatchResult list \<Rightarrow> track_entry \<Rightarrow> bool" where
  "entry_of k rs e \<longleftrightarrow>
     rs \<noteq> [] \<and> tt_track_id (fst e) = k \<and> tt_seen (fst e) = length rs \<and> tt_best_score (fst e) = Max (r_score ` set rs) \<and>
     snd e = map r_score rs"

lemma entry_of_new: "entry_of (r_track_id r) [r] (new_top r)"
  by (simp add: entry_of_def new_top_def)

lemma entry_of_seen: "entry_of k rs e \<Longrightarrow> entry_of k (rs @ [r]) (seen_top r e)"
proof (cases e)
  case (Pair t scores)
  assume e: "entry_of k rs e"
  then have "Max (insert (r_score r) (r_score ` set rs)) = max (r_score r) (Max (r_score ` set rs))"
    by (intro Max_insert) (auto simp: entry_of_def)
  then have "Max (r_score ` set (rs @ [r])) = max (r_score r) (tt_best_score t)" using e by (simp add: entry_of_def Pair)
  also have "\<dots> = (if tt_best_score t < r_score r then r_score r else tt_best_score t)" by auto
  finally show ?thesis using e by (simp add: Pair entry_of_def seen_top_def Let_def)
qed

lemma track_entries:
  assumes "\<forall>r\<in>set rs. r_track_id r = k" and "rs \<noteq> []"
  shows "\<exists>e. fold (\<lambda>r e. Some (case e of None \<Rightarrow> new_top r | Some e \<Rightarrow> seen_top r e)) rs None = Some e \<and> entry_of k rs e"
  using assms
proof (induction rs rule: rev_induct)
  case (snoc r rs)
  show ?case
  proof (cases "rs = []")
    case True
    then show ?thesis using entry_of_new [of r] snoc.prems(1) by simp
  next
    case False
    then obtain e where e: "fold (\<lambda>r e. Some (case e of None \<Rightarrow> new_top r | Some e \<Rightarrow> seen_top r e)) rs None = Some e" "entry_of k rs e"
      using snoc.IH snoc.prems(1) by auto
    then show ?thesis using entry_of_seen [OF e(2), of r] by simp
  qed
qed simp

definition results_of :: "StoredMatch list \<Rightarrow> string \<Rightarrow> MatchResult list" where
  "results_of ms k = filter (\<lambda>r. r_track_id r = k) (concat (map m_results ms))"

lemma tracks_map:
  assumes "(k, e) \<in> set (ia_tracks (insights_pass z ms))"
  shows "entry_of k (results_of ms k) e"
proof -
  let ?m = "fold track_seen (concat (map m_results ms)) []"
  have tracks: "ia_tracks (insights_pass z ms) = ?m" by (simp add: insights_pass_def pass_fields insights_init_def)
  have "distinct (map fst ?m)" unfolding track_seen_entry by (rule entry_distinct) simp
  then have e: "map_of ?m k = Some e" using assms tracks by (simp add: map_of_is_SomeI)
  have "map_of ?m k = fold (\<lambda>r e. Some (case e of None \<Rightarrow> new_top r | Some e \<Rightarrow> seen_top r e)) (results_of ms k) None"
    unfolding track_seen_entry entry_fold results_of_def by simp
  moreover have "results_of ms k \<noteq> []"
  proof
    assume "results_of ms k = []"
    then show False using calculation e by simp
  qed
  ultimately show ?thesis using track_entries [of "results_of ms k" k] e by (auto simp: results_of_def)
qed

interpretation track_cmp: js_comparator track_cmp
proof unfold_locales
  fix x y z
  show "track_cmp y x \<le> 0 \<longleftrightarrow> 0 \<le> track_cmp x y" by (auto simp: track_cmp_def cmp_or_def by_key_desc_def)
  assume "track_cmp x y \<le> 0" "track_cmp y z \<le> 0"
  then show "track_cmp x z \<le> 0" by (auto simp: track_cmp_def cmp_or_def by_key_desc_def split: if_splits)
qed

text \<open>
  C30. The list of tracks of the insights page is that of the results. It names every track that is among the
  results of the stored matches exactly once; a track's count is the number of its results, its best score
  their greatest, and its mean their mean; and the tracks come in the order of their counts and, for equal counts, of their
  best scores, the greatest first.
\<close>

theorem insights_tracks:
  "let ts = is_tracks (computeAll z ms) in
     distinct (map tt_track_id ts) \<and>
     set (map tt_track_id ts) = r_track_id ` set (concat (map m_results ms)) \<and>
     (\<forall>t\<in>set ts. tt_seen t = length (results_of ms (tt_track_id t)) \<and>
        tt_best_score t = Max (r_score ` set (results_of ms (tt_track_id t))) \<and>
        tt_mean_score t = mean_of (map r_score (results_of ms (tt_track_id t)))) \<and>
     sorted_wrt (\<lambda>a b. tt_seen b < tt_seen a \<or> tt_seen a = tt_seen b \<and> tt_best_score b \<le> tt_best_score a) ts"
proof -
  let ?m = "ia_tracks (insights_pass z ms)"
  let ?l = "map (\<lambda>(k, e). finish_track e) ?m"
  have tracks: "?m = fold track_seen (concat (map m_results ms)) []" by (simp add: insights_pass_def pass_fields insights_init_def)
  have ids: "map tt_track_id ?l = map fst ?m"
    using tracks_map by (fastforce simp: finish_track_def entry_of_def)
  have dist: "distinct (map fst ?m)" unfolding tracks track_seen_entry by (rule entry_distinct) simp
  have keys: "fst ` set ?m = r_track_id ` set (concat (map m_results ms))" unfolding tracks track_seen_entry by (rule entry_keys)
  have entry: "tt_seen t = length (results_of ms (tt_track_id t)) \<and> tt_best_score t = Max (r_score ` set (results_of ms (tt_track_id t))) \<and>
      tt_mean_score t = mean_of (map r_score (results_of ms (tt_track_id t)))" if "t \<in> set ?l" for t
    using that tracks_map by (fastforce simp: finish_track_def entry_of_def)
  have ts: "is_tracks (computeAll z ms) = js_sort track_cmp ?l" by (simp add: computeAll_def top_tracks_def Let_def)
  have "mset (map tt_track_id (js_sort track_cmp ?l)) = mset (map tt_track_id ?l)" by (simp only: mset_map mset_js_sort)
  then have "mset (map tt_track_id (js_sort track_cmp ?l)) = mset (map fst ?m)" unfolding ids .
  then have d: "distinct (map tt_track_id (js_sort track_cmp ?l))" and s: "set (map tt_track_id (js_sort track_cmp ?l)) = fst ` set ?m"
    using dist by (metis mset_eq_imp_distinct_iff, metis list.set_map mset_eq_setD)
  have "sorted_wrt (\<lambda>a b. track_cmp a b \<le> 0) (js_sort track_cmp ?l)" by (rule track_cmp.sort_sorted)
  then have o: "sorted_wrt (\<lambda>a b. tt_seen b < tt_seen a \<or> tt_seen a = tt_seen b \<and> tt_best_score b \<le> tt_best_score a) (js_sort track_cmp ?l)"
    by (rule sorted_wrt_mono_rel [rotated]) (auto simp: track_cmp_def cmp_or_def by_key_desc_def split: if_splits)
  show ?thesis unfolding ts Let_def using d s keys entry o by simp
qed

text \<open>Two matches of three results.\<close>

definition sample_result :: "string \<Rightarrow> rat \<Rightarrow> MatchResult" where
  "sample_result i v =
     \<lparr>r_track_id = i, r_title = ''t'', r_artist = [], r_album = None, r_score = v, r_segment_index = 0, r_preview_url = None,
      r_artwork_url = None, r_source = ''s'', r_tempo_bpm = None\<rparr>"

definition sample_match :: "rat \<Rightarrow> MatchResult list \<Rightarrow> StoredMatch" where
  "sample_match t rs =
     \<lparr>m_query_id = ''q'', m_ts = t, m_elapsed_ms = 150, m_count = int (length rs), m_filename = None, m_duration_sec = None,
      m_name = None, m_tags = None, m_query_waveform = None, m_query_pitch = None, m_results = rs\<rparr>"

definition sample_matches :: "StoredMatch list" where
  "sample_matches =
     [sample_match 0 [sample_result ''a'' (1/2), sample_result ''b'' (1/4)], sample_match 200000000 [sample_result ''a'' 1]]"

definition fixed_zone :: "int \<Rightarrow> zone" where
  "fixed_zone off = \<lparr>zn_utc = \<lambda>_. off, zn_local = \<lambda>_. off\<rparr>"

theorem insights_add_up_witness:
  "sum_list (map bk_count (is_scoreHist (computeAll (fixed_zone 0) sample_matches))) + sm_empty (is_summary (computeAll (fixed_zone 0) sample_matches)) = 2"
  using insights_add_up [of "fixed_zone 0" sample_matches]
  by (simp add: Let_def sample_matches_def sample_match_def sample_result_def top_score_def)

theorem insights_tracks_witness:
  "\<exists>t\<in>set (is_tracks (computeAll (fixed_zone 0) sample_matches)). tt_track_id t = ''a'' \<and> tt_seen t = 2 \<and> tt_best_score t = 1"
proof -
  have "''a'' \<in> set (map tt_track_id (is_tracks (computeAll (fixed_zone 0) sample_matches)))"
    using insights_tracks [of "fixed_zone 0" sample_matches]
    by (simp add: Let_def sample_matches_def sample_match_def sample_result_def)
  then obtain t where t: "t \<in> set (is_tracks (computeAll (fixed_zone 0) sample_matches))" "tt_track_id t = ''a''" by auto
  then have "tt_seen t = length (results_of sample_matches ''a'') \<and> tt_best_score t = Max (r_score ` set (results_of sample_matches ''a''))"
    using insights_tracks [of "fixed_zone 0" sample_matches] unfolding Let_def by metis
  then show ?thesis using t
    by (auto simp: results_of_def sample_matches_def sample_match_def sample_result_def intro!: bexI [of _ t])
qed

section \<open>The days\<close>

text \<open>A day by its number, and its name.\<close>

definition day_name :: "int \<Rightarrow> string" where
  "day_name n =
     (let f = utc_fields (n * MS_PER_DAY) in int_to_string (d_year f) @ ''-'' @ pad2 (d_month f + 1) @ ''-'' @ pad2 (d_day f))"

lemma int_to_string_inject: "int_to_string i = int_to_string j \<longleftrightarrow> i = j"
proof
  have d: "CHR ''-'' \<notin> set (nat_digits n)" for n using nat_digits_are_digits [of "CHR ''-''" n] by (auto simp: is_digit_def)
  assume "int_to_string i = int_to_string j"
  then show "i = j" using d [of "nat i"] d [of "nat j"] by (auto simp: int_to_string_def split: if_splits) (metis list.set_intros(1))+
qed simp

lemma day_fields: "d_year (utc_fields t) = d_year (utc_fields (t div MS_PER_DAY * MS_PER_DAY)) \<and>
   d_month (utc_fields t) = d_month (utc_fields (t div MS_PER_DAY * MS_PER_DAY)) \<and>
   d_day (utc_fields t) = d_day (utc_fields (t div MS_PER_DAY * MS_PER_DAY))"
proof -
  have "t div MS_PER_DAY * MS_PER_DAY div MS_PER_DAY = t div MS_PER_DAY" by (simp add: MS_PER_DAY_def)
  then show ?thesis by (simp add: utc_fields_def Let_def split: prod.split)
qed

lemma day_name_inject: "day_name m = day_name n \<longleftrightarrow> m = n"
proof
  let ?f = "utc_fields (m * MS_PER_DAY)" and ?g = "utc_fields (n * MS_PER_DAY)"
  note range = utc_fields_correct [of "m * MS_PER_DAY"] utc_fields_correct [of "n * MS_PER_DAY"]
  assume "day_name m = day_name n"
  then have "d_year ?f = d_year ?g" "d_month ?f = d_month ?g" "d_day ?f = d_day ?g"
    using range by (auto simp: day_name_def Let_def int_to_string_inject pad2_inject)
  moreover have h: "d_hour (utc_fields (k * MS_PER_DAY)) = 0" "d_minute (utc_fields (k * MS_PER_DAY)) = 0"
    "d_second (utc_fields (k * MS_PER_DAY)) = 0" "d_milli (utc_fields (k * MS_PER_DAY)) = 0" for k
    by (simp_all add: utc_fields_def Let_def split: prod.split)
  ultimately have "time_of_fields ?f = time_of_fields ?g" by (simp add: time_of_fields_def)
  then show "m = n" using range by (simp add: MS_PER_DAY_def)
qed simp

lemma dayKey_fixed: "dayKey (fixed_zone off) t = day_name ((t + off) div MS_PER_DAY)"
  using day_fields [of "t + off"] by (simp add: dayKey_def day_name_def local_fields_def fixed_zone_def Let_def)

lemma startOfDay_fixed: "startOfDay (fixed_zone off) t = (t + off) div MS_PER_DAY * MS_PER_DAY - off"
  by (simp add: startOfDay_def fixed_zone_def)

definition day_number :: "int \<Rightarrow> StoredMatch \<Rightarrow> int" where
  "day_number off m = (match_time m + off) div MS_PER_DAY"

lemma day_seen_entry:
  "day_seen z = entry_step (\<lambda>m. dayKey z (match_time m))
     (\<lambda>m day. day_query m (case day of None \<Rightarrow> new_day z (match_time m) | Some d \<Rightarrow> d))"
  by (simp add: day_seen_def entry_step_def fun_eq_iff)

text \<open>The entry that the matches of one day leave.\<close>

lemma day_entries:
  assumes "ms \<noteq> []" and "\<forall>m\<in>set ms. startOfDay z (match_time m) = s"
  shows "\<exists>e. fold (\<lambda>m e. Some (day_query m (case e of None \<Rightarrow> new_day z (match_time m) | Some d \<Rightarrow> d))) ms None = Some e \<and>
     de_ts e = s \<and> de_queries e = length ms \<and> de_hits e = length (filter (at_least (3/10)) ms)"
  using assms
proof (induction ms rule: rev_induct)
  case (snoc m ms)
  show ?case
  proof (cases "ms = []")
    case False
    then obtain e where
      "fold (\<lambda>m e. Some (day_query m (case e of None \<Rightarrow> new_day z (match_time m) | Some d \<Rightarrow> d))) ms None = Some e"
      "de_ts e = s" "de_queries e = length ms" "de_hits e = length (filter (at_least (3/10)) ms)"
      using snoc.IH snoc.prems(2) by auto
    then show ?thesis by (simp add: day_query_def)
  qed (use snoc.prems in \<open>simp add: day_query_def new_day_def\<close>)
qed simp

definition on_day :: "int \<Rightarrow> StoredMatch list \<Rightarrow> int \<Rightarrow> StoredMatch list" where
  "on_day off ms n = filter (\<lambda>m. day_number off m = n) ms"

lemma days_map:
  "case map_of (ia_days (insights_pass (fixed_zone off) ms)) (day_name n) of
     None \<Rightarrow> on_day off ms n = []
   | Some e \<Rightarrow> on_day off ms n \<noteq> [] \<and> de_ts e = n * MS_PER_DAY - off \<and> de_queries e = length (on_day off ms n) \<and>
       de_hits e = length (filter (at_least (3/10)) (on_day off ms n))"
proof -
  let ?z = "fixed_zone off"
  have days: "ia_days (insights_pass ?z ms) = fold (day_seen ?z) ms []" by (simp add: insights_pass_def pass_fields insights_init_def)
  have m: "map_of (ia_days (insights_pass ?z ms)) (day_name n) =
      fold (\<lambda>m e. Some (day_query m (case e of None \<Rightarrow> new_day ?z (match_time m) | Some d \<Rightarrow> d))) (on_day off ms n) None"
    unfolding days day_seen_entry entry_fold by (simp add: dayKey_fixed day_name_inject on_day_def day_number_def)
  show ?thesis
  proof (cases "on_day off ms n = []")
    case False
    have "\<forall>m\<in>set (on_day off ms n). startOfDay ?z (match_time m) = n * MS_PER_DAY - off"
      by (simp add: on_day_def day_number_def startOfDay_fixed)
    from day_entries [OF False this] show ?thesis using False m by auto
  qed (simp add: m)
qed

lemma day_times_upto: "day_times (i * MS_PER_DAY - off) (j * MS_PER_DAY - off) = map (\<lambda>n. n * MS_PER_DAY - off) [i..j]"
proof (induction "nat (j - i + 1)" arbitrary: i)
  case 0
  then show ?case by (simp add: day_times.simps MS_PER_DAY_def)
next
  case (Suc k)
  then have "i \<le> j" "k = nat (j - (i + 1) + 1)" by simp_all
  then show ?case using Suc.hyps(1) [of "i + 1"]
    by (subst day_times.simps) (simp add: upto_rec1 algebra_simps MS_PER_DAY_def)
qed

lemma day_point_fixed:
  fixes off ms n
  defines "p \<equiv> day_point (fixed_zone off) (ia_days (insights_pass (fixed_zone off) ms)) (n * MS_PER_DAY - off)"
  shows "dp_ts p = n * MS_PER_DAY - off \<and> dp_queries p = length (on_day off ms n) \<and>
     dp_hits p = length (filter (at_least (3/10)) (on_day off ms n))"
proof -
  have "dayKey (fixed_zone off) (n * MS_PER_DAY - off) = day_name n" by (simp add: dayKey_fixed MS_PER_DAY_def)
  then show ?thesis using days_map [of off ms n] by (auto simp: p_def day_point_def Let_def split: option.splits)
qed

lemma count_range: "(\<And>m. m \<in> set ms \<Longrightarrow> i \<le> f m \<and> f m \<le> (j :: int)) \<Longrightarrow> (\<Sum>n\<leftarrow>[i..j]. length (filter (\<lambda>m. f m = n) ms)) = length ms"
proof (induction ms)
  case (Cons m ms)
  have "(\<Sum>n\<leftarrow>[i..j]. if f m = n then 1 else 0 :: nat) = sum (\<lambda>n. if f m = n then 1 else 0) {i..j}"
    by (simp add: interv_sum_list_conv_sum_set_int)
  also have "\<dots> = 1" using Cons.prems [of m] by simp
  finally have one: "(\<Sum>n\<leftarrow>[i..j]. if f m = n then 1 else 0 :: nat) = 1" .
  have "(\<Sum>n\<leftarrow>[i..j]. length (filter (\<lambda>m. f m = n) (m # ms))) =
      (\<Sum>n\<leftarrow>[i..j]. (if f m = n then 1 else 0) + length (filter (\<lambda>m. f m = n) ms))"
    by (rule arg_cong [where f = sum_list]) simp
  also have "\<dots> = Suc (length ms)" using Cons by (simp add: sum_list_addf one)
  finally show ?case by simp
qed simp

lemma sorted_wrt_last: "sorted_wrt (\<lambda>a b. f a \<le> (f b :: 'b :: order)) xs \<Longrightarrow> x \<in> set xs \<Longrightarrow> f x \<le> f (last xs)"
  by (induction xs) auto

text \<open>
  C29. The chart of the days loses nothing where the offset of the time zone does not change. Its points are one day apart,
  and their queries and hits are those of the summary.
\<close>

theorem insights_days:
  "let d = computeAll (fixed_zone off) ms; ps = is_dayPoints d in
     (\<exists>t0. map dp_ts ps = map (\<lambda>i. t0 + int i * MS_PER_DAY) [0..<length ps]) \<and>
     sum_list (map dp_queries ps) = sm_total (is_summary d) \<and> sum_list (map dp_hits ps) = sm_hits (is_summary d)"
proof -
  let ?a = "insights_pass (fixed_zone off) ms"
  have days: "ia_days ?a = fold (day_seen (fixed_zone off)) ms []" by (simp add: insights_pass_def pass_fields insights_init_def)
  have keys: "fst ` set (ia_days ?a) = (\<lambda>m. day_name (day_number off m)) ` set ms"
    unfolding days day_seen_entry entry_keys by (simp add: dayKey_fixed day_number_def)
  have dist: "distinct (map fst (ia_days ?a))" unfolding days day_seen_entry by (rule entry_distinct) simp
  have entry: "de_ts e = n * MS_PER_DAY - off" if "(day_name n, e) \<in> set (ia_days ?a)" for n e
    using days_map [of off ms n] map_of_is_SomeI [OF dist that] by simp
  have ts: "de_ts ` snd ` set (ia_days ?a) = (\<lambda>m. day_number off m * MS_PER_DAY - off) ` set ms"
  proof (intro equalityI subsetI)
    fix t assume "t \<in> de_ts ` snd ` set (ia_days ?a)"
    then obtain k e where e: "(k, e) \<in> set (ia_days ?a)" "t = de_ts e" by auto
    then have "k \<in> (\<lambda>m. day_name (day_number off m)) ` set ms" using keys by force
    then show "t \<in> (\<lambda>m. day_number off m * MS_PER_DAY - off) ` set ms" using e entry by auto
  next
    fix t assume "t \<in> (\<lambda>m. day_number off m * MS_PER_DAY - off) ` set ms"
    then obtain m where m: "m \<in> set ms" "t = day_number off m * MS_PER_DAY - off" by auto
    then have "day_name (day_number off m) \<in> fst ` set (ia_days ?a)" using keys by simp
    then obtain e where "(day_name (day_number off m), e) \<in> set (ia_days ?a)" by auto
    then show "t \<in> de_ts ` snd ` set (ia_days ?a)" using entry m(2) by force
  qed
  have hits: "ia_hits ?a = length (filter (at_least (3/10)) ms)" by (simp add: insights_pass_def pass_fields insights_init_def)
  show ?thesis
  proof (cases "sorted_days ?a")
    case Nil
    then have "ms = []" using keys by (simp add: sorted_days_def)
    then show ?thesis using Nil hits by (simp add: computeAll_def insights_summary_def Let_def day_points_def)
  next
    case (Cons e es)
    let ?es = "e # es"
    have sorted: "sorted_wrt (\<lambda>a b. de_ts a \<le> de_ts b) ?es"
      using by_key.sort_sorted [of "\<lambda>d. of_int (de_ts d)" "map snd (ia_days ?a)"] by (simp add: Cons [symmetric] sorted_days_def by_key_def)
    have ts: "de_ts ` set ?es = (\<lambda>m. day_number off m * MS_PER_DAY - off) ` set ms"
      using ts by (simp add: Cons [symmetric] sorted_days_def del: list.set(2))
    obtain i where i: "de_ts e = i * MS_PER_DAY - off" using ts by auto
    have "de_ts (last ?es) \<in> de_ts ` set ?es" by (rule imageI) simp
    then obtain j where j: "de_ts (last ?es) = j * MS_PER_DAY - off" unfolding ts by auto
    have range: "i \<le> day_number off m \<and> day_number off m \<le> j" if "m \<in> set ms" for m
    proof -
      have "day_number off m * MS_PER_DAY - off \<in> de_ts ` set ?es" unfolding ts using that by (rule imageI)
      then obtain d where d: "d \<in> set ?es" "de_ts d = day_number off m * MS_PER_DAY - off" by (metis imageE)
      have "de_ts d \<le> de_ts (last ?es)" by (rule sorted_wrt_last [OF sorted d(1)])
      moreover have "de_ts e \<le> de_ts d" using sorted d(1) by auto
      ultimately have "i * MS_PER_DAY \<le> day_number off m * MS_PER_DAY" "day_number off m * MS_PER_DAY \<le> j * MS_PER_DAY"
        unfolding d(2) i j by linarith+
      then show ?thesis by (simp add: MS_PER_DAY_def)
    qed
    have points: "is_dayPoints (computeAll (fixed_zone off) ms) =
        map (\<lambda>n. day_point (fixed_zone off) (ia_days ?a) (n * MS_PER_DAY - off)) [i..j]"
      using i j by (simp add: computeAll_def Let_def day_points_def Cons day_times_upto o_def)
    have q: "(\<Sum>n\<leftarrow>[i..j]. length (on_day off ms n)) = length ms"
      unfolding on_day_def by (rule count_range) (rule range)
    have h: "(\<Sum>n\<leftarrow>[i..j]. length (filter (at_least (3/10)) (on_day off ms n))) = length (filter (at_least (3/10)) ms)"
      unfolding on_day_def filter_filter
      using count_range [of "filter (at_least (3/10)) ms" i "day_number off" j] range by (simp add: conj_commute)
    have "map dp_ts (is_dayPoints (computeAll (fixed_zone off) ms)) = map (\<lambda>k. (i * MS_PER_DAY - off) + int k * MS_PER_DAY) [0..<length [i..j]]"
      unfolding points by (simp add: o_def day_point_fixed list_eq_iff_nth_eq algebra_simps)
    then have "\<exists>t0. map dp_ts (is_dayPoints (computeAll (fixed_zone off) ms)) =
        map (\<lambda>k. t0 + int k * MS_PER_DAY) [0..<length (is_dayPoints (computeAll (fixed_zone off) ms))]"
      unfolding points by auto
    moreover have "sum_list (map dp_queries (is_dayPoints (computeAll (fixed_zone off) ms))) = length ms"
      "sum_list (map dp_hits (is_dayPoints (computeAll (fixed_zone off) ms))) = length (filter (at_least (3/10)) ms)"
      using q h unfolding points by (simp_all add: o_def day_point_fixed)
    moreover have "sm_total (is_summary (computeAll (fixed_zone off) ms)) = length ms"
      "sm_hits (is_summary (computeAll (fixed_zone off) ms)) = length (filter (at_least (3/10)) ms)"
      using hits by (simp_all add: computeAll_def insights_summary_def Let_def)
    ultimately show ?thesis unfolding Let_def by simp
  qed
qed

definition spring_zone :: zone where
  "spring_zone =
     \<lparr>zn_utc = \<lambda>t. if t < 7200000 then 0 else 3600000, zn_local = \<lambda>t. if t < 7200000 then 0 else 3600000\<rparr>"

lemma spring_day_lost:
  "let d = computeAll spring_zone [sample_match 1000 [], sample_match 100000000 []] in
     sm_total (is_summary d) = 2 \<and> map dp_queries (is_dayPoints d) = [1]"
proof -
  let ?ms = "[sample_match 1000 [], sample_match 100000000 []]"
  let ?a = "insights_pass spring_zone ?ms"
  have days: "ia_days ?a = fold (day_seen spring_zone) ?ms []" unfolding insights_pass_def pass_fields by (simp add: insights_init_def)
  have "map (\<lambda>(k, e). (k, de_ts e, de_queries e)) (fold (day_seen spring_zone) ?ms []) = [(''1970-01-01'', 0, 1), (''1970-01-02'', 82800000, 1)]"
    by code_simp
  then obtain e e' where e: "ia_days ?a = [(''1970-01-01'', e), (''1970-01-02'', e')]" "de_ts e = 0" "de_queries e = 1" "de_ts e' = 82800000"
    unfolding days by auto
  have "sorted_days ?a = [e, e']" using e by (simp add: sorted_days_def by_key_def)
  moreover have "day_times 0 82800000 = [0]" by (simp add: day_times.simps MS_PER_DAY_def)
  moreover have "dayKey spring_zone 0 = ''1970-01-01''" by code_simp
  ultimately show ?thesis
    using e by (simp add: computeAll_def Let_def day_points_def day_point_def insights_summary_def)
qed

end
