(* ===== verification/CollectionsPage.thy ===== *)
theory CollectionsPage
  imports Requests OEmbed Dates
begin

text \<open>
  \<open>web/app/collections/page.tsx\<close>: the collections of a workspace and the editor that makes them. An item is taken
  from the cloud history, renamed, moved and removed in the editor; the editor is saved whole, as a new collection or over
  the one it was loaded from. The answer of \<open>confirm\<close>, the clipboard and the timers are steps.
\<close>

section \<open>Data\<close>

record CollectionSummary =
  cs_id :: string
  cs_created_at :: rat
  cs_updated_at :: rat
  cs_title :: string
  cs_note :: "string option"
  cs_item_count :: rat
  cs_url_path :: string

record CollectionMatch =
  cm_track_id :: string
  cm_title :: string
  cm_artist :: "string option"
  cm_album :: "string option"
  cm_score :: rat
  cm_segment_index :: "rat option"

text \<open>Of a field that may be absent or \<open>null\<close>, the outer option says whether it is present.\<close>

record CollectionItem =
  ci_label :: string
  ci_results :: "CollectionMatch list"
  ci_query_id :: "string option option"
  ci_elapsed_ms :: "rat option"
  ci_filename :: "string option option"
  ci_duration_sec :: "rat option option"

record CollectionDetail =
  cd_id :: string
  cd_created_at :: rat
  cd_updated_at :: rat
  cd_title :: string
  cd_note :: "string option"
  cd_items :: "CollectionItem list"

record PickItem =
  pi_id :: string
  pi_created_at :: rat
  pi_query_id :: string
  pi_elapsed_ms :: rat
  pi_count :: rat
  pi_results :: "CollectionMatch list"
  pi_filename :: "string option"
  pi_duration_sec :: "rat option"
  pi_name :: "string option"
  pi_tags :: "string list"
  pi_starred :: bool

definition MAX_ITEMS :: nat where
  "MAX_ITEMS = 50"

definition MAX_TITLE :: nat where
  "MAX_TITLE = 80"

definition MAX_NOTE :: nat where
  "MAX_NOTE = 280"

text \<open>\<open>fmtRel\<close>; \<open>now\<close> is in milliseconds.\<close>

definition collection_ago :: "rat \<Rightarrow> rat \<Rightarrow> string" where
  "collection_ago now epochSec =
     (let ms = now - epochSec * 1000 in
      if epochSec = 0 then []
      else if ms < 60000 then int_to_string (math_round (ms / 1000)) @ ''s ago''
      else if ms < 3600000 then int_to_string (math_round (ms / 60000)) @ ''m ago''
      else if ms < 86400000 then int_to_string (math_round (ms / 3600000)) @ ''h ago''
      else int_to_string (math_round (ms / 86400000)) @ ''d ago'')"

definition historyToItem :: "PickItem \<Rightarrow> CollectionItem" where
  "historyToItem h =
     \<lparr>ci_label = or_str (nullish (pi_name h) []) (or_str (nullish (pi_filename h) []) (or_str (pi_query_id h) ''untitled'')),
      ci_results = take 5 (pi_results h), ci_query_id = Some (Some (pi_query_id h)), ci_elapsed_ms = Some (pi_elapsed_ms h),
      ci_filename = Some (pi_filename h), ci_duration_sec = Some (pi_duration_sec h)\<rparr>"

section \<open>What is sent\<close>

text \<open>A field of the text that \<open>JSON.stringify\<close> makes; an absent one leaves none.\<close>

definition json_or_null :: "('a \<Rightarrow> json) \<Rightarrow> 'a option \<Rightarrow> json" where
  "json_or_null f v = (case v of None \<Rightarrow> JNull | Some x \<Rightarrow> f x)"

definition json_field :: "string \<Rightarrow> ('a \<Rightarrow> json) \<Rightarrow> 'a option \<Rightarrow> (string \<times> json) list" where
  "json_field k f v = (case v of None \<Rightarrow> [] | Some x \<Rightarrow> [(k, f x)])"

definition match_json :: "CollectionMatch \<Rightarrow> json" where
  "match_json m =
     JObj ([(''track_id'', JStr (cm_track_id m)), (''title'', JStr (cm_title m))] @ json_field ''artist'' JStr (cm_artist m)
       @ json_field ''album'' JStr (cm_album m) @ [(''score'', JNum (Fin (cm_score m)))]
       @ json_field ''segment_index'' (\<lambda>v. JNum (Fin v)) (cm_segment_index m))"

definition item_json :: "CollectionItem \<Rightarrow> json" where
  "item_json i =
     JObj ([(''label'', JStr (ci_label i)), (''results'', JArr (map match_json (ci_results i)))]
       @ json_field ''query_id'' (json_or_null JStr) (ci_query_id i)
       @ json_field ''elapsed_ms'' (\<lambda>v. JNum (Fin v)) (ci_elapsed_ms i)
       @ json_field ''filename'' (json_or_null JStr) (ci_filename i)
       @ json_field ''duration_sec'' (json_or_null (\<lambda>v. JNum (Fin v))) (ci_duration_sec i))"

text \<open>\<open>note.trim() || null\<close>\<close>

definition note_json :: "string \<Rightarrow> json" where
  "note_json note = (if trim note = [] then JNull else JStr (trim note))"

definition collection_body :: "string \<Rightarrow> string \<Rightarrow> CollectionItem list \<Rightarrow> json" where
  "collection_body title note items =
     JObj [(''title'', JStr (trim title)), (''note'', note_json note), (''items'', JArr (map item_json items))]"

section \<open>State\<close>

text \<open>
  The list is loaded by itself, at the end of a save or at the end of a deletion, which await it. A save and a deletion
  keep the collection that was being edited when they began.
\<close>

datatype coll_after = Alone | AfterSave | AfterRemove

datatype coll_task =
  CoList coll_after | CoHistory | CoDetail string | CoSave "string option" | CoRemove string "string option"
| CoCopy string | CoTimer string

record collections_page =
  co_stored :: string
  co_key :: string
  co_list :: "CollectionSummary list option"
  co_listLoading :: bool
  co_listErr :: "string option"
  co_editingId :: "string option"
  co_title :: string
  co_note :: string
  co_items :: "CollectionItem list"
  co_saving :: bool
  co_saveErr :: "string option"
  co_copiedId :: "string option"
  co_busyId :: "string option"
  co_history :: "PickItem list option"
  co_historyErr :: "string option"
  co_toasts :: "(bool \<times> string) list"
  co_tasks :: "coll_task list"
  co_sent :: "request list"

record coll_docs =
  docs_list :: "CollectionSummary list"
  docs_history :: "PickItem list"
  docs_detail :: CollectionDetail

text \<open>The call (or the reading of its body) threw, a refusal with its text, a document.\<close>

datatype coll_reply = CoBroke string | CoDenied nat string | CoGot coll_docs

definition coll_auth :: "collections_page \<Rightarrow> (string \<times> string) list" where
  "coll_auth s = (if co_stored s \<noteq> [] then [(''X-API-Key'', co_stored s)] else [])"

definition coll_send :: "coll_task \<Rightarrow> string \<Rightarrow> string \<Rightarrow> (string \<times> string) list \<Rightarrow> json option \<Rightarrow> collections_page \<Rightarrow> collections_page" where
  "coll_send t m path headers body s =
     s\<lparr>co_tasks := co_tasks s @ [t],
       co_sent := co_sent s @ [\<lparr>req_method = m, req_path = path, req_headers = headers, req_payload = body\<rparr>]\<rparr>"

definition coll_path :: "string \<Rightarrow> string" where
  "coll_path i = ''/api/collections/'' @ encodeURIComponent i"

definition coll_say :: "bool \<Rightarrow> string \<Rightarrow> collections_page \<Rightarrow> collections_page" where
  "coll_say ok m s = s\<lparr>co_toasts := co_toasts s @ [(ok, m)]\<rparr>"

section \<open>Loads\<close>

definition fetchList :: "coll_after \<Rightarrow> collections_page \<Rightarrow> collections_page" where
  "fetchList w s = coll_send (CoList w) ''GET'' ''/api/collections'' (coll_auth s) None (s\<lparr>co_listLoading := True, co_listErr := None\<rparr>)"

definition list_settle :: "coll_reply \<Rightarrow> collections_page \<Rightarrow> collections_page" where
  "list_settle a s =
     (let t = s\<lparr>co_listLoading := False\<rparr> in
      case a of
        CoBroke m \<Rightarrow> t\<lparr>co_listErr := Some m\<rparr>
      | CoDenied st body \<Rightarrow>
          t\<lparr>co_list := None,
            co_listErr := Some (if st = 401 then ''api key required. set one on the settings page.''
                                else or_str (take 240 body) (''request failed ('' @ nat_digits st @ '')''))\<rparr>
      | CoGot d \<Rightarrow> t\<lparr>co_list := Some (docs_list d)\<rparr>)"

text \<open>The \<open>finally\<close> of the function that awaits the list.\<close>

definition after_list :: "coll_after \<Rightarrow> collections_page \<Rightarrow> collections_page" where
  "after_list w s = (case w of Alone \<Rightarrow> s | AfterSave \<Rightarrow> s\<lparr>co_saving := False\<rparr> | AfterRemove \<Rightarrow> s\<lparr>co_busyId := None\<rparr>)"

definition fetchHistory :: "collections_page \<Rightarrow> collections_page" where
  "fetchHistory s = coll_send CoHistory ''GET'' ''/api/history?limit=30&sort=recent'' (coll_auth s) None (s\<lparr>co_historyErr := None\<rparr>)"

definition picks_settle :: "coll_reply \<Rightarrow> collections_page \<Rightarrow> collections_page" where
  "picks_settle a s =
     (case a of
        CoBroke m \<Rightarrow> s\<lparr>co_historyErr := Some m\<rparr>
      | CoDenied st body \<Rightarrow>
          if st = 401 then s\<lparr>co_historyErr := Some ''api key required to load history.'', co_history := None\<rparr>
          else s\<lparr>co_historyErr := Some (''history request failed ('' @ nat_digits st @ '')'')\<rparr>
      | CoGot d \<Rightarrow> s\<lparr>co_history := Some (docs_history d)\<rparr>)"

section \<open>The editor\<close>

definition resetEditor :: "collections_page \<Rightarrow> collections_page" where
  "resetEditor s = s\<lparr>co_editingId := None, co_title := [], co_note := [], co_items := [], co_saveErr := None\<rparr>"

definition loadForEdit :: "string \<Rightarrow> collections_page \<Rightarrow> collections_page" where
  "loadForEdit i s = coll_send (CoDetail i) ''GET'' (coll_path i) [] None (s\<lparr>co_saveErr := None\<rparr>)"

definition detail_settle :: "string \<Rightarrow> coll_reply \<Rightarrow> collections_page \<Rightarrow> collections_page" where
  "detail_settle i a s =
     (case a of
        CoBroke m \<Rightarrow> coll_say False m s
      | CoDenied st body \<Rightarrow> coll_say False (''could not load '' @ i) s
      | CoGot d \<Rightarrow>
          let c = docs_detail d in
          s\<lparr>co_editingId := Some (cd_id c), co_title := cd_title c, co_note := nullish (cd_note c) [], co_items := cd_items c\<rparr>)"

definition addFromHistory :: "PickItem \<Rightarrow> collections_page \<Rightarrow> collections_page" where
  "addFromHistory h s =
     (if MAX_ITEMS \<le> length (co_items s) then coll_say False (''max '' @ nat_digits MAX_ITEMS @ '' items per collection'') s
      else s\<lparr>co_items := co_items s @ [historyToItem h]\<rparr>)"

definition removeItem :: "nat \<Rightarrow> CollectionItem list \<Rightarrow> CollectionItem list" where
  "removeItem n = drop_nth n"

text \<open>The item at \<open>n\<close> changes places with the one before it or after it; out of range nothing happens.\<close>

definition moveItem :: "nat \<Rightarrow> bool \<Rightarrow> CollectionItem list \<Rightarrow> CollectionItem list" where
  "moveItem n up items =
     (if up then (if n = 0 then items else items[n := items ! (n - 1), n - 1 := items ! n])
      else if length items \<le> Suc n then items else items[n := items ! Suc n, Suc n := items ! n])"

definition renameItem :: "nat \<Rightarrow> string \<Rightarrow> CollectionItem list \<Rightarrow> CollectionItem list" where
  "renameItem n label items = items[n := (items ! n)\<lparr>ci_label := label\<rparr>]"

section \<open>Saving and deleting\<close>

definition save_error :: "collections_page \<Rightarrow> string option" where
  "save_error s =
     (if trim (co_title s) = [] then Some ''title is required''
      else if MAX_TITLE < length (trim (co_title s)) then Some (''title too long (max '' @ nat_digits MAX_TITLE @ '')'')
      else if MAX_NOTE < length (co_note s) then Some (''note too long (max '' @ nat_digits MAX_NOTE @ '')'')
      else if co_items s = [] then Some ''add at least one item from your history'' else None)"

definition editing_on :: "string option \<Rightarrow> bool" where
  "editing_on e \<longleftrightarrow> nullish e [] \<noteq> []"

definition save :: "collections_page \<Rightarrow> collections_page" where
  "save s =
     (case save_error s of
        Some m \<Rightarrow> s\<lparr>co_saveErr := Some m\<rparr>
      | None \<Rightarrow>
          let t = s\<lparr>co_saveErr := None, co_saving := True\<rparr>; e = co_editingId s in
          coll_send (CoSave e) (if editing_on e then ''PATCH'' else ''POST'')
            (if editing_on e then coll_path (the e) else ''/api/collections'')
            ((''Content-Type'', ''application/json'') # coll_auth s) (Some (collection_body (co_title s) (co_note s) (co_items s))) t)"

definition save_settle :: "string option \<Rightarrow> coll_reply \<Rightarrow> collections_page \<Rightarrow> collections_page" where
  "save_settle e a s =
     (case a of
        CoBroke m \<Rightarrow> s\<lparr>co_saveErr := Some m, co_saving := False\<rparr>
      | CoDenied st body \<Rightarrow>
          s\<lparr>co_saveErr := Some (if st = 401 then ''api key required. set one on the settings page.''
                               else or_str (take 240 body) (''request failed ('' @ nat_digits st @ '')'')),
            co_saving := False\<rparr>
      | CoGot d \<Rightarrow>
          fetchList AfterSave (resetEditor (coll_say True (if editing_on e then ''collection updated'' else ''collection created'') s)))"

definition remove :: "string \<Rightarrow> collections_page \<Rightarrow> collections_page" where
  "remove i s = coll_send (CoRemove i (co_editingId s)) ''DELETE'' (coll_path i) (coll_auth s) None (s\<lparr>co_busyId := Some i\<rparr>)"

text \<open>A call that throws is not caught; only the flag is lowered.\<close>

definition remove_settle :: "string \<Rightarrow> string option \<Rightarrow> coll_reply \<Rightarrow> collections_page \<Rightarrow> collections_page" where
  "remove_settle i e a s =
     (case a of
        CoBroke m \<Rightarrow> s\<lparr>co_busyId := None\<rparr>
      | CoDenied st body \<Rightarrow> coll_say False (''delete failed ('' @ nat_digits st @ '')'') (s\<lparr>co_busyId := None\<rparr>)
      | CoGot d \<Rightarrow>
          let t = coll_say True ''collection deleted'' s in fetchList AfterRemove (if e = Some i then resetEditor t else t))"

text \<open>The text of a link; \<open>origin\<close> is the page's.\<close>

definition collection_link :: "string \<Rightarrow> string \<Rightarrow> string" where
  "collection_link origin i = origin @ ''/c/'' @ i"

definition copyLink :: "string \<Rightarrow> collections_page \<Rightarrow> collections_page" where
  "copyLink i s = s\<lparr>co_tasks := co_tasks s @ [CoCopy i]\<rparr>"

definition copied :: "string \<Rightarrow> coll_reply \<Rightarrow> collections_page \<Rightarrow> collections_page" where
  "copied i a s =
     (case a of
        CoGot d \<Rightarrow> coll_say True ''link copied'' (s\<lparr>co_copiedId := Some i, co_tasks := co_tasks s @ [CoTimer i]\<rparr>)
      | _ \<Rightarrow> coll_say False ''could not copy'' s)"

definition copy_fades :: "string \<Rightarrow> collections_page \<Rightarrow> collections_page" where
  "copy_fades i s = (if co_copiedId s = Some i then s\<lparr>co_copiedId := None\<rparr> else s)"

definition coll_resume :: "coll_task \<Rightarrow> coll_reply \<Rightarrow> collections_page \<Rightarrow> collections_page" where
  "coll_resume t a s =
     (case t of
        CoList w \<Rightarrow> after_list w (list_settle a s)
      | CoHistory \<Rightarrow> picks_settle a s
      | CoDetail i \<Rightarrow> detail_settle i a s
      | CoSave e \<Rightarrow> save_settle e a s
      | CoRemove i e \<Rightarrow> remove_settle i e a s
      | CoCopy i \<Rightarrow> copied i a s
      | CoTimer i \<Rightarrow> copy_fades i s)"

definition coll_answer :: "nat \<Rightarrow> coll_reply \<Rightarrow> collections_page \<Rightarrow> collections_page" where
  "coll_answer i a s =
     (if i < length (co_tasks s) then coll_resume (co_tasks s ! i) a (s\<lparr>co_tasks := drop_nth i (co_tasks s)\<rparr>) else s)"

section \<open>Steps\<close>

text \<open>The rows on show; an error takes their place.\<close>

definition error_on :: "string option \<Rightarrow> bool" where
  "error_on e \<longleftrightarrow> nullish e [] \<noteq> []"

definition list_rows :: "collections_page \<Rightarrow> CollectionSummary list" where
  "list_rows s = (if error_on (co_listErr s) then [] else nullish (co_list s) [])"

definition pick_rows :: "collections_page \<Rightarrow> PickItem list" where
  "pick_rows s = (if error_on (co_historyErr s) then [] else nullish (co_history s) [])"

definition item_ids :: "CollectionItem list \<Rightarrow> string list" where
  "item_ids items = filter (\<lambda>i. i \<noteq> []) (map (\<lambda>it. case ci_query_id it of Some (Some i) \<Rightarrow> i | _ \<Rightarrow> []) items)"

definition usedHistoryIds :: "CollectionItem list \<Rightarrow> string list" where
  "usedHistoryIds items = jset_of (item_ids items)"

definition add_disabled :: "collections_page \<Rightarrow> PickItem \<Rightarrow> bool" where
  "add_disabled s h \<longleftrightarrow> pi_query_id h \<in> set (usedHistoryIds (co_items s)) \<or> MAX_ITEMS \<le> length (co_items s)"

text \<open>What a field with \<open>maxLength\<close> takes: a text within the limit, or a shorter one than it holds.\<close>

definition fits :: "nat \<Rightarrow> string \<Rightarrow> string \<Rightarrow> bool" where
  "fits n old v \<longleftrightarrow> length v \<le> n \<or> length v < length old"

datatype coll_op =
  CoKey string | CoRefresh | CoReload | CoEdit nat | CoReset | CoTitle string | CoNote string | CoAdd nat
| CoMove nat bool | CoDrop nat | CoLabel nat string | CoSubmit | CoDelete nat bool | CoLink nat | CoAnswer nat coll_reply

definition coll_loads :: "collections_page \<Rightarrow> collections_page" where
  "coll_loads s = fetchHistory (fetchList Alone s)"

definition new_key :: "collections_page \<Rightarrow> collections_page" where
  "new_key s = (if co_stored s = co_key s then s else coll_loads (s\<lparr>co_key := co_stored s\<rparr>))"

fun coll_step :: "coll_op \<Rightarrow> collections_page \<Rightarrow> collections_page" where
  "coll_step (CoKey k) s = new_key (s\<lparr>co_stored := k\<rparr>)"
| "coll_step CoRefresh s = fetchList Alone s"
| "coll_step CoReload s = fetchHistory s"
| "coll_step (CoEdit n) s = (if n < length (list_rows s) then loadForEdit (cs_id (list_rows s ! n)) s else s)"
| "coll_step CoReset s = (if co_editingId s = None then s else resetEditor s)"
| "coll_step (CoTitle v) s = (if fits MAX_TITLE (co_title s) v then s\<lparr>co_title := v\<rparr> else s)"
| "coll_step (CoNote v) s = (if fits MAX_NOTE (co_note s) v then s\<lparr>co_note := v\<rparr> else s)"
| "coll_step (CoAdd n) s =
     (if n < length (pick_rows s) \<and> \<not> add_disabled s (pick_rows s ! n) then addFromHistory (pick_rows s ! n) s else s)"
| "coll_step (CoMove n up) s =
     (if n < length (co_items s) \<and> n \<noteq> (if up then 0 else length (co_items s) - 1)
      then s\<lparr>co_items := moveItem n up (co_items s)\<rparr> else s)"
| "coll_step (CoDrop n) s = (if n < length (co_items s) then s\<lparr>co_items := removeItem n (co_items s)\<rparr> else s)"
| "coll_step (CoLabel n v) s =
     (if n < length (co_items s) \<and> fits MAX_TITLE (ci_label (co_items s ! n)) v
      then s\<lparr>co_items := renameItem n v (co_items s)\<rparr> else s)"
| "coll_step CoSubmit s = (if co_saving s then s else save s)"
| "coll_step (CoDelete n confirmed) s =
     (if n < length (list_rows s) \<and> co_busyId s \<noteq> Some (cs_id (list_rows s ! n)) \<and> confirmed
      then remove (cs_id (list_rows s ! n)) s else s)"
| "coll_step (CoLink n) s = (if n < length (list_rows s) then copyLink (cs_id (list_rows s ! n)) s else s)"
| "coll_step (CoAnswer i a) s = coll_answer i a s"

text \<open>The page is mounted with no key; its effect loads, then that of the hook brings the stored key, and the page loads again.\<close>

definition coll_start :: "string \<Rightarrow> collections_page" where
  "coll_start k =
     new_key (coll_loads
       \<lparr>co_stored = k, co_key = [], co_list = None, co_listLoading = False, co_listErr = None, co_editingId = None,
        co_title = [], co_note = [], co_items = [], co_saving = False, co_saveErr = None, co_copiedId = None, co_busyId = None,
        co_history = None, co_historyErr = None, co_toasts = [], co_tasks = [], co_sent = []\<rparr>)"

definition coll_run :: "string \<Rightarrow> coll_op list \<Rightarrow> collections_page" where
  "coll_run k ops = fold coll_step ops (coll_start k)"

section \<open>What it shows\<close>

definition summary_view :: "rat \<Rightarrow> collections_page \<Rightarrow> CollectionSummary \<Rightarrow> node list" where
  "summary_view now s c =
     [Text (cs_title c),
      Text (num_to_string (cs_item_count c) @ '' items / '' @ collection_ago now (cs_updated_at c) @ '' / /c/'' @ cs_id c),
      Button (if co_copiedId s = Some (cs_id c) then ''copied'' else ''copy public link'') False, Button ''open public view'' False,
      Button ''edit'' False, Button ''delete'' (co_busyId s = Some (cs_id c))]"

definition list_view :: "rat \<Rightarrow> collections_page \<Rightarrow> node list" where
  "list_view now s =
     Text (case co_list s of Some l \<Rightarrow> nat_digits (length l) | None \<Rightarrow> ''-'')
     # (if co_listLoading s \<and> co_list s = None then [Skeleton 3]
        else if error_on (co_listErr s) then [Text (the (co_listErr s))]
        else if nullish (co_list s) [] = [] then [Text ''no collections yet. build one on the right.'']
        else concat (map (summary_view now s) (list_rows s)))"

definition item_view :: "nat \<Rightarrow> nat \<Rightarrow> CollectionItem \<Rightarrow> node list" where
  "item_view count n i =
     [Text (pad2 (int (Suc n))), TextField [] (ci_label i), Text (nat_digits (length (ci_results i)) @ '' cand''),
      Button ''move up'' (n = 0), Button ''move down'' (n = count - 1), Button ''remove'' False]"

definition editor_view :: "collections_page \<Rightarrow> node list" where
  "editor_view s =
     (let edits = (co_editingId s \<noteq> None); items = co_items s in
      Text (case co_editingId s of Some i \<Rightarrow> ''editing / '' @ i | None \<Rightarrow> ''new collection'')
      # (if edits then [Button ''cancel'' False] else [])
      @ [TextField ''my top humming guesses'' (co_title s), Text (nat_digits (length (co_title s)) @ ''/'' @ nat_digits MAX_TITLE),
         TextField ''a sentence about what this collection demonstrates'' (co_note s),
         Text (nat_digits (length (co_note s)) @ ''/'' @ nat_digits MAX_NOTE), Text (''items / '' @ nat_digits (length items))]
      @ (if MAX_ITEMS \<le> length items then [Text ''max reached''] else [])
      @ (if items = [] then [Text ''pick rows from your history below.'']
         else concat (map2 (item_view (length items)) [0..<length items] items))
      @ (if error_on (co_saveErr s) then [Text (the (co_saveErr s))] else [])
      @ (if edits then [Button ''reset'' False] else [])
      @ [Button (if co_saving s then ''saving...'' else if edits then ''save changes'' else ''create collection'') (co_saving s)])"

definition pick_view :: "rat \<Rightarrow> collections_page \<Rightarrow> PickItem \<Rightarrow> node list" where
  "pick_view now s h =
     (let top_title = (case pi_results h of [] \<Rightarrow> [] | m # _ \<Rightarrow> cm_title m);
          top_artist = (case pi_results h of [] \<Rightarrow> [] | m # _ \<Rightarrow> nullish (cm_artist m) []) in
      [Text (or_str (nullish (pi_name h) []) (or_str top_title (or_str (nullish (pi_filename h) []) ''untitled''))
         @ (if top_artist = [] then [] else '' / '' @ top_artist)),
       Text (num_to_string (pi_count h) @ '' cand / '' @ num_to_string (pi_elapsed_ms h) @ '' ms / '' @ collection_ago now (pi_created_at h)
         @ (if pi_starred h then '' / starred'' else [])),
       Button (if pi_query_id h \<in> set (usedHistoryIds (co_items s)) then ''added'' else ''add'') (add_disabled s h)])"

definition picks_view :: "rat \<Rightarrow> collections_page \<Rightarrow> node list" where
  "picks_view now s =
     (if error_on (co_historyErr s) then [Text (the (co_historyErr s))]
      else case co_history s of
        None \<Rightarrow> [Skeleton 4]
      | Some [] \<Rightarrow> [Text ''no cloud history yet. record a hum on the home page first.'']
      | Some hs \<Rightarrow> concat (map (pick_view now s) (pick_rows s)))"

definition collections_view :: "rat \<Rightarrow> collections_page \<Rightarrow> node list" where
  "collections_view now s =
     [Text ''grouped result sets'', Button ''refresh'' False]
     @ (if co_key s = [] then [Text ''add your api key on the settings page to start curating collections.''] else [])
     @ list_view now s @ editor_view s @ Button ''reload'' False # picks_view now s"

end
