(* ===== verification/CollectionsLaws.thy ===== *)
theory CollectionsLaws
  imports CollectionsPage Arrays
begin

text \<open>
  What holds of the page of the collections: what it sends, that one save at a time is under way and that the page
  comes to rest, the bounds of the items in the editor and of their repetitions, and what the moves do to their order.
\<close>

lemmas coll_defs =
  coll_send_def fetchList_def list_settle_def after_list_def fetchHistory_def picks_settle_def resetEditor_def loadForEdit_def
  detail_settle_def addFromHistory_def save_def save_settle_def remove_def remove_settle_def copyLink_def copied_def copy_fades_def
  coll_say_def coll_loads_def new_key_def

lemma coll_answer_cases:
  "coll_answer i a s =
     (if i < length (co_tasks s) then coll_resume (co_tasks s ! i) a (s\<lparr>co_tasks := drop_nth i (co_tasks s)\<rparr>) else s)"
  by (simp add: coll_answer_def)

section \<open>Coming to rest\<close>

datatype coll_flag_kind = FSave | FBusy | FList

fun concerns :: "coll_flag_kind \<Rightarrow> coll_task \<Rightarrow> bool" where
  "concerns FSave (CoSave e) = True"
| "concerns FSave (CoList w) = (w = AfterSave)"
| "concerns FBusy (CoRemove i e) = True"
| "concerns FBusy (CoList w) = (w = AfterRemove)"
| "concerns FList (CoList w) = True"
| "concerns _ _ = False"

definition coll_kind :: "coll_flag_kind \<Rightarrow> coll_task \<Rightarrow> unit option" where
  "coll_kind f t = (if concerns f t then Some () else None)"

fun coll_flag :: "coll_flag_kind \<Rightarrow> collections_page \<Rightarrow> bool" where
  "coll_flag FSave s \<longleftrightarrow> co_saving s"
| "coll_flag FBusy s \<longleftrightarrow> co_busyId s \<noteq> None"
| "coll_flag FList s \<longleftrightarrow> co_listLoading s"

definition coll_backed :: "bool \<Rightarrow> nat \<Rightarrow> bool \<Rightarrow> nat \<Rightarrow> bool" where
  "coll_backed f n f' n' \<longleftrightarrow> (f' \<longrightarrow> n' \<noteq> 0 \<or> f \<and> n' = n)"

lemma coll_flag_tasks [simp]: "coll_flag f (s\<lparr>co_tasks := ts\<rparr>) = coll_flag f s"
  by (cases f) simp_all

lemma coll_resume_backed:
  "coll_backed (coll_flag f s) (under_way (coll_kind f) () (co_tasks s) + (if coll_kind f t = Some () then 1 else 0))
     (coll_flag f (coll_resume t a s)) (under_way (coll_kind f) () (co_tasks (coll_resume t a s)))"
  by (cases t; cases a; cases f)
    (auto simp: coll_resume_def coll_defs coll_backed_def coll_kind_def Let_def split: coll_after.splits if_splits)

lemma coll_step_backed:
  "coll_backed (coll_flag f s) (under_way (coll_kind f) () (co_tasks s)) (coll_flag f (coll_step op s))
     (under_way (coll_kind f) () (co_tasks (coll_step op s)))"
proof (cases op)
  case (CoAnswer i a)
  show ?thesis
  proof (cases "i < length (co_tasks s)")
    case True
    then show ?thesis
      using CoAnswer coll_resume_backed [of f "s\<lparr>co_tasks := drop_nth i (co_tasks s)\<rparr>" "co_tasks s ! i" a]
      by (simp add: coll_answer_cases under_way_drop [OF True, of "coll_kind f"])
  qed (use CoAnswer in \<open>simp add: coll_answer_cases coll_backed_def\<close>)
qed (cases f; simp add: coll_backed_def coll_defs coll_kind_def Let_def split: option.split)+

interpretation coll_flags: backed coll_step "coll_start k" co_tasks "coll_kind f" "\<lambda>_. coll_flag f" "\<lambda>_. True" "\<lambda>_. True"
proof unfold_locales
  fix s op u
  show "coll_flag f (coll_step op s) \<Longrightarrow> under_way (coll_kind f) u (co_tasks (coll_step op s)) \<noteq> 0 \<or>
      coll_flag f s \<and> under_way (coll_kind f) u (co_tasks (coll_step op s)) = under_way (coll_kind f) u (co_tasks s)"
    using coll_step_backed [of f s op] by (simp add: coll_backed_def)
  show "coll_flag f (coll_start k) \<Longrightarrow> under_way (coll_kind f) u (co_tasks (coll_start k)) \<noteq> 0"
    by (cases f; cases "k = []") (simp_all add: coll_start_def coll_defs coll_kind_def)
qed simp_all

lemma coll_resume_moves:
  "flight_move (co_saving s) (under_way (coll_kind FSave) u (co_tasks s) + (if coll_kind FSave t = Some u then 1 else 0))
     (co_saving (coll_resume t a s)) (under_way (coll_kind FSave) u (co_tasks (coll_resume t a s)))"
  by (cases t; cases a)
    (auto simp: coll_resume_def coll_defs flight_move_def coll_kind_def Let_def split: coll_after.split)

interpretation coll_saves: flights coll_step "coll_start k" co_tasks "coll_kind FSave" "\<lambda>_. co_saving" "\<lambda>_. True" "\<lambda>_. True"
proof unfold_locales
  fix s op u
  show "flight_move (co_saving s) (under_way (coll_kind FSave) u (co_tasks s))
      (co_saving (coll_step op s)) (under_way (coll_kind FSave) u (co_tasks (coll_step op s)))"
  proof (cases op)
    case (CoAnswer i a)
    show ?thesis
    proof (cases "i < length (co_tasks s)")
      case True
      then show ?thesis
        using CoAnswer coll_resume_moves [of "s\<lparr>co_tasks := drop_nth i (co_tasks s)\<rparr>" u "co_tasks s ! i" a]
        by (simp add: coll_answer_cases under_way_drop [OF True, of "coll_kind FSave"])
    qed (use CoAnswer in \<open>simp add: coll_answer_cases flight_move_def\<close>)
  qed (simp_all add: flight_move_def coll_defs coll_kind_def Let_def split: option.split)
  show "under_way (coll_kind FSave) u (co_tasks (coll_start k)) = 0 \<and> \<not> co_saving (coll_start k)"
    by (simp add: coll_start_def coll_defs coll_kind_def)
qed simp_all

fun coll_weight :: "coll_task \<Rightarrow> nat" where
  "coll_weight (CoSave e) = 2"
| "coll_weight (CoRemove i e) = 2"
| "coll_weight (CoCopy i) = 2"
| "coll_weight _ = 1"

interpretation coll_drain: draining "coll_answer 0" co_tasks coll_weight
proof unfold_locales
  show "0 < coll_weight t" for t by (cases t) simp_all
  fix s :: collections_page and a
  assume "co_tasks s \<noteq> []"
  then obtain t ts where "co_tasks s = t # ts" by (cases "co_tasks s") auto
  then show "workload coll_weight (co_tasks (coll_answer 0 a s)) < workload coll_weight (co_tasks s)"
    by (cases t; cases a) (simp_all add: coll_answer_def drop_nth_def coll_resume_def coll_defs Let_def split: coll_after.split)
qed (simp add: coll_answer_def)

lemma coll_answers: "fold (coll_answer 0) as (coll_run k ops) = coll_run k (ops @ map (CoAnswer 0) as)"
proof -
  have "fold (coll_answer 0) as s = fold coll_step (map (CoAnswer 0) as) s" for s
    by (induction as arbitrary: s) simp_all
  then show ?thesis by (simp add: coll_run_def)
qed

text \<open>
  At most one save of a collection is under way, with the loading of the list that ends it, exactly while the page says that it
  is saving. Once what is under way is answered, whatever the answers, nothing is left and no flag is up.
\<close>

theorem collections_settle:
  "under_way (coll_kind FSave) () (co_tasks (coll_run k ops)) = (if co_saving (coll_run k ops) then 1 else 0) \<and>
   (workload coll_weight (co_tasks (coll_run k ops)) \<le> length as \<longrightarrow>
     (let t = fold (coll_answer 0) as (coll_run k ops) in
        co_tasks t = [] \<and> \<not> co_saving t \<and> co_busyId t = None \<and> \<not> co_listLoading t))"
proof (intro conjI impI)
  have all: "list_all (\<lambda>_. True) ops" for ops :: "coll_op list" by (simp add: list_all_iff)
  show "under_way (coll_kind FSave) () (co_tasks (coll_run k ops)) = (if co_saving (coll_run k ops) then 1 else 0)"
    unfolding coll_run_def by (rule coll_saves.one_flight [OF all])
  assume "workload coll_weight (co_tasks (coll_run k ops)) \<le> length as"
  then have "co_tasks (fold (coll_answer 0) as (coll_run k ops)) = []" by (rule coll_drain.drained)
  then have rest: "co_tasks (coll_run k (ops @ map (CoAnswer 0) as)) = []" by (simp add: coll_answers)
  then have "\<not> coll_flag f (coll_run k (ops @ map (CoAnswer 0) as))" for f
    using coll_flags.at_rest [OF all] unfolding coll_run_def by blast
  from this [of FSave] this [of FBusy] this [of FList] show "let t = fold (coll_answer 0) as (coll_run k ops) in
      co_tasks t = [] \<and> \<not> co_saving t \<and> co_busyId t = None \<and> \<not> co_listLoading t"
    using rest by (simp add: coll_answers)
qed

section \<open>What is sent\<close>

definition sends_coll :: "collections_page \<Rightarrow> coll_op \<Rightarrow> request \<Rightarrow> bool" where
  "sends_coll s op r \<longleftrightarrow>
     req_method r = ''GET'' \<or>
     op = CoSubmit \<and> \<not> co_saving s \<and> save_error s = None \<and>
       req_payload r = Some (collection_body (co_title s) (co_note s) (co_items s)) \<and>
       (if editing_on (co_editingId s) then req_method r = ''PATCH'' \<and> req_path r = coll_path (the (co_editingId s))
        else req_method r = ''POST'' \<and> req_path r = ''/api/collections'') \<or>
     req_method r = ''DELETE'' \<and>
       (\<exists>n. op = CoDelete n True \<and> n < length (list_rows s) \<and> req_path r = coll_path (cs_id (list_rows s ! n)))"

lemma coll_resume_sent: "\<exists>rs. co_sent (coll_resume t a s) = co_sent s @ rs \<and> (\<forall>r\<in>set rs. req_method r = ''GET'')"
  by (cases t; cases a) (simp_all add: coll_resume_def coll_defs Let_def split: coll_after.split)

lemma coll_sends: "\<exists>rs. co_sent (coll_step op s) = co_sent s @ rs \<and> (\<forall>r\<in>set rs. sends_coll s op r)"
proof (cases op)
  case (CoAnswer i a)
  show ?thesis
  proof (cases "i < length (co_tasks s)")
    case True
    then show ?thesis
      using CoAnswer coll_resume_sent [of "co_tasks s ! i" a "s\<lparr>co_tasks := drop_nth i (co_tasks s)\<rparr>"]
      by (auto simp: coll_answer_cases sends_coll_def)
  qed (use CoAnswer in \<open>simp add: coll_answer_cases\<close>)
qed (auto simp: coll_defs sends_coll_def Let_def split: option.split)

interpretation coll_log: logging coll_step co_sent sends_coll
  by unfold_locales (rule coll_sends)

lemma coll_start_gets: "r \<in> set (co_sent (coll_start k)) \<Longrightarrow> req_method r = ''GET''"
  by (auto simp: coll_start_def coll_defs split: if_splits)

lemma coll_run_sends:
  "r \<in> set (co_sent (coll_run k ops)) \<Longrightarrow>
     req_method r = ''GET'' \<or> (\<exists>pre op post. ops = pre @ op # post \<and> sends_coll (coll_run k pre) op r)"
  using coll_log.run_log [of r ops "coll_start k"] coll_start_gets by (auto simp: coll_run_def)

lemma save_error_None:
  "save_error s = None \<longleftrightarrow>
     trim (co_title s) \<noteq> [] \<and> length (trim (co_title s)) \<le> MAX_TITLE \<and> length (co_note s) \<le> MAX_NOTE \<and> co_items s \<noteq> []"
  by (auto simp: save_error_def)

text \<open>
  C26. A collection is sent whole and well-formed, and only from the button of the editor: over every run, each request that
  creates or changes one was sent by a click on the button while no save was under way, carries the trimmed title of 1 to 80
  characters, the note of at most 280 and the items of that moment, at least one (their number and the length of their
  labels are not part of this claim), and goes to the collection that was being edited, or to
  none. A collection is deleted only from a listed row and with a confirmation.
\<close>

theorem collections_sent_whole:
  assumes "r \<in> set (co_sent (coll_run k ops))" and "req_method r \<noteq> ''GET''"
  shows "(\<exists>pre post. ops = pre @ CoSubmit # post \<and>
      (let s = coll_run k pre in
         \<not> co_saving s \<and> trim (co_title s) \<noteq> [] \<and> length (trim (co_title s)) \<le> 80 \<and> length (co_note s) \<le> 280 \<and> co_items s \<noteq> [] \<and>
         req_payload r = Some (collection_body (co_title s) (co_note s) (co_items s)) \<and>
         (if editing_on (co_editingId s) then req_method r = ''PATCH'' \<and> req_path r = coll_path (the (co_editingId s))
          else req_method r = ''POST'' \<and> req_path r = ''/api/collections''))) \<or>
    req_method r = ''DELETE'' \<and>
      (\<exists>pre n post. ops = pre @ CoDelete n True # post \<and>
         (let s = coll_run k pre in n < length (list_rows s) \<and> req_path r = coll_path (cs_id (list_rows s ! n))))"
proof -
  obtain pre op post where ops: "ops = pre @ op # post" and s: "sends_coll (coll_run k pre) op r"
    using coll_run_sends [OF assms(1)] assms(2) by blast
  then show ?thesis
    unfolding sends_coll_def save_error_None Let_def
    using assms(2) by (auto simp: MAX_TITLE_def MAX_NOTE_def)
qed

section \<open>The items in the editor\<close>

lemma set_usedHistoryIds [simp]: "set (usedHistoryIds items) = set (item_ids items)"
  by (simp add: usedHistoryIds_def)

text \<open>At most 50 items, and of each id at most as many as a bound allows.\<close>

definition items_ok :: "(string \<Rightarrow> nat \<Rightarrow> bool) \<Rightarrow> CollectionItem list \<Rightarrow> bool" where
  "items_ok B items \<longleftrightarrow>
     length items \<le> MAX_ITEMS \<and> (\<forall>i n. B i n \<longrightarrow> 1 \<le> n \<longrightarrow> count (mset (item_ids items)) i \<le> n)"

text \<open>A collection that the server returns has at most 50 items, which the server sees to.\<close>

fun detail_capped :: "coll_op \<Rightarrow> bool" where
  "detail_capped (CoAnswer i (CoGot d)) = (length (cd_items (docs_detail d)) \<le> 50)"
| "detail_capped _ = True"

text \<open>And it contains the match \<open>q\<close> at most \<open>n\<close> times, which nobody promises.\<close>

fun detail_count :: "string \<Rightarrow> nat \<Rightarrow> coll_op \<Rightarrow> bool" where
  "detail_count q n (CoAnswer i (CoGot d)) = (count_list (item_ids (cd_items (docs_detail d))) q \<le> n)"
| "detail_count q n _ = True"

abbreviation detail_ok :: "(string \<Rightarrow> nat \<Rightarrow> bool) \<Rightarrow> coll_op \<Rightarrow> bool" where
  "detail_ok B op \<equiv> detail_capped op \<and> (\<forall>i n. B i n \<longrightarrow> detail_count i n op)"

lemma item_ids_mset: "mset xs = mset ys \<Longrightarrow> mset (item_ids xs) = mset (item_ids ys)"
  by (simp add: item_ids_def)

lemma moveItem_mset:
  "n < length items \<Longrightarrow> mset (moveItem n up items) = mset items"
  by (auto simp: moveItem_def mset_swap)

lemma items_ok_mset: "mset xs = mset ys \<Longrightarrow> items_ok B xs \<longleftrightarrow> items_ok B ys"
  using item_ids_mset [of xs ys] mset_eq_length [of xs ys] by (simp add: items_ok_def)

lemma item_ids_append [simp]: "item_ids (xs @ ys) = item_ids xs @ item_ids ys"
  by (simp add: item_ids_def)

lemma items_ok_drop: "n < length xs \<Longrightarrow> items_ok B xs \<Longrightarrow> items_ok B (drop_nth n xs)"
proof -
  assume n: "n < length xs" and ok: "items_ok B xs"
  obtain ys zs where xs: "xs = ys @ xs ! n # zs" and d: "drop_nth n xs = ys @ zs" using drop_nth_split [OF n] by blast
  have "item_ids (ys @ xs ! n # zs) = item_ids ys @ item_ids [xs ! n] @ item_ids zs" by (simp add: item_ids_def)
  then have le: "count (mset (item_ids (ys @ zs))) i \<le> count (mset (item_ids (ys @ xs ! n # zs))) i" for i by simp
  have "length (ys @ zs) \<le> length (ys @ xs ! n # zs)" by simp
  with le show ?thesis using ok unfolding d items_ok_def xs [symmetric] by (meson le_trans)
qed

lemma items_ok_rename: "n < length xs \<Longrightarrow> items_ok B (renameItem n v xs) \<longleftrightarrow> items_ok B xs"
proof -
  assume "n < length xs"
  then have "map ci_query_id (renameItem n v xs) = map ci_query_id xs"
    by (simp add: renameItem_def map_update list_update_same_conv)
  then have "item_ids (renameItem n v xs) = item_ids xs"
    unfolding item_ids_def by (metis (no_types, lifting) list.map_comp o_def map_map map_eq_conv)
  then show ?thesis by (simp add: items_ok_def renameItem_def)
qed

lemma items_ok_Nil [simp]: "items_ok B []"
  by (simp add: items_ok_def item_ids_def)

lemma items_ok_add:
  assumes "items_ok B items" and "pi_query_id h \<notin> set (item_ids items)" and "length items < MAX_ITEMS"
  shows "items_ok B (items @ [historyToItem h])"
proof -
  have "item_ids [historyToItem h] = (if pi_query_id h = [] then [] else [pi_query_id h])" by (simp add: item_ids_def historyToItem_def)
  moreover have none: "count (mset (item_ids items)) (pi_query_id h) = 0" using assms(2) by (simp add: count_eq_zero_iff)
  ultimately show ?thesis using assms(1, 3) by (auto simp: items_ok_def none)
qed

lemma items_ok_detail:
  "detail_ok B (CoAnswer i (CoGot d)) \<Longrightarrow> items_ok B (cd_items (docs_detail d))"
  by (simp add: items_ok_def MAX_ITEMS_def count_mset)

lemma coll_resume_items:
  assumes "items_ok B (co_items s)" and "\<And>d. a = CoGot d \<Longrightarrow> items_ok B (cd_items (docs_detail d))"
  shows "items_ok B (co_items (coll_resume t a s))"
  using assms by (cases t; cases a) (simp_all add: coll_resume_def coll_defs Let_def split: coll_after.split)

lemma coll_step_items: "items_ok B (co_items s) \<Longrightarrow> detail_ok B op \<Longrightarrow> items_ok B (co_items (coll_step op s))"
proof (cases op)
  case (CoAnswer i a)
  assume i: "items_ok B (co_items s)" "detail_ok B op"
  then have "items_ok B (cd_items (docs_detail d))" if "a = CoGot d" for d
    using that CoAnswer items_ok_detail [where B = B and i = i and d = d] by simp
  with i(1) show ?thesis
    using CoAnswer coll_resume_items [of B "s\<lparr>co_tasks := drop_nth i (co_tasks s)\<rparr>" a "co_tasks s ! i"]
    by (simp add: coll_answer_cases)
next
  case (CoAdd n)
  assume "items_ok B (co_items s)" "detail_ok B op"
  then show ?thesis using CoAdd by (auto simp: add_disabled_def addFromHistory_def items_ok_add)
next
  case (CoMove n up)
  assume "items_ok B (co_items s)" "detail_ok B op"
  then show ?thesis using CoMove by (simp add: items_ok_mset [OF moveItem_mset])
qed (simp_all add: coll_defs removeItem_def items_ok_drop items_ok_rename Let_def split: option.split)

lemma coll_fold_items:
  "list_all (detail_ok B) ops \<Longrightarrow> items_ok B (co_items s) \<Longrightarrow> items_ok B (co_items (fold coll_step ops s))"
proof (induction ops arbitrary: s)
  case (Cons op ops)
  then have "items_ok B (co_items (coll_step op s))" by (intro coll_step_items) simp_all
  then show ?case using Cons by simp
qed simp

text \<open>
  C27. The editor never holds more than 50 items, provided that the collections the server returns do not (the server
  checks that count); and it never makes a repetition of its own: a match that no returned collection contains more than
  \<open>n\<close> times, for any \<open>n\<close> from 1 on, is never more than \<open>n\<close> times in the editor. So a match is in the editor twice only when
  a collection that came from the server, which does not check this, contains it twice.
\<close>

theorem editor_bounded:
  assumes "list_all detail_capped ops"
  shows "length (co_items (coll_run k ops)) \<le> 50 \<and>
    (\<forall>q n. 1 \<le> n \<and> list_all (detail_count q n) ops \<longrightarrow> count_list (item_ids (co_items (coll_run k ops))) q \<le> n)"
proof -
  let ?B = "\<lambda>q n. list_all (detail_count q n) ops"
  have "list_all (detail_ok ?B) ops" using assms by (auto simp: list_all_iff)
  moreover have "items_ok ?B (co_items (coll_start k))" by (simp add: coll_start_def coll_defs)
  ultimately have "items_ok ?B (co_items (coll_run k ops))" unfolding coll_run_def by (rule coll_fold_items)
  then show ?thesis by (simp add: items_ok_def MAX_ITEMS_def count_mset)
qed

section \<open>Moves\<close>

text \<open>
  Moving an item changes nothing but the order: a move up brings the item before its predecessor and leaves the others where they are,
  and the move down of the place it came to takes it back.
\<close>

theorem move_and_back:
  assumes "0 < n" and "n < length items"
  shows "mset (moveItem n True items) = mset items \<and> moveItem n True items ! (n - 1) = items ! n \<and>
     moveItem n True items ! n = items ! (n - 1) \<and>
     (\<forall>j<length items. j \<noteq> n \<and> j \<noteq> n - 1 \<longrightarrow> moveItem n True items ! j = items ! j) \<and>
     moveItem (n - 1) False (moveItem n True items) = items"
  using assms moveItem_mset [of n items True]
  by (auto simp: moveItem_def nth_list_update list_eq_iff_nth_eq)

section \<open>Examples\<close>

definition pick_sample :: "string \<Rightarrow> PickItem" where
  "pick_sample i =
     \<lparr>pi_id = i, pi_created_at = 0, pi_query_id = i, pi_elapsed_ms = 0, pi_count = 0, pi_results = [], pi_filename = None,
      pi_duration_sec = None, pi_name = None, pi_tags = [], pi_starred = False\<rparr>"

definition item_sample :: "string \<Rightarrow> CollectionItem" where
  "item_sample i = historyToItem (pick_sample i)"

definition coll_sample_docs :: coll_docs where
  "coll_sample_docs =
     \<lparr>docs_list = [\<lparr>cs_id = ''a'', cs_created_at = 0, cs_updated_at = 0, cs_title = ''A'', cs_note = None, cs_item_count = 1, cs_url_path = []\<rparr>],
      docs_history = [pick_sample ''p'', pick_sample ''q''],
      docs_detail = \<lparr>cd_id = ''a'', cd_created_at = 0, cd_updated_at = 0, cd_title = ''A'', cd_note = None, cd_items = [item_sample ''p'']\<rparr>\<rparr>"

lemmas coll_eval =
  coll_run_def coll_start_def coll_answer_def coll_resume_def coll_defs drop_nth_def coll_sample_docs_def pick_sample_def item_sample_def
  list_rows_def pick_rows_def error_on_def save_error_def editing_on_def coll_auth_def fits_def add_disabled_def historyToItem_def
  item_ids_def trim_def is_space_def MAX_TITLE_def MAX_NOTE_def MAX_ITEMS_def Let_def

abbreviation coll_loaded :: "coll_op list" where
  "coll_loaded \<equiv> [CoAnswer 0 (CoGot coll_sample_docs), CoAnswer 0 (CoGot coll_sample_docs)]"

text \<open>What is typed while a save is under way is gone when it succeeds.\<close>

lemma edits_lost:
  "co_title (coll_run [] (coll_loaded @ [CoTitle ''T'', CoAdd 0, CoSubmit, CoTitle ''T2'', CoAnswer 0 (CoGot coll_sample_docs)])) = []"
  by (simp add: coll_eval)

text \<open>
  A collection that is opened for editing after its deletion was sent stays in the editor, and saving it goes to the
  collection that is gone.
\<close>

lemma deleted_still_edited:
  "let s = coll_run [] (coll_loaded @ [CoDelete 0 True, CoEdit 0, CoAnswer 1 (CoGot coll_sample_docs), CoAnswer 0 (CoGot coll_sample_docs), CoSubmit])
   in (True, ''collection deleted'') \<in> set (co_toasts s) \<and> co_editingId s = Some ''a'' \<and> req_path (last (co_sent s)) = coll_path ''a'' \<and>
      req_method (last (co_sent s)) = ''PATCH''"
  by (simp add: coll_eval)

text \<open>A label is as long as the name of the file it comes from.\<close>

lemma label_of_file: "pi_name h = None \<Longrightarrow> pi_filename h = Some f \<Longrightarrow> f \<noteq> [] \<Longrightarrow> ci_label (historyToItem h) = f"
  by (cases f) (simp_all add: historyToItem_def or_str_simps)

abbreviation coll_saved_sample :: "coll_op list" where
  "coll_saved_sample \<equiv> coll_loaded @ [CoTitle ''T'', CoAdd 0, CoSubmit]"

theorem collections_sent_whole_witness:
  "\<exists>r\<in>set (co_sent (coll_run [] coll_saved_sample)). req_method r = ''POST'' \<and>
     (\<exists>pre post. coll_saved_sample = pre @ CoSubmit # post \<and> co_items (coll_run [] pre) \<noteq> [])"
proof -
  let ?r = "last (co_sent (coll_run [] coll_saved_sample))"
  have r: "?r \<in> set (co_sent (coll_run [] coll_saved_sample))" "req_method ?r = ''POST''" by (simp_all add: coll_eval)
  then show ?thesis using collections_sent_whole [OF r(1)] unfolding Let_def by (intro bexI [OF _ r(1)] conjI) auto
qed

theorem editor_bounded_witness:
  "length (co_items (coll_run [] coll_saved_sample)) \<le> 50 \<and>
    count_list (item_ids (co_items (coll_run [] coll_saved_sample))) ''p'' \<le> 1"
proof -
  have capped: "list_all detail_capped coll_saved_sample" by (simp add: coll_sample_docs_def)
  have "list_all (detail_count ''p'' 1) coll_saved_sample"
    by (simp add: coll_sample_docs_def item_ids_def item_sample_def historyToItem_def pick_sample_def)
  then show ?thesis using editor_bounded [OF capped, of "[]"] by blast
qed

theorem move_and_back_witness:
  "moveItem 0 False (moveItem 1 True [item_sample ''p'', item_sample ''q'']) = [item_sample ''p'', item_sample ''q'']"
  using move_and_back [of 1 "[item_sample ''p'', item_sample ''q'']"] by simp

theorem collections_settle_witness:
  "let t = fold (coll_answer 0) [CoBroke ''offline'', CoBroke ''offline''] (coll_run [] []) in co_tasks t = [] \<and> \<not> co_saving t"
proof -
  have "workload coll_weight (co_tasks (coll_run [] [])) \<le> length [CoBroke ''offline'', CoBroke ''offline'']"
    by (simp add: coll_run_def coll_start_def coll_defs)
  then show ?thesis using collections_settle [of "[]" "[]" "[CoBroke ''offline'', CoBroke ''offline'']"] unfolding Let_def by blast
qed

end
