(* ===== verification/LegalHolds.thy ===== *)
theory LegalHolds
  imports Requests OEmbed
begin

text \<open>
  \<open>web/app/settings/legal-holds/page.tsx\<close>: the legal holds of a workspace. A hold is placed with a reason and released with
  a code; both are followed by a load, which they await. The page rests on the contracts of \<open>Requests\<close>, and its laws stand
  after it.
\<close>

section \<open>Data\<close>

record HoldOut =
  ho_id :: string
  ho_tenant_id :: string
  ho_reason :: string
  ho_created_at :: rat
  ho_created_by :: string
  ho_released_at :: "rat option"
  ho_released_by :: "string option"
  ho_active :: bool

record HoldListOut =
  hl_tenant_id :: string
  hl_on_hold :: bool
  hl_active_hold_id :: "string option"
  hl_holds :: "HoldOut list"

section \<open>State\<close>

text \<open>A load, with what awaits it; the placing and the release of a hold.\<close>

datatype hold_task = HoLoad bool | HoPlace | HoRelease string

record holds_page =
  ho_stored :: string
  ho_key :: string
  ho_state :: "HoldListOut page_state"
  ho_draft :: string
  ho_mfa :: string
  ho_busy :: bool
  ho_actionError :: "string option"
  ho_flash :: "string option"
  ho_tasks :: "hold_task list"
  ho_sent :: "request list"

text \<open>The call (or the reading of its body) threw; a refusal with its status, text and status text; a document.\<close>

datatype hold_reply = HoBroke string | HoDenied nat string string | HoGot HoldListOut

definition hold_auth :: "string \<Rightarrow> holds_page \<Rightarrow> (string \<times> string) list" where
  "hold_auth mfa s =
     (if ho_stored s \<noteq> [] then [(''X-API-Key'', ho_stored s)] else []) @ (if mfa \<noteq> [] then [(''X-MFA-Code'', mfa)] else [])"

definition hold_send :: "hold_task \<Rightarrow> string \<Rightarrow> string \<Rightarrow> (string \<times> string) list \<Rightarrow> json option \<Rightarrow> holds_page \<Rightarrow> holds_page" where
  "hold_send t m path headers body s =
     s\<lparr>ho_tasks := ho_tasks s @ [t],
       ho_sent := ho_sent s @ [\<lparr>req_method = m, req_path = path, req_headers = headers, req_payload = body\<rparr>]\<rparr>"

section \<open>Operations\<close>

definition hold_refresh :: "bool \<Rightarrow> holds_page \<Rightarrow> holds_page" where
  "hold_refresh awaited s = hold_send (HoLoad awaited) ''GET'' ''/api/legal-holds'' (hold_auth [] s) None (s\<lparr>ho_state := Loading\<rparr>)"

definition hold_loaded :: "bool \<Rightarrow> hold_reply \<Rightarrow> holds_page \<Rightarrow> holds_page" where
  "hold_loaded awaited a s =
     (let t = s\<lparr>ho_state := (case a of
          HoBroke m \<Rightarrow> Failed 0 m
        | HoDenied st body statusText \<Rightarrow> Failed st (or_str body statusText)
        | HoGot d \<Rightarrow> Ready d)\<rparr>
      in if awaited then t\<lparr>ho_busy := False\<rparr> else t)"

definition placeHold :: "holds_page \<Rightarrow> holds_page" where
  "placeHold s =
     (let t = s\<lparr>ho_actionError := None, ho_flash := None\<rparr> in
      if trim (ho_draft s) = [] then t\<lparr>ho_actionError := Some ''Reason is required''\<rparr>
      else hold_send HoPlace ''POST'' ''/api/legal-holds'' (hold_auth (ho_mfa s) s @ [(''Content-Type'', ''application/json'')])
             (Some (JObj [(''reason'', JStr (trim (ho_draft s)))])) (t\<lparr>ho_busy := True\<rparr>))"

definition release_path :: "string \<Rightarrow> string" where
  "release_path i = ''/api/legal-holds/'' @ encodeURIComponent i @ ''/release''"

definition releaseHold :: "string \<Rightarrow> holds_page \<Rightarrow> holds_page" where
  "releaseHold i s =
     hold_send (HoRelease i) ''POST'' (release_path i) (hold_auth (ho_mfa s) s) None
       (s\<lparr>ho_actionError := None, ho_flash := None, ho_busy := True\<rparr>)"

text \<open>A call that throws is not caught; a success empties the fields it used, reports and loads.\<close>

definition hold_acted :: "(holds_page \<Rightarrow> holds_page) \<Rightarrow> hold_reply \<Rightarrow> holds_page \<Rightarrow> holds_page" where
  "hold_acted done_with a s =
     (case a of
        HoBroke m \<Rightarrow> s\<lparr>ho_busy := False\<rparr>
      | HoDenied st body statusText \<Rightarrow>
          s\<lparr>ho_actionError := Some (nat_digits st @ '': '' @ or_str body statusText), ho_busy := False\<rparr>
      | HoGot d \<Rightarrow> hold_refresh True (done_with s))"

definition hold_placed :: "holds_page \<Rightarrow> holds_page" where
  "hold_placed s = s\<lparr>ho_draft := [], ho_mfa := [], ho_flash := Some ''Legal hold placed. Destructive operations are frozen.''\<rparr>"

definition hold_released :: "holds_page \<Rightarrow> holds_page" where
  "hold_released s = s\<lparr>ho_mfa := [], ho_flash := Some ''Hold released. Destructive operations are restored.''\<rparr>"

definition hold_resume :: "hold_task \<Rightarrow> hold_reply \<Rightarrow> holds_page \<Rightarrow> holds_page" where
  "hold_resume t a s =
     (case t of
        HoLoad awaited \<Rightarrow> hold_loaded awaited a s
      | HoPlace \<Rightarrow> hold_acted hold_placed a s
      | HoRelease i \<Rightarrow> hold_acted hold_released a s)"

definition hold_answer :: "nat \<Rightarrow> hold_reply \<Rightarrow> holds_page \<Rightarrow> holds_page" where
  "hold_answer i a s =
     (if i < length (ho_tasks s) then hold_resume (ho_tasks s ! i) a (s\<lparr>ho_tasks := drop_nth i (ho_tasks s)\<rparr>) else s)"

section \<open>Steps\<close>

datatype hold_op = HoKey string | HoRetry | HoReason string | HoCode string | HoPlaceClick | HoReleaseClick nat | HoAnswer nat hold_reply

definition hold_rows :: "holds_page \<Rightarrow> HoldOut list" where
  "hold_rows s = (case ho_state s of Ready d \<Rightarrow> hl_holds d | _ \<Rightarrow> [])"

definition on_show :: "holds_page \<Rightarrow> bool" where
  "on_show s \<longleftrightarrow> (case ho_state s of Ready d \<Rightarrow> True | _ \<Rightarrow> False)"

definition place_disabled :: "holds_page \<Rightarrow> bool" where
  "place_disabled s \<longleftrightarrow> ho_busy s \<or> trim (ho_draft s) = []"

definition release_disabled :: "holds_page \<Rightarrow> bool" where
  "release_disabled s \<longleftrightarrow> ho_busy s \<or> ho_mfa s = []"

definition hold_key :: "holds_page \<Rightarrow> holds_page" where
  "hold_key s = (if ho_stored s = ho_key s then s else hold_refresh False (s\<lparr>ho_key := ho_stored s\<rparr>))"

fun hold_step :: "hold_op \<Rightarrow> holds_page \<Rightarrow> holds_page" where
  "hold_step (HoKey k) s = hold_key (s\<lparr>ho_stored := k\<rparr>)"
| "hold_step HoRetry s = (case ho_state s of Failed st m \<Rightarrow> hold_refresh False s | _ \<Rightarrow> s)"
| "hold_step (HoReason v) s = (if on_show s \<and> length v \<le> 1024 then s\<lparr>ho_draft := v\<rparr> else s)"
| "hold_step (HoCode v) s = (if on_show s then s\<lparr>ho_mfa := v\<rparr> else s)"
| "hold_step HoPlaceClick s = (if on_show s \<and> \<not> place_disabled s then placeHold s else s)"
| "hold_step (HoReleaseClick n) s =
     (if n < length (hold_rows s) \<and> ho_active (hold_rows s ! n) \<and> \<not> release_disabled s
      then releaseHold (ho_id (hold_rows s ! n)) s else s)"
| "hold_step (HoAnswer i a) s = hold_answer i a s"

text \<open>The page is mounted with no key; its effect loads, then that of the hook brings the stored key, and the page loads again.\<close>

definition holds_start :: "string \<Rightarrow> holds_page" where
  "holds_start k =
     hold_key (hold_refresh False
       \<lparr>ho_stored = k, ho_key = [], ho_state = Loading, ho_draft = [], ho_mfa = [], ho_busy = False, ho_actionError = None,
        ho_flash = None, ho_tasks = [], ho_sent = []\<rparr>)"

definition holds_run :: "string \<Rightarrow> hold_op list \<Rightarrow> holds_page" where
  "holds_run k ops = fold hold_step ops (holds_start k)"

section \<open>What it shows\<close>

text \<open>\<open>loc\<close> is \<open>toLocaleString\<close> of a date.\<close>

definition hold_time :: "(rat \<Rightarrow> string) \<Rightarrow> rat option \<Rightarrow> string option" where
  "hold_time loc t = (case t of None \<Rightarrow> None | Some v \<Rightarrow> if v = 0 then None else Some (loc (v * 1000)))"

definition time_by :: "string \<Rightarrow> string option \<Rightarrow> string option \<Rightarrow> node list" where
  "time_by label t who =
     Text label # (case t of None \<Rightarrow> [Dash] | Some v \<Rightarrow> [Text (v @ '' by '')])
     @ (if nullish who [] = [] then [Dash] else [Text (the who)])"

definition hold_row_view :: "(rat \<Rightarrow> string) \<Rightarrow> holds_page \<Rightarrow> HoldOut \<Rightarrow> node list" where
  "hold_row_view loc s h =
     [Text (ho_id h), Badge (ho_active h) (if ho_active h then ''Active'' else ''Released''), Text (ho_reason h)]
     @ time_by ''Placed '' (hold_time loc (Some (ho_created_at h))) (Some (ho_created_by h))
     @ (if hold_time loc (ho_released_at h) = None then [Text ''Released '', Dash]
        else time_by ''Released '' (hold_time loc (ho_released_at h)) (ho_released_by h))
     @ (if ho_active h then [Button ''Release'' (release_disabled s)] else [])"

definition holds_view :: "(rat \<Rightarrow> string) \<Rightarrow> holds_page \<Rightarrow> node list" where
  "holds_view loc s =
     (case ho_state s of
        Loading \<Rightarrow> [Text ''Loading legal hold status...'']
      | Failed st m \<Rightarrow>
          [Text ''Could not load holds'', Text ((if st \<noteq> 0 then nat_digits st @ '': '' else []) @ m), Button ''Retry'' False]
      | Ready d \<Rightarrow>
          [Text (if hl_on_hold d then ''Workspace is under legal hold'' else ''No active hold'')]
          @ (if hl_on_hold d \<and> nullish (hl_active_hold_id d) [] \<noteq> [] then [Text (the (hl_active_hold_id d))] else [])
          @ [TextField ''e.g. Litigation Smith v. Acme, case 2026-CV-0419'' (ho_draft s), TextField ''123456'' (ho_mfa s),
             Button (if ho_busy s then ''Working...'' else ''Place hold'') (place_disabled s)]
          @ error_nodes (ho_actionError s) @ error_nodes (ho_flash s)
          @ Text ''Timeline''
          # (if hl_holds d = [] then [Text ''No holds have ever been placed on this workspace.'']
             else concat (map (hold_row_view loc s) (hl_holds d))))"

section \<open>One action at a time\<close>

lemmas hold_defs =
  hold_send_def hold_refresh_def hold_loaded_def placeHold_def releaseHold_def hold_acted_def hold_placed_def hold_released_def hold_key_def

fun acts :: "hold_task \<Rightarrow> unit option" where
  "acts (HoLoad awaited) = (if awaited then Some () else None)"
| "acts _ = Some ()"

lemma hold_answer_cases:
  "hold_answer i a s =
     (if i < length (ho_tasks s) then hold_resume (ho_tasks s ! i) a (s\<lparr>ho_tasks := drop_nth i (ho_tasks s)\<rparr>) else s)"
  by (simp add: hold_answer_def)

lemma hold_resume_moves:
  "flight_move (ho_busy s) (under_way acts u (ho_tasks s) + (if acts t = Some u then 1 else 0))
     (ho_busy (hold_resume t a s)) (under_way acts u (ho_tasks (hold_resume t a s)))"
  by (cases t; cases a) (auto simp: hold_resume_def hold_defs flight_move_def Let_def)

interpretation hold_flights: flights hold_step "holds_start k" ho_tasks acts "\<lambda>_. ho_busy" "\<lambda>_. True" "\<lambda>_. True"
proof unfold_locales
  fix s op u
  show "flight_move (ho_busy s) (under_way acts u (ho_tasks s)) (ho_busy (hold_step op s)) (under_way acts u (ho_tasks (hold_step op s)))"
  proof (cases op)
    case (HoAnswer i a)
    show ?thesis
    proof (cases "i < length (ho_tasks s)")
      case True
      then show ?thesis
        using HoAnswer hold_resume_moves [of "s\<lparr>ho_tasks := drop_nth i (ho_tasks s)\<rparr>" u "ho_tasks s ! i" a]
        by (simp add: hold_answer_cases under_way_drop [OF True, of acts])
    qed (use HoAnswer in \<open>simp add: hold_answer_cases flight_move_def\<close>)
  qed (auto simp: flight_move_def hold_defs place_disabled_def release_disabled_def Let_def split: page_state.split)
  show "under_way acts u (ho_tasks (holds_start k)) = 0 \<and> \<not> ho_busy (holds_start k)"
    by (simp add: holds_start_def hold_defs)
qed simp_all

fun hold_weight :: "hold_task \<Rightarrow> nat" where
  "hold_weight (HoLoad awaited) = 1"
| "hold_weight _ = 2"

interpretation hold_drain: draining "hold_answer 0" ho_tasks hold_weight
proof unfold_locales
  show "0 < hold_weight t" for t by (cases t) simp_all
  fix s :: holds_page and a
  assume "ho_tasks s \<noteq> []"
  then obtain t ts where "ho_tasks s = t # ts" by (cases "ho_tasks s") auto
  then show "workload hold_weight (ho_tasks (hold_answer 0 a s)) < workload hold_weight (ho_tasks s)"
    by (cases t; cases a) (simp_all add: hold_answer_def drop_nth_def hold_resume_def hold_defs Let_def)
qed (simp add: hold_answer_def)

lemma hold_answers: "fold (hold_answer 0) as (holds_run k ops) = holds_run k (ops @ map (HoAnswer 0) as)"
proof -
  have "fold (hold_answer 0) as s = fold hold_step (map (HoAnswer 0) as) s" for s
    by (induction as arbitrary: s) simp_all
  then show ?thesis by (simp add: holds_run_def)
qed

text \<open>
  Of placing and releasing at most one is under way, with the load that ends it, exactly while the page says that it is working; once what
  is under way is answered, nothing is left and the buttons are free.
\<close>

theorem holds_settle:
  "under_way acts () (ho_tasks (holds_run k ops)) = (if ho_busy (holds_run k ops) then 1 else 0) \<and>
   (workload hold_weight (ho_tasks (holds_run k ops)) \<le> length as \<longrightarrow>
     (let t = fold (hold_answer 0) as (holds_run k ops) in ho_tasks t = [] \<and> \<not> ho_busy t))"
proof (intro conjI impI)
  have all: "list_all (\<lambda>_. True) ops" for ops :: "hold_op list" by (simp add: list_all_iff)
  show "under_way acts () (ho_tasks (holds_run k ops)) = (if ho_busy (holds_run k ops) then 1 else 0)"
    unfolding holds_run_def by (rule hold_flights.one_flight [OF all])
  assume "workload hold_weight (ho_tasks (holds_run k ops)) \<le> length as"
  then have "ho_tasks (fold (hold_answer 0) as (holds_run k ops)) = []" by (rule hold_drain.drained)
  then have rest: "ho_tasks (holds_run k (ops @ map (HoAnswer 0) as)) = []" by (simp add: hold_answers)
  then have "\<not> ho_busy (holds_run k (ops @ map (HoAnswer 0) as))"
    using hold_flights.at_rest [OF all] unfolding holds_run_def by blast
  then show "let t = fold (hold_answer 0) as (holds_run k ops) in ho_tasks t = [] \<and> \<not> ho_busy t"
    using rest by (simp add: hold_answers)
qed

section \<open>What is sent\<close>

definition sends_hold :: "holds_page \<Rightarrow> hold_op \<Rightarrow> request \<Rightarrow> bool" where
  "sends_hold s op r \<longleftrightarrow>
     req_method r = ''GET'' \<or>
     req_method r = ''POST'' \<and> on_show s \<and> \<not> ho_busy s \<and>
       (op = HoPlaceClick \<and> req_path r = ''/api/legal-holds'' \<and> trim (ho_draft s) \<noteq> [] \<and>
          req_payload r = Some (JObj [(''reason'', JStr (trim (ho_draft s)))]) \<or>
        (\<exists>n. op = HoReleaseClick n \<and> n < length (hold_rows s) \<and> ho_active (hold_rows s ! n) \<and> ho_mfa s \<noteq> [] \<and>
           req_path r = release_path (ho_id (hold_rows s ! n)) \<and> (''X-MFA-Code'', ho_mfa s) \<in> set (req_headers r)))"

lemma hold_resume_sent: "\<exists>rs. ho_sent (hold_resume t a s) = ho_sent s @ rs \<and> (\<forall>r\<in>set rs. req_method r = ''GET'')"
  by (cases t; cases a) (simp_all add: hold_resume_def hold_defs Let_def)

lemma hold_sends: "\<exists>rs. ho_sent (hold_step op s) = ho_sent s @ rs \<and> (\<forall>r\<in>set rs. sends_hold s op r)"
proof (cases op)
  case (HoAnswer i a)
  show ?thesis
  proof (cases "i < length (ho_tasks s)")
    case True
    then show ?thesis
      using HoAnswer hold_resume_sent [of "ho_tasks s ! i" a "s\<lparr>ho_tasks := drop_nth i (ho_tasks s)\<rparr>"]
      by (auto simp: hold_answer_cases sends_hold_def)
  qed (use HoAnswer in \<open>simp add: hold_answer_cases\<close>)
next
  case (HoReleaseClick n)
  then show ?thesis
    by (auto simp: hold_defs sends_hold_def release_disabled_def hold_auth_def hold_rows_def on_show_def split: page_state.splits)
qed (auto simp: hold_defs sends_hold_def place_disabled_def Let_def split: page_state.split)

interpretation hold_log: logging hold_step ho_sent sends_hold
  by unfold_locales (rule hold_sends)

lemma hold_start_gets: "r \<in> set (ho_sent (holds_start k)) \<Longrightarrow> req_method r = ''GET''"
  by (auto simp: holds_start_def hold_defs split: if_splits)

lemma draft_bounded: "length (ho_draft (holds_run k ops)) \<le> 1024"
proof -
  have resume: "length (ho_draft s) \<le> 1024 \<Longrightarrow> length (ho_draft (hold_resume t a s)) \<le> 1024" for t a s
    by (cases t; cases a) (simp_all add: hold_resume_def hold_defs Let_def)
  have "length (ho_draft s) \<le> 1024 \<Longrightarrow> length (ho_draft (hold_step op s)) \<le> 1024" for op s
    by (cases op) (auto simp: hold_defs hold_answer_cases resume Let_def split: page_state.split)
  then have "length (ho_draft s) \<le> 1024 \<Longrightarrow> length (ho_draft (fold hold_step ops s)) \<le> 1024" for s
    by (induction ops arbitrary: s) simp_all
  then show ?thesis by (simp add: holds_run_def holds_start_def hold_defs)
qed

text \<open>
  C28. A legal hold is placed only with a reason and released only where it is active. Over every run of the page, each request that
  changes something was sent by a click on a loaded page while no other was under way: a placing carries the trimmed reason of 1 to 1024
  characters, and a release goes to the active hold of the row that was clicked and carries the code of that moment.
\<close>

theorem hold_requests_meant:
  assumes "r \<in> set (ho_sent (holds_run k ops))" and "req_method r \<noteq> ''GET''"
  shows "\<exists>pre op post. ops = pre @ op # post \<and>
    (let s = holds_run k pre in
       on_show s \<and> \<not> ho_busy s \<and>
       (op = HoPlaceClick \<and> req_path r = ''/api/legal-holds'' \<and>
          (\<exists>v. v = trim (ho_draft s) \<and> v \<noteq> [] \<and> length v \<le> 1024 \<and> req_payload r = Some (JObj [(''reason'', JStr v)])) \<or>
        (\<exists>n. op = HoReleaseClick n \<and> n < length (hold_rows s) \<and> ho_active (hold_rows s ! n) \<and> ho_mfa s \<noteq> [] \<and>
           req_path r = release_path (ho_id (hold_rows s ! n)) \<and> (''X-MFA-Code'', ho_mfa s) \<in> set (req_headers r))))"
proof -
  have "\<exists>pre op post. ops = pre @ op # post \<and> sends_hold (holds_run k pre) op r"
    using hold_log.run_log [of r ops "holds_start k"] hold_start_gets assms by (auto simp: holds_run_def)
  then obtain pre op post where ops: "ops = pre @ op # post" and s: "sends_hold (holds_run k pre) op r" by blast
  have "length (trim (ho_draft (holds_run k pre))) \<le> 1024"
    using draft_bounded [of k pre] length_trim [of "ho_draft (holds_run k pre)"] by linarith
  then show ?thesis
    using s assms(2) unfolding sends_hold_def Let_def
    by (intro exI [of _ pre] exI [of _ op] exI [of _ post] conjI) (auto simp: ops)
qed

section \<open>Examples\<close>

definition hold_docs :: HoldListOut where
  "hold_docs =
     \<lparr>hl_tenant_id = ''t'', hl_on_hold = True, hl_active_hold_id = Some ''h'',
      hl_holds = [\<lparr>ho_id = ''h'', ho_tenant_id = ''t'', ho_reason = ''r'', ho_created_at = 0, ho_created_by = ''a'',
        ho_released_at = None, ho_released_by = None, ho_active = True\<rparr>]\<rparr>"

lemmas hold_eval =
  holds_run_def holds_start_def hold_answer_def hold_resume_def hold_defs drop_nth_def hold_docs_def hold_rows_def on_show_def
  place_disabled_def release_disabled_def hold_auth_def Let_def

abbreviation release_sample :: "hold_op list" where
  "release_sample \<equiv> [HoAnswer 0 (HoGot hold_docs), HoCode ''123456'', HoReleaseClick 0]"

text \<open>A release whose call throws leaves no trace but the free button.\<close>

lemma broken_release_silent:
  "let s = holds_run [] (release_sample @ [HoAnswer 0 (HoBroke ''offline'')]) in
     ho_actionError s = None \<and> ho_flash s = None \<and> \<not> ho_busy s \<and> ho_tasks s = []"
  by (simp add: hold_eval)

theorem hold_requests_meant_witness:
  "\<exists>pre op post. release_sample = pre @ op # post \<and> on_show (holds_run [] pre) \<and> \<not> ho_busy (holds_run [] pre)"
proof -
  let ?r = "last (ho_sent (holds_run [] release_sample))"
  have r: "?r \<in> set (ho_sent (holds_run [] release_sample))" "req_method ?r \<noteq> ''GET''" by (simp_all add: hold_eval)
  from hold_requests_meant [OF r] show ?thesis unfolding Let_def by blast
qed

theorem holds_settle_witness:
  "let t = fold (hold_answer 0) [HoBroke ''offline''] (holds_run [] []) in ho_tasks t = [] \<and> \<not> ho_busy t"
proof -
  have "workload hold_weight (ho_tasks (holds_run [] [])) \<le> length [HoBroke ''offline'']"
    by (simp add: holds_run_def holds_start_def hold_defs)
  then show ?thesis using holds_settle [of "[]" "[]" "[HoBroke ''offline'']"] by blast
qed

end
