(* ===== verification/Spec2Isabelle.thy ===== *)
theory Spec2Isabelle
  imports Main HistoryLaws Share BulkSelect ApiKey ExportLaws NotifyLaws OEmbed Stores Onboarding Privacy Prom PageLaws
    HistoryPageLaws PitchOverlay Spectrogram KeysLaws WebhookLaws AuditLaws SavedViewsLaws RuleLaws
    SessionsLaws MembersLaws SubprocessorsLaws IncidentsLaws HostPages
    SharesLaws InsightsLaws CollectionsLaws LegalHolds
begin

text \<open>
  \<^bold>\<open>The program.\<close> clawhum identifies a hummed melody. Its web client (\<open>src/web\<close>, TypeScript) keeps a history
  of matches in the browser, exports and shares it, polls the server for notifications, and offers
  pages for the policies of a workspace. This development models the libraries under \<open>web/lib\<close>, the
  oEmbed route with the middleware, the pages of the history, the API tokens, the webhooks and the audit
  log, the sessions, the members, the saved views, two drawing components, ten policy pages and six pages
  that keep lists of rules.

  \<^bold>\<open>Foundations.\<close>
  \<^item> \<open>Prelude\<close>: strings as the language treats them (trim, case, split, join), the generic lemmas and the
    collection \<open>str_simps\<close>.
  \<^item> \<open>Arrays\<close>: stable sorting, deduplication and the counting maps behind the aggregates.
  \<^item> \<open>Numbers\<close>, \<open>NumberText\<close>: numbers as NaN, infinities and exact rationals, rounding to doubles and
    singles, \<open>Number(s)\<close>, \<open>parseInt\<close>, \<open>String(n)\<close>, \<open>toFixed\<close>. A printed whole number below \<open>10 ^ 15\<close> reads back
    as itself. Printing looks for at most 17 significant digits; its fuel (400 for the exponent, 16 for
    the digits) exceeds the 324 decades and 17 digits a double has.
  \<^item> \<open>Rounding\<close>: rounding to doubles is monotone, keeps whole numbers and errs by half a unit of the last
    place; the drawing code rests on it.
  \<^item> \<open>Dates\<close>: UTC fields of a time, \<open>toISOString\<close>, range errors.
  \<^item> \<open>Browser\<close>: the storage with its quota, JSON values, events, windows that render on a server, and the
    locale \<open>persisted\<close> of a value kept under a key: what a read returns, what a write may do.

  \<^bold>\<open>Components\<close>, theory by theory:
  \<^item> \<open>ApiKey\<close> (\<open>lib/apiKey.ts\<close>, \<open>lib/api.ts\<close>, \<open>lib/activity.ts\<close>): the saved key, its hook, the patched
    \<open>fetch\<close>, the masked key; where a request goes is told by a reader of addresses after the URL Standard.
  \<^item> \<open>History\<close>, \<open>HistoryLaws\<close> (\<open>lib/history.ts\<close>): one definition per exported function; the laws bound the
    store over all runs and say what each operation does on every branch, quota errors included.
  \<^item> \<open>BulkSelect\<close>, \<open>Share\<close>, \<open>Privacy\<close>, \<open>Onboarding\<close>, \<open>Prom\<close> (\<open>lib\<close> files of the same names).
  \<^item> \<open>Export\<close>, \<open>ExportLaws\<close> (\<open>lib/export.ts\<close>): rows, CSV, JSON, names; the CSV is read back by a reader of
    RFC 4180 that the laws define.
  \<^item> \<open>Notify\<close>, \<open>NotifyLaws\<close> (\<open>lib/notifyPrefs.ts\<close>, \<open>lib/notifyEngine.ts\<close>): preferences, log and hooks; the
    engine is an inductive step relation (triggers, answers, starts, stops, and what the rest of the
    page does to the storage), and its laws are invariants by rule induction.
  \<^item> \<open>OEmbed\<close> (\<open>lib/oembed.ts\<close>, \<open>app/api/oembed/route.ts\<close>, \<open>middleware.ts\<close>): the URL parser of the platform and
    the share API are parameters; the policy of the middleware is read back by a reader of such policies.
  \<^item> \<open>Stores\<close> (\<open>lib/toast.ts\<close>, \<open>lib/transport.ts\<close>): both are instances of the locale \<open>publisher\<close>.
  \<^item> \<open>Pages\<close>, \<open>PolicyPages\<close> (\<open>app/settings/<page>/page.tsx\<close> for \<open>match-topk\<close>, \<open>match-duration\<close>,
    \<open>pat-concurrency\<close>, \<open>webhook-delivery-rate\<close>, \<open>webhook-destination-cap\<close>, \<open>pat-expiry-warning\<close>): the shared
    handlers of the pages as steps over the requests under way, the record of what differs, and one
    group of definitions per page; \<open><page>_run\<close> is the page under a sequence of events, \<open><page>_view\<close> what
    it renders. The locale \<open>policy_page\<close> asks that the saving flag disables the buttons.
  \<^item> \<open>AdminPages\<close>, \<open>AdminPolicies\<close> (\<open>app/admin/<page>/page.tsx\<close> for \<open>body-size\<close>,
    \<open>webhook-max-attempts-policy\<close>, \<open>webhook-auto-disable-policy\<close>, \<open>retention-floor\<close>): the same for the admin
    consoles, with the locale \<open>admin_console\<close>.
  \<^item> \<open>Pool\<close>, \<open>HistoryPage\<close>, \<open>HistoryPageLaws\<close> (\<open>app/history/page.tsx\<close>): the worker pool of the bulk operations
    and its refinement of the sequential loop; the page as a machine over its requests (debounced loads,
    single edits, bulk operations), its selection, paging and export menu. A pool of \<open>n\<close> jobs ends after
    exactly \<open>n\<close> answers.
  \<^item> \<open>Requests\<close>: what the larger pages share: the answers to a request, the texts of refusals, drafts that are
    split into entries, and the contracts of a page as locales. \<open>flights\<close>: a flag is raised with a request of its
    kind, never while one is under way, and lowered at its end, so that it counts them; \<open>backed\<close> is the
    weaker law that a flag has a request behind it; \<open>draining\<close>: every task has a weight that covers the
    requests it may still send (a load 1, a save that reloads 2, a test that opens a log 3), so that as
    many answers as the weights add up to leave nothing under way; \<open>logging\<close>: every request of a run was
    sent by one of its steps. \<open>Whole\<close>: whole numbers read from text.
  \<^item> \<open>KeysPage\<close>, \<open>KeysView\<close>, \<open>KeysLaws\<close> (\<open>app/settings/keys/page.tsx\<close>): the tokens; \<open>key_step\<close> takes the clicks,
    drafts and answers, \<open>keys_run\<close> is the page under a sequence of them. The laws: one request per flag, rest,
    confirmation before revocation, secrets shown once, the editors, the offered lifetimes.
  \<^item> \<open>WebhooksPage\<close>, \<open>WebhookLaws\<close> (\<open>app/webhooks/page.tsx\<close>): the rate card and the page, \<open>rate_run\<close> and \<open>hooks_run\<close>.
  \<^item> \<open>AuditPage\<close>, \<open>AuditLaws\<close> (\<open>app/settings/audit/page.tsx\<close>): a load for every render with another query; the
    laws relate its two queries and say when the page shows what its fields ask for.
  \<^item> \<open>RulePages\<close>, \<open>RuleLaws\<close> (\<open>app/settings/<page>/page.tsx\<close> for \<open>ip-allowlist\<close>, \<open>trusted-proxies\<close>,
    \<open>embed-origins\<close>, \<open>invite-domains\<close>, \<open>security-contacts\<close>, \<open>support-access\<close>): the shared handlers with a record
    of what differs, one such record per page; the laws hold for every record.
  \<^item> \<open>SessionsPage\<close>, \<open>SessionsLaws\<close>, \<open>MembersPage\<close>, \<open>MembersLaws\<close> (\<open>app/settings/sessions/page.tsx\<close>,
    \<open>app/settings/members/page.tsx\<close>): both pages as machines over their requests.
  \<^item> \<open>SubprocessorsPage\<close>, \<open>SubprocessorsLaws\<close> (\<open>app/settings/subprocessors/page.tsx\<close>): a load is answered by three
    responses together; the checks that the browser makes of a field (\<open>type="email"\<close>) are parameters.
  \<^item> \<open>IncidentsPage\<close>, \<open>IncidentsLaws\<close> (\<open>app/admin/incidents/page.tsx\<close>): the console with the state of the
    detail that React keeps mounted, and what unmounts it.
  \<^item> \<open>SharesPage\<close>, \<open>SharesLaws\<close> (\<open>app/shares/page.tsx\<close>): the list of the public links, edited and revoked in place.
  \<^item> \<open>Insights\<close>, \<open>InsightsLaws\<close> (\<open>app/insights/page.tsx\<close>): the statistics of the stored matches, in one pass, and the page.
    A time zone is a pair of functions, one for each direction.
  \<^item> \<open>CollectionsPage\<close>, \<open>CollectionsLaws\<close> (\<open>app/collections/page.tsx\<close>): the collections and their editor.
  \<^item> \<open>LegalHolds\<close> (\<open>app/settings/legal-holds/page.tsx\<close>): placing and releasing holds, one action at a time.
  \<^item> \<open>HostPages\<close> (\<open>app/settings/webhook-destinations/page.tsx\<close>, \<open>app/settings/webhook-egress/page.tsx\<close>): the two
    pages with their renders, because their effect runs after every one; the locale \<open>restless\<close> says that they go on.
  \<^item> \<open>SavedViews\<close>, \<open>SavedViewsLaws\<close> (\<open>components/SavedViews.tsx\<close>): the component on top of the history page.
  \<^item> \<open>PitchOverlay\<close>, \<open>Spectrogram\<close> (\<open>components\<close> of the same names): effects that cancel, the rows and the
    agreement of the chart; the 32-bit hash and generator, the colour ramp and the cells of the canvas.
  \<^item> \<open>PageLaws\<close>: the laws of both kinds of page; a page is drained in as many answers as
    \<open>outstanding\<close> counts, two for a save (it is followed by a load) and one for a load.

  \<^bold>\<open>Conventions.\<close> Numbers that the code computes exactly are rationals; the sign of zero is not kept. A
  \<open>Date.now()\<close>, a random id, a time zone, a locale's number format and an answer of the network are
  arguments. A document that passes a type cast is taken to have that type. A view is the list of the
  texts, fields and buttons, without style classes, icons and fixed explanations. Asynchronous
  functions are cut at their \<open>await\<close>s, and the pieces interleave freely.

  \<^bold>\<open>Not modelled.\<close> The Python services, the command line and the infrastructure; audio capture and canvas
  drawing; the remaining pages and components, which render what the libraries return or hold larger
  states of their own (the overviews of settings and administration).
\<close>

end
